(* ===== verification/Prelude.thy ===== *)
theory Prelude
  imports Complex_Main
    "HOL-Library.List_Lexorder" "HOL-Library.Char_ord" "HOL-Library.Product_Lexorder"
begin

text \<open>
  Shared vocabulary of the development: how Python values are represented, the exceptions of
  the modelled services as one datatype, the collections of rewrite rules, and the generic
  lemmas on lists and exact sums that the component theories share.

  Conventions.
  \<^item> \<open>Decimal\<close> is an exact rational. The code accepts finite Decimals only (its
    \<open>is_finite\<close> guards); the model's type has finite values only, so those guards are the
    typing of the model, and the digits kept by the Decimal context are not limited.
  \<^item> a timezone-aware \<open>datetime\<close> is its instant in microseconds since the epoch; where the
    code tests \<open>tzinfo is None\<close> the value is a \<open>datetime\<close> with the constructors
    \<open>Aware\<close> and \<open>Naive\<close>; a \<open>timedelta\<close> is a number of microseconds.
  \<^item> an exception is a value \<open>Inl e\<close>; a normal return is \<open>Inr v\<close>.
  \<^item> the SHA-256 digests are a parameter (a function from the hashed value to text).
\<close>

named_theorems risk_defs \<open>unfolding rules of the risk engine's definitions\<close>
named_theorems store_simps \<open>how the durable tables change under each operation\<close>
named_theorems order_defs \<open>unfolding rules of the order lifecycle definitions\<close>

type_synonym decimal = rat
type_synonym instant = int
type_synonym duration = int

datatype datetime = Aware instant | Naive instant

fun astimezone_utc :: "datetime \<Rightarrow> instant" where
  "astimezone_utc (Aware t) = t"
| "astimezone_utc (Naive t) = t"

fun tz_aware :: "datetime \<Rightarrow> bool" where
  "tz_aware (Aware t) = True"
| "tz_aware (Naive t) = False"

definition milliseconds :: "int \<Rightarrow> duration" where
  "milliseconds n = n * 1000"

definition seconds :: "int \<Rightarrow> duration" where
  "seconds n = n * 1000000"

definition minutes :: "int \<Rightarrow> duration" where
  "minutes n = seconds (60 * n)"

definition days :: "int \<Rightarrow> duration" where
  "days n = seconds (86400 * n)"

lemmas duration_defs = milliseconds_def seconds_def minutes_def days_def

datatype py_exn =
    ValueError string
  | TypeError string
  | RuntimeError string
  | PermissionError string
  | KeyError
  | IntegrityError
  | RiskDomainError string
  | RiskInvariantError string
  | AuthorizationError string
  | OpportunityError string
  | SimulationError string
  | UniverseValidationError string
  | ProtocolError string
  | AmbiguousMutation bool
  | ReplayError string
  | LearningError string
  | MarketMakingError string
  | LifecycleError string
  | ShadowResearchError string
  | OSError
  | OverflowError

type_synonym 'a result = "py_exn + 'a"

text \<open>A value that \<open>json.dumps\<close> and \<open>sha256\<close> are applied to.\<close>

datatype hashable =
    HStr string | HInt int | HBool bool | HNone | HDec decimal | HTime instant
  | HList "hashable list" | HObj "(string \<times> hashable) list"

type_synonym digest_fn = "hashable \<Rightarrow> string"

definition hopt :: "('a \<Rightarrow> hashable) \<Rightarrow> 'a option \<Rightarrow> hashable" where
  "hopt f x = (case x of None \<Rightarrow> HNone | Some v \<Rightarrow> f v)"

section \<open>Python string operations\<close>

text \<open>Python's \<open>str.strip\<close> removes the ASCII whitespace characters at both ends.\<close>

definition py_space :: "char \<Rightarrow> bool" where
  "py_space c \<longleftrightarrow> c \<in> set [CHR '' '', CHR 0x09, CHR 0x0A, CHR 0x0B, CHR 0x0C, CHR 0x0D,
     CHR 0x1C, CHR 0x1D, CHR 0x1E, CHR 0x1F]"

definition py_strip :: "string \<Rightarrow> string" where
  "py_strip s = rev (dropWhile py_space (rev (dropWhile py_space s)))"

definition startswith :: "string \<Rightarrow> string \<Rightarrow> bool" where
  "startswith p s \<longleftrightarrow> take (length p) s = p"

definition endswith :: "string \<Rightarrow> string \<Rightarrow> bool" where
  "endswith p s \<longleftrightarrow> startswith (rev p) (rev s)"

definition removeprefix :: "string \<Rightarrow> string \<Rightarrow> string" where
  "removeprefix p s = (if startswith p s then drop (length p) s else s)"

definition contains_sub :: "string \<Rightarrow> string \<Rightarrow> bool" where
  "contains_sub p s \<longleftrightarrow> list_ex (\<lambda>i. startswith p (drop i s)) [0..<Suc (length s)]"

definition ascii_alnum :: "char \<Rightarrow> bool" where
  "ascii_alnum c \<longleftrightarrow> (let n = of_char c :: nat in
     48 \<le> n \<and> n \<le> 57 \<or> 65 \<le> n \<and> n \<le> 90 \<or> 97 \<le> n \<and> n \<le> 122)"

text \<open>\<open>str.upper\<close> and \<open>str.lower\<close> on ASCII text.\<close>

definition py_upper :: "string \<Rightarrow> string" where
  "py_upper = map (\<lambda>c. let n = of_char c :: nat in
     if 97 \<le> n \<and> n \<le> 122 then char_of (n - 32) else c)"

definition py_lower :: "string \<Rightarrow> string" where
  "py_lower = map (\<lambda>c. let n = of_char c :: nat in
     if 65 \<le> n \<and> n \<le> 90 then char_of (n + 32) else c)"

lemma startswith_append [simp]: "startswith p (p @ s)"
  by (simp add: startswith_def)

lemma startswith_iff: "startswith p s \<longleftrightarrow> (\<exists>r. s = p @ r)"
proof
  assume "startswith p s"
  then have "s = p @ drop (length p) s"
    by (metis append_take_drop_id startswith_def)
  then show "\<exists>r. s = p @ r" ..
next
  assume "\<exists>r. s = p @ r"
  then show "startswith p s" by (auto simp: startswith_def)
qed

lemma removeprefix_append [simp]: "removeprefix p (p @ s) = s"
  by (simp add: removeprefix_def)

section \<open>Exact sums\<close>

abbreviation dsum :: "decimal list \<Rightarrow> decimal" where
  "dsum \<equiv> sum_list"

lemma dsum_nonneg: "(\<And>x. x \<in> set xs \<Longrightarrow> 0 \<le> x) \<Longrightarrow> 0 \<le> dsum xs"
  by (induction xs) auto

lemma dsum_filter_le:
  assumes "\<And>x. x \<in> set xs \<Longrightarrow> 0 \<le> f x" and "\<And>x. x \<in> set xs \<Longrightarrow> p x \<Longrightarrow> q x"
  shows "dsum (map f (filter p xs)) \<le> dsum (map f (filter q xs))"
  using assms by (induction xs) (auto intro: add_increasing)

lemma dsum_filter_all:
  assumes "\<And>x. x \<in> set xs \<Longrightarrow> 0 \<le> f x"
  shows "dsum (map f (filter p xs)) \<le> dsum (map f xs)"
  using assms by (induction xs) (auto intro: add_increasing)

section \<open>Python's min, max and clamping at zero\<close>

definition clamp0 :: "decimal \<Rightarrow> decimal" where
  "clamp0 x = max 0 x"

lemma clamp0_nonneg [simp]: "0 \<le> clamp0 x"
  by (simp add: clamp0_def)

lemma clamp0_ge [simp]: "x \<le> clamp0 x"
  by (simp add: clamp0_def)

lemma clamp0_mono: "x \<le> y \<Longrightarrow> clamp0 x \<le> clamp0 y"
  by (simp add: clamp0_def)

section \<open>The error monad\<close>

definition rbind :: "'a result \<Rightarrow> ('a \<Rightarrow> 'b result) \<Rightarrow> 'b result" where
  "rbind m f = (case m of Inl e \<Rightarrow> Inl e | Inr x \<Rightarrow> f x)"

lemma rbind_simps [simp]:
  "rbind (Inl e) f = Inl e"
  "rbind (Inr x) f = f x"
  by (simp_all add: rbind_def)

lemma rbind_eq_Inr: "rbind m f = Inr y \<longleftrightarrow> (\<exists>x. m = Inr x \<and> f x = Inr y)"
  by (cases m) auto

lemma rbind_eq_Inl: "rbind m f = Inl e \<longleftrightarrow> m = Inl e \<or> (\<exists>x. m = Inr x \<and> f x = Inl e)"
  by (cases m) auto

fun is_ok :: "'a result \<Rightarrow> bool" where
  "is_ok (Inr x) = True"
| "is_ok (Inl e) = False"

lemma is_ok_iff: "is_ok m \<longleftrightarrow> (\<exists>x. m = Inr x)"
  by (cases m) auto

text \<open>\<open>list\<close> comprehension over a fallible function: the first exception ends it.\<close>

fun rmap :: "('a \<Rightarrow> 'b result) \<Rightarrow> 'a list \<Rightarrow> 'b list result" where
  "rmap f [] = Inr []"
| "rmap f (x # xs) = rbind (f x) (\<lambda>y. rbind (rmap f xs) (\<lambda>ys. Inr (y # ys)))"

lemma rmap_ok: "rmap f xs = Inr ys \<longleftrightarrow> list_all2 (\<lambda>x y. f x = Inr y) xs ys"
  by (induction xs arbitrary: ys) (auto simp: rbind_eq_Inr list_all2_Cons1)

section \<open>Python sets of enumeration members, kept as lists\<close>

text \<open>
  A Python set built by \<open>add\<close> is the list of the added members; \<open>sorted(s)\<close> sorts the
  list without its duplicates.
\<close>

definition py_sorted :: "'a::linorder list \<Rightarrow> 'a list" where
  "py_sorted xs = sort (remdups xs)"

lemma set_py_sorted [simp]: "set (py_sorted xs) = set xs"
  by (simp add: py_sorted_def)

lemma py_sorted_Nil_iff [simp]: "py_sorted xs = [] \<longleftrightarrow> xs = []"
  by (metis set_py_sorted set_empty)

lemma distinct_py_sorted [simp]: "distinct (py_sorted xs)"
  by (simp add: py_sorted_def)

lemma sorted_py_sorted [simp]: "sorted (py_sorted xs)"
  by (simp add: py_sorted_def)

definition only_if :: "bool \<Rightarrow> 'a \<Rightarrow> 'a list" where
  "only_if b x = (if b then [x] else [])"

lemma set_only_if [simp]: "set (only_if b x) = (if b then {x} else {})"
  by (cases b) (simp_all add: only_if_def)

lemma only_if_Nil [simp]: "only_if b x = [] \<longleftrightarrow> \<not> b"
  by (simp add: only_if_def)

end
