(* ===== verification/Tables.thy ===== *)
theory Tables
  imports Prelude
begin

text \<open>
  The SQLite tables behind the durable stores, as the code uses them: a table is the list of
  its rows in insertion order; \<open>INSERT\<close> fails on a \<open>PRIMARY KEY\<close> or \<open>UNIQUE\<close> conflict
  (\<open>NULL\<close> never conflicts), \<open>INSERT OR IGNORE\<close> leaves the table as it is on a conflict, and
  \<open>UPDATE ... WHERE\<close> rewrites the matching rows. A handler's \<open>BEGIN IMMEDIATE\<close> transaction
  is one function on the store's state; a raised exception leaves the state unchanged
  (rollback).

  The locale \<open>exactly_once\<close> is the contract of every durable claim in the program
  (authorizations, submission journals, mutation attempts, production journal, fills).
\<close>

type_synonym ('r, 'k) col = "'r \<Rightarrow> 'k option"

definition taken :: "('r, 'k) col \<Rightarrow> 'r list \<Rightarrow> 'k set" where
  "taken c tab = {k. Some k \<in> c ` set tab}"

definition conflicts :: "('r, 'k) col \<Rightarrow> 'r \<Rightarrow> 'r list \<Rightarrow> bool" where
  "conflicts c r tab \<longleftrightarrow> (case c r of None \<Rightarrow> False | Some k \<Rightarrow> list_ex (\<lambda>x. c x = Some k) tab)"

definition sql_insert :: "('r, 'k) col list \<Rightarrow> 'r \<Rightarrow> 'r list \<Rightarrow> 'r list option" where
  "sql_insert cs r tab =
     (if list_ex (\<lambda>c. conflicts c r tab) cs then None else Some (tab @ [r]))"

definition sql_insert_or_ignore ::
    "('r, 'k) col list \<Rightarrow> 'r \<Rightarrow> 'r list \<Rightarrow> 'r list \<times> bool" where
  "sql_insert_or_ignore cs r tab =
     (case sql_insert cs r tab of None \<Rightarrow> (tab, False) | Some tab' \<Rightarrow> (tab', True))"

definition sql_update :: "('r \<Rightarrow> bool) \<Rightarrow> ('r \<Rightarrow> 'r) \<Rightarrow> 'r list \<Rightarrow> 'r list" where
  "sql_update p f tab = map (\<lambda>r. if p r then f r else r) tab"

definition sql_find :: "('r \<Rightarrow> bool) \<Rightarrow> 'r list \<Rightarrow> 'r option" where
  "sql_find p tab = (case filter p tab of [] \<Rightarrow> None | r # _ \<Rightarrow> Some r)"

definition unique_col :: "('r, 'k) col \<Rightarrow> 'r list \<Rightarrow> bool" where
  "unique_col c tab \<longleftrightarrow> distinct (filter (\<lambda>x. x \<noteq> None) (map c tab))"

section \<open>Laws of the tables\<close>

lemma conflicts_iff: "conflicts c r tab \<longleftrightarrow> (\<exists>k. c r = Some k \<and> k \<in> taken c tab)"
  by (force simp: conflicts_def taken_def list_ex_iff split: option.splits)

lemma taken_append [simp]: "taken c (xs @ ys) = taken c xs \<union> taken c ys"
  by (auto simp: taken_def)

lemma taken_single [simp]: "taken c [r] = set_option (c r)"
  by (cases "c r") (auto simp: taken_def)

lemma taken_Nil [simp]: "taken c [] = {}"
  by (simp add: taken_def)

lemma sql_insert_Some:
  "sql_insert cs r tab = Some tab' \<longleftrightarrow>
     tab' = tab @ [r] \<and> (\<forall>c \<in> set cs. \<not> conflicts c r tab)"
  by (auto simp: sql_insert_def list_ex_iff)

lemma sql_insert_None:
  "sql_insert cs r tab = None \<longleftrightarrow> (\<exists>c \<in> set cs. conflicts c r tab)"
  by (auto simp: sql_insert_def list_ex_iff)

lemma sql_insert_key_fresh:
  "sql_insert cs r tab = Some tab' \<Longrightarrow> c \<in> set cs \<Longrightarrow> c r = Some k \<Longrightarrow>
     k \<notin> taken c tab \<and> taken c tab' = insert k (taken c tab)"
  by (auto simp: sql_insert_Some conflicts_iff)

lemma set_sql_update:
  "set (sql_update p f tab) = {r \<in> set tab. \<not> p r} \<union> f ` {r \<in> set tab. p r}"
  by (auto simp: sql_update_def)

lemma length_sql_update [simp]: "length (sql_update p f tab) = length tab"
  by (simp add: sql_update_def)

lemma map_sql_update [simp]:
  "(\<And>r. p r \<Longrightarrow> g (f r) = g r) \<Longrightarrow> map g (sql_update p f tab) = map g tab"
  by (simp add: sql_update_def)

lemma taken_map_cong: "map c tab = map c tab' \<Longrightarrow> taken c tab = taken c tab'"
  unfolding taken_def by (metis set_map)

lemma taken_sql_update [simp]:
  "(\<And>r. p r \<Longrightarrow> c (f r) = c r) \<Longrightarrow> taken c (sql_update p f tab) = taken c tab"
  by (rule taken_map_cong) simp

lemma unique_col_sql_update [simp]:
  "(\<And>r. p r \<Longrightarrow> c (f r) = c r) \<Longrightarrow> unique_col c (sql_update p f tab) = unique_col c tab"
  by (simp add: unique_col_def)

lemma unique_col_Nil [simp]: "unique_col c []"
  by (simp add: unique_col_def)

lemma unique_col_Some: "unique_col (\<lambda>r. Some (f r)) tab \<longleftrightarrow> distinct (map f tab)"
proof -
  have "filter (\<lambda>x. x \<noteq> None) (map (\<lambda>r. Some (f r)) tab) = map Some (map f tab)"
    by (induction tab) auto
  then show ?thesis by (simp add: unique_col_def distinct_map del: map_map)
qed

lemma filter_unique_key:
  assumes "distinct (map f xs)" and "x \<in> set xs" and "P x" and "\<And>y. P y \<Longrightarrow> f y = f x"
  shows "filter P xs = [x]"
  using assms(1,2)
proof (induction xs)
  case Nil
  then show ?case by simp
next
  case (Cons z zs)
  show ?case
  proof (cases "z = x")
    case True
    have "\<not> P y" if "y \<in> set zs" for y
    proof
      assume "P y"
      then have "f y = f z" using assms(4) True by simp
      with that have "f z \<in> f ` set zs" by (metis imageI)
      with Cons.prems(1) show False by simp
    qed
    with True assms(3) show ?thesis by (simp add: filter_empty_conv)
  next
    case False
    with Cons.prems have "x \<in> set zs" by simp
    moreover have "\<not> P z"
    proof
      assume "P z"
      then have "f z = f x" by (rule assms(4))
      with \<open>x \<in> set zs\<close> have "f z \<in> f ` set zs" by (metis imageI)
      with Cons.prems(1) show False by simp
    qed
    ultimately show ?thesis using Cons.IH Cons.prems(1) by simp
  qed
qed

lemma unique_col_insert:
  assumes "unique_col c tab" and "sql_insert cs r tab = Some tab'" and "c \<in> set cs"
  shows "unique_col c tab'"
proof -
  from assms(2,3) have "tab' = tab @ [r]" and "\<not> conflicts c r tab"
    by (auto simp: sql_insert_Some)
  with assms(1) show ?thesis
    by (cases "c r") (auto simp: unique_col_def conflicts_def list_ex_iff)
qed

lemma sql_find_Some: "sql_find p tab = Some r \<Longrightarrow> r \<in> set tab \<and> p r"
proof -
  assume "sql_find p tab = Some r"
  then obtain rs where "filter p tab = r # rs"
    by (auto simp: sql_find_def split: list.splits)
  then have "r \<in> set (filter p tab)" by simp
  then show ?thesis by simp
qed

lemma sql_find_None: "sql_find p tab = None \<longleftrightarrow> (\<forall>r \<in> set tab. \<not> p r)"
proof -
  have "sql_find p tab = None \<longleftrightarrow> filter p tab = []"
    by (simp add: sql_find_def split: list.splits)
  then show ?thesis by (simp add: filter_empty_conv)
qed

lemma sql_find_unique:
  assumes "unique_col c tab" and "r \<in> set tab" and "c r = Some k"
  shows "sql_find (\<lambda>x. c x = Some k) tab = Some r"
  using assms
proof (induction tab)
  case Nil
  then show ?case by simp
next
  case (Cons x xs)
  show ?case
  proof (cases "c x = Some k")
    case True
    with Cons.prems have "x = r"
      by (auto simp: unique_col_def image_iff)
    with True show ?thesis by (simp add: sql_find_def)
  next
    case False
    with Cons.prems have "r \<in> set xs" and "unique_col c xs"
      by (auto simp: unique_col_def split: if_splits)
    with Cons.IH Cons.prems(3) have "sql_find (\<lambda>x. c x = Some k) xs = Some r" by simp
    with False show ?thesis by (simp add: sql_find_def)
  qed
qed

text \<open>Two rows of a table that agree on a unique column are the same row.\<close>

lemma unique_col_same:
  assumes "unique_col c tab" and "r \<in> set tab" and "s \<in> set tab"
    and "c r = Some k" and "c s = Some k"
  shows "r = s"
  using sql_find_unique [OF assms(1,2,4)] sql_find_unique [OF assms(1,3,5)] by simp

section \<open>Claiming a durable key at most once\<close>

text \<open>
  A run interleaves claims, granted or refused, with other operations of the store; its result
  lists the granted requests in order. The contract: a granted claim's key was not owned and is
  owned afterwards, and nothing else changes what is owned.
\<close>

datatype ('r, 'o) store_event = Claim 'r | Other 'o

fun claim_run :: "('r \<Rightarrow> 's \<Rightarrow> 's \<times> bool) \<Rightarrow> ('o \<Rightarrow> 's \<Rightarrow> 's) \<Rightarrow>
    ('r, 'o) store_event list \<Rightarrow> 's \<Rightarrow> 'r list \<times> 's" where
  "claim_run claim other [] s = ([], s)"
| "claim_run claim other (Claim r # es) s =
     (let (s', b) = claim r s; (g, t) = claim_run claim other es s'
      in (if b then r # g else g, t))"
| "claim_run claim other (Other x # es) s = claim_run claim other es (other x s)"

locale exactly_once =
  fixes claim :: "'r \<Rightarrow> 's \<Rightarrow> 's \<times> bool"
    and other :: "'o \<Rightarrow> 's \<Rightarrow> 's"
    and key :: "'r \<Rightarrow> 'k"
    and owned :: "'s \<Rightarrow> 'k set"
    and invar :: "'s \<Rightarrow> bool"
  assumes claim_fresh: "invar s \<Longrightarrow> claim r s = (s', True) \<Longrightarrow> key r \<notin> owned s"
    and claim_owned: "invar s \<Longrightarrow> claim r s = (s', b) \<Longrightarrow>
      owned s' = (if b then insert (key r) (owned s) else owned s)"
    and claim_invar: "invar s \<Longrightarrow> claim r s = (s', b) \<Longrightarrow> invar s'"
    and other_owned: "invar s \<Longrightarrow> owned (other x s) = owned s"
    and other_invar: "invar s \<Longrightarrow> invar (other x s)"
begin

lemma claim_again: "invar s \<Longrightarrow> key r \<in> owned s \<Longrightarrow> \<not> snd (claim r s)"
  using claim_fresh by (cases "claim r s") auto

text \<open>Every granted key is new: no key is granted twice, and none that was owned before.\<close>

lemma run_grants:
  "invar s \<Longrightarrow> claim_run claim other es s = (g, t) \<Longrightarrow>
     distinct (map key g) \<and> key ` set g \<inter> owned s = {} \<and>
     owned t = owned s \<union> key ` set g \<and> invar t"
proof (induction es arbitrary: s g)
  case Nil
  then show ?case by simp
next
  case (Cons e es)
  show ?case
  proof (cases e)
    case (Other x)
    with Cons.prems have run: "claim_run claim other es (other x s) = (g, t)" by simp
    from Cons.IH [OF other_invar [OF Cons.prems(1)] run] other_owned [OF Cons.prems(1)]
    show ?thesis by simp
  next
    case (Claim r)
    obtain s' b where c: "claim r s = (s', b)" by (cases "claim r s")
    with Claim Cons.prems obtain g' where g': "claim_run claim other es s' = (g', t)"
      and g: "g = (if b then r # g' else g')"
      by (auto split: prod.splits)
    have own: "owned s' = (if b then insert (key r) (owned s) else owned s)" and inv: "invar s'"
      using claim_owned [OF Cons.prems(1) c] claim_invar [OF Cons.prems(1) c] by auto
    have "b \<Longrightarrow> key r \<notin> owned s" using claim_fresh [OF Cons.prems(1)] c by auto
    with Cons.IH [OF inv g'] own g show ?thesis by (auto split: if_splits)
  qed
qed

end

end
