(* ===== verification/Risk_Domain.thy ===== *)
theory Risk_Domain
  imports Tables
begin

text \<open>
  \<open>services/risk_engine/domain.py\<close>: the enumerations and the frozen artifacts of the risk
  engine. An enumeration is a datatype with the source's members (referred to as
  \<open>RiskReason.UNKNOWN_ORDER\<close>, as in the code); a dataclass is a record whose fields carry a
  short prefix; its \<open>__post_init__\<close> is a function from the built record to a result.
\<close>

section \<open>Enumerations\<close>

datatype EconomicAction =
    BUY_YES_OUTCOME | BUY_NO_OUTCOME | REDUCE_EXISTING_EXPOSURE

datatype Ownership =
    BOT_OWNED | EXTERNAL_KNOWN | EXTERNAL_UNKNOWN

datatype ReconciliationStatus =
    RECONCILED | STALE | PARTIAL | MISMATCH | UNKNOWN_ORDER | UNKNOWN_POSITION | AUTH_FAILURE
  | API_FAILURE

datatype KillCategory =
    STRATEGY | DATA | PORTFOLIO | CREDENTIAL

datatype KillLevel =
    NORMAL | WARNING | KILLED

datatype ComplianceState =
    CLEAR | HOLD | UNKNOWN

datatype RiskDecisionState =
    PASS_NEXT_GATE | REJECT | PAUSE | HALT

datatype (plugins only: code size) RiskReason =
    POLICY_MISSING | ACCOUNT_STALE | ACCOUNT_NOT_RECONCILED | UNKNOWN_ORDER | UNKNOWN_POSITION
  | EXTERNAL_ACTIVITY_UNRESOLVED | EXPOSURE_RECONCILIATION_MISMATCH | CASH_INSUFFICIENT
  | RESERVE_VIOLATION | RESERVE_STATE_UNCERTAIN | ACTIVE_POOL_EXCEEDED
  | AGGREGATE_RISK_EXCEEDED | MARKET_RISK_EXCEEDED | EVENT_RISK_EXCEEDED | DAILY_LOSS_STOP
  | WEEKLY_LOSS_STOP | MONTHLY_LOSS_STOP | EXPERIMENT_DRAWDOWN_STOP | MARKET_INACTIVE
  | MARKET_PROVISIONAL | RULES_MISMATCH | CONTRACT_AMBIGUOUS | SETTLEMENT_UNKNOWN
  | PRICE_STRUCTURE_UNSUPPORTED | QUANTITY_STRUCTURE_UNSUPPORTED | RISK_UNCOMPUTABLE
  | DATA_STALE | BOOK_GAP | SOURCE_UNHEALTHY | API_COMPATIBILITY_FAILURE | MODEL_NOT_ELIGIBLE
  | CALIBRATOR_NOT_ELIGIBLE | FORECAST_STALE | FORECAST_ABSTAINED | FEE_UNVERIFIED
  | AFTER_COST_GATE_FAILED | DUPLICATE_CLIENT_ORDER_ID | INTENT_CHANGED | STRATEGY_KILL
  | DATA_KILL | PORTFOLIO_KILL | CREDENTIAL_KILL | COMPLIANCE_HOLD | GLOBAL_HALT
  | ORDER_GROUP_UNAVAILABLE | SELF_TRADE_CONFLICT | AUTHORIZATION_UNAVAILABLE
  | SUBACCOUNT_INVALID | NOT_RISK_REDUCING

primrec RiskReason_value :: "RiskReason \<Rightarrow> string" where
  "RiskReason_value RiskReason.POLICY_MISSING = ''POLICY_MISSING''"
| "RiskReason_value RiskReason.ACCOUNT_STALE = ''ACCOUNT_STALE''"
| "RiskReason_value RiskReason.ACCOUNT_NOT_RECONCILED = ''ACCOUNT_NOT_RECONCILED''"
| "RiskReason_value RiskReason.UNKNOWN_ORDER = ''UNKNOWN_ORDER''"
| "RiskReason_value RiskReason.UNKNOWN_POSITION = ''UNKNOWN_POSITION''"
| "RiskReason_value RiskReason.EXTERNAL_ACTIVITY_UNRESOLVED = ''EXTERNAL_ACTIVITY_UNRESOLVED''"
| "RiskReason_value RiskReason.EXPOSURE_RECONCILIATION_MISMATCH = ''EXPOSURE_RECONCILIATION_MISMATCH''"
| "RiskReason_value RiskReason.CASH_INSUFFICIENT = ''CASH_INSUFFICIENT''"
| "RiskReason_value RiskReason.RESERVE_VIOLATION = ''RESERVE_VIOLATION''"
| "RiskReason_value RiskReason.RESERVE_STATE_UNCERTAIN = ''RESERVE_STATE_UNCERTAIN''"
| "RiskReason_value RiskReason.ACTIVE_POOL_EXCEEDED = ''ACTIVE_POOL_EXCEEDED''"
| "RiskReason_value RiskReason.AGGREGATE_RISK_EXCEEDED = ''AGGREGATE_RISK_EXCEEDED''"
| "RiskReason_value RiskReason.MARKET_RISK_EXCEEDED = ''MARKET_RISK_EXCEEDED''"
| "RiskReason_value RiskReason.EVENT_RISK_EXCEEDED = ''EVENT_RISK_EXCEEDED''"
| "RiskReason_value RiskReason.DAILY_LOSS_STOP = ''DAILY_LOSS_STOP''"
| "RiskReason_value RiskReason.WEEKLY_LOSS_STOP = ''WEEKLY_LOSS_STOP''"
| "RiskReason_value RiskReason.MONTHLY_LOSS_STOP = ''MONTHLY_LOSS_STOP''"
| "RiskReason_value RiskReason.EXPERIMENT_DRAWDOWN_STOP = ''EXPERIMENT_DRAWDOWN_STOP''"
| "RiskReason_value RiskReason.MARKET_INACTIVE = ''MARKET_INACTIVE''"
| "RiskReason_value RiskReason.MARKET_PROVISIONAL = ''MARKET_PROVISIONAL''"
| "RiskReason_value RiskReason.RULES_MISMATCH = ''RULES_MISMATCH''"
| "RiskReason_value RiskReason.CONTRACT_AMBIGUOUS = ''CONTRACT_AMBIGUOUS''"
| "RiskReason_value RiskReason.SETTLEMENT_UNKNOWN = ''SETTLEMENT_UNKNOWN''"
| "RiskReason_value RiskReason.PRICE_STRUCTURE_UNSUPPORTED = ''PRICE_STRUCTURE_UNSUPPORTED''"
| "RiskReason_value RiskReason.QUANTITY_STRUCTURE_UNSUPPORTED = ''QUANTITY_STRUCTURE_UNSUPPORTED''"
| "RiskReason_value RiskReason.RISK_UNCOMPUTABLE = ''RISK_UNCOMPUTABLE''"
| "RiskReason_value RiskReason.DATA_STALE = ''DATA_STALE''"
| "RiskReason_value RiskReason.BOOK_GAP = ''BOOK_GAP''"
| "RiskReason_value RiskReason.SOURCE_UNHEALTHY = ''SOURCE_UNHEALTHY''"
| "RiskReason_value RiskReason.API_COMPATIBILITY_FAILURE = ''API_COMPATIBILITY_FAILURE''"
| "RiskReason_value RiskReason.MODEL_NOT_ELIGIBLE = ''MODEL_NOT_ELIGIBLE''"
| "RiskReason_value RiskReason.CALIBRATOR_NOT_ELIGIBLE = ''CALIBRATOR_NOT_ELIGIBLE''"
| "RiskReason_value RiskReason.FORECAST_STALE = ''FORECAST_STALE''"
| "RiskReason_value RiskReason.FORECAST_ABSTAINED = ''FORECAST_ABSTAINED''"
| "RiskReason_value RiskReason.FEE_UNVERIFIED = ''FEE_UNVERIFIED''"
| "RiskReason_value RiskReason.AFTER_COST_GATE_FAILED = ''AFTER_COST_GATE_FAILED''"
| "RiskReason_value RiskReason.DUPLICATE_CLIENT_ORDER_ID = ''DUPLICATE_CLIENT_ORDER_ID''"
| "RiskReason_value RiskReason.INTENT_CHANGED = ''INTENT_CHANGED''"
| "RiskReason_value RiskReason.STRATEGY_KILL = ''STRATEGY_KILL''"
| "RiskReason_value RiskReason.DATA_KILL = ''DATA_KILL''"
| "RiskReason_value RiskReason.PORTFOLIO_KILL = ''PORTFOLIO_KILL''"
| "RiskReason_value RiskReason.CREDENTIAL_KILL = ''CREDENTIAL_KILL''"
| "RiskReason_value RiskReason.COMPLIANCE_HOLD = ''COMPLIANCE_HOLD''"
| "RiskReason_value RiskReason.GLOBAL_HALT = ''GLOBAL_HALT''"
| "RiskReason_value RiskReason.ORDER_GROUP_UNAVAILABLE = ''ORDER_GROUP_UNAVAILABLE''"
| "RiskReason_value RiskReason.SELF_TRADE_CONFLICT = ''SELF_TRADE_CONFLICT''"
| "RiskReason_value RiskReason.AUTHORIZATION_UNAVAILABLE = ''AUTHORIZATION_UNAVAILABLE''"
| "RiskReason_value RiskReason.SUBACCOUNT_INVALID = ''SUBACCOUNT_INVALID''"
| "RiskReason_value RiskReason.NOT_RISK_REDUCING = ''NOT_RISK_REDUCING''"

definition RiskReason_members :: "RiskReason list" where
  "RiskReason_members = [RiskReason.POLICY_MISSING, RiskReason.ACCOUNT_STALE,
     RiskReason.ACCOUNT_NOT_RECONCILED, RiskReason.UNKNOWN_ORDER,
     RiskReason.UNKNOWN_POSITION, RiskReason.EXTERNAL_ACTIVITY_UNRESOLVED,
     RiskReason.EXPOSURE_RECONCILIATION_MISMATCH, RiskReason.CASH_INSUFFICIENT,
     RiskReason.RESERVE_VIOLATION, RiskReason.RESERVE_STATE_UNCERTAIN,
     RiskReason.ACTIVE_POOL_EXCEEDED, RiskReason.AGGREGATE_RISK_EXCEEDED,
     RiskReason.MARKET_RISK_EXCEEDED, RiskReason.EVENT_RISK_EXCEEDED,
     RiskReason.DAILY_LOSS_STOP, RiskReason.WEEKLY_LOSS_STOP,
     RiskReason.MONTHLY_LOSS_STOP, RiskReason.EXPERIMENT_DRAWDOWN_STOP,
     RiskReason.MARKET_INACTIVE, RiskReason.MARKET_PROVISIONAL,
     RiskReason.RULES_MISMATCH, RiskReason.CONTRACT_AMBIGUOUS,
     RiskReason.SETTLEMENT_UNKNOWN, RiskReason.PRICE_STRUCTURE_UNSUPPORTED,
     RiskReason.QUANTITY_STRUCTURE_UNSUPPORTED, RiskReason.RISK_UNCOMPUTABLE,
     RiskReason.DATA_STALE, RiskReason.BOOK_GAP, RiskReason.SOURCE_UNHEALTHY,
     RiskReason.API_COMPATIBILITY_FAILURE, RiskReason.MODEL_NOT_ELIGIBLE,
     RiskReason.CALIBRATOR_NOT_ELIGIBLE, RiskReason.FORECAST_STALE,
     RiskReason.FORECAST_ABSTAINED, RiskReason.FEE_UNVERIFIED,
     RiskReason.AFTER_COST_GATE_FAILED, RiskReason.DUPLICATE_CLIENT_ORDER_ID,
     RiskReason.INTENT_CHANGED, RiskReason.STRATEGY_KILL, RiskReason.DATA_KILL,
     RiskReason.PORTFOLIO_KILL, RiskReason.CREDENTIAL_KILL, RiskReason.COMPLIANCE_HOLD,
     RiskReason.GLOBAL_HALT, RiskReason.ORDER_GROUP_UNAVAILABLE,
     RiskReason.SELF_TRADE_CONFLICT, RiskReason.AUTHORIZATION_UNAVAILABLE,
     RiskReason.SUBACCOUNT_INVALID, RiskReason.NOT_RISK_REDUCING]"

text \<open>\<open>RiskReason(value)\<close>: the member with that value, or \<open>ValueError\<close>.\<close>

definition RiskReason_of_value :: "string \<Rightarrow> RiskReason result" where
  "RiskReason_of_value s =
     (case find (\<lambda>r. RiskReason_value r = s) RiskReason_members of
        None \<Rightarrow> Inl (ValueError ''invalid RiskReason'')
      | Some r \<Rightarrow> Inr r)"

lemma RiskReason_members_complete: "r \<in> set RiskReason_members"
  by (cases r) (simp_all add: RiskReason_members_def)

lemma RiskReason_values_distinct: "distinct (map RiskReason_value RiskReason_members)"
  by code_simp

lemma inj_RiskReason_value: "inj RiskReason_value"
proof -
  have "inj_on RiskReason_value (set RiskReason_members)"
    using RiskReason_values_distinct by (simp add: distinct_map)
  moreover have "set RiskReason_members = UNIV"
    using RiskReason_members_complete by auto
  ultimately show ?thesis by simp
qed

lemma RiskReason_value_eq [simp]: "RiskReason_value r = RiskReason_value s \<longleftrightarrow> r = s"
  using inj_RiskReason_value by (auto dest: injD)

text \<open>\<open>sorted\<close> on a set of \<open>StrEnum\<close> members compares the values as strings.\<close>

instantiation RiskReason :: linorder
begin

definition less_eq_RiskReason :: "RiskReason \<Rightarrow> RiskReason \<Rightarrow> bool" where
  "less_eq_RiskReason r s \<longleftrightarrow> RiskReason_value r \<le> RiskReason_value s"

definition less_RiskReason :: "RiskReason \<Rightarrow> RiskReason \<Rightarrow> bool" where
  "less_RiskReason r s \<longleftrightarrow> RiskReason_value r < RiskReason_value s"

instance
  by standard (auto simp: less_eq_RiskReason_def less_RiskReason_def less_le)

end

section \<open>Validation of money\<close>

text \<open>
  \<open>_validate_money\<close>: every value must be a finite non-negative Decimal; \<open>None\<close> passes only
  with \<open>allow_none\<close>. The first offending value raises.
\<close>

definition validate_money :: "decimal option list \<Rightarrow> bool \<Rightarrow> unit result" where
  "validate_money vs allow_none =
     (if list_ex (\<lambda>v. case v of None \<Rightarrow> \<not> allow_none | Some x \<Rightarrow> x < 0) vs
      then Inl (RiskDomainError ''financial values must be finite non-negative Decimal'')
      else Inr ())"

definition money_ok :: "decimal option \<Rightarrow> bool" where
  "money_ok v \<longleftrightarrow> (case v of None \<Rightarrow> True | Some x \<Rightarrow> 0 \<le> x)"

lemma money_bad: "(case v of None \<Rightarrow> \<not> True | Some x \<Rightarrow> x < 0) \<longleftrightarrow> \<not> money_ok v"
  by (cases v) (auto simp: money_ok_def)

lemma validate_money_ok:
  "validate_money vs True = Inr () \<longleftrightarrow> (\<forall>v \<in> set vs. money_ok v)"
  by (auto simp: validate_money_def money_bad list_ex_iff)

section \<open>The frozen risk intent\<close>

record RiskIntent =
  ri_intent_id :: string
  ri_created_at :: instant
  ri_market_ticker :: string
  ri_event_id :: string
  ri_correlation_cluster_id :: string
  ri_rules_version :: string
  ri_rules_hash :: string
  ri_contract_interpretation_version :: string
  ri_candidate_id :: string
  ri_forecast_id :: string
  ri_economic_action :: EconomicAction
  ri_outcome_side :: string
  ri_book_side :: string
  ri_price :: "decimal option"
  ri_quantity :: "decimal option"
  ri_maximum_expected_fee :: "decimal option"
  ri_maximum_expected_cash_commitment :: "decimal option"
  ri_maximum_loss_if_filled :: "decimal option"
  ri_order_style :: string
  ri_time_in_force_policy :: string
  ri_expires_at :: "instant option"
  ri_post_only :: bool
  ri_cancel_order_on_pause :: bool
  ri_reduce_only :: bool
  ri_self_trade_prevention :: string
  ri_required_order_group_policy :: string
  ri_client_order_id :: string
  ri_account :: string
  ri_subaccount :: int
  ri_content_hash :: string

definition EconomicAction_value :: "EconomicAction \<Rightarrow> string" where
  "EconomicAction_value a = (case a of
      EconomicAction.BUY_YES_OUTCOME \<Rightarrow> ''BUY_YES_OUTCOME''
    | EconomicAction.BUY_NO_OUTCOME \<Rightarrow> ''BUY_NO_OUTCOME''
    | EconomicAction.REDUCE_EXISTING_EXPOSURE \<Rightarrow> ''REDUCE_EXISTING_EXPOSURE'')"

definition RiskIntent_payload :: "RiskIntent \<Rightarrow> hashable" where
  "RiskIntent_payload i = HList
     [HStr (ri_intent_id i), HTime (ri_created_at i), HStr (ri_market_ticker i),
      HStr (ri_event_id i), HStr (ri_correlation_cluster_id i), HStr (ri_rules_version i),
      HStr (ri_rules_hash i), HStr (ri_contract_interpretation_version i),
      HStr (ri_candidate_id i), HStr (ri_forecast_id i),
      HStr (EconomicAction_value (ri_economic_action i)), HStr (ri_outcome_side i),
      HStr (ri_book_side i), hopt HDec (ri_price i), hopt HDec (ri_quantity i),
      hopt HDec (ri_maximum_expected_fee i), hopt HDec (ri_maximum_expected_cash_commitment i),
      hopt HDec (ri_maximum_loss_if_filled i), HStr (ri_order_style i),
      HStr (ri_time_in_force_policy i), hopt HTime (ri_expires_at i), HBool (ri_post_only i),
      HBool (ri_cancel_order_on_pause i), HBool (ri_reduce_only i),
      HStr (ri_self_trade_prevention i), HStr (ri_required_order_group_policy i),
      HStr (ri_client_order_id i), HStr (ri_account i), HInt (ri_subaccount i)]"

definition RiskIntent_post_init :: "RiskIntent \<Rightarrow> RiskIntent result" where
  "RiskIntent_post_init i =
     rbind (validate_money
       [ri_price i, ri_quantity i, ri_maximum_expected_fee i,
        ri_maximum_expected_cash_commitment i, ri_maximum_loss_if_filled i] True)
     (\<lambda>_. if ri_subaccount i \<noteq> 0
           then Inl (RiskDomainError ''risk intent must explicitly use subaccount 0'')
           else Inr i)"

definition RiskIntent_freeze :: "digest_fn \<Rightarrow> RiskIntent \<Rightarrow> RiskIntent result" where
  "RiskIntent_freeze dig i =
     RiskIntent_post_init (i\<lparr>ri_content_hash := dig (RiskIntent_payload i)\<rparr>)"

section \<open>The portfolio snapshot\<close>

record PortfolioRiskSnapshot =
  ps_observed_at :: instant
  ps_account_snapshot_version :: string
  ps_reconciliation_version :: string
  ps_cash :: "decimal option"
  ps_portfolio_value :: "decimal option"
  ps_account_equity :: "decimal option"
  ps_protected_reserve :: decimal
  ps_active_capital_available :: "decimal option"
  ps_current_market_risk :: "decimal option"
  ps_current_event_risk :: "decimal option"
  ps_current_aggregate_risk :: "decimal option"
  ps_resting_order_potential_risk :: "decimal option"
  ps_projected_market_risk :: "decimal option"
  ps_projected_event_risk :: "decimal option"
  ps_projected_aggregate_risk :: "decimal option"
  ps_realized_daily_pnl :: "decimal option"
  ps_realized_weekly_pnl :: "decimal option"
  ps_realized_monthly_pnl :: "decimal option"
  ps_experiment_equity :: "decimal option"
  ps_experiment_high_water_mark :: "decimal option"
  ps_experiment_drawdown :: "decimal option"
  ps_external_positions :: int
  ps_external_orders :: int
  ps_unknown_orders :: int
  ps_account_fresh :: bool
  ps_reconciliation_status :: ReconciliationStatus
  ps_exchange_market_exposure :: "decimal option"
  ps_exchange_event_exposure :: "decimal option"
  ps_independently_calculated_market_exposure :: "decimal option"
  ps_independently_calculated_event_exposure :: "decimal option"
  ps_content_hash :: string

definition PortfolioRiskSnapshot_post_init ::
    "PortfolioRiskSnapshot \<Rightarrow> PortfolioRiskSnapshot result" where
  "PortfolioRiskSnapshot_post_init s =
     rbind (validate_money
       [ps_cash s, ps_portfolio_value s, ps_account_equity s, Some (ps_protected_reserve s),
        ps_active_capital_available s, ps_current_market_risk s, ps_current_event_risk s,
        ps_current_aggregate_risk s, ps_resting_order_potential_risk s,
        ps_projected_market_risk s, ps_projected_event_risk s, ps_projected_aggregate_risk s,
        ps_experiment_equity s, ps_experiment_high_water_mark s, ps_experiment_drawdown s,
        ps_exchange_market_exposure s, ps_exchange_event_exposure s,
        ps_independently_calculated_market_exposure s,
        ps_independently_calculated_event_exposure s] True)
     (\<lambda>_. Inr s)"

definition ReconciliationStatus_value :: "ReconciliationStatus \<Rightarrow> string" where
  "ReconciliationStatus_value s = (case s of
      ReconciliationStatus.RECONCILED \<Rightarrow> ''RECONCILED''
    | ReconciliationStatus.STALE \<Rightarrow> ''STALE''
    | ReconciliationStatus.PARTIAL \<Rightarrow> ''PARTIAL''
    | ReconciliationStatus.MISMATCH \<Rightarrow> ''MISMATCH''
    | ReconciliationStatus.UNKNOWN_ORDER \<Rightarrow> ''UNKNOWN_ORDER''
    | ReconciliationStatus.UNKNOWN_POSITION \<Rightarrow> ''UNKNOWN_POSITION''
    | ReconciliationStatus.AUTH_FAILURE \<Rightarrow> ''AUTH_FAILURE''
    | ReconciliationStatus.API_FAILURE \<Rightarrow> ''API_FAILURE'')"

definition PortfolioRiskSnapshot_payload :: "PortfolioRiskSnapshot \<Rightarrow> hashable" where
  "PortfolioRiskSnapshot_payload s = HList
     ([HTime (ps_observed_at s), HStr (ps_account_snapshot_version s),
       HStr (ps_reconciliation_version s)] @
      map (hopt HDec)
       [ps_cash s, ps_portfolio_value s, ps_account_equity s, Some (ps_protected_reserve s),
        ps_active_capital_available s, ps_current_market_risk s, ps_current_event_risk s,
        ps_current_aggregate_risk s, ps_resting_order_potential_risk s,
        ps_projected_market_risk s, ps_projected_event_risk s, ps_projected_aggregate_risk s,
        ps_realized_daily_pnl s, ps_realized_weekly_pnl s, ps_realized_monthly_pnl s,
        ps_experiment_equity s, ps_experiment_high_water_mark s, ps_experiment_drawdown s] @
      [HInt (ps_external_positions s), HInt (ps_external_orders s), HInt (ps_unknown_orders s),
       HBool (ps_account_fresh s),
       HStr (ReconciliationStatus_value (ps_reconciliation_status s))] @
      map (hopt HDec)
       [ps_exchange_market_exposure s, ps_exchange_event_exposure s,
        ps_independently_calculated_market_exposure s,
        ps_independently_calculated_event_exposure s])"

definition PortfolioRiskSnapshot_freeze ::
    "digest_fn \<Rightarrow> PortfolioRiskSnapshot \<Rightarrow> PortfolioRiskSnapshot result" where
  "PortfolioRiskSnapshot_freeze dig s =
     PortfolioRiskSnapshot_post_init
       (s\<lparr>ps_content_hash := dig (PortfolioRiskSnapshot_payload s)\<rparr>)"

section \<open>Order-group policy and the risk decision\<close>

record RequiredOrderGroupPolicy =
  og_policy_id :: string
  og_required :: bool
  og_expected_subaccount :: int
  og_contract_limit_ceiling :: decimal
  og_group_active :: bool
  og_auto_cancel_ready :: bool

record RiskDecision =
  rd_decision_id :: string
  rd_state :: RiskDecisionState
  rd_intent_hash :: string
  rd_risk_policy_version :: string
  rd_portfolio_state_hash :: string
  rd_reconciliation_version :: string
  rd_rules_version :: string
  rd_market_data_version :: string
  rd_loss_state_version :: string
  rd_compliance_state_version :: string
  rd_kill_state_version :: string
  rd_decided_at :: instant
  rd_expires_at :: instant
  rd_reasons :: "RiskReason list"
  rd_content_hash :: string
  rd_display_result :: string
  rd_production_write_authorized :: bool

definition RiskDecisionState_value :: "RiskDecisionState \<Rightarrow> string" where
  "RiskDecisionState_value s = (case s of
      RiskDecisionState.PASS_NEXT_GATE \<Rightarrow> ''PASS_NEXT_GATE''
    | RiskDecisionState.REJECT \<Rightarrow> ''REJECT''
    | RiskDecisionState.PAUSE \<Rightarrow> ''PAUSE''
    | RiskDecisionState.HALT \<Rightarrow> ''HALT'')"

definition RiskDecision_payload :: "RiskDecision \<Rightarrow> hashable" where
  "RiskDecision_payload d = HList
     [HStr (RiskDecisionState_value (rd_state d)), HStr (rd_intent_hash d),
      HStr (rd_risk_policy_version d), HStr (rd_portfolio_state_hash d),
      HStr (rd_reconciliation_version d), HStr (rd_rules_version d),
      HStr (rd_market_data_version d), HStr (rd_loss_state_version d),
      HStr (rd_compliance_state_version d), HStr (rd_kill_state_version d),
      HTime (rd_decided_at d), HTime (rd_expires_at d),
      HList (map (HStr \<circ> RiskReason_value) (rd_reasons d)), HStr (rd_display_result d),
      HBool (rd_production_write_authorized d)]"

text \<open>\<open>RiskDecision.freeze\<close>: the digest is both the identifier and the content hash.\<close>

definition RiskDecision_freeze :: "digest_fn \<Rightarrow> RiskDecision \<Rightarrow> RiskDecision" where
  "RiskDecision_freeze dig d =
     (let h = dig (RiskDecision_payload d)
      in d\<lparr>rd_decision_id := h, rd_content_hash := h\<rparr>)"

lemma RiskDecision_freeze_simps [simp]:
  "rd_state (RiskDecision_freeze dig d) = rd_state d"
  "rd_reasons (RiskDecision_freeze dig d) = rd_reasons d"
  "rd_intent_hash (RiskDecision_freeze dig d) = rd_intent_hash d"
  "rd_portfolio_state_hash (RiskDecision_freeze dig d) = rd_portfolio_state_hash d"
  "rd_expires_at (RiskDecision_freeze dig d) = rd_expires_at d"
  "rd_decided_at (RiskDecision_freeze dig d) = rd_decided_at d"
  "rd_display_result (RiskDecision_freeze dig d) = rd_display_result d"
  "rd_production_write_authorized (RiskDecision_freeze dig d) =
     rd_production_write_authorized d"
  by (simp_all add: RiskDecision_freeze_def Let_def)

lemma RiskIntent_post_init_ok:
  "RiskIntent_post_init i = Inr j \<longleftrightarrow>
     j = i \<and> ri_subaccount i = 0 \<and> money_ok (ri_price i) \<and> money_ok (ri_quantity i) \<and>
     money_ok (ri_maximum_expected_fee i) \<and>
     money_ok (ri_maximum_expected_cash_commitment i) \<and>
     money_ok (ri_maximum_loss_if_filled i)"
  by (auto simp: RiskIntent_post_init_def rbind_eq_Inr validate_money_ok)

end
