(* ===== verification/Risk_Policy.thy ===== *)
theory Risk_Policy
  imports Risk_Domain
begin

text \<open>
  \<open>services/risk_engine/policy.py\<close> and \<open>services/risk_engine/invariants.py\<close>: the effective-dated
  capital limits, the guard that a policy is never weaker than the canonical one, the readiness
  gate, and the first-generation authorization \<open>authorize_new_risk\<close>. The locale \<open>flag_gate\<close> is
  the contract of every all-flags-must-be-true gate of the program.
\<close>

section \<open>Gates over named flags\<close>

definition missing_flags :: "(string \<times> bool) list \<Rightarrow> string list" where
  "missing_flags fs = map fst (filter (\<lambda>(n, b). \<not> b) fs)"

lemma missing_flags_Nil: "missing_flags fs = [] \<longleftrightarrow> (\<forall>(n, b) \<in> set fs. b)"
  by (auto simp: missing_flags_def filter_empty_conv)

lemma set_missing_flags: "set (missing_flags fs) = {n. (n, False) \<in> set fs}"
  by (force simp: missing_flags_def)

lemma missing_flags_antimono:
  assumes "list_all2 (\<lambda>(n, b) (m, c). n = m \<and> (b \<longrightarrow> c)) fs gs"
  shows "set (missing_flags gs) \<subseteq> set (missing_flags fs)"
  using assms by (induction rule: list_all2_induct) (auto simp: missing_flags_def)

locale flag_gate =
  fixes flags :: "'e \<Rightarrow> (string \<times> bool) list"
    and missing :: "'e \<Rightarrow> string list"
    and clear :: "'e \<Rightarrow> bool"
  assumes missing_eq: "missing e = missing_flags (flags e)"
    and clear_iff: "clear e \<longleftrightarrow> missing e = []"
begin

lemma clear_all_flags: "clear e \<longleftrightarrow> (\<forall>(n, b) \<in> set (flags e). b)"
  by (simp add: clear_iff missing_eq missing_flags_Nil)

lemma one_flag_blocks: "(n, False) \<in> set (flags e) \<Longrightarrow> \<not> clear e \<and> n \<in> set (missing e)"
  by (auto simp: clear_all_flags missing_eq set_missing_flags)

text \<open>Setting more flags never adds a missing gate (the gate is monotone).\<close>

lemma missing_antimono:
  assumes "list_all2 (\<lambda>(n, b) (m, c). n = m \<and> (b \<longrightarrow> c)) (flags e) (flags e')"
  shows "set (missing e') \<subseteq> set (missing e)"
  using missing_flags_antimono [OF assms] by (simp add: missing_eq)

end

section \<open>The capital policy\<close>

record RiskPolicy =
  rp_policy_id :: string
  rp_version :: string
  rp_effective_at :: instant
  rp_predecessor :: "string option"
  rp_bankroll :: decimal
  rp_protected_reserve :: decimal
  rp_active_capital :: decimal
  rp_aggregate_open_risk_limit :: decimal
  rp_market_loss_limit :: decimal
  rp_related_event_risk_limit :: decimal
  rp_daily_loss_stop :: decimal
  rp_weekly_loss_stop :: decimal
  rp_monthly_loss_stop :: decimal
  rp_total_drawdown_stop :: decimal
  rp_risk_timezone :: string
  rp_code_sha :: string
  rp_content_hash :: string

definition RiskPolicy_money :: "RiskPolicy \<Rightarrow> decimal list" where
  "RiskPolicy_money p =
     [rp_bankroll p, rp_protected_reserve p, rp_active_capital p,
      rp_aggregate_open_risk_limit p, rp_market_loss_limit p, rp_related_event_risk_limit p,
      rp_daily_loss_stop p, rp_weekly_loss_stop p, rp_monthly_loss_stop p,
      rp_total_drawdown_stop p]"

definition RiskPolicy_payload :: "RiskPolicy \<Rightarrow> hashable" where
  "RiskPolicy_payload p = HList
     [HStr (rp_policy_id p), HStr (rp_version p), HTime (rp_effective_at p),
      hopt HStr (rp_predecessor p), HList (map HDec (RiskPolicy_money p)),
      HStr (rp_risk_timezone p), HStr (rp_code_sha p)]"

text \<open>
  \<open>__post_init__\<close>: negative money is a \<open>ValueError\<close>; an unknown zone raises in \<open>ZoneInfo\<close>
  (the zone database is the parameter \<open>known_zone\<close>); then the content hash is set.
\<close>

definition RiskPolicy_post_init ::
    "digest_fn \<Rightarrow> (string \<Rightarrow> bool) \<Rightarrow> RiskPolicy \<Rightarrow> RiskPolicy result" where
  "RiskPolicy_post_init dig known_zone p =
     (if list_ex (\<lambda>v. v < 0) (RiskPolicy_money p)
      then Inl (ValueError ''risk policy money must be finite non-negative Decimal'')
      else if \<not> known_zone (rp_risk_timezone p) then Inl KeyError
      else Inr (p\<lparr>rp_content_hash := dig (RiskPolicy_payload p)\<rparr>))"

definition CANONICAL_POLICY :: RiskPolicy where
  "CANONICAL_POLICY = \<lparr>
     rp_policy_id = ''m13-canonical-risk-policy'', rp_version = ''1'',
     rp_effective_at = seconds 1767225600, rp_predecessor = None,
     rp_bankroll = 1000, rp_protected_reserve = 700, rp_active_capital = 300,
     rp_aggregate_open_risk_limit = 100, rp_market_loss_limit = 10,
     rp_related_event_risk_limit = 25, rp_daily_loss_stop = 20, rp_weekly_loss_stop = 50,
     rp_monthly_loss_stop = 100, rp_total_drawdown_stop = 200,
     rp_risk_timezone = ''America/New_York'', rp_code_sha = ''M13'', rp_content_hash = ''''\<rparr>"

text \<open>\<open>select_risk_policy\<close>: the only policy with the latest effective time not after \<open>t\<close>.\<close>

definition select_risk_policy :: "RiskPolicy list \<Rightarrow> instant \<Rightarrow> RiskPolicy result" where
  "select_risk_policy policies t =
     (let eligible = filter (\<lambda>p. rp_effective_at p \<le> t) policies
      in if eligible = []
         then Inl (ValueError ''no risk policy was effective at evaluation time'')
         else let latest = Max (set (map rp_effective_at eligible));
                  matches = filter (\<lambda>p. rp_effective_at p = latest) eligible
              in case matches of
                   [p] \<Rightarrow> Inr p
                 | _ \<Rightarrow> Inl (ValueError ''ambiguous risk policy history''))"

lemma select_risk_policy_Inr:
  assumes "select_risk_policy ps t = Inr p"
  shows "p \<in> set ps \<and> rp_effective_at p \<le> t \<and>
    (\<forall>q \<in> set ps. rp_effective_at q \<le> t \<longrightarrow> rp_effective_at q \<le> rp_effective_at p) \<and>
    length (filter (\<lambda>q. rp_effective_at q = rp_effective_at p) ps) = 1"
proof -
  let ?el = "filter (\<lambda>p. rp_effective_at p \<le> t) ps"
  let ?m = "Max (set (map rp_effective_at ?el))"
  from assms have single: "filter (\<lambda>p. rp_effective_at p = ?m) ?el = [p]"
    by (auto simp: select_risk_policy_def Let_def split: if_splits list.splits)
  then have "p \<in> set (filter (\<lambda>p. rp_effective_at p = ?m) ?el)" by simp
  then have p: "p \<in> set ps" "rp_effective_at p \<le> t" "rp_effective_at p = ?m" by auto
  have le: "rp_effective_at q \<le> ?m" if "q \<in> set ps" "rp_effective_at q \<le> t" for q
    using that by (intro Max_ge) auto
  have "filter (\<lambda>q. rp_effective_at q = rp_effective_at p) ps =
        filter (\<lambda>p. rp_effective_at p = ?m) ?el"
    using p by (simp only: filter_filter) (rule filter_cong, auto)
  with single have "length (filter (\<lambda>q. rp_effective_at q = rp_effective_at p) ps) = 1" by simp
  with p le show ?thesis by auto
qed

section \<open>A policy is never weaker than the canonical one\<close>

definition maximum_fields :: "(string \<times> (RiskPolicy \<Rightarrow> decimal)) list" where
  "maximum_fields =
     [(''active_capital'', rp_active_capital),
      (''aggregate_open_risk_limit'', rp_aggregate_open_risk_limit),
      (''market_loss_limit'', rp_market_loss_limit),
      (''related_event_risk_limit'', rp_related_event_risk_limit),
      (''daily_loss_stop'', rp_daily_loss_stop),
      (''weekly_loss_stop'', rp_weekly_loss_stop),
      (''monthly_loss_stop'', rp_monthly_loss_stop),
      (''total_drawdown_stop'', rp_total_drawdown_stop)]"

definition validate_policy_is_not_weaker :: "RiskPolicy \<Rightarrow> unit result" where
  "validate_policy_is_not_weaker p =
     (if rp_bankroll p \<noteq> rp_bankroll CANONICAL_POLICY
      then Inl (RiskInvariantError ''bankroll policy cannot be adapted'')
      else if rp_protected_reserve p < rp_protected_reserve CANONICAL_POLICY
      then Inl (RiskInvariantError ''protected reserve cannot be reduced'')
      else case find (\<lambda>(name, get). get p > get CANONICAL_POLICY) maximum_fields of
             Some (name, get) \<Rightarrow>
               Inl (RiskInvariantError (''hard maximum cannot increase: '' @ name))
           | None \<Rightarrow> Inr ())"

text \<open>The order of policies the guard enforces: every hard maximum is at most the canonical one.\<close>

definition not_weaker :: "RiskPolicy \<Rightarrow> bool" where
  "not_weaker p \<longleftrightarrow> rp_bankroll p = 1000 \<and> 700 \<le> rp_protected_reserve p \<and>
     rp_active_capital p \<le> 300 \<and> rp_aggregate_open_risk_limit p \<le> 100 \<and>
     rp_market_loss_limit p \<le> 10 \<and> rp_related_event_risk_limit p \<le> 25 \<and>
     rp_daily_loss_stop p \<le> 20 \<and> rp_weekly_loss_stop p \<le> 50 \<and>
     rp_monthly_loss_stop p \<le> 100 \<and> rp_total_drawdown_stop p \<le> 200"

lemma validate_policy_ok: "validate_policy_is_not_weaker p = Inr () \<longleftrightarrow> not_weaker p"
  by (auto simp: validate_policy_is_not_weaker_def not_weaker_def maximum_fields_def
      CANONICAL_POLICY_def)

lemma validate_policy_cases:
  "validate_policy_is_not_weaker p = Inr () \<or>
   (\<exists>m. validate_policy_is_not_weaker p = Inl (RiskInvariantError m))"
  by (auto simp: validate_policy_is_not_weaker_def split: option.splits)

lemma not_weaker_canonical: "not_weaker CANONICAL_POLICY"
  by (simp add: not_weaker_def CANONICAL_POLICY_def)

definition decimal_risk_values :: "RiskPolicy \<Rightarrow> decimal list" where
  "decimal_risk_values p = RiskPolicy_money p"

section \<open>Authorizing new risk\<close>

record RiskRequest =
  rq_incremental_market_loss :: decimal
  rq_current_market_risk :: decimal
  rq_current_event_risk :: decimal
  rq_current_open_risk :: decimal
  rq_daily_loss :: decimal
  rq_weekly_loss :: decimal
  rq_monthly_loss :: decimal
  rq_total_drawdown :: decimal
  rq_data_fresh :: bool
  rq_reconciled :: bool
  rq_globally_halted :: bool

text \<open>\<open>RiskDecision(authorized, reason)\<close> of this module is a pair.\<close>

fun first_exceeded :: "(decimal \<times> decimal \<times> string) list \<Rightarrow> bool \<times> string" where
  "first_exceeded [] = (True, ''all deterministic risk checks passed'')"
| "first_exceeded ((observed, maximum, reason) # cs) =
     (if observed \<ge> maximum then (False, reason) else first_exceeded cs)"

definition authorize_new_risk ::
    "RiskRequest \<Rightarrow> RiskPolicy option \<Rightarrow> (bool \<times> string) result" where
  "authorize_new_risk r policy =
     (let limits = (case policy of None \<Rightarrow> CANONICAL_POLICY | Some p \<Rightarrow> p)
      in rbind (validate_policy_is_not_weaker limits) (\<lambda>_. Inr
        (if rq_globally_halted r then (False, ''global halt is active'')
         else if \<not> rq_data_fresh r then (False, ''market data is stale or unverified'')
         else if \<not> rq_reconciled r then (False, ''portfolio is not reconciled'')
         else if rq_incremental_market_loss r \<le> 0
         then (False, ''incremental loss must be positive'')
         else first_exceeded
           [(rq_current_market_risk r + rq_incremental_market_loss r,
             rp_market_loss_limit limits, ''market loss cap''),
            (rq_current_event_risk r + rq_incremental_market_loss r,
             rp_related_event_risk_limit limits, ''related-event cap''),
            (rq_current_open_risk r + rq_incremental_market_loss r,
             rp_aggregate_open_risk_limit limits, ''aggregate open-risk cap''),
            (rq_daily_loss r, rp_daily_loss_stop limits, ''daily loss stop''),
            (rq_weekly_loss r, rp_weekly_loss_stop limits, ''weekly loss stop''),
            (rq_monthly_loss r, rp_monthly_loss_stop limits, ''monthly loss stop''),
            (rq_total_drawdown r, rp_total_drawdown_stop limits, ''total drawdown stop'')])))"

lemma first_exceeded_True:
  "fst (first_exceeded cs) \<longleftrightarrow> (\<forall>(obs, mx, why) \<in> set cs. obs < mx)"
  by (induction cs rule: first_exceeded.induct) auto

lemma authorize_new_risk_iff:
  "authorize_new_risk r (Some p) = Inr (True, why) \<longleftrightarrow>
     not_weaker p \<and> why = ''all deterministic risk checks passed'' \<and>
     \<not> rq_globally_halted r \<and> rq_data_fresh r \<and> rq_reconciled r \<and>
     0 < rq_incremental_market_loss r \<and>
     rq_current_market_risk r + rq_incremental_market_loss r < rp_market_loss_limit p \<and>
     rq_current_event_risk r + rq_incremental_market_loss r < rp_related_event_risk_limit p \<and>
     rq_current_open_risk r + rq_incremental_market_loss r < rp_aggregate_open_risk_limit p \<and>
     rq_daily_loss r < rp_daily_loss_stop p \<and> rq_weekly_loss r < rp_weekly_loss_stop p \<and>
     rq_monthly_loss r < rp_monthly_loss_stop p \<and>
     rq_total_drawdown r < rp_total_drawdown_stop p"
  unfolding authorize_new_risk_def
  by (auto simp: rbind_eq_Inr validate_policy_ok not_le)

section \<open>The readiness gate\<close>

record NewRiskReadiness =
  nr_market_active :: bool
  nr_market_not_provisional :: bool
  nr_rules_valid :: bool
  nr_semantics_valid :: bool
  nr_settlement_source_known :: bool
  nr_payout_supported :: bool
  nr_price_structure_supported :: bool
  nr_quantity_structure_supported :: bool
  nr_sources_healthy :: bool
  nr_data_fresh :: bool
  nr_book_valid :: bool
  nr_account_fresh :: bool
  nr_no_material_gap :: bool
  nr_api_compatible :: bool
  nr_model_valid :: bool
  nr_calibrator_valid :: bool
  nr_frozen_forecast :: bool
  nr_uncertainty_valid :: bool
  nr_forecast_non_abstaining :: bool
  nr_forecast_rules_match :: bool
  nr_price_valid :: bool
  nr_quantity_valid :: bool
  nr_after_cost_value_valid :: bool
  nr_fee_verified :: bool
  nr_slippage_acceptable :: bool
  nr_exposure_known :: bool
  nr_reserve_preserved :: bool
  nr_loss_limits_clear :: bool
  nr_reconciled :: bool
  nr_no_unknown_orders :: bool
  nr_kill_switches_clear :: bool
  nr_compliance_clear :: bool
  nr_order_group_valid :: bool
  nr_client_id_valid :: bool
  nr_authorization_available :: bool

definition NewRiskReadiness_fields :: "NewRiskReadiness \<Rightarrow> (string \<times> bool) list" where
  "NewRiskReadiness_fields r =
     [(''market_active'', nr_market_active r),
      (''market_not_provisional'', nr_market_not_provisional r),
      (''rules_valid'', nr_rules_valid r),
      (''semantics_valid'', nr_semantics_valid r),
      (''settlement_source_known'', nr_settlement_source_known r),
      (''payout_supported'', nr_payout_supported r),
      (''price_structure_supported'', nr_price_structure_supported r),
      (''quantity_structure_supported'', nr_quantity_structure_supported r),
      (''sources_healthy'', nr_sources_healthy r),
      (''data_fresh'', nr_data_fresh r),
      (''book_valid'', nr_book_valid r),
      (''account_fresh'', nr_account_fresh r),
      (''no_material_gap'', nr_no_material_gap r),
      (''api_compatible'', nr_api_compatible r),
      (''model_valid'', nr_model_valid r),
      (''calibrator_valid'', nr_calibrator_valid r),
      (''frozen_forecast'', nr_frozen_forecast r),
      (''uncertainty_valid'', nr_uncertainty_valid r),
      (''forecast_non_abstaining'', nr_forecast_non_abstaining r),
      (''forecast_rules_match'', nr_forecast_rules_match r),
      (''price_valid'', nr_price_valid r),
      (''quantity_valid'', nr_quantity_valid r),
      (''after_cost_value_valid'', nr_after_cost_value_valid r),
      (''fee_verified'', nr_fee_verified r),
      (''slippage_acceptable'', nr_slippage_acceptable r),
      (''exposure_known'', nr_exposure_known r),
      (''reserve_preserved'', nr_reserve_preserved r),
      (''loss_limits_clear'', nr_loss_limits_clear r),
      (''reconciled'', nr_reconciled r),
      (''no_unknown_orders'', nr_no_unknown_orders r),
      (''kill_switches_clear'', nr_kill_switches_clear r),
      (''compliance_clear'', nr_compliance_clear r),
      (''order_group_valid'', nr_order_group_valid r),
      (''client_id_valid'', nr_client_id_valid r),
      (''authorization_available'', nr_authorization_available r)]"

datatype GateState = READY_FOR_DETERMINISTIC_EVALUATION | GATE_REJECT

record GateReadinessDecision =
  gr_state :: GateState
  gr_rejection_reasons :: "string list"
  gr_production_write_authorized :: bool

definition evaluate_readiness :: "NewRiskReadiness \<Rightarrow> GateReadinessDecision" where
  "evaluate_readiness r =
     (let missing = missing_flags (NewRiskReadiness_fields r);
          state = (if missing = [] then READY_FOR_DETERMINISTIC_EVALUATION else GATE_REJECT)
      in \<lparr>gr_state = state, gr_rejection_reasons = missing,
          gr_production_write_authorized = False\<rparr>)"

definition READINESS_REASONS :: "(string \<times> RiskReason) list" where
  "READINESS_REASONS =
     [(''market_active'', RiskReason.MARKET_INACTIVE),
      (''market_not_provisional'', RiskReason.MARKET_PROVISIONAL),
      (''rules_valid'', RiskReason.RULES_MISMATCH),
      (''semantics_valid'', RiskReason.CONTRACT_AMBIGUOUS),
      (''settlement_source_known'', RiskReason.SETTLEMENT_UNKNOWN),
      (''payout_supported'', RiskReason.RISK_UNCOMPUTABLE),
      (''price_structure_supported'', RiskReason.PRICE_STRUCTURE_UNSUPPORTED),
      (''quantity_structure_supported'', RiskReason.QUANTITY_STRUCTURE_UNSUPPORTED),
      (''sources_healthy'', RiskReason.SOURCE_UNHEALTHY),
      (''data_fresh'', RiskReason.DATA_STALE),
      (''book_valid'', RiskReason.BOOK_GAP),
      (''account_fresh'', RiskReason.ACCOUNT_STALE),
      (''no_material_gap'', RiskReason.BOOK_GAP),
      (''api_compatible'', RiskReason.API_COMPATIBILITY_FAILURE),
      (''model_valid'', RiskReason.MODEL_NOT_ELIGIBLE),
      (''calibrator_valid'', RiskReason.CALIBRATOR_NOT_ELIGIBLE),
      (''frozen_forecast'', RiskReason.MODEL_NOT_ELIGIBLE),
      (''uncertainty_valid'', RiskReason.MODEL_NOT_ELIGIBLE),
      (''forecast_non_abstaining'', RiskReason.FORECAST_ABSTAINED),
      (''forecast_rules_match'', RiskReason.RULES_MISMATCH),
      (''price_valid'', RiskReason.RISK_UNCOMPUTABLE),
      (''quantity_valid'', RiskReason.RISK_UNCOMPUTABLE),
      (''after_cost_value_valid'', RiskReason.AFTER_COST_GATE_FAILED),
      (''fee_verified'', RiskReason.FEE_UNVERIFIED),
      (''slippage_acceptable'', RiskReason.AFTER_COST_GATE_FAILED),
      (''exposure_known'', RiskReason.RISK_UNCOMPUTABLE),
      (''reserve_preserved'', RiskReason.RESERVE_STATE_UNCERTAIN),
      (''loss_limits_clear'', RiskReason.DAILY_LOSS_STOP),
      (''reconciled'', RiskReason.ACCOUNT_NOT_RECONCILED),
      (''no_unknown_orders'', RiskReason.UNKNOWN_ORDER),
      (''kill_switches_clear'', RiskReason.PORTFOLIO_KILL),
      (''compliance_clear'', RiskReason.COMPLIANCE_HOLD),
      (''order_group_valid'', RiskReason.ORDER_GROUP_UNAVAILABLE),
      (''client_id_valid'', RiskReason.DUPLICATE_CLIENT_ORDER_ID),
      (''authorization_available'', RiskReason.AUTHORIZATION_UNAVAILABLE)]"

text \<open>
  The loop over \<open>READINESS_REASONS\<close>: \<open>getattr(readiness, name) is not True\<close> adds the reason.
\<close>

definition readiness_reasons :: "NewRiskReadiness \<Rightarrow> RiskReason list" where
  "readiness_reasons r =
     map snd (filter (\<lambda>(name, reason). map_of (NewRiskReadiness_fields r) name \<noteq> Some True)
                READINESS_REASONS)"

interpretation readiness_gate: flag_gate
  NewRiskReadiness_fields "\<lambda>r. gr_rejection_reasons (evaluate_readiness r)"
  "\<lambda>r. gr_state (evaluate_readiness r) = READY_FOR_DETERMINISTIC_EVALUATION"
  by unfold_locales (simp_all add: evaluate_readiness_def Let_def)

lemma READINESS_REASONS_names: "map fst READINESS_REASONS = map fst (NewRiskReadiness_fields r)"
  by (simp add: READINESS_REASONS_def NewRiskReadiness_fields_def)

lemma READINESS_names_distinct: "distinct (map fst READINESS_REASONS)"
  by code_simp

lemma map_of_all_True:
  assumes "distinct (map fst fs)"
  shows "(\<forall>n \<in> set (map fst fs). map_of fs n = Some True) \<longleftrightarrow> (\<forall>(n, b) \<in> set fs. b)"
proof -
  have look: "map_of fs (fst x) = Some (snd x)" if "x \<in> set fs" for x
    using that assms by simp
  show ?thesis by (simp add: case_prod_beta look)
qed

lemma readiness_reasons_Nil:
  "readiness_reasons r = [] \<longleftrightarrow> (\<forall>(n, b) \<in> set (NewRiskReadiness_fields r). b)"
proof -
  let ?fs = "NewRiskReadiness_fields r"
  have "readiness_reasons r = [] \<longleftrightarrow>
      (\<forall>n \<in> set (map fst READINESS_REASONS). map_of ?fs n = Some True)"
    by (simp add: readiness_reasons_def filter_empty_conv case_prod_beta)
  also have "\<dots> \<longleftrightarrow> (\<forall>(n, b) \<in> set ?fs. b)"
    unfolding READINESS_REASONS_names [of r]
    using READINESS_names_distinct
    by (intro map_of_all_True) (simp add: READINESS_REASONS_names [of r])
  finally show ?thesis .
qed

end
