(* ===== verification/Calendar.thy ===== *)
theory Calendar
  imports Prelude
begin

text \<open>
  The parts of Python's \<open>datetime\<close> that the services use on dates: proleptic Gregorian
  ordinals, \<open>weekday\<close>, \<open>replace(day=1)\<close> and \<open>isoformat\<close> of a UTC instant. A \<open>date\<close> is its
  ordinal (day 1 is 0001-01-01), so \<open>date - timedelta(days=n)\<close> is a subtraction.
\<close>

type_synonym date = int

definition days_before_month :: "int list" where
  "days_before_month = [0, 0, 31, 59, 90, 120, 151, 181, 212, 243, 273, 304, 334]"

definition is_leap :: "int \<Rightarrow> bool" where
  "is_leap y \<longleftrightarrow> y mod 4 = 0 \<and> (y mod 100 \<noteq> 0 \<or> y mod 400 = 0)"

text \<open>The year of an ordinal, the zero-based day of that year, and whether it is a leap year.\<close>

definition year_day :: "date \<Rightarrow> int \<times> int \<times> bool" where
  "year_day d =
     (let n = d - 1; n400 = n div 146097; n = n mod 146097;
          n100 = n div 36524; n = n mod 36524;
          n4 = n div 1461; n = n mod 1461;
          n1 = n div 365; n = n mod 365;
          year = n400 * 400 + 1 + n100 * 100 + n4 * 4 + n1
      in if n1 = 4 \<or> n100 = 4 then (year - 1, 365, True)
         else (year, n, n1 = 3 \<and> (n4 \<noteq> 24 \<or> n100 = 3)))"

definition month_day :: "int \<Rightarrow> bool \<Rightarrow> int \<times> int" where
  "month_day n leap =
     (let month = (n + 50) div 32;
          before = (\<lambda>m. days_before_month ! nat m + (if m > 2 \<and> leap then 1 else 0));
          month = (if before month > n then month - 1 else month)
      in (month, n - before month + 1))"

definition ymd :: "date \<Rightarrow> int \<times> int \<times> int" where
  "ymd d = (let (y, n, leap) = year_day d; (m, dd) = month_day n leap in (y, m, dd))"

definition weekday :: "date \<Rightarrow> int" where
  "weekday d = (d + 6) mod 7"

definition first_of_month :: "date \<Rightarrow> date" where
  "first_of_month d = (let (y, m, dd) = ymd d in d - (dd - 1))"

lemma weekday_bounds: "0 \<le> weekday d \<and> weekday d \<le> 6"
  by (simp add: weekday_def)

lemma week_start_monday: "weekday (d - weekday d) = 0"
  by (simp add: weekday_def) presburger

section \<open>Rendering of instants\<close>

fun digits :: "nat \<Rightarrow> nat \<Rightarrow> string" where
  "digits 0 n = []"
| "digits (Suc w) n = digits w (n div 10) @ [char_of (48 + n mod 10)]"

fun show_nat :: "nat \<Rightarrow> string" where
  "show_nat n = (if n < 10 then [char_of (48 + n)] else show_nat (n div 10) @ [char_of (48 + n mod 10)])"

declare show_nat.simps [simp del]

definition epoch_ordinal :: date where
  "epoch_ordinal = 719163"

definition isoformat :: "instant \<Rightarrow> string" where
  "isoformat t =
     (let us = t mod 1000000; s = t div 1000000; d = s div 86400; tod = s mod 86400;
          (y, m, dd) = ymd (d + epoch_ordinal)
      in digits 4 (nat y) @ ''-'' @ digits 2 (nat m) @ ''-'' @ digits 2 (nat dd) @ ''T'' @
         digits 2 (nat (tod div 3600)) @ '':'' @ digits 2 (nat (tod div 60 mod 60)) @ '':'' @
         digits 2 (nat (tod mod 60)) @ (if us = 0 then '''' else ''.'' @ digits 6 (nat us)) @
         ''+00:00'')"

end
