(* ===== verification/Risk_Ledger.thy ===== *)
theory Risk_Ledger
  imports Risk_Policy Calendar
begin

text \<open>
  \<open>services/risk_engine/ledger.py\<close> and \<open>services/risk_engine/reconciliation.py\<close>: the experiment
  capital ledger, the active-capital bound, the conservative full-fill projection, and the
  subaccount-0 reconciliation.
\<close>

section \<open>The experiment capital ledger\<close>

datatype LedgerEntryType =
    CASH_COMMITTED | REALIZED_PNL | FEE | SETTLEMENT | OPEN_POSITION | PENDING_ORDER

record LedgerEntry =
  le_entry_id :: string
  le_happened_at :: instant
  le_entry_type :: LedgerEntryType
  le_amount :: decimal
  le_ownership :: Ownership
  le_source_reference :: string
  le_correction_of :: "string option"
  le_simulation :: bool

record ExperimentCapitalLedger =
  el_starting_experiment_capital :: decimal
  el_experiment_cash_committed :: decimal
  el_experiment_realized_pnl :: decimal
  el_experiment_fees :: decimal
  el_experiment_settlements :: decimal
  el_open_experiment_positions :: decimal
  el_pending_experiment_orders :: decimal
  el_experiment_equity :: decimal
  el_high_water_mark :: decimal
  el_drawdown :: decimal
  el_entry_ids :: "string list"

text \<open>The loop of \<open>build\<close>: \<open>seen\<close> and the \<open>totals\<close> dictionary are its state.\<close>

fun ledger_loop :: "LedgerEntry list \<Rightarrow> string list \<Rightarrow> (LedgerEntryType \<Rightarrow> decimal) \<Rightarrow>
    (string list \<times> (LedgerEntryType \<Rightarrow> decimal)) result" where
  "ledger_loop [] seen totals = Inr (seen, totals)"
| "ledger_loop (e # es) seen totals =
     (if le_entry_id e \<in> set seen then Inl (RiskDomainError ''duplicate ledger entry'')
      else let seen = le_entry_id e # seen in
        if le_simulation e then ledger_loop es seen totals
        else if le_ownership e \<noteq> Ownership.BOT_OWNED then ledger_loop es seen totals
        else ledger_loop es seen
          (totals(le_entry_type e := totals (le_entry_type e) + le_amount e)))"

definition ledger_build ::
    "LedgerEntry list \<Rightarrow> decimal \<Rightarrow> decimal option \<Rightarrow> ExperimentCapitalLedger result" where
  "ledger_build entries starting prior =
     rbind (ledger_loop entries [] (\<lambda>_. 0)) (\<lambda>(seen, totals).
       let equity = starting + totals REALIZED_PNL - totals FEE + totals SETTLEMENT;
           prior_or = (case prior of None \<Rightarrow> starting
                       | Some p \<Rightarrow> if p = 0 then starting else p);
           high = max (max starting prior_or) equity
       in Inr \<lparr>el_starting_experiment_capital = starting,
               el_experiment_cash_committed = totals CASH_COMMITTED,
               el_experiment_realized_pnl = totals REALIZED_PNL,
               el_experiment_fees = totals FEE,
               el_experiment_settlements = totals SETTLEMENT,
               el_open_experiment_positions = totals OPEN_POSITION,
               el_pending_experiment_orders = totals PENDING_ORDER,
               el_experiment_equity = equity, el_high_water_mark = high,
               el_drawdown = high - equity, el_entry_ids = py_sorted seen\<rparr>)"

text \<open>The declarative reading: the total of a kind sums the bot's own non-simulated entries.\<close>

definition counts :: "LedgerEntryType \<Rightarrow> LedgerEntry \<Rightarrow> bool" where
  "counts k e \<longleftrightarrow> \<not> le_simulation e \<and> le_ownership e = Ownership.BOT_OWNED \<and> le_entry_type e = k"

definition ledger_total :: "LedgerEntryType \<Rightarrow> LedgerEntry list \<Rightarrow> decimal" where
  "ledger_total k es = dsum (map le_amount (filter (counts k) es))"

lemma ledger_loop_ok:
  "ledger_loop es seen totals = Inr (seen', totals') \<longleftrightarrow>
     distinct (map le_entry_id es) \<and> set (map le_entry_id es) \<inter> set seen = {} \<and>
     seen' = rev (map le_entry_id es) @ seen \<and>
     totals' = (\<lambda>k. totals k + ledger_total k es)"
proof (induction es arbitrary: seen totals)
  case Nil
  then show ?case by (auto simp: ledger_total_def)
next
  case (Cons e es)
  have tot: "(\<lambda>k. totals k + ledger_total k (e # es)) =
      (if \<not> le_simulation e \<and> le_ownership e = Ownership.BOT_OWNED
       then (\<lambda>k. (totals(le_entry_type e := totals (le_entry_type e) + le_amount e)) k
                   + ledger_total k es)
       else (\<lambda>k. totals k + ledger_total k es))"
    by (auto simp: ledger_total_def counts_def fun_eq_iff)
  show ?case
    unfolding tot by (auto simp: Cons.IH Let_def)
qed

lemma ledger_loop_error:
  "ledger_loop es seen totals = Inl e \<longleftrightarrow> e = RiskDomainError ''duplicate ledger entry'' \<and>
     \<not> (distinct (map le_entry_id es) \<and> set (map le_entry_id es) \<inter> set seen = {})"
  by (induction es arbitrary: seen totals) (auto simp: Let_def)

lemma ledger_build_ok:
  assumes "ledger_build es starting prior = Inr l"
  shows "distinct (map le_entry_id es)"
    and "el_experiment_equity l = starting + ledger_total REALIZED_PNL es
           - ledger_total FEE es + ledger_total SETTLEMENT es"
    and "el_drawdown l = el_high_water_mark l - el_experiment_equity l"
    and "el_experiment_equity l \<le> el_high_water_mark l"
    and "starting \<le> el_high_water_mark l"
    and "prior = Some p \<Longrightarrow> p \<le> el_high_water_mark l \<or> p = 0"
    and "set (el_entry_ids l) = set (map le_entry_id es)"
  using assms
  by (auto simp: ledger_build_def rbind_eq_Inr ledger_loop_ok Let_def le_max_iff_disj
      split: option.splits if_splits)

lemma ledger_build_total: "(\<exists>l. ledger_build es starting prior = Inr l) \<longleftrightarrow>
    distinct (map le_entry_id es)"
proof -
  have "(\<exists>l. ledger_build es starting prior = Inr l) \<longleftrightarrow>
      (\<exists>x. ledger_loop es [] (\<lambda>_. 0) = Inr x)"
    by (auto simp: ledger_build_def rbind_eq_Inr Let_def)
  also have "\<dots> \<longleftrightarrow> distinct (map le_entry_id es)"
    by (simp add: split_paired_Ex ledger_loop_ok)
  finally show ?thesis .
qed

section \<open>Active capital and the full-fill projection\<close>

definition available_active_capital ::
    "decimal \<Rightarrow> decimal \<Rightarrow> decimal \<Rightarrow> RiskPolicy \<Rightarrow> decimal" where
  "available_active_capital account_equity committed pending_commitments policy =
     (let unprotected = max 0 (account_equity - rp_protected_reserve policy)
      in max 0 (min (rp_active_capital policy) unprotected - committed - pending_commitments))"

record ExposureProjection =
  ep_market_risk :: decimal
  ep_event_risk :: decimal
  ep_aggregate_risk :: decimal
  ep_cash_commitment :: decimal
  ep_risk_reducing :: bool

definition project_full_fill ::
    "RiskIntent \<Rightarrow> decimal \<Rightarrow> decimal \<Rightarrow> decimal \<Rightarrow> decimal \<Rightarrow> decimal \<Rightarrow> decimal \<Rightarrow> bool \<Rightarrow>
     ExposureProjection result" where
  "project_full_fill intent cur_market cur_event cur_aggregate
     rest_market rest_event rest_aggregate directional_liability_increases =
     (case (ri_maximum_loss_if_filled intent, ri_maximum_expected_cash_commitment intent) of
        (Some loss_if_filled, Some commitment) \<Rightarrow>
          (let base_market = cur_market + rest_market;
               base_event = cur_event + rest_event;
               base_aggregate = cur_aggregate + rest_aggregate;
               reduce = (ri_economic_action intent = EconomicAction.REDUCE_EXISTING_EXPOSURE);
               after = (\<lambda>base. if reduce then max 0 (base - loss_if_filled) else base + loss_if_filled);
               market = after base_market; event = after base_event;
               aggregate = after base_aggregate;
               reducing = (reduce \<and> ri_reduce_only intent \<and>
                 \<not> directional_liability_increases \<and> market \<le> base_market \<and>
                 event \<le> base_event \<and> aggregate \<le> base_aggregate)
           in Inr \<lparr>ep_market_risk = market, ep_event_risk = event,
                   ep_aggregate_risk = aggregate, ep_cash_commitment = commitment,
                   ep_risk_reducing = reducing\<rparr>)
      | _ \<Rightarrow> Inl (RiskDomainError ''intent risk and commitment are required''))"

lemma project_full_fill_reducing:
  assumes "project_full_fill i cm ce ca rm re ra dir = Inr pr" and "ep_risk_reducing pr"
  shows "ep_market_risk pr \<le> cm + rm" and "ep_event_risk pr \<le> ce + re"
    and "ep_aggregate_risk pr \<le> ca + ra" and "ri_reduce_only i" and "\<not> dir"
    and "ri_economic_action i = EconomicAction.REDUCE_EXISTING_EXPOSURE"
  using assms by (auto simp: project_full_fill_def Let_def split: option.splits)

lemma project_full_fill_opening:
  assumes "project_full_fill i cm ce ca rm re ra dir = Inr pr"
    and "ri_economic_action i \<noteq> EconomicAction.REDUCE_EXISTING_EXPOSURE"
  shows "ep_market_risk pr = cm + rm + the (ri_maximum_loss_if_filled i)"
    and "ep_event_risk pr = ce + re + the (ri_maximum_loss_if_filled i)"
    and "ep_aggregate_risk pr = ca + ra + the (ri_maximum_loss_if_filled i)"
    and "\<not> ep_risk_reducing pr"
  using assms by (auto simp: project_full_fill_def Let_def split: option.splits)

section \<open>Reconciliation\<close>

record AccountRiskItem =
  ai_stable_id :: string
  ai_subaccount :: int
  ai_kind :: string
  ai_ownership :: Ownership
  ai_market_ticker :: string
  ai_event_id :: string
  ai_maximum_loss :: decimal
  ai_client_order_id :: "string option"

record ReconciliationInput =
  rc_observed_at :: instant
  rc_balance_complete :: bool
  rc_positions_complete :: bool
  rc_orders_complete :: bool
  rc_fills_complete :: bool
  rc_settlements_complete :: bool
  rc_ledger_complete :: bool
  rc_bot_client_ids_complete :: bool
  rc_api_authenticated :: bool
  rc_api_healthy :: bool
  rc_items :: "AccountRiskItem list"
  rc_exchange_market_exposure :: "decimal option"
  rc_calculated_market_exposure :: "decimal option"
  rc_exchange_event_exposure :: "decimal option"
  rc_calculated_event_exposure :: "decimal option"

record ReconciliationResult =
  rr_version :: string
  rr_status :: ReconciliationStatus
  rr_scoped_items :: "AccountRiskItem list"
  rr_unknown_orders :: nat
  rr_unknown_positions :: nat
  rr_issues :: "string list"

text \<open>One round of the loop over the exposure pairs.\<close>

fun reconcile_pair :: "decimal \<Rightarrow> decimal option \<times> decimal option \<times> string \<Rightarrow>
    ReconciliationStatus \<times> string list \<Rightarrow> ReconciliationStatus \<times> string list" where
  "reconcile_pair tol (Some x, Some c, lbl) (status, issues) =
     (if \<bar>x - c\<bar> > tol
      then (ReconciliationStatus.MISMATCH, issues @ [''EXPOSURE_RECONCILIATION_MISMATCH''])
      else (status, issues))"
| "reconcile_pair tol (x, c, lbl) (status, issues) =
     (if status = ReconciliationStatus.RECONCILED then ReconciliationStatus.PARTIAL else status,
      issues @ [lbl @ ''_EXPOSURE_UNAVAILABLE''])"

text \<open>The status before the holds: the first failing check decides.\<close>

definition base_status :: "ReconciliationInput \<Rightarrow> instant \<Rightarrow> duration \<Rightarrow> ReconciliationStatus" where
  "base_status v now max_age =
     (if \<not> rc_api_authenticated v then ReconciliationStatus.AUTH_FAILURE
      else if \<not> rc_api_healthy v then ReconciliationStatus.API_FAILURE
      else if now - rc_observed_at v > max_age then ReconciliationStatus.STALE
      else if \<not> (rc_balance_complete v \<and> rc_positions_complete v \<and>
         rc_orders_complete v \<and> rc_fills_complete v \<and> rc_settlements_complete v \<and>
         rc_ledger_complete v \<and> rc_bot_client_ids_complete v)
      then ReconciliationStatus.PARTIAL
      else ReconciliationStatus.RECONCILED)"

definition unknown_count :: "string \<Rightarrow> AccountRiskItem list \<Rightarrow> nat" where
  "unknown_count kind scoped = length (filter
     (\<lambda>i. ai_kind i = kind \<and> ai_ownership i = Ownership.EXTERNAL_UNKNOWN) scoped)"

text \<open>The two holds on unknown items: the later assignment to \<open>status\<close> wins.\<close>

definition unknown_holds :: "nat \<Rightarrow> nat \<Rightarrow> ReconciliationStatus \<Rightarrow>
    ReconciliationStatus \<times> string list" where
  "unknown_holds orders positions status0 =
     (let (status1, issues1) = (if orders \<noteq> 0
             then (ReconciliationStatus.UNKNOWN_ORDER, [''UNKNOWN_ORDER_HOLD''])
             else (status0, []))
      in if positions \<noteq> 0
         then (ReconciliationStatus.UNKNOWN_POSITION, issues1 @ [''EXTERNAL_POSITION_HOLD''])
         else (status1, issues1))"

definition exposure_pairs ::
    "ReconciliationInput \<Rightarrow> (decimal option \<times> decimal option \<times> string) list" where
  "exposure_pairs v =
     [(rc_exchange_market_exposure v, rc_calculated_market_exposure v, ''MARKET''),
      (rc_exchange_event_exposure v, rc_calculated_event_exposure v, ''EVENT'')]"

definition reconcile :: "ReconciliationInput \<Rightarrow> instant \<Rightarrow> duration \<Rightarrow> decimal \<Rightarrow>
    ReconciliationResult" where
  "reconcile v now max_age tol =
     (let scoped = filter (\<lambda>i. ai_subaccount i = 0) (rc_items v);
          orders = unknown_count ''ORDER'' scoped;
          positions = unknown_count ''POSITION'' scoped;
          (status, issues) = fold (reconcile_pair tol) (exposure_pairs v)
             (unknown_holds orders positions (base_status v now max_age));
          version = ''reconcile:'' @ isoformat (rc_observed_at v) @ '':'' @
             show_nat (length scoped) @ '':'' @ ReconciliationStatus_value status
      in \<lparr>rr_version = version, rr_status = status, rr_scoped_items = scoped,
          rr_unknown_orders = orders, rr_unknown_positions = positions, rr_issues = issues\<rparr>)"

text \<open>Two exposures agree within the tolerance.\<close>

definition exposures_agree :: "decimal \<Rightarrow> decimal option \<Rightarrow> decimal option \<Rightarrow> bool" where
  "exposures_agree tol x c \<longleftrightarrow>
     (case (x, c) of (Some a, Some b) \<Rightarrow> \<bar>a - b\<bar> \<le> tol | _ \<Rightarrow> False)"

definition no_unknown_items :: "AccountRiskItem list \<Rightarrow> bool" where
  "no_unknown_items items \<longleftrightarrow>
     (\<forall>i \<in> set items. ai_subaccount i = 0 \<and> (ai_kind i = ''ORDER'' \<or> ai_kind i = ''POSITION'') \<longrightarrow>
        ai_ownership i \<noteq> Ownership.EXTERNAL_UNKNOWN)"

lemma reconcile_pair_status:
  "fst (reconcile_pair tol (x, c, lbl) s) = ReconciliationStatus.RECONCILED \<longleftrightarrow>
     fst s = ReconciliationStatus.RECONCILED \<and> exposures_agree tol x c"
  by (cases s; cases x; cases c) (auto simp: exposures_agree_def)

lemma base_status_RECONCILED:
  "base_status v now max_age = ReconciliationStatus.RECONCILED \<longleftrightarrow>
     rc_api_authenticated v \<and> rc_api_healthy v \<and> now - rc_observed_at v \<le> max_age \<and>
     rc_balance_complete v \<and> rc_positions_complete v \<and> rc_orders_complete v \<and>
     rc_fills_complete v \<and> rc_settlements_complete v \<and> rc_ledger_complete v \<and>
     rc_bot_client_ids_complete v"
  by (simp add: base_status_def not_less)

lemma unknown_holds_RECONCILED:
  "fst (unknown_holds orders positions st) = ReconciliationStatus.RECONCILED \<longleftrightarrow>
     orders = 0 \<and> positions = 0 \<and> st = ReconciliationStatus.RECONCILED"
  by (simp add: unknown_holds_def)

lemma unknown_count_zero:
  "unknown_count ''ORDER'' (filter (\<lambda>i. ai_subaccount i = 0) items) = 0 \<and>
   unknown_count ''POSITION'' (filter (\<lambda>i. ai_subaccount i = 0) items) = 0 \<longleftrightarrow>
   no_unknown_items items"
  unfolding unknown_count_def no_unknown_items_def length_0_conv filter_empty_conv by auto

lemma reconcile_status:
  "rr_status (reconcile v now max_age tol) =
     fst (fold (reconcile_pair tol) (exposure_pairs v)
       (unknown_holds (unknown_count ''ORDER'' (filter (\<lambda>i. ai_subaccount i = 0) (rc_items v)))
         (unknown_count ''POSITION'' (filter (\<lambda>i. ai_subaccount i = 0) (rc_items v)))
         (base_status v now max_age)))"
  unfolding reconcile_def Let_def by (simp add: case_prod_beta)

lemma reconcile_RECONCILED:
  "rr_status (reconcile v now max_age tol) = ReconciliationStatus.RECONCILED \<longleftrightarrow>
     base_status v now max_age = ReconciliationStatus.RECONCILED \<and>
     no_unknown_items (rc_items v) \<and>
     exposures_agree tol (rc_exchange_market_exposure v) (rc_calculated_market_exposure v) \<and>
     exposures_agree tol (rc_exchange_event_exposure v) (rc_calculated_event_exposure v)"
  unfolding reconcile_status exposure_pairs_def unknown_count_zero [symmetric]
  by (auto simp: reconcile_pair_status unknown_holds_RECONCILED)

end
