(* ===== verification/Risk_States.thy ===== *)
theory Risk_States
  imports Risk_Ledger
begin

text \<open>
  \<open>services/risk_engine/states.py\<close>: the loss windows with their latching review flags, the kill
  and safety states, and the precedence of the product states. The conversion of an instant to
  the local date of a zone is the parameter \<open>local_date\<close> (the zone database is not part of the
  repository).
\<close>

type_synonym zone_fn = "string \<Rightarrow> instant \<Rightarrow> date"

datatype RiskProductState = LEARNING | PAUSED | NEEDS_ATTENTION | HALTED

record LossWindowState =
  lw_version :: string
  lw_as_of :: instant
  lw_risk_date :: date
  lw_week_start :: date
  lw_month_start :: date
  lw_daily_loss :: decimal
  lw_weekly_loss :: decimal
  lw_monthly_loss :: decimal
  lw_drawdown :: decimal
  lw_daily_triggered_at :: "instant option"
  lw_weekly_review_required :: bool
  lw_monthly_review_required :: bool
  lw_experiment_halt_required :: bool
  lw_reasons :: "RiskReason list"

definition loss_of :: "decimal \<Rightarrow> decimal" where
  "loss_of pnl = max 0 (- pnl)"

text \<open>The flags carried from the previous window.\<close>

record LossPrior =
  pr_weekly_review :: bool
  pr_monthly_review :: bool
  pr_experiment_halt :: bool
  pr_daily_triggered_at :: "instant option"
  pr_risk_date :: "date option"

definition evaluate_loss_windows ::
    "zone_fn \<Rightarrow> datetime \<Rightarrow> decimal \<Rightarrow> decimal \<Rightarrow> decimal \<Rightarrow> decimal \<Rightarrow> RiskPolicy \<Rightarrow> LossPrior \<Rightarrow>
     LossWindowState result" where
  "evaluate_loss_windows local_date now daily_pnl weekly_pnl monthly_pnl drawdown policy prior =
     (if \<not> tz_aware now then Inl (ValueError ''risk clock must be timezone-aware'')
      else let t = astimezone_utc now;
        local = local_date (rp_risk_timezone policy) t;
        daily = loss_of daily_pnl; weekly = loss_of weekly_pnl; monthly = loss_of monthly_pnl;
        daily_at0 = (if pr_risk_date prior = Some local then pr_daily_triggered_at prior else None);
        daily_hit = (daily \<ge> rp_daily_loss_stop policy);
        daily_at = (if daily_hit then (case daily_at0 of None \<Rightarrow> Some t | Some a \<Rightarrow> Some a)
                    else daily_at0);
        weekly_review = (pr_weekly_review prior \<or> weekly \<ge> rp_weekly_loss_stop policy);
        monthly_review = (pr_monthly_review prior \<or> monthly \<ge> rp_monthly_loss_stop policy);
        experiment_halt = (pr_experiment_halt prior \<or> drawdown \<ge> rp_total_drawdown_stop policy)
      in Inr \<lparr>lw_version = ''loss:'' @ isoformat t, lw_as_of = t, lw_risk_date = local,
        lw_week_start = local - weekday local, lw_month_start = first_of_month local,
        lw_daily_loss = daily, lw_weekly_loss = weekly, lw_monthly_loss = monthly,
        lw_drawdown = drawdown, lw_daily_triggered_at = daily_at,
        lw_weekly_review_required = weekly_review, lw_monthly_review_required = monthly_review,
        lw_experiment_halt_required = experiment_halt,
        lw_reasons = only_if daily_hit RiskReason.DAILY_LOSS_STOP @
          only_if weekly_review RiskReason.WEEKLY_LOSS_STOP @
          only_if monthly_review RiskReason.MONTHLY_LOSS_STOP @
          only_if experiment_halt RiskReason.EXPERIMENT_DRAWDOWN_STOP\<rparr>)"

lemma evaluate_loss_windows_ok:
  assumes "evaluate_loss_windows zone now d w m dd pol prior = Inr s"
  shows "lw_weekly_review_required s \<longleftrightarrow>
      pr_weekly_review prior \<or> loss_of w \<ge> rp_weekly_loss_stop pol"
    and "lw_monthly_review_required s \<longleftrightarrow>
      pr_monthly_review prior \<or> loss_of m \<ge> rp_monthly_loss_stop pol"
    and "lw_experiment_halt_required s \<longleftrightarrow>
      pr_experiment_halt prior \<or> dd \<ge> rp_total_drawdown_stop pol"
    and "RiskReason.DAILY_LOSS_STOP \<in> set (lw_reasons s) \<longleftrightarrow> loss_of d \<ge> rp_daily_loss_stop pol"
    and "RiskReason.WEEKLY_LOSS_STOP \<in> set (lw_reasons s) \<longleftrightarrow> lw_weekly_review_required s"
    and "RiskReason.MONTHLY_LOSS_STOP \<in> set (lw_reasons s) \<longleftrightarrow> lw_monthly_review_required s"
    and "RiskReason.EXPERIMENT_DRAWDOWN_STOP \<in> set (lw_reasons s) \<longleftrightarrow>
      lw_experiment_halt_required s"
    and "tz_aware now"
  using assms
  by (auto simp: evaluate_loss_windows_def Let_def split: if_splits)

lemma evaluate_loss_windows_reasons:
  assumes "evaluate_loss_windows zone now d w m dd pol prior = Inr s"
  shows "set (lw_reasons s) \<subseteq> {RiskReason.DAILY_LOSS_STOP, RiskReason.WEEKLY_LOSS_STOP,
    RiskReason.MONTHLY_LOSS_STOP, RiskReason.EXPERIMENT_DRAWDOWN_STOP}"
  using assms by (auto simp: evaluate_loss_windows_def Let_def split: if_splits)

lemma evaluate_loss_windows_week:
  assumes "evaluate_loss_windows zone now d w m dd pol prior = Inr s"
  shows "weekday (lw_week_start s) = 0" and "lw_week_start s \<le> lw_risk_date s"
    and "lw_risk_date s \<le> lw_week_start s + 6"
  using assms weekday_bounds [of "zone (rp_risk_timezone pol) (astimezone_utc now)"]
  by (auto simp: evaluate_loss_windows_def Let_def week_start_monday split: if_splits)

text \<open>A run of windows, each carrying the flags of the one before it (as the callers do).\<close>

definition carry :: "LossWindowState \<Rightarrow> LossPrior" where
  "carry s = \<lparr>pr_weekly_review = lw_weekly_review_required s,
     pr_monthly_review = lw_monthly_review_required s,
     pr_experiment_halt = lw_experiment_halt_required s,
     pr_daily_triggered_at = lw_daily_triggered_at s, pr_risk_date = Some (lw_risk_date s)\<rparr>"

type_synonym window_input = "datetime \<times> decimal \<times> decimal \<times> decimal \<times> decimal"

fun loss_run :: "zone_fn \<Rightarrow> RiskPolicy \<Rightarrow> window_input list \<Rightarrow> LossPrior \<Rightarrow>
    LossWindowState list result" where
  "loss_run zone pol [] prior = Inr []"
| "loss_run zone pol ((now, d, w, m, dd) # is) prior =
     rbind (evaluate_loss_windows zone now d w m dd pol prior) (\<lambda>s.
       rbind (loss_run zone pol is (carry s)) (\<lambda>ss. Inr (s # ss)))"

lemma loss_run_latched:
  assumes "loss_run zone pol is prior = Inr ss" and "s \<in> set ss"
  shows "(pr_weekly_review prior \<longrightarrow> lw_weekly_review_required s) \<and>
    (pr_monthly_review prior \<longrightarrow> lw_monthly_review_required s) \<and>
    (pr_experiment_halt prior \<longrightarrow> lw_experiment_halt_required s)"
  using assms
proof (induction zone pol "is" prior arbitrary: ss rule: loss_run.induct)
  case (1 zone pol prior)
  then show ?case by simp
next
  case (2 zone pol now d w m dd "is" prior)
  from 2(2) obtain s0 ss' where s0: "evaluate_loss_windows zone now d w m dd pol prior = Inr s0"
    and run: "loss_run zone pol is (carry s0) = Inr ss'" and ss: "ss = s0 # ss'"
    by (auto simp: rbind_eq_Inr)
  show ?case
  proof (cases "s = s0")
    case True
    with evaluate_loss_windows_ok(1-3) [OF s0] show ?thesis by simp
  next
    case False
    with 2(3) ss have "s \<in> set ss'" by simp
    from 2(1) [OF run this] evaluate_loss_windows_ok(1-3) [OF s0]
    show ?thesis by (auto simp: carry_def)
  qed
qed

section \<open>Safety state and product state\<close>

record KillState =
  ks_category :: KillCategory
  ks_level :: KillLevel
  ks_reason :: string
  ks_changed_at :: datetime

record SafetyState =
  ss_global_halt :: bool
  ss_global_halt_reason :: "string option"
  ss_compliance :: ComplianceState
  ss_reconciliation :: ReconciliationStatus
  ss_kills :: "KillState list"
  ss_losses :: LossWindowState

definition resolve_product_state :: "SafetyState \<Rightarrow> RiskProductState" where
  "resolve_product_state v =
     (if ss_global_halt v \<or> lw_experiment_halt_required (ss_losses v) then HALTED
      else if ss_compliance v \<noteq> ComplianceState.CLEAR then HALTED
      else if ss_reconciliation v \<noteq> ReconciliationStatus.RECONCILED then NEEDS_ATTENTION
      else if list_ex (\<lambda>k. ks_level k = KillLevel.KILLED) (ss_kills v) then PAUSED
      else if lw_monthly_review_required (ss_losses v) \<or>
              lw_weekly_review_required (ss_losses v) then PAUSED
      else if RiskReason.DAILY_LOSS_STOP \<in> set (lw_reasons (ss_losses v)) then PAUSED
      else LEARNING)"

text \<open>Product states by severity; \<open>LEARNING\<close> is the only one that lets research continue.\<close>

fun severity :: "RiskProductState \<Rightarrow> nat" where
  "severity LEARNING = 0"
| "severity PAUSED = 1"
| "severity NEEDS_ATTENTION = 2"
| "severity HALTED = 3"

lemma resolve_learning:
  "resolve_product_state v = LEARNING \<longleftrightarrow>
     \<not> ss_global_halt v \<and> \<not> lw_experiment_halt_required (ss_losses v) \<and>
     ss_compliance v = ComplianceState.CLEAR \<and>
     ss_reconciliation v = ReconciliationStatus.RECONCILED \<and>
     (\<forall>k \<in> set (ss_kills v). ks_level k \<noteq> KillLevel.KILLED) \<and>
     \<not> lw_monthly_review_required (ss_losses v) \<and> \<not> lw_weekly_review_required (ss_losses v) \<and>
     RiskReason.DAILY_LOSS_STOP \<notin> set (lw_reasons (ss_losses v))"
  by (auto simp: resolve_product_state_def list_ex_iff)

lemma resolve_halted:
  "resolve_product_state v = HALTED \<longleftrightarrow>
     ss_global_halt v \<or> lw_experiment_halt_required (ss_losses v) \<or>
     ss_compliance v \<noteq> ComplianceState.CLEAR"
  by (auto simp: resolve_product_state_def)

lemma resolve_attention:
  "resolve_product_state v = NEEDS_ATTENTION \<longleftrightarrow>
     resolve_product_state v \<noteq> HALTED \<and> ss_reconciliation v \<noteq> ReconciliationStatus.RECONCILED"
  by (simp add: resolve_product_state_def)

lemma resolve_paused:
  assumes "resolve_product_state v = PAUSED"
  shows "(\<exists>k \<in> set (ss_kills v). ks_level k = KillLevel.KILLED) \<or>
    lw_monthly_review_required (ss_losses v) \<or> lw_weekly_review_required (ss_losses v) \<or>
    RiskReason.DAILY_LOSS_STOP \<in> set (lw_reasons (ss_losses v))"
  using assms by (auto simp: resolve_product_state_def list_ex_iff split: if_splits)

end
