(* ===== verification/Risk_Engine.thy ===== *)
theory Risk_Engine
  imports Risk_States
begin

text \<open>
  \<open>services/risk_engine/engine.py\<close>: \<open>evaluate_risk\<close> collects every reason against an intent, then
  decides. The set \<open>reasons\<close> is the list of the added members in the order the code adds them;
  the decision reports it sorted. The collection is split at the code's own paragraphs, each
  group being one definition.
\<close>

record RiskEvaluationContext =
  cx_market_data_version :: string
  cx_loss_state_version :: string
  cx_compliance_state_version :: string
  cx_kill_state_version :: string
  cx_expected_rules_hash :: string
  cx_readiness :: NewRiskReadiness
  cx_safety :: SafetyState
  cx_order_group :: RequiredOrderGroupPolicy
  cx_client_order_id_unique :: bool
  cx_client_order_id_namespace_valid :: bool
  cx_conflicting_bot_order :: bool
  cx_authorization_service_available :: bool
  cx_exposure_match_tolerance :: decimal

definition financial_missing :: "RiskIntent \<Rightarrow> PortfolioRiskSnapshot \<Rightarrow> bool" where
  "financial_missing i s = list_ex (\<lambda>v. v = None)
     [ri_price i, ri_quantity i, ri_maximum_expected_fee i,
      ri_maximum_expected_cash_commitment i, ri_maximum_loss_if_filled i, ps_cash s,
      ps_account_equity s, ps_active_capital_available s, ps_current_market_risk s,
      ps_current_event_risk s, ps_current_aggregate_risk s, ps_resting_order_potential_risk s,
      ps_realized_daily_pnl s, ps_realized_weekly_pnl s, ps_realized_monthly_pnl s,
      ps_experiment_equity s, ps_experiment_high_water_mark s, ps_experiment_drawdown s]"

text \<open>\<open>re.fullmatch(r"kalsh3-v1-[A-Za-z0-9-]{8,}", client_order_id)\<close>.\<close>

definition bot_namespace :: string where
  "bot_namespace = ''kalsh3-v1-''"

definition namespace_valid :: "string \<Rightarrow> bool" where
  "namespace_valid cid \<longleftrightarrow> startswith bot_namespace cid \<and>
     (let rest = drop (length bot_namespace) cid
      in 8 \<le> length rest \<and> list_all (\<lambda>c. ascii_alnum c \<or> c = CHR ''-'') rest)"

definition intent_reasons ::
    "RiskIntent \<Rightarrow> PortfolioRiskSnapshot \<Rightarrow> RiskEvaluationContext \<Rightarrow> RiskReason list" where
  "intent_reasons i s c =
     only_if (ri_content_hash i = '''' \<or> ri_rules_hash i \<noteq> cx_expected_rules_hash c)
       RiskReason.RULES_MISMATCH @
     only_if (ri_subaccount i \<noteq> 0) RiskReason.SUBACCOUNT_INVALID @
     only_if (financial_missing i s) RiskReason.RISK_UNCOMPUTABLE @
     readiness_reasons (cx_readiness c)"

definition account_reasons ::
    "PortfolioRiskSnapshot \<Rightarrow> RiskEvaluationContext \<Rightarrow> RiskReason list" where
  "account_reasons s c =
     only_if (\<not> ps_account_fresh s) RiskReason.ACCOUNT_STALE @
     only_if (ps_reconciliation_status s \<noteq> ReconciliationStatus.RECONCILED)
       RiskReason.ACCOUNT_NOT_RECONCILED @
     only_if (ps_unknown_orders s \<noteq> 0 \<or>
         ss_reconciliation (cx_safety c) = ReconciliationStatus.UNKNOWN_ORDER)
       RiskReason.UNKNOWN_ORDER @
     only_if (ps_external_positions s \<noteq> 0 \<or>
         ss_reconciliation (cx_safety c) = ReconciliationStatus.UNKNOWN_POSITION)
       RiskReason.UNKNOWN_POSITION @
     only_if (ps_external_orders s \<noteq> 0) RiskReason.EXTERNAL_ACTIVITY_UNRESOLVED @
     only_if (\<not> exposures_agree (cx_exposure_match_tolerance c) (ps_exchange_market_exposure s)
           (ps_independently_calculated_market_exposure s) \<or>
         \<not> exposures_agree (cx_exposure_match_tolerance c) (ps_exchange_event_exposure s)
           (ps_independently_calculated_event_exposure s))
       RiskReason.EXPOSURE_RECONCILIATION_MISMATCH"

definition capital_reasons :: "RiskIntent \<Rightarrow> PortfolioRiskSnapshot \<Rightarrow> ExposureProjection \<Rightarrow>
    RiskPolicy \<Rightarrow> RiskReason list" where
  "capital_reasons i s pr p =
     (case ri_maximum_expected_cash_commitment i of
        None \<Rightarrow> []
      | Some commitment \<Rightarrow>
          only_if (case ps_cash s of None \<Rightarrow> True | Some cash \<Rightarrow> cash < commitment)
            RiskReason.CASH_INSUFFICIENT @
          only_if (case ps_active_capital_available s of None \<Rightarrow> True
                   | Some available \<Rightarrow> commitment > available)
            RiskReason.ACTIVE_POOL_EXCEEDED) @
     only_if (case ps_account_equity s of None \<Rightarrow> True | Some e \<Rightarrow> e < rp_protected_reserve p)
       RiskReason.RESERVE_VIOLATION @
     only_if (ep_market_risk pr > rp_market_loss_limit p) RiskReason.MARKET_RISK_EXCEEDED @
     only_if (ep_event_risk pr > rp_related_event_risk_limit p) RiskReason.EVENT_RISK_EXCEEDED @
     only_if (ep_aggregate_risk pr > rp_aggregate_open_risk_limit p)
       RiskReason.AGGREGATE_RISK_EXCEEDED @
     only_if (ri_reduce_only i \<and> \<not> ep_risk_reducing pr) RiskReason.NOT_RISK_REDUCING"

definition order_reasons :: "RiskIntent \<Rightarrow> RiskEvaluationContext \<Rightarrow> RiskReason list" where
  "order_reasons i c =
     only_if (\<not> cx_client_order_id_unique c \<or> \<not> cx_client_order_id_namespace_valid c \<or>
         \<not> namespace_valid (ri_client_order_id i))
       RiskReason.DUPLICATE_CLIENT_ORDER_ID @
     only_if (cx_conflicting_bot_order c) RiskReason.SELF_TRADE_CONFLICT @
     only_if (og_required (cx_order_group c) \<and>
         (\<not> og_group_active (cx_order_group c) \<or> \<not> og_auto_cancel_ready (cx_order_group c) \<or>
          og_expected_subaccount (cx_order_group c) \<noteq> 0))
       RiskReason.ORDER_GROUP_UNAVAILABLE @
     only_if (\<not> ri_cancel_order_on_pause i \<or> ri_self_trade_prevention i = '''')
       RiskReason.RISK_UNCOMPUTABLE"

fun kill_reason :: "KillCategory \<Rightarrow> RiskReason" where
  "kill_reason KillCategory.STRATEGY = RiskReason.STRATEGY_KILL"
| "kill_reason KillCategory.DATA = RiskReason.DATA_KILL"
| "kill_reason KillCategory.PORTFOLIO = RiskReason.PORTFOLIO_KILL"
| "kill_reason KillCategory.CREDENTIAL = RiskReason.CREDENTIAL_KILL"

definition safety_reasons :: "RiskEvaluationContext \<Rightarrow> RiskReason list" where
  "safety_reasons c =
     map (kill_reason \<circ> ks_category)
       (filter (\<lambda>k. ks_level k = KillLevel.KILLED) (ss_kills (cx_safety c))) @
     lw_reasons (ss_losses (cx_safety c)) @
     only_if (ss_compliance (cx_safety c) \<noteq> ComplianceState.CLEAR) RiskReason.COMPLIANCE_HOLD @
     only_if (ss_global_halt (cx_safety c)) RiskReason.GLOBAL_HALT @
     only_if (\<not> cx_authorization_service_available c) RiskReason.AUTHORIZATION_UNAVAILABLE"

definition collect_reasons :: "RiskIntent \<Rightarrow> PortfolioRiskSnapshot \<Rightarrow> ExposureProjection \<Rightarrow>
    RiskPolicy \<Rightarrow> RiskEvaluationContext \<Rightarrow> RiskReason list" where
  "collect_reasons i s pr p c =
     intent_reasons i s c @ account_reasons s c @ capital_reasons i s pr p @
     order_reasons i c @ safety_reasons c"

lemmas [risk_defs] = intent_reasons_def account_reasons_def capital_reasons_def
  order_reasons_def safety_reasons_def collect_reasons_def

section \<open>From the reasons to the decision\<close>

definition halt_reasons :: "RiskReason list" where
  "halt_reasons = [RiskReason.EXPERIMENT_DRAWDOWN_STOP, RiskReason.GLOBAL_HALT]"

definition pause_reasons :: "RiskReason list" where
  "pause_reasons =
     [RiskReason.DAILY_LOSS_STOP, RiskReason.WEEKLY_LOSS_STOP, RiskReason.MONTHLY_LOSS_STOP,
      RiskReason.STRATEGY_KILL, RiskReason.DATA_KILL, RiskReason.PORTFOLIO_KILL,
      RiskReason.CREDENTIAL_KILL]"

definition reduction_permitted :: "RiskReason list" where
  "reduction_permitted =
     [RiskReason.DAILY_LOSS_STOP, RiskReason.WEEKLY_LOSS_STOP, RiskReason.MONTHLY_LOSS_STOP]"

text \<open>The chain of the code: halt, reduction pass (which clears the reasons), pause, reject, pass.\<close>

definition decide_state ::
    "RiskReason list \<Rightarrow> bool \<Rightarrow> RiskDecisionState \<times> RiskReason list" where
  "decide_state reasons risk_reducing =
     (let hard_halt = list_ex (\<lambda>r. r \<in> set reasons) halt_reasons;
          pause = list_ex (\<lambda>r. r \<in> set reasons) pause_reasons;
          can_reduce = (risk_reducing \<and> list_all (\<lambda>r. r \<in> set reduction_permitted) reasons)
      in if hard_halt then (RiskDecisionState.HALT, reasons)
         else if can_reduce then (RiskDecisionState.PASS_NEXT_GATE, [])
         else if pause then (RiskDecisionState.PAUSE, reasons)
         else if reasons \<noteq> [] then (RiskDecisionState.REJECT, reasons)
         else (RiskDecisionState.PASS_NEXT_GATE, reasons))"

definition evaluate_risk :: "digest_fn \<Rightarrow> RiskIntent \<Rightarrow> PortfolioRiskSnapshot \<Rightarrow>
    ExposureProjection \<Rightarrow> RiskPolicy \<Rightarrow> RiskEvaluationContext \<Rightarrow> instant \<Rightarrow>
    RiskDecision result" where
  "evaluate_risk dig i s pr p c now =
     rbind (validate_policy_is_not_weaker p) (\<lambda>_.
       let (state, reasons) = decide_state (collect_reasons i s pr p c) (ep_risk_reducing pr)
       in Inr (RiskDecision_freeze dig \<lparr>rd_decision_id = '''', rd_state = state,
           rd_intent_hash = ri_content_hash i, rd_risk_policy_version = rp_version p,
           rd_portfolio_state_hash = ps_content_hash s,
           rd_reconciliation_version = ps_reconciliation_version s,
           rd_rules_version = ri_rules_version i,
           rd_market_data_version = cx_market_data_version c,
           rd_loss_state_version = cx_loss_state_version c,
           rd_compliance_state_version = cx_compliance_state_version c,
           rd_kill_state_version = cx_kill_state_version c,
           rd_decided_at = now, rd_expires_at = now + seconds 5,
           rd_reasons = py_sorted reasons, rd_content_hash = '''',
           rd_display_result = (if state = RiskDecisionState.PASS_NEXT_GATE
              then ''RISK CHECK PASSED'' else ''RISK CHECK FAILED''),
           rd_production_write_authorized = False\<rparr>))"

section \<open>Lemmas\<close>

lemma decide_pass:
  "fst (decide_state rs red) = RiskDecisionState.PASS_NEXT_GATE \<longleftrightarrow>
     rs = [] \<or> (red \<and> set rs \<subseteq> set reduction_permitted)"
  by (auto simp: decide_state_def Let_def list_ex_iff list_all_iff halt_reasons_def
      reduction_permitted_def)

lemma decide_reasons:
  "snd (decide_state rs red) =
     (if fst (decide_state rs red) = RiskDecisionState.PASS_NEXT_GATE then [] else rs)"
  by (auto simp: decide_state_def Let_def)

lemma decide_halt:
  "fst (decide_state rs red) = RiskDecisionState.HALT \<longleftrightarrow>
     RiskReason.EXPERIMENT_DRAWDOWN_STOP \<in> set rs \<or> RiskReason.GLOBAL_HALT \<in> set rs"
  by (auto simp: decide_state_def Let_def halt_reasons_def)

lemma evaluate_risk_ok:
  assumes "evaluate_risk dig i s pr p c now = Inr d"
  shows "not_weaker p"
    and "rd_state d = fst (decide_state (collect_reasons i s pr p c) (ep_risk_reducing pr))"
    and "rd_reasons d =
      py_sorted (snd (decide_state (collect_reasons i s pr p c) (ep_risk_reducing pr)))"
    and "rd_intent_hash d = ri_content_hash i" and "rd_expires_at d = now + seconds 5"
    and "rd_production_write_authorized d = False" and "rd_decided_at d = now"
  using assms
  by (auto simp: evaluate_risk_def rbind_eq_Inr validate_policy_ok case_prod_beta Let_def)

lemma evaluate_risk_total:
  "(\<exists>d. evaluate_risk dig i s pr p c now = Inr d) \<longleftrightarrow> not_weaker p"
  by (auto simp: evaluate_risk_def rbind_eq_Inr validate_policy_ok case_prod_beta Let_def)

text \<open>What a clean pass means, group by group.\<close>

lemma intent_reasons_Nil:
  "intent_reasons i s c = [] \<longleftrightarrow> ri_content_hash i \<noteq> '''' \<and>
     ri_rules_hash i = cx_expected_rules_hash c \<and> ri_subaccount i = 0 \<and>
     \<not> financial_missing i s \<and> (\<forall>(n, b) \<in> set (NewRiskReadiness_fields (cx_readiness c)). b)"
  by (simp add: intent_reasons_def readiness_reasons_Nil)

lemma capital_reasons_Nil:
  "capital_reasons i s pr p = [] \<longleftrightarrow>
     (\<forall>m. ri_maximum_expected_cash_commitment i = Some m \<longrightarrow>
        (\<exists>cash. ps_cash s = Some cash \<and> m \<le> cash) \<and>
        (\<exists>a. ps_active_capital_available s = Some a \<and> m \<le> a)) \<and>
     (\<exists>e. ps_account_equity s = Some e \<and> rp_protected_reserve p \<le> e) \<and>
     ep_market_risk pr \<le> rp_market_loss_limit p \<and>
     ep_event_risk pr \<le> rp_related_event_risk_limit p \<and>
     ep_aggregate_risk pr \<le> rp_aggregate_open_risk_limit p \<and>
     (ri_reduce_only i \<longrightarrow> ep_risk_reducing pr)"
  by (auto simp: capital_reasons_def not_less split: option.splits)

lemma safety_reasons_Nil:
  "safety_reasons c = [] \<longleftrightarrow>
     (\<forall>k \<in> set (ss_kills (cx_safety c)). ks_level k \<noteq> KillLevel.KILLED) \<and>
     lw_reasons (ss_losses (cx_safety c)) = [] \<and>
     ss_compliance (cx_safety c) = ComplianceState.CLEAR \<and> \<not> ss_global_halt (cx_safety c) \<and>
     cx_authorization_service_available c"
  by (simp add: safety_reasons_def filter_empty_conv)

lemma collect_reasons_Nil:
  "collect_reasons i s pr p c = [] \<longleftrightarrow>
     intent_reasons i s c = [] \<and> account_reasons s c = [] \<and> capital_reasons i s pr p = [] \<and>
     order_reasons i c = [] \<and> safety_reasons c = []"
  by (simp add: collect_reasons_def)

text \<open>
  The exception for risk reduction waives the loss stops only: every other group must be clean,
  whichever way the decision passes.
\<close>

lemma pass_waives_only_loss_stops:
  assumes "set (collect_reasons i s pr p c) \<subseteq> set reduction_permitted"
  shows "account_reasons s c = [] \<and> capital_reasons i s pr p = [] \<and> order_reasons i c = [] \<and>
    \<not> financial_missing i s \<and> \<not> ss_global_halt (cx_safety c) \<and>
    ss_compliance (cx_safety c) = ComplianceState.CLEAR \<and>
    (\<forall>k \<in> set (ss_kills (cx_safety c)). ks_level k \<noteq> KillLevel.KILLED)"
proof -
  have only: "r \<in> set (collect_reasons i s pr p c) \<Longrightarrow> r \<in> set reduction_permitted" for r
    using assms by blast
  have acc: "account_reasons s c = []"
  proof -
    have "set (account_reasons s c) \<subseteq> set reduction_permitted"
      using assms by (auto simp: collect_reasons_def)
    then show ?thesis
      by (simp add: account_reasons_def reduction_permitted_def split: if_splits)
  qed
  have cap: "capital_reasons i s pr p = []"
  proof -
    have "set (capital_reasons i s pr p) \<subseteq> set reduction_permitted"
      using assms by (auto simp: collect_reasons_def)
    then show ?thesis
      by (cases "ri_maximum_expected_cash_commitment i"; cases "ps_cash s";
          cases "ps_active_capital_available s"; cases "ps_account_equity s")
        (simp_all add: capital_reasons_def reduction_permitted_def split: if_splits)
  qed
  have ord: "order_reasons i c = []"
  proof -
    have "set (order_reasons i c) \<subseteq> set reduction_permitted"
      using assms by (auto simp: collect_reasons_def)
    then show ?thesis
      by (simp add: order_reasons_def reduction_permitted_def split: if_splits)
  qed
  have miss: "\<not> financial_missing i s"
    using only [of RiskReason.RISK_UNCOMPUTABLE]
    by (auto simp: collect_reasons_def intent_reasons_def reduction_permitted_def)
  have halt: "\<not> ss_global_halt (cx_safety c)"
    using only [of RiskReason.GLOBAL_HALT]
    by (auto simp: collect_reasons_def safety_reasons_def reduction_permitted_def)
  have comp: "ss_compliance (cx_safety c) = ComplianceState.CLEAR"
  proof (rule ccontr)
    assume "ss_compliance (cx_safety c) \<noteq> ComplianceState.CLEAR"
    then have "RiskReason.COMPLIANCE_HOLD \<in> set (collect_reasons i s pr p c)"
      by (simp add: collect_reasons_def safety_reasons_def)
    from only [OF this] show False by (simp add: reduction_permitted_def)
  qed
  have kill: "ks_level k \<noteq> KillLevel.KILLED" if "k \<in> set (ss_kills (cx_safety c))" for k
  proof
    assume "ks_level k = KillLevel.KILLED"
    with that have "kill_reason (ks_category k) \<in> set (collect_reasons i s pr p c)"
      by (auto simp: collect_reasons_def safety_reasons_def)
    from only [OF this] show False
      by (cases "ks_category k") (auto simp: reduction_permitted_def)
  qed
  from acc cap ord miss halt comp kill show ?thesis by blast
qed

end
