(* ===== verification/Iso_Time.thy ===== *)
theory Iso_Time
  imports Calendar
begin

text \<open>
  Timestamps as ISO text. The stores keep \<open>isoformat()\<close> texts and compare them as texts in SQL.
  This theory shows when that is the chronological order: for the texts of UTC instants between
  the years 1 and 9999 the lexicographic order of the texts is the order of the instants.
\<close>

section \<open>Fixed-width digits\<close>

lemma length_digits [simp]: "length (digits w n) = w"
  by (induction w arbitrary: n) simp_all

lemma of_char_digit: "(of_char (char_of (48 + k mod 10) :: char) :: nat) = 48 + k mod 10"
proof -
  have "48 + k mod 10 < 256" by (simp add: less_le_trans [of _ 58])
  then show ?thesis by (simp add: of_char_of)
qed

lemma digit_less: "(char_of (48 + a mod 10) :: char) < char_of (48 + b mod 10) \<longleftrightarrow> a mod 10 < b mod (10 :: nat)"
  using of_char_digit [of a] of_char_digit [of b] by (simp add: less_char_def)

text \<open>A comparison of equally long prefixes decides the comparison of the texts.\<close>

lemma less_prefix:
  "length xs = length ys \<Longrightarrow> xs < ys \<Longrightarrow> xs @ us < ys @ (vs :: 'a::linorder list)"
  by (induction xs ys rule: list_induct2) auto

lemma less_append_same: "(xs @ us < xs @ (vs :: 'a::linorder list)) \<longleftrightarrow> us < vs"
  by (induction xs) auto

lemma less_append_iff:
  assumes "length xs = length ys"
  shows "xs @ us < ys @ vs \<longleftrightarrow> xs < ys \<or> xs = ys \<and> us < (vs :: 'a::linorder list)"
  using assms less_prefix [OF assms] less_prefix [OF assms [symmetric], of vs us] less_append_same
  by (metis less_linear not_less_iff_gr_or_eq)

lemma single_less: "([a] < [b]) \<longleftrightarrow> a < (b :: 'a::linorder)"
  by simp

lemma lex10:
  "b < 10 \<Longrightarrow> d < 10 \<Longrightarrow> 10 * a + b < 10 * c + d \<longleftrightarrow> a < c \<or> a = c \<and> b < (d :: nat)"
  by auto

lemma digits_less: "m < 10 ^ w \<Longrightarrow> n < 10 ^ w \<Longrightarrow> digits w m < digits w n \<longleftrightarrow> m < n"
proof (induction w arbitrary: m n)
  case (Suc w)
  from Suc.prems have "m div 10 < 10 ^ w" "n div 10 < 10 ^ w" by auto
  note ih = Suc.IH [OF this] Suc.IH [OF this(2,1)]
  have eq: "digits w (m div 10) = digits w (n div 10) \<longleftrightarrow> m div 10 = n div 10"
    using ih by (metis less_irrefl linorder_neqE_nat)
  have "m < n \<longleftrightarrow> m div 10 < n div 10 \<or> m div 10 = n div 10 \<and> m mod 10 < n mod 10"
    using lex10 [of "m mod 10" "n mod 10" "m div 10" "n div 10"] by simp
  moreover have "digits (Suc w) m < digits (Suc w) n \<longleftrightarrow> digits w (m div 10) < digits w (n div 10) \<or>
      digits w (m div 10) = digits w (n div 10) \<and> m mod 10 < n mod 10"
    unfolding digits.simps by (subst less_append_iff) (simp_all only: length_digits single_less digit_less)
  ultimately show ?case unfolding ih(1) eq by blast
qed simp

lemma digits_eq: "m < 10 ^ w \<Longrightarrow> n < 10 ^ w \<Longrightarrow> digits w m = digits w n \<longleftrightarrow> m = n"
  using digits_less [of m w n] digits_less [of n w m] by (metis less_irrefl linorder_neqE_nat)

section \<open>The calendar is monotone\<close>

definition before_year :: "int \<Rightarrow> int" where
  "before_year y = (y - 1) * 365 + (y - 1) div 4 - (y - 1) div 100 + (y - 1) div 400"

definition year_length :: "int \<Rightarrow> int" where
  "year_length y = (if is_leap y then 366 else 365)"

lemma div_Suc_int:
  assumes "0 < (k :: int)"
  shows "(z + 1) div k = z div k + (if (z + 1) mod k = 0 then 1 else 0)"
proof -
  have z: "z = k * (z div k) + z mod k" and r: "0 \<le> z mod k" "z mod k < k"
    using assms by simp_all
  have z1: "z + 1 = (z mod k + 1) + k * (z div k)" using z by linarith
  show ?thesis
  proof (cases "z mod k + 1 = k")
    case True
    with z1 have z2: "z + 1 = k * (z div k + 1)" by (simp only: distrib_left)
    have "(z + 1) div k = z div k + 1" and "(z + 1) mod k = 0" using assms by (simp_all add: z2)
    then show ?thesis by simp
  next
    case False
    with r have "(z mod k + 1) div k = 0" "(z mod k + 1) mod k = z mod k + 1" by auto
    moreover have "(z + 1) div k = (z mod k + 1) div k + z div k"
      using div_mult_self2 [of k "z mod k + 1" "z div k"] assms by (simp only: z1 [symmetric])
    moreover have "(z + 1) mod k = (z mod k + 1) mod k"
      using mod_mult_self2 [of "z mod k + 1" k "z div k"] by (simp only: z1 [symmetric])
    ultimately show ?thesis using r by simp
  qed
qed

lemma leap_balance:
  fixes A B C A' B' C' y :: int
  assumes "A - A' = (if p then 1 else 0)" and "B - B' = (if q then 1 else 0)"
    and "C - C' = (if r then 1 else 0)" and "q \<Longrightarrow> p" and "r \<Longrightarrow> q"
  shows "y * 365 + A - B + C = (y - 1) * 365 + A' - B' + C' + (if p \<and> (\<not> q \<or> r) then 366 else 365)"
  using assms by (cases p; cases q; cases r) simp_all

lemma before_year_Suc: "before_year (y + 1) = before_year y + year_length y"
proof -
  have "y div k - (y - 1) div k = (if y mod k = 0 then 1 else 0)" if "0 < k" for k
    using div_Suc_int [OF that, of "y - 1"] by (simp only: diff_add_cancel add_diff_cancel_left')
  note step = this [OF zero_less_numeral]
  have "y mod 100 = 0 \<Longrightarrow> y mod 4 = 0" and "y mod 400 = 0 \<Longrightarrow> y mod 100 = 0"
    by (auto simp: mod_eq_0_iff_dvd elim: dvd_trans [rotated])
  from leap_balance [OF step step step this] show ?thesis
    unfolding before_year_def year_length_def is_leap_def add_diff_cancel_right' .
qed

text \<open>A year in its 400, 100 and 4 year cycles.\<close>

definition cycle_year :: "int \<Rightarrow> int \<Rightarrow> int \<Rightarrow> int \<Rightarrow> int" where
  "cycle_year a b c e = 400 * a + 100 * b + 4 * c + e + 1"

lemma cycle_before:
  assumes "0 \<le> b" "b \<le> 3" "0 \<le> c" "c \<le> 24" "0 \<le> e" "e \<le> 3"
  shows "before_year (cycle_year a b c e) = 146097 * a + 36524 * b + 1461 * c + 365 * e"
proof -
  let ?z = "400 * a + 100 * b + 4 * c + e"
  have "?z div 4 = 100 * a + 25 * b + c" by (rule int_div_pos_eq [of _ _ _ e]) (use assms in simp_all)
  moreover have "?z div 100 = 4 * a + b"
    by (rule int_div_pos_eq [of _ _ _ "4 * c + e"]) (use assms in simp_all)
  moreover have "?z div 400 = a"
    by (rule int_div_pos_eq [of _ _ _ "100 * b + 4 * c + e"]) (use assms in simp_all)
  ultimately show ?thesis by (simp add: before_year_def cycle_year_def)
qed

lemma cycle_leap:
  assumes "0 \<le> b" "b \<le> 3" "0 \<le> c" "c \<le> 24" "0 \<le> e" "e \<le> 3"
  shows "is_leap (cycle_year a b c e) \<longleftrightarrow> e = 3 \<and> (c \<noteq> 24 \<or> b = 3)"
proof (cases "e = 3")
  case False
  have "cycle_year a b c e mod 4 = e + 1"
    by (rule int_mod_pos_eq [of _ _ "100 * a + 25 * b + c"])
      (use assms False in \<open>simp_all add: cycle_year_def\<close>)
  with assms False show ?thesis by (simp add: is_leap_def)
next
  case e: True
  have 4: "cycle_year a b c e mod 4 = 0" by (simp add: cycle_year_def e)
  show ?thesis
  proof (cases "c = 24")
    case False
    have "cycle_year a b c e mod 100 = 4 * c + 4"
      by (rule int_mod_pos_eq [of _ _ "4 * a + b"])
        (use assms False e in \<open>simp_all add: cycle_year_def\<close>)
    with 4 assms False e show ?thesis by (simp add: is_leap_def)
  next
    case c: True
    have 100: "cycle_year a b c e mod 100 = 0"
      by (rule int_mod_pos_eq [of _ _ "4 * a + b + 1"]) (simp_all add: cycle_year_def c e)
    have "cycle_year a b c e mod 400 = (if b = 3 then 0 else 100 * b + 100)"
    proof (cases "b = 3")
      case True
      have "cycle_year a b c e mod 400 = 0"
        by (rule int_mod_pos_eq [of _ _ "a + 1"]) (simp_all add: cycle_year_def c e True)
      with True show ?thesis by simp
    next
      case False
      have "cycle_year a b c e mod 400 = 100 * b + 100"
        by (rule int_mod_pos_eq [of _ _ a]) (use assms False in \<open>simp_all add: cycle_year_def c e\<close>)
      with False show ?thesis by simp
    qed
    with 4 100 assms c e show ?thesis by (simp add: is_leap_def)
  qed
qed

lemma year_day_parts:
  assumes "year_day d = (y, n, leap)"
  shows "d - 1 = before_year y + n \<and> 0 \<le> n \<and> n < year_length y \<and> leap = is_leap y"
proof -
  define m where "m = (d - 1) mod 146097"
  define m2 where "m2 = m mod 36524"
  define m3 where "m3 = m2 mod 1461"
  define a b c e r where "a = (d - 1) div 146097" and "b = m div 36524" and "c = m2 div 1461"
    and "e = m3 div 365" and "r = m3 mod 365"
  have yd: "year_day d = (if e = 4 \<or> b = 4 then (400 * a + 1 + b * 100 + c * 4 + e - 1, 365, True)
      else (400 * a + 1 + b * 100 + c * 4 + e, r, e = 3 \<and> (c \<noteq> 24 \<or> b = 3)))"
    by (simp add: year_day_def Let_def a_def b_def c_def e_def r_def m_def m2_def m3_def mult.commute)
  have d: "d - 1 = 146097 * a + m" "m = 36524 * b + m2" "m2 = 1461 * c + m3" "m3 = 365 * e + r"
    by (simp_all add: a_def b_def c_def e_def r_def m_def m2_def m3_def)
  have R: "0 \<le> m" "m < 146097" "0 \<le> m2" "m2 < 36524" "0 \<le> m3" "m3 < 1461" "0 \<le> r" "r < 365"
    by (simp_all add: r_def m_def m2_def m3_def)
  from d R have B: "0 \<le> b" "b \<le> 4" "0 \<le> c" "c \<le> 24" "0 \<le> e" "e \<le> 4" by linarith+
  consider "b = 4" | "e = 4" "b \<le> 3" | "e \<le> 3" "b \<le> 3" using B by linarith
  then show ?thesis
  proof cases
    case 1
    with d R have z: "m2 = 0" by linarith
    then have z': "c = 0" "m3 = 0" "e = 0" "r = 0" by (simp_all add: c_def m3_def e_def r_def)
    have y: "y = cycle_year a 3 24 3" "n = 365" "leap"
      using assms yd 1 z' by (simp_all add: cycle_year_def)
    have "is_leap y" unfolding y by (simp add: cycle_leap)
    moreover have "before_year y = 146097 * a + 145731" unfolding y by (subst cycle_before) simp_all
    ultimately show ?thesis using d 1 z y by (simp add: year_length_def)
  next
    case 2
    with d R have rc: "r = 0" "c \<noteq> 24" by linarith+
    have y: "y = cycle_year a b c 3" "n = 365" "leap" using assms yd 2 by (simp_all add: cycle_year_def)
    have "is_leap y" unfolding y using rc B 2 by (subst cycle_leap) simp_all
    moreover have "before_year y = 146097 * a + 36524 * b + 1461 * c + 1095"
      unfolding y using B 2 by (subst cycle_before) simp_all
    ultimately show ?thesis using d 2 rc y by (simp add: year_length_def)
  next
    case 3
    have y: "y = cycle_year a b c e" "n = r" "leap = (e = 3 \<and> (c \<noteq> 24 \<or> b = 3))"
      using assms yd 3 by (auto simp: cycle_year_def)
    have "is_leap y = leap" unfolding y using B 3 by (subst cycle_leap) simp_all
    moreover have "before_year y = 146097 * a + 36524 * b + 1461 * c + 365 * e"
      unfolding y using B 3 by (subst cycle_before) simp_all
    ultimately show ?thesis using d R y by (simp add: year_length_def)
  qed
qed

lemma before_year_mono: "x \<le> y \<Longrightarrow> before_year x \<le> before_year y"
proof (induction rule: int_ge_induct)
  case (step i)
  then show ?case by (simp add: before_year_Suc year_length_def)
qed simp

text \<open>The month of a day of the year is the one whose days contain it.\<close>

definition before_month :: "bool \<Rightarrow> int \<Rightarrow> int" where
  "before_month leap m = days_before_month ! nat m + (if m > 2 \<and> leap then 1 else 0)"

definition months_fit :: "bool \<Rightarrow> bool" where
  "months_fit leap \<longleftrightarrow>
     list_all (\<lambda>k. before_month leap (k - 1) \<le> 32 * k - 50 \<and>
       before_month leap k \<le> before_month leap (k - 1) + 31) [2..12] \<and>
     list_all (\<lambda>k. 32 * k - 18 \<le> before_month leap (k + 1)) [1..11] \<and>
     before_month leap 1 = 0 \<and> before_month leap 12 = (if leap then 335 else 334)"

lemma months_fit: "months_fit leap"
proof -
  have "months_fit True" and "months_fit False" by code_simp+
  then show ?thesis by (cases leap) (simp_all only:)
qed

lemmas month_bounds_all = months_fit [unfolded months_fit_def, THEN conjunct1]
  months_fit [unfolded months_fit_def, THEN conjunct2, THEN conjunct1]
  months_fit [unfolded months_fit_def, THEN conjunct2, THEN conjunct2, THEN conjunct1]
  months_fit [unfolded months_fit_def, THEN conjunct2, THEN conjunct2, THEN conjunct2]

lemma month_bounds:
  "2 \<le> k \<Longrightarrow> k \<le> 12 \<Longrightarrow> before_month leap (k - 1) \<le> 32 * k - 50"
  "2 \<le> k \<Longrightarrow> k \<le> 12 \<Longrightarrow> before_month leap k \<le> before_month leap (k - 1) + 31"
  "1 \<le> k \<Longrightarrow> k \<le> 11 \<Longrightarrow> 32 * k - 18 \<le> before_month leap (k + 1)"
  using month_bounds_all(1) [of leap, unfolded list_all_iff set_upto, THEN bspec, of k]
    month_bounds_all(2) [of leap, unfolded list_all_iff set_upto, THEN bspec, of k]
  unfolding atLeastAtMost_iff by blast+

lemma month_day_month:
  assumes "0 \<le> n" and "n < (if leap then 366 else 365)" and "month_day n leap = (m, d)"
  shows "1 \<le> m \<and> m \<le> 12 \<and> d = n - before_month leap m + 1 \<and> 1 \<le> d \<and> d \<le> 31 \<and>
    (m < 12 \<longrightarrow> n < before_month leap (m + 1))"
proof -
  define k where "k = (n + 50) div 32"
  have K: "32 * k \<le> n + 50" "n + 50 < 32 * k + 32" by (simp_all add: k_def)
  with assms(1,2) have k: "1 \<le> k" "k \<le> 12" by (simp_all split: if_splits)
  have "month_day n leap = (let j = (if before_month leap k > n then k - 1 else k)
      in (j, n - before_month leap j + 1))"
    unfolding month_day_def before_month_def k_def Let_def by (rule refl)
  with assms(3) have m: "m = (if before_month leap k > n then k - 1 else k)"
    "d = n - before_month leap m + 1" unfolding Let_def by (metis prod.inject)+
  note last = month_bounds_all(3,4) [of leap]
  show ?thesis
  proof (cases "before_month leap k > n")
    case True
    with k last(1) assms(1) have "2 \<le> k" by (cases "k = 1") simp_all
    with month_bounds(1,2) [of k leap] k K True m show ?thesis by simp
  next
    case False
    show ?thesis
    proof (cases "k = 12")
      case True
      with False m last assms(2) show ?thesis by (simp split: if_splits)
    next
      case k11: False
      with month_bounds(3) [of k leap] month_bounds(2) [of "k + 1" leap] k K False m
      show ?thesis by simp
    qed
  qed
qed

lemma before_month_mono:
  assumes "1 \<le> i" and "i \<le> j" and "j \<le> 12"
  shows "before_month leap i \<le> before_month leap j"
  using assms(2,3)
proof (induction rule: int_ge_induct)
  case (step j)
  with assms(1) month_bounds(1) [of "j + 1" leap] month_bounds(3) [of j leap] show ?case by simp
qed simp

lemma month_day_less:
  assumes "0 \<le> n" and "n < k" and "k < (if leap then 366 else 365)"
  shows "month_day n leap < month_day k leap"
proof -
  obtain m d m' d' where md: "month_day n leap = (m, d)" "month_day k leap = (m', d')" by fastforce
  note p = month_day_month [OF _ _ md(1)] and p' = month_day_month [OF _ _ md(2)]
  have "\<not> m' < m"
  proof
    assume "m' < m"
    with before_month_mono [of "m' + 1" m leap] p p' assms show False by simp
  qed
  with p p' assms md show ?thesis by (cases "m = m'") auto
qed

text \<open>A later day has a later year, month and day of month, compared in this order.\<close>

lemma ymd_less:
  assumes "d < d'"
  shows "ymd d < ymd d'"
proof -
  obtain y n l y' n' l' where yd: "year_day d = (y, n, l)" "year_day d' = (y', n', l')"
    by (metis prod_cases3)
  note p = year_day_parts [OF yd(1)] and p' = year_day_parts [OF yd(2)]
  obtain m k m' k' where md: "month_day n l = (m, k)" "month_day n' l' = (m', k')" by fastforce
  have ymd: "ymd d = (y, m, k)" "ymd d' = (y', m', k')"
    using yd md by (simp_all add: ymd_def)
  consider "y < y'" | "y = y'" | "y' < y" by linarith
  then show ?thesis
  proof cases
    case 2
    then have "l = l'" and "n < n'" using p p' assms by auto
    with month_day_less [of n n' l] p p' md 2 have "(m, k) < (m', k')"
      by (simp add: year_length_def)
    with ymd 2 show ?thesis by simp
  next
    case 3
    have "before_year (y' + 1) \<le> before_year y" using 3 by (intro before_year_mono) simp
    with p p' assms before_year_Suc [of y'] show ?thesis by linarith
  qed (simp add: ymd)
qed

lemma ymd_range:
  assumes "ymd d = (y, m, k)"
  shows "1 \<le> m \<and> m \<le> 12 \<and> 1 \<le> k \<and> k \<le> 31"
proof -
  obtain y n l where yd: "year_day d = (y, n, l)" by (metis prod_cases3)
  note p = year_day_parts [OF yd]
  obtain m' k' where md: "month_day n l = (m', k')" by fastforce
  with yd assms have "m' = m" "k' = k" by (simp_all add: ymd_def)
  with month_day_month [of n l m' k'] p md show ?thesis by (simp add: year_length_def)
qed

section \<open>The texts are ordered as the instants\<close>

text \<open>The fields of an instant, from the year to the microsecond.\<close>

definition iso_day :: "instant \<Rightarrow> date" where
  "iso_day t = t div 1000000 div 86400 + epoch_ordinal"

definition second_of_day :: "instant \<Rightarrow> int" where
  "second_of_day t = t div 1000000 mod 86400"

definition iso_year :: "instant \<Rightarrow> int" where
  "iso_year t = fst (ymd (iso_day t))"

definition fraction :: "int \<Rightarrow> string" where
  "fraction us = (if us = 0 then '''' else ''.'' @ digits 6 (nat us)) @ ''+00:00''"

definition micros :: "instant \<Rightarrow> int" where
  "micros t = t mod 1000000"

lemma micros_range: "0 \<le> micros t" "micros t < 1000000"
  by (simp_all add: micros_def)

lemma isoformat_fields:
  assumes "ymd (iso_day t) = (y, m, d)"
  shows "isoformat t = digits 4 (nat y) @ CHR ''-'' # digits 2 (nat m) @ CHR ''-'' #
    digits 2 (nat d) @ CHR ''T'' # digits 2 (nat (second_of_day t div 3600)) @ CHR '':'' #
    digits 2 (nat (second_of_day t div 60 mod 60)) @ CHR '':'' #
    digits 2 (nat (second_of_day t mod 60)) @ fraction (micros t)"
  using assms
  by (simp add: isoformat_def Let_def iso_day_def second_of_day_def fraction_def micros_def
      del: digits.simps)

lemma isoformat_suffix: "\<exists>p. isoformat t = p @ ''+00:00''"
proof -
  obtain y m d where ymd: "ymd (iso_day t) = (y, m, d)" by (metis prod_cases3)
  obtain q where q: "fraction (micros t) = q @ ''+00:00''" unfolding fraction_def by blast
  have eq: "isoformat t = (digits 4 (nat y) @ CHR ''-'' # digits 2 (nat m) @ CHR ''-'' #
    digits 2 (nat d) @ CHR ''T'' # digits 2 (nat (second_of_day t div 3600)) @ CHR '':'' #
    digits 2 (nat (second_of_day t div 60 mod 60)) @ CHR '':'' #
    digits 2 (nat (second_of_day t mod 60)) @ q) @ ''+00:00''"
    unfolding isoformat_fields [OF ymd] q by (simp only: append_assoc append_Cons)
  show ?thesis by (rule exI) (rule eq)
qed

lemma field_less:
  assumes "0 \<le> a" "a < 10 ^ w" "0 \<le> b" "b < 10 ^ w"
  shows "digits w (nat a) @ xs < digits w (nat b) @ ys \<longleftrightarrow> a < b \<or> a = b \<and> xs < ys"
proof -
  from assms have "nat a < 10 ^ w" "nat b < 10 ^ w" by (simp_all add: nat_less_iff)
  from digits_less [OF this] digits_eq [OF this] assms show ?thesis
    by (auto simp: less_append_iff nat_less_eq_zless nat_eq_iff)
qed

lemma fraction_less:
  assumes "0 \<le> a" "a < b" "b < 1000000"
  shows "fraction a < fraction b"
proof -
  have "digits 6 (nat a) < digits 6 (nat b)" using assms by (subst digits_less) (simp_all add: nat_less_iff)
  then show ?thesis
    using assms less_prefix [of "digits 6 (nat a)" "digits 6 (nat b)" "''+00:00''" "''+00:00''"]
    by (simp add: fraction_def less_char_def del: digits.simps)
qed

lemma time_fields:
  assumes "0 \<le> (s :: int)" and "s < 86400"
  shows "0 \<le> s div 3600" "s div 3600 < 24" "0 \<le> s div 60 mod 60" "s div 60 mod 60 < 60"
    "0 \<le> s mod 60" "s mod 60 < 60"
    "s = 3600 * (s div 3600) + 60 * (s div 60 mod 60) + s mod 60"
proof -
  have "s div 60 div 60 = s div 3600" by (simp add: zdiv_zmult2_eq [symmetric])
  then have "s div 60 = 60 * (s div 3600) + s div 60 mod 60" by (metis mult_div_mod_eq)
  moreover have "s = 60 * (s div 60) + s mod 60" by simp
  ultimately show "s = 3600 * (s div 3600) + 60 * (s div 60 mod 60) + s mod 60" by linarith
qed (use assms in simp_all)

lemma clock_small:
  assumes "0 \<le> (s :: int)" and "s < 86400"
  shows "s div 3600 < 100" "s div 60 mod 60 < 100" "s mod 60 < 100"
  using time_fields(2,4,6) [OF assms] by linarith+

lemma second_of_day_range: "0 \<le> second_of_day t" "second_of_day t < 86400"
  by (simp_all add: second_of_day_def)

lemma instant_fields:
  "t = 86400000000 * (iso_day t - epoch_ordinal) + 1000000 * second_of_day t + micros t"
proof -
  have "t div 1000000 = 86400 * (iso_day t - epoch_ordinal) + second_of_day t"
    by (simp add: iso_day_def second_of_day_def)
  moreover have "t = 1000000 * (t div 1000000) + micros t" by (simp add: micros_def)
  ultimately show ?thesis by linarith
qed

lemma text_less:
  assumes "0 \<le> y" "y < 10000" "0 \<le> y'" "y' < 10000" "0 \<le> m" "m < 100" "0 \<le> m'" "m' < 100"
    "0 \<le> d" "d < 100" "0 \<le> d'" "d' < 100" "0 \<le> h" "h < 100" "0 \<le> h'" "h' < 100"
    "0 \<le> i" "i < 100" "0 \<le> i'" "i' < 100" "0 \<le> s" "s < 100" "0 \<le> s'" "s' < 100"
  shows "digits 4 (nat y) @ c1 # digits 2 (nat m) @ c2 # digits 2 (nat d) @ c3 #
      digits 2 (nat h) @ c4 # digits 2 (nat i) @ c5 # digits 2 (nat s) @ f <
    digits 4 (nat y') @ c1 # digits 2 (nat m') @ c2 # digits 2 (nat d') @ c3 #
      digits 2 (nat h') @ c4 # digits 2 (nat i') @ c5 # digits 2 (nat s') @ f' \<longleftrightarrow>
    y < y' \<or> y = y' \<and> (m < m' \<or> m = m' \<and> (d < d' \<or> d = d' \<and> (h < h' \<or> h = h' \<and>
      (i < i' \<or> i = i' \<and> (s < s' \<or> s = s' \<and> f < f')))))"
proof -
  have f2: "digits 2 (nat a) @ xs < digits 2 (nat b) @ ys \<longleftrightarrow> a < b \<or> a = b \<and> xs < ys"
    if "0 \<le> a" "a < 100" "0 \<le> b" "b < 100" for a b xs ys
    using field_less [of a 2 b xs ys] that by simp
  have f4: "digits 4 (nat a) @ xs < digits 4 (nat b) @ ys \<longleftrightarrow> a < b \<or> a = b \<and> xs < ys"
    if "0 \<le> a" "a < 10000" "0 \<le> b" "b < 10000" for a b xs ys
    using field_less [of a 4 b xs ys] that by simp
  show ?thesis using assms by (simp only: f2 f4 Cons_less_Cons less_irrefl simp_thms)
qed

lemma isoformat_less:
  assumes "ymd (iso_day t) = (y, m, d)" and "ymd (iso_day u) = (y', m', d')"
    and "0 \<le> y" "y < 10000" "0 \<le> y'" "y' < 10000"
    and "second_of_day t = s" and "second_of_day u = s'"
  shows "isoformat t < isoformat u \<longleftrightarrow> y < y' \<or> y = y' \<and> (m < m' \<or> m = m' \<and> (d < d' \<or> d = d' \<and>
    (s div 3600 < s' div 3600 \<or> s div 3600 = s' div 3600 \<and>
     (s div 60 mod 60 < s' div 60 mod 60 \<or> s div 60 mod 60 = s' div 60 mod 60 \<and>
     (s mod 60 < s' mod 60 \<or> s mod 60 = s' mod 60 \<and>
       fraction (micros t) < fraction (micros u))))))"
proof -
  have s: "0 \<le> s" "s < 86400" and s': "0 \<le> s'" "s' < 86400"
    using assms(7,8) second_of_day_range by blast+
  have small: "0 \<le> x \<and> x < 100" if "1 \<le> x \<and> x \<le> 12 \<or> 1 \<le> x \<and> x \<le> 31" for x :: int
    using that by linarith
  from ymd_range [OF assms(1)] have r: "0 \<le> m" "m < 100" "0 \<le> d" "d < 100"
    using small by blast+
  from ymd_range [OF assms(2)] have r': "0 \<le> m'" "m' < 100" "0 \<le> d'" "d' < 100"
    using small by blast+
  show ?thesis
    unfolding isoformat_fields [OF assms(1)] isoformat_fields [OF assms(2)] assms(7,8)
    by (rule text_less [OF assms(3-6) r(1,2) r'(1,2) r(3,4) r'(3,4) time_fields(1) [OF s]
          clock_small(1) [OF s] time_fields(1) [OF s'] clock_small(1) [OF s'] time_fields(3) [OF s]
          clock_small(2) [OF s] time_fields(3) [OF s'] clock_small(2) [OF s'] time_fields(5) [OF s]
          clock_small(3) [OF s] time_fields(5) [OF s'] clock_small(3) [OF s']])
qed

lemma clock_order:
  fixes s s' h h' i i' k k' :: int
  assumes "s = 3600 * h + 60 * i + k" "0 \<le> k" "s' = 3600 * h' + 60 * i' + k'" "k' < 60"
    "i < 60" "0 \<le> i'" "h \<le> h'" "s < s'"
  shows "h < h' \<or> h = h' \<and> (i < i' \<or> i = i' \<and> k < k')"
proof (cases "h = h'")
  case True
  have "i \<le> i'"
  proof (rule ccontr)
    assume "\<not> i \<le> i'"
    then have "i' + 1 \<le> i" by simp
    with assms True show False by linarith
  qed
  with assms True show ?thesis by (cases "i = i'") simp_all
next
  case False
  with assms(7) show ?thesis by simp
qed

lemma day_order:
  fixes t u day s s' m n :: int
  assumes "t = 86400000000 * day + 1000000 * s + m" "u = 86400000000 * day + 1000000 * s' + n"
    "t < u" "0 \<le> m" "n < 1000000"
  shows "s < s' \<or> s = s' \<and> m < n"
proof (cases "s = s'")
  case False
  have "s \<le> s'"
  proof (rule ccontr)
    assume "\<not> s \<le> s'"
    then have "s' + 1 \<le> s" by simp
    with assms show False by linarith
  qed
  with False show ?thesis by simp
qed (use assms in simp)

lemma seconds_less:
  assumes "(s :: int) < s'" and "0 \<le> s" and "s' < 86400"
  shows "s div 3600 < s' div 3600 \<or> s div 3600 = s' div 3600 \<and>
     (s div 60 mod 60 < s' div 60 mod 60 \<or> s div 60 mod 60 = s' div 60 mod 60 \<and> s mod 60 < s' mod 60)"
proof -
  have f: "s = 3600 * (s div 3600) + 60 * (s div 60 mod 60) + s mod 60" "0 \<le> s mod 60"
      "s' = 3600 * (s' div 3600) + 60 * (s' div 60 mod 60) + s' mod 60" "s' mod 60 < 60"
      "s div 60 mod 60 < 60" "0 \<le> s' div 60 mod 60"
    using assms by (intro time_fields; linarith)+
  have le: "s div 3600 \<le> s' div 3600" using assms(1) by (simp add: zdiv_mono1)
  define h i k h' i' k' where "h = s div 3600" and "i = s div 60 mod 60" and "k = s mod 60"
    and "h' = s' div 3600" and "i' = s' div 60 mod 60" and "k' = s' mod 60"
  from f le assms(1) have "h < h' \<or> h = h' \<and> (i < i' \<or> i = i' \<and> k < k')"
    unfolding h_def [symmetric] i_def [symmetric] k_def [symmetric] h'_def [symmetric]
      i'_def [symmetric] k'_def [symmetric] by (intro clock_order)
  then show ?thesis by (simp only: h_def i_def k_def h'_def i'_def k'_def)
qed

text \<open>Chronological order is the order of the texts, between the years 0 and 9999.\<close>

theorem isoformat_mono:
  assumes "t < u" and "0 \<le> iso_year t" and "iso_year u < 10000"
  shows "isoformat t < isoformat u"
proof -
  obtain y m d y' m' d' where ymd: "ymd (iso_day t) = (y, m, d)" "ymd (iso_day u) = (y', m', d')"
    by (metis prod_cases3)
  let ?s = "second_of_day t" and ?s' = "second_of_day u"
  have day: "iso_day t \<le> iso_day u" using assms(1) by (simp add: iso_day_def zdiv_mono1)
  have le: "(y, m, d) \<le> (y', m', d')"
    using day ymd_less [of "iso_day t" "iso_day u"] ymd by (cases "iso_day t = iso_day u") auto
  then have y: "0 \<le> y" "y < 10000" "0 \<le> y'" "y' < 10000"
    using assms(2,3) ymd by (auto simp: iso_year_def)
  note iso = isoformat_less [OF ymd y refl refl]
  show ?thesis
  proof (cases "iso_day t = iso_day u")
    case False
    with day ymd_less [of "iso_day t" "iso_day u"] ymd have "(y, m, d) < (y', m', d')" by auto
    then show ?thesis unfolding iso by auto
  next
    case True
    with ymd have e: "y = y'" "m = m'" "d = d'" by simp_all
    from day_order [OF instant_fields [of t] instant_fields [of u, folded True] assms(1)
        micros_range(1) micros_range(2)]
    have "?s < ?s' \<or> ?s = ?s' \<and> micros t < micros u" .
    then show ?thesis
    proof
      assume "?s < ?s'"
      from seconds_less [OF this second_of_day_range(1) second_of_day_range(2)] e
      show ?thesis unfolding iso by blast
    next
      assume "?s = ?s' \<and> micros t < micros u"
      moreover from this have "fraction (micros t) < fraction (micros u)"
        by (simp add: fraction_less micros_range)
      ultimately show ?thesis using e unfolding iso by simp
    qed
  qed
qed

theorem isoformat_order:
  assumes "0 \<le> iso_year t" "iso_year t < 10000" "0 \<le> iso_year u" "iso_year u < 10000"
  shows "isoformat t < isoformat u \<longleftrightarrow> t < u"
  using isoformat_mono [of t u] isoformat_mono [of u t] assms
  by (cases t u rule: linorder_cases) auto

section \<open>Aware timestamps with an offset\<close>

record stamp =
  zt_at :: instant
  zt_offset :: int

definition utc :: "instant \<Rightarrow> stamp" where
  "utc t = \<lparr>zt_at = t, zt_offset = 0\<rparr>"

text \<open>The text of the offset, in minutes, and \<open>isoformat\<close> of the local time followed by it.\<close>

definition offset_text :: "int \<Rightarrow> string" where
  "offset_text m = (if m < 0 then ''-'' else ''+'') @ digits 2 (nat (\<bar>m\<bar> div 60)) @ '':'' @
     digits 2 (nat (\<bar>m\<bar> mod 60))"

definition iso_text :: "stamp \<Rightarrow> string" where
  "iso_text z = (let local = isoformat (zt_at z + seconds (60 * zt_offset z))
     in take (length local - 6) local @ offset_text (zt_offset z))"

text \<open>\<open>str\<close> of a datetime separates date and time by a space instead of a \<open>T\<close>.\<close>

definition str_text :: "stamp \<Rightarrow> string" where
  "str_text z = (iso_text z)[10 := CHR '' '']"

lemma iso_text_utc: "zt_offset z = 0 \<Longrightarrow> iso_text z = isoformat (zt_at z)"
proof -
  assume z: "zt_offset z = 0"
  obtain p where p: "isoformat (zt_at z) = p @ ''+00:00''" using isoformat_suffix by blast
  have o: "offset_text 0 = ''+00:00''" by code_simp
  from z p o show ?thesis by (simp add: iso_text_def Let_def seconds_def)
qed

end
