(* ===== verification/Risk_Authorization.thy ===== *)
theory Risk_Authorization
  imports Risk_Engine Iso_Time
begin

text \<open>
  \<open>services/risk_engine/authorization.py\<close>: the durable store of short-lived one-use risk
  authorizations. Its SQLite tables are the fields of \<open>AuthStore\<close>; a method that runs one
  transaction is one function on it, and an exception leaves the store as it was (rollback).
  Stored times are instants; an authorization also keeps the UTC offset its expiry is written with,
  because \<open>_expire\<close> compares the ISO texts of the expiry and of the clock, while \<open>consume\<close> compares
  the instants. The clock is read once per operation.
\<close>

datatype AuthorizationState = ISSUED | CONSUMED | EXPIRED | REVOKED

record RiskAuthorization =
  ra_authorization_id :: string
  ra_risk_decision_id :: string
  ra_intent_hash :: string
  ra_portfolio_state_hash :: string
  ra_policy_version :: string
  ra_rules_version :: string
  ra_safety_state_hash :: string
  ra_created_at :: instant
  ra_expires_at :: instant
  ra_state :: AuthorizationState
  ra_production_execution_authorized :: bool

text \<open>Rows of the tables.\<close>

record AuthRow =
  au_id :: string
  au_risk_decision_id :: string
  au_intent_hash :: string
  au_client_order_id :: string
  au_market_ticker :: string
  au_event_id :: string
  au_portfolio_state_hash :: string
  au_policy_version :: string
  au_rules_version :: string
  au_safety_state_hash :: string
  au_created_at :: instant
  au_expires_at :: instant
  au_expires_offset :: int
  au_state :: AuthorizationState
  au_production_execution_authorized :: bool

record ReservationRow =
  re_id :: string
  re_market_ticker :: string
  re_event_id :: string
  re_market_risk :: decimal
  re_event_risk :: decimal
  re_aggregate_risk :: decimal
  re_cash_commitment :: decimal
  re_expires_at :: instant
  re_active :: bool

record HaltRow =
  ha_active :: bool
  ha_reason :: "string option"
  ha_changed_at :: instant
  ha_actor :: string

record ComplianceRow =
  co_state :: ComplianceState
  co_reason :: "string option"
  co_changed_at :: instant
  co_actor :: string

record RiskEvent =
  ev_event_type :: string
  ev_actor :: string
  ev_happened_at :: instant
  ev_reason :: string
  ev_policy_version :: "string option"
  ev_state_hash :: "string option"

record KillRow =
  kr_category :: KillCategory
  kr_level :: KillLevel
  kr_reason :: string
  kr_changed_at :: instant

record LossHolds =
  lh_weekly_review_required :: bool
  lh_monthly_review_required :: bool
  lh_experiment_halt_required :: bool
  lh_state_version :: string
  lh_changed_at :: instant

record AuthStore =
  st_authorizations :: "AuthRow list"
  st_reservations :: "ReservationRow list"
  st_halt :: HaltRow
  st_compliance :: ComplianceRow
  st_events :: "RiskEvent list"
  st_kills :: "KillRow list"
  st_loss_holds :: LossHolds

text \<open>The rows \<open>__init__\<close> inserts into a fresh database.\<close>

definition initial_store :: AuthStore where
  "initial_store = \<lparr>st_authorizations = [], st_reservations = [],
     st_halt = \<lparr>ha_active = False, ha_reason = None, ha_changed_at = 0, ha_actor = ''SYSTEM''\<rparr>,
     st_compliance = \<lparr>co_state = ComplianceState.UNKNOWN, co_reason = Some ''not established'',
       co_changed_at = 0, co_actor = ''SYSTEM''\<rparr>,
     st_events = [],
     st_kills = map (\<lambda>c. \<lparr>kr_category = c, kr_level = KillLevel.NORMAL, kr_reason = ''initial'',
         kr_changed_at = 0\<rparr>)
       [KillCategory.STRATEGY, KillCategory.DATA, KillCategory.PORTFOLIO,
        KillCategory.CREDENTIAL],
     st_loss_holds = \<lparr>lh_weekly_review_required = False, lh_monthly_review_required = False,
       lh_experiment_halt_required = False, lh_state_version = ''initial'',
       lh_changed_at = 0\<rparr>\<rparr>"

definition utc_now :: "datetime \<Rightarrow> instant result" where
  "utc_now clock = (if tz_aware clock then Inr (astimezone_utc clock)
     else Inl (AuthorizationError ''clock must be timezone-aware''))"

definition record_event :: "string \<Rightarrow> string \<Rightarrow> instant \<Rightarrow> string \<Rightarrow> string option \<Rightarrow>
    string option \<Rightarrow> AuthStore \<Rightarrow> AuthStore" where
  "record_event event_type actor now reason policy_version state_hash st =
     st\<lparr>st_events := st_events st @ [\<lparr>ev_event_type = event_type, ev_actor = actor,
        ev_happened_at = now, ev_reason = reason, ev_policy_version = policy_version,
        ev_state_hash = state_hash\<rparr>]\<rparr>"

section \<open>Expiry\<close>

definition deactivate :: "string \<Rightarrow> ReservationRow list \<Rightarrow> ReservationRow list" where
  "deactivate aid = sql_update (\<lambda>r. re_id r = aid) (re_active_update (\<lambda>_. False))"

definition close_authorization ::
    "AuthorizationState \<Rightarrow> string \<Rightarrow> AuthRow list \<Rightarrow> AuthRow list" where
  "close_authorization s aid =
     sql_update (\<lambda>a. au_id a = aid \<and> au_state a = ISSUED) (au_state_update (\<lambda>_. s))"

definition expire_one :: "instant \<Rightarrow> string \<Rightarrow> AuthStore \<Rightarrow> AuthStore" where
  "expire_one now aid st =
     record_event ''RISK_AUTHORIZATION_EXPIRED'' ''SYSTEM'' now aid None None
       (st\<lparr>st_authorizations := close_authorization EXPIRED aid (st_authorizations st),
           st_reservations := deactivate aid (st_reservations st)\<rparr>)"

text \<open>The text in the column \<open>expires_at\<close>, and the rows the query of \<open>_expire\<close> selects: the texts are
  compared, not the instants.\<close>

definition expires_text :: "AuthRow \<Rightarrow> string" where
  "expires_text a = iso_text \<lparr>zt_at = au_expires_at a, zt_offset = au_expires_offset a\<rparr>"

definition expire :: "instant \<Rightarrow> AuthStore \<Rightarrow> AuthStore" where
  "expire now st = fold (expire_one now)
     (map au_id (filter (\<lambda>a. au_state a = ISSUED \<and> expires_text a \<le> isoformat now)
        (st_authorizations st))) st"

section \<open>Safety switches\<close>

definition set_compliance :: "ComplianceState \<Rightarrow> string \<Rightarrow> string \<Rightarrow> datetime \<Rightarrow> AuthStore \<Rightarrow>
    AuthStore result" where
  "set_compliance state actor reason clock st = rbind (utc_now clock) (\<lambda>now. Inr
     (record_event (if state \<noteq> ComplianceState.CLEAR then ''COMPLIANCE_HOLD_ACTIVATED''
          else ''COMPLIANCE_CLEARED'') actor now reason None None
       (st\<lparr>st_compliance := \<lparr>co_state = state, co_reason = Some reason, co_changed_at = now,
           co_actor = actor\<rparr>\<rparr>)))"

definition activate_global_halt :: "string \<Rightarrow> string \<Rightarrow> bool \<Rightarrow> datetime \<Rightarrow> AuthStore \<Rightarrow>
    AuthStore result" where
  "activate_global_halt actor reason authenticated clock st =
     (if \<not> authenticated \<or> py_strip reason = ''''
      then Inl (AuthorizationError ''authenticated actor and explicit reason required'')
      else rbind (utc_now clock) (\<lambda>now. Inr
       (record_event ''GLOBAL_HALT_ACTIVATED'' actor now reason None None
         (st\<lparr>st_halt := \<lparr>ha_active = True, ha_reason = Some reason, ha_changed_at = now,
               ha_actor = actor\<rparr>,
             st_authorizations := sql_update (\<lambda>a. au_state a = ISSUED)
               (au_state_update (\<lambda>_. REVOKED)) (st_authorizations st),
             st_reservations := sql_update re_active (re_active_update (\<lambda>_. False))
               (st_reservations st)\<rparr>))))"

definition reset_global_halt :: "string \<Rightarrow> string \<Rightarrow> bool \<Rightarrow> datetime \<Rightarrow> AuthStore \<Rightarrow>
    AuthStore result" where
  "reset_global_halt actor reason strong_reauthenticated clock st =
     (if \<not> strong_reauthenticated \<or> py_strip reason = ''''
      then Inl (AuthorizationError ''strong reauthentication and explicit reset reason required'')
      else rbind (utc_now clock) (\<lambda>now. Inr
       (record_event ''GLOBAL_HALT_RESET'' actor now reason None None
         (st\<lparr>st_halt := \<lparr>ha_active = False, ha_reason = Some reason, ha_changed_at = now,
               ha_actor = actor\<rparr>\<rparr>))))"

definition KillCategory_value :: "KillCategory \<Rightarrow> string" where
  "KillCategory_value c = (case c of
      KillCategory.STRATEGY \<Rightarrow> ''STRATEGY'' | KillCategory.DATA \<Rightarrow> ''DATA''
    | KillCategory.PORTFOLIO \<Rightarrow> ''PORTFOLIO'' | KillCategory.CREDENTIAL \<Rightarrow> ''CREDENTIAL'')"

definition KillLevel_value :: "KillLevel \<Rightarrow> string" where
  "KillLevel_value l = (case l of KillLevel.NORMAL \<Rightarrow> ''NORMAL''
    | KillLevel.WARNING \<Rightarrow> ''WARNING'' | KillLevel.KILLED \<Rightarrow> ''KILLED'')"

definition set_kill_state :: "KillState \<Rightarrow> string \<Rightarrow> datetime \<Rightarrow> AuthStore \<Rightarrow>
    AuthStore result" where
  "set_kill_state k actor clock st = rbind (utc_now clock) (\<lambda>now. Inr
     (record_event ''KILL_STATE_CHANGED'' actor now
        (KillCategory_value (ks_category k) @ '':'' @ KillLevel_value (ks_level k) @ '':'' @
         ks_reason k) None None
       (st\<lparr>st_kills := sql_update (\<lambda>r. kr_category r = ks_category k)
           (\<lambda>r. r\<lparr>kr_level := ks_level k, kr_reason := ks_reason k,
                  kr_changed_at := astimezone_utc (ks_changed_at k)\<rparr>) (st_kills st)\<rparr>)))"

definition record_loss_state :: "LossWindowState \<Rightarrow> string \<Rightarrow> datetime \<Rightarrow> AuthStore \<Rightarrow>
    AuthStore result" where
  "record_loss_state s actor clock st = rbind (utc_now clock) (\<lambda>now.
     let prior = st_loss_holds st;
         w = (lh_weekly_review_required prior \<or> lw_weekly_review_required s);
         m = (lh_monthly_review_required prior \<or> lw_monthly_review_required s);
         x = (lh_experiment_halt_required prior \<or> lw_experiment_halt_required s);
         st' = st\<lparr>st_loss_holds := \<lparr>lh_weekly_review_required = w,
           lh_monthly_review_required = m, lh_experiment_halt_required = x,
           lh_state_version = lw_version s, lh_changed_at = now\<rparr>\<rparr>
     in Inr (if w \<or> m \<or> x
        then record_event ''LOSS_HOLD_PERSISTED'' actor now (lw_version s) None None st'
        else st'))"

record SafetySummary =
  sm_global_halt :: bool
  sm_global_halt_reason :: "string option"
  sm_global_halt_changed_at :: instant
  sm_compliance_state :: ComplianceState
  sm_compliance_reason :: "string option"
  sm_active_reservations :: nat
  sm_reserved_aggregate_risk :: decimal
  sm_recent_events :: "RiskEvent list"
  sm_kill_states :: "KillRow list"
  sm_weekly_review_required :: bool
  sm_monthly_review_required :: bool
  sm_experiment_halt_required :: bool
  sm_loss_state_version :: string

definition active_reservations :: "AuthStore \<Rightarrow> ReservationRow list" where
  "active_reservations st = filter re_active (st_reservations st)"

definition safety_summary :: "datetime \<Rightarrow> AuthStore \<Rightarrow> (AuthStore \<times> SafetySummary) result" where
  "safety_summary clock st0 = rbind (utc_now clock) (\<lambda>now.
     let st = expire now st0; active = active_reservations st
     in Inr (st, \<lparr>sm_global_halt = ha_active (st_halt st),
        sm_global_halt_reason = ha_reason (st_halt st),
        sm_global_halt_changed_at = ha_changed_at (st_halt st),
        sm_compliance_state = co_state (st_compliance st),
        sm_compliance_reason = co_reason (st_compliance st),
        sm_active_reservations = length active,
        sm_reserved_aggregate_risk = dsum (map re_aggregate_risk active),
        sm_recent_events = take 10 (rev (st_events st)),
        sm_kill_states = sort_key (KillCategory_value \<circ> kr_category) (st_kills st),
        sm_weekly_review_required = lh_weekly_review_required (st_loss_holds st),
        sm_monthly_review_required = lh_monthly_review_required (st_loss_holds st),
        sm_experiment_halt_required = lh_experiment_halt_required (st_loss_holds st),
        sm_loss_state_version = lh_state_version (st_loss_holds st)\<rparr>))"

section \<open>Issuing\<close>

text \<open>\<open>iq_expires_offset\<close> is the UTC offset, in minutes, of the decision's \<open>expires_at\<close> (zero for a
  decision evaluated on a UTC clock).\<close>

record IssueRequest =
  iq_decision :: RiskDecision
  iq_expires_offset :: int
  iq_intent :: RiskIntent
  iq_policy :: RiskPolicy
  iq_safety_state_hash :: string
  iq_base_market_risk :: decimal
  iq_base_event_risk :: decimal
  iq_base_aggregate_risk :: decimal
  iq_requested_market_risk :: decimal
  iq_requested_event_risk :: decimal
  iq_requested_aggregate_risk :: decimal
  iq_cash_commitment :: decimal

definition reserved_market :: "string \<Rightarrow> AuthStore \<Rightarrow> decimal" where
  "reserved_market ticker st = dsum (map re_market_risk
     (filter (\<lambda>r. re_market_ticker r = ticker) (active_reservations st)))"

definition reserved_event :: "string \<Rightarrow> AuthStore \<Rightarrow> decimal" where
  "reserved_event eid st = dsum (map re_event_risk
     (filter (\<lambda>r. re_event_id r = eid) (active_reservations st)))"

definition reserved_aggregate :: "AuthStore \<Rightarrow> decimal" where
  "reserved_aggregate st = dsum (map re_aggregate_risk (active_reservations st))"

definition authorization_row :: "digest_fn \<Rightarrow> IssueRequest \<Rightarrow> instant \<Rightarrow> AuthRow" where
  "authorization_row dig q now =
     (let d = iq_decision q; i = iq_intent q in
      \<lparr>au_id = dig (HList [HStr (rd_decision_id d), HStr (ri_content_hash i),
           HStr (iq_safety_state_hash q), HTime now]),
       au_risk_decision_id = rd_decision_id d, au_intent_hash = ri_content_hash i,
       au_client_order_id = ri_client_order_id i, au_market_ticker = ri_market_ticker i,
       au_event_id = ri_event_id i, au_portfolio_state_hash = rd_portfolio_state_hash d,
       au_policy_version = rp_version (iq_policy q), au_rules_version = ri_rules_version i,
       au_safety_state_hash = iq_safety_state_hash q, au_created_at = now,
       au_expires_at = min (rd_expires_at d) (now + seconds 5),
       au_expires_offset = (if rd_expires_at d \<le> now + seconds 5 then iq_expires_offset q else 0),
       au_state = ISSUED,
       au_production_execution_authorized = False\<rparr>)"

definition reservation_row :: "IssueRequest \<Rightarrow> AuthRow \<Rightarrow> ReservationRow" where
  "reservation_row q a =
     \<lparr>re_id = au_id a, re_market_ticker = ri_market_ticker (iq_intent q),
      re_event_id = ri_event_id (iq_intent q), re_market_risk = iq_requested_market_risk q,
      re_event_risk = iq_requested_event_risk q,
      re_aggregate_risk = iq_requested_aggregate_risk q,
      re_cash_commitment = iq_cash_commitment q, re_expires_at = au_expires_at a,
      re_active = True\<rparr>"

definition authorization_of :: "AuthRow \<Rightarrow> RiskAuthorization" where
  "authorization_of a =
     \<lparr>ra_authorization_id = au_id a, ra_risk_decision_id = au_risk_decision_id a,
      ra_intent_hash = au_intent_hash a, ra_portfolio_state_hash = au_portfolio_state_hash a,
      ra_policy_version = au_policy_version a, ra_rules_version = au_rules_version a,
      ra_safety_state_hash = au_safety_state_hash a, ra_created_at = au_created_at a,
      ra_expires_at = au_expires_at a, ra_state = ISSUED,
      ra_production_execution_authorized = False\<rparr>"

definition auth_keys :: "(AuthRow, string) col list" where
  "auth_keys = [\<lambda>a. Some (au_id a), \<lambda>a. Some (au_client_order_id a)]"

definition reservation_keys :: "(ReservationRow, string) col list" where
  "reservation_keys = [\<lambda>r. Some (re_id r)]"

text \<open>The guards of \<open>issue\<close> inside the transaction, on the store after expiry.\<close>

definition issue_guard :: "IssueRequest \<Rightarrow> AuthStore \<Rightarrow> unit result" where
  "issue_guard q st =
     (if ha_active (st_halt st) \<or> co_state (st_compliance st) \<noteq> ComplianceState.CLEAR
      then Inl (AuthorizationError ''halt or compliance state blocks authorization'')
      else if iq_base_market_risk q + reserved_market (ri_market_ticker (iq_intent q)) st
          + iq_requested_market_risk q > rp_market_loss_limit (iq_policy q)
      then Inl (AuthorizationError ''market reservation would oversubscribe hard cap'')
      else if iq_base_event_risk q + reserved_event (ri_event_id (iq_intent q)) st
          + iq_requested_event_risk q > rp_related_event_risk_limit (iq_policy q)
      then Inl (AuthorizationError ''event reservation would oversubscribe hard cap'')
      else if iq_base_aggregate_risk q + reserved_aggregate st
          + iq_requested_aggregate_risk q > rp_aggregate_open_risk_limit (iq_policy q)
      then Inl (AuthorizationError ''aggregate reservation would oversubscribe hard cap'')
      else Inr ())"

definition insert_authorization :: "digest_fn \<Rightarrow> IssueRequest \<Rightarrow> instant \<Rightarrow> AuthStore \<Rightarrow>
    (AuthStore \<times> RiskAuthorization) result" where
  "insert_authorization dig q now st =
     (let a = authorization_row dig q now in
      case (sql_insert auth_keys a (st_authorizations st),
            sql_insert reservation_keys (reservation_row q a) (st_reservations st)) of
        (Some auths, Some resvs) \<Rightarrow>
          Inr (record_event ''RISK_AUTHORIZATION_ISSUED'' ''RISK_ENGINE'' now
                 (rd_decision_id (iq_decision q)) (Some (rp_version (iq_policy q)))
                 (Some (iq_safety_state_hash q))
                 (st\<lparr>st_authorizations := auths, st_reservations := resvs\<rparr>),
               authorization_of a)
      | _ \<Rightarrow> Inl (AuthorizationError ''duplicate client_order_id or authorization''))"

definition issue :: "digest_fn \<Rightarrow> IssueRequest \<Rightarrow> datetime \<Rightarrow> AuthStore \<Rightarrow>
    (AuthStore \<times> RiskAuthorization) result" where
  "issue dig q clock st = rbind (utc_now clock) (\<lambda>now.
     if rd_state (iq_decision q) \<noteq> RiskDecisionState.PASS_NEXT_GATE \<or>
        rd_reasons (iq_decision q) \<noteq> []
     then Inl (AuthorizationError ''only a clean PASS_NEXT_GATE decision can issue authorization'')
     else if rd_intent_hash (iq_decision q) \<noteq> ri_content_hash (iq_intent q) \<or>
        rd_expires_at (iq_decision q) \<le> now
     then Inl (AuthorizationError ''decision expired or intent changed'')
     else rbind (issue_guard q (expire now st)) (\<lambda>_.
       insert_authorization dig q now (expire now st)))"

section \<open>Consuming\<close>

definition consumable :: "string \<Rightarrow> string \<Rightarrow> string \<Rightarrow> string \<Rightarrow> instant \<Rightarrow> AuthStore \<Rightarrow> bool" where
  "consumable aid intent_hash portfolio_hash safety_hash now st =
     (case sql_find (\<lambda>a. Some (au_id a) = Some aid) (st_authorizations st) of
        None \<Rightarrow> False
      | Some row \<Rightarrow> au_state row = ISSUED \<and> au_expires_at row > now \<and>
          au_intent_hash row = intent_hash \<and> au_portfolio_state_hash row = portfolio_hash \<and>
          au_safety_state_hash row = safety_hash \<and> \<not> ha_active (st_halt st) \<and>
          co_state (st_compliance st) = ComplianceState.CLEAR)"

definition consume :: "string \<Rightarrow> string \<Rightarrow> string \<Rightarrow> string \<Rightarrow> datetime \<Rightarrow> AuthStore \<Rightarrow>
    (AuthStore \<times> bool) result" where
  "consume aid intent_hash portfolio_hash safety_hash clock st0 = rbind (utc_now clock) (\<lambda>now.
     let st = expire now st0 in
     if \<not> consumable aid intent_hash portfolio_hash safety_hash now st then Inr (st, False)
     else let changed = length (filter (\<lambda>a. au_id a = aid \<and> au_state a = ISSUED)
              (st_authorizations st));
            auths = close_authorization CONSUMED aid (st_authorizations st)
       in if changed \<noteq> 1 then Inr (st\<lparr>st_authorizations := auths\<rparr>, False)
          else Inr (record_event ''RISK_AUTHORIZATION_CONSUMED'' ''FAKE_INTERNAL_CONSUMER'' now
             aid None (Some safety_hash)
             (st\<lparr>st_authorizations := auths,
                 st_reservations := deactivate aid (st_reservations st)\<rparr>), True))"

end
