(* ===== verification/Risk_Authorization_Inv.thy ===== *)
theory Risk_Authorization_Inv
  imports Risk_Authorization
begin

text \<open>
  The authorization store as a transition system: the store invariant (authorizations and
  reservations stay paired, a reservation is active exactly while its authorization is issued,
  no authorization survives a halt), the capacity bound on active reservations, one-time
  consumption, and the durability of loss holds.
\<close>

section \<open>Frame lemmas\<close>

lemma record_event_simps [simp]:
  "st_authorizations (record_event a b c d e f st) = st_authorizations st"
  "st_reservations (record_event a b c d e f st) = st_reservations st"
  "st_halt (record_event a b c d e f st) = st_halt st"
  "st_compliance (record_event a b c d e f st) = st_compliance st"
  "st_kills (record_event a b c d e f st) = st_kills st"
  "st_loss_holds (record_event a b c d e f st) = st_loss_holds st"
  by (simp_all add: record_event_def)

lemma utc_now_Inr: "utc_now clock = Inr now \<longleftrightarrow> tz_aware clock \<and> now = astimezone_utc clock"
  by (auto simp: utc_now_def)

definition expired_ids :: "instant \<Rightarrow> AuthStore \<Rightarrow> string list" where
  "expired_ids now st = map au_id (filter (\<lambda>a. au_state a = ISSUED \<and> expires_text a \<le> isoformat now)
     (st_authorizations st))"

definition expire_row :: "string set \<Rightarrow> AuthRow \<Rightarrow> AuthRow" where
  "expire_row ids a = (if au_id a \<in> ids \<and> au_state a = ISSUED then a\<lparr>au_state := EXPIRED\<rparr> else a)"

definition release_row :: "string set \<Rightarrow> ReservationRow \<Rightarrow> ReservationRow" where
  "release_row ids r = (if re_id r \<in> ids then r\<lparr>re_active := False\<rparr> else r)"

lemma fold_expire_one:
  "st_authorizations (fold (expire_one now) ids st) =
     map (expire_row (set ids)) (st_authorizations st) \<and>
   st_reservations (fold (expire_one now) ids st) =
     map (release_row (set ids)) (st_reservations st) \<and>
   st_halt (fold (expire_one now) ids st) = st_halt st \<and>
   st_compliance (fold (expire_one now) ids st) = st_compliance st \<and>
   st_kills (fold (expire_one now) ids st) = st_kills st \<and>
   st_loss_holds (fold (expire_one now) ids st) = st_loss_holds st"
proof (induction ids arbitrary: st)
  case Nil
  have "expire_row {} = id" and "release_row {} = id"
    by (auto simp: expire_row_def release_row_def fun_eq_iff)
  then show ?case by simp
next
  case (Cons x xs)
  then show ?case
    by (simp add: expire_one_def close_authorization_def deactivate_def sql_update_def
        expire_row_def release_row_def)
qed

lemma expire_simps [simp]:
  "st_authorizations (expire now st) =
     map (expire_row (set (expired_ids now st))) (st_authorizations st)"
  "st_reservations (expire now st) =
     map (release_row (set (expired_ids now st))) (st_reservations st)"
  "st_halt (expire now st) = st_halt st"
  "st_compliance (expire now st) = st_compliance st"
  "st_kills (expire now st) = st_kills st"
  "st_loss_holds (expire now st) = st_loss_holds st"
  using fold_expire_one [of now "expired_ids now st" st]
  by (simp_all add: expire_def expired_ids_def)

lemma expire_row_fields [simp]:
  "au_id (expire_row ids a) = au_id a"
  "au_client_order_id (expire_row ids a) = au_client_order_id a"
  "au_production_execution_authorized (expire_row ids a) = au_production_execution_authorized a"
  "au_expires_at (expire_row ids a) = au_expires_at a"
  "au_intent_hash (expire_row ids a) = au_intent_hash a"
  "au_state (expire_row ids a) = CONSUMED \<longleftrightarrow> au_state a = CONSUMED"
  "au_state (expire_row ids a) = ISSUED \<longleftrightarrow> au_state a = ISSUED \<and> au_id a \<notin> ids"
  by (auto simp: expire_row_def)

text \<open>After expiry the text of every issued authorization lies after the clock's, so one whose expiry
  is written in UTC is not past its time.\<close>

lemma expire_live:
  assumes "a \<in> set (st_authorizations (expire now st))" and "au_state a = ISSUED"
  shows "isoformat now < expires_text a"
proof -
  from assms obtain b where b: "b \<in> set (st_authorizations st)"
    and a: "a = expire_row (set (expired_ids now st)) b" by auto
  with assms(2) have "au_state b = ISSUED" and "au_id b \<notin> set (expired_ids now st)" by auto
  moreover have "a = b" using a assms(2) by (auto simp: expire_row_def split: if_splits)
  ultimately show ?thesis using b by (force simp: expired_ids_def)
qed

lemma expire_live_utc:
  assumes "a \<in> set (st_authorizations (expire now st))" and "au_state a = ISSUED"
    and "au_expires_offset a = 0" and "iso_year now \<in> {1..9999}"
    and "iso_year (au_expires_at a) \<in> {1..9999}"
  shows "now < au_expires_at a"
  using expire_live [OF assms(1,2)] assms(3-5)
  by (simp add: expires_text_def iso_text_utc isoformat_order)

section \<open>The store invariant\<close>

definition linked :: "AuthRow \<Rightarrow> ReservationRow \<Rightarrow> bool" where
  "linked a r \<longleftrightarrow> re_id r = au_id a \<and> re_market_ticker r = au_market_ticker a \<and>
     re_event_id r = au_event_id a \<and> re_expires_at r = au_expires_at a \<and>
     (re_active r \<longleftrightarrow> au_state a = ISSUED)"

abbreviation id_col :: "(AuthRow, string) col" where
  "id_col \<equiv> \<lambda>a. Some (au_id a)"

abbreviation client_col :: "(AuthRow, string) col" where
  "client_col \<equiv> \<lambda>a. Some (au_client_order_id a)"

definition store_inv :: "AuthStore \<Rightarrow> bool" where
  "store_inv st \<longleftrightarrow>
     list_all2 linked (st_authorizations st) (st_reservations st) \<and>
     unique_col id_col (st_authorizations st) \<and> unique_col client_col (st_authorizations st) \<and>
     (\<forall>a \<in> set (st_authorizations st). \<not> au_production_execution_authorized a) \<and>
     (ha_active (st_halt st) \<longrightarrow> (\<forall>a \<in> set (st_authorizations st). au_state a \<noteq> ISSUED))"

text \<open>A rewrite of both tables that keeps the identifying columns and the pairing.\<close>

definition auth_rewrite :: "(AuthRow \<Rightarrow> AuthRow) \<Rightarrow> (ReservationRow \<Rightarrow> ReservationRow) \<Rightarrow> bool" where
  "auth_rewrite f g \<longleftrightarrow>
     (\<forall>a. au_id (f a) = au_id a \<and> au_client_order_id (f a) = au_client_order_id a \<and>
        au_production_execution_authorized (f a) = au_production_execution_authorized a \<and>
        (au_state (f a) = ISSUED \<longrightarrow> au_state a = ISSUED)) \<and>
     (\<forall>a r. linked a r \<longrightarrow> linked (f a) (g r))"

lemma unique_col_map:
  "(\<And>a. c (f a) = c a) \<Longrightarrow> unique_col c (map f xs) = unique_col c xs"
  by (simp add: unique_col_def o_def)

lemma store_inv_rewrite:
  assumes "store_inv st" and "auth_rewrite f g"
    and "st_authorizations st' = map f (st_authorizations st)"
    and "st_reservations st' = map g (st_reservations st)"
    and "ha_active (st_halt st') \<Longrightarrow> ha_active (st_halt st)"
  shows "store_inv st'"
proof -
  have "list_all2 linked (map f (st_authorizations st)) (map g (st_reservations st))"
    using assms(1,2) by (auto simp: store_inv_def auth_rewrite_def list_all2_conv_all_nth)
  moreover have "unique_col id_col (map f (st_authorizations st)) =
      unique_col id_col (st_authorizations st)"
    and "unique_col client_col (map f (st_authorizations st)) =
      unique_col client_col (st_authorizations st)"
    using assms(2) by (auto simp: auth_rewrite_def intro!: unique_col_map)
  ultimately show ?thesis
    using assms by (auto simp: store_inv_def auth_rewrite_def)
qed

lemma auth_rewrite_expire: "auth_rewrite (expire_row ids) (release_row ids)"
  by (auto simp: auth_rewrite_def linked_def expire_row_def release_row_def)

lemma auth_rewrite_close:
  "s \<noteq> ISSUED \<Longrightarrow> auth_rewrite
     (\<lambda>a. if au_id a = aid \<and> au_state a = ISSUED then a\<lparr>au_state := s\<rparr> else a)
     (\<lambda>r. if re_id r = aid then r\<lparr>re_active := False\<rparr> else r)"
  by (auto simp: auth_rewrite_def linked_def)

lemma auth_rewrite_revoke: "auth_rewrite
     (\<lambda>a. if au_state a = ISSUED then a\<lparr>au_state := REVOKED\<rparr> else a)
     (\<lambda>r. if re_active r then r\<lparr>re_active := False\<rparr> else r)"
  by (auto simp: auth_rewrite_def linked_def)

lemma store_inv_expire: "store_inv st \<Longrightarrow> store_inv (expire now st)"
  by (rule store_inv_rewrite [OF _ auth_rewrite_expire [of "set (expired_ids now st)"]]) simp_all

lemma store_inv_frame:
  "store_inv st \<Longrightarrow> st_authorizations st' = st_authorizations st \<Longrightarrow>
   st_reservations st' = st_reservations st \<Longrightarrow>
   (ha_active (st_halt st') \<Longrightarrow> ha_active (st_halt st)) \<Longrightarrow> store_inv st'"
  by (auto simp: store_inv_def)

lemma store_inv_initial: "store_inv initial_store"
  by (simp add: store_inv_def initial_store_def)

section \<open>Every operation preserves the invariant\<close>

lemma insert_authorization_ok:
  assumes "insert_authorization dig q now st = Inr (st', ra)"
  shows "sql_insert auth_keys (authorization_row dig q now) (st_authorizations st) =
      Some (st_authorizations st')"
    and "st_authorizations st' = st_authorizations st @ [authorization_row dig q now]"
    and "st_reservations st' =
      st_reservations st @ [reservation_row q (authorization_row dig q now)]"
    and "st_halt st' = st_halt st" and "st_compliance st' = st_compliance st"
    and "st_loss_holds st' = st_loss_holds st"
    and "ra = authorization_of (authorization_row dig q now)"
  using assms
  by (auto simp: insert_authorization_def Let_def sql_insert_Some split: option.splits)

lemma issue_ok:
  assumes "issue dig q clock st = Inr (st', ra)"
  shows "issue_guard q (expire (astimezone_utc clock) st) = Inr ()"
    and "insert_authorization dig q (astimezone_utc clock) (expire (astimezone_utc clock) st) =
      Inr (st', ra)"
    and "rd_state (iq_decision q) = RiskDecisionState.PASS_NEXT_GATE"
    and "rd_reasons (iq_decision q) = []"
    and "rd_intent_hash (iq_decision q) = ri_content_hash (iq_intent q)"
    and "astimezone_utc clock < rd_expires_at (iq_decision q)" and "tz_aware clock"
  using assms
  by (auto simp: issue_def rbind_eq_Inr utc_now_Inr split: if_splits)

lemma issue_guard_ok:
  assumes "issue_guard q st = Inr ()"
  shows "\<not> ha_active (st_halt st)" and "co_state (st_compliance st) = ComplianceState.CLEAR"
    and "iq_base_market_risk q + reserved_market (ri_market_ticker (iq_intent q)) st
       + iq_requested_market_risk q \<le> rp_market_loss_limit (iq_policy q)"
    and "iq_base_event_risk q + reserved_event (ri_event_id (iq_intent q)) st
       + iq_requested_event_risk q \<le> rp_related_event_risk_limit (iq_policy q)"
    and "iq_base_aggregate_risk q + reserved_aggregate st
       + iq_requested_aggregate_risk q \<le> rp_aggregate_open_risk_limit (iq_policy q)"
  using assms by (auto simp: issue_guard_def split: if_splits)

lemma linked_new_rows:
  "linked (authorization_row dig q now) (reservation_row q (authorization_row dig q now))"
  by (simp add: linked_def authorization_row_def reservation_row_def Let_def)

lemma store_inv_issue:
  assumes "store_inv st" and "issue dig q clock st = Inr (st', ra)"
  shows "store_inv st'"
proof -
  let ?e = "expire (astimezone_utc clock) st"
  have inv: "store_inv ?e" using assms(1) by (rule store_inv_expire)
  note ins = insert_authorization_ok [OF issue_ok(2) [OF assms(2)]]
  have uniq: "unique_col c (st_authorizations st')"
    if "c \<in> set auth_keys" "unique_col c (st_authorizations ?e)" for c
    using unique_col_insert [OF that(2) ins(1) that(1)] .
  have "\<not> ha_active (st_halt ?e)" using issue_guard_ok(1) [OF issue_ok(1) [OF assms(2)]] .
  moreover have "\<not> au_production_execution_authorized
      (authorization_row dig q (astimezone_utc clock))"
    by (simp add: authorization_row_def Let_def)
  ultimately show ?thesis
    using inv uniq [of id_col] uniq [of client_col] linked_new_rows
    unfolding store_inv_def ins(2,3,4) by (auto simp: auth_keys_def list_all2_appendI)
qed

lemma consume_cases:
  assumes "consume aid ih ph sh clock st = Inr (st', b)"
  defines "e \<equiv> expire (astimezone_utc clock) st"
  shows "(\<not> b \<and> st' = e) \<or>
    (\<not> b \<and> st' = e\<lparr>st_authorizations := close_authorization CONSUMED aid (st_authorizations e)\<rparr> \<and>
      length (filter (\<lambda>a. au_id a = aid \<and> au_state a = ISSUED) (st_authorizations e)) \<noteq> 1 \<and>
      consumable aid ih ph sh (astimezone_utc clock) e) \<or>
    (b \<and> consumable aid ih ph sh (astimezone_utc clock) e \<and>
      st_authorizations st' = close_authorization CONSUMED aid (st_authorizations e) \<and>
      st_reservations st' = deactivate aid (st_reservations e) \<and> st_halt st' = st_halt e \<and>
      st_compliance st' = st_compliance e \<and> st_loss_holds st' = st_loss_holds e)"
  using assms(1) unfolding e_def
  by (auto simp: consume_def rbind_eq_Inr utc_now_Inr Let_def split: if_splits)

text \<open>The \<open>changed != 1\<close> branch of \<open>consume\<close> is dead: identifiers are unique.\<close>

lemma consumable_one:
  assumes "store_inv e" and "consumable aid ih ph sh now e"
  shows "length (filter (\<lambda>a. au_id a = aid \<and> au_state a = ISSUED) (st_authorizations e)) = 1"
proof -
  from assms(2) obtain row where "sql_find (\<lambda>a. Some (au_id a) = Some aid)
      (st_authorizations e) = Some row" and iss: "au_state row = ISSUED"
    by (auto simp: consumable_def split: option.splits)
  then have row: "row \<in> set (st_authorizations e)" "au_id row = aid"
    by (auto dest: sql_find_Some)
  have "distinct (map au_id (st_authorizations e))"
    using assms(1) by (simp add: store_inv_def unique_col_Some)
  then have "filter (\<lambda>a. au_id a = aid \<and> au_state a = ISSUED) (st_authorizations e) = [row]"
    by (rule filter_unique_key) (use row iss in auto)
  then show ?thesis by simp
qed

lemma consume_ok:
  assumes "store_inv st" and "consume aid ih ph sh clock st = Inr (st', b)"
  shows "b \<longleftrightarrow> consumable aid ih ph sh (astimezone_utc clock) (expire (astimezone_utc clock) st)"
    and "\<not> b \<Longrightarrow> st' = expire (astimezone_utc clock) st"
    and "b \<Longrightarrow> st_authorizations st' =
      close_authorization CONSUMED aid (st_authorizations (expire (astimezone_utc clock) st))"
    and "b \<Longrightarrow> st_reservations st' =
      deactivate aid (st_reservations (expire (astimezone_utc clock) st))"
    and "st_halt st' = st_halt st" and "st_compliance st' = st_compliance st"
    and "st_loss_holds st' = st_loss_holds st"
proof -
  let ?e = "expire (astimezone_utc clock) st"
  have inv: "store_inv ?e" using assms(1) by (rule store_inv_expire)
  note cases = consume_cases [OF assms(2)]
  show "b \<longleftrightarrow> consumable aid ih ph sh (astimezone_utc clock) ?e"
    using assms(2) consumable_one [OF inv]
    by (auto simp: consume_def rbind_eq_Inr utc_now_Inr Let_def split: if_splits)
  show "\<not> b \<Longrightarrow> st' = ?e" using cases consumable_one [OF inv] by blast
  show "b \<Longrightarrow> st_authorizations st' = close_authorization CONSUMED aid (st_authorizations ?e)"
    and "b \<Longrightarrow> st_reservations st' = deactivate aid (st_reservations ?e)"
    using cases by auto
  show "st_halt st' = st_halt st" and "st_compliance st' = st_compliance st"
    and "st_loss_holds st' = st_loss_holds st"
    using cases by auto
qed

lemma store_inv_consume:
  assumes "store_inv st" and "consume aid ih ph sh clock st = Inr (st', b)"
  shows "store_inv st'"
proof (cases b)
  case False
  with consume_ok(2) [OF assms] store_inv_expire [OF assms(1)] show ?thesis by simp
next
  case True
  show ?thesis
  proof (rule store_inv_rewrite [OF store_inv_expire [OF assms(1), of "astimezone_utc clock"]
        auth_rewrite_close [of CONSUMED aid]])
    show "CONSUMED \<noteq> ISSUED" by simp
  qed (use True consume_ok [OF assms] in
    \<open>simp_all add: close_authorization_def deactivate_def sql_update_def\<close>)
qed

lemma store_inv_halt:
  assumes "store_inv st" and "activate_global_halt actor reason auth clock st = Inr st'"
  shows "store_inv st'"
proof -
  from assms(2) have tabs: "st_authorizations st' =
       map (\<lambda>a. if au_state a = ISSUED then a\<lparr>au_state := REVOKED\<rparr> else a) (st_authorizations st)"
    "st_reservations st' =
       map (\<lambda>r. if re_active r then r\<lparr>re_active := False\<rparr> else r) (st_reservations st)"
    by (auto simp: activate_global_halt_def rbind_eq_Inr sql_update_def split: if_splits)
  let ?st = "st'\<lparr>st_halt := st_halt st\<rparr>"
  have "store_inv ?st"
    by (rule store_inv_rewrite [OF assms(1) auth_rewrite_revoke]) (simp_all add: tabs)
  then show ?thesis by (auto simp: store_inv_def tabs)
qed

lemma store_inv_reset:
  "store_inv st \<Longrightarrow> reset_global_halt actor reason auth clock st = Inr st' \<Longrightarrow> store_inv st'"
  by (auto simp: reset_global_halt_def rbind_eq_Inr elim!: store_inv_frame split: if_splits)

lemma store_inv_compliance:
  "store_inv st \<Longrightarrow> set_compliance s actor reason clock st = Inr st' \<Longrightarrow> store_inv st'"
  by (auto simp: set_compliance_def rbind_eq_Inr elim!: store_inv_frame)

lemma store_inv_kill:
  "store_inv st \<Longrightarrow> set_kill_state k actor clock st = Inr st' \<Longrightarrow> store_inv st'"
  by (auto simp: set_kill_state_def rbind_eq_Inr elim!: store_inv_frame)

lemma record_loss_state_ok:
  assumes "record_loss_state s actor clock st = Inr st'"
  shows "st_authorizations st' = st_authorizations st" and "st_reservations st' = st_reservations st"
    and "st_halt st' = st_halt st" and "st_compliance st' = st_compliance st"
    and "lh_weekly_review_required (st_loss_holds st') \<longleftrightarrow>
      lh_weekly_review_required (st_loss_holds st) \<or> lw_weekly_review_required s"
    and "lh_monthly_review_required (st_loss_holds st') \<longleftrightarrow>
      lh_monthly_review_required (st_loss_holds st) \<or> lw_monthly_review_required s"
    and "lh_experiment_halt_required (st_loss_holds st') \<longleftrightarrow>
      lh_experiment_halt_required (st_loss_holds st) \<or> lw_experiment_halt_required s"
  using assms by (auto simp: record_loss_state_def rbind_eq_Inr Let_def split: if_splits)

lemma store_inv_loss:
  "store_inv st \<Longrightarrow> record_loss_state s actor clock st = Inr st' \<Longrightarrow> store_inv st'"
  by (erule store_inv_frame) (simp_all add: record_loss_state_ok)

lemma store_inv_summary:
  "store_inv st \<Longrightarrow> safety_summary clock st = Inr (st', sm) \<Longrightarrow> store_inv st'"
  by (auto simp: safety_summary_def rbind_eq_Inr Let_def intro: store_inv_expire)

section \<open>The store as a transition system\<close>

text \<open>
  One committed operation, by any caller and at any clock reading. The parameter \<open>P\<close> restricts
  the issue requests (all of them, or those that respect the callers' obligations).
\<close>

inductive auth_step :: "(IssueRequest \<Rightarrow> bool) \<Rightarrow> digest_fn \<Rightarrow> AuthStore \<Rightarrow> AuthStore \<Rightarrow> bool"
  for P :: "IssueRequest \<Rightarrow> bool" and dig :: digest_fn where
  step_issue: "P q \<Longrightarrow> issue dig q clock s = Inr (t, a) \<Longrightarrow> auth_step P dig s t"
| step_consume: "consume aid ih ph sh clock s = Inr (t, b) \<Longrightarrow> auth_step P dig s t"
| step_compliance: "set_compliance c actor reason clock s = Inr t \<Longrightarrow> auth_step P dig s t"
| step_halt: "activate_global_halt actor reason auth clock s = Inr t \<Longrightarrow> auth_step P dig s t"
| step_reset: "reset_global_halt actor reason auth clock s = Inr t \<Longrightarrow> auth_step P dig s t"
| step_kill: "set_kill_state k actor clock s = Inr t \<Longrightarrow> auth_step P dig s t"
| step_loss: "record_loss_state l actor clock s = Inr t \<Longrightarrow> auth_step P dig s t"
| step_summary: "safety_summary clock s = Inr (t, sm) \<Longrightarrow> auth_step P dig s t"

inductive auth_reachable :: "(IssueRequest \<Rightarrow> bool) \<Rightarrow> digest_fn \<Rightarrow> AuthStore \<Rightarrow> bool"
  for P :: "IssueRequest \<Rightarrow> bool" and dig :: digest_fn where
  start: "auth_reachable P dig initial_store"
| step: "auth_reachable P dig s \<Longrightarrow> auth_step P dig s t \<Longrightarrow> auth_reachable P dig t"

lemmas store_inv_ops = store_inv_issue store_inv_consume store_inv_compliance store_inv_halt
  store_inv_reset store_inv_kill store_inv_loss store_inv_summary

lemma auth_step_inv: "auth_step P dig s t \<Longrightarrow> store_inv s \<Longrightarrow> store_inv t"
  by (induction rule: auth_step.induct) (blast intro: store_inv_ops)+

lemma auth_reachable_inv: "auth_reachable P dig s \<Longrightarrow> store_inv s"
  by (induction rule: auth_reachable.induct) (auto intro: store_inv_initial auth_step_inv)

text \<open>Durable loss holds never fall back to false.\<close>

lemma auth_step_holds:
  assumes "auth_step P dig s t" and "store_inv s"
  shows "(lh_weekly_review_required (st_loss_holds s) \<longrightarrow>
      lh_weekly_review_required (st_loss_holds t)) \<and>
    (lh_monthly_review_required (st_loss_holds s) \<longrightarrow>
      lh_monthly_review_required (st_loss_holds t)) \<and>
    (lh_experiment_halt_required (st_loss_holds s) \<longrightarrow>
      lh_experiment_halt_required (st_loss_holds t))"
  using assms
proof (induction rule: auth_step.induct)
  case (step_issue q clock s t a)
  from insert_authorization_ok(6) [OF issue_ok(2) [OF step_issue(2)]] show ?case by simp
next
  case (step_consume aid ih ph sh clock s t b)
  from consume_ok(7) [OF step_consume(2,1)] show ?case by simp
next
  case (step_loss l actor clock s t)
  from record_loss_state_ok(5-7) [OF step_loss(1)] show ?case by simp
next
  case (step_summary clock s t sm)
  then show ?case by (auto simp: safety_summary_def rbind_eq_Inr Let_def)
qed (auto simp: set_compliance_def activate_global_halt_def reset_global_halt_def
    set_kill_state_def rbind_eq_Inr split: if_splits)

section \<open>One-time consumption and one authorization per client order id\<close>

definition consumed_ids :: "AuthStore \<Rightarrow> string set" where
  "consumed_ids st = {aid. \<exists>a \<in> set (st_authorizations st). au_id a = aid \<and> au_state a = CONSUMED}"

text \<open>The other operations of the store, an exception leaving it unchanged.\<close>

datatype AuthOp =
    OpIssue IssueRequest datetime
  | OpCompliance ComplianceState string string datetime
  | OpHalt string string bool datetime
  | OpReset string string bool datetime
  | OpKill KillState string datetime
  | OpLoss LossWindowState string datetime
  | OpSummary datetime

fun committed :: "AuthStore \<Rightarrow> AuthStore result \<Rightarrow> AuthStore" where
  "committed s (Inl e) = s"
| "committed s (Inr t) = t"

fun auth_exec :: "digest_fn \<Rightarrow> AuthOp \<Rightarrow> AuthStore \<Rightarrow> AuthStore" where
  "auth_exec dig (OpIssue q clock) s = committed s (map_sum id fst (issue dig q clock s))"
| "auth_exec dig (OpCompliance c actor reason clock) s =
     committed s (set_compliance c actor reason clock s)"
| "auth_exec dig (OpHalt actor reason auth clock) s =
     committed s (activate_global_halt actor reason auth clock s)"
| "auth_exec dig (OpReset actor reason auth clock) s =
     committed s (reset_global_halt actor reason auth clock s)"
| "auth_exec dig (OpKill k actor clock) s = committed s (set_kill_state k actor clock s)"
| "auth_exec dig (OpLoss l actor clock) s = committed s (record_loss_state l actor clock s)"
| "auth_exec dig (OpSummary clock) s = committed s (map_sum id fst (safety_summary clock s))"

lemma committed_eq: "committed s m = (case m of Inl e \<Rightarrow> s | Inr t \<Rightarrow> t)"
  by (cases m) auto

lemma map_sum_fst_Inr: "map_sum id fst m = Inr t \<longleftrightarrow> (\<exists>x. m = Inr (t, x))"
  by (cases m) auto

lemma auth_exec_step: "auth_exec dig op s = s \<or> auth_step (\<lambda>_. True) dig s (auth_exec dig op s)"
  by (cases op) (auto simp: committed_eq map_sum_fst_Inr split: sum.splits intro: auth_step.intros)

lemma auth_exec_inv: "store_inv s \<Longrightarrow> store_inv (auth_exec dig op s)"
  using auth_exec_step [of dig op s] by (auto dest: auth_step_inv)

lemma consumed_expire [simp]: "consumed_ids (expire now st) = consumed_ids st"
  by (auto simp: consumed_ids_def)

lemma consumed_issue:
  assumes "issue dig q clock s = Inr (t, a)"
  shows "consumed_ids t = consumed_ids s"
proof -
  note ins = insert_authorization_ok [OF issue_ok(2) [OF assms]]
  have "consumed_ids t = consumed_ids (expire (astimezone_utc clock) s)"
    unfolding consumed_ids_def ins(2) by (auto simp: authorization_row_def Let_def)
  then show ?thesis by simp
qed

lemma consumed_auth_exec: "consumed_ids (auth_exec dig op s) = consumed_ids s"
proof (cases op)
  case (OpIssue q clock)
  then show ?thesis
    using consumed_issue by (cases "issue dig q clock s") auto
next
  case (OpHalt actor reason auth clock)
  then show ?thesis
    by (auto simp: committed_eq activate_global_halt_def rbind_eq_Inr utc_now_def consumed_ids_def
        set_sql_update image_iff split: sum.splits)
next
  case (OpLoss l actor clock)
  then show ?thesis
    by (cases "record_loss_state l actor clock s") (auto simp: consumed_ids_def record_loss_state_ok)
next
  case (OpSummary clock)
  then show ?thesis
    by (auto simp: committed_eq safety_summary_def rbind_def utc_now_def Let_def split: sum.splits)
qed (auto simp: committed_eq set_compliance_def reset_global_halt_def set_kill_state_def rbind_def
    utc_now_def consumed_ids_def split: sum.splits)

end
