(* ===== verification/Risk_Capacity.thy ===== *)
theory Risk_Capacity
  imports Risk_Authorization_Inv
begin

text \<open>
  Contracts of the authorization store: one-time consumption and one authorization per client
  order id as interpretations of \<open>exactly_once\<close>, and the capacity of the active reservations,
  which no sequence of operations can push over the hard caps.
\<close>

section \<open>Consumption happens at most once\<close>

type_synonym consume_request = "string \<times> string \<times> string \<times> string \<times> datetime"

fun try_consume :: "consume_request \<Rightarrow> AuthStore \<Rightarrow> AuthStore \<times> bool" where
  "try_consume (aid, ih, ph, sh, clock) s =
     (case consume aid ih ph sh clock s of Inl e \<Rightarrow> (s, False) | Inr (t, b) \<Rightarrow> (t, b))"

lemma consumable_row:
  assumes "consumable aid ih ph sh now st"
  obtains row where "row \<in> set (st_authorizations st)" and "au_id row = aid"
    and "au_state row = ISSUED" and "now < au_expires_at row" and "au_intent_hash row = ih"
    and "au_portfolio_state_hash row = ph" and "au_safety_state_hash row = sh"
    and "\<not> ha_active (st_halt st)" and "co_state (st_compliance st) = ComplianceState.CLEAR"
proof -
  from assms obtain row where find: "sql_find (\<lambda>a. Some (au_id a) = Some aid)
      (st_authorizations st) = Some row"
    by (auto simp: consumable_def split: option.splits)
  from sql_find_Some [OF find] find assms that show ?thesis by (auto simp: consumable_def)
qed

lemma consume_fresh:
  assumes "store_inv s" and "consume aid ih ph sh clock s = Inr (t, True)"
  shows "aid \<notin> consumed_ids s" and "consumed_ids t = insert aid (consumed_ids s)"
proof -
  let ?e = "expire (astimezone_utc clock) s"
  have inv: "store_inv ?e" using assms(1) by (rule store_inv_expire)
  from consume_ok(1) [OF assms] have "consumable aid ih ph sh (astimezone_utc clock) ?e" by simp
  then obtain row where row: "row \<in> set (st_authorizations ?e)" "au_id row = aid"
    "au_state row = ISSUED" by (rule consumable_row)
  have dist: "distinct (map au_id (st_authorizations ?e))"
    using inv by (simp add: store_inv_def unique_col_Some del: expire_simps)
  have same: "a = row" if "a \<in> set (st_authorizations ?e)" "au_id a = aid" for a
    using dist that row by (auto simp: distinct_map inj_on_def simp del: expire_simps)
  then have "aid \<notin> consumed_ids ?e" using row(3) by (force simp: consumed_ids_def)
  then show "aid \<notin> consumed_ids s" by simp
  have "set (st_authorizations t) =
      {a \<in> set (st_authorizations ?e). \<not> (au_id a = aid \<and> au_state a = ISSUED)} \<union>
      (\<lambda>a. a\<lparr>au_state := CONSUMED\<rparr>) `
        {a \<in> set (st_authorizations ?e). au_id a = aid \<and> au_state a = ISSUED}"
    using consume_ok(3) [OF assms] by (simp add: close_authorization_def set_sql_update)
  moreover have "{a \<in> set (st_authorizations ?e). au_id a = aid \<and> au_state a = ISSUED} = {row}"
    using row same by blast
  ultimately have "consumed_ids t = insert aid (consumed_ids ?e)"
    using row by (auto simp: consumed_ids_def simp del: expire_simps)
  then show "consumed_ids t = insert aid (consumed_ids s)" by simp
qed

lemma consume_refused:
  assumes "store_inv s" and "consume aid ih ph sh clock s = Inr (t, False)"
  shows "consumed_ids t = consumed_ids s"
  using consume_ok(2) [OF assms] by simp

interpretation consumption: exactly_once
  try_consume "auth_exec dig" "\<lambda>(aid, ih, ph, sh, clock). aid" consumed_ids store_inv
proof unfold_locales
  fix s s' :: AuthStore and r :: consume_request and b
  assume inv: "store_inv s"
  obtain aid ih ph sh clock where r: "r = (aid, ih, ph, sh, clock)" by (cases r)
  show "(case r of (aid, ih, ph, sh, clock) \<Rightarrow> aid) \<notin> consumed_ids s"
    if "try_consume r s = (s', True)"
    using that consume_fresh(1) [OF inv] by (auto simp: r split: sum.splits prod.splits)
  show "consumed_ids s' =
      (if b then insert (case r of (aid, ih, ph, sh, clock) \<Rightarrow> aid) (consumed_ids s)
       else consumed_ids s)" if "try_consume r s = (s', b)"
    using that consume_fresh(2) [OF inv] consume_refused [OF inv]
    by (cases b) (auto simp: r split: sum.splits)
  show "store_inv s'" if "try_consume r s = (s', b)"
    using that inv store_inv_consume [OF inv] by (auto simp: r split: sum.splits)
qed (simp_all add: consumed_auth_exec auth_exec_inv)

section \<open>One authorization per client order id\<close>

definition client_ids :: "AuthStore \<Rightarrow> string set" where
  "client_ids st = au_client_order_id ` set (st_authorizations st)"

fun try_issue :: "digest_fn \<Rightarrow> IssueRequest \<times> datetime \<Rightarrow> AuthStore \<Rightarrow> AuthStore \<times> bool" where
  "try_issue dig (q, clock) s =
     (case issue dig q clock s of Inl e \<Rightarrow> (s, False) | Inr (t, a) \<Rightarrow> (t, True))"

datatype AuthNonIssueOp =
    NConsume consume_request
  | NOp AuthOp

fun non_issue :: "AuthNonIssueOp \<Rightarrow> AuthStore \<Rightarrow> AuthStore" where
  "non_issue (NConsume r) s = fst (try_consume r s)"
| "non_issue (NOp (OpIssue q clock)) s = s"
| "non_issue (NOp op) s = auth_exec (\<lambda>_. []) op s"

lemma client_ids_expire [simp]: "client_ids (expire now st) = client_ids st"
  by (simp add: client_ids_def image_image)

lemma client_ids_issue:
  assumes "issue dig q clock s = Inr (t, a)"
  shows "ri_client_order_id (iq_intent q) \<notin> client_ids s"
    and "client_ids t = insert (ri_client_order_id (iq_intent q)) (client_ids s)"
proof -
  let ?e = "expire (astimezone_utc clock) s"
  note ins = insert_authorization_ok(1,2) [OF issue_ok(2) [OF assms]]
  have cid: "au_client_order_id (authorization_row dig q n) = ri_client_order_id (iq_intent q)" for n
    by (simp add: authorization_row_def Let_def)
  have "client_col \<in> set auth_keys" by (simp add: auth_keys_def)
  from sql_insert_key_fresh [OF ins(1) this, of "ri_client_order_id (iq_intent q)"] cid
  have "ri_client_order_id (iq_intent q) \<notin> taken client_col (st_authorizations ?e)"
    by (simp del: expire_simps)
  then have "ri_client_order_id (iq_intent q) \<notin> client_ids ?e"
    by (auto simp: taken_def client_ids_def simp del: expire_simps)
  then show "ri_client_order_id (iq_intent q) \<notin> client_ids s" by simp
  have "client_ids t = insert (ri_client_order_id (iq_intent q)) (client_ids ?e)"
    unfolding client_ids_def ins(2) by (simp add: cid)
  then show "client_ids t = insert (ri_client_order_id (iq_intent q)) (client_ids s)" by simp
qed

lemma client_ids_consume:
  assumes "store_inv s" and "consume aid ih ph sh clock s = Inr (t, b)"
  shows "client_ids t = client_ids s"
proof (cases b)
  case False
  with consume_ok(2) [OF assms] show ?thesis by simp
next
  case True
  with consume_ok(3) [OF assms]
  have "map au_client_order_id (st_authorizations t) =
      map au_client_order_id (st_authorizations (expire (astimezone_utc clock) s))"
    by (simp add: close_authorization_def del: expire_simps)
  then have "client_ids t = client_ids (expire (astimezone_utc clock) s)"
    unfolding client_ids_def by (metis set_map)
  then show ?thesis by simp
qed

lemma client_ids_non_issue:
  assumes "store_inv s"
  shows "client_ids (non_issue op s) = client_ids s \<and> store_inv (non_issue op s)"
proof (cases op)
  case (NConsume r)
  obtain aid ih ph sh clock where r: "r = (aid, ih, ph, sh, clock)" by (cases r)
  show ?thesis
    using NConsume assms client_ids_consume [OF assms] store_inv_consume [OF assms]
    by (cases "consume aid ih ph sh clock s") (auto simp: r)
next
  case (NOp op')
  have inv: "store_inv (non_issue op s)"
    using NOp assms by (cases op') (simp_all add: auth_exec_inv del: auth_exec.simps)
  have halt: "client_ids s' = client_ids s"
    if "activate_global_halt actor reason auth clock s = Inr s'" for actor reason auth clock s'
  proof -
    from that have "map au_client_order_id (st_authorizations s') =
        map au_client_order_id (st_authorizations s)"
      by (auto simp: activate_global_halt_def rbind_eq_Inr simp del: map_eq_conv split: if_splits)
    then show ?thesis unfolding client_ids_def by (metis set_map)
  qed
  have "client_ids (non_issue op s) = client_ids s"
  proof (cases op')
    case (OpHalt actor reason auth clock)
    then show ?thesis using NOp halt
      by (cases "activate_global_halt actor reason auth clock s") simp_all
  next
    case (OpLoss l actor clock)
    then show ?thesis using NOp
      by (cases "record_loss_state l actor clock s") (simp_all add: client_ids_def record_loss_state_ok)
  next
    case (OpSummary clock)
    then show ?thesis using NOp
      by (cases clock) (simp_all add: safety_summary_def utc_now_def Let_def)
  qed (use NOp in \<open>auto simp: committed_eq set_compliance_def
      reset_global_halt_def set_kill_state_def rbind_def utc_now_def client_ids_def
      split: sum.splits if_splits\<close>)
  with inv show ?thesis by simp
qed

interpretation client_order: exactly_once
  "try_issue dig" non_issue "\<lambda>(q, clock). ri_client_order_id (iq_intent q)" client_ids store_inv
proof unfold_locales
  fix s s' :: AuthStore and r :: "IssueRequest \<times> datetime" and b
  assume inv: "store_inv s"
  obtain q clock where r: "r = (q, clock)" by (cases r)
  show "(case r of (q, clock) \<Rightarrow> ri_client_order_id (iq_intent q)) \<notin> client_ids s"
    if "try_issue dig r s = (s', True)"
    using that client_ids_issue(1) by (auto simp: r split: sum.splits prod.splits)
  show "client_ids s' = (if b
      then insert (case r of (q, clock) \<Rightarrow> ri_client_order_id (iq_intent q)) (client_ids s)
      else client_ids s)" if "try_issue dig r s = (s', b)"
    using that client_ids_issue(2) by (auto simp: r split: sum.splits prod.splits)
  show "store_inv s'" if "try_issue dig r s = (s', b)"
    using that inv store_inv_issue [OF inv] by (auto simp: r split: sum.splits prod.splits)
qed (simp_all add: client_ids_non_issue)

section \<open>The capacity of the active reservations\<close>

text \<open>
  \<open>sound_request\<close> is what the callers of \<open>issue\<close> owe: a policy accepted by
  \<open>validate_policy_is_not_weaker\<close> and amounts that are not negative. Under it no sequence of
  operations reserves more than the hard caps.
\<close>

definition sound_request :: "IssueRequest \<Rightarrow> bool" where
  "sound_request q \<longleftrightarrow> validate_policy_is_not_weaker (iq_policy q) = Inr () \<and>
     0 \<le> iq_base_market_risk q \<and> 0 \<le> iq_base_event_risk q \<and> 0 \<le> iq_base_aggregate_risk q \<and>
     0 \<le> iq_requested_market_risk q \<and> 0 \<le> iq_requested_event_risk q \<and>
     0 \<le> iq_requested_aggregate_risk q"

definition risks_nonneg :: "ReservationRow list \<Rightarrow> bool" where
  "risks_nonneg rs \<longleftrightarrow> (\<forall>r \<in> set rs. 0 \<le> re_market_risk r \<and> 0 \<le> re_event_risk r \<and>
     0 \<le> re_aggregate_risk r)"

definition cap_inv :: "AuthStore \<Rightarrow> bool" where
  "cap_inv st \<longleftrightarrow> risks_nonneg (st_reservations st) \<and> (\<forall>m. reserved_market m st \<le> 10) \<and>
     (\<forall>e. reserved_event e st \<le> 25) \<and> reserved_aggregate st \<le> 100"

definition released :: "ReservationRow \<Rightarrow> ReservationRow \<Rightarrow> bool" where
  "released r r' \<longleftrightarrow> r' = r \<or> r' = r\<lparr>re_active := False\<rparr>"

lemma released_map:
  "(\<And>r. released r (f r)) \<Longrightarrow> list_all2 released rs (map f rs)"
  by (induction rs) auto

lemma active_sum_mono:
  assumes "list_all2 released rs rs'" and "\<And>r. r \<in> set rs \<Longrightarrow> 0 \<le> f r"
    and "\<And>r. f (r\<lparr>re_active := False\<rparr>) = f r" and "\<And>r. p (r\<lparr>re_active := False\<rparr>) = p r"
  shows "dsum (map f (filter p (filter re_active rs'))) \<le>
    dsum (map f (filter p (filter re_active rs)))"
  using assms(1,2)
proof (induction rule: list_all2_induct)
  case Nil
  then show ?case by simp
next
  case (Cons r rs r' rs')
  then have "0 \<le> f r" and "released r r'" by auto
  moreover have "dsum (map f (filter p (filter re_active rs'))) \<le>
      dsum (map f (filter p (filter re_active rs)))"
    using Cons by auto
  ultimately show ?case using assms(3,4) by (auto simp: released_def)
qed

lemma risks_nonneg_released:
  assumes "list_all2 released rs rs'" and "risks_nonneg rs"
  shows "risks_nonneg rs'"
  using assms
proof (induction rule: list_all2_induct)
  case (Cons r rs r' rs')
  from Cons.prems have "risks_nonneg rs" by (simp add: risks_nonneg_def)
  then have "risks_nonneg rs'" by (rule Cons.IH)
  with Cons.prems Cons.hyps(1) show ?case by (cases "r' = r") (simp_all add: risks_nonneg_def released_def)
qed simp

lemma cap_inv_released:
  assumes "list_all2 released (st_reservations s) (st_reservations t)" and "cap_inv s"
  shows "cap_inv t"
proof -
  have nonneg: "risks_nonneg (st_reservations s)" using assms(2) by (simp add: cap_inv_def)
  have m: "reserved_market k t \<le> reserved_market k s" for k
    unfolding reserved_market_def active_reservations_def
    by (rule active_sum_mono [OF assms(1)]) (use nonneg in \<open>auto simp: risks_nonneg_def\<close>)
  have e: "reserved_event k t \<le> reserved_event k s" for k
    unfolding reserved_event_def active_reservations_def
    by (rule active_sum_mono [OF assms(1)]) (use nonneg in \<open>auto simp: risks_nonneg_def\<close>)
  have "reserved_aggregate t \<le> reserved_aggregate s"
    using active_sum_mono [OF assms(1), of re_aggregate_risk "\<lambda>_. True"] nonneg
    by (simp add: reserved_aggregate_def active_reservations_def risks_nonneg_def)
  with m e risks_nonneg_released [OF assms(1) nonneg] assms(2) show ?thesis
    unfolding cap_inv_def by (meson order_trans)
qed

lemma cap_inv_frame:
  "st_reservations t = st_reservations s \<Longrightarrow> cap_inv s \<Longrightarrow> cap_inv t"
  by (simp add: cap_inv_def reserved_market_def reserved_event_def reserved_aggregate_def
      active_reservations_def)

lemma cap_inv_unrelated [simp]:
  "cap_inv (record_event a b c d e f s) \<longleftrightarrow> cap_inv s"
  "cap_inv (st_compliance_update g1 s) \<longleftrightarrow> cap_inv s"
  "cap_inv (st_halt_update g2 s) \<longleftrightarrow> cap_inv s"
  "cap_inv (st_kills_update g3 s) \<longleftrightarrow> cap_inv s"
  by (simp_all add: cap_inv_def reserved_market_def reserved_event_def reserved_aggregate_def
      active_reservations_def)

lemma cap_inv_expire: "cap_inv s \<Longrightarrow> cap_inv (expire now s)"
  by (rule cap_inv_released) (auto simp: release_row_def released_def intro!: released_map)

lemma cap_inv_issue:
  assumes "cap_inv s" and "sound_request q" and "issue dig q clock s = Inr (t, a)"
  shows "cap_inv t"
proof -
  let ?e = "expire (astimezone_utc clock) s"
  let ?r = "reservation_row q (authorization_row dig q (astimezone_utc clock))"
  have inv: "cap_inv ?e" using assms(1) by (rule cap_inv_expire)
  note caps = issue_guard_ok(3-5) [OF issue_ok(1) [OF assms(3)]]
  note res = insert_authorization_ok(3) [OF issue_ok(2) [OF assms(3)]]
  have row: "re_market_ticker ?r = ri_market_ticker (iq_intent q)"
    "re_event_id ?r = ri_event_id (iq_intent q)" "re_active ?r"
    "re_market_risk ?r = iq_requested_market_risk q" "re_event_risk ?r = iq_requested_event_risk q"
    "re_aggregate_risk ?r = iq_requested_aggregate_risk q"
    by (simp_all add: reservation_row_def)
  have pol: "not_weaker (iq_policy q)" using assms(2) by (simp add: sound_request_def validate_policy_ok)
  have act: "active_reservations t = active_reservations ?e @ [?r]"
    unfolding active_reservations_def res using row(3) by simp
  have "reserved_market k t \<le> 10" for k
    using inv caps(1) pol assms(2) row
    by (auto simp: reserved_market_def act cap_inv_def sound_request_def not_weaker_def
        simp del: expire_simps)
  moreover have "reserved_event k t \<le> 25" for k
    using inv caps(2) pol assms(2) row
    by (auto simp: reserved_event_def act cap_inv_def sound_request_def not_weaker_def
        simp del: expire_simps)
  moreover have "reserved_aggregate t \<le> 100"
    using caps(3) pol assms(2) row
    by (auto simp: reserved_aggregate_def act sound_request_def not_weaker_def
        simp del: expire_simps)
  moreover have "risks_nonneg (st_reservations t)"
    using inv assms(2) row unfolding res
    by (auto simp: risks_nonneg_def cap_inv_def sound_request_def simp del: expire_simps)
  ultimately show ?thesis by (simp add: cap_inv_def)
qed

lemma cap_inv_consume:
  assumes "cap_inv s" and "consume aid ih ph sh clock s = Inr (t, b)"
  shows "cap_inv t"
proof -
  let ?e = "expire (astimezone_utc clock) s"
  have inv: "cap_inv ?e" using assms(1) by (rule cap_inv_expire)
  have "st_reservations t = st_reservations ?e \<or>
      st_reservations t = deactivate aid (st_reservations ?e)"
    using consume_cases [OF assms(2)] by auto
  moreover have "list_all2 released rs (deactivate aid rs)" for rs
    by (auto simp: deactivate_def sql_update_def released_def intro!: released_map)
  ultimately show ?thesis using inv cap_inv_frame cap_inv_released by metis
qed

lemma cap_inv_halt:
  assumes "cap_inv s" and "activate_global_halt actor reason auth clock s = Inr t"
  shows "cap_inv t"
proof (rule cap_inv_released [OF _ assms(1)])
  show "list_all2 released (st_reservations s) (st_reservations t)"
    using assms(2)
    by (auto simp: activate_global_halt_def rbind_eq_Inr sql_update_def released_def
        intro!: released_map split: if_splits)
qed

lemma cap_inv_step: "auth_step sound_request dig s t \<Longrightarrow> cap_inv s \<Longrightarrow> cap_inv t"
proof (induction rule: auth_step.induct)
  case (step_loss l actor clock s t)
  then show ?case by (metis cap_inv_frame record_loss_state_ok(2))
next
  case (step_summary clock s t sm)
  then show ?case by (auto simp: safety_summary_def rbind_eq_Inr Let_def intro: cap_inv_expire)
qed (auto simp: set_compliance_def reset_global_halt_def set_kill_state_def rbind_eq_Inr
    intro: cap_inv_issue cap_inv_consume cap_inv_halt split: if_splits)

lemma cap_inv_reachable: "auth_reachable sound_request dig s \<Longrightarrow> cap_inv s"
proof (induction rule: auth_reachable.induct)
  case start
  show ?case
    by (simp add: cap_inv_def risks_nonneg_def reserved_market_def reserved_event_def
        reserved_aggregate_def active_reservations_def initial_store_def)
qed (rule cap_inv_step)

end
