(* ===== verification/Risk_Properties.thy ===== *)
theory Risk_Properties
  imports Risk_Capacity
begin

text \<open>
  The properties of the risk engine, each followed by its instance at a concrete input. The
  sample values below are one accepted request: a one dollar purchase under the canonical policy,
  with every readiness flag set.
\<close>

section \<open>Sample values\<close>

definition sample_digest :: digest_fn where
  "sample_digest v = ''digest''"

definition sample_intent :: RiskIntent where
  "sample_intent = \<lparr>ri_intent_id = ''i1'', ri_created_at = 0, ri_market_ticker = ''M'',
     ri_event_id = ''E'', ri_correlation_cluster_id = ''c'', ri_rules_version = ''r1'',
     ri_rules_hash = ''rh'', ri_contract_interpretation_version = ''v1'', ri_candidate_id = ''c1'',
     ri_forecast_id = ''f1'', ri_economic_action = EconomicAction.BUY_YES_OUTCOME,
     ri_outcome_side = ''YES'', ri_book_side = ''BID'', ri_price = Some (1/2),
     ri_quantity = Some 2, ri_maximum_expected_fee = Some 0,
     ri_maximum_expected_cash_commitment = Some 1, ri_maximum_loss_if_filled = Some 1,
     ri_order_style = ''LIMIT'', ri_time_in_force_policy = ''GTC'', ri_expires_at = None,
     ri_post_only = True, ri_cancel_order_on_pause = True, ri_reduce_only = False,
     ri_self_trade_prevention = ''taker'', ri_required_order_group_policy = ''g'',
     ri_client_order_id = ''kalsh3-v1-00000001'', ri_account = ''a'', ri_subaccount = 0,
     ri_content_hash = ''ih''\<rparr>"

definition sample_snapshot :: PortfolioRiskSnapshot where
  "sample_snapshot = \<lparr>ps_observed_at = 0, ps_account_snapshot_version = ''a1'',
     ps_reconciliation_version = ''rc1'', ps_cash = Some 300, ps_portfolio_value = Some 1000,
     ps_account_equity = Some 1000, ps_protected_reserve = 700,
     ps_active_capital_available = Some 300, ps_current_market_risk = Some 0,
     ps_current_event_risk = Some 0, ps_current_aggregate_risk = Some 0,
     ps_resting_order_potential_risk = Some 0, ps_projected_market_risk = Some 1,
     ps_projected_event_risk = Some 1, ps_projected_aggregate_risk = Some 1,
     ps_realized_daily_pnl = Some 0, ps_realized_weekly_pnl = Some 0,
     ps_realized_monthly_pnl = Some 0, ps_experiment_equity = Some 1000,
     ps_experiment_high_water_mark = Some 1000, ps_experiment_drawdown = Some 0,
     ps_external_positions = 0, ps_external_orders = 0, ps_unknown_orders = 0,
     ps_account_fresh = True, ps_reconciliation_status = ReconciliationStatus.RECONCILED,
     ps_exchange_market_exposure = Some 0, ps_exchange_event_exposure = Some 0,
     ps_independently_calculated_market_exposure = Some 0,
     ps_independently_calculated_event_exposure = Some 0, ps_content_hash = ''ph''\<rparr>"

definition sample_readiness :: NewRiskReadiness where
  "sample_readiness = \<lparr>nr_market_active = True, nr_market_not_provisional = True,
     nr_rules_valid = True, nr_semantics_valid = True, nr_settlement_source_known = True,
     nr_payout_supported = True, nr_price_structure_supported = True,
     nr_quantity_structure_supported = True, nr_sources_healthy = True, nr_data_fresh = True,
     nr_book_valid = True, nr_account_fresh = True, nr_no_material_gap = True,
     nr_api_compatible = True, nr_model_valid = True, nr_calibrator_valid = True,
     nr_frozen_forecast = True, nr_uncertainty_valid = True, nr_forecast_non_abstaining = True,
     nr_forecast_rules_match = True, nr_price_valid = True, nr_quantity_valid = True,
     nr_after_cost_value_valid = True, nr_fee_verified = True, nr_slippage_acceptable = True,
     nr_exposure_known = True, nr_reserve_preserved = True, nr_loss_limits_clear = True,
     nr_reconciled = True, nr_no_unknown_orders = True, nr_kill_switches_clear = True,
     nr_compliance_clear = True, nr_order_group_valid = True, nr_client_id_valid = True,
     nr_authorization_available = True\<rparr>"

definition sample_losses :: LossWindowState where
  "sample_losses = \<lparr>lw_version = ''loss'', lw_as_of = 0, lw_risk_date = 719163,
     lw_week_start = 719160, lw_month_start = 719163, lw_daily_loss = 0, lw_weekly_loss = 0,
     lw_monthly_loss = 0, lw_drawdown = 0, lw_daily_triggered_at = None,
     lw_weekly_review_required = False, lw_monthly_review_required = False,
     lw_experiment_halt_required = False, lw_reasons = []\<rparr>"

definition sample_safety :: SafetyState where
  "sample_safety = \<lparr>ss_global_halt = False, ss_global_halt_reason = None,
     ss_compliance = ComplianceState.CLEAR, ss_reconciliation = ReconciliationStatus.RECONCILED,
     ss_kills = [], ss_losses = sample_losses\<rparr>"

definition sample_context :: RiskEvaluationContext where
  "sample_context = \<lparr>cx_market_data_version = ''m1'', cx_loss_state_version = ''l1'',
     cx_compliance_state_version = ''c1'', cx_kill_state_version = ''k1'',
     cx_expected_rules_hash = ''rh'', cx_readiness = sample_readiness,
     cx_safety = sample_safety,
     cx_order_group = \<lparr>og_policy_id = ''g'', og_required = False, og_expected_subaccount = 0,
       og_contract_limit_ceiling = 10, og_group_active = True, og_auto_cancel_ready = True\<rparr>,
     cx_client_order_id_unique = True, cx_client_order_id_namespace_valid = True,
     cx_conflicting_bot_order = False, cx_authorization_service_available = True,
     cx_exposure_match_tolerance = 1 / 100\<rparr>"

definition sample_projection :: ExposureProjection where
  "sample_projection = \<lparr>ep_market_risk = 1, ep_event_risk = 1, ep_aggregate_risk = 1,
     ep_cash_commitment = 1, ep_risk_reducing = False\<rparr>"

definition sample_decision :: RiskDecision where
  "sample_decision = \<lparr>rd_decision_id = ''d'', rd_state = RiskDecisionState.PASS_NEXT_GATE,
     rd_intent_hash = ''ih'', rd_risk_policy_version = ''1'', rd_portfolio_state_hash = ''ph'',
     rd_reconciliation_version = ''rc1'', rd_rules_version = ''r1'',
     rd_market_data_version = ''m1'', rd_loss_state_version = ''l1'',
     rd_compliance_state_version = ''c1'', rd_kill_state_version = ''k1'', rd_decided_at = 0,
     rd_expires_at = seconds 5, rd_reasons = [], rd_content_hash = ''dh'',
     rd_display_result = ''RISK CHECK PASSED'', rd_production_write_authorized = False\<rparr>"

definition sample_request :: IssueRequest where
  "sample_request = \<lparr>iq_decision = sample_decision, iq_expires_offset = 0, iq_intent = sample_intent,
     iq_policy = CANONICAL_POLICY, iq_safety_state_hash = ''sh'', iq_base_market_risk = 0,
     iq_base_event_risk = 0, iq_base_aggregate_risk = 0, iq_requested_market_risk = 1,
     iq_requested_event_risk = 1, iq_requested_aggregate_risk = 1, iq_cash_commitment = 1\<rparr>"

lemmas sample_defs = sample_digest_def sample_intent_def sample_snapshot_def sample_readiness_def
  sample_losses_def sample_safety_def sample_context_def sample_projection_def
  sample_decision_def sample_request_def CANONICAL_POLICY_def

text \<open>The store after compliance is cleared, after one authorization, and after a halt.\<close>

definition sample_cleared :: AuthStore where
  "sample_cleared = auth_exec sample_digest
     (OpCompliance ComplianceState.CLEAR ''ops'' ''checked'' (Aware 0)) initial_store"

definition sample_issued :: AuthStore where
  "sample_issued = auth_exec sample_digest (OpIssue sample_request (Aware 1)) sample_cleared"

definition sample_held :: AuthStore where
  "sample_held = auth_exec sample_digest
     (OpLoss (sample_losses\<lparr>lw_weekly_review_required := True\<rparr>) ''ops'' (Aware 2)) sample_cleared"

definition sample_halted :: AuthStore where
  "sample_halted = auth_exec sample_digest (OpHalt ''ops'' ''stop'' True (Aware 2)) sample_issued"

lemma sample_clear_step:
  "set_compliance ComplianceState.CLEAR ''ops'' ''checked'' (Aware 0) initial_store = Inr sample_cleared"
  by (simp add: sample_cleared_def set_compliance_def utc_now_def)

lemma sample_cleared_reachable: "auth_reachable P sample_digest sample_cleared"
  by (rule auth_reachable.step [OF auth_reachable.start])
    (rule auth_step.step_compliance [OF sample_clear_step])

lemma sample_issue_step:
  "\<exists>a. issue sample_digest sample_request (Aware 1) sample_cleared = Inr (sample_issued, a)"
proof -
  have "\<exists>x. issue sample_digest sample_request (Aware 1) sample_cleared = Inr x"
    by (simp add: issue_def utc_now_def issue_guard_def insert_authorization_def sample_cleared_def
        set_compliance_def initial_store_def record_event_def expire_def sample_defs
        reserved_market_def reserved_event_def reserved_aggregate_def active_reservations_def
        sql_insert_def auth_keys_def reservation_keys_def conflicts_def Let_def rbind_def
        seconds_def)
  then show ?thesis by (auto simp: sample_issued_def)
qed

lemma sample_sound: "sound_request sample_request"
  by (simp add: sound_request_def sample_request_def validate_policy_ok not_weaker_canonical)

lemma sample_issued_reachable: "auth_reachable sound_request sample_digest sample_issued"
  using sample_issue_step sample_sound sample_cleared_reachable
  by (blast intro: auth_reachable.step auth_step.step_issue)

lemma sample_halted_reachable: "auth_reachable sound_request sample_digest sample_halted"
proof -
  have "activate_global_halt ''ops'' ''stop'' True (Aware 2) sample_issued = Inr sample_halted"
    by (simp add: sample_halted_def activate_global_halt_def utc_now_def rbind_def py_strip_def
        py_space_def)
  then show ?thesis
    using sample_issued_reachable by (blast intro: auth_reachable.step auth_step.step_halt)
qed

section \<open>Authorizations\<close>

lemma active_reservations_live:
  assumes "store_inv s" and "\<forall>a \<in> set (st_authorizations s). au_state a \<noteq> ISSUED"
  shows "active_reservations s = []"
proof -
  have "list_all2 linked (st_authorizations s) (st_reservations s)"
    using assms(1) by (simp add: store_inv_def)
  then have "\<forall>r \<in> set (st_reservations s). \<not> re_active r"
    using assms(2) by (induction rule: list_all2_induct) (auto simp: linked_def)
  then show ?thesis by (simp add: active_reservations_def)
qed

text \<open>C2. In every state the authorization store can reach when its callers use an accepted
  policy and amounts that are not negative, the active reservations of a market, of an event and
  of the whole account stay within the hard caps of 10, 25 and 100 dollars, whatever the order of
  issues, consumptions, expiries, halts and resets.\<close>

theorem reserved_risk_within_hard_caps:
  assumes "auth_reachable sound_request dig s"
  shows "reserved_market m s \<le> 10 \<and> reserved_event e s \<le> 25 \<and> reserved_aggregate s \<le> 100"
  using cap_inv_reachable [OF assms] by (simp add: cap_inv_def)

theorem reserved_risk_within_hard_caps_witness:
  "reserved_market ''M'' sample_issued \<le> 10 \<and> reserved_event ''E'' sample_issued \<le> 25 \<and>
   reserved_aggregate sample_issued \<le> 100"
  by (rule reserved_risk_within_hard_caps [OF sample_issued_reachable])

text \<open>C4. An authorization is consumed at most once: whatever operations run between them, the
  calls of \<open>consume\<close> that return true name pairwise different authorizations.\<close>

theorem authorization_consumed_at_most_once:
  "distinct (map (\<lambda>(aid, ih, ph, sh, clock). aid)
     (fst (claim_run try_consume (auth_exec dig) events initial_store)))"
  using consumption.run_grants [OF store_inv_initial] by (metis prod.collapse)

text \<open>A client order id is authorized at most once: the calls of \<open>issue\<close> that succeed in
  any interleaving with the other operations carry pairwise different client order ids.\<close>

theorem client_order_id_authorized_at_most_once:
  "distinct (map (\<lambda>(q, clock). ri_client_order_id (iq_intent q))
     (fst (claim_run (try_issue dig) non_issue events initial_store)))"
  using client_order.run_grants [OF store_inv_initial] by (metis prod.collapse)

text \<open>C11. While the global halt is active no authorization is live, no risk is reserved, none can
  be issued and none can be consumed.\<close>

theorem global_halt_blocks_authorizations:
  assumes "auth_reachable P dig s" and "ha_active (st_halt s)"
  shows "(\<forall>a \<in> set (st_authorizations s). au_state a \<noteq> ISSUED) \<and> reserved_aggregate s = 0 \<and>
    issue dig' q clock s \<noteq> Inr r \<and> consume aid ih ph sh clock' s \<noteq> Inr (t, True)"
proof -
  have inv: "store_inv s" by (rule auth_reachable_inv [OF assms(1)])
  then have dead: "\<forall>a \<in> set (st_authorizations s). au_state a \<noteq> ISSUED"
    using assms(2) by (simp add: store_inv_def)
  moreover have "reserved_aggregate s = 0"
    using active_reservations_live [OF inv dead] by (simp add: reserved_aggregate_def)
  moreover have "issue dig' q clock s \<noteq> Inr r"
    using issue_ok(1) issue_guard_ok(1) assms(2) by (cases r) fastforce
  moreover have "consume aid ih ph sh clock' s \<noteq> Inr (t, True)"
  proof
    assume c: "consume aid ih ph sh clock' s = Inr (t, True)"
    then have "consumable aid ih ph sh (astimezone_utc clock') (expire (astimezone_utc clock') s)"
      using consume_ok(1) [OF inv c] by simp
    then show False using assms(2) by (auto elim!: consumable_row)
  qed
  ultimately show ?thesis by blast
qed

theorem global_halt_blocks_authorizations_witness:
  "reserved_aggregate sample_halted = 0 \<and>
   consume ''digest'' ''ih'' ''ph'' ''sh'' (Aware 3) sample_halted \<noteq> Inr (sample_halted, True)"
proof -
  have "ha_active (st_halt sample_halted)"
    by (simp add: sample_halted_def activate_global_halt_def utc_now_def rbind_def py_strip_def
        py_space_def record_event_def)
  from global_halt_blocks_authorizations [OF sample_halted_reachable this] show ?thesis by blast
qed

text \<open>An issued authorization comes from a clean, unexpired decision on the same intent, lives
  at most five seconds and no longer than the decision, binds the hashes it was evaluated for, and
  is charged before it is granted: with it counted, the market, event and aggregate reservations
  on top of the caller's base risk stay within the policy.\<close>

theorem issued_authorization_is_bounded:
  assumes "issue dig q clock s = Inr (t, a)"
  shows "rd_state (iq_decision q) = RiskDecisionState.PASS_NEXT_GATE \<and>
    rd_reasons (iq_decision q) = [] \<and> ra_intent_hash a = ri_content_hash (iq_intent q) \<and>
    rd_intent_hash (iq_decision q) = ra_intent_hash a \<and>
    ra_safety_state_hash a = iq_safety_state_hash q \<and>
    astimezone_utc clock < ra_expires_at a \<and> ra_expires_at a \<le> rd_expires_at (iq_decision q) \<and>
    ra_expires_at a \<le> astimezone_utc clock + seconds 5 \<and>
    \<not> ra_production_execution_authorized a \<and>
    iq_base_market_risk q + reserved_market (ri_market_ticker (iq_intent q)) t
      \<le> rp_market_loss_limit (iq_policy q) \<and>
    iq_base_event_risk q + reserved_event (ri_event_id (iq_intent q)) t
      \<le> rp_related_event_risk_limit (iq_policy q) \<and>
    iq_base_aggregate_risk q + reserved_aggregate t \<le> rp_aggregate_open_risk_limit (iq_policy q)"
proof -
  note ok = issue_ok [OF assms]
  note ins = insert_authorization_ok(3,7) [OF ok(2)]
  note caps = issue_guard_ok(3-5) [OF ok(1)]
  have a: "ra_intent_hash a = ri_content_hash (iq_intent q)"
    "ra_safety_state_hash a = iq_safety_state_hash q" "\<not> ra_production_execution_authorized a"
    "ra_expires_at a = min (rd_expires_at (iq_decision q)) (astimezone_utc clock + seconds 5)"
    by (simp_all add: ins(2) authorization_of_def authorization_row_def Let_def)
  have m: "reserved_market (ri_market_ticker (iq_intent q)) t =
      reserved_market (ri_market_ticker (iq_intent q)) (expire (astimezone_utc clock) s) +
      iq_requested_market_risk q"
    by (simp add: reserved_market_def active_reservations_def ins(1) reservation_row_def
        del: expire_simps)
  have e: "reserved_event (ri_event_id (iq_intent q)) t =
      reserved_event (ri_event_id (iq_intent q)) (expire (astimezone_utc clock) s) +
      iq_requested_event_risk q"
    by (simp add: reserved_event_def active_reservations_def ins(1) reservation_row_def
        del: expire_simps)
  have g: "reserved_aggregate t = reserved_aggregate (expire (astimezone_utc clock) s) +
      iq_requested_aggregate_risk q"
    by (simp add: reserved_aggregate_def active_reservations_def ins(1) reservation_row_def
        del: expire_simps)
  have "0 < seconds 5" by (simp add: seconds_def)
  then show ?thesis using ok(3-6) a caps m e g by simp
qed

theorem issued_authorization_is_bounded_witness:
  "\<exists>a. issue sample_digest sample_request (Aware 1) sample_cleared = Inr (sample_issued, a) \<and>
     ra_expires_at a \<le> 1 + seconds 5 \<and> reserved_aggregate sample_issued \<le> 100"
  using sample_issue_step issued_authorization_is_bounded
    [of sample_digest sample_request "Aware 1" sample_cleared sample_issued]
  by (auto simp: sample_request_def CANONICAL_POLICY_def)

text \<open>The weekly and monthly review holds and the experiment halt are latched in the store:
  no operation, a later record of a harmless loss window included, ever clears one.\<close>

theorem loss_holds_are_latched:
  assumes "auth_reachable P dig s" and "(auth_step P dig)\<^sup>*\<^sup>* s t"
  shows "(lh_weekly_review_required (st_loss_holds s) \<longrightarrow>
      lh_weekly_review_required (st_loss_holds t)) \<and>
    (lh_monthly_review_required (st_loss_holds s) \<longrightarrow>
      lh_monthly_review_required (st_loss_holds t)) \<and>
    (lh_experiment_halt_required (st_loss_holds s) \<longrightarrow>
      lh_experiment_halt_required (st_loss_holds t))"
proof -
  have "store_inv t \<and> ?thesis"
    using assms(2)
  proof (induction rule: rtranclp_induct)
    case base
    then show ?case using auth_reachable_inv [OF assms(1)] by simp
  next
    case (step y z)
    with auth_step_inv auth_step_holds [OF step(2)] show ?case by blast
  qed
  then show ?thesis by blast
qed

theorem loss_holds_are_latched_witness:
  "lh_weekly_review_required (st_loss_holds sample_held) \<and>
   lh_weekly_review_required (st_loss_holds
     (auth_exec sample_digest (OpLoss sample_losses ''ops'' (Aware 3)) sample_held))"
proof -
  let ?later = "auth_exec sample_digest (OpLoss sample_losses ''ops'' (Aware 3)) sample_held"
  have held: "lh_weekly_review_required (st_loss_holds sample_held)"
    by (simp add: sample_held_def record_loss_state_def utc_now_def Let_def record_event_def)
  have "auth_step (\<lambda>_. True) sample_digest sample_cleared sample_held"
    by (rule auth_step.step_loss [of "sample_losses\<lparr>lw_weekly_review_required := True\<rparr>" "''ops''"
          "Aware 2"])
      (simp add: sample_held_def record_loss_state_def utc_now_def Let_def)
  then have reach: "auth_reachable (\<lambda>_. True) sample_digest sample_held"
    using sample_cleared_reachable by (blast intro: auth_reachable.step)
  have "(auth_step (\<lambda>_. True) sample_digest)\<^sup>*\<^sup>* sample_held ?later"
    using auth_exec_step by (metis rtranclp.rtrancl_refl r_into_rtranclp)
  from loss_holds_are_latched [OF reach this] held show ?thesis by blast
qed

section \<open>The evaluation of an intent\<close>

text \<open>C3. A decision that passes to the next gate has met every hard limit, whether it passed
  clean or through the exception for risk reduction: projected market, event and aggregate risk
  within 10, 25 and 100 dollars, the commitment covered by cash and by the active pool, the equity
  above the protected reserve, the account fresh, reconciled and free of unknown items, no kill
  switch, halt or compliance hold, and a client order id of the bot's own namespace.\<close>

theorem passed_evaluation_meets_every_limit:
  assumes "evaluate_risk dig i s pr p c now = Inr d"
    and "rd_state d = RiskDecisionState.PASS_NEXT_GATE"
  shows "ep_market_risk pr \<le> 10 \<and> ep_event_risk pr \<le> 25 \<and> ep_aggregate_risk pr \<le> 100 \<and>
    (\<exists>e. ps_account_equity s = Some e \<and> 700 \<le> e) \<and>
    (\<exists>m cash a. ri_maximum_expected_cash_commitment i = Some m \<and> ps_cash s = Some cash \<and>
       m \<le> cash \<and> ps_active_capital_available s = Some a \<and> m \<le> a) \<and>
    ps_account_fresh s \<and> ps_reconciliation_status s = ReconciliationStatus.RECONCILED \<and>
    ps_unknown_orders s = 0 \<and> ps_external_positions s = 0 \<and> ps_external_orders s = 0 \<and>
    exposures_agree (cx_exposure_match_tolerance c) (ps_exchange_market_exposure s)
      (ps_independently_calculated_market_exposure s) \<and>
    \<not> ss_global_halt (cx_safety c) \<and> ss_compliance (cx_safety c) = ComplianceState.CLEAR \<and>
    (\<forall>k \<in> set (ss_kills (cx_safety c)). ks_level k \<noteq> KillLevel.KILLED) \<and>
    namespace_valid (ri_client_order_id i) \<and> cx_client_order_id_unique c"
proof -
  note ev = evaluate_risk_ok [OF assms(1)]
  from assms(2) have "set (collect_reasons i s pr p c) \<subseteq> set reduction_permitted"
    unfolding ev(2) decide_pass by auto
  note ok = pass_waives_only_loss_stops [OF this]
  have acc: "account_reasons s c = []" and cap: "capital_reasons i s pr p = []"
    and ord: "order_reasons i c = []" and mis: "\<not> financial_missing i s" using ok by blast+
  have pol: "rp_market_loss_limit p \<le> 10" "rp_related_event_risk_limit p \<le> 25"
    "rp_aggregate_open_risk_limit p \<le> 100" "700 \<le> rp_protected_reserve p"
    using ev(1) by (simp_all add: not_weaker_def)
  have caps: "ep_market_risk pr \<le> 10" "ep_event_risk pr \<le> 25" "ep_aggregate_risk pr \<le> 100"
    "\<exists>e. ps_account_equity s = Some e \<and> 700 \<le> e"
    using cap pol unfolding capital_reasons_Nil by (auto intro: order_trans)
  obtain m where m: "ri_maximum_expected_cash_commitment i = Some m"
    using mis by (auto simp: financial_missing_def)
  have cash: "\<exists>m cash a. ri_maximum_expected_cash_commitment i = Some m \<and> ps_cash s = Some cash \<and>
      m \<le> cash \<and> ps_active_capital_available s = Some a \<and> m \<le> a"
    using cap m unfolding capital_reasons_Nil by blast
  show ?thesis
    using caps cash acc ord ok by (simp add: account_reasons_def order_reasons_def)
qed

lemma sample_pass:
  "\<exists>d. evaluate_risk sample_digest sample_intent sample_snapshot sample_projection CANONICAL_POLICY
     sample_context 0 = Inr d \<and> rd_state d = RiskDecisionState.PASS_NEXT_GATE"
proof -
  obtain d where d: "evaluate_risk sample_digest sample_intent sample_snapshot sample_projection
      CANONICAL_POLICY sample_context 0 = Inr d"
    using evaluate_risk_total not_weaker_canonical by blast
  have "readiness_reasons sample_readiness = []"
    by (simp add: readiness_reasons_Nil NewRiskReadiness_fields_def sample_readiness_def)
  then have "collect_reasons sample_intent sample_snapshot sample_projection CANONICAL_POLICY
      sample_context = []"
    by (simp add: collect_reasons_def intent_reasons_def account_reasons_def capital_reasons_def
        order_reasons_def safety_reasons_def financial_missing_def exposures_agree_def
        sample_intent_def sample_snapshot_def sample_projection_def sample_context_def
        sample_safety_def sample_losses_def CANONICAL_POLICY_def namespace_valid_def
        bot_namespace_def startswith_def ascii_alnum_def)
  with evaluate_risk_ok(2) [OF d] d show ?thesis by (auto simp: decide_pass)
qed

theorem passed_evaluation_meets_every_limit_witness:
  "ep_market_risk sample_projection \<le> 10 \<and> namespace_valid (ri_client_order_id sample_intent)"
  using sample_pass passed_evaluation_meets_every_limit by blast

lemma readiness_never_halts:
  assumes "r \<in> {RiskReason.GLOBAL_HALT, RiskReason.EXPERIMENT_DRAWDOWN_STOP}"
  shows "r \<notin> set (readiness_reasons n)"
proof -
  have "list_all (\<lambda>(n, r). r \<noteq> RiskReason.GLOBAL_HALT \<and> r \<noteq> RiskReason.EXPERIMENT_DRAWDOWN_STOP)
      READINESS_REASONS"
    by (simp add: READINESS_REASONS_def)
  then have "RiskReason.GLOBAL_HALT \<notin> snd ` set READINESS_REASONS"
    "RiskReason.EXPERIMENT_DRAWDOWN_STOP \<notin> snd ` set READINESS_REASONS"
    by (auto simp: list_all_iff)
  moreover have "set (readiness_reasons n) \<subseteq> snd ` set READINESS_REASONS"
    by (auto simp: readiness_reasons_def)
  ultimately show ?thesis using assms by blast
qed

lemma only_safety_halts:
  assumes "r \<in> {RiskReason.GLOBAL_HALT, RiskReason.EXPERIMENT_DRAWDOWN_STOP}"
  shows "r \<in> set (collect_reasons i s pr p c) \<longleftrightarrow> r \<in> set (safety_reasons c)"
proof -
  have "r \<notin> set (readiness_reasons (cx_readiness c))" by (rule readiness_never_halts [OF assms])
  with assms have "r \<notin> set (intent_reasons i s c)"
    by (elim insertE emptyE) (simp_all add: intent_reasons_def)
  moreover from assms have "r \<notin> set (account_reasons s c)"
    by (elim insertE emptyE) (simp_all add: account_reasons_def)
  moreover from assms have "r \<notin> set (capital_reasons i s pr p)"
    by (elim insertE emptyE) (simp_all add: capital_reasons_def split: option.splits)
  moreover from assms have "r \<notin> set (order_reasons i c)"
    by (elim insertE emptyE) (simp_all add: order_reasons_def)
  ultimately show ?thesis by (simp add: collect_reasons_def)
qed

lemma safety_halts:
  "RiskReason.EXPERIMENT_DRAWDOWN_STOP \<in> set (safety_reasons c) \<or>
     RiskReason.GLOBAL_HALT \<in> set (safety_reasons c) \<longleftrightarrow>
   ss_global_halt (cx_safety c) \<or> {RiskReason.GLOBAL_HALT, RiskReason.EXPERIMENT_DRAWDOWN_STOP} \<inter>
     set (lw_reasons (ss_losses (cx_safety c))) \<noteq> {}"
proof -
  have "kill_reason k \<noteq> RiskReason.GLOBAL_HALT"
    "kill_reason k \<noteq> RiskReason.EXPERIMENT_DRAWDOWN_STOP" for k by (cases k, simp_all)+
  then have "RiskReason.GLOBAL_HALT \<notin> (kill_reason \<circ> ks_category) ` K"
    "RiskReason.EXPERIMENT_DRAWDOWN_STOP \<notin> (kill_reason \<circ> ks_category) ` K" for K
    by (metis (no_types, lifting) comp_apply imageE)+
  then show ?thesis by (auto simp: safety_reasons_def simp del: comp_apply)
qed

text \<open>The outcome of an evaluation is determined by the reasons it collected: HALT exactly
  when the global halt is set or the loss state reports a halt, PASS exactly when nothing was found
  or a reducing order met only loss stops; a pass shows no reason, any other outcome shows all of
  them, sorted and without repetition; and no outcome authorizes a production write.\<close>

theorem evaluation_outcome:
  assumes "evaluate_risk dig i s pr p c now = Inr d"
  defines "found \<equiv> set (collect_reasons i s pr p c)"
  shows "(rd_state d = RiskDecisionState.HALT \<longleftrightarrow> ss_global_halt (cx_safety c) \<or>
      {RiskReason.GLOBAL_HALT, RiskReason.EXPERIMENT_DRAWDOWN_STOP} \<inter>
        set (lw_reasons (ss_losses (cx_safety c))) \<noteq> {}) \<and>
    (rd_state d = RiskDecisionState.PASS_NEXT_GATE \<longleftrightarrow> found = {} \<or> (ep_risk_reducing pr \<and>
      found \<subseteq> {RiskReason.DAILY_LOSS_STOP, RiskReason.WEEKLY_LOSS_STOP, RiskReason.MONTHLY_LOSS_STOP})) \<and>
    set (rd_reasons d) = (if rd_state d = RiskDecisionState.PASS_NEXT_GATE then {} else found) \<and>
    sorted (rd_reasons d) \<and> distinct (rd_reasons d) \<and> \<not> rd_production_write_authorized d"
proof -
  note ev = evaluate_risk_ok [OF assms(1)]
  have halt: "RiskReason.EXPERIMENT_DRAWDOWN_STOP \<in> found \<or> RiskReason.GLOBAL_HALT \<in> found \<longleftrightarrow>
      ss_global_halt (cx_safety c) \<or> {RiskReason.GLOBAL_HALT, RiskReason.EXPERIMENT_DRAWDOWN_STOP} \<inter>
        set (lw_reasons (ss_losses (cx_safety c))) \<noteq> {}"
    unfolding safety_halts [symmetric] found_def by (simp add: only_safety_halts)
  have perm: "set reduction_permitted =
      {RiskReason.DAILY_LOSS_STOP, RiskReason.WEEKLY_LOSS_STOP, RiskReason.MONTHLY_LOSS_STOP}"
    by (simp add: reduction_permitted_def)
  have pass: "rd_state d = RiskDecisionState.PASS_NEXT_GATE \<longleftrightarrow> found = {} \<or> (ep_risk_reducing pr \<and>
      found \<subseteq> {RiskReason.DAILY_LOSS_STOP, RiskReason.WEEKLY_LOSS_STOP, RiskReason.MONTHLY_LOSS_STOP})"
    unfolding ev(2) decide_pass perm found_def by simp
  have shown: "set (rd_reasons d) =
      (if rd_state d = RiskDecisionState.PASS_NEXT_GATE then {} else found)"
    unfolding ev(2,3) decide_reasons by (simp add: found_def)
  have "sorted (rd_reasons d)" "distinct (rd_reasons d)" unfolding ev(3) by simp_all
  with pass shown ev(6) show ?thesis unfolding halt [symmetric] found_def ev(2) decide_halt by blast
qed

theorem evaluation_outcome_witness:
  "\<exists>d. evaluate_risk sample_digest sample_intent sample_snapshot sample_projection CANONICAL_POLICY
     sample_context 0 = Inr d \<and> set (rd_reasons d) = {} \<and> \<not> rd_production_write_authorized d"
  using sample_pass evaluation_outcome by fastforce

text \<open>A policy is accepted exactly when it is at least as strict as the canonical one in every
  limit and keeps its bankroll; \<open>evaluate_risk\<close> answers for exactly those policies, and
  \<open>authorize_new_risk\<close> authorizes exactly when the policy is accepted, no halt, stale data or
  missing reconciliation stands in the way, the loss is positive and strictly below what each cap
  leaves, and no loss stop is reached.\<close>

theorem policy_strictness_and_new_risk:
  "(validate_policy_is_not_weaker p = Inr () \<longleftrightarrow>
     rp_bankroll p = 1000 \<and> 700 \<le> rp_protected_reserve p \<and> rp_active_capital p \<le> 300 \<and>
     rp_aggregate_open_risk_limit p \<le> 100 \<and> rp_market_loss_limit p \<le> 10 \<and>
     rp_related_event_risk_limit p \<le> 25 \<and> rp_daily_loss_stop p \<le> 20 \<and>
     rp_weekly_loss_stop p \<le> 50 \<and> rp_monthly_loss_stop p \<le> 100 \<and>
     rp_total_drawdown_stop p \<le> 200) \<and>
   ((\<exists>d. evaluate_risk dig i s pr p c now = Inr d) \<longleftrightarrow> validate_policy_is_not_weaker p = Inr ()) \<and>
   (authorize_new_risk r (Some p) = Inr (True, ''all deterministic risk checks passed'') \<longleftrightarrow>
     validate_policy_is_not_weaker p = Inr () \<and> \<not> rq_globally_halted r \<and> rq_data_fresh r \<and>
     rq_reconciled r \<and> 0 < rq_incremental_market_loss r \<and>
     rq_incremental_market_loss r < rp_market_loss_limit p - rq_current_market_risk r \<and>
     rq_incremental_market_loss r < rp_related_event_risk_limit p - rq_current_event_risk r \<and>
     rq_incremental_market_loss r < rp_aggregate_open_risk_limit p - rq_current_open_risk r \<and>
     rq_daily_loss r < rp_daily_loss_stop p \<and> rq_weekly_loss r < rp_weekly_loss_stop p \<and>
     rq_monthly_loss r < rp_monthly_loss_stop p \<and>
     rq_total_drawdown r < rp_total_drawdown_stop p)"
  unfolding authorize_new_risk_iff evaluate_risk_total validate_policy_ok
  by (simp add: not_weaker_def algebra_simps)

text \<open>The policy in force is the unique one with the latest effective time not after the
  evaluation time, and selection fails exactly when there is no such policy or no unique one.\<close>

theorem risk_policy_selection:
  "select_risk_policy ps t = Inr p \<longleftrightarrow>
     filter (\<lambda>q. rp_effective_at q \<le> t \<and>
       (\<forall>q' \<in> set ps. rp_effective_at q' \<le> t \<longrightarrow> rp_effective_at q' \<le> rp_effective_at q)) ps = [p]"
proof -
  let ?el = "filter (\<lambda>q. rp_effective_at q \<le> t) ps"
  have eq: "filter (\<lambda>q. rp_effective_at q = Max (set (map rp_effective_at ?el))) ?el =
      filter (\<lambda>q. rp_effective_at q \<le> t \<and>
       (\<forall>q' \<in> set ps. rp_effective_at q' \<le> t \<longrightarrow> rp_effective_at q' \<le> rp_effective_at q)) ps"
    if "?el \<noteq> []"
  proof -
    have fin: "finite (set (map rp_effective_at ?el))" "set (map rp_effective_at ?el) \<noteq> {}"
      using that by (auto simp: filter_empty_conv)
    show ?thesis
      unfolding filter_filter
      by (rule filter_cong [OF refl]) (use fin in \<open>auto simp: eq_Max_iff\<close>)
  qed
  show ?thesis
  proof (cases "?el = []")
    case True
    then have "\<forall>q \<in> set ps. \<not> rp_effective_at q \<le> t" by (simp add: filter_empty_conv)
    then have "filter (\<lambda>q. rp_effective_at q \<le> t \<and>
       (\<forall>q' \<in> set ps. rp_effective_at q' \<le> t \<longrightarrow> rp_effective_at q' \<le> rp_effective_at q)) ps = []"
      by (simp add: filter_empty_conv)
    with True show ?thesis by (simp add: select_risk_policy_def)
  next
    case False
    show ?thesis
      unfolding select_risk_policy_def Let_def using False eq [OF False]
      by (simp split: list.splits)
  qed
qed

theorem risk_policy_selection_witness:
  "select_risk_policy [CANONICAL_POLICY] (seconds 1767225600) = Inr CANONICAL_POLICY"
  unfolding risk_policy_selection by (simp add: CANONICAL_POLICY_def)

section \<open>Ledger, projection, reconciliation and loss windows\<close>

text \<open>The experiment ledger is rebuilt from its entries exactly when no entry id repeats. Its
  equity is the starting capital plus the bot's own realized gains and settlements less its fees,
  simulated and external entries left out; the high-water mark never falls below the start, the
  equity or the previous mark, and the drawdown is the distance to it, never negative.\<close>

theorem experiment_ledger_accounts_exactly:
  "((\<exists>l. ledger_build es starting prior = Inr l) \<longleftrightarrow> distinct (map le_entry_id es)) \<and>
   (case ledger_build es starting prior of
      Inl e \<Rightarrow> e = RiskDomainError ''duplicate ledger entry''
    | Inr l \<Rightarrow> el_experiment_equity l = starting
          + dsum (map le_amount (filter (counts REALIZED_PNL) es))
          - dsum (map le_amount (filter (counts FEE) es))
          + dsum (map le_amount (filter (counts SETTLEMENT) es)) \<and>
        el_drawdown l = el_high_water_mark l - el_experiment_equity l \<and> 0 \<le> el_drawdown l \<and>
        starting \<le> el_high_water_mark l \<and>
        (case prior of None \<Rightarrow> True | Some p \<Rightarrow> p \<le> el_high_water_mark l \<or> p = 0))"
proof (cases "ledger_build es starting prior")
  case (Inl e)
  then have "e = RiskDomainError ''duplicate ledger entry''"
    by (auto simp: ledger_build_def rbind_eq_Inl ledger_loop_error Let_def)
  with Inl ledger_build_total [of es starting prior] show ?thesis by simp
next
  case (Inr l)
  note ok = ledger_build_ok [OF Inr]
  from Inr ok(1) have "(\<exists>l. ledger_build es starting prior = Inr l) \<longleftrightarrow> distinct (map le_entry_id es)"
    by blast
  moreover have "case prior of None \<Rightarrow> True | Some p \<Rightarrow> p \<le> el_high_water_mark l \<or> p = 0"
    using ok(6) by (simp split: option.split)
  ultimately show ?thesis using ok(2-5) by (simp add: Inr ledger_total_def)
qed

text \<open>The full-fill projection is conservative: an order that does not reduce exposure is
  charged its whole maximum loss on top of the current and resting risk and never counts as
  reducing; one that counts as reducing is reduce-only, does not increase the directional
  liability and raises none of the three risks.\<close>

theorem full_fill_projection_is_conservative:
  assumes "project_full_fill i market event aggregate rest_market rest_event rest_aggregate
    directional = Inr pr" and "ri_maximum_loss_if_filled i = Some loss"
  shows "(ri_economic_action i \<noteq> EconomicAction.REDUCE_EXISTING_EXPOSURE \<longrightarrow>
      ep_market_risk pr = market + rest_market + loss \<and>
      ep_event_risk pr = event + rest_event + loss \<and>
      ep_aggregate_risk pr = aggregate + rest_aggregate + loss \<and> \<not> ep_risk_reducing pr) \<and>
    (ep_risk_reducing pr \<longrightarrow> ep_market_risk pr \<le> market + rest_market \<and>
      ep_event_risk pr \<le> event + rest_event \<and> ep_aggregate_risk pr \<le> aggregate + rest_aggregate \<and>
      ri_reduce_only i \<and> \<not> directional)"
  using project_full_fill_opening [OF assms(1)] project_full_fill_reducing [OF assms(1)] assms(2)
  by simp

theorem full_fill_projection_is_conservative_witness:
  "\<exists>pr. project_full_fill sample_intent 2 3 4 1 1 1 False = Inr pr \<and> ep_aggregate_risk pr = 6 \<and>
     \<not> ep_risk_reducing pr"
proof -
  obtain pr where pr: "project_full_fill sample_intent 2 3 4 1 1 1 False = Inr pr"
    by (simp add: project_full_fill_def sample_intent_def Let_def)
  from full_fill_projection_is_conservative [OF pr, of 1] pr show ?thesis
    by (simp add: sample_intent_def)
qed

text \<open>An account snapshot reconciles exactly when the API is authenticated and healthy, the
  observation is recent and complete in all seven parts, no order or position of the trading
  subaccount is of unknown origin, and the exchange's market and event exposures are known and
  agree with the bot's own within the tolerance.\<close>

theorem reconciliation_is_exact:
  "rr_status (reconcile v now max_age tol) = ReconciliationStatus.RECONCILED \<longleftrightarrow>
     rc_api_authenticated v \<and> rc_api_healthy v \<and> now - rc_observed_at v \<le> max_age \<and>
     rc_balance_complete v \<and> rc_positions_complete v \<and> rc_orders_complete v \<and>
     rc_fills_complete v \<and> rc_settlements_complete v \<and> rc_ledger_complete v \<and>
     rc_bot_client_ids_complete v \<and> rr_unknown_orders (reconcile v now max_age tol) = 0 \<and>
     rr_unknown_positions (reconcile v now max_age tol) = 0 \<and>
     (\<exists>x c. rc_exchange_market_exposure v = Some x \<and> rc_calculated_market_exposure v = Some c \<and>
        \<bar>x - c\<bar> \<le> tol) \<and>
     (\<exists>x c. rc_exchange_event_exposure v = Some x \<and> rc_calculated_event_exposure v = Some c \<and>
        \<bar>x - c\<bar> \<le> tol)"
proof -
  have agree: "exposures_agree tol x c \<longleftrightarrow> (\<exists>a b. x = Some a \<and> c = Some b \<and> \<bar>a - b\<bar> \<le> tol)" for x c
    by (auto simp: exposures_agree_def split: option.splits)
  have "rr_unknown_orders (reconcile v now max_age tol) = 0 \<and>
      rr_unknown_positions (reconcile v now max_age tol) = 0 \<longleftrightarrow> no_unknown_items (rc_items v)"
    unfolding unknown_count_zero [symmetric] by (simp add: reconcile_def case_prod_beta Let_def)
  then show ?thesis
    unfolding reconcile_RECONCILED base_status_RECONCILED agree by blast
qed

text \<open>Loss windows trip exactly at their stops and stay tripped: each hold is set exactly when
  its stop is reached or the prior state already held, its reason is reported exactly then, the
  week starts on the Monday at or before the risk date, and every window of a later run, each
  carrying the flags of the one before, keeps the weekly, monthly and experiment holds.\<close>

theorem loss_windows_trip_and_latch:
  assumes "evaluate_loss_windows zone now d w m dd policy prior = Inr l"
    and "loss_run zone policy windows (carry l) = Inr later" and "s \<in> set later"
  shows "tz_aware now \<and>
    (RiskReason.DAILY_LOSS_STOP \<in> set (lw_reasons l) \<longleftrightarrow> rp_daily_loss_stop policy \<le> max 0 (- d)) \<and>
    (RiskReason.WEEKLY_LOSS_STOP \<in> set (lw_reasons l) \<longleftrightarrow>
       pr_weekly_review prior \<or> rp_weekly_loss_stop policy \<le> max 0 (- w)) \<and>
    (RiskReason.MONTHLY_LOSS_STOP \<in> set (lw_reasons l) \<longleftrightarrow>
       pr_monthly_review prior \<or> rp_monthly_loss_stop policy \<le> max 0 (- m)) \<and>
    (RiskReason.EXPERIMENT_DRAWDOWN_STOP \<in> set (lw_reasons l) \<longleftrightarrow>
       pr_experiment_halt prior \<or> rp_total_drawdown_stop policy \<le> dd) \<and>
    weekday (lw_week_start l) = 0 \<and> lw_week_start l \<le> lw_risk_date l \<and>
    lw_risk_date l \<le> lw_week_start l + 6 \<and>
    (lw_weekly_review_required l \<longrightarrow> lw_weekly_review_required s) \<and>
    (lw_monthly_review_required l \<longrightarrow> lw_monthly_review_required s) \<and>
    (lw_experiment_halt_required l \<longrightarrow> lw_experiment_halt_required s)"
  using loss_run_latched [OF assms(2,3)] evaluate_loss_windows_ok [OF assms(1)]
    evaluate_loss_windows_week [OF assms(1)]
  by (simp add: loss_of_def carry_def)

theorem loss_windows_trip_and_latch_witness:
  "\<exists>l s. evaluate_loss_windows (\<lambda>_ _. 738000) (Aware 0) 0 (-60) 0 0 CANONICAL_POLICY
       \<lparr>pr_weekly_review = False, pr_monthly_review = False, pr_experiment_halt = False,
        pr_daily_triggered_at = None, pr_risk_date = None\<rparr> = Inr l \<and>
     loss_run (\<lambda>_ _. 738000) CANONICAL_POLICY [(Aware 0, 0, 0, 0, 0)] (carry l) = Inr [s] \<and>
     lw_weekly_review_required l \<and> lw_weekly_review_required s"
proof -
  let ?p = "\<lparr>pr_weekly_review = False, pr_monthly_review = False, pr_experiment_halt = False,
        pr_daily_triggered_at = None, pr_risk_date = None\<rparr>"
  obtain l where l: "evaluate_loss_windows (\<lambda>_ _. 738000) (Aware 0) 0 (-60) 0 0 CANONICAL_POLICY ?p
      = Inr l" and held: "lw_weekly_review_required l"
    by (simp add: evaluate_loss_windows_def Let_def loss_of_def CANONICAL_POLICY_def)
  obtain s where s: "loss_run (\<lambda>_ _. 738000) CANONICAL_POLICY [(Aware 0, 0, 0, 0, 0)] (carry l) =
      Inr [s]"
    by (simp add: evaluate_loss_windows_def Let_def rbind_def)
  from loss_windows_trip_and_latch [OF l s, of s] l s held show ?thesis by auto
qed

text \<open>C36. The product state agrees with the evaluation, on loss state produced by the loss windows.
  The product is HALTED exactly when the evaluation halts or compliance is not clear; LEARNING exactly
  when nothing is globally halted, compliance is clear, the account is reconciled, no kill switch is
  killed and no loss window gives a reason; NEEDS_ATTENTION exactly when it is not halted and not
  reconciled; and PAUSED in every other case, with a kill switch killed or a loss window tripped. When
  it is LEARNING the safety state adds no rejection reason beyond an unavailable authorization
  service.\<close>

theorem product_state_agrees_with_evaluation:
  assumes "evaluate_loss_windows zone now d w m dd policy prior = Inr (ss_losses (cx_safety c))"
    and "evaluate_risk dig i snap pr p c at_time = Inr dec"
  shows "(resolve_product_state (cx_safety c) = HALTED \<longleftrightarrow>
       rd_state dec = RiskDecisionState.HALT \<or> ss_compliance (cx_safety c) \<noteq> ComplianceState.CLEAR) \<and>
    (resolve_product_state (cx_safety c) = NEEDS_ATTENTION \<longleftrightarrow>
       resolve_product_state (cx_safety c) \<noteq> HALTED \<and>
       ss_reconciliation (cx_safety c) \<noteq> ReconciliationStatus.RECONCILED) \<and>
    (resolve_product_state (cx_safety c) = LEARNING \<longleftrightarrow>
       \<not> ss_global_halt (cx_safety c) \<and> ss_compliance (cx_safety c) = ComplianceState.CLEAR \<and>
       ss_reconciliation (cx_safety c) = ReconciliationStatus.RECONCILED \<and>
       (\<forall>k \<in> set (ss_kills (cx_safety c)). ks_level k \<noteq> KillLevel.KILLED) \<and>
       lw_reasons (ss_losses (cx_safety c)) = []) \<and>
    (resolve_product_state (cx_safety c) = LEARNING \<longrightarrow>
       set (safety_reasons c) \<subseteq> {RiskReason.AUTHORIZATION_UNAVAILABLE}) \<and>
    (resolve_product_state (cx_safety c) = PAUSED \<longrightarrow>
       (\<exists>k \<in> set (ss_kills (cx_safety c)). ks_level k = KillLevel.KILLED) \<or>
       lw_reasons (ss_losses (cx_safety c)) \<noteq> [])"
proof -
  note lw = evaluate_loss_windows_ok [OF assms(1)]
  note shown = evaluate_loss_windows_reasons [OF assms(1)]
  then have gh: "RiskReason.GLOBAL_HALT \<notin> set (lw_reasons (ss_losses (cx_safety c)))" by blast
  have halt: "rd_state dec = RiskDecisionState.HALT \<longleftrightarrow> ss_global_halt (cx_safety c) \<or>
      lw_experiment_halt_required (ss_losses (cx_safety c))"
    unfolding evaluate_risk_ok(2) [OF assms(2)] decide_halt
    using safety_halts [of c] gh lw(7) by (simp add: only_safety_halts)
  have none: "lw_reasons (ss_losses (cx_safety c)) = [] \<longleftrightarrow>
      \<not> lw_experiment_halt_required (ss_losses (cx_safety c)) \<and>
      \<not> lw_monthly_review_required (ss_losses (cx_safety c)) \<and>
      \<not> lw_weekly_review_required (ss_losses (cx_safety c)) \<and>
      RiskReason.DAILY_LOSS_STOP \<notin> set (lw_reasons (ss_losses (cx_safety c)))"
    using shown lw(5-7) by (cases "lw_reasons (ss_losses (cx_safety c))") auto
  have learning: "resolve_product_state (cx_safety c) = LEARNING \<longleftrightarrow>
      \<not> ss_global_halt (cx_safety c) \<and> ss_compliance (cx_safety c) = ComplianceState.CLEAR \<and>
      ss_reconciliation (cx_safety c) = ReconciliationStatus.RECONCILED \<and>
      (\<forall>k \<in> set (ss_kills (cx_safety c)). ks_level k \<noteq> KillLevel.KILLED) \<and>
      lw_reasons (ss_losses (cx_safety c)) = []"
    unfolding resolve_learning none by blast
  have quiet: "set (safety_reasons c) \<subseteq> {RiskReason.AUTHORIZATION_UNAVAILABLE}"
    if "resolve_product_state (cx_safety c) = LEARNING"
    using that unfolding learning by (simp add: safety_reasons_def filter_empty_conv)
  have paused: "(\<exists>k \<in> set (ss_kills (cx_safety c)). ks_level k = KillLevel.KILLED) \<or>
      lw_reasons (ss_losses (cx_safety c)) \<noteq> []"
    if "resolve_product_state (cx_safety c) = PAUSED"
    using resolve_paused [OF that] unfolding none by blast
  have "resolve_product_state (cx_safety c) = HALTED \<longleftrightarrow>
      rd_state dec = RiskDecisionState.HALT \<or> ss_compliance (cx_safety c) \<noteq> ComplianceState.CLEAR"
    unfolding resolve_halted halt by blast
  with learning quiet paused resolve_attention [of "cx_safety c"] show ?thesis by blast
qed

theorem product_state_agrees_with_evaluation_witness:
  "\<exists>l dec. evaluate_risk sample_digest sample_intent sample_snapshot sample_projection CANONICAL_POLICY
      (sample_context\<lparr>cx_safety := sample_safety\<lparr>ss_losses := l\<rparr>\<rparr>) 0 = Inr dec \<and>
     rd_state dec = RiskDecisionState.HALT \<and>
     resolve_product_state (sample_safety\<lparr>ss_losses := l\<rparr>) = HALTED"
proof -
  let ?p = "\<lparr>pr_weekly_review = False, pr_monthly_review = False, pr_experiment_halt = False,
        pr_daily_triggered_at = None, pr_risk_date = None\<rparr>"
  obtain l where l: "evaluate_loss_windows (\<lambda>_ _. 738000) (Aware 0) 0 0 0 200 CANONICAL_POLICY ?p
      = Inr l" and halt: "lw_experiment_halt_required l"
    and r: "RiskReason.EXPERIMENT_DRAWDOWN_STOP \<in> set (lw_reasons l)"
    by (simp add: evaluate_loss_windows_def Let_def loss_of_def CANONICAL_POLICY_def)
  let ?c = "sample_context\<lparr>cx_safety := sample_safety\<lparr>ss_losses := l\<rparr>\<rparr>"
  obtain dec where dec: "evaluate_risk sample_digest sample_intent sample_snapshot
      sample_projection CANONICAL_POLICY ?c 0 = Inr dec"
    using evaluate_risk_total not_weaker_canonical by blast
  have halted: "rd_state dec = RiskDecisionState.HALT"
    unfolding evaluate_risk_ok(2) [OF dec] decide_halt using r
    by (simp add: collect_reasons_def safety_reasons_def sample_context_def)
  moreover have "evaluate_loss_windows (\<lambda>_ _. 738000) (Aware 0) 0 0 0 200 CANONICAL_POLICY ?p =
      Inr (ss_losses (cx_safety ?c))"
    using l by (simp add: sample_context_def sample_safety_def)
  ultimately have "resolve_product_state (cx_safety ?c) = HALTED"
    using product_state_agrees_with_evaluation dec by blast
  then have "resolve_product_state (sample_safety\<lparr>ss_losses := l\<rparr>) = HALTED"
    by (simp add: sample_context_def)
  with dec halted show ?thesis by blast
qed

text \<open>The readiness gate is open exactly when all thirty-five flags are set; otherwise it names
  every flag that is not set, each one is turned into a reason by the evaluation, so that the
  evaluation cannot pass, and the gate never authorizes a production write.\<close>

theorem readiness_gate_blocks:
  "(gr_state (evaluate_readiness r) = READY_FOR_DETERMINISTIC_EVALUATION \<longleftrightarrow>
      (\<forall>flag \<in> set (NewRiskReadiness_fields r). snd flag)) \<and>
   set (gr_rejection_reasons (evaluate_readiness r)) =
      fst ` {flag \<in> set (NewRiskReadiness_fields r). \<not> snd flag} \<and>
   length (NewRiskReadiness_fields r) = 35 \<and> \<not> gr_production_write_authorized (evaluate_readiness r) \<and>
   (readiness_reasons r = [] \<longleftrightarrow>
      gr_state (evaluate_readiness r) = READY_FOR_DETERMINISTIC_EVALUATION)"
proof -
  have open_iff: "gr_state (evaluate_readiness r) = READY_FOR_DETERMINISTIC_EVALUATION \<longleftrightarrow>
      (\<forall>(n, b) \<in> set (NewRiskReadiness_fields r). b)"
    by (rule readiness_gate.clear_all_flags)
  have "set (gr_rejection_reasons (evaluate_readiness r)) =
      fst ` {flag \<in> set (NewRiskReadiness_fields r). \<not> snd flag}"
    unfolding readiness_gate.missing_eq set_missing_flags by (force simp: image_iff)
  moreover have "length (NewRiskReadiness_fields r) = 35" by (simp add: NewRiskReadiness_fields_def)
  ultimately show ?thesis
    unfolding readiness_reasons_Nil open_iff
    by (auto simp: evaluate_readiness_def Let_def case_prod_beta)
qed

theorem readiness_gate_blocks_witness:
  "gr_state (evaluate_readiness sample_readiness) = READY_FOR_DETERMINISTIC_EVALUATION"
  using readiness_gate_blocks [of sample_readiness]
  by (simp add: NewRiskReadiness_fields_def sample_readiness_def)

end
