(* ===== verification/Demo_Domain.thy ===== *)
theory Demo_Domain
  imports Prelude
begin

text \<open>
  \<open>services/demo_execution/domain.py\<close>: the order lifecycles of the non-production execution
  service, the execution intent with its content hash, and the two order classes with their
  \<open>transition\<close> methods.

  The locale \<open>lifecycle\<close> is the contract the rest of the service relies on: a transition keeps
  the exact accounting, never moves time backwards, leaves terminal states alone, and a filled
  order is filled completely. It is interpreted on \<open>LocalOrder\<close> and on \<open>PaperOrder\<close>;
  \<open>monotone_lifecycle\<close> adds that a fill never shrinks, which \<open>LocalOrder\<close> provides.
\<close>

section \<open>The contract of an order lifecycle\<close>

locale lifecycle =
  fixes trans :: "'a \<Rightarrow> 'o \<Rightarrow> 'o result"
    and state :: "'o \<Rightarrow> 's"
    and quantity :: "'o \<Rightarrow> decimal"
    and filled :: "'o \<Rightarrow> decimal"
    and changed_at :: "'o \<Rightarrow> instant"
    and okay :: "'o \<Rightarrow> bool"
    and edges :: "'s \<Rightarrow> 's list"
    and complete :: "'s \<Rightarrow> bool"
  assumes okay_bounds: "okay ord \<Longrightarrow> 0 \<le> filled ord \<and> filled ord \<le> quantity ord"
    and trans_okay: "trans a ord = Inr ord' \<Longrightarrow> okay ord'"
    and trans_edge: "trans a ord = Inr ord' \<Longrightarrow> state ord' \<in> set (edges (state ord))"
    and trans_quantity: "trans a ord = Inr ord' \<Longrightarrow> quantity ord' = quantity ord"
    and trans_time: "trans a ord = Inr ord' \<Longrightarrow> changed_at ord \<le> changed_at ord'"
    and trans_complete: "trans a ord = Inr ord' \<Longrightarrow> complete (state ord') \<Longrightarrow>
      filled ord' = quantity ord'"
begin

lemma terminal_stuck: "edges (state ord) = [] \<Longrightarrow> trans a ord \<noteq> Inr ord'"
  using trans_edge by fastforce

text \<open>A sequence of transitions; a rejected one leaves the order as it is.\<close>

fun run :: "'a list \<Rightarrow> 'o \<Rightarrow> 'o" where
  "run [] ord = ord"
| "run (a # as) ord = (case trans a ord of Inl e \<Rightarrow> run as ord | Inr ord' \<Rightarrow> run as ord')"

lemma run_okay: "okay ord \<Longrightarrow> okay (run as ord)"
  by (induction as arbitrary: ord) (auto split: sum.splits intro: trans_okay)

lemma run_bounds: "okay ord \<Longrightarrow> 0 \<le> filled (run as ord) \<and> filled (run as ord) \<le> quantity (run as ord)"
  using run_okay okay_bounds by blast

lemma run_quantity: "quantity (run as ord) = quantity ord"
  by (induction as arbitrary: ord) (auto split: sum.splits simp: trans_quantity)

lemma run_time: "changed_at ord \<le> changed_at (run as ord)"
proof (induction as arbitrary: ord)
  case (Cons a as)
  then show ?case by (cases "trans a ord") (auto intro: order_trans [OF trans_time])
qed simp

lemma run_terminal: "edges (state ord) = [] \<Longrightarrow> run as ord = ord"
  by (induction as) (auto split: sum.splits dest: terminal_stuck)

lemma run_complete:
  "(complete (state ord) \<Longrightarrow> filled ord = quantity ord) \<Longrightarrow>
   complete (state (run as ord)) \<Longrightarrow> filled (run as ord) = quantity (run as ord)"
  by (induction as arbitrary: ord) (auto split: sum.splits dest: trans_complete)

text \<open>Every state a run passes through is reached along the edges.\<close>

lemma run_path: "(state ord, state (run as ord)) \<in> {(s, t). t \<in> set (edges s)}\<^sup>*"
proof (induction as arbitrary: ord)
  case Nil
  then show ?case by simp
next
  case (Cons a as)
  show ?case
  proof (cases "trans a ord")
    case (Inl e)
    then show ?thesis using Cons by simp
  next
    case (Inr ord')
    then have "(state ord, state ord') \<in> {(s, t). t \<in> set (edges s)}" by (simp add: trans_edge)
    with Inr Cons [of ord'] show ?thesis by (auto intro: converse_rtrancl_into_rtrancl)
  qed
qed

end

locale monotone_lifecycle = lifecycle +
  assumes trans_mono: "trans a ord = Inr ord' \<Longrightarrow> filled ord \<le> filled ord'"
begin

lemma run_mono: "filled ord \<le> filled (run as ord)"
proof (induction as arbitrary: ord)
  case (Cons a as)
  then show ?case by (cases "trans a ord") (auto intro: order_trans [OF trans_mono])
qed simp

end

section \<open>States and transitions\<close>

datatype ExecutionEnvironment = MOCK | PAPER | DEMO

datatype OrderState =
    PROPOSED
  | RISK_APPROVED
  | SUBMISSION_PENDING
  | ACCEPTED
  | PARTIALLY_FILLED
  | FILLED
  | CANCELLATION_PENDING
  | AMENDMENT_PENDING
  | DECREASE_PENDING
  | CANCELED
  | REJECTED
  | UNKNOWN_RECONCILIATION_REQUIRED

datatype PaperOrderState =
    P_CREATED
  | P_SUBMISSION_PENDING
  | P_SUBMISSION_UNKNOWN
  | P_RESTING
  | P_PARTIALLY_FILLED
  | P_FILLED
  | P_CANCEL_PENDING
  | P_CANCELED
  | P_RECONCILIATION_REQUIRED

datatype ReconciliationOutcome =
    FOUND_EXACTLY_ONE | NOT_FOUND_YET | MULTIPLE_CONFLICT | READ_FAILED

definition ExecutionEnvironment_value :: "ExecutionEnvironment \<Rightarrow> string" where
  "ExecutionEnvironment_value m = (case m of MOCK \<Rightarrow> ''MOCK'' | PAPER \<Rightarrow> ''PAPER'' | DEMO \<Rightarrow> ''DEMO'')"

fun TRANSITIONS :: "OrderState \<Rightarrow> OrderState list" where
  "TRANSITIONS PROPOSED = [RISK_APPROVED]"
| "TRANSITIONS RISK_APPROVED = [SUBMISSION_PENDING]"
| "TRANSITIONS SUBMISSION_PENDING = [ACCEPTED, REJECTED, UNKNOWN_RECONCILIATION_REQUIRED]"
| "TRANSITIONS ACCEPTED = [PARTIALLY_FILLED, FILLED, CANCELLATION_PENDING, AMENDMENT_PENDING,
     DECREASE_PENDING, UNKNOWN_RECONCILIATION_REQUIRED]"
| "TRANSITIONS PARTIALLY_FILLED = [PARTIALLY_FILLED, FILLED, CANCELLATION_PENDING,
     AMENDMENT_PENDING, DECREASE_PENDING, UNKNOWN_RECONCILIATION_REQUIRED]"
| "TRANSITIONS CANCELLATION_PENDING = [CANCELED, PARTIALLY_FILLED, FILLED,
     UNKNOWN_RECONCILIATION_REQUIRED]"
| "TRANSITIONS AMENDMENT_PENDING = [ACCEPTED, PARTIALLY_FILLED, FILLED,
     UNKNOWN_RECONCILIATION_REQUIRED]"
| "TRANSITIONS DECREASE_PENDING = [ACCEPTED, PARTIALLY_FILLED, FILLED, CANCELED,
     UNKNOWN_RECONCILIATION_REQUIRED]"
| "TRANSITIONS UNKNOWN_RECONCILIATION_REQUIRED = [ACCEPTED, PARTIALLY_FILLED, FILLED, CANCELED,
     REJECTED]"
| "TRANSITIONS FILLED = []"
| "TRANSITIONS CANCELED = []"
| "TRANSITIONS REJECTED = []"

fun paper_legacy :: "PaperOrderState \<Rightarrow> PaperOrderState list" where
  "paper_legacy P_CREATED = [P_SUBMISSION_PENDING]"
| "paper_legacy P_SUBMISSION_PENDING = [P_SUBMISSION_UNKNOWN, P_RESTING, P_FILLED]"
| "paper_legacy P_SUBMISSION_UNKNOWN = [P_RECONCILIATION_REQUIRED]"
| "paper_legacy P_RESTING = [P_PARTIALLY_FILLED, P_FILLED, P_CANCEL_PENDING]"
| "paper_legacy P_PARTIALLY_FILLED = [P_FILLED, P_CANCEL_PENDING]"
| "paper_legacy P_CANCEL_PENDING = [P_CANCELED, P_PARTIALLY_FILLED, P_FILLED]"
| "paper_legacy P_FILLED = []"
| "paper_legacy P_CANCELED = []"
| "paper_legacy P_RECONCILIATION_REQUIRED = []"

section \<open>Execution intents\<close>

record ExecutionIntent =
  ei_intent_hash :: string
  ei_ticker :: string
  ei_client_order_id :: string
  ei_outcome_side :: string
  ei_book_side :: string
  ei_price :: decimal
  ei_quantity :: decimal
  ei_time_in_force :: string
  ei_expiration_time :: "datetime option"
  ei_post_only :: bool
  ei_cancel_order_on_pause :: bool
  ei_reduce_only :: bool
  ei_self_trade_prevention_type :: string
  ei_order_group_id :: "string option"
  ei_exchange_index :: "int option"
  ei_subaccount :: int

definition ei_hash_payload :: "ExecutionIntent \<Rightarrow> hashable" where
  "ei_hash_payload i = HList
     [HStr (ei_ticker i), HStr (ei_client_order_id i), HStr (ei_outcome_side i),
      HStr (ei_book_side i), HDec (ei_price i), HDec (ei_quantity i),
      HStr (ei_time_in_force i), hopt (\<lambda>d. HTime (astimezone_utc d)) (ei_expiration_time i),
      HBool (ei_post_only i), HBool (ei_cancel_order_on_pause i), HBool (ei_reduce_only i),
      HStr (ei_self_trade_prevention_type i), hopt HStr (ei_order_group_id i),
      hopt HInt (ei_exchange_index i), HInt (ei_subaccount i)]"

definition ExecutionIntent_post_init :: "digest_fn \<Rightarrow> ExecutionIntent \<Rightarrow> unit result" where
  "ExecutionIntent_post_init dig i =
     (if ei_subaccount i \<noteq> 0
      then Inl (ValueError ''M14 supports only explicit subaccount 0'')
      else if \<not> startswith ''kalsh3-v1-'' (ei_client_order_id i)
      then Inl (ValueError ''client_order_id is outside the bot namespace'')
      else if \<not> (0 < ei_price i \<and> ei_price i < 1) \<or> ei_quantity i \<le> 0
      then Inl (ValueError ''invalid binary-contract price or quantity'')
      else if ei_time_in_force i \<notin>
          set [''good_till_canceled'', ''immediate_or_cancel'', ''fill_or_kill'']
      then Inl (ValueError ''unsupported time_in_force'')
      else if ei_post_only i \<and> ei_time_in_force i \<noteq> ''good_till_canceled''
      then Inl (ValueError ''post_only requires good_till_canceled'')
      else if (case ei_expiration_time i of None \<Rightarrow> False | Some d \<Rightarrow> \<not> tz_aware d)
      then Inl (ValueError ''expiration must be timezone aware'')
      else if ei_intent_hash i \<noteq> dig (ei_hash_payload i)
      then Inl (ValueError ''INTENT_CHANGED'')
      else Inr ())"

section \<open>LocalOrder\<close>

record LocalOrder =
  lo_execution_id :: string
  lo_client_order_id :: string
  lo_environment :: ExecutionEnvironment
  lo_intent_hash :: string
  lo_ticker :: string
  lo_outcome_side :: string
  lo_price :: decimal
  lo_quantity :: decimal
  lo_filled_quantity :: decimal
  lo_fees :: decimal
  lo_state :: OrderState
  lo_updated_at :: datetime
  lo_exchange_order_id :: "string option"
  lo_reconciliation_required :: bool
  lo_production_influence :: string

definition LocalOrder_post_init :: "LocalOrder \<Rightarrow> LocalOrder result" where
  "LocalOrder_post_init x =
     (if \<not> tz_aware (lo_updated_at x)
      then Inl (ValueError ''updated_at must be timezone aware'')
      else if \<not> startswith ''exec-'' (lo_execution_id x)
      then Inl (ValueError ''local execution identifier required'')
      else if lo_filled_quantity x < 0 \<or> lo_filled_quantity x > lo_quantity x \<or> lo_fees x < 0
      then Inl (ValueError ''invalid exact order accounting'')
      else if lo_production_influence x \<noteq> ''NONE''
      then Inl (ValueError ''M14 has no production influence'')
      else Inr x)"

text \<open>Python's \<open>a or b\<close> on an optional string.\<close>

definition str_or :: "string option \<Rightarrow> string option \<Rightarrow> string option" where
  "str_or a b = (case a of None \<Rightarrow> b | Some s \<Rightarrow> if s = '''' then b else Some s)"

record transition_args =
  ta_target :: OrderState
  ta_at :: datetime
  ta_filled_quantity :: "decimal option"
  ta_fees :: "decimal option"
  ta_exchange_order_id :: "string option"
  ta_reconciled :: bool

definition to_state :: "OrderState \<Rightarrow> datetime \<Rightarrow> transition_args" where
  "to_state target now = \<lparr>ta_target = target, ta_at = now, ta_filled_quantity = None,
     ta_fees = None, ta_exchange_order_id = None, ta_reconciled = False\<rparr>"

definition LocalOrder_transition :: "transition_args \<Rightarrow> LocalOrder \<Rightarrow> LocalOrder result" where
  "LocalOrder_transition a x =
     (let moment = astimezone_utc (ta_at a);
          filled = (case ta_filled_quantity a of None \<Rightarrow> lo_filled_quantity x | Some q \<Rightarrow> q);
          next_fees = (case ta_fees a of None \<Rightarrow> lo_fees x | Some f \<Rightarrow> f)
      in if moment < astimezone_utc (lo_updated_at x) \<or> ta_target a \<notin> set (TRANSITIONS (lo_state x))
      then Inl (ValueError ''invalid order lifecycle transition'')
      else if filled < lo_filled_quantity x \<or> filled > lo_quantity x
      then Inl (ValueError ''fill quantity must be monotonic and bounded'')
      else if ta_target a = FILLED \<and> filled \<noteq> lo_quantity x
      then Inl (ValueError ''FILLED requires exact complete quantity'')
      else if ta_target a = PARTIALLY_FILLED \<and> \<not> (0 < filled \<and> filled < lo_quantity x)
      then Inl (ValueError ''PARTIALLY_FILLED requires a proper partial quantity'')
      else LocalOrder_post_init (x\<lparr>lo_state := ta_target a, lo_filled_quantity := filled,
        lo_fees := next_fees,
        lo_exchange_order_id := str_or (ta_exchange_order_id a) (lo_exchange_order_id x),
        lo_reconciliation_required := \<not> ta_reconciled a, lo_updated_at := Aware moment\<rparr>))"

definition local_okay :: "LocalOrder \<Rightarrow> bool" where
  "local_okay x \<longleftrightarrow> LocalOrder_post_init x = Inr x"

lemma local_okay_iff: "local_okay x \<longleftrightarrow> tz_aware (lo_updated_at x) \<and>
    startswith ''exec-'' (lo_execution_id x) \<and> 0 \<le> lo_filled_quantity x \<and>
    lo_filled_quantity x \<le> lo_quantity x \<and> 0 \<le> lo_fees x \<and> lo_production_influence x = ''NONE''"
  by (auto simp: local_okay_def LocalOrder_post_init_def)

lemma LocalOrder_post_init_Inr: "LocalOrder_post_init x = Inr y \<longleftrightarrow> y = x \<and> local_okay x"
  by (auto simp: local_okay_def LocalOrder_post_init_def)

text \<open>What an accepted transition guarantees, field by field.\<close>

lemma LocalOrder_transition_Inr:
  assumes "LocalOrder_transition a x = Inr y"
  shows "lo_state y = ta_target a" and "ta_target a \<in> set (TRANSITIONS (lo_state x))"
    and "lo_filled_quantity y = (case ta_filled_quantity a of None \<Rightarrow> lo_filled_quantity x | Some q \<Rightarrow> q)"
    and "lo_filled_quantity x \<le> lo_filled_quantity y"
    and "lo_quantity y = lo_quantity x" and "local_okay y"
    and "lo_updated_at y = Aware (astimezone_utc (ta_at a))"
    and "astimezone_utc (lo_updated_at x) \<le> astimezone_utc (ta_at a)"
    and "ta_target a = FILLED \<Longrightarrow> lo_filled_quantity y = lo_quantity y"
    and "ta_target a = PARTIALLY_FILLED \<Longrightarrow>
      0 < lo_filled_quantity y \<and> lo_filled_quantity y < lo_quantity y"
    and "lo_execution_id y = lo_execution_id x" and "lo_client_order_id y = lo_client_order_id x"
    and "lo_exchange_order_id y = str_or (ta_exchange_order_id a) (lo_exchange_order_id x)"
    and "lo_reconciliation_required y = (\<not> ta_reconciled a)"
    and "lo_environment y = lo_environment x" and "lo_intent_hash y = lo_intent_hash x"
  using assms
  by (auto simp: LocalOrder_transition_def Let_def LocalOrder_post_init_Inr split: if_splits)

text \<open>A plain change of state along an edge, at a later time, always succeeds.\<close>

lemma to_state_ok:
  assumes "local_okay x" and "s \<in> set (TRANSITIONS (lo_state x))"
    and "astimezone_utc (lo_updated_at x) \<le> astimezone_utc now"
    and "s \<noteq> FILLED" and "s \<noteq> PARTIALLY_FILLED"
  shows "\<exists>y. LocalOrder_transition (to_state s now) x = Inr y"
  using assms
  by (simp add: LocalOrder_transition_def to_state_def local_okay_iff LocalOrder_post_init_Inr)

interpretation local_order: monotone_lifecycle
  LocalOrder_transition lo_state lo_quantity lo_filled_quantity
  "\<lambda>x. astimezone_utc (lo_updated_at x)" local_okay TRANSITIONS "\<lambda>s. s = FILLED"
proof unfold_locales
  show "0 \<le> lo_filled_quantity x \<and> lo_filled_quantity x \<le> lo_quantity x" if "local_okay x" for x
    using that by (simp add: local_okay_iff)
next
  fix a x y
  assume t: "LocalOrder_transition a x = Inr y"
  note facts = LocalOrder_transition_Inr [OF t]
  show "local_okay y" and "lo_quantity y = lo_quantity x"
    and "lo_filled_quantity x \<le> lo_filled_quantity y" by (rule facts)+
  show "lo_state y \<in> set (TRANSITIONS (lo_state x))"
    and "astimezone_utc (lo_updated_at x) \<le> astimezone_utc (lo_updated_at y)"
    using facts by auto
  show "lo_filled_quantity y = lo_quantity y" if "lo_state y = FILLED"
    using facts that by simp
qed

section \<open>PaperOrder\<close>

record PaperOrder =
  po_paper_order_id :: string
  po_client_order_id :: string
  po_environment :: ExecutionEnvironment
  po_intent_hash :: string
  po_quantity :: decimal
  po_filled_quantity :: decimal
  po_state :: PaperOrderState
  po_updated_at :: datetime
  po_production_influence :: string

definition PaperOrder_post_init :: "PaperOrder \<Rightarrow> PaperOrder result" where
  "PaperOrder_post_init x =
     (if \<not> tz_aware (po_updated_at x) \<or> \<not> startswith ''paper-'' (po_paper_order_id x)
      then Inl (ValueError ''paper order requires timezone and synthetic identifier'')
      else if po_quantity x \<le> 0 \<or>
        \<not> (0 \<le> po_filled_quantity x \<and> po_filled_quantity x \<le> po_quantity x)
      then Inl (ValueError ''invalid exact quantity accounting'')
      else if po_production_influence x \<noteq> ''NONE''
      then Inl (ValueError ''demo execution cannot have production influence'')
      else Inr x)"

text \<open>
  \<open>PaperOrder.transition\<close>. Comparing a naive with an aware \<open>datetime\<close> raises \<open>TypeError\<close>.
\<close>

definition PaperOrder_transition ::
    "PaperOrderState \<times> datetime \<times> decimal option \<Rightarrow> PaperOrder \<Rightarrow> PaperOrder result" where
  "PaperOrder_transition a x = (case a of (target, moment, filled_quantity) \<Rightarrow>
     (let filled = (case filled_quantity of None \<Rightarrow> po_filled_quantity x | Some q \<Rightarrow> q)
      in if tz_aware moment \<noteq> tz_aware (po_updated_at x)
      then Inl (TypeError ''can't compare offset-naive and offset-aware datetimes'')
      else if astimezone_utc moment < astimezone_utc (po_updated_at x) \<or>
        target \<notin> set (paper_legacy (po_state x))
      then Inl (ValueError ''invalid transition or clock regression'')
      else if target = P_FILLED \<and> filled \<noteq> po_quantity x
      then Inl (ValueError ''FILLED requires the entire exact quantity'')
      else if target = P_PARTIALLY_FILLED \<and>
        \<not> (po_filled_quantity x < filled \<and> filled < po_quantity x)
      then Inl (ValueError ''partial fill must increase but not complete quantity'')
      else PaperOrder_post_init (x\<lparr>po_state := target, po_filled_quantity := filled,
        po_updated_at := Aware (astimezone_utc moment)\<rparr>)))"

definition paper_okay :: "PaperOrder \<Rightarrow> bool" where
  "paper_okay x \<longleftrightarrow> PaperOrder_post_init x = Inr x"

lemma PaperOrder_post_init_Inr: "PaperOrder_post_init x = Inr y \<longleftrightarrow> y = x \<and> paper_okay x"
  by (auto simp: paper_okay_def PaperOrder_post_init_def)

lemma PaperOrder_transition_Inr:
  assumes "PaperOrder_transition (s, t, q) x = Inr y"
  shows "po_state y = s" and "s \<in> set (paper_legacy (po_state x))"
    and "po_quantity y = po_quantity x" and "paper_okay y"
    and "astimezone_utc (po_updated_at x) \<le> astimezone_utc (po_updated_at y)"
    and "s = P_FILLED \<Longrightarrow> po_filled_quantity y = po_quantity y"
  using assms
  by (auto simp: PaperOrder_transition_def Let_def PaperOrder_post_init_Inr split: if_splits)

interpretation paper_order: lifecycle
  PaperOrder_transition po_state po_quantity po_filled_quantity
  "\<lambda>x. astimezone_utc (po_updated_at x)" paper_okay paper_legacy "\<lambda>s. s = P_FILLED"
proof unfold_locales
  show "0 \<le> po_filled_quantity x \<and> po_filled_quantity x \<le> po_quantity x" if "paper_okay x" for x
    using that by (auto simp: paper_okay_def PaperOrder_post_init_def split: if_splits)
qed (auto dest: PaperOrder_transition_Inr)

text \<open>
  \<open>PaperOrder\<close> is not a \<open>monotone_lifecycle\<close>: a cancellation may report a smaller fill than
  the one already recorded, which \<open>LocalOrder\<close> rejects.
\<close>

definition require_nonproduction_environment :: "string \<Rightarrow> ExecutionEnvironment result" where
  "require_nonproduction_environment value =
     (let upper = py_upper value
      in if upper = ''MOCK'' then Inr MOCK else if upper = ''PAPER'' then Inr PAPER
      else if upper = ''DEMO'' then Inr DEMO
      else Inl (ValueError ''M14 accepts only DEMO, MOCK, or PAPER''))"

end
