(* ===== verification/Decimals.thy ===== *)
theory Decimals
  imports Prelude
begin

text \<open>
  Python's \<open>Decimal(text)\<close> on finite literals, JSON-like bodies, and the state-and-exception
  monad of the handlers that commit durable state before they raise.
\<close>

section \<open>Decimal literals\<close>

definition digit_value :: "char \<Rightarrow> nat" where
  "digit_value c = of_char c - 48"

definition is_digit :: "char \<Rightarrow> bool" where
  "is_digit c \<longleftrightarrow> (let n = of_char c :: nat in 48 \<le> n \<and> n \<le> 57)"

definition digits_value :: "string \<Rightarrow> nat" where
  "digits_value ds = foldl (\<lambda>n c. 10 * n + digit_value c) 0 ds"

definition split_sign :: "string \<Rightarrow> rat \<times> string" where
  "split_sign s = (case s of [] \<Rightarrow> (1, [])
     | c # cs \<Rightarrow> if c = CHR ''-'' then (-1, cs) else if c = CHR ''+'' then (1, cs) else (1, c # cs))"

definition pow10 :: "int \<Rightarrow> rat" where
  "pow10 n = (if 0 \<le> n then 10 ^ nat n else inverse (10 ^ nat (- n)))"

text \<open>The exponent part: nothing, or \<open>e\<close> with an optional sign and at least one digit.\<close>

definition parse_exponent :: "string \<Rightarrow> int option" where
  "parse_exponent s = (case s of [] \<Rightarrow> Some 0
     | c # cs \<Rightarrow> if c \<in> set [CHR ''e'', CHR ''E''] then
         let (sg, ds) = split_sign cs
         in if ds \<noteq> [] \<and> list_all is_digit ds
            then Some (if sg < 0 then - int (digits_value ds) else int (digits_value ds)) else None
       else None)"

text \<open>
  \<open>None\<close> is the \<open>InvalidOperation\<close> of a text that is not a number, and also a literal
  whose value is not finite (\<open>NaN\<close>, \<open>Infinity\<close>), which is outside the model's decimals.
\<close>

definition decimal_of_string :: "string \<Rightarrow> decimal option" where
  "decimal_of_string text =
     (let (sg, body) = split_sign (filter (\<lambda>c. c \<noteq> CHR ''_'') (py_strip text));
          whole = takeWhile is_digit body;
          rest = dropWhile is_digit body;
          (frac, tail) = (case rest of [] \<Rightarrow> ([], [])
             | c # cs \<Rightarrow> if c = CHR ''.'' then (takeWhile is_digit cs, dropWhile is_digit cs)
                 else ([], c # cs))
      in if whole = [] \<and> frac = [] then None
         else case parse_exponent tail of None \<Rightarrow> None
           | Some e \<Rightarrow> Some (sg * of_nat (digits_value (whole @ frac))
               * pow10 (e - int (length frac))))"

lemma decimal_of_string_examples:
  "decimal_of_string ''12.50'' = Some (25 / 2)"
  "decimal_of_string '' -1e2'' = Some (- 100)"
  "decimal_of_string ''1.2.3'' = None"
  by (simp_all add: decimal_of_string_def split_sign_def py_strip_def py_space_def is_digit_def
      parse_exponent_def digits_value_def digit_value_def pow10_def)

section \<open>JSON objects\<close>

type_synonym json_obj = "(string \<times> hashable) list"

text \<open>\<open>Decimal(str(v))\<close> of a JSON value; numbers keep their exact decimal value.\<close>

definition decimal_of_json :: "hashable \<Rightarrow> decimal option" where
  "decimal_of_json v = (case v of HDec d \<Rightarrow> Some d | HInt n \<Rightarrow> Some (of_int n)
     | HStr s \<Rightarrow> decimal_of_string s | _ \<Rightarrow> None)"

section \<open>State and exceptions\<close>

text \<open>
  A handler over durable state: it returns the state it leaves behind together with its result,
  because what was committed before an exception stays committed.
\<close>

type_synonym ('s, 'a) handler = "'s \<Rightarrow> 's \<times> 'a result"

definition sreturn :: "'a \<Rightarrow> ('s, 'a) handler" where
  "sreturn x s = (s, Inr x)"

definition sraise :: "py_exn \<Rightarrow> ('s, 'a) handler" where
  "sraise e s = (s, Inl e)"

definition sbind :: "('s, 'a) handler \<Rightarrow> ('a \<Rightarrow> ('s, 'b) handler) \<Rightarrow> ('s, 'b) handler" where
  "sbind m f s = (case m s of (s', Inl e) \<Rightarrow> (s', Inl e) | (s', Inr x) \<Rightarrow> f x s')"

definition sresult :: "'a result \<Rightarrow> ('s, 'a) handler" where
  "sresult r s = (s, r)"

definition supdate :: "('s \<Rightarrow> 's) \<Rightarrow> ('s, unit) handler" where
  "supdate f s = (f s, Inr ())"

lemma handler_simps [simp]:
  "sreturn x s = (s, Inr x)"
  "sraise e s = (s, Inl e)"
  "sresult r s = (s, r)"
  "supdate f s = (f s, Inr ())"
  by (simp_all add: sreturn_def sraise_def sresult_def supdate_def)

lemma sbind_simps [simp]:
  "m s = (s', Inl e) \<Longrightarrow> sbind m f s = (s', Inl e)"
  "m s = (s', Inr x) \<Longrightarrow> sbind m f s = f x s'"
  by (simp_all add: sbind_def)

lemma sbind_Inr:
  "sbind m f s = (t, Inr y) \<longleftrightarrow> (\<exists>s' x. m s = (s', Inr x) \<and> f x s' = (t, Inr y))"
  by (auto simp: sbind_def split: prod.splits sum.splits)

text \<open>An invariant that every step keeps is kept by the sequence, whatever it raises.\<close>

definition keeps :: "('s \<Rightarrow> bool) \<Rightarrow> ('s, 'a) handler \<Rightarrow> bool" where
  "keeps P m \<longleftrightarrow> (\<forall>s. P s \<longrightarrow> P (fst (m s)))"

named_theorems keeps_rules \<open>invariant preservation of the handlers\<close>

lemma keeps_sbind [keeps_rules]:
  "keeps P m \<Longrightarrow> (\<And>x. keeps P (f x)) \<Longrightarrow> keeps P (sbind m f)"
  by (auto simp: keeps_def sbind_def split: prod.split sum.split)

lemma keeps_basic [keeps_rules]:
  "keeps P (sreturn x)" "keeps P (sraise e)" "keeps P (sresult r)"
  by (simp_all add: keeps_def)

lemma keeps_supdate [keeps_rules]: "(\<And>s. P s \<Longrightarrow> P (f s)) \<Longrightarrow> keeps P (supdate f)"
  by (simp add: keeps_def)

lemma keeps_if [keeps_rules]: "keeps P m \<Longrightarrow> keeps P n \<Longrightarrow> keeps P (if b then m else n)"
  by simp

end
