(* ===== verification/Demo_Adapter.thy ===== *)
theory Demo_Adapter
  imports Demo_Domain Decimals
begin

text \<open>
  \<open>services/demo_execution/adapter.py\<close>, \<open>faults.py\<close>, \<open>portfolio.py\<close>, \<open>rate_budget.py\<close>
  and \<open>calibration.py\<close>: the requests built for the exchange, the demo-only transport, the fault
  injection exchange of the paper mode, the double-entry postings, and the write budget.

  The network sender behind \<open>DemoMutationTransport\<close> is outside the repository: it is a
  parameter that maps the transport's own state and a request to its outcome.
\<close>

section \<open>Requests\<close>

datatype MutationKind = M_CREATE | M_CANCEL | M_AMEND | M_DECREASE

definition MutationKind_value :: "MutationKind \<Rightarrow> string" where
  "MutationKind_value k = (case k of M_CREATE \<Rightarrow> ''CREATE'' | M_CANCEL \<Rightarrow> ''CANCEL''
     | M_AMEND \<Rightarrow> ''AMEND'' | M_DECREASE \<Rightarrow> ''DECREASE'')"

record MutationRequest =
  mr_method :: string
  mr_path :: string
  mr_body :: json_obj
  mr_subaccount :: int

record TransportResponse =
  tr_status :: int
  tr_body :: json_obj

text \<open>
  \<open>_fixed\<close> renders a Decimal in fixed-point notation, kept as the exact number; formatting
  \<open>None\<close> raises \<open>TypeError\<close>.
\<close>

definition fixed :: "decimal option \<Rightarrow> hashable result" where
  "fixed v = (case v of Some d \<Rightarrow> Inr (HDec d)
     | None \<Rightarrow> Inl (TypeError ''unsupported format string passed to NoneType.__format__''))"

text \<open>Python's \<open>a or b\<close> on optional Decimals: zero is false.\<close>

definition dec_or :: "decimal option \<Rightarrow> decimal option \<Rightarrow> decimal option" where
  "dec_or a b = (case a of None \<Rightarrow> b | Some d \<Rightarrow> if d = 0 then b else Some d)"

text \<open>\<open>int(moment.timestamp())\<close> truncates towards zero.\<close>

definition unix_seconds :: "instant \<Rightarrow> int" where
  "unix_seconds t = (if 0 \<le> t then t div 1000000 else - ((- t) div 1000000))"

definition optional_field :: "string \<Rightarrow> ('a \<Rightarrow> hashable) \<Rightarrow> 'a option \<Rightarrow> json_obj" where
  "optional_field key f v = (case v of None \<Rightarrow> [] | Some x \<Rightarrow> [(key, f x)])"

definition create_request :: "ExecutionIntent \<Rightarrow> MutationRequest result" where
  "create_request i =
     (let side = py_lower (ei_book_side i)
      in if side \<notin> set [''bid'', ''ask'']
      then Inl (ValueError ''canonical book side must translate to bid or ask'')
      else rbind (fixed (Some (ei_quantity i))) (\<lambda>count. rbind (fixed (Some (ei_price i))) (\<lambda>price.
        Inr \<lparr>mr_method = ''POST'', mr_path = ''/portfolio/events/orders'',
          mr_body = [(''ticker'', HStr (ei_ticker i)),
            (''client_order_id'', HStr (ei_client_order_id i)),
            (''side'', HStr side), (''count'', count), (''price'', price),
            (''time_in_force'', HStr (ei_time_in_force i)),
            (''self_trade_prevention_type'', HStr (ei_self_trade_prevention_type i)),
            (''post_only'', HBool (ei_post_only i)),
            (''cancel_order_on_pause'', HBool (ei_cancel_order_on_pause i)),
            (''reduce_only'', HBool (ei_reduce_only i)), (''subaccount'', HInt 0)]
            @ optional_field ''expiration_time'' (\<lambda>d. HInt (unix_seconds (astimezone_utc d)))
                (ei_expiration_time i)
            @ optional_field ''order_group_id'' HStr (ei_order_group_id i)
            @ optional_field ''exchange_index'' HInt (ei_exchange_index i),
          mr_subaccount = 0\<rparr>)))"

definition order_path :: "string \<Rightarrow> string" where
  "order_path order_id = ''/portfolio/events/orders/'' @ order_id"

definition cancel_request :: "string \<Rightarrow> MutationRequest" where
  "cancel_request order_id = \<lparr>mr_method = ''DELETE'', mr_path = order_path order_id,
     mr_body = [], mr_subaccount = 0\<rparr>"

definition decrease_request ::
    "string \<Rightarrow> decimal option \<Rightarrow> decimal option \<Rightarrow> MutationRequest result" where
  "decrease_request order_id reduce_by reduce_to =
     (if (reduce_by = None) = (reduce_to = None)
      then Inl (ValueError ''exactly one of reduce_by or reduce_to is required'')
      else rbind (fixed (dec_or reduce_by reduce_to)) (\<lambda>v.
        Inr \<lparr>mr_method = ''POST'', mr_path = order_path order_id @ ''/decrease'',
          mr_body = [(if reduce_by \<noteq> None then ''reduce_by'' else ''reduce_to'', v),
            (''subaccount'', HInt 0)], mr_subaccount = 0\<rparr>))"

definition amend_request ::
    "string \<Rightarrow> string \<Rightarrow> ExecutionIntent \<Rightarrow> string \<Rightarrow> MutationRequest result" where
  "amend_request order_id authorized_intent_hash replacement_intent new_client_order_id =
     (if ei_intent_hash replacement_intent \<noteq> authorized_intent_hash
      then Inl (ValueError ''INTENT_CHANGED'')
      else rbind (fixed (Some (ei_price replacement_intent))) (\<lambda>price.
        rbind (fixed (Some (ei_quantity replacement_intent))) (\<lambda>count.
        Inr \<lparr>mr_method = ''POST'', mr_path = order_path order_id @ ''/amend'',
          mr_body = [(''price'', price), (''count'', count),
            (''client_order_id'', HStr new_client_order_id), (''subaccount'', HInt 0)],
          mr_subaccount = 0\<rparr>)))"

text \<open>Every request of the service names subaccount zero.\<close>

lemma requests_subaccount:
  "create_request i = Inr r \<Longrightarrow> mr_subaccount r = 0"
  "mr_subaccount (cancel_request oid) = 0"
  "decrease_request oid rb rt = Inr r \<Longrightarrow> mr_subaccount r = 0"
  "amend_request oid h i cid = Inr r \<Longrightarrow> mr_subaccount r = 0"
  by (auto simp: create_request_def cancel_request_def decrease_request_def amend_request_def
      Let_def rbind_eq_Inr split: if_splits)

section \<open>The demo transport\<close>

text \<open>How a call of a transport ends: a reply, \<open>AmbiguousMutation\<close>, or another exception.\<close>

datatype send_outcome = Reply TransportResponse | Ambiguous bool | Raised py_exn

type_synonym 't sender = "string \<Rightarrow> MutationRequest \<Rightarrow> 't \<Rightarrow> 't \<times> send_outcome"

definition DEMO_REST_ORIGIN :: string where
  "DEMO_REST_ORIGIN = ''https://external-api.demo.kalshi.co/trade-api/v2''"

text \<open>
  \<open>validate_origin\<close> also compares the parsed hostname, which the equality with the constant
  origin implies.
\<close>

definition validate_origin :: "string \<Rightarrow> unit result" where
  "validate_origin origin = (if origin \<noteq> DEMO_REST_ORIGIN
     then Inl (ValueError ''M14 mutation destination is not the exact demo origin'') else Inr ())"

definition DemoMutationTransport_send ::
    "'t sender \<Rightarrow> ExecutionEnvironment \<Rightarrow> MutationRequest \<Rightarrow> 't \<Rightarrow> 't \<times> send_outcome" where
  "DemoMutationTransport_send sender mode request t =
     (if mode \<noteq> DEMO \<or> mr_subaccount request \<noteq> 0
      then (t, Raised (ValueError ''demo mutation requires DEMO mode and subaccount 0''))
      else case validate_origin DEMO_REST_ORIGIN of
        Inl e \<Rightarrow> (t, Raised e)
      | Inr _ \<Rightarrow> sender DEMO_REST_ORIGIN request t)"

section \<open>Fault injection\<close>

datatype Fault =
    F_ACCEPT | F_REJECT | F_TIMEOUT_BEFORE_SEND | F_TIMEOUT_AFTER_SEND | F_PARTIAL_FILL
  | F_FULL_FILL | F_DELAYED_FILL | F_CANCEL_SUCCESS | F_CANCEL_FILL_RACE | F_AMEND_FILL
  | F_DECREASE | F_DUPLICATE_MESSAGE | F_OUT_OF_ORDER | F_WS_GAP | F_DISCONNECT
  | F_RATE_LIMIT | F_SERVER_ERROR | F_MALFORMED

definition Fault_value :: "Fault \<Rightarrow> string" where
  "Fault_value f = (case f of F_ACCEPT \<Rightarrow> ''ACCEPT'' | F_REJECT \<Rightarrow> ''REJECT''
     | F_TIMEOUT_BEFORE_SEND \<Rightarrow> ''TIMEOUT_BEFORE_SEND''
     | F_TIMEOUT_AFTER_SEND \<Rightarrow> ''TIMEOUT_AFTER_SEND''
     | F_PARTIAL_FILL \<Rightarrow> ''PARTIAL_FILL'' | F_FULL_FILL \<Rightarrow> ''FULL_FILL''
     | F_DELAYED_FILL \<Rightarrow> ''DELAYED_FILL'' | F_CANCEL_SUCCESS \<Rightarrow> ''CANCEL_SUCCESS''
     | F_CANCEL_FILL_RACE \<Rightarrow> ''CANCEL_FILL_RACE'' | F_AMEND_FILL \<Rightarrow> ''AMEND_FILL''
     | F_DECREASE \<Rightarrow> ''DECREASE'' | F_DUPLICATE_MESSAGE \<Rightarrow> ''DUPLICATE_MESSAGE''
     | F_OUT_OF_ORDER \<Rightarrow> ''OUT_OF_ORDER'' | F_WS_GAP \<Rightarrow> ''WS_GAP'' | F_DISCONNECT \<Rightarrow> ''DISCONNECT''
     | F_RATE_LIMIT \<Rightarrow> ''RATE_LIMIT'' | F_SERVER_ERROR \<Rightarrow> ''SERVER_ERROR''
     | F_MALFORMED \<Rightarrow> ''MALFORMED'')"

record FaultExchange =
  fx_script :: "Fault list"
  fx_sent :: "MutationRequest list"

text \<open>
  The scripted exchange; an exhausted script raises \<open>IndexError\<close>. The malformed reply's
  unserializable object is only ever looked up by other keys.
\<close>

definition FaultExchange_call :: "FaultExchange sender" where
  "FaultExchange_call origin request x = (case fx_script x of
     [] \<Rightarrow> (x, Raised (RuntimeError ''IndexError: pop from empty list''))
   | fault # script \<Rightarrow>
      if fault = F_TIMEOUT_BEFORE_SEND then (x\<lparr>fx_script := script\<rparr>, Ambiguous False)
      else let y = x\<lparr>fx_script := script, fx_sent := fx_sent x @ [request]\<rparr>
       in if fault = F_TIMEOUT_AFTER_SEND then (y, Ambiguous True)
       else if fault = F_RATE_LIMIT then (y, Reply \<lparr>tr_status = 429, tr_body = []\<rparr>)
       else if fault = F_SERVER_ERROR then (y, Reply \<lparr>tr_status = 500, tr_body = []\<rparr>)
       else if fault = F_MALFORMED
         then (y, Reply \<lparr>tr_status = 200, tr_body = [(''unexpected'', HNone)]\<rparr>)
       else if fault = F_REJECT
         then (y, Reply \<lparr>tr_status = 400, tr_body = [(''error'', HStr ''fixture rejection'')]\<rparr>)
       else (y, Reply \<lparr>tr_status = 201, tr_body = [(''order_id'', HStr ''demo-order-1''),
           (''fault'', HStr (Fault_value fault))]\<rparr>))"

text \<open>The exchange has received a request exactly when the caller cannot exclude it.\<close>

lemma FaultExchange_sent:
  assumes "FaultExchange_call origin request x = (y, out)"
  shows "fx_sent y = (case out of Reply r \<Rightarrow> fx_sent x @ [request]
     | Ambiguous may \<Rightarrow> if may then fx_sent x @ [request] else fx_sent x
     | Raised e \<Rightarrow> fx_sent x)"
  using assms
  by (auto simp: FaultExchange_call_def Let_def split: list.splits if_splits)

section \<open>The write budget\<close>

text \<open>
  The contract shared by the demo and the production budgets: a granted request costs one unit,
  nothing is granted without a unit, and only safety requests may use the reserve.
\<close>

locale write_budget =
  fixes acquire :: "'k \<Rightarrow> 'b \<Rightarrow> 'b \<times> bool"
    and available :: "'b \<Rightarrow> int"
    and reserve :: "'b \<Rightarrow> int"
    and safety :: "'k \<Rightarrow> bool"
  assumes grant_cost: "acquire k b = (b', True) \<Longrightarrow> available b' = available b - 1"
    and deny_same: "acquire k b = (b', False) \<Longrightarrow> b' = b"
    and reserve_same: "acquire k b = (b', g) \<Longrightarrow> reserve b' = reserve b"
    and grant_iff: "snd (acquire k b) \<longleftrightarrow>
      0 < available b \<and> (safety k \<or> reserve b < available b)"
begin

fun budget_run :: "'k list \<Rightarrow> 'b \<Rightarrow> 'b \<times> 'k list" where
  "budget_run [] b = (b, [])"
| "budget_run (k # ks) b = (let (b', g) = acquire k b; (b'', gs) = budget_run ks b'
     in (b'', if g then k # gs else gs))"

lemma acquire_step:
  assumes "acquire k b = (b', g)"
  shows "available b' = available b - (if g then 1 else 0)" and "reserve b' = reserve b"
    and "g \<longleftrightarrow> 0 < available b \<and> (safety k \<or> reserve b < available b)"
proof -
  show "available b' = available b - (if g then 1 else 0)"
  proof (cases g)
    case True
    with assms show ?thesis using grant_cost [of k b b'] by simp
  next
    case False
    with assms show ?thesis using deny_same [of k b b'] by simp
  qed
  show "reserve b' = reserve b" using reserve_same [OF assms] .
  show "g \<longleftrightarrow> 0 < available b \<and> (safety k \<or> reserve b < available b)"
    using grant_iff [of k b] assms by simp
qed

lemma budget_run_available:
  "0 \<le> available b \<Longrightarrow> budget_run ks b = (b', gs) \<Longrightarrow>
     available b' = available b - int (length gs) \<and> 0 \<le> available b' \<and> reserve b' = reserve b"
proof (induction ks arbitrary: b gs)
  case (Cons k ks)
  obtain b1 g where a: "acquire k b = (b1, g)" by (cases "acquire k b")
  obtain gs' where r: "budget_run ks b1 = (b', gs')" and gs: "gs = (if g then k # gs' else gs')"
    using Cons.prems(2) a by (auto split: prod.splits)
  have "0 \<le> available b1" using acquire_step [OF a] Cons.prems(1) by (auto split: if_splits)
  from Cons.IH [OF this r] acquire_step(1,2) [OF a] gs show ?case by auto
qed simp

text \<open>Requests that are not for safety never eat into the reserve.\<close>

lemma budget_run_reserve:
  assumes "0 \<le> available b" and "budget_run ks b = (b', gs)"
  shows "int (length (filter (\<lambda>k. \<not> safety k) gs)) \<le> max 0 (available b - reserve b)"
  using assms
proof (induction ks arbitrary: b gs)
  case (Cons k ks)
  obtain b1 g where a: "acquire k b = (b1, g)" by (cases "acquire k b")
  obtain gs' where r: "budget_run ks b1 = (b', gs')" and gs: "gs = (if g then k # gs' else gs')"
    using Cons.prems(2) a by (auto split: prod.splits)
  note step = acquire_step [OF a]
  have "0 \<le> available b1" using step Cons.prems(1) by (auto split: if_splits)
  from Cons.IH [OF this r] step gs show ?case by (auto split: if_splits)
qed simp

end

record WriteBudget =
  wb_available :: int
  wb_safety_reserve :: int

definition WriteBudget_acquire :: "MutationKind \<Rightarrow> WriteBudget \<Rightarrow> WriteBudget \<times> bool" where
  "WriteBudget_acquire kind b =
     (if wb_available b \<le> 0 then (b, False)
      else let safety = kind \<in> set [M_CANCEL, M_DECREASE]
       in if \<not> safety \<and> wb_available b \<le> wb_safety_reserve b then (b, False)
       else (b\<lparr>wb_available := wb_available b - 1\<rparr>, True))"

interpretation demo_budget: write_budget
  WriteBudget_acquire wb_available wb_safety_reserve "\<lambda>k. k = M_CANCEL \<or> k = M_DECREASE"
  by unfold_locales (auto simp: WriteBudget_acquire_def Let_def split: if_splits)

section \<open>Calibration observations\<close>

record QueueComparison =
  qc_observed_at :: datetime
  qc_market :: string
  qc_modeled_queue :: decimal
  qc_observed_demo_queue :: decimal
  qc_market_state :: string

definition QueueComparison_discrepancy :: "QueueComparison \<Rightarrow> decimal" where
  "QueueComparison_discrepancy q = qc_observed_demo_queue q - qc_modeled_queue q"

record FeeComparison =
  fc_predicted_fee :: decimal
  fc_actual_demo_fee :: decimal
  fc_fee_policy_version :: string

definition FeeComparison_difference :: "FeeComparison \<Rightarrow> decimal" where
  "FeeComparison_difference f = fc_actual_demo_fee f - fc_predicted_fee f"

record SlippageComparison =
  sc_m10_current_book :: decimal
  sc_m11_simulated_arrival :: decimal
  sc_actual_demo_execution :: decimal

definition SlippageComparison_m11_error :: "SlippageComparison \<Rightarrow> decimal" where
  "SlippageComparison_m11_error s = sc_actual_demo_execution s - sc_m11_simulated_arrival s"

end
