(* ===== verification/Demo_Store.thy ===== *)
theory Demo_Store
  imports Demo_Adapter Tables
begin

text \<open>
  \<open>services/demo_execution/store.py\<close>: the durable journal of submissions, the mutation attempts,
  the local orders, the exchange fills, the private stream's continuity state, and recovery.
  Journals, mutation attempts and fills are \<open>exactly_once\<close> claims. The table
  \<open>execution_reconciliation\<close> of the schema has no operation and is left out.
\<close>

record FillEvent =
  fe_trade_id :: string
  fe_order_id :: string
  fe_ticker :: string
  fe_price :: decimal
  fe_quantity :: decimal
  fe_fee :: decimal
  fe_is_taker :: bool
  fe_outcome_side :: string
  fe_matching_time :: datetime
  fe_subaccount :: int

record QueueObservation =
  qo_observed_at :: datetime
  qo_order_id :: string
  qo_market :: string
  qo_queue_position :: decimal
  qo_remaining_quantity :: decimal
  qo_price :: decimal
  qo_quality :: string

record JournalRow =
  jr_execution_id :: string
  jr_intent_hash :: string
  jr_client_order_id :: string
  jr_authorization_id :: string
  jr_environment :: ExecutionEnvironment
  jr_host :: string
  jr_method :: string
  jr_path :: string
  jr_body :: hashable
  jr_body_hash :: string
  jr_created_at :: instant
  jr_attempt_number :: int
  jr_state :: string
  jr_may_have_been_sent :: bool

record MutationRow =
  mu_attempt_id :: string
  mu_execution_id :: string
  mu_kind :: MutationKind
  mu_method :: string
  mu_path :: string
  mu_body_hash :: string
  mu_created_at :: instant
  mu_state :: string
  mu_may_have_been_sent :: bool

record StateEventRow =
  se_event_key :: string
  se_execution_id :: string
  se_sequence :: "int option"
  se_state :: OrderState
  se_happened_at :: instant
  se_source :: string

record WsRow =
  ws_channel :: string
  ws_last_sequence :: "int option"
  ws_trustworthy :: bool
  ws_reason :: string
  ws_updated_at :: instant

record QueueRow =
  qr_observation_hash :: string
  qr_observation :: QueueObservation

record LineageRow =
  ln_old :: string
  ln_new :: string
  ln_execution_id :: string
  ln_changed_at :: instant

record ExecutionStore =
  xs_journals :: "JournalRow list"
  xs_orders :: "LocalOrder list"
  xs_events :: "StateEventRow list"
  xs_fills :: "FillEvent list"
  xs_queue :: "QueueRow list"
  xs_mutations :: "MutationRow list"
  xs_ws :: "WsRow list"
  xs_lineage :: "LineageRow list"

definition empty_store :: ExecutionStore where
  "empty_store = \<lparr>xs_journals = [], xs_orders = [], xs_events = [], xs_fills = [], xs_queue = [],
     xs_mutations = [], xs_ws = [], xs_lineage = []\<rparr>"

text \<open>\<open>json.dumps(body, sort_keys=True)\<close>, the text that is hashed and stored.\<close>

definition body_json :: "json_obj \<Rightarrow> hashable" where
  "body_json body = HList (map (\<lambda>(k, v). HList [HStr k, v]) (sort_key fst body))"

section \<open>Submission journals\<close>

definition journal_keys :: "(JournalRow, string) col list" where
  "journal_keys = [\<lambda>j. Some (jr_execution_id j), \<lambda>j. Some (jr_client_order_id j),
     \<lambda>j. Some (jr_authorization_id j)]"

record JournalRequest =
  jq_execution_id :: string
  jq_intent_hash :: string
  jq_client_order_id :: string
  jq_authorization_id :: string
  jq_environment :: ExecutionEnvironment
  jq_host :: string
  jq_request :: MutationRequest
  jq_now :: datetime

definition journal_row :: "digest_fn \<Rightarrow> JournalRequest \<Rightarrow> JournalRow" where
  "journal_row dig q =
     \<lparr>jr_execution_id = jq_execution_id q, jr_intent_hash = jq_intent_hash q,
      jr_client_order_id = jq_client_order_id q, jr_authorization_id = jq_authorization_id q,
      jr_environment = jq_environment q, jr_host = jq_host q,
      jr_method = mr_method (jq_request q), jr_path = mr_path (jq_request q),
      jr_body = body_json (mr_body (jq_request q)),
      jr_body_hash = dig (body_json (mr_body (jq_request q))),
      jr_created_at = astimezone_utc (jq_now q), jr_attempt_number = 1,
      jr_state = ''JOURNALED_NOT_SENT'', jr_may_have_been_sent = False\<rparr>"

definition acquire_journal ::
    "digest_fn \<Rightarrow> JournalRequest \<Rightarrow> ExecutionStore \<Rightarrow> ExecutionStore \<times> bool" where
  "acquire_journal dig q st =
     (case sql_insert journal_keys (journal_row dig q) (xs_journals st) of
        None \<Rightarrow> (st, False) | Some js \<Rightarrow> (st\<lparr>xs_journals := js\<rparr>, True))"

definition journal_state :: "string \<Rightarrow> string \<Rightarrow> bool \<Rightarrow> ExecutionStore \<Rightarrow> ExecutionStore" where
  "journal_state execution_id state may_have_been_sent st =
     st\<lparr>xs_journals := sql_update (\<lambda>j. jr_execution_id j = execution_id)
       (\<lambda>j. j\<lparr>jr_state := state, jr_may_have_been_sent := may_have_been_sent\<rparr>) (xs_journals st)\<rparr>"

definition incomplete_journals :: "ExecutionStore \<Rightarrow> JournalRow list" where
  "incomplete_journals st = sort_key jr_execution_id
     (filter (\<lambda>j. jr_state j \<notin> set [''RECONCILED'', ''PROVEN_UNSENT'']) (xs_journals st))"

section \<open>Mutation attempts\<close>

text \<open>The primary key, and the \<open>UNIQUE(execution_id, kind, body_hash)\<close> constraint.\<close>

definition mutation_keys :: "(MutationRow, hashable) col list" where
  "mutation_keys = [\<lambda>m. Some (HStr (mu_attempt_id m)),
     \<lambda>m. Some (HList [HStr (mu_execution_id m), HStr (MutationKind_value (mu_kind m)),
       HStr (mu_body_hash m)])]"

definition mutation_attempt_id ::
    "digest_fn \<Rightarrow> string \<Rightarrow> MutationKind \<Rightarrow> MutationRequest \<Rightarrow> string" where
  "mutation_attempt_id dig execution_id kind request =
     dig (HList [HStr execution_id, HStr (MutationKind_value kind), HStr (mr_path request),
       HStr (dig (body_json (mr_body request)))])"

definition acquire_mutation :: "digest_fn \<Rightarrow> string \<Rightarrow> MutationKind \<Rightarrow> MutationRequest \<Rightarrow>
    datetime \<Rightarrow> ExecutionStore \<Rightarrow> ExecutionStore \<times> string option" where
  "acquire_mutation dig execution_id kind request now st =
     (let attempt_id = mutation_attempt_id dig execution_id kind request in
      case sql_insert mutation_keys
          \<lparr>mu_attempt_id = attempt_id, mu_execution_id = execution_id, mu_kind = kind,
           mu_method = mr_method request, mu_path = mr_path request,
           mu_body_hash = dig (body_json (mr_body request)),
           mu_created_at = astimezone_utc now, mu_state = ''JOURNALED_NOT_SENT'',
           mu_may_have_been_sent = False\<rparr> (xs_mutations st) of
        None \<Rightarrow> (st, None)
      | Some ms \<Rightarrow> (st\<lparr>xs_mutations := ms\<rparr>, Some attempt_id))"

definition mutation_state :: "string \<Rightarrow> string \<Rightarrow> bool \<Rightarrow> ExecutionStore \<Rightarrow> ExecutionStore" where
  "mutation_state attempt_id state may_have_been_sent st =
     st\<lparr>xs_mutations := sql_update (\<lambda>m. mu_attempt_id m = attempt_id)
       (\<lambda>m. m\<lparr>mu_state := state, mu_may_have_been_sent := may_have_been_sent\<rparr>)
       (xs_mutations st)\<rparr>"

section \<open>Local orders\<close>

text \<open>
  The upsert of \<open>save_order\<close>: an existing execution id is updated in place and keeps its
  exchange order id when the new one is absent; a \<open>UNIQUE\<close> conflict with another row is an
  \<open>IntegrityError\<close>.
\<close>

definition order_columns :: "(LocalOrder, string) col list" where
  "order_columns = [\<lambda>x. Some (lo_execution_id x), \<lambda>x. Some (lo_client_order_id x),
     lo_exchange_order_id]"

definition coalesce :: "'a option \<Rightarrow> 'a option \<Rightarrow> 'a option" where
  "coalesce a b = (case a of None \<Rightarrow> b | Some x \<Rightarrow> Some x)"

definition upsert_row :: "LocalOrder \<Rightarrow> LocalOrder \<Rightarrow> LocalOrder" where
  "upsert_row new old = old\<lparr>lo_filled_quantity := lo_filled_quantity new, lo_fees := lo_fees new,
     lo_state := lo_state new, lo_updated_at := Aware (astimezone_utc (lo_updated_at new)),
     lo_exchange_order_id := coalesce (lo_exchange_order_id new) (lo_exchange_order_id old),
     lo_reconciliation_required := lo_reconciliation_required new\<rparr>"

definition save_order :: "LocalOrder \<Rightarrow> ExecutionStore \<Rightarrow> ExecutionStore result" where
  "save_order x st =
     (case sql_find (\<lambda>r. Some (lo_execution_id r) = Some (lo_execution_id x)) (xs_orders st) of
        Some old \<Rightarrow>
          (if conflicts lo_exchange_order_id (upsert_row x old)
               (filter (\<lambda>r. lo_execution_id r \<noteq> lo_execution_id x) (xs_orders st))
           then Inl IntegrityError
           else Inr (st\<lparr>xs_orders := sql_update (\<lambda>r. lo_execution_id r = lo_execution_id x)
             (upsert_row x) (xs_orders st)\<rparr>))
      | None \<Rightarrow>
          (case sql_insert order_columns
               (x\<lparr>lo_updated_at := Aware (astimezone_utc (lo_updated_at x))\<rparr>) (xs_orders st) of
             None \<Rightarrow> Inl IntegrityError
           | Some os \<Rightarrow> Inr (st\<lparr>xs_orders := os\<rparr>)))"

section \<open>Fills\<close>

definition fill_keys :: "(FillEvent, string) col list" where
  "fill_keys = [\<lambda>f. Some (fe_trade_id f)]"

definition add_fill :: "FillEvent \<Rightarrow> ExecutionStore \<Rightarrow> (ExecutionStore \<times> bool) result" where
  "add_fill f st =
     (if fe_subaccount f \<noteq> 0
      then Inl (ValueError ''fill must be explicitly scoped to subaccount 0'')
      else let (fills, changed) = sql_insert_or_ignore fill_keys
             (f\<lparr>fe_matching_time := Aware (astimezone_utc (fe_matching_time f))\<rparr>) (xs_fills st)
       in Inr (st\<lparr>xs_fills := fills\<rparr>, changed))"

definition fill_totals :: "string \<Rightarrow> ExecutionStore \<Rightarrow> decimal \<times> decimal" where
  "fill_totals order_id st =
     (let rows = filter (\<lambda>f. fe_order_id f = order_id) (xs_fills st)
      in (dsum (map fe_quantity rows), dsum (map fe_fee rows)))"

section \<open>The private stream\<close>

definition ws_upsert :: "WsRow \<Rightarrow> (WsRow \<Rightarrow> WsRow) \<Rightarrow> WsRow list \<Rightarrow> WsRow list" where
  "ws_upsert new update rows =
     (case sql_find (\<lambda>r. Some (ws_channel r) = Some (ws_channel new)) rows of
        None \<Rightarrow> rows @ [new]
      | Some old \<Rightarrow> sql_update (\<lambda>r. ws_channel r = ws_channel new) update rows)"

definition ws_row :: "string \<Rightarrow> WsRow list \<Rightarrow> WsRow option" where
  "ws_row channel rows = sql_find (\<lambda>r. Some (ws_channel r) = Some channel) rows"

definition sequence_gap :: "int option \<Rightarrow> WsRow option \<Rightarrow> bool" where
  "sequence_gap sequence prior =
     (case (sequence, prior) of
        (Some n, Some row) \<Rightarrow>
          (case ws_last_sequence row of None \<Rightarrow> False | Some m \<Rightarrow> n \<noteq> m + 1)
      | _ \<Rightarrow> False)"

definition ingest_ws_event :: "string \<Rightarrow> string \<Rightarrow> string \<Rightarrow> OrderState \<Rightarrow> int option \<Rightarrow>
    datetime \<Rightarrow> ExecutionStore \<Rightarrow> ExecutionStore \<times> bool" where
  "ingest_ws_event channel event_key execution_id state sequence happened_at st =
     (let moment = astimezone_utc happened_at in
      if sequence_gap sequence (ws_row channel (xs_ws st))
      then (st\<lparr>xs_ws := ws_upsert
           \<lparr>ws_channel = channel, ws_last_sequence = sequence, ws_trustworthy = False,
            ws_reason = ''SEQUENCE_GAP'', ws_updated_at = moment\<rparr>
           (\<lambda>r. r\<lparr>ws_last_sequence := sequence, ws_trustworthy := False,
             ws_reason := ''SEQUENCE_GAP'', ws_updated_at := moment\<rparr>) (xs_ws st)\<rparr>, False)
      else let (events, changed) = sql_insert_or_ignore [\<lambda>e. Some (se_event_key e)]
             \<lparr>se_event_key = event_key, se_execution_id = execution_id, se_sequence = sequence,
              se_state = state, se_happened_at = moment, se_source = ''WS''\<rparr> (xs_events st)
       in (st\<lparr>xs_events := events, xs_ws := ws_upsert
           \<lparr>ws_channel = channel, ws_last_sequence = sequence, ws_trustworthy = True,
            ws_reason = ''CURRENT'', ws_updated_at = moment\<rparr>
           (\<lambda>r. r\<lparr>ws_last_sequence := sequence, ws_trustworthy := True,
             ws_reason := ''CURRENT'', ws_updated_at := moment\<rparr>) (xs_ws st)\<rparr>, changed))"

definition disconnect :: "string \<Rightarrow> datetime \<Rightarrow> ExecutionStore \<Rightarrow> ExecutionStore" where
  "disconnect channel now st =
     st\<lparr>xs_ws := ws_upsert
       \<lparr>ws_channel = channel, ws_last_sequence = None, ws_trustworthy = False,
        ws_reason = ''DISCONNECTED'', ws_updated_at = astimezone_utc now\<rparr>
       (\<lambda>r. r\<lparr>ws_trustworthy := False, ws_reason := ''DISCONNECTED'',
         ws_updated_at := astimezone_utc now\<rparr>) (xs_ws st)\<rparr>"

section \<open>Queue observations, lineage and recovery\<close>

definition queue_payload :: "QueueObservation \<Rightarrow> hashable" where
  "queue_payload v = HList [HTime (astimezone_utc (qo_observed_at v)), HStr (qo_order_id v),
     HStr (qo_market v), HDec (qo_queue_position v), HDec (qo_remaining_quantity v),
     HDec (qo_price v), HStr (qo_quality v)]"

definition add_queue_observation ::
    "digest_fn \<Rightarrow> QueueObservation \<Rightarrow> ExecutionStore \<Rightarrow> ExecutionStore" where
  "add_queue_observation dig v st =
     st\<lparr>xs_queue := fst (sql_insert_or_ignore [\<lambda>r. Some (qr_observation_hash r)]
       \<lparr>qr_observation_hash = dig (queue_payload v), qr_observation = v\<rparr> (xs_queue st))\<rparr>"

text \<open>\<open>UNIQUE(new_client_order_id)\<close> subsumes the composite primary key.\<close>

definition lineage_keys :: "(LineageRow, hashable) col list" where
  "lineage_keys = [\<lambda>l. Some (HList [HStr (ln_old l), HStr (ln_new l)]),
     \<lambda>l. Some (HStr (ln_new l))]"

definition record_lineage ::
    "string \<Rightarrow> string \<Rightarrow> string \<Rightarrow> datetime \<Rightarrow> ExecutionStore \<Rightarrow> ExecutionStore result" where
  "record_lineage old new execution_id now st =
     (case sql_insert lineage_keys
         \<lparr>ln_old = old, ln_new = new, ln_execution_id = execution_id,
          ln_changed_at = astimezone_utc now\<rparr> (xs_lineage st) of
        None \<Rightarrow> Inl IntegrityError
      | Some rows \<Rightarrow> Inr (st\<lparr>xs_lineage := rows\<rparr>))"

definition recover_one :: "string \<Rightarrow> ExecutionStore \<Rightarrow> ExecutionStore" where
  "recover_one execution_id st =
     st\<lparr>xs_journals := sql_update (\<lambda>j. jr_execution_id j = execution_id)
          (jr_state_update (\<lambda>_. ''RECOVERY_RECONCILIATION_REQUIRED'')) (xs_journals st),
        xs_orders := sql_update (\<lambda>x. lo_execution_id x = execution_id)
          (\<lambda>x. x\<lparr>lo_state := UNKNOWN_RECONCILIATION_REQUIRED,
             lo_reconciliation_required := True\<rparr>) (xs_orders st)\<rparr>"

definition recover :: "ExecutionStore \<Rightarrow> ExecutionStore \<times> string list" where
  "recover st = (let ids = map jr_execution_id (incomplete_journals st)
     in (fold recover_one ids st, ids))"

end
