(* ===== verification/Demo_Store_Inv.thy ===== *)
theory Demo_Store_Inv
  imports Demo_Store
begin

text \<open>
  Laws of the execution store: the durable claims as interpretations of \<open>exactly_once\<close>, exact
  fill totals under duplicated delivery, continuity of the private stream, and recovery as an
  interpretation of \<open>recoverable_journal\<close>.
\<close>

section \<open>The operations as one function\<close>

datatype StoreOp =
    is_SJournal: SJournal JournalRequest
  | SJournalState string string bool
  | is_SMutation: SMutation string MutationKind MutationRequest datetime
  | SMutationState string string bool
  | SSave LocalOrder
  | is_SFill: SFill FillEvent
  | SWs string string string OrderState "int option" datetime
  | SDisconnect string datetime
  | SQueue QueueObservation
  | SLineage string string string datetime
  | SRecover

fun kept :: "'s \<Rightarrow> 's result \<Rightarrow> 's" where
  "kept s (Inl e) = s"
| "kept s (Inr t) = t"

lemma kept_eq: "kept s m = (case m of Inl e \<Rightarrow> s | Inr t \<Rightarrow> t)"
  by (cases m) auto

fun store_exec :: "digest_fn \<Rightarrow> StoreOp \<Rightarrow> ExecutionStore \<Rightarrow> ExecutionStore" where
  "store_exec dig (SJournal q) st = fst (acquire_journal dig q st)"
| "store_exec dig (SJournalState eid s b) st = journal_state eid s b st"
| "store_exec dig (SMutation eid k r now) st = fst (acquire_mutation dig eid k r now st)"
| "store_exec dig (SMutationState aid s b) st = mutation_state aid s b st"
| "store_exec dig (SSave x) st = kept st (save_order x st)"
| "store_exec dig (SFill f) st = kept st (map_sum id fst (add_fill f st))"
| "store_exec dig (SWs c k e s n t) st = fst (ingest_ws_event c k e s n t st)"
| "store_exec dig (SDisconnect c now) st = disconnect c now st"
| "store_exec dig (SQueue v) st = add_queue_observation dig v st"
| "store_exec dig (SLineage a b e now) st = kept st (record_lineage a b e now st)"
| "store_exec dig SRecover st = fst (recover st)"

section \<open>Recovery\<close>

text \<open>
  The contract of a recovery handler: it leaves every open entry in a state that demands
  reconciliation, closes nothing, and running it again changes nothing.
\<close>

locale recoverable_journal =
  fixes recovery :: "'s \<Rightarrow> 's \<times> 'k list"
    and open_ids :: "'s \<Rightarrow> 'k set"
    and needs_work :: "'k \<Rightarrow> 's \<Rightarrow> bool"
  assumes recovery_reports: "set (snd (recovery s)) = open_ids s"
    and recovery_open: "open_ids (fst (recovery s)) = open_ids s"
    and recovery_marks: "k \<in> open_ids s \<Longrightarrow> needs_work k (fst (recovery s))"
    and recovery_fixpoint: "(\<And>k. k \<in> open_ids s \<Longrightarrow> needs_work k s) \<Longrightarrow> fst (recovery s) = s"
begin

lemma recovery_idem: "fst (recovery (fst (recovery s))) = fst (recovery s)"
  by (rule recovery_fixpoint) (simp add: recovery_open recovery_marks)

lemma recovery_reports_again:
  "set (snd (recovery (fst (recovery s)))) = set (snd (recovery s))"
  by (simp add: recovery_reports recovery_open)

end

definition recovered_journal :: "string set \<Rightarrow> JournalRow \<Rightarrow> JournalRow" where
  "recovered_journal ids j = (if jr_execution_id j \<in> ids
     then j\<lparr>jr_state := ''RECOVERY_RECONCILIATION_REQUIRED''\<rparr> else j)"

definition recovered_order :: "string set \<Rightarrow> LocalOrder \<Rightarrow> LocalOrder" where
  "recovered_order ids x = (if lo_execution_id x \<in> ids
     then x\<lparr>lo_state := UNKNOWN_RECONCILIATION_REQUIRED, lo_reconciliation_required := True\<rparr>
     else x)"

lemma recover_one_closed:
  "recover_one i st = st\<lparr>xs_journals := map (recovered_journal {i}) (xs_journals st),
     xs_orders := map (recovered_order {i}) (xs_orders st)\<rparr>"
  by (simp add: recover_one_def sql_update_def recovered_journal_def recovered_order_def)

lemma recovered_twice:
  "recovered_journal A (recovered_journal B j) = recovered_journal (A \<union> B) j"
  "recovered_order A (recovered_order B x) = recovered_order (A \<union> B) x"
  by (simp_all add: recovered_journal_def recovered_order_def)

lemma recovered_fields [simp]:
  "jr_execution_id (recovered_journal A j) = jr_execution_id j"
  "jr_client_order_id (recovered_journal A j) = jr_client_order_id j"
  "jr_authorization_id (recovered_journal A j) = jr_authorization_id j"
  "lo_execution_id (recovered_order A x) = lo_execution_id x"
  by (simp_all add: recovered_journal_def recovered_order_def)

lemma fold_recover_one:
  "fold recover_one ids st =
     st\<lparr>xs_journals := map (recovered_journal (set ids)) (xs_journals st),
        xs_orders := map (recovered_order (set ids)) (xs_orders st)\<rparr>"
proof (induction ids arbitrary: st)
  case Nil
  have "recovered_journal {} = id" and "recovered_order {} = id"
    by (auto simp: recovered_journal_def recovered_order_def fun_eq_iff)
  then show ?case by simp
next
  case (Cons i ids)
  then show ?case by (simp add: recover_one_closed recovered_twice o_def)
qed

definition incomplete :: "JournalRow \<Rightarrow> bool" where
  "incomplete j \<longleftrightarrow> jr_state j \<notin> set [''RECONCILED'', ''PROVEN_UNSENT'']"

definition open_executions :: "ExecutionStore \<Rightarrow> string set" where
  "open_executions st = jr_execution_id ` {j \<in> set (xs_journals st). incomplete j}"

definition awaits_reconciliation :: "string \<Rightarrow> ExecutionStore \<Rightarrow> bool" where
  "awaits_reconciliation eid st \<longleftrightarrow>
     (\<forall>j \<in> set (xs_journals st). jr_execution_id j = eid \<longrightarrow>
        jr_state j = ''RECOVERY_RECONCILIATION_REQUIRED'') \<and>
     (\<forall>x \<in> set (xs_orders st). lo_execution_id x = eid \<longrightarrow>
        lo_state x = UNKNOWN_RECONCILIATION_REQUIRED \<and> lo_reconciliation_required x)"

lemma recover_closed:
  "recover st = (st\<lparr>xs_journals := map (recovered_journal (open_executions st)) (xs_journals st),
      xs_orders := map (recovered_order (open_executions st)) (xs_orders st)\<rparr>,
     map jr_execution_id (incomplete_journals st))"
proof -
  have "set (map jr_execution_id (incomplete_journals st)) = open_executions st"
    by (simp add: incomplete_journals_def open_executions_def incomplete_def)
  then show ?thesis by (simp add: recover_def Let_def fold_recover_one del: set_map)
qed

lemma incomplete_recovered:
  "incomplete (recovered_journal A j) \<longleftrightarrow> jr_execution_id j \<in> A \<or> incomplete j"
  by (simp add: recovered_journal_def incomplete_def)

lemma recovered_ids:
  "jr_execution_id ` {j \<in> recovered_journal A ` J. incomplete j} =
     jr_execution_id ` {j \<in> J. jr_execution_id j \<in> A \<or> incomplete j}"
proof -
  have "{j \<in> recovered_journal A ` J. incomplete j} =
      recovered_journal A ` {j \<in> J. jr_execution_id j \<in> A \<or> incomplete j}"
    by (auto simp: incomplete_recovered)
  then show ?thesis by (simp add: image_image)
qed

lemma open_executions_recover: "open_executions (fst (recover st)) = open_executions st"
proof -
  let ?S = "open_executions st"
  have "set (xs_journals (fst (recover st))) = recovered_journal ?S ` set (xs_journals st)"
    by (simp add: recover_closed)
  then have "open_executions (fst (recover st)) =
      jr_execution_id ` {j \<in> recovered_journal ?S ` set (xs_journals st). incomplete j}"
    unfolding open_executions_def by (rule arg_cong)
  also have "\<dots> =
      jr_execution_id ` {j \<in> set (xs_journals st). jr_execution_id j \<in> ?S \<or> incomplete j}"
    by (rule recovered_ids)
  also have "\<dots> = ?S" by (auto simp: open_executions_def)
  finally show ?thesis .
qed

interpretation demo_recovery: recoverable_journal recover open_executions awaits_reconciliation
proof unfold_locales
  fix st
  show "set (snd (recover st)) = open_executions st"
    by (simp add: recover_def Let_def incomplete_journals_def open_executions_def incomplete_def)
  show "open_executions (fst (recover st)) = open_executions st"
    by (rule open_executions_recover)
  show "awaits_reconciliation k (fst (recover st))" if "k \<in> open_executions st" for k
    using that
    by (auto simp: awaits_reconciliation_def recover_closed recovered_journal_def
        recovered_order_def)
  assume work: "\<And>k. k \<in> open_executions st \<Longrightarrow> awaits_reconciliation k st"
  have "map (recovered_journal (open_executions st)) (xs_journals st) = xs_journals st"
    using work by (auto intro!: map_idI simp: recovered_journal_def awaits_reconciliation_def)
  moreover have "map (recovered_order (open_executions st)) (xs_orders st) = xs_orders st"
    using work by (auto intro!: map_idI simp: recovered_order_def awaits_reconciliation_def)
  ultimately show "fst (recover st) = st" by (simp add: recover_closed)
qed

section \<open>Durable claims\<close>

lemma journal_columns_exec:
  assumes "\<not> is_SJournal op"
  shows "map jr_execution_id (xs_journals (store_exec dig op st)) =
      map jr_execution_id (xs_journals st)"
    and "map jr_client_order_id (xs_journals (store_exec dig op st)) =
      map jr_client_order_id (xs_journals st)"
    and "map jr_authorization_id (xs_journals (store_exec dig op st)) =
      map jr_authorization_id (xs_journals st)"
  using assms
  by (cases op; auto simp: journal_state_def acquire_mutation_def mutation_state_def
      kept_eq save_order_def add_fill_def ingest_ws_event_def disconnect_def Let_def
      add_queue_observation_def record_lineage_def recover_closed recovered_journal_def
      split: option.splits sum.splits if_splits prod.splits)+

definition journaled :: "(JournalRow \<Rightarrow> string) \<Rightarrow> ExecutionStore \<Rightarrow> string set" where
  "journaled c st = c ` set (xs_journals st)"

lemma journaled_exec:
  assumes "\<not> is_SJournal op"
    and "c \<in> {jr_execution_id, jr_client_order_id, jr_authorization_id}"
  shows "journaled c (store_exec dig op st) = journaled c st"
  using journal_columns_exec [OF assms(1), of dig st] assms(2)
  unfolding journaled_def by (metis (no_types, opaque_lifting) insertE list.set_map singletonD)

lemma acquire_journal_claim:
  assumes "acquire_journal dig q st = (st', b)"
    and "(\<lambda>j. Some (c j)) \<in> set journal_keys"
  shows "b \<Longrightarrow> c (journal_row dig q) \<notin> journaled c st"
    and "journaled c st' = (if b then insert (c (journal_row dig q)) (journaled c st)
      else journaled c st)"
proof -
  have tk: "taken (\<lambda>j. Some (c j)) tab = c ` set tab" for tab by (auto simp: taken_def)
  show "b \<Longrightarrow> c (journal_row dig q) \<notin> journaled c st"
    and "journaled c st' = (if b then insert (c (journal_row dig q)) (journaled c st)
      else journaled c st)"
    using assms sql_insert_key_fresh [where c = "\<lambda>j. Some (c j)"]
    by (auto simp: acquire_journal_def journaled_def tk sql_insert_Some split: option.splits)
qed

definition other_than_journal :: "digest_fn \<Rightarrow> StoreOp \<Rightarrow> ExecutionStore \<Rightarrow> ExecutionStore" where
  "other_than_journal dig op st = (if is_SJournal op then st else store_exec dig op st)"

interpretation journal_authorization: exactly_once
  "acquire_journal dig" "other_than_journal dig" jq_authorization_id
  "journaled jr_authorization_id" "\<lambda>_. True"
proof unfold_locales
  fix q st st' b
  note c = acquire_journal_claim [where c = jr_authorization_id and dig = dig and q = q
      and st = st and st' = st']
  show "jq_authorization_id q \<notin> journaled jr_authorization_id st"
    if "acquire_journal dig q st = (st', True)"
    using c(1) [OF that] by (simp add: journal_keys_def journal_row_def)
  show "journaled jr_authorization_id st' = (if b
      then insert (jq_authorization_id q) (journaled jr_authorization_id st)
      else journaled jr_authorization_id st)" if "acquire_journal dig q st = (st', b)"
    using c(2) [OF that] by (simp add: journal_keys_def journal_row_def)
qed (simp_all add: other_than_journal_def journaled_exec)

interpretation journal_client: exactly_once
  "acquire_journal dig" "other_than_journal dig" jq_client_order_id
  "journaled jr_client_order_id" "\<lambda>_. True"
proof unfold_locales
  fix q st st' b
  note c = acquire_journal_claim [where c = jr_client_order_id and dig = dig and q = q
      and st = st and st' = st']
  show "jq_client_order_id q \<notin> journaled jr_client_order_id st"
    if "acquire_journal dig q st = (st', True)"
    using c(1) [OF that] by (simp add: journal_keys_def journal_row_def)
  show "journaled jr_client_order_id st' = (if b
      then insert (jq_client_order_id q) (journaled jr_client_order_id st)
      else journaled jr_client_order_id st)" if "acquire_journal dig q st = (st', b)"
    using c(2) [OF that] by (simp add: journal_keys_def journal_row_def)
qed (simp_all add: other_than_journal_def journaled_exec)

section \<open>Mutation attempts are claimed once\<close>

type_synonym mutation_claim = "string \<times> MutationKind \<times> MutationRequest \<times> datetime"

fun try_mutation :: "digest_fn \<Rightarrow> mutation_claim \<Rightarrow> ExecutionStore \<Rightarrow> ExecutionStore \<times> bool" where
  "try_mutation dig (eid, k, r, now) st =
     map_prod id (\<lambda>a. a \<noteq> None) (acquire_mutation dig eid k r now st)"

fun mutation_key :: "digest_fn \<Rightarrow> mutation_claim \<Rightarrow> string \<times> string \<times> string" where
  "mutation_key dig (eid, k, r, now) =
     (eid, MutationKind_value k, dig (body_json (mr_body r)))"

definition attempted :: "ExecutionStore \<Rightarrow> (string \<times> string \<times> string) set" where
  "attempted st = (\<lambda>m. (mu_execution_id m, MutationKind_value (mu_kind m), mu_body_hash m)) `
     set (xs_mutations st)"

definition other_than_mutation :: "digest_fn \<Rightarrow> StoreOp \<Rightarrow> ExecutionStore \<Rightarrow> ExecutionStore" where
  "other_than_mutation dig op st = (if is_SMutation op then st else store_exec dig op st)"

lemma attempted_exec:
  assumes "\<not> is_SMutation op"
  shows "attempted (store_exec dig op st) = attempted st"
proof -
  have "map (\<lambda>m. (mu_execution_id m, MutationKind_value (mu_kind m), mu_body_hash m))
      (xs_mutations (store_exec dig op st)) =
    map (\<lambda>m. (mu_execution_id m, MutationKind_value (mu_kind m), mu_body_hash m)) (xs_mutations st)"
    using assms
    by (cases op; auto simp: journal_state_def acquire_journal_def mutation_state_def
        kept_eq save_order_def add_fill_def ingest_ws_event_def disconnect_def Let_def
        add_queue_observation_def record_lineage_def recover_closed
        simp del: map_eq_conv split: option.splits sum.splits if_splits prod.splits)
  from arg_cong [OF this, of set] show ?thesis by (simp add: attempted_def)
qed

lemma try_mutation_claim:
  assumes "try_mutation dig q st = (st', b)"
  shows "b \<Longrightarrow> mutation_key dig q \<notin> attempted st"
    and "attempted st' = (if b then insert (mutation_key dig q) (attempted st) else attempted st)"
proof -
  obtain eid k r now where q: "q = (eid, k, r, now)" by (cases q)
  show "b \<Longrightarrow> mutation_key dig q \<notin> attempted st"
    using assms
    by (auto simp: q acquire_mutation_def Let_def sql_insert_Some mutation_keys_def conflicts_def
        list_ex_iff attempted_def split: option.splits)
  show "attempted st' = (if b then insert (mutation_key dig q) (attempted st) else attempted st)"
    using assms
    by (auto simp: q acquire_mutation_def Let_def sql_insert_Some attempted_def
        split: option.splits)
qed

interpretation mutation_attempt: exactly_once
  "try_mutation dig" "other_than_mutation dig" "mutation_key dig" attempted "\<lambda>_. True"
proof unfold_locales
  fix q st st' b
  show "mutation_key dig q \<notin> attempted st" if "try_mutation dig q st = (st', True)"
    using try_mutation_claim(1) [OF that] by simp
  show "attempted st' = (if b then insert (mutation_key dig q) (attempted st) else attempted st)"
    if "try_mutation dig q st = (st', b)"
    using try_mutation_claim(2) [OF that] .
qed (simp_all add: other_than_mutation_def attempted_exec)

section \<open>Fills are counted once\<close>

fun try_fill :: "FillEvent \<Rightarrow> ExecutionStore \<Rightarrow> ExecutionStore \<times> bool" where
  "try_fill f st = (case add_fill f st of Inl e \<Rightarrow> (st, False) | Inr r \<Rightarrow> r)"

definition recorded_trades :: "ExecutionStore \<Rightarrow> string set" where
  "recorded_trades st = fe_trade_id ` set (xs_fills st)"

definition other_than_fill :: "digest_fn \<Rightarrow> StoreOp \<Rightarrow> ExecutionStore \<Rightarrow> ExecutionStore" where
  "other_than_fill dig op st = (if is_SFill op then st else store_exec dig op st)"

lemma fills_exec: "\<not> is_SFill op \<Longrightarrow> xs_fills (store_exec dig op st) = xs_fills st"
  by (cases op; auto simp: journal_state_def acquire_journal_def mutation_state_def
      acquire_mutation_def kept_eq save_order_def ingest_ws_event_def disconnect_def Let_def
      add_queue_observation_def record_lineage_def recover_closed
      split: option.splits sum.splits if_splits prod.splits)

definition stored_fill :: "FillEvent \<Rightarrow> FillEvent" where
  "stored_fill f = f\<lparr>fe_matching_time := Aware (astimezone_utc (fe_matching_time f))\<rparr>"

lemma try_fill_eq:
  "try_fill f st = (if fe_subaccount f \<noteq> 0 \<or> fe_trade_id f \<in> recorded_trades st then (st, False)
     else (st\<lparr>xs_fills := xs_fills st @ [stored_fill f]\<rparr>, True))"
  by (auto simp: add_fill_def sql_insert_or_ignore_def sql_insert_def fill_keys_def conflicts_def
      list_ex_iff recorded_trades_def stored_fill_def image_iff) metis+

interpretation fill_claim: exactly_once
  try_fill "other_than_fill dig" fe_trade_id recorded_trades "\<lambda>_. True"
proof unfold_locales
  fix op st
  show "recorded_trades (other_than_fill dig op st) = recorded_trades st"
    by (simp add: other_than_fill_def recorded_trades_def fills_exec)
qed (auto simp: try_fill_eq recorded_trades_def stored_fill_def simp del: try_fill.simps
    split: if_splits)

definition deliver :: "FillEvent list \<Rightarrow> ExecutionStore \<Rightarrow> ExecutionStore" where
  "deliver fs st = fold (\<lambda>f st. fst (try_fill f st)) fs st"

definition consistent_fills :: "FillEvent list \<Rightarrow> bool" where
  "consistent_fills fs \<longleftrightarrow> (\<forall>f \<in> set fs. fe_subaccount f = 0) \<and>
     (\<forall>f \<in> set fs. \<forall>g \<in> set fs. fe_trade_id f = fe_trade_id g \<longrightarrow> f = g)"

lemma deliver_snoc: "deliver (fs @ [f]) st = fst (try_fill f (deliver fs st))"
  by (simp add: deliver_def)

lemma stored_fill_fields [simp]:
  "fe_trade_id (stored_fill f) = fe_trade_id f" "fe_order_id (stored_fill f) = fe_order_id f"
  "fe_quantity (stored_fill f) = fe_quantity f" "fe_fee (stored_fill f) = fe_fee f"
  by (simp_all add: stored_fill_def)

lemma deliver_fills:
  assumes "consistent_fills fs"
  shows "distinct (map fe_trade_id (xs_fills (deliver fs empty_store))) \<and>
    set (xs_fills (deliver fs empty_store)) = stored_fill ` set fs"
  using assms
proof (induction fs rule: rev_induct)
  case Nil
  then show ?case by (simp add: deliver_def empty_store_def)
next
  case (snoc f fs)
  let ?st = "deliver fs empty_store"
  have con: "consistent_fills fs" and sub: "fe_subaccount f = 0"
    using snoc.prems by (auto simp: consistent_fills_def)
  note IH = snoc.IH [OF con]
  have trades: "recorded_trades ?st = fe_trade_id ` set fs"
    using IH by (simp add: recorded_trades_def image_image)
  show ?case
  proof (cases "fe_trade_id f \<in> fe_trade_id ` set fs")
    case True
    then have "f \<in> set fs" using snoc.prems by (auto simp: consistent_fills_def)
    with True IH trades show ?thesis
      by (auto simp: deliver_snoc try_fill_eq simp del: try_fill.simps)
  next
    case False
    with IH trades sub show ?thesis
      by (auto simp: deliver_snoc try_fill_eq recorded_trades_def simp del: try_fill.simps)
  qed
qed

lemma sum_over_fills:
  assumes "consistent_fills fs" and "\<And>f. g (stored_fill f) = (g f :: decimal)"
  shows "dsum (map g (filter (\<lambda>f. fe_order_id f = oid) (xs_fills (deliver fs empty_store)))) =
    sum g {f \<in> set fs. fe_order_id f = oid}"
proof -
  let ?rows = "xs_fills (deliver fs empty_store)"
  note d = deliver_fills [OF assms(1)]
  have inj: "inj_on stored_fill {f \<in> set fs. fe_order_id f = oid}"
    using assms(1) stored_fill_fields(1) unfolding inj_on_def consistent_fills_def
    by (metis (mono_tags, lifting) mem_Collect_eq)
  have "distinct (filter (\<lambda>f. fe_order_id f = oid) ?rows)"
    using d by (simp add: distinct_map)
  then have "dsum (map g (filter (\<lambda>f. fe_order_id f = oid) ?rows)) =
      sum g (set (filter (\<lambda>f. fe_order_id f = oid) ?rows))"
    by (simp add: sum_list_distinct_conv_sum_set)
  also have "set (filter (\<lambda>f. fe_order_id f = oid) ?rows) =
      stored_fill ` {f \<in> set fs. fe_order_id f = oid}"
    using d by auto
  also have "sum g \<dots> = sum g {f \<in> set fs. fe_order_id f = oid}"
    using inj assms(2) by (simp add: sum.reindex)
  finally show ?thesis .
qed

section \<open>Continuity of the private stream\<close>

text \<open>
  An event is ingested as current exactly when it continues the last recorded sequence, or when
  there is nothing to compare it with.
\<close>

lemma ws_row_upsert:
  assumes "ws_channel new = c" and "\<And>r. ws_channel r = c \<Longrightarrow> ws_channel (f r) = c"
    and "\<And>r. ws_channel r = c \<Longrightarrow> Q (f r)" and "Q new"
  shows "\<exists>r. ws_row c (ws_upsert new f rows) = Some r \<and> Q r"
proof (cases "sql_find (\<lambda>r. Some (ws_channel r) = Some c) rows")
  case None
  then have "filter (\<lambda>r. ws_channel r = c) rows = []"
    by (simp add: sql_find_None filter_empty_conv)
  then show ?thesis using None assms by (simp add: ws_upsert_def ws_row_def sql_find_def)
next
  case (Some old)
  then have old: "old \<in> set rows" "ws_channel old = c" by (auto dest: sql_find_Some)
  have up: "ws_upsert new f rows = sql_update (\<lambda>r. ws_channel r = c) f rows"
    using Some assms(1) by (simp add: ws_upsert_def)
  have "f old \<in> set (sql_update (\<lambda>r. ws_channel r = c) f rows)"
    using old by (auto simp: set_sql_update)
  moreover have "ws_channel (f old) = c" using old(2) by (rule assms(2))
  ultimately have "ws_row c (ws_upsert new f rows) \<noteq> None"
    unfolding ws_row_def sql_find_None up by blast
  then obtain r where r: "ws_row c (ws_upsert new f rows) = Some r" by auto
  then have "r \<in> set (ws_upsert new f rows)" and "ws_channel r = c"
    unfolding ws_row_def by (auto dest: sql_find_Some)
  with r assms(3) show ?thesis unfolding up by (auto simp: set_sql_update)
qed

lemma ingest_gap_eq:
  assumes "sequence_gap n (ws_row c (xs_ws st))"
  shows "ingest_ws_event c k e s n t st = (st\<lparr>xs_ws := ws_upsert
      \<lparr>ws_channel = c, ws_last_sequence = n, ws_trustworthy = False,
       ws_reason = ''SEQUENCE_GAP'', ws_updated_at = astimezone_utc t\<rparr>
      (\<lambda>r. r\<lparr>ws_last_sequence := n, ws_trustworthy := False, ws_reason := ''SEQUENCE_GAP'',
        ws_updated_at := astimezone_utc t\<rparr>) (xs_ws st)\<rparr>, False)"
  using assms by (simp add: ingest_ws_event_def Let_def)

lemma ingest_gap:
  assumes "sequence_gap n (ws_row c (xs_ws st))"
  shows "snd (ingest_ws_event c k e s n t st) = False"
    and "xs_events (fst (ingest_ws_event c k e s n t st)) = xs_events st"
    and "\<exists>r. ws_row c (xs_ws (fst (ingest_ws_event c k e s n t st))) = Some r \<and>
      \<not> ws_trustworthy r \<and> ws_reason r = ''SEQUENCE_GAP'' \<and> ws_last_sequence r = n"
  unfolding ingest_gap_eq [OF assms] by (simp_all add: ws_row_upsert)

lemma ingest_current:
  assumes "\<not> sequence_gap n (ws_row c (xs_ws st))"
  shows "\<exists>r. ws_row c (xs_ws (fst (ingest_ws_event c k e s n t st))) = Some r \<and>
      ws_trustworthy r \<and> ws_reason r = ''CURRENT'' \<and> ws_last_sequence r = n"
proof -
  have "xs_ws (fst (ingest_ws_event c k e s n t st)) = ws_upsert
      \<lparr>ws_channel = c, ws_last_sequence = n, ws_trustworthy = True, ws_reason = ''CURRENT'',
       ws_updated_at = astimezone_utc t\<rparr>
      (\<lambda>r. r\<lparr>ws_last_sequence := n, ws_trustworthy := True, ws_reason := ''CURRENT'',
        ws_updated_at := astimezone_utc t\<rparr>) (xs_ws st)"
    using assms by (simp add: ingest_ws_event_def Let_def split: prod.split)
  then show ?thesis by (simp add: ws_row_upsert)
qed

end
