(* ===== verification/Demo_Engine.thy ===== *)
theory Demo_Engine
  imports Demo_Store_Inv Risk_Capacity
begin

text \<open>
  \<open>services/demo_execution/engine.py\<close>: submission and mutation of orders over the durable
  execution store, the authorization store and a transport. A handler returns the world it
  leaves behind together with its result: what was committed before an exception stays. The
  transports are parameters with a state of their own (\<open>wd_net\<close>).
\<close>

record PreSendState =
  pre_safety_state_hash :: string
  pre_portfolio_state_hash :: string
  pre_global_halt_clear :: bool
  pre_compliance_clear :: bool
  pre_kill_states_clear :: bool
  pre_reconciliation_fresh :: bool
  pre_market_rules_valid :: bool

definition PreSendState_valid :: "PreSendState \<Rightarrow> bool" where
  "PreSendState_valid p \<longleftrightarrow> pre_global_halt_clear p \<and> pre_compliance_clear p \<and>
     pre_kill_states_clear p \<and> pre_reconciliation_fresh p \<and> pre_market_rules_valid p"

record 't World =
  wd_store :: ExecutionStore
  wd_auth :: AuthStore
  wd_net :: 't

record 't Wiring =
  wr_demo :: "'t sender option"
  wr_local :: "(MutationRequest \<Rightarrow> 't \<Rightarrow> 't \<times> send_outcome) option"

definition new_order ::
    "digest_fn \<Rightarrow> ExecutionIntent \<Rightarrow> ExecutionEnvironment \<Rightarrow> datetime \<Rightarrow> LocalOrder result" where
  "new_order dig i mode now = LocalOrder_post_init
     \<lparr>lo_execution_id = ''exec-'' @ take 24
        (dig (HList [HStr (ei_intent_hash i), HStr (ExecutionEnvironment_value mode)])),
      lo_client_order_id = ei_client_order_id i, lo_environment = mode,
      lo_intent_hash = ei_intent_hash i, lo_ticker = ei_ticker i,
      lo_outcome_side = ei_outcome_side i, lo_price = ei_price i, lo_quantity = ei_quantity i,
      lo_filled_quantity = 0, lo_fees = 0, lo_state = PROPOSED,
      lo_updated_at = Aware (astimezone_utc now), lo_exchange_order_id = None,
      lo_reconciliation_required = True, lo_production_influence = ''NONE''\<rparr>"

section \<open>Steps on the parts of the world\<close>

definition on_store :: "(ExecutionStore \<Rightarrow> ExecutionStore result) \<Rightarrow> ('t World, unit) handler" where
  "on_store f w = (case f (wd_store w) of Inl e \<Rightarrow> (w, Inl e)
     | Inr st \<Rightarrow> (w\<lparr>wd_store := st\<rparr>, Inr ()))"

definition store_update :: "(ExecutionStore \<Rightarrow> ExecutionStore) \<Rightarrow> ('t World, unit) handler" where
  "store_update f w = (w\<lparr>wd_store := f (wd_store w)\<rparr>, Inr ())"

definition store_claim :: "(ExecutionStore \<Rightarrow> ExecutionStore \<times> 'a) \<Rightarrow> ('t World, 'a) handler" where
  "store_claim f w = (w\<lparr>wd_store := fst (f (wd_store w))\<rparr>, Inr (snd (f (wd_store w))))"

definition on_auth :: "(AuthStore \<Rightarrow> (AuthStore \<times> bool) result) \<Rightarrow> ('t World, bool) handler" where
  "on_auth f w = (case f (wd_auth w) of Inl e \<Rightarrow> (w, Inl e)
     | Inr (st, b) \<Rightarrow> (w\<lparr>wd_auth := st\<rparr>, Inr b))"

text \<open>\<open>_send\<close>: the transport of the mode, its outcome as a value.\<close>

definition engine_send :: "'t Wiring \<Rightarrow> ExecutionEnvironment \<Rightarrow> MutationRequest \<Rightarrow>
    ('t World, send_outcome) handler" where
  "engine_send wr mode request w =
     (let (t, out) = (if mode = DEMO
            then (case wr_demo wr of
                None \<Rightarrow> (wd_net w, Raised (ValueError ''demo transport is unavailable''))
              | Some sender \<Rightarrow> DemoMutationTransport_send sender mode request (wd_net w))
            else (case wr_local wr of
                None \<Rightarrow> (wd_net w, Raised (ValueError ''paper/mock transport is unavailable''))
              | Some send \<Rightarrow> send request (wd_net w)))
      in (w\<lparr>wd_net := t\<rparr>, Inr out))"

section \<open>submit\<close>

record SubmitArgs =
  sa_mode :: ExecutionEnvironment
  sa_intent :: ExecutionIntent
  sa_authorization :: RiskAuthorization
  sa_state :: PreSendState
  sa_now :: datetime

text \<open>The checks before anything durable happens.\<close>

definition submit_guard :: "'t Wiring \<Rightarrow> SubmitArgs \<Rightarrow> unit result" where
  "submit_guard wr a =
     (if ei_intent_hash (sa_intent a) \<noteq> ra_intent_hash (sa_authorization a)
      then Inl (ValueError ''INTENT_CHANGED'')
      else if \<not> PreSendState_valid (sa_state a) \<or>
        ra_expires_at (sa_authorization a) \<le> astimezone_utc (sa_now a)
      then Inl (ValueError ''material safety state blocks submission'')
      else if sa_mode a = DEMO \<and> wr_demo wr = None
      then Inl (ValueError ''demo transport is unavailable'')
      else if sa_mode a \<noteq> DEMO \<and> wr_local wr = None
      then Inl (ValueError ''paper/mock transport is unavailable'')
      else Inr ())"

definition journal_request :: "SubmitArgs \<Rightarrow> LocalOrder \<Rightarrow> MutationRequest \<Rightarrow> JournalRequest" where
  "journal_request a x request =
     \<lparr>jq_execution_id = lo_execution_id x, jq_intent_hash = ei_intent_hash (sa_intent a),
      jq_client_order_id = ei_client_order_id (sa_intent a),
      jq_authorization_id = ra_authorization_id (sa_authorization a),
      jq_environment = sa_mode a,
      jq_host = (if sa_mode a = DEMO then DEMO_REST_ORIGIN
        else ''local://'' @ py_lower (ExecutionEnvironment_value (sa_mode a))),
      jq_request = request, jq_now = sa_now a\<rparr>"

text \<open>
  From the journal claim to the consumed authorization. The clock of the authorization store is
  read by \<open>consume\<close>: \<open>clk\<close> is that reading.
\<close>

definition submit_prepare :: "digest_fn \<Rightarrow> datetime \<Rightarrow> SubmitArgs \<Rightarrow>
    ('t World, LocalOrder \<times> MutationRequest) handler" where
  "submit_prepare dig clk a =
     sbind (sresult (rbind (new_order dig (sa_intent a) (sa_mode a) (sa_now a))
       (LocalOrder_transition (to_state RISK_APPROVED (sa_now a))))) (\<lambda>x0.
     sbind (sresult (create_request (sa_intent a))) (\<lambda>request.
     sbind (store_claim (acquire_journal dig (journal_request a x0 request))) (\<lambda>owned.
     if \<not> owned then sraise (ValueError ''submission journal is already owned'')
     else
     sbind (sresult (LocalOrder_transition (to_state SUBMISSION_PENDING (sa_now a)) x0)) (\<lambda>x.
     sbind (on_store (save_order x)) (\<lambda>_.
     sbind (on_auth (consume (ra_authorization_id (sa_authorization a))
         (ei_intent_hash (sa_intent a)) (pre_portfolio_state_hash (sa_state a))
         (pre_safety_state_hash (sa_state a)) clk)) (\<lambda>consumed.
     if \<not> consumed then
       sbind (store_update (journal_state (lo_execution_id x) ''AUTHORIZATION_NOT_CONSUMED'' False))
         (\<lambda>_. sraise (ValueError ''M13 authorization is not consumable''))
     else sreturn (x, request)))))))"

text \<open>From \<open>SEND_STARTED\<close> to the stored outcome.\<close>

definition persist :: "SubmitArgs \<Rightarrow> LocalOrder \<Rightarrow> transition_args \<Rightarrow> string \<Rightarrow>
    ('t World, LocalOrder) handler" where
  "persist a x ta js =
     sbind (sresult (LocalOrder_transition ta x)) (\<lambda>y.
     sbind (store_update (journal_state (lo_execution_id y) js True)) (\<lambda>_.
     sbind (on_store (save_order y)) (\<lambda>_. sreturn y)))"

definition order_id_of :: "TransportResponse \<Rightarrow> string option" where
  "order_id_of r = (case map_of (tr_body r) ''order_id'' of Some (HStr s) \<Rightarrow> Some s | _ \<Rightarrow> None)"

definition submit_reply :: "SubmitArgs \<Rightarrow> LocalOrder \<Rightarrow> TransportResponse \<Rightarrow>
    ('t World, LocalOrder) handler" where
  "submit_reply a x r =
     (if tr_status r = 201 \<and> order_id_of r \<noteq> None
      then persist a x ((to_state ACCEPTED (sa_now a))\<lparr>ta_exchange_order_id := order_id_of r\<rparr>)
        ''RESPONSE_PERSISTED_RECONCILE_REQUIRED''
      else if 400 \<le> tr_status r \<and> tr_status r < 500 \<and> tr_status r \<noteq> 429
      then persist a x (to_state REJECTED (sa_now a)) ''REJECTED''
      else persist a x (to_state UNKNOWN_RECONCILIATION_REQUIRED (sa_now a)) ''RESPONSE_UNKNOWN'')"

definition submit_ambiguous :: "SubmitArgs \<Rightarrow> LocalOrder \<Rightarrow> bool \<Rightarrow> ('t World, LocalOrder) handler" where
  "submit_ambiguous a x may =
     sbind (store_update (journal_state (lo_execution_id x)
       (if \<not> may then ''PROVEN_UNSENT'' else ''RESPONSE_UNKNOWN'') may)) (\<lambda>_.
     if may then
       sbind (sresult (LocalOrder_transition
         (to_state UNKNOWN_RECONCILIATION_REQUIRED (sa_now a)) x)) (\<lambda>y.
       sbind (on_store (save_order y)) (\<lambda>_. sraise (AmbiguousMutation may)))
     else sraise (AmbiguousMutation may))"

definition submit_send :: "'t Wiring \<Rightarrow> SubmitArgs \<Rightarrow> LocalOrder \<Rightarrow> MutationRequest \<Rightarrow>
    ('t World, LocalOrder) handler" where
  "submit_send wr a x request =
     sbind (store_update (journal_state (lo_execution_id x) ''SEND_STARTED'' True)) (\<lambda>_.
     sbind (engine_send wr (sa_mode a) request) (\<lambda>out. case out of
         Ambiguous may \<Rightarrow> submit_ambiguous a x may
       | Raised e \<Rightarrow> sraise e
       | Reply r \<Rightarrow> submit_reply a x r))"

definition submit :: "digest_fn \<Rightarrow> 't Wiring \<Rightarrow> datetime \<Rightarrow> SubmitArgs \<Rightarrow>
    ('t World, LocalOrder) handler" where
  "submit dig wr clk a =
     sbind (sresult (submit_guard wr a)) (\<lambda>_.
     sbind (submit_prepare dig clk a) (\<lambda>(x, request). submit_send wr a x request))"

section \<open>mutate\<close>

record MutateArgs =
  ma_order :: LocalOrder
  ma_kind :: MutationKind
  ma_state :: PreSendState
  ma_now :: datetime
  ma_reduce_by :: "decimal option"
  ma_reduce_to :: "decimal option"
  ma_replacement_intent :: "ExecutionIntent option"
  ma_authorized_intent_hash :: "string option"
  ma_new_client_order_id :: "string option"

definition mutate_request :: "MutateArgs \<Rightarrow> (MutationRequest \<times> OrderState) result" where
  "mutate_request a =
     (if \<not> PreSendState_valid (ma_state a) \<or> lo_exchange_order_id (ma_order a) = None \<or>
        lo_reconciliation_required (ma_order a)
      then Inl (ValueError ''mutation requires a fresh reconciled order'')
      else let oid = (case lo_exchange_order_id (ma_order a) of None \<Rightarrow> '''' | Some s \<Rightarrow> s) in
        (case ma_kind a of
           M_CANCEL \<Rightarrow> Inr (cancel_request oid, CANCELLATION_PENDING)
         | M_DECREASE \<Rightarrow> rbind (decrease_request oid (ma_reduce_by a) (ma_reduce_to a))
             (\<lambda>r. Inr (r, DECREASE_PENDING))
         | M_AMEND \<Rightarrow>
             (case (ma_replacement_intent a, ma_authorized_intent_hash a,
                    ma_new_client_order_id a) of
                (Some i, Some h, Some cid) \<Rightarrow>
                  rbind (amend_request oid h i cid) (\<lambda>r. Inr (r, AMENDMENT_PENDING))
              | _ \<Rightarrow> Inl (ValueError
                  ''amend requires a newly authorized exact replacement intent''))
         | M_CREATE \<Rightarrow> Inl (ValueError ''create uses submit, not mutate'')))"

definition body_decimal :: "string \<Rightarrow> decimal \<Rightarrow> json_obj \<Rightarrow> decimal result" where
  "body_decimal key prior body = (case map_of body key of None \<Rightarrow> Inr prior
     | Some v \<Rightarrow> (case decimal_of_json v of Some d \<Rightarrow> Inr d
         | None \<Rightarrow> Inl (ValueError ''InvalidOperation'')))"

definition mutate_target :: "MutateArgs \<Rightarrow> decimal \<Rightarrow> OrderState" where
  "mutate_target a filled =
     (if filled = lo_quantity (ma_order a) then FILLED
      else if filled > lo_filled_quantity (ma_order a) then PARTIALLY_FILLED
      else if ma_kind a = M_CANCEL then CANCELED
      else ACCEPTED)"

definition mutate_unknown :: "MutateArgs \<Rightarrow> LocalOrder \<Rightarrow> ('t World, LocalOrder) handler" where
  "mutate_unknown a x =
     sbind (sresult (LocalOrder_transition
       (to_state UNKNOWN_RECONCILIATION_REQUIRED (ma_now a)) x)) (\<lambda>y.
     sbind (on_store (save_order y)) (\<lambda>_. sreturn y))"

definition mutate_reply :: "MutateArgs \<Rightarrow> string \<Rightarrow> LocalOrder \<Rightarrow> TransportResponse \<Rightarrow>
    ('t World, LocalOrder) handler" where
  "mutate_reply a attempt_id x r =
     (if tr_status r < 200 \<or> 300 \<le> tr_status r then
        sbind (sresult (LocalOrder_transition
          (to_state UNKNOWN_RECONCILIATION_REQUIRED (ma_now a)) x)) (\<lambda>y.
        sbind (store_update (mutation_state attempt_id ''RESPONSE_UNKNOWN'' True)) (\<lambda>_.
        sbind (on_store (save_order y)) (\<lambda>_. sreturn y)))
      else
        sbind (sresult (body_decimal ''filled_quantity'' (lo_filled_quantity (ma_order a))
          (tr_body r))) (\<lambda>filled.
        sbind (sresult (body_decimal ''fees'' (lo_fees (ma_order a)) (tr_body r))) (\<lambda>fees.
        sbind (sresult (LocalOrder_transition
          ((to_state (mutate_target a filled) (ma_now a))
            \<lparr>ta_filled_quantity := Some filled, ta_fees := Some fees\<rparr>) x)) (\<lambda>y.
        sbind (store_update (mutation_state attempt_id ''ACK_RECONCILE_REQUIRED'' True)) (\<lambda>_.
        sbind (case (ma_kind a, ma_new_client_order_id a) of
            (M_AMEND, Some cid) \<Rightarrow> on_store (record_lineage (lo_client_order_id (ma_order a)) cid
               (lo_execution_id (ma_order a)) (ma_now a))
          | _ \<Rightarrow> sreturn ()) (\<lambda>_.
        sbind (on_store (save_order y)) (\<lambda>_. sreturn y)))))))"

definition mutate_send :: "'t Wiring \<Rightarrow> MutateArgs \<Rightarrow> string \<Rightarrow> LocalOrder \<Rightarrow> MutationRequest \<Rightarrow>
    ('t World, LocalOrder) handler" where
  "mutate_send wr a attempt_id x request =
     sbind (store_update (mutation_state attempt_id ''SEND_STARTED'' True)) (\<lambda>_.
     sbind (engine_send wr (lo_environment (ma_order a)) request) (\<lambda>out. case out of
         Ambiguous may \<Rightarrow>
           sbind (store_update (mutation_state attempt_id
             (if \<not> may then ''PROVEN_UNSENT'' else ''RESPONSE_UNKNOWN'') may)) (\<lambda>_.
           if \<not> may then sraise (AmbiguousMutation may) else mutate_unknown a x)
       | Raised e \<Rightarrow> sraise e
       | Reply r \<Rightarrow> mutate_reply a attempt_id x r))"

definition mutate :: "digest_fn \<Rightarrow> 't Wiring \<Rightarrow> MutateArgs \<Rightarrow> ('t World, LocalOrder) handler" where
  "mutate dig wr a =
     sbind (sresult (mutate_request a)) (\<lambda>(request, pending).
     sbind (store_claim (acquire_mutation dig (lo_execution_id (ma_order a)) (ma_kind a) request
         (ma_now a))) (\<lambda>attempt.
     case attempt of
       None \<Rightarrow> sraise (ValueError
         ''identical mutation already journaled; reconcile instead of retrying'')
     | Some attempt_id \<Rightarrow>
         sbind (sresult (LocalOrder_transition (to_state pending (ma_now a)) (ma_order a))) (\<lambda>x.
         sbind (on_store (save_order x)) (\<lambda>_. mutate_send wr a attempt_id x request))))"

section \<open>Reconciliation of one client order\<close>

text \<open>\<open>value == 0\<close> in Python: the integer, the Decimal and \<open>False\<close> all compare equal.\<close>

definition equals_zero :: "hashable option \<Rightarrow> bool" where
  "equals_zero v \<longleftrightarrow> v = Some (HInt 0) \<or> v = Some (HDec 0) \<or> v = Some (HBool False)"

definition reconcile_client_order ::
    "string \<Rightarrow> json_obj list option \<Rightarrow> bool \<Rightarrow> ReconciliationOutcome" where
  "reconcile_client_order client_order_id orders read_failed =
     (case orders of
        None \<Rightarrow> READ_FAILED
      | Some os \<Rightarrow>
          if read_failed then READ_FAILED
          else let scoped = filter (\<lambda>x. equals_zero (map_of x ''subaccount'') \<and>
                 map_of x ''client_order_id'' = Some (HStr client_order_id)) os
           in if length scoped = 1 then FOUND_EXACTLY_ONE
              else if length scoped > 1 then MULTIPLE_CONFLICT
              else NOT_FOUND_YET)"

section \<open>Double-entry postings\<close>

record Posting =
  pg_posting_id :: string
  pg_mode :: ExecutionEnvironment
  pg_account :: string
  pg_amount :: decimal
  pg_trade_id :: string

definition postings_for_fill :: "FillEvent \<Rightarrow> ExecutionEnvironment \<Rightarrow> Posting list" where
  "postings_for_fill f mode =
     (let cost = fe_price f * fe_quantity f;
          prefix = ExecutionEnvironment_value mode @ '':'' @ fe_trade_id f
      in [\<lparr>pg_posting_id = prefix @ '':cash'', pg_mode = mode, pg_account = ''CASH'',
           pg_amount = - (cost + fe_fee f), pg_trade_id = fe_trade_id f\<rparr>,
          \<lparr>pg_posting_id = prefix @ '':contract'', pg_mode = mode,
           pg_account = ''CONTRACT:'' @ fe_ticker f @ '':'' @ fe_outcome_side f,
           pg_amount = cost, pg_trade_id = fe_trade_id f\<rparr>,
          \<lparr>pg_posting_id = prefix @ '':fee'', pg_mode = mode, pg_account = ''FEE_EXPENSE'',
           pg_amount = fe_fee f, pg_trade_id = fe_trade_id f\<rparr>])"

definition net_postings :: "Posting list \<Rightarrow> decimal" where
  "net_postings ps = dsum (map pg_amount ps)"

lemma net_postings_append: "net_postings (ps @ qs) = net_postings ps + net_postings qs"
  by (simp add: net_postings_def)

lemma net_fill: "net_postings (postings_for_fill f mode) = 0"
  by (simp add: net_postings_def postings_for_fill_def Let_def)

text \<open>Any ledger built from fills is balanced.\<close>

lemma net_fills: "net_postings (concat (map (\<lambda>(f, m). postings_for_fill f m) fs)) = 0"
  by (induction fs) (auto simp: net_postings_append net_fill, simp add: net_postings_def)

end
