(* ===== verification/Demo_Engine_Inv.thy ===== *)
theory Demo_Engine_Inv
  imports Demo_Engine
begin

text \<open>
  Correctness of submission: a transport is called only after the journal is owned and the
  authorization is consumed, so that no authorization and no client order id is sent twice; what
  may have reached the exchange leaves an open journal entry, which recovery reports.
\<close>

section \<open>Frames\<close>

lemma keepsD: "keeps P m \<Longrightarrow> P s \<Longrightarrow> m s = (s', r) \<Longrightarrow> P s'"
  unfolding keeps_def by (metis fst_conv)

lemma keeps_net [keeps_rules]:
  "keeps (\<lambda>w. wd_net w = n) (on_store f)"
  "keeps (\<lambda>w. wd_net w = n) (store_update g)"
  "keeps (\<lambda>w. wd_net w = n) (store_claim h)"
  "keeps (\<lambda>w. wd_net w = n) (on_auth k)"
  by (auto simp: keeps_def on_store_def store_update_def store_claim_def on_auth_def
      split: sum.splits)

lemma keeps_auth [keeps_rules]:
  "keeps (\<lambda>w. wd_auth w = n) (on_store f)"
  "keeps (\<lambda>w. wd_auth w = n) (store_update g)"
  "keeps (\<lambda>w. wd_auth w = n) (store_claim h)"
  "keeps (\<lambda>w. wd_auth w = n) (engine_send wr mode r)"
  by (auto simp: keeps_def on_store_def store_update_def store_claim_def engine_send_def
      split: sum.splits prod.splits)

lemma keeps_cases [keeps_rules]:
  "(\<And>r. keeps P (f r)) \<Longrightarrow> (\<And>b. keeps P (g b)) \<Longrightarrow> (\<And>e. keeps P (h e)) \<Longrightarrow>
    keeps P (case out of Ambiguous b \<Rightarrow> g b | Raised e \<Rightarrow> h e | Reply r \<Rightarrow> f r)"
  "(\<And>x y. keeps P (k x y)) \<Longrightarrow> keeps P (case p of (x, y) \<Rightarrow> k x y)"
  by (auto split: send_outcome.split prod.split)

lemma prepare_net: "keeps (\<lambda>w. wd_net w = n) (submit_prepare dig clk a)"
  unfolding submit_prepare_def by (intro keeps_rules)

lemma send_auth: "keeps (\<lambda>w. wd_auth w = n) (submit_send wr a x request)"
  unfolding submit_send_def submit_ambiguous_def submit_reply_def persist_def
  by (intro keeps_rules)

section \<open>What a prepared submission has secured\<close>

lemma prepare_ok:
  assumes "submit_prepare dig clk a w = (w1, Inr (x, request))"
  shows "lo_state x = SUBMISSION_PENDING" and "local_okay x"
    and "lo_updated_at x = Aware (astimezone_utc (sa_now a))"
    and "create_request (sa_intent a) = Inr request"
    and "\<exists>st1. acquire_journal dig (journal_request a x request) (wd_store w) = (st1, True) \<and>
      save_order x st1 = Inr (wd_store w1)"
    and "consume (ra_authorization_id (sa_authorization a)) (ei_intent_hash (sa_intent a))
      (pre_portfolio_state_hash (sa_state a)) (pre_safety_state_hash (sa_state a)) clk
      (wd_auth w) = Inr (wd_auth w1, True)"
proof -
  from assms obtain x0 w0 wa where
    t0: "rbind (new_order dig (sa_intent a) (sa_mode a) (sa_now a))
       (LocalOrder_transition (to_state RISK_APPROVED (sa_now a))) = Inr x0"
    and req: "create_request (sa_intent a) = Inr request"
    and own: "store_claim (acquire_journal dig (journal_request a x0 request)) w = (w0, Inr True)"
    and t1: "LocalOrder_transition (to_state SUBMISSION_PENDING (sa_now a)) x0 = Inr x"
    and save: "on_store (save_order x) w0 = (wa, Inr ())"
    and cons: "on_auth (consume (ra_authorization_id (sa_authorization a))
        (ei_intent_hash (sa_intent a)) (pre_portfolio_state_hash (sa_state a))
        (pre_safety_state_hash (sa_state a)) clk) wa = (w1, Inr True)"
    unfolding submit_prepare_def by (auto simp: sbind_Inr split: if_splits)
  note x = LocalOrder_transition_Inr [OF t1]
  show "lo_state x = SUBMISSION_PENDING" and "local_okay x"
    and "lo_updated_at x = Aware (astimezone_utc (sa_now a))"
    using x by (simp_all add: to_state_def)
  show "create_request (sa_intent a) = Inr request" by (rule req)
  have eid: "lo_execution_id x = lo_execution_id x0" by (rule x)
  then have jr: "journal_request a x request = journal_request a x0 request"
    by (simp add: journal_request_def)
  from own have w0: "w0 = w\<lparr>wd_store := fst (acquire_journal dig (journal_request a x request)
      (wd_store w))\<rparr>" and got: "snd (acquire_journal dig (journal_request a x request)
      (wd_store w))"
    unfolding jr by (auto simp: store_claim_def)
  from save have wa: "save_order x (wd_store w0) = Inr (wd_store wa)" and "wd_auth wa = wd_auth w0"
    by (auto simp: on_store_def split: sum.splits)
  then have auth: "wd_auth wa = wd_auth w" by (simp add: w0)
  from cons have w1: "consume (ra_authorization_id (sa_authorization a))
      (ei_intent_hash (sa_intent a)) (pre_portfolio_state_hash (sa_state a))
      (pre_safety_state_hash (sa_state a)) clk (wd_auth wa) = Inr (wd_auth w1, True)"
    and st: "wd_store w1 = wd_store wa"
    by (auto simp: on_auth_def split: sum.splits)
  show "\<exists>st1. acquire_journal dig (journal_request a x request) (wd_store w) = (st1, True) \<and>
      save_order x st1 = Inr (wd_store w1)"
    using got wa by (intro exI [of _ "wd_store w0"]) (auto simp: w0 st prod_eq_iff)
  show "consume (ra_authorization_id (sa_authorization a)) (ei_intent_hash (sa_intent a))
      (pre_portfolio_state_hash (sa_state a)) (pre_safety_state_hash (sa_state a)) clk
      (wd_auth w) = Inr (wd_auth w1, True)"
    using w1 auth by simp
qed

lemma save_order_journals: "save_order x st = Inr st' \<Longrightarrow> xs_journals st' = xs_journals st"
  by (auto simp: save_order_def split: option.splits if_splits)

lemma prepare_claims:
  assumes "store_inv (wd_auth w)" and "submit_prepare dig clk a w = (w1, Inr (x, request))"
  shows "ra_authorization_id (sa_authorization a) \<notin> consumed_ids (wd_auth w)"
    and "consumed_ids (wd_auth w1) =
      insert (ra_authorization_id (sa_authorization a)) (consumed_ids (wd_auth w))"
    and "store_inv (wd_auth w1)"
    and "ei_client_order_id (sa_intent a) \<notin> journaled jr_client_order_id (wd_store w)"
    and "journal_row dig (journal_request a x request) \<in> set (xs_journals (wd_store w1))"
proof -
  note ok = prepare_ok [OF assms(2)]
  show "ra_authorization_id (sa_authorization a) \<notin> consumed_ids (wd_auth w)"
    and "consumed_ids (wd_auth w1) =
      insert (ra_authorization_id (sa_authorization a)) (consumed_ids (wd_auth w))"
    by (rule consume_fresh [OF assms(1) ok(6)])+
  show "store_inv (wd_auth w1)" by (rule store_inv_consume [OF assms(1) ok(6)])
  from ok(5) obtain st1 where
    acq: "acquire_journal dig (journal_request a x request) (wd_store w) = (st1, True)"
    and save: "save_order x st1 = Inr (wd_store w1)" by blast
  show "ei_client_order_id (sa_intent a) \<notin> journaled jr_client_order_id (wd_store w)"
    using journal_client.claim_fresh [OF TrueI acq] by (simp add: journal_request_def)
  have "journal_row dig (journal_request a x request) \<in> set (xs_journals st1)"
    using acq by (auto simp: acquire_journal_def sql_insert_Some split: option.splits)
  then show "journal_row dig (journal_request a x request) \<in> set (xs_journals (wd_store w1))"
    by (simp add: save_order_journals [OF save])
qed

section \<open>No authorization is sent twice\<close>

text \<open>
  A submission that touches the transport has consumed an authorization that was not consumed
  before and has journaled a client order id that was not journaled before.
\<close>

lemma submit_once:
  assumes "store_inv (wd_auth w)" and "submit dig wr clk a w = (w', r)"
  shows "store_inv (wd_auth w')"
    and "wd_net w' = wd_net w \<or>
      (\<exists>w1 x request. submit_guard wr a = Inr () \<and>
         submit_prepare dig clk a w = (w1, Inr (x, request)) \<and>
         submit_send wr a x request w1 = (w', r))"
proof -
  have prep_inv: "keeps (\<lambda>w. store_inv (wd_auth w)) (submit_prepare dig clk a :: ('a World, _) handler)"
    unfolding submit_prepare_def
    by (intro keeps_rules)
      (auto simp: keeps_def on_store_def store_update_def store_claim_def on_auth_def
        split: sum.splits intro: store_inv_consume)
  obtain w1 p where prep: "submit_prepare dig clk a w = (w1, p)" by fastforce
  have inv1: "store_inv (wd_auth w1)" using prep_inv assms(1) prep unfolding keeps_def by fastforce
  have net1: "wd_net w1 = wd_net w"
    using prepare_net [of "wd_net w" dig clk a] prep unfolding keeps_def by fastforce
  have auth2: "wd_auth w2 = wd_auth w1" if "submit_send wr a x request w1 = (w2, r)" for x request w2
    using send_auth [of "wd_auth w1" wr a x request] that unfolding keeps_def by fastforce
  show "store_inv (wd_auth w')"
    using assms prep inv1 auth2
    by (cases "submit_guard wr a"; cases p)
      (auto simp: submit_def sbind_def split: prod.splits sum.splits)
  show "wd_net w' = wd_net w \<or>
      (\<exists>w1 x request. submit_guard wr a = Inr () \<and>
         submit_prepare dig clk a w = (w1, Inr (x, request)) \<and>
         submit_send wr a x request w1 = (w', r))"
    using assms(2) prep net1
    by (cases "submit_guard wr a"; cases p)
      (auto simp: submit_def sbind_def split: prod.splits sum.splits)
qed

lemma submit_consumed:
  assumes "store_inv (wd_auth w)" and "submit dig wr clk a w = (w', r)"
    and "wd_net w' \<noteq> wd_net w"
  shows "ra_authorization_id (sa_authorization a) \<notin> consumed_ids (wd_auth w)"
    and "consumed_ids (wd_auth w') =
      insert (ra_authorization_id (sa_authorization a)) (consumed_ids (wd_auth w))"
    and "ei_client_order_id (sa_intent a) \<notin> journaled jr_client_order_id (wd_store w)"
proof -
  from submit_once(2) [OF assms(1,2)] assms(3) obtain w1 x request where
    prep: "submit_prepare dig clk a w = (w1, Inr (x, request))"
    and send: "submit_send wr a x request w1 = (w', r)" by blast
  have "wd_auth w' = wd_auth w1"
    using send_auth [of "wd_auth w1" wr a x request] send unfolding keeps_def by fastforce
  then show "ra_authorization_id (sa_authorization a) \<notin> consumed_ids (wd_auth w)"
    and "consumed_ids (wd_auth w') =
      insert (ra_authorization_id (sa_authorization a)) (consumed_ids (wd_auth w))"
    and "ei_client_order_id (sa_intent a) \<notin> journaled jr_client_order_id (wd_store w)"
    using prepare_claims [OF assms(1) prep] by simp_all
qed

lemma finite_consumed: "finite (consumed_ids st)"
proof -
  have "consumed_ids st \<subseteq> au_id ` set (st_authorizations st)" by (auto simp: consumed_ids_def)
  then show ?thesis by (rule finite_subset) simp
qed

lemma consume_grows:
  "store_inv s \<Longrightarrow> consume aid ih ph sh clk s = Inr (t, b) \<Longrightarrow> consumed_ids s \<subseteq> consumed_ids t"
  using consume_fresh(2) [of s aid ih ph sh clk t] consume_refused [of s aid ih ph sh clk t]
  by (cases b) auto

text \<open>
  Over any sequence of submissions the transport is used at most once for every authorization
  that the sequence consumes. \<open>cnt\<close> counts the requests a transport has taken.
\<close>

fun submit_all :: "digest_fn \<Rightarrow> 't Wiring \<Rightarrow> (datetime \<times> SubmitArgs) list \<Rightarrow> 't World \<Rightarrow> 't World" where
  "submit_all dig wr [] w = w"
| "submit_all dig wr ((clk, a) # as) w = submit_all dig wr as (fst (submit dig wr clk a w))"

definition one_per_call :: "('t \<Rightarrow> nat) \<Rightarrow> 't Wiring \<Rightarrow> bool" where
  "one_per_call cnt wr \<longleftrightarrow>
     (\<forall>s. wr_demo wr = Some s \<longrightarrow> (\<forall>org q t. cnt (fst (s org q t)) \<le> Suc (cnt t))) \<and>
     (\<forall>s. wr_local wr = Some s \<longrightarrow> (\<forall>q t. cnt (fst (s q t)) \<le> Suc (cnt t)))"

lemma engine_send_total: "\<exists>w1 out. engine_send wr mode q w = (w1, Inr out)"
  by (simp add: engine_send_def split_beta Let_def)

lemma engine_send_cnt:
  assumes "one_per_call cnt wr" and "engine_send wr mode q w = (w', out)"
  shows "cnt (wd_net w') \<le> Suc (cnt (wd_net w))"
proof -
  have "cnt (fst (DemoMutationTransport_send s mode q (wd_net w))) \<le> Suc (cnt (wd_net w))"
    if "wr_demo wr = Some s" for s
    using assms(1) that
    by (auto simp: DemoMutationTransport_send_def validate_origin_def one_per_call_def)
  note demo = this
  show ?thesis
  proof (cases "mode = DEMO")
    case True
    with assms(2) demo show ?thesis
      by (cases "wr_demo wr") (auto simp: engine_send_def split_beta)
  next
    case False
    with assms show ?thesis
      by (cases "wr_local wr") (auto simp: engine_send_def split_beta one_per_call_def)
  qed
qed

lemma submit_send_cnt:
  assumes "one_per_call cnt wr" and "submit_send wr a x q w = (w', r)"
  shows "cnt (wd_net w') \<le> Suc (cnt (wd_net w))"
proof -
  let ?w = "w\<lparr>wd_store := journal_state (lo_execution_id x) ''SEND_STARTED'' True (wd_store w)\<rparr>"
  obtain w1 o1 where send: "engine_send wr (sa_mode a) q ?w = (w1, Inr o1)"
    using engine_send_total by blast
  have keep: "keeps (\<lambda>v. wd_net v = wd_net w1) (case o1 of Ambiguous may \<Rightarrow> submit_ambiguous a x may
       | Raised e \<Rightarrow> sraise e | Reply r \<Rightarrow> submit_reply a x r)"
    unfolding submit_ambiguous_def submit_reply_def persist_def by (intro keeps_rules)
  have "(case o1 of Ambiguous may \<Rightarrow> submit_ambiguous a x may
       | Raised e \<Rightarrow> sraise e | Reply r \<Rightarrow> submit_reply a x r) w1 = (w', r)"
    using assms(2) send by (simp add: submit_send_def store_update_def sbind_def)
  then have "wd_net w' = wd_net w1" using keep unfolding keeps_def by fastforce
  with engine_send_cnt [OF assms(1) send] show ?thesis by simp
qed

lemma keeps_consumed [keeps_rules]:
  "keeps (\<lambda>v. store_inv (wd_auth v) \<and> C \<subseteq> consumed_ids (wd_auth v)) (on_store f)"
  "keeps (\<lambda>v. store_inv (wd_auth v) \<and> C \<subseteq> consumed_ids (wd_auth v)) (store_update g)"
  "keeps (\<lambda>v. store_inv (wd_auth v) \<and> C \<subseteq> consumed_ids (wd_auth v)) (store_claim h)"
  "keeps (\<lambda>v. store_inv (wd_auth v) \<and> C \<subseteq> consumed_ids (wd_auth v)) (engine_send wr mode q)"
  by (auto simp: keeps_def on_store_def store_update_def store_claim_def engine_send_def
      split: sum.splits prod.splits)

lemma keeps_consumed_consume [keeps_rules]:
  "keeps (\<lambda>v. store_inv (wd_auth v) \<and> C \<subseteq> consumed_ids (wd_auth v))
     (on_auth (consume aid ih ph sh clk))"
  unfolding keeps_def on_auth_def
  by (auto split: sum.splits intro: store_inv_consume dest: consume_grows)

lemma submit_cnt:
  assumes "store_inv (wd_auth w)" and "one_per_call cnt wr" and "submit dig wr clk a w = (w', r)"
  shows "cnt (wd_net w') + card (consumed_ids (wd_auth w)) \<le>
    cnt (wd_net w) + card (consumed_ids (wd_auth w'))"
proof (cases "wd_net w' = wd_net w")
  case True
  have "consumed_ids (wd_auth w) \<subseteq> consumed_ids (wd_auth w')"
  proof -
    have "keeps (\<lambda>v. store_inv (wd_auth v) \<and> consumed_ids (wd_auth w) \<subseteq> consumed_ids (wd_auth v))
        (submit dig wr clk a)"
      unfolding submit_def submit_prepare_def submit_send_def submit_ambiguous_def
        submit_reply_def persist_def
      by (intro keeps_rules)
    then show ?thesis using assms(1,3) unfolding keeps_def by fastforce
  qed
  moreover have "finite (consumed_ids (wd_auth w'))" by (rule finite_consumed)
  ultimately show ?thesis using True by (simp add: card_mono)
next
  case False
  from submit_once(2) [OF assms(1,3)] False obtain w1 x request where
    prep: "submit_prepare dig clk a w = (w1, Inr (x, request))"
    and send: "submit_send wr a x request w1 = (w', r)" by blast
  have "wd_net w1 = wd_net w"
    using prepare_net [of "wd_net w" dig clk a] prep unfolding keeps_def by fastforce
  then have "cnt (wd_net w') \<le> Suc (cnt (wd_net w))" using submit_send_cnt [OF assms(2) send] by simp
  then show ?thesis
    using submit_consumed [OF assms(1,3) False] by (simp add: finite_consumed)
qed

lemma submit_all_cnt:
  assumes "store_inv (wd_auth w)" and "one_per_call cnt wr"
  shows "cnt (wd_net (submit_all dig wr as w)) + card (consumed_ids (wd_auth w)) \<le>
    cnt (wd_net w) + card (consumed_ids (wd_auth (submit_all dig wr as w)))"
  using assms(1)
proof (induction as arbitrary: w)
  case Nil
  then show ?case by simp
next
  case (Cons ca as)
  obtain clk a where ca: "ca = (clk, a)" by (cases ca)
  obtain w1 r where s: "submit dig wr clk a w = (w1, r)" by fastforce
  have "store_inv (wd_auth w1)" by (rule submit_once(1) [OF Cons.prems s])
  from Cons.IH [OF this] submit_cnt [OF Cons.prems assms(2) s] show ?case by (simp add: ca s)
qed

section \<open>What may have been sent stays open\<close>

definition journal_says :: "string \<Rightarrow> (string \<Rightarrow> bool \<Rightarrow> bool) \<Rightarrow> ExecutionStore \<Rightarrow> bool" where
  "journal_says eid Q st \<longleftrightarrow> eid \<in> journaled jr_execution_id st \<and>
     (\<forall>j \<in> set (xs_journals st). jr_execution_id j = eid \<longrightarrow>
        Q (jr_state j) (jr_may_have_been_sent j))"

definition open_sent :: "string \<Rightarrow> bool \<Rightarrow> bool" where
  "open_sent s b \<longleftrightarrow> b \<and> s \<notin> set [''RECONCILED'', ''PROVEN_UNSENT'']"

lemma journal_state_says:
  assumes "eid \<in> journaled jr_execution_id st" and "Q s b"
  shows "journal_says eid Q (journal_state eid s b st)"
proof -
  have "journaled jr_execution_id (journal_state eid s b st) = journaled jr_execution_id st"
    using journaled_exec [of "SJournalState eid s b" jr_execution_id undefined st] by simp
  moreover have "Q (jr_state j) (jr_may_have_been_sent j)"
    if "j \<in> set (xs_journals (journal_state eid s b st))" "jr_execution_id j = eid" for j
  proof -
    from that(1) obtain i where "i \<in> set (xs_journals st)" and
      "j = (if jr_execution_id i = eid
        then i\<lparr>jr_state := s, jr_may_have_been_sent := b\<rparr> else i)"
      by (auto simp: journal_state_def sql_update_def)
    with that(2) assms(2) show ?thesis by (cases "jr_execution_id i = eid") simp_all
  qed
  ultimately show ?thesis using assms(1) by (simp add: journal_says_def)
qed

lemma journal_says_frame:
  "xs_journals st' = xs_journals st \<Longrightarrow> journal_says eid Q st' = journal_says eid Q st"
  by (simp add: journal_says_def journaled_def)

lemma keeps_journal [keeps_rules]:
  "keeps (\<lambda>v. journal_says eid Q (wd_store v)) (on_store (save_order y))"
  "keeps (\<lambda>v. journal_says eid Q (wd_store v)) (engine_send wr mode q)"
  by (auto simp: keeps_def on_store_def engine_send_def split: sum.splits prod.splits
      dest: save_order_journals journal_says_frame)

lemma journal_says_journaled: "journal_says eid Q st \<Longrightarrow> eid \<in> journaled jr_execution_id st"
  by (simp add: journal_says_def)

lemma keeps_journal_state:
  "Q s b \<Longrightarrow>
     keeps (\<lambda>v. journal_says eid Q (wd_store v)) (store_update (journal_state eid s b))"
  by (simp add: keeps_def store_update_def journal_state_says journal_says_journaled)

lemma journal_says_mono:
  "journal_says eid Q st \<Longrightarrow> (\<And>s b. Q s b \<Longrightarrow> R s b) \<Longrightarrow> journal_says eid R st"
  by (auto simp: journal_says_def)

lemma to_state_same_id:
  "LocalOrder_transition ta x = Inr y \<Longrightarrow> lo_execution_id y = lo_execution_id x"
  by (rule LocalOrder_transition_Inr)

lemma persist_journal:
  assumes "open_sent js True" and "journal_says (lo_execution_id x) open_sent (wd_store w)"
    and "persist a x ta js w = (w', r)"
  shows "journal_says (lo_execution_id x) open_sent (wd_store w')"
proof (cases "LocalOrder_transition ta x")
  case (Inl e)
  with assms show ?thesis by (simp add: persist_def sbind_def)
next
  case (Inr y)
  have "keeps (\<lambda>v. journal_says (lo_execution_id x) open_sent (wd_store v))
      (sbind (store_update (journal_state (lo_execution_id y) js True)) (\<lambda>_.
       sbind (on_store (save_order y)) (\<lambda>_. sreturn y)) :: ('a World, _) handler)"
    unfolding to_state_same_id [OF Inr]
    by (intro keeps_rules keeps_journal_state assms(1))
  then show ?thesis using assms(2,3) Inr
    unfolding persist_def keeps_def by (fastforce simp: sbind_def [of "sresult _"])
qed

lemma submit_send_journal:
  assumes "lo_execution_id x \<in> journaled jr_execution_id (wd_store w)"
    and "submit_send wr a x q w = (w', r)"
  defines "w0 \<equiv> w\<lparr>wd_store := journal_state (lo_execution_id x) ''SEND_STARTED'' True (wd_store w)\<rparr>"
  shows "snd (engine_send wr (sa_mode a) q w0) = Inr (Ambiguous False) \<or>
    journal_says (lo_execution_id x) open_sent (wd_store w')"
proof -
  let ?says = "\<lambda>v. journal_says (lo_execution_id x) open_sent (wd_store v)"
  obtain w1 out where send: "engine_send wr (sa_mode a) q w0 = (w1, Inr out)"
    using engine_send_total by blast
  have "?says w0" using assms(1) by (simp add: w0_def journal_state_says open_sent_def)
  then have s1: "?says w1" by (rule keepsD [OF keeps_journal(2) _ send])
  have run: "(case out of Ambiguous may \<Rightarrow> submit_ambiguous a x may
       | Raised e \<Rightarrow> sraise e | Reply r \<Rightarrow> submit_reply a x r) w1 = (w', r)"
    using assms(2) send by (simp add: submit_send_def store_update_def sbind_def w0_def)
  show ?thesis
  proof (cases out)
    case (Reply rp)
    with run have "submit_reply a x rp w1 = (w', r)" by simp
    moreover have "open_sent ''RESPONSE_PERSISTED_RECONCILE_REQUIRED'' True"
      "open_sent ''REJECTED'' True" "open_sent ''RESPONSE_UNKNOWN'' True"
      by (simp_all add: open_sent_def)
    ultimately show ?thesis
      using s1 unfolding submit_reply_def by (auto intro: persist_journal split: if_splits)
  next
    case (Raised e)
    with run s1 show ?thesis by simp
  next
    case (Ambiguous may)
    show ?thesis
    proof (cases may)
      case False
      with Ambiguous send show ?thesis by simp
    next
      case True
      have "keeps ?says (submit_ambiguous a x True :: ('a World, _) handler)"
        unfolding submit_ambiguous_def
        by (intro keeps_rules keeps_journal_state) (simp_all add: open_sent_def keeps_rules)
      with run Ambiguous True s1 show ?thesis unfolding keeps_def by fastforce
    qed
  qed
qed

text \<open>
  \<open>honest_unsent\<close>: a transport that reports a request as proven unsent has not taken it.
\<close>

definition honest_unsent :: "('t \<Rightarrow> nat) \<Rightarrow> 't Wiring \<Rightarrow> bool" where
  "honest_unsent cnt wr \<longleftrightarrow>
     (\<forall>s. wr_demo wr = Some s \<longrightarrow> (\<forall>org q t t'. s org q t = (t', Ambiguous False) \<longrightarrow> cnt t' = cnt t)) \<and>
     (\<forall>s. wr_local wr = Some s \<longrightarrow> (\<forall>q t t'. s q t = (t', Ambiguous False) \<longrightarrow> cnt t' = cnt t))"

lemma engine_send_honest:
  assumes "honest_unsent cnt wr" and "engine_send wr mode q w = (w', Inr (Ambiguous False))"
  shows "cnt (wd_net w') = cnt (wd_net w)"
proof (cases "mode = DEMO")
  case True
  with assms show ?thesis
    by (cases "wr_demo wr")
      (auto simp: engine_send_def split_beta honest_unsent_def DemoMutationTransport_send_def
        validate_origin_def split: if_splits, metis prod.collapse)
next
  case False
  with assms show ?thesis
    by (cases "wr_local wr")
      (auto simp: engine_send_def split_beta honest_unsent_def, metis prod.collapse)
qed

lemma submit_send_after:
  assumes "submit_send wr a x q w = (w', r)"
    and "engine_send wr (sa_mode a) q
      (w\<lparr>wd_store := journal_state (lo_execution_id x) ''SEND_STARTED'' True (wd_store w)\<rparr>) = (w1, Inr out)"
  shows "wd_net w' = wd_net w1"
proof -
  have "keeps (\<lambda>v. wd_net v = wd_net w1) (case out of Ambiguous may \<Rightarrow> submit_ambiguous a x may
       | Raised e \<Rightarrow> sraise e | Reply r \<Rightarrow> submit_reply a x r)"
    unfolding submit_ambiguous_def submit_reply_def persist_def by (intro keeps_rules)
  moreover have "(case out of Ambiguous may \<Rightarrow> submit_ambiguous a x may
       | Raised e \<Rightarrow> sraise e | Reply r \<Rightarrow> submit_reply a x r) w1 = (w', r)"
    using assms by (simp add: submit_send_def store_update_def sbind_def)
  ultimately show ?thesis unfolding keeps_def by fastforce
qed

lemma journal_columns_save:
  "keeps (\<lambda>v. map (\<lambda>j. (jr_execution_id j, jr_client_order_id j, jr_authorization_id j))
      (xs_journals (wd_store v)) = cs) (on_store (save_order y))"
  "keeps (\<lambda>v. map (\<lambda>j. (jr_execution_id j, jr_client_order_id j, jr_authorization_id j))
      (xs_journals (wd_store v)) = cs) (store_update (journal_state eid s b))"
  "keeps (\<lambda>v. map (\<lambda>j. (jr_execution_id j, jr_client_order_id j, jr_authorization_id j))
      (xs_journals (wd_store v)) = cs) (engine_send wr mode q)"
  by (auto simp: keeps_def on_store_def store_update_def engine_send_def journal_state_def
      simp del: map_eq_conv split: sum.splits prod.splits dest: save_order_journals)

lemma submit_send_columns:
  assumes "submit_send wr a x request w = (w', r)"
  shows "map (\<lambda>j. (jr_execution_id j, jr_client_order_id j, jr_authorization_id j))
      (xs_journals (wd_store w')) =
    map (\<lambda>j. (jr_execution_id j, jr_client_order_id j, jr_authorization_id j))
      (xs_journals (wd_store w))"
proof -
  have "keeps (\<lambda>v. map (\<lambda>j. (jr_execution_id j, jr_client_order_id j, jr_authorization_id j))
      (xs_journals (wd_store v)) = cs) (submit_send wr a x request)" for cs
    unfolding submit_send_def submit_ambiguous_def submit_reply_def persist_def
    by (intro keeps_rules journal_columns_save)
  from keepsD [OF this refl assms] show ?thesis .
qed

lemma submit_recoverable:
  assumes "store_inv (wd_auth w)" and "honest_unsent cnt wr"
    and "submit dig wr clk a w = (w', r)" and "cnt (wd_net w') \<noteq> cnt (wd_net w)"
  shows "\<exists>j \<in> set (xs_journals (wd_store w')).
    jr_client_order_id j = ei_client_order_id (sa_intent a) \<and>
    jr_authorization_id j = ra_authorization_id (sa_authorization a) \<and>
    jr_may_have_been_sent j \<and> jr_execution_id j \<in> set (snd (recover (wd_store w')))"
proof -
  from submit_once(2) [OF assms(1,3)] assms(4) obtain w1 x request where
    prep: "submit_prepare dig clk a w = (w1, Inr (x, request))"
    and send: "submit_send wr a x request w1 = (w', r)" by force
  let ?w0 = "w1\<lparr>wd_store := journal_state (lo_execution_id x) ''SEND_STARTED'' True (wd_store w1)\<rparr>"
  let ?row = "journal_row dig (journal_request a x request)"
  have row: "?row \<in> set (xs_journals (wd_store w1))" by (rule prepare_claims(5) [OF assms(1) prep])
  then have jrn: "lo_execution_id x \<in> journaled jr_execution_id (wd_store w1)"
    by (force simp: journaled_def journal_row_def journal_request_def)
  have net: "wd_net w1 = wd_net w"
    using prepare_net [of "wd_net w" dig clk a] prep unfolding keeps_def by fastforce
  obtain w2 out where es: "engine_send wr (sa_mode a) request ?w0 = (w2, Inr out)"
    using engine_send_total by blast
  have "out \<noteq> Ambiguous False"
  proof
    assume "out = Ambiguous False"
    with engine_send_honest [OF assms(2)] es have "cnt (wd_net w2) = cnt (wd_net w1)" by fastforce
    with submit_send_after [OF send es] net assms(4) show False by simp
  qed
  with submit_send_journal [OF jrn send] es
  have says: "journal_says (lo_execution_id x) open_sent (wd_store w')" by simp
  have cols: "map (\<lambda>j. (jr_execution_id j, jr_client_order_id j, jr_authorization_id j))
      (xs_journals (wd_store w')) =
    map (\<lambda>j. (jr_execution_id j, jr_client_order_id j, jr_authorization_id j))
      (xs_journals (wd_store w1))"
    by (rule submit_send_columns [OF send])
  from row have "(jr_execution_id ?row, jr_client_order_id ?row, jr_authorization_id ?row) \<in>
      set (map (\<lambda>j. (jr_execution_id j, jr_client_order_id j, jr_authorization_id j))
        (xs_journals (wd_store w1)))" by force
  then obtain j where j: "j \<in> set (xs_journals (wd_store w'))"
    "jr_execution_id j = lo_execution_id x"
    "jr_client_order_id j = ei_client_order_id (sa_intent a)"
    "jr_authorization_id j = ra_authorization_id (sa_authorization a)"
    unfolding cols [symmetric] by (auto simp: journal_row_def journal_request_def)
  with says have "open_sent (jr_state j) (jr_may_have_been_sent j)"
    by (simp add: journal_says_def)
  then have "incomplete j" and "jr_may_have_been_sent j"
    by (simp_all add: open_sent_def incomplete_def)
  with j(1) have "jr_execution_id j \<in> set (snd (recover (wd_store w')))"
    unfolding demo_recovery.recovery_reports open_executions_def by blast
  with j \<open>jr_may_have_been_sent j\<close> show ?thesis by blast
qed

section \<open>What a returned order says\<close>

lemma save_order_row:
  assumes "save_order y st = Inr st'"
  shows "\<exists>row \<in> set (xs_orders st'). lo_execution_id row = lo_execution_id y \<and>
    lo_state row = lo_state y \<and>
    lo_reconciliation_required row = lo_reconciliation_required y \<and>
    lo_filled_quantity row = lo_filled_quantity y"
proof (cases "sql_find (\<lambda>r. Some (lo_execution_id r) = Some (lo_execution_id y)) (xs_orders st)")
  case None
  with assms show ?thesis
    by (auto simp: save_order_def sql_insert_Some split: option.splits)
next
  case (Some old)
  then have old: "old \<in> set (xs_orders st)" "lo_execution_id old = lo_execution_id y"
    by (auto dest: sql_find_Some)
  from assms Some have up: "xs_orders st' = sql_update (\<lambda>r. lo_execution_id r = lo_execution_id y)
      (upsert_row y) (xs_orders st)"
    by (auto simp: save_order_def split: if_splits)
  have "upsert_row y old \<in> set (xs_orders st')" unfolding up using old by (auto simp: set_sql_update)
  then show ?thesis using old(2) by (intro bexI [of _ "upsert_row y old"]) (simp_all add: upsert_row_def)
qed

lemma persist_Inr:
  assumes "persist a x ta js w = (w', Inr y)"
  shows "LocalOrder_transition ta x = Inr y"
    and "\<exists>st. save_order y st = Inr (wd_store w')"
  using assms
  by (auto simp: persist_def sbind_Inr on_store_def store_update_def split: sum.splits)

lemma submit_reply_Inr:
  assumes "submit_reply a x rp w = (w', Inr y)"
  shows "lo_state y \<in> {ACCEPTED, REJECTED, UNKNOWN_RECONCILIATION_REQUIRED} \<and>
    lo_reconciliation_required y \<and> local_okay y \<and> lo_quantity y = lo_quantity x \<and>
    (\<exists>st. save_order y st = Inr (wd_store w'))"
proof -
  from assms obtain ta js where p: "persist a x ta js w = (w', Inr y)" and
    ta: "ta_target ta \<in> {ACCEPTED, REJECTED, UNKNOWN_RECONCILIATION_REQUIRED}" "\<not> ta_reconciled ta"
    unfolding submit_reply_def
    by (auto simp: to_state_def split: if_splits intro: that)
  note t = LocalOrder_transition_Inr [OF persist_Inr(1) [OF p]]
  from t ta persist_Inr(2) [OF p] show ?thesis by simp
qed

lemma submit_ambiguous_raises: "submit_ambiguous a x may w \<noteq> (w', Inr y)"
  by (cases may) (simp_all add: submit_ambiguous_def sbind_Inr)

lemma submit_returns:
  assumes "submit dig wr clk a w = (w', Inr y)"
  shows "lo_state y \<in> {ACCEPTED, REJECTED, UNKNOWN_RECONCILIATION_REQUIRED}"
    and "lo_reconciliation_required y" and "local_okay y"
    and "\<exists>row \<in> set (xs_orders (wd_store w')). lo_execution_id row = lo_execution_id y \<and>
      lo_state row = lo_state y \<and> lo_reconciliation_required row"
proof -
  from assms obtain w1 x request where "submit_send wr a x request w1 = (w', Inr y)"
    by (auto simp: submit_def sbind_Inr)
  then obtain w2 out where out: "(case out of Ambiguous may \<Rightarrow> submit_ambiguous a x may
       | Raised e \<Rightarrow> sraise e | Reply r \<Rightarrow> submit_reply a x r) w2 = (w', Inr y)"
    unfolding submit_send_def sbind_Inr by blast
  then obtain rp where "submit_reply a x rp w2 = (w', Inr y)"
    by (cases out) (simp_all add: submit_ambiguous_raises)
  note r = submit_reply_Inr [OF this]
  then show "lo_state y \<in> {ACCEPTED, REJECTED, UNKNOWN_RECONCILIATION_REQUIRED}"
    and "lo_reconciliation_required y" and "local_okay y" by blast+
  from r obtain st where "save_order y st = Inr (wd_store w')" by blast
  from save_order_row [OF this] r
  show "\<exists>row \<in> set (xs_orders (wd_store w')). lo_execution_id row = lo_execution_id y \<and>
      lo_state row = lo_state y \<and> lo_reconciliation_required row" by metis
qed

section \<open>Mutations\<close>

text \<open>A terminal order is never mutated: the transport is not touched and the call fails.\<close>

lemma mutate_request_Inr:
  assumes "mutate_request a = Inr (q, pending)"
  shows "pending \<in> {CANCELLATION_PENDING, AMENDMENT_PENDING, DECREASE_PENDING}"
    and "PreSendState_valid (ma_state a)" and "\<not> lo_reconciliation_required (ma_order a)"
    and "lo_exchange_order_id (ma_order a) \<noteq> None" and "mr_subaccount q = 0"
proof -
  have "mr_subaccount q = 0 \<and> pending \<in> {CANCELLATION_PENDING, AMENDMENT_PENDING, DECREASE_PENDING}"
    using assms
    by (cases "ma_kind a")
      (auto simp: mutate_request_def Let_def rbind_eq_Inr requests_subaccount
        split: if_splits option.splits)
  then show "pending \<in> {CANCELLATION_PENDING, AMENDMENT_PENDING, DECREASE_PENDING}"
    and "mr_subaccount q = 0" by simp_all
  show "PreSendState_valid (ma_state a)" and "\<not> lo_reconciliation_required (ma_order a)"
    and "lo_exchange_order_id (ma_order a) \<noteq> None"
    using assms by (auto simp: mutate_request_def split: if_splits)
qed

definition mutable_states :: "OrderState list" where
  "mutable_states = [ACCEPTED, PARTIALLY_FILLED]"

lemma pending_edge:
  "pending \<in> {CANCELLATION_PENDING, AMENDMENT_PENDING, DECREASE_PENDING} \<Longrightarrow>
     pending \<in> set (TRANSITIONS s) \<Longrightarrow> s \<in> set mutable_states"
  by (cases s) (auto simp: mutable_states_def)

text \<open>What the mutation table identifies a mutation by.\<close>

definition mutation_ident :: "MutationRow \<Rightarrow> string \<times> MutationKind \<times> string \<times> string \<times> string" where
  "mutation_ident m = (mu_execution_id m, mu_kind m, mu_method m, mu_path m, mu_body_hash m)"

definition journaled_mutations ::
    "ExecutionStore \<Rightarrow> (string \<times> MutationKind \<times> string \<times> string \<times> string) set" where
  "journaled_mutations st = mutation_ident ` set (xs_mutations st)"

lemma mutation_state_journaled [simp]:
  "journaled_mutations (mutation_state i s b st) = journaled_mutations st"
proof -
  have "map mutation_ident (xs_mutations (mutation_state i s b st)) = map mutation_ident (xs_mutations st)"
    by (simp add: mutation_state_def sql_update_def mutation_ident_def)
  from arg_cong [OF this, of set] show ?thesis by (simp add: journaled_mutations_def)
qed

lemma save_order_mutations: "save_order x st = Inr st' \<Longrightarrow> xs_mutations st' = xs_mutations st"
  by (auto simp: save_order_def split: option.splits if_splits)

lemma record_lineage_mutations:
  "record_lineage i j e t st = Inr st' \<Longrightarrow> xs_mutations st' = xs_mutations st"
  by (auto simp: record_lineage_def split: option.splits if_splits)

lemma keeps_on_store:
  "(\<And>st st'. P st \<Longrightarrow> f st = Inr st' \<Longrightarrow> P st') \<Longrightarrow> keeps (\<lambda>v. P (wd_store v)) (on_store f)"
  by (auto simp: keeps_def on_store_def split: sum.splits)

lemma keeps_journaled [keeps_rules]:
  "keeps (\<lambda>v. k \<in> journaled_mutations (wd_store v)) (store_update (mutation_state i s b))"
  "keeps (\<lambda>v. k \<in> journaled_mutations (wd_store v)) (on_store (save_order x))"
  "keeps (\<lambda>v. k \<in> journaled_mutations (wd_store v)) (on_store (record_lineage c d e t))"
  "keeps (\<lambda>v. k \<in> journaled_mutations (wd_store v)) (engine_send wr mode q)"
proof -
  show "keeps (\<lambda>v. k \<in> journaled_mutations (wd_store v)) (store_update (mutation_state i s b))"
    by (simp add: keeps_def store_update_def)
  show "keeps (\<lambda>v. k \<in> journaled_mutations (wd_store v)) (on_store (save_order x))"
    by (rule keeps_on_store) (simp add: journaled_mutations_def save_order_mutations)
  show "keeps (\<lambda>v. k \<in> journaled_mutations (wd_store v)) (on_store (record_lineage c d e t))"
    by (rule keeps_on_store) (simp add: journaled_mutations_def record_lineage_mutations)
  show "keeps (\<lambda>v. k \<in> journaled_mutations (wd_store v)) (engine_send wr mode q)"
    by (simp add: keeps_def engine_send_def Let_def split_beta)
qed

lemma keeps_mutate_reply:
  assumes "\<And>i s b. keeps P (store_update (mutation_state i s b))"
    and "\<And>x. keeps P (on_store (save_order x))" and "\<And>c d e t. keeps P (on_store (record_lineage c d e t))"
  shows "keeps P (mutate_unknown a x)" and "keeps P (mutate_reply a aid x r)"
proof -
  have "keeps P (case (k, n) of
       (M_AMEND, Some cid) \<Rightarrow> on_store (record_lineage (lo_client_order_id (ma_order a)) cid
          (lo_execution_id (ma_order a)) (ma_now a))
     | _ \<Rightarrow> sreturn ())" for k n
    by (cases k; cases n) (simp_all add: assms(3) keeps_rules)
  note this [keeps_rules] this [simplified prod.case, keeps_rules]
  show "keeps P (mutate_reply a aid x r)"
    unfolding mutate_reply_def by (intro keeps_rules assms)
  show "keeps P (mutate_unknown a x)" unfolding mutate_unknown_def by (intro keeps_rules assms)
qed

lemma acquire_journaled:
  assumes "acquire_mutation dig eid k q now st = (st', Some aid)"
  shows "(eid, k, mr_method q, mr_path q, dig (body_json (mr_body q))) \<in> journaled_mutations st'"
  using assms
  by (auto simp: acquire_mutation_def Let_def sql_insert_Some journaled_mutations_def
      mutation_ident_def split: option.splits)

lemma engine_send_net:
  "wd_net v = wd_net w \<Longrightarrow>
     wd_net (fst (engine_send wr mode q v)) = wd_net (fst (engine_send wr mode q w))"
  by (auto simp: engine_send_def Let_def split_beta split: option.split)

text \<open>After the request is sent the network is not touched again, and what was journaled stays.\<close>

lemma mutate_send_ok:
  assumes "mutate_send wr a aid x q w = (w', r)" and "k \<in> journaled_mutations (wd_store w)"
  shows "wd_net w' = wd_net (fst (engine_send wr (lo_environment (ma_order a)) q w))"
    and "k \<in> journaled_mutations (wd_store w')"
proof -
  have "keeps (\<lambda>v. k \<in> journaled_mutations (wd_store v)) (mutate_send wr a aid x q)"
    unfolding mutate_send_def by (intro keeps_rules keeps_mutate_reply)
  from keepsD [OF this assms(2,1)] show "k \<in> journaled_mutations (wd_store w')" .
  let ?w = "w\<lparr>wd_store := mutation_state aid ''SEND_STARTED'' True (wd_store w)\<rparr>"
  obtain w1 out where send: "engine_send wr (lo_environment (ma_order a)) q ?w = (w1, Inr out)"
    using engine_send_total by blast
  have "keeps (\<lambda>v. wd_net v = wd_net w1) (case out of
         Ambiguous may \<Rightarrow>
           sbind (store_update (mutation_state aid
             (if \<not> may then ''PROVEN_UNSENT'' else ''RESPONSE_UNKNOWN'') may)) (\<lambda>_.
           if \<not> may then sraise (AmbiguousMutation may) else mutate_unknown a x)
       | Raised e \<Rightarrow> sraise e
       | Reply r \<Rightarrow> mutate_reply a aid x r)"
    by (intro keeps_rules keeps_mutate_reply)
  moreover have "(case out of
         Ambiguous may \<Rightarrow>
           sbind (store_update (mutation_state aid
             (if \<not> may then ''PROVEN_UNSENT'' else ''RESPONSE_UNKNOWN'') may)) (\<lambda>_.
           if \<not> may then sraise (AmbiguousMutation may) else mutate_unknown a x)
       | Raised e \<Rightarrow> sraise e
       | Reply r \<Rightarrow> mutate_reply a aid x r) w1 = (w', r)"
    using assms(1) send by (simp add: mutate_send_def store_update_def sbind_def)
  ultimately have "wd_net w' = wd_net w1"
    using keepsD [of "\<lambda>v. wd_net v = wd_net w1" _ w1 w' r] by simp
  with send engine_send_net [of ?w w wr "lo_environment (ma_order a)" q]
  show "wd_net w' = wd_net (fst (engine_send wr (lo_environment (ma_order a)) q w))" by simp
qed

lemma mutate_net:
  assumes "mutate dig wr a w = (w', r)" and "wd_net w' \<noteq> wd_net w"
  shows "\<exists>q pending x. mutate_request a = Inr (q, pending) \<and>
    snd (acquire_mutation dig (lo_execution_id (ma_order a)) (ma_kind a) q (ma_now a) (wd_store w))
      \<noteq> None \<and>
    LocalOrder_transition (to_state pending (ma_now a)) (ma_order a) = Inr x \<and>
    wd_net w' = wd_net (fst (engine_send wr (lo_environment (ma_order a)) q w)) \<and>
    (lo_execution_id (ma_order a), ma_kind a, mr_method q, mr_path q, dig (body_json (mr_body q)))
      \<in> journaled_mutations (wd_store w')"
proof -
  let ?o = "ma_order a"
  from assms obtain q pending where req: "mutate_request a = Inr (q, pending)"
    by (cases "mutate_request a") (auto simp: mutate_def sbind_def)
  obtain st1 got where acq: "acquire_mutation dig (lo_execution_id ?o) (ma_kind a) q (ma_now a)
      (wd_store w) = (st1, got)" by fastforce
  from assms req acq obtain aid where got: "got = Some aid"
    by (cases got) (auto simp: mutate_def sbind_def store_claim_def)
  from assms req acq got obtain x where
    tr: "LocalOrder_transition (to_state pending (ma_now a)) ?o = Inr x"
    by (cases "LocalOrder_transition (to_state pending (ma_now a)) ?o")
      (auto simp: mutate_def sbind_def store_claim_def)
  from assms req acq got tr obtain st2 where save: "save_order x st1 = Inr st2"
    by (cases "save_order x st1") (auto simp: mutate_def sbind_def store_claim_def on_store_def)
  let ?w = "w\<lparr>wd_store := st2\<rparr>"
  have send: "mutate_send wr a aid x q ?w = (w', r)"
    using assms(1) req acq got tr save
    by (simp add: mutate_def sbind_def store_claim_def on_store_def)
  have "(lo_execution_id ?o, ma_kind a, mr_method q, mr_path q, dig (body_json (mr_body q)))
      \<in> journaled_mutations (wd_store ?w)"
    using acquire_journaled [OF acq [unfolded got]] save_order_mutations [OF save]
    by (simp add: journaled_mutations_def)
  from mutate_send_ok [OF send this] engine_send_net [of ?w w] req acq got tr
  show ?thesis by (intro exI [of _ q] exI [of _ pending] exI [of _ x]) simp
qed

lemma mutate_only_open_orders:
  assumes "mutate dig wr a w = (w', r)" and "wd_net w' \<noteq> wd_net w"
  shows "lo_state (ma_order a) \<in> set mutable_states" and "PreSendState_valid (ma_state a)"
    and "\<not> lo_reconciliation_required (ma_order a)"
    and "\<exists>q pending. mutate_request a = Inr (q, pending) \<and>
      wd_net w' = wd_net (fst (engine_send wr (lo_environment (ma_order a)) q w)) \<and>
      mutation_key dig (lo_execution_id (ma_order a), ma_kind a, q, ma_now a) \<notin> attempted (wd_store w) \<and>
      (lo_execution_id (ma_order a), ma_kind a, mr_method q, mr_path q, dig (body_json (mr_body q)))
        \<in> journaled_mutations (wd_store w')"
proof -
  from mutate_net [OF assms] obtain q pending x where req: "mutate_request a = Inr (q, pending)"
    and acq: "snd (acquire_mutation dig (lo_execution_id (ma_order a)) (ma_kind a) q (ma_now a)
      (wd_store w)) \<noteq> None"
    and tr: "LocalOrder_transition (to_state pending (ma_now a)) (ma_order a) = Inr x"
    and net: "wd_net w' = wd_net (fst (engine_send wr (lo_environment (ma_order a)) q w))"
    and row: "(lo_execution_id (ma_order a), ma_kind a, mr_method q, mr_path q,
      dig (body_json (mr_body q))) \<in> journaled_mutations (wd_store w')" by blast
  note rq = mutate_request_Inr [OF req]
  have "pending \<in> set (TRANSITIONS (lo_state (ma_order a)))"
    using LocalOrder_transition_Inr(2) [OF tr] by (simp add: to_state_def)
  with rq(1) show "lo_state (ma_order a) \<in> set mutable_states" by (rule pending_edge)
  show "PreSendState_valid (ma_state a)" and "\<not> lo_reconciliation_required (ma_order a)"
    by (rule rq)+
  have "try_mutation dig (lo_execution_id (ma_order a), ma_kind a, q, ma_now a) (wd_store w) =
      (fst (try_mutation dig (lo_execution_id (ma_order a), ma_kind a, q, ma_now a) (wd_store w)), True)"
    using acq by (simp add: map_prod_def split_beta)
  from try_mutation_claim(1) [OF this] req net row show "\<exists>q pending. mutate_request a = Inr (q, pending) \<and>
      wd_net w' = wd_net (fst (engine_send wr (lo_environment (ma_order a)) q w)) \<and>
      mutation_key dig (lo_execution_id (ma_order a), ma_kind a, q, ma_now a) \<notin> attempted (wd_store w) \<and>
      (lo_execution_id (ma_order a), ma_kind a, mr_method q, mr_path q, dig (body_json (mr_body q)))
        \<in> journaled_mutations (wd_store w')" by blast
qed

end
