(* ===== verification/Demo_Properties.thy ===== *)
theory Demo_Properties
  imports Demo_Engine_Inv Risk_Properties
begin

text \<open>
  The properties of the non-production execution service. The sample world runs the scripted
  exchange of \<open>faults.py\<close> behind both transports and an authorization issued by the risk engine.
\<close>

section \<open>Sample values\<close>

definition sample_order_intent :: ExecutionIntent where
  "sample_order_intent = \<lparr>ei_intent_hash = ''ih'', ei_ticker = ''M'',
     ei_client_order_id = ''kalsh3-v1-00000001'', ei_outcome_side = ''YES'', ei_book_side = ''BID'',
     ei_price = 1/2, ei_quantity = 2, ei_time_in_force = ''good_till_canceled'',
     ei_expiration_time = None, ei_post_only = True, ei_cancel_order_on_pause = True,
     ei_reduce_only = False, ei_self_trade_prevention_type = ''taker_at_cross'',
     ei_order_group_id = None, ei_exchange_index = None, ei_subaccount = 0\<rparr>"

definition sample_local_order :: LocalOrder where
  "sample_local_order = \<lparr>lo_execution_id = ''exec-1'', lo_client_order_id = ''kalsh3-v1-00000001'',
     lo_environment = PAPER, lo_intent_hash = ''ih'', lo_ticker = ''M'', lo_outcome_side = ''YES'',
     lo_price = 1/2, lo_quantity = 2, lo_filled_quantity = 0, lo_fees = 0, lo_state = ACCEPTED,
     lo_updated_at = Aware 0, lo_exchange_order_id = Some ''x1'',
     lo_reconciliation_required = False, lo_production_influence = ''NONE''\<rparr>"

definition sample_fill :: "string \<Rightarrow> decimal \<Rightarrow> FillEvent" where
  "sample_fill t q = \<lparr>fe_trade_id = t, fe_order_id = ''x1'', fe_ticker = ''M'', fe_price = 1/2,
     fe_quantity = q, fe_fee = 1/100, fe_is_taker = True, fe_outcome_side = ''YES'',
     fe_matching_time = Aware 0, fe_subaccount = 0\<rparr>"

definition sample_presend :: PreSendState where
  "sample_presend = \<lparr>pre_safety_state_hash = ''sh'', pre_portfolio_state_hash = ''ph'',
     pre_global_halt_clear = True, pre_compliance_clear = True, pre_kill_states_clear = True,
     pre_reconciliation_fresh = True, pre_market_rules_valid = True\<rparr>"

definition sample_wiring :: "FaultExchange Wiring" where
  "sample_wiring = \<lparr>wr_demo = Some FaultExchange_call,
     wr_local = Some (FaultExchange_call ''local'')\<rparr>"

definition sample_world :: "Fault list \<Rightarrow> FaultExchange World" where
  "sample_world faults = \<lparr>wd_store = empty_store, wd_auth = sample_issued,
     wd_net = \<lparr>fx_script = faults, fx_sent = []\<rparr>\<rparr>"

definition sample_authorization :: RiskAuthorization where
  "sample_authorization = authorization_of (authorization_row sample_digest sample_request 1)"

definition sample_submit :: SubmitArgs where
  "sample_submit = \<lparr>sa_mode = DEMO, sa_intent = sample_order_intent,
     sa_authorization = sample_authorization, sa_state = sample_presend, sa_now = Aware 2\<rparr>"

definition sample_cancel :: MutateArgs where
  "sample_cancel = \<lparr>ma_order = sample_local_order, ma_kind = M_CANCEL, ma_state = sample_presend,
     ma_now = Aware 2, ma_reduce_by = None, ma_reduce_to = None, ma_replacement_intent = None,
     ma_authorized_intent_hash = None, ma_new_client_order_id = None\<rparr>"

abbreviation sent :: "FaultExchange \<Rightarrow> nat" where
  "sent x \<equiv> length (fx_sent x)"

lemma sample_wiring_one: "one_per_call sent sample_wiring"
proof -
  have "sent (fst (FaultExchange_call org q t)) \<le> Suc (sent t)" for org q t
    by (cases "FaultExchange_call org q t")
      (auto dest: FaultExchange_sent split: send_outcome.splits)
  then show ?thesis by (simp add: one_per_call_def sample_wiring_def)
qed

lemma sample_wiring_honest: "honest_unsent sent sample_wiring"
  by (auto simp: honest_unsent_def sample_wiring_def dest: FaultExchange_sent)

lemma sample_world_inv: "store_inv (wd_auth (sample_world faults))"
  using auth_reachable_inv [OF sample_issued_reachable] by (simp add: sample_world_def)

section \<open>Submission\<close>

text \<open>C1. An authorization pays for at most one order: over any sequence of submissions the number
  of requests that reach the exchange grows by no more than the number of authorizations consumed,
  retries, duplicates and every kind of transport failure included.\<close>

theorem orders_sent_are_paid_for:
  assumes "auth_reachable P dig' (wd_auth w)" and "one_per_call cnt wr"
  shows "cnt (wd_net (submit_all dig wr calls w)) + card (consumed_ids (wd_auth w)) \<le>
    cnt (wd_net w) + card (consumed_ids (wd_auth (submit_all dig wr calls w)))"
  by (rule submit_all_cnt [OF auth_reachable_inv [OF assms(1)] assms(2)])

theorem orders_sent_are_paid_for_witness:
  "sent (wd_net (submit_all sample_digest sample_wiring
       [(Aware 2, sample_submit), (Aware 3, sample_submit)] (sample_world [F_ACCEPT, F_ACCEPT]))) = 1 \<and>
   1 + card (consumed_ids (wd_auth (sample_world [F_ACCEPT, F_ACCEPT]))) \<le>
     card (consumed_ids (wd_auth (submit_all sample_digest sample_wiring
       [(Aware 2, sample_submit), (Aware 3, sample_submit)] (sample_world [F_ACCEPT, F_ACCEPT]))))"
proof -
  let ?w = "sample_world [F_ACCEPT, F_ACCEPT]"
  let ?cs = "[(Aware 2, sample_submit), (Aware 3, sample_submit)]"
  have "auth_reachable sound_request sample_digest (wd_auth ?w)"
    by (simp add: sample_world_def sample_issued_reachable)
  from orders_sent_are_paid_for [OF this sample_wiring_one, of sample_digest ?cs]
  have "sent (wd_net (submit_all sample_digest sample_wiring ?cs ?w)) + card (consumed_ids (wd_auth ?w)) \<le>
      card (consumed_ids (wd_auth (submit_all sample_digest sample_wiring ?cs ?w)))"
    by (simp add: sample_world_def)
  moreover have "sent (wd_net (submit_all sample_digest sample_wiring ?cs ?w)) = 1"
    by code_simp
  ultimately show ?thesis by simp
qed

text \<open>C5. No order is lost in a crash: when the exchange may have received the request of a
  submission, whatever \<open>submit\<close> returned or raised, its journal row is durable, is marked as
  possibly sent under the right client order id and authorization, and recovery reports it.\<close>

theorem sent_order_is_recovered:
  assumes "auth_reachable P dig' (wd_auth w)" and "honest_unsent cnt wr"
    and "submit dig wr clk a w = (w', r)" and "cnt (wd_net w') \<noteq> cnt (wd_net w)"
  shows "\<exists>j \<in> set (xs_journals (wd_store w')).
    jr_client_order_id j = ei_client_order_id (sa_intent a) \<and>
    jr_authorization_id j = ra_authorization_id (sa_authorization a) \<and>
    jr_may_have_been_sent j \<and> jr_execution_id j \<in> set (snd (recover (wd_store w')))"
  by (rule submit_recoverable [OF auth_reachable_inv [OF assms(1)] assms(2-4)])

theorem sent_order_is_recovered_witness:
  "\<exists>j \<in> set (xs_journals (wd_store (fst (submit sample_digest sample_wiring (Aware 2) sample_submit
       (sample_world [F_TIMEOUT_AFTER_SEND]))))).
     jr_client_order_id j = ''kalsh3-v1-00000001'' \<and> jr_may_have_been_sent j"
proof -
  let ?w = "sample_world [F_TIMEOUT_AFTER_SEND]"
  let ?o = "submit sample_digest sample_wiring (Aware 2) sample_submit ?w"
  have reach: "auth_reachable sound_request sample_digest (wd_auth ?w)"
    by (simp add: sample_world_def sample_issued_reachable)
  have "sent (wd_net (fst ?o)) = 1" by code_simp
  then have "sent (wd_net (fst ?o)) \<noteq> sent (wd_net ?w)" by (simp add: sample_world_def)
  from sent_order_is_recovered [OF reach sample_wiring_honest, of sample_digest "Aware 2"
      sample_submit "fst ?o" "snd ?o", OF _ this]
  show ?thesis by (auto simp: sample_submit_def sample_order_intent_def)
qed

text \<open>What \<open>submit\<close> returns is never taken for final: the order it returns was accepted,
  rejected or is unknown, keeps its exact accounting, demands reconciliation, and is the row the
  store holds.\<close>

theorem submitted_order_requires_reconciliation:
  assumes "submit dig wr clk a w = (w', Inr y)"
  shows "lo_state y \<in> {ACCEPTED, REJECTED, UNKNOWN_RECONCILIATION_REQUIRED} \<and>
    lo_reconciliation_required y \<and> local_okay y \<and>
    (\<exists>row \<in> set (xs_orders (wd_store w')). lo_execution_id row = lo_execution_id y \<and>
      lo_state row = lo_state y \<and> lo_reconciliation_required row)"
  using submit_returns [OF assms] by blast

theorem submitted_order_requires_reconciliation_witness:
  "\<exists>y. snd (submit sample_digest sample_wiring (Aware 2) sample_submit (sample_world [F_ACCEPT])) =
     Inr y \<and> lo_reconciliation_required y"
proof -
  let ?o = "submit sample_digest sample_wiring (Aware 2) sample_submit (sample_world [F_ACCEPT])"
  have "is_ok (snd ?o)" by code_simp
  then obtain y where y: "snd ?o = Inr y" by (cases "snd ?o") auto
  then have "?o = (fst ?o, Inr y)" by (metis prod.collapse)
  from submitted_order_requires_reconciliation [OF this] y show ?thesis by blast
qed

text \<open>The submission journal owns each authorization and each client order id once: over any
  interleaving with the other operations of the store, the claims that succeed have pairwise
  different authorization ids and pairwise different client order ids.\<close>

theorem journal_claims_are_exclusive:
  "distinct (map jq_authorization_id
      (fst (claim_run (acquire_journal dig) (other_than_journal dig) events empty_store))) \<and>
   distinct (map jq_client_order_id
      (fst (claim_run (acquire_journal dig) (other_than_journal dig) events empty_store)))"
  using journal_authorization.run_grants [OF TrueI] journal_client.run_grants [OF TrueI]
  by (metis prod.collapse)

section \<open>Mutation\<close>

text \<open>C31. A mutation reaches the exchange only for an open order: it was accepted or partially
  filled and reconciled, and the safety state was valid. Whatever \<open>mutate\<close> returned or raised, the
  exchange received exactly one send of the request built from the arguments; that request, by its
  body and kind, had not been attempted for the order before; and it is durable in the mutation
  journal with its method, path and body hash.\<close>

theorem mutation_reaches_only_open_orders:
  assumes "mutate dig wr a w = (w', r)" and "wd_net w' \<noteq> wd_net w"
  shows "(lo_state (ma_order a) = ACCEPTED \<or> lo_state (ma_order a) = PARTIALLY_FILLED) \<and>
    PreSendState_valid (ma_state a) \<and> \<not> lo_reconciliation_required (ma_order a) \<and>
    (\<exists>request pending. mutate_request a = Inr (request, pending) \<and>
       wd_net w' = wd_net (fst (engine_send wr (lo_environment (ma_order a)) request w)) \<and>
       (\<forall>m \<in> set (xs_mutations (wd_store w)).
          \<not> (mu_execution_id m = lo_execution_id (ma_order a) \<and> mu_kind m = ma_kind a \<and>
             mu_body_hash m = dig (body_json (mr_body request)))) \<and>
       (\<exists>m \<in> set (xs_mutations (wd_store w')).
          mu_execution_id m = lo_execution_id (ma_order a) \<and> mu_kind m = ma_kind a \<and>
          mu_method m = mr_method request \<and> mu_path m = mr_path request \<and>
          mu_body_hash m = dig (body_json (mr_body request))))"
proof -
  note m = mutate_only_open_orders [OF assms]
  from m(4) obtain q pending where q: "mutate_request a = Inr (q, pending)"
      "wd_net w' = wd_net (fst (engine_send wr (lo_environment (ma_order a)) q w))"
    and fresh: "mutation_key dig (lo_execution_id (ma_order a), ma_kind a, q, ma_now a)
      \<notin> attempted (wd_store w)"
    and row: "(lo_execution_id (ma_order a), ma_kind a, mr_method q, mr_path q,
      dig (body_json (mr_body q))) \<in> journaled_mutations (wd_store w')" by blast
  from fresh have f: "\<forall>m \<in> set (xs_mutations (wd_store w)).
      \<not> (mu_execution_id m = lo_execution_id (ma_order a) \<and> mu_kind m = ma_kind a \<and>
         mu_body_hash m = dig (body_json (mr_body q)))"
    by (force simp: attempted_def)
  from row have "\<exists>m \<in> set (xs_mutations (wd_store w')).
      mu_execution_id m = lo_execution_id (ma_order a) \<and> mu_kind m = ma_kind a \<and>
      mu_method m = mr_method q \<and> mu_path m = mr_path q \<and>
      mu_body_hash m = dig (body_json (mr_body q))"
    by (auto simp: journaled_mutations_def mutation_ident_def)
  with q f m(1-3) show ?thesis by (auto simp: mutable_states_def)
qed

theorem mutation_reaches_only_open_orders_witness:
  "PreSendState_valid (ma_state sample_cancel) \<and>
   sent (wd_net (fst (mutate sample_digest sample_wiring sample_cancel (sample_world [F_ACCEPT])))) = 1"
proof -
  let ?w = "sample_world [F_ACCEPT]"
  let ?o = "mutate sample_digest sample_wiring sample_cancel ?w"
  have one: "sent (wd_net (fst ?o)) = 1" by code_simp
  then have "wd_net (fst ?o) \<noteq> wd_net ?w" by (auto simp: sample_world_def)
  from mutation_reaches_only_open_orders [of sample_digest sample_wiring sample_cancel ?w "fst ?o"
      "snd ?o", OF _ this] one
  show ?thesis by simp
qed

section \<open>The execution store\<close>

text \<open>Recovery never resubmits and can be repeated: it reports exactly the executions whose
  journal is not closed, leaves each of them waiting for reconciliation together with its order,
  touches no other table, and a second recovery changes nothing and reports the same executions.\<close>

theorem recovery_is_idempotent:
  "set (snd (recover st)) = jr_execution_id ` {j \<in> set (xs_journals st).
      jr_state j \<noteq> ''RECONCILED'' \<and> jr_state j \<noteq> ''PROVEN_UNSENT''} \<and>
   (\<forall>i \<in> set (snd (recover st)). awaits_reconciliation i (fst (recover st))) \<and>
   xs_fills (fst (recover st)) = xs_fills st \<and> xs_mutations (fst (recover st)) = xs_mutations st \<and>
   xs_events (fst (recover st)) = xs_events st \<and>
   fst (recover (fst (recover st))) = fst (recover st) \<and>
   set (snd (recover (fst (recover st)))) = set (snd (recover st))"
proof -
  have "open_executions st = jr_execution_id ` {j \<in> set (xs_journals st).
      jr_state j \<noteq> ''RECONCILED'' \<and> jr_state j \<noteq> ''PROVEN_UNSENT''}"
    by (simp add: open_executions_def incomplete_def)
  moreover have "awaits_reconciliation i (fst (recover st))" if "i \<in> set (snd (recover st))" for i
    using that demo_recovery.recovery_marks demo_recovery.recovery_reports by blast
  moreover have "xs_fills (fst (recover st)) = xs_fills st \<and>
      xs_mutations (fst (recover st)) = xs_mutations st \<and> xs_events (fst (recover st)) = xs_events st"
    by (simp add: recover_closed)
  ultimately show ?thesis
    using demo_recovery.recovery_idem demo_recovery.recovery_reports_again
      demo_recovery.recovery_reports by metis
qed

theorem recovery_is_idempotent_witness:
  "fst (recover (fst (recover empty_store))) = fst (recover empty_store)"
  using recovery_is_idempotent [of empty_store] by blast

text \<open>C35. Fill totals are exact under redelivery: however often and in whatever order the exchange
  delivers the fills, the totals of an order are the sums of quantity and fee over its distinct
  trades.\<close>

theorem fill_totals_ignore_duplicates:
  assumes "consistent_fills fs"
  shows "fill_totals order_id (deliver fs empty_store) =
    (sum fe_quantity {f \<in> set fs. fe_order_id f = order_id},
     sum fe_fee {f \<in> set fs. fe_order_id f = order_id})"
  using sum_over_fills [OF assms, of fe_quantity order_id] sum_over_fills [OF assms, of fe_fee order_id]
  by (simp add: fill_totals_def Let_def)

theorem fill_totals_ignore_duplicates_witness:
  "fill_totals ''x1'' (deliver [sample_fill ''t1'' 1, sample_fill ''t2'' 2, sample_fill ''t1'' 1]
     empty_store) = (3, 2 / 100)"
proof -
  let ?fs = "[sample_fill ''t1'' 1, sample_fill ''t2'' 2, sample_fill ''t1'' 1]"
  have "consistent_fills ?fs" by (simp add: consistent_fills_def sample_fill_def)
  moreover have "{f \<in> set ?fs. fe_order_id f = ''x1''} = {sample_fill ''t1'' 1, sample_fill ''t2'' 2}"
    by (auto simp: sample_fill_def)
  ultimately show ?thesis
    using fill_totals_ignore_duplicates [of ?fs "''x1''"] by (simp add: sample_fill_def)
qed

text \<open>A gap in the private stream is never applied: the event whose sequence does not follow
  the last one is refused, no state event is recorded and the channel is left untrusted with the
  reason and the new sequence; an event that does follow leaves it trusted.\<close>

theorem stream_gap_is_not_applied:
  "(if sequence_gap n (ws_row channel (xs_ws st))
    then \<not> snd (ingest_ws_event channel key eid s n t st) \<and>
      xs_events (fst (ingest_ws_event channel key eid s n t st)) = xs_events st \<and>
      (\<exists>r. ws_row channel (xs_ws (fst (ingest_ws_event channel key eid s n t st))) = Some r \<and>
         \<not> ws_trustworthy r \<and> ws_reason r = ''SEQUENCE_GAP'' \<and> ws_last_sequence r = n)
    else (\<exists>r. ws_row channel (xs_ws (fst (ingest_ws_event channel key eid s n t st))) = Some r \<and>
         ws_trustworthy r \<and> ws_reason r = ''CURRENT'' \<and> ws_last_sequence r = n))"
  using ingest_gap ingest_current by (cases "sequence_gap n (ws_row channel (xs_ws st))") auto

section \<open>Orders, intents, postings and the write budget\<close>

text \<open>The life of an order: through any sequence of transitions, refused ones included, the
  filled quantity stays between zero and the quantity and never shrinks, the quantity and the
  direction of time are kept, a filled order is filled completely, a terminal order never moves,
  and every state is reached along the allowed transitions.\<close>

theorem order_lifecycle:
  assumes "local_okay x" and "lo_state x \<noteq> FILLED" and "y = local_order.run steps x"
  shows "0 \<le> lo_filled_quantity y \<and> lo_filled_quantity y \<le> lo_quantity y \<and>
    lo_filled_quantity x \<le> lo_filled_quantity y \<and> lo_quantity y = lo_quantity x \<and>
    astimezone_utc (lo_updated_at x) \<le> astimezone_utc (lo_updated_at y) \<and>
    (lo_state y = FILLED \<longrightarrow> lo_filled_quantity y = lo_quantity y) \<and>
    (lo_state x \<in> {CANCELED, REJECTED} \<longrightarrow> y = x) \<and>
    (lo_state x, lo_state y) \<in> {(s, t). t \<in> set (TRANSITIONS s)}\<^sup>*"
  unfolding assms(3)
  using local_order.run_bounds [OF assms(1)] local_order.run_mono local_order.run_quantity
    local_order.run_time local_order.run_complete [of x steps] local_order.run_terminal [of x steps]
    local_order.run_path assms(2)
  by auto

theorem order_lifecycle_witness:
  "lo_filled_quantity (local_order.run [(to_state PARTIALLY_FILLED (Aware 1))\<lparr>ta_filled_quantity :=
     Some 1\<rparr>, to_state FILLED (Aware 2)] sample_local_order) \<le> 2"
proof -
  have "local_okay sample_local_order"
    by (simp add: local_okay_iff sample_local_order_def startswith_def)
  moreover have "lo_state sample_local_order \<noteq> FILLED" by (simp add: sample_local_order_def)
  ultimately show ?thesis
    using order_lifecycle [OF _ _ refl, of sample_local_order "[(to_state PARTIALLY_FILLED (Aware 1))
        \<lparr>ta_filled_quantity := Some 1\<rparr>, to_state FILLED (Aware 2)]"]
    by (simp add: sample_local_order_def del: local_order.run.simps)
qed

text \<open>The hashed payload determines the create request.\<close>

lemma payload_fixes_request:
  assumes "ei_hash_payload i = ei_hash_payload j"
  shows "create_request i = create_request j"
proof -
  from assms have "ei_ticker i = ei_ticker j" "ei_client_order_id i = ei_client_order_id j"
    "ei_outcome_side i = ei_outcome_side j" "ei_book_side i = ei_book_side j"
    "ei_price i = ei_price j" "ei_quantity i = ei_quantity j"
    "ei_time_in_force i = ei_time_in_force j" "ei_post_only i = ei_post_only j"
    "ei_cancel_order_on_pause i = ei_cancel_order_on_pause j"
    "ei_reduce_only i = ei_reduce_only j"
    "ei_self_trade_prevention_type i = ei_self_trade_prevention_type j"
    "ei_order_group_id i = ei_order_group_id j" "ei_exchange_index i = ei_exchange_index j"
    "map_option astimezone_utc (ei_expiration_time i) = map_option astimezone_utc (ei_expiration_time j)"
    by (auto simp: ei_hash_payload_def hopt_def split: option.splits)
  then show ?thesis
    by (cases "ei_expiration_time i"; cases "ei_expiration_time j")
      (simp_all add: create_request_def optional_field_def Let_def cong: if_cong)
qed

text \<open>The intent hash binds the order: two accepted intents with one hash send the same create
  request, unless the digest itself collides on their payloads.\<close>

theorem intent_hash_binds_the_order:
  assumes "ExecutionIntent_post_init dig i = Inr ()" and "ExecutionIntent_post_init dig j = Inr ()"
    and "ei_intent_hash i = ei_intent_hash j" and "create_request i \<noteq> create_request j"
  shows "ei_hash_payload i \<noteq> ei_hash_payload j \<and>
    dig (ei_hash_payload i) = dig (ei_hash_payload j)"
proof
  from assms(1-3) show "dig (ei_hash_payload i) = dig (ei_hash_payload j)"
    by (simp add: ExecutionIntent_post_init_def split: if_splits)
  show "ei_hash_payload i \<noteq> ei_hash_payload j"
    using assms(4) payload_fixes_request by blast
qed

theorem intent_hash_binds_the_order_witness:
  "ei_hash_payload sample_order_intent \<noteq> ei_hash_payload (sample_order_intent\<lparr>ei_price := 1/4\<rparr>) \<and>
    (\<lambda>_. ''ih'') (ei_hash_payload sample_order_intent) =
      (\<lambda>_. ''ih'') (ei_hash_payload (sample_order_intent\<lparr>ei_price := 1/4\<rparr>))"
proof -
  let ?i = sample_order_intent and ?j = "sample_order_intent\<lparr>ei_price := 1/4\<rparr>"
  have ok: "ExecutionIntent_post_init (\<lambda>_. ''ih'') ?i = Inr ()"
      "ExecutionIntent_post_init (\<lambda>_. ''ih'') ?j = Inr ()"
    by (simp_all add: ExecutionIntent_post_init_def sample_order_intent_def startswith_def)
  have same: "ei_intent_hash ?i = ei_intent_hash ?j" by (simp add: sample_order_intent_def)
  have "create_request ?i \<noteq> create_request ?j" by code_simp
  from intent_hash_binds_the_order [OF ok same this] show ?thesis .
qed

text \<open>The postings of fills are balanced double entries in every mode, for any list of fills.\<close>

theorem postings_balance:
  "net_postings (concat (map (\<lambda>(f, mode). postings_for_fill f mode) fills)) = 0"
  by (rule net_fills)

text \<open>The write budget keeps its reserve for safety: from any budget, a run of requests is
  granted no more than the budget holds, and creates and amends together never more than what
  exceeds the reserve.\<close>

theorem write_budget_protects_safety_requests:
  assumes "0 \<le> wb_available b" and "demo_budget.budget_run requests b = (b', granted)"
  shows "int (length granted) = wb_available b - wb_available b' \<and> 0 \<le> wb_available b' \<and>
    int (length (filter (\<lambda>k. k = M_CREATE \<or> k = M_AMEND) granted)) \<le>
      max 0 (wb_available b - wb_safety_reserve b)"
proof -
  have "(\<lambda>k. \<not> (k = M_CANCEL \<or> k = M_DECREASE)) = (\<lambda>k. k = M_CREATE \<or> k = M_AMEND)"
    by (auto simp: fun_eq_iff) (metis MutationKind.exhaust)+
  with demo_budget.budget_run_available [OF assms] demo_budget.budget_run_reserve [OF assms]
  show ?thesis by simp
qed

theorem write_budget_protects_safety_requests_witness:
  "\<exists>b' granted. demo_budget.budget_run [M_CREATE, M_CREATE, M_CANCEL]
       \<lparr>wb_available = 2, wb_safety_reserve = 1\<rparr> = (b', granted) \<and> 0 \<le> wb_available b'"
proof -
  obtain b' granted where r: "demo_budget.budget_run [M_CREATE, M_CREATE, M_CANCEL]
      \<lparr>wb_available = 2, wb_safety_reserve = 1\<rparr> = (b', granted)"
    by (metis surj_pair)
  from write_budget_protects_safety_requests [OF _ r] r show ?thesis by simp
qed

end
