(* ===== verification/Opp_Books.thy ===== *)
theory Opp_Books
  imports Prelude "HOL-Library.Multiset"
begin

text \<open>
  \<open>services/opportunity_engine/books.py\<close>: normalization of raw YES and NO bids into executable
  bid and ask ladders, and the depth walk. The walk is proved to be the cheapest way to buy the
  quantity it fills.
\<close>

datatype OutcomeSide = YES | NO

record RawBidLevel =
  rb_raw_level_id :: string
  rb_side :: OutcomeSide
  rb_price :: decimal
  rb_quantity :: decimal

definition RawBidLevel_post_init :: "RawBidLevel \<Rightarrow> RawBidLevel result" where
  "RawBidLevel_post_init l =
     (if \<not> (0 < rb_price l \<and> rb_price l < 1)
      then Inl (OpportunityError ''raw bid price invalid'')
      else if rb_quantity l \<le> 0
      then Inl (OpportunityError ''fractional depth quantity invalid'')
      else Inr l)"

record ExecutableLevel =
  el_outcome :: OutcomeSide
  el_book_side :: string
  el_price :: decimal
  el_quantity :: decimal
  el_raw_level_id :: string
  el_raw_side :: OutcomeSide
  el_raw_price :: decimal

record NormalizedBook =
  nb_yes_bids :: "ExecutableLevel list"
  nb_yes_asks :: "ExecutableLevel list"
  nb_no_bids :: "ExecutableLevel list"
  nb_no_asks :: "ExecutableLevel list"

definition yes_best_ask :: "NormalizedBook \<Rightarrow> decimal option" where
  "yes_best_ask b = (case nb_yes_asks b of [] \<Rightarrow> None | l # _ \<Rightarrow> Some (el_price l))"

definition no_best_ask :: "NormalizedBook \<Rightarrow> decimal option" where
  "no_best_ask b = (case nb_no_asks b of [] \<Rightarrow> None | l # _ \<Rightarrow> Some (el_price l))"

definition book_bids :: "RawBidLevel list \<Rightarrow> OutcomeSide \<Rightarrow> ExecutableLevel list" where
  "book_bids rows side = map (\<lambda>row. \<lparr>el_outcome = side, el_book_side = ''BID'',
     el_price = rb_price row, el_quantity = rb_quantity row,
     el_raw_level_id = rb_raw_level_id row, el_raw_side = rb_side row,
     el_raw_price = rb_price row\<rparr>) rows"

definition book_asks :: "RawBidLevel list \<Rightarrow> OutcomeSide \<Rightarrow> ExecutableLevel list" where
  "book_asks rows side = sort_key el_price (map (\<lambda>row. \<lparr>el_outcome = side,
     el_book_side = ''ASK'', el_price = 1 - rb_price row, el_quantity = rb_quantity row,
     el_raw_level_id = rb_raw_level_id row, el_raw_side = rb_side row,
     el_raw_price = rb_price row\<rparr>) rows)"

definition crossed :: "ExecutableLevel list \<Rightarrow> ExecutableLevel list \<Rightarrow> bool" where
  "crossed bids asks = (case (bids, asks) of
     (b # _, a # _) \<Rightarrow> el_price b \<ge> el_price a | _ \<Rightarrow> False)"

definition normalize_binary_book :: "RawBidLevel list \<Rightarrow> NormalizedBook result" where
  "normalize_binary_book levels =
     (let yes = sort_key (\<lambda>l. - rb_price l) (filter (\<lambda>l. rb_side l = YES) levels);
          no = sort_key (\<lambda>l. - rb_price l) (filter (\<lambda>l. rb_side l = NO) levels);
          book = \<lparr>nb_yes_bids = book_bids yes YES, nb_yes_asks = book_asks no YES,
            nb_no_bids = book_bids no NO, nb_no_asks = book_asks yes NO\<rparr>
      in if crossed (nb_yes_bids book) (nb_yes_asks book)
         then Inl (OpportunityError ''binary book crossed'')
         else if crossed (nb_no_bids book) (nb_no_asks book)
         then Inl (OpportunityError ''binary book crossed'')
         else Inr book)"

section \<open>Ladders are sorted, and the book is not crossed\<close>

definition descending :: "ExecutableLevel list \<Rightarrow> bool" where
  "descending ls = sorted (map (\<lambda>l. - el_price l) ls)"

definition ascending :: "ExecutableLevel list \<Rightarrow> bool" where
  "ascending ls = sorted (map el_price ls)"

lemma bids_descending: "descending (book_bids (sort_key (\<lambda>l. - rb_price l) rows) side)"
  by (simp add: descending_def book_bids_def o_def)

lemma asks_ascending: "ascending (book_asks rows side)"
  by (simp add: ascending_def book_asks_def)

lemma head_least: "ascending (l # ls) \<Longrightarrow> m \<in> set (l # ls) \<Longrightarrow> el_price l \<le> el_price m"
  by (auto simp: ascending_def)

lemma head_greatest: "descending (l # ls) \<Longrightarrow> m \<in> set (l # ls) \<Longrightarrow> el_price m \<le> el_price l"
  by (auto simp: descending_def)

lemma descending_iff: "descending ls \<longleftrightarrow> sorted (rev (map el_price ls))"
  by (auto simp: descending_def sorted_wrt_map sorted_wrt_rev)

text \<open>No bid of a side meets an ask of the same side.\<close>

lemma not_crossed:
  assumes "\<not> crossed bids asks" and "descending bids" and "ascending asks"
    and "b \<in> set bids" and "a \<in> set asks"
  shows "el_price b < el_price a"
proof -
  from assms(4) obtain b0 bs where bids: "bids = b0 # bs" by (cases bids) auto
  from assms(5) obtain a0 as where asks: "asks = a0 # as" by (cases asks) auto
  have "el_price b \<le> el_price b0" using assms(2,4) bids head_greatest by blast
  also have "\<dots> < el_price a0" using assms(1) by (simp add: crossed_def bids asks)
  also have "\<dots> \<le> el_price a" using assms(3,5) asks head_least by blast
  finally show ?thesis .
qed

lemma normalize_ok:
  assumes "normalize_binary_book levels = Inr book"
  shows "descending (nb_yes_bids book)" and "ascending (nb_yes_asks book)"
    and "descending (nb_no_bids book)" and "ascending (nb_no_asks book)"
    and "\<not> crossed (nb_yes_bids book) (nb_yes_asks book)"
    and "\<not> crossed (nb_no_bids book) (nb_no_asks book)"
    and "nb_yes_bids book = book_bids (sort_key (\<lambda>l. - rb_price l) (filter (\<lambda>l. rb_side l = YES) levels)) YES"
    and "nb_yes_asks book = book_asks (sort_key (\<lambda>l. - rb_price l) (filter (\<lambda>l. rb_side l = NO) levels)) YES"
    and "nb_no_asks book = book_asks (sort_key (\<lambda>l. - rb_price l) (filter (\<lambda>l. rb_side l = YES) levels)) NO"
    and "nb_no_bids book = book_bids (sort_key (\<lambda>l. - rb_price l) (filter (\<lambda>l. rb_side l = NO) levels)) NO"
  using assms
  by (auto simp: normalize_binary_book_def Let_def bids_descending asks_ascending split: if_splits)

text \<open>Every raw YES bid and raw NO bid of an accepted book add up to less than one dollar.\<close>

lemma raw_bids_below_one:
  assumes "normalize_binary_book levels = Inr book"
    and "y \<in> set levels" and "n \<in> set levels" and "rb_side y = YES" and "rb_side n = NO"
  shows "rb_price y + rb_price n < 1"
proof -
  note ok = normalize_ok [OF assms(1)]
  have "\<exists>b \<in> set (nb_yes_bids book). el_price b = rb_price y"
    unfolding ok(7) using assms(2,4) by (auto simp: book_bids_def)
  then obtain b where b: "b \<in> set (nb_yes_bids book)" "el_price b = rb_price y" by blast
  have "\<exists>a \<in> set (nb_yes_asks book). el_price a = 1 - rb_price n"
    unfolding ok(8) using assms(3,5) by (auto simp: book_asks_def)
  then obtain a where a: "a \<in> set (nb_yes_asks book)" "el_price a = 1 - rb_price n" by blast
  have "el_price b < el_price a" by (rule not_crossed [OF ok(5,1,2) b(1) a(1)])
  with b(2) a(2) show ?thesis by simp
qed

text \<open>Buying both outcomes at their best asks never costs less than the payout.\<close>

lemma best_asks_no_arbitrage:
  assumes "normalize_binary_book levels = Inr book"
    and "yes_best_ask book = Some p" and "no_best_ask book = Some q"
  shows "1 < p + q"
proof -
  note ok = normalize_ok [OF assms(1)]
  from assms(2) have "p \<in> el_price ` set (nb_yes_asks book)"
    by (auto simp: yes_best_ask_def split: list.splits)
  then obtain n where n: "n \<in> set levels" "rb_side n = NO" "p = 1 - rb_price n"
    unfolding ok(8) by (auto simp: book_asks_def)
  from assms(3) have "q \<in> el_price ` set (nb_no_asks book)"
    by (auto simp: no_best_ask_def split: list.splits)
  then obtain y where y: "y \<in> set levels" "rb_side y = YES" "q = 1 - rb_price y"
    unfolding ok(9) by (auto simp: book_asks_def)
  from raw_bids_below_one [OF assms(1) y(1) n(1) y(2) n(2)] n(3) y(3) show ?thesis by simp
qed

text \<open>The ladders hold the raw bids of their side, level by level: the bids at their price, the asks
  of the other outcome at one dollar less the price.\<close>

abbreviation side_bids :: "RawBidLevel list \<Rightarrow> OutcomeSide \<Rightarrow> RawBidLevel list" where
  "side_bids levels side \<equiv> filter (\<lambda>l. rb_side l = side) levels"

lemma ladder_levels:
  shows "mset (map (\<lambda>l. (el_price l, el_quantity l)) (book_bids (sort_key f rows) side)) =
      mset (map (\<lambda>r. (rb_price r, rb_quantity r)) rows)"
    and "mset (map (\<lambda>l. (el_price l, el_quantity l)) (book_asks (sort_key f rows) side)) =
      mset (map (\<lambda>r. (1 - rb_price r, rb_quantity r)) rows)"
  by (simp_all add: book_bids_def book_asks_def o_def multiset.map_comp)

lemma normalized_levels:
  assumes "normalize_binary_book levels = Inr book"
  shows "mset (map (\<lambda>l. (el_price l, el_quantity l)) (nb_yes_bids book)) =
      mset (map (\<lambda>r. (rb_price r, rb_quantity r)) (side_bids levels YES))"
    and "mset (map (\<lambda>l. (el_price l, el_quantity l)) (nb_no_bids book)) =
      mset (map (\<lambda>r. (rb_price r, rb_quantity r)) (side_bids levels NO))"
    and "mset (map (\<lambda>l. (el_price l, el_quantity l)) (nb_yes_asks book)) =
      mset (map (\<lambda>r. (1 - rb_price r, rb_quantity r)) (side_bids levels NO))"
    and "mset (map (\<lambda>l. (el_price l, el_quantity l)) (nb_no_asks book)) =
      mset (map (\<lambda>r. (1 - rb_price r, rb_quantity r)) (side_bids levels YES))"
  unfolding normalize_ok(7-10) [OF assms] by (rule ladder_levels)+

text \<open>Normalization neither creates nor loses depth.\<close>

lemma dsum_sort_key: "dsum (map f (sort_key k xs)) = dsum (map f xs)"
  by (metis mset_map mset_sort sum_mset_sum_list)

lemma depth_conserved:
  assumes "normalize_binary_book levels = Inr book"
  shows "dsum (map el_quantity (nb_yes_bids book)) = dsum (map el_quantity (nb_no_asks book))"
    and "dsum (map el_quantity (nb_yes_bids book)) =
      dsum (map rb_quantity (filter (\<lambda>l. rb_side l = YES) levels))"
  unfolding normalize_ok(7,9) [OF assms]
  by (simp_all add: book_bids_def book_asks_def dsum_sort_key o_def)

section \<open>The depth walk\<close>

record DepthWalk =
  dw_requested :: decimal
  dw_filled :: decimal
  dw_average_price :: "decimal option"
  dw_worst_price :: "decimal option"
  dw_unfilled :: decimal
  dw_total_cost :: decimal
  dw_levels_consumed :: nat

definition DepthWalk_complete :: "DepthWalk \<Rightarrow> bool" where
  "DepthWalk_complete w \<longleftrightarrow> dw_unfilled w = 0"

fun walk_loop :: "ExecutableLevel list \<Rightarrow> decimal \<Rightarrow> decimal \<Rightarrow> decimal option \<Rightarrow> nat \<Rightarrow>
    decimal \<times> decimal \<times> decimal option \<times> nat" where
  "walk_loop [] remaining cost worst cnt = (remaining, cost, worst, cnt)"
| "walk_loop (l # ls) remaining cost worst cnt =
     (let take = min remaining (el_quantity l)
      in if take \<le> 0 then walk_loop ls remaining cost worst cnt
      else if remaining - take = 0
      then (remaining - take, cost + take * el_price l, Some (el_price l), cnt + 1)
      else walk_loop ls (remaining - take) (cost + take * el_price l) (Some (el_price l)) (cnt + 1))"

definition walk_depth :: "ExecutableLevel list \<Rightarrow> decimal \<Rightarrow> DepthWalk result" where
  "walk_depth levels quantity =
     (if quantity \<le> 0 then Inl (OpportunityError ''hypothetical depth quantity invalid'')
      else case walk_loop levels quantity 0 None 0 of (remaining, cost, worst, cnt) \<Rightarrow>
        let filled = quantity - remaining
        in Inr \<lparr>dw_requested = quantity, dw_filled = filled,
             dw_average_price = (if filled = 0 then None else Some (cost / filled)),
             dw_worst_price = worst, dw_unfilled = remaining, dw_total_cost = cost,
             dw_levels_consumed = cnt\<rparr>)"

text \<open>The specification: what greedy filling takes from each level and what it costs.\<close>

fun greedy :: "ExecutableLevel list \<Rightarrow> decimal \<Rightarrow> decimal \<times> decimal" where
  "greedy [] r = (0, 0)"
| "greedy (l # ls) r =
     (let take = max 0 (min r (el_quantity l)); (f, c) = greedy ls (r - take)
      in (take + f, take * el_price l + c))"

lemma greedy_zero: "greedy ls 0 = (0, 0)"
  by (induction ls) (auto simp: Let_def)

lemma walk_loop_greedy:
  "0 \<le> r \<Longrightarrow> \<exists>w' n'. walk_loop ls r t w n = (r - fst (greedy ls r), t + snd (greedy ls r), w', n')"
proof (induction ls arbitrary: r t w n)
  case Nil
  then show ?case by simp
next
  case (Cons l ls)
  let ?take = "min r (el_quantity l)"
  obtain f c where g: "greedy ls (r - max 0 ?take) = (f, c)" by (cases "greedy ls (r - max 0 ?take)")
  show ?case
  proof (cases "?take \<le> 0")
    case True
    then have "max 0 ?take = 0" by simp
    with True g Cons.IH [OF Cons.prems, of t w n] show ?thesis by (simp add: Let_def)
  next
    case False
    then have mx: "max 0 ?take = ?take" by simp
    show ?thesis
    proof (cases "r - ?take = 0")
      case True
      then have "r - max 0 ?take = 0" by (simp only: mx)
      then have "greedy ls (r - max 0 ?take) = (0, 0)" by (simp only: greedy_zero)
      with g have "f = 0" "c = 0" by simp_all
      with True False g show ?thesis by (simp add: Let_def mx)
    next
      case nz: False
      have "0 \<le> r - ?take" by simp
      from Cons.IH [OF this, of "t + ?take * el_price l" "Some (el_price l)" "n + 1"]
      obtain w' n' where "walk_loop ls (r - ?take) (t + ?take * el_price l) (Some (el_price l))
          (n + 1) = (r - ?take - f, t + ?take * el_price l + c, w', n')"
        using g by (auto simp: mx)
      moreover have "r \<noteq> el_quantity l" using nz by auto
      ultimately show ?thesis using False nz g by (simp add: Let_def mx)
    qed
  qed
qed

lemma greedy_bounds: "0 \<le> r \<Longrightarrow> 0 \<le> fst (greedy ls r) \<and> fst (greedy ls r) \<le> r"
proof (induction ls arbitrary: r)
  case (Cons l ls)
  let ?take = "max 0 (min r (el_quantity l))"
  have "0 \<le> r - ?take" using Cons.prems by (simp add: max_def min_def)
  from Cons.IH [OF this] show ?case by (auto simp: Let_def split_beta)
qed simp

text \<open>An allocation takes from each level at most what the level offers.\<close>

definition allocation :: "ExecutableLevel list \<Rightarrow> decimal list \<Rightarrow> bool" where
  "allocation ls xs = list_all2 (\<lambda>l x. 0 \<le> x \<and> x \<le> el_quantity l) ls xs"

fun alloc_cost :: "ExecutableLevel list \<Rightarrow> decimal list \<Rightarrow> decimal" where
  "alloc_cost (l # ls) (x # xs) = x * el_price l + alloc_cost ls xs"
| "alloc_cost _ _ = 0"

lemma greedy_cheapest:
  assumes "ascending ls" and "allocation ls xs" and "0 \<le> r" and "fst (greedy ls r) \<le> dsum xs"
    and "\<And>l. l \<in> set ls \<Longrightarrow> p \<le> el_price l"
  shows "snd (greedy ls r) + (dsum xs - fst (greedy ls r)) * p \<le> alloc_cost ls xs"
  using assms
proof (induction ls arbitrary: xs r p)
  case Nil
  then show ?case by (simp add: allocation_def)
next
  case (Cons l ls)
  from Cons.prems(2) obtain x ys where xs: "xs = x # ys" and x: "0 \<le> x" "x \<le> el_quantity l"
    and ys: "allocation ls ys" by (auto simp: allocation_def list_all2_Cons1)
  let ?take = "max 0 (min r (el_quantity l))"
  obtain f c where g: "greedy ls (r - ?take) = (f, c)" by (cases "greedy ls (r - ?take)")
  have asc: "ascending ls" and low: "\<And>m. m \<in> set ls \<Longrightarrow> el_price l \<le> el_price m"
    using Cons.prems(1) by (auto simp: ascending_def)
  have r': "0 \<le> r - ?take" using Cons.prems(3) by (simp add: max_def min_def)
  have pl: "p \<le> el_price l" using Cons.prems(5) by simp
  have enough: "?take + f \<le> x + dsum ys" using Cons.prems(4) g xs by (simp add: Let_def)
  have rest: "f \<le> dsum ys"
  proof (cases "x \<le> ?take")
    case True
    with enough show ?thesis by simp
  next
    case False
    with x Cons.prems(3) have "r - ?take = 0" by (auto simp: max_def min_def split: if_splits)
    with g have "f = 0" by (simp add: greedy_zero)
    moreover have "0 \<le> dsum ys"
      using ys by (intro dsum_nonneg) (auto simp: allocation_def list_all2_conv_all_nth in_set_conv_nth)
    ultimately show ?thesis by simp
  qed
  have "c + (dsum ys - f) * el_price l \<le> alloc_cost ls ys"
    using Cons.IH [OF asc ys r' _ low] rest g by simp
  moreover have "(x + dsum ys - (?take + f)) * p \<le> (x + dsum ys - (?take + f)) * el_price l"
    using enough pl by (intro mult_left_mono) auto
  ultimately show ?case by (simp add: xs g Let_def algebra_simps)
qed

lemma walk_depth_ok:
  assumes "walk_depth ls q = Inr w"
  shows "0 < q" and "dw_requested w = q" and "dw_filled w = fst (greedy ls q)"
    and "dw_total_cost w = snd (greedy ls q)" and "dw_unfilled w = q - dw_filled w"
    and "0 \<le> dw_filled w" and "dw_filled w \<le> q"
    and "dw_average_price w = (if dw_filled w = 0 then None else Some (dw_total_cost w / dw_filled w))"
proof -
  show q: "0 < q" using assms by (auto simp: walk_depth_def split: if_splits)
  from walk_loop_greedy [of q ls 0 None 0] q obtain w' n' where
    "walk_loop ls q 0 None 0 = (q - fst (greedy ls q), snd (greedy ls q), w', n')" by auto
  with assms q show "dw_requested w = q" and f: "dw_filled w = fst (greedy ls q)"
    and "dw_total_cost w = snd (greedy ls q)" and "dw_unfilled w = q - dw_filled w"
    and "dw_average_price w = (if dw_filled w = 0 then None else Some (dw_total_cost w / dw_filled w))"
    by (auto simp: walk_depth_def Let_def)
  show "0 \<le> dw_filled w" and "dw_filled w \<le> q" unfolding f using greedy_bounds [of q ls] q by auto
qed

text \<open>The walk fills all it can: either everything, or the whole displayed depth.\<close>

lemma greedy_filled:
  "0 \<le> r \<Longrightarrow> (\<And>l. l \<in> set ls \<Longrightarrow> 0 \<le> el_quantity l) \<Longrightarrow>
     fst (greedy ls r) = min r (dsum (map el_quantity ls))"
proof (induction ls arbitrary: r)
  case (Cons l ls)
  let ?take = "max 0 (min r (el_quantity l))"
  have q: "0 \<le> el_quantity l" and "0 \<le> dsum (map el_quantity ls)"
    using Cons.prems(2) by (auto intro!: dsum_nonneg)
  moreover have "0 \<le> r - ?take" using Cons.prems(1) by (simp add: max_def min_def)
  note Cons.IH [OF this]
  ultimately show ?case using Cons.prems by (auto simp: Let_def split_beta max_def min_def)
qed simp

text \<open>What the walk takes is itself an allocation, and the greedy cost is its cost.\<close>

lemma greedy_attained:
  "0 \<le> r \<Longrightarrow> (\<And>l. l \<in> set ls \<Longrightarrow> 0 \<le> el_quantity l) \<Longrightarrow>
     \<exists>xs. allocation ls xs \<and> dsum xs = fst (greedy ls r) \<and> alloc_cost ls xs = snd (greedy ls r)"
proof (induction ls arbitrary: r)
  case Nil
  then show ?case by (intro exI [of _ "[]"]) (simp add: allocation_def)
next
  case (Cons l ls)
  let ?take = "max 0 (min r (el_quantity l))"
  have q: "0 \<le> el_quantity l" using Cons.prems(2) by simp
  have "0 \<le> r - ?take" using Cons.prems(1) by (simp add: max_def min_def)
  from Cons.IH [OF this] Cons.prems(2) obtain xs where xs: "allocation ls xs"
    "dsum xs = fst (greedy ls (r - ?take))" "alloc_cost ls xs = snd (greedy ls (r - ?take))" by auto
  have "allocation (l # ls) (?take # xs)" using xs(1) q by (simp add: allocation_def)
  then show ?case using xs(2,3) by (intro exI [of _ "?take # xs"]) (simp add: Let_def split_beta)
qed

text \<open>The cost of an allocation is the sum of what is taken times the price of its level.\<close>

lemma alloc_cost_sum:
  "alloc_cost ls xs = dsum (map (\<lambda>(l, x). x * el_price l) (zip ls xs))"
  by (induction ls xs rule: alloc_cost.induct) simp_all

end
