(* ===== verification/Opp_Engine.thy ===== *)
theory Opp_Engine
  imports Opp_Books
begin

text \<open>
  \<open>services/opportunity_engine\<close>: fee policies (\<open>fees.py\<close>), candidates and point-in-time
  snapshots (\<open>domain.py\<close>, \<open>models.py\<close>), the economics of both outcomes, the decision and
  the ranking (\<open>engine.py\<close>), cross-venue observations (\<open>cross_venue.py\<close>) and maker scenarios
  (\<open>scenarios.py\<close>).
\<close>

section \<open>Fees\<close>

datatype FeeType = QUADRATIC | QUADRATIC_WITH_MAKER_FEES | FLAT

datatype FeeEstimateQuality = DETERMINISTIC_FORMULA_ONLY | BOUNDED_PRETRADE | OBSERVED_POSTFILL

record FeePolicy =
  fp_policy_id :: string
  fp_fee_type :: FeeType
  fp_fee_multiplier :: decimal
  fp_effective_at :: instant
  fp_retired_at :: "instant option"
  fp_formula_version :: string
  fp_source_reference :: string
  fp_verified :: bool
  fp_flat_rate :: "decimal option"
  fp_quadratic_coefficient :: "decimal option"
  fp_maker_quadratic_coefficient :: "decimal option"
  fp_balance_rounding_increment :: decimal
  fp_production_influence :: decimal

definition FeePolicy_post_init :: "FeePolicy \<Rightarrow> FeePolicy result" where
  "FeePolicy_post_init p = (if fp_production_influence p \<noteq> 0
     then Inl (OpportunityError ''fee policy must have zero production influence'') else Inr p)"

definition applies_at :: "FeePolicy \<Rightarrow> instant \<Rightarrow> bool" where
  "applies_at p t \<longleftrightarrow> fp_effective_at p \<le> t \<and>
     (case fp_retired_at p of None \<Rightarrow> True | Some r \<Rightarrow> t < r)"

record FeeCalculation =
  fk_theoretical_trade_fee :: decimal
  fk_rounding_component :: decimal
  fk_expected_rebate :: decimal
  fk_total_fee :: decimal
  fk_policy_id :: string
  fk_quality :: FeeEstimateQuality
  fk_final_exchange_fee_known :: bool

definition select_policy :: "FeePolicy list \<Rightarrow> instant \<Rightarrow> FeePolicy result" where
  "select_policy policies t =
     (case filter (\<lambda>p. applies_at p t) policies of
        [p] \<Rightarrow> Inr p
      | _ \<Rightarrow> Inl (OpportunityError ''fee policy unavailable or historical overlap''))"

definition current_event_formula_policy :: "FeeType \<Rightarrow> decimal \<Rightarrow> FeePolicy result" where
  "current_event_formula_policy fee_type fee_multiplier =
     (if fee_type \<notin> set [QUADRATIC, QUADRATIC_WITH_MAKER_FEES]
      then Inl (OpportunityError ''current event fee type unsupported'')
      else FeePolicy_post_init
        \<lparr>fp_policy_id = ''kalshi-event-fees-2026-07-07-v1'', fp_fee_type = fee_type,
         fp_fee_multiplier = fee_multiplier, fp_effective_at = seconds 1783382400,
         fp_retired_at = None, fp_formula_version = ''price-times-complement-times-quantity-v1'',
         fp_source_reference = ''Kalshi Fee Schedule, effective 2026-07-07'',
         fp_verified = True, fp_flat_rate = None, fp_quadratic_coefficient = Some (7 / 100),
         fp_maker_quadratic_coefficient =
           (if fee_type = QUADRATIC_WITH_MAKER_FEES then Some (175 / 10000) else None),
         fp_balance_rounding_increment = 1 / 10000, fp_production_influence = 0\<rparr>)"

definition fee_coefficient :: "FeePolicy \<Rightarrow> bool \<Rightarrow> decimal option" where
  "fee_coefficient p maker =
     (if maker \<and> fp_fee_type p = QUADRATIC then Some 0
      else if maker then fp_maker_quadratic_coefficient p else fp_quadratic_coefficient p)"

definition theoretical_fee :: "FeePolicy \<Rightarrow> decimal \<Rightarrow> decimal \<Rightarrow> bool \<Rightarrow> decimal result" where
  "theoretical_fee p price quantity maker =
     (if fp_fee_type p = FLAT \<and> fp_flat_rate p \<noteq> None
      then Inr (the (fp_flat_rate p) * quantity * fp_fee_multiplier p)
      else if fp_fee_type p \<in> set [QUADRATIC, QUADRATIC_WITH_MAKER_FEES]
      then (case fee_coefficient p maker of
          None \<Rightarrow> Inl (OpportunityError ''unknown or incomplete fee type'')
        | Some k \<Rightarrow> Inr (k * price * (1 - price) * quantity * fp_fee_multiplier p))
      else Inl (OpportunityError ''unknown or incomplete fee type''))"

text \<open>Rounding up to the increment; a zero increment is a decimal division by zero.\<close>

definition round_up :: "decimal \<Rightarrow> decimal \<Rightarrow> decimal" where
  "round_up increment x = of_int \<lceil>x / increment\<rceil> * increment"

definition calculate_fee :: "FeePolicy \<Rightarrow> decimal \<Rightarrow> decimal \<Rightarrow> bool \<Rightarrow> FeeCalculation result" where
  "calculate_fee p price quantity maker =
     (if \<not> fp_verified p then Inl (OpportunityError ''fee model unverified'')
      else if \<not> (0 < price \<and> price < 1) \<or> quantity \<le> 0
      then Inl (OpportunityError ''fee input invalid'')
      else rbind (theoretical_fee p price quantity maker) (\<lambda>theoretical.
        if fp_balance_rounding_increment p = 0 then Inl (ValueError ''DivisionByZero'')
        else let rounded = round_up (fp_balance_rounding_increment p) theoretical; rebate = 0
        in Inr \<lparr>fk_theoretical_trade_fee = theoretical,
             fk_rounding_component = rounded - theoretical, fk_expected_rebate = rebate,
             fk_total_fee = rounded - rebate, fk_policy_id = fp_policy_id p,
             fk_quality = BOUNDED_PRETRADE, fk_final_exchange_fee_known = False\<rparr>))"

lemma round_up_bounds:
  assumes "0 < i" shows "x \<le> round_up i x" and "round_up i x < x + i"
proof -
  have "x / i \<le> of_int \<lceil>x / i\<rceil>" by (rule le_of_int_ceiling)
  from mult_right_mono [OF this, of i] assms show "x \<le> round_up i x"
    by (simp add: round_up_def)
  have "of_int \<lceil>x / i\<rceil> < x / i + 1" using ceiling_correct [of "x / i"] by linarith
  from mult_strict_right_mono [OF this assms] assms show "round_up i x < x + i"
    by (simp add: round_up_def algebra_simps)
qed

text \<open>What a caller may rely on when the policy's coefficients are not negative.\<close>

definition sound_policy :: "FeePolicy \<Rightarrow> bool" where
  "sound_policy p \<longleftrightarrow> 0 < fp_balance_rounding_increment p \<and> 0 \<le> fp_fee_multiplier p \<and>
     list_all (\<lambda>c. case c of None \<Rightarrow> True | Some k \<Rightarrow> 0 \<le> k)
       [fp_flat_rate p, fp_quadratic_coefficient p, fp_maker_quadratic_coefficient p]"

lemma theoretical_nonneg:
  assumes "sound_policy p" and "0 < price" and "price < 1" and "0 < q"
    and "theoretical_fee p price q maker = Inr t"
  shows "0 \<le> t"
  using assms
  by (auto simp: theoretical_fee_def fee_coefficient_def sound_policy_def intro!: mult_nonneg_nonneg
      split: if_splits option.splits)

lemma calculate_fee_ok:
  assumes "sound_policy p" and "calculate_fee p price q maker = Inr f"
  shows "0 \<le> fk_theoretical_trade_fee f" and "fk_theoretical_trade_fee f \<le> fk_total_fee f"
    and "fk_total_fee f < fk_theoretical_trade_fee f + fp_balance_rounding_increment p"
    and "\<exists>n :: int. fk_total_fee f = of_int n * fp_balance_rounding_increment p"
    and "fk_total_fee f = fk_theoretical_trade_fee f + fk_rounding_component f"
    and "\<not> fk_final_exchange_fee_known f"
proof -
  have inc: "0 < fp_balance_rounding_increment p" using assms(1) by (simp add: sound_policy_def)
  from assms(2) obtain t where t: "theoretical_fee p price q maker = Inr t" and
    pq: "0 < price" "price < 1" "0 < q" and
    f: "f = \<lparr>fk_theoretical_trade_fee = t,
        fk_rounding_component = round_up (fp_balance_rounding_increment p) t - t,
        fk_expected_rebate = 0, fk_total_fee = round_up (fp_balance_rounding_increment p) t - 0,
        fk_policy_id = fp_policy_id p, fk_quality = BOUNDED_PRETRADE,
        fk_final_exchange_fee_known = False\<rparr>"
    by (auto simp: calculate_fee_def rbind_eq_Inr Let_def not_le split: if_splits)
  show "0 \<le> fk_theoretical_trade_fee f" using theoretical_nonneg [OF assms(1) pq t] f by simp
  show "fk_theoretical_trade_fee f \<le> fk_total_fee f"
    and "fk_total_fee f < fk_theoretical_trade_fee f + fp_balance_rounding_increment p"
    using round_up_bounds [OF inc, of t] f by simp_all
  show "\<exists>n :: int. fk_total_fee f = of_int n * fp_balance_rounding_increment p"
    using f by (auto simp: round_up_def)
  show "fk_total_fee f = fk_theoretical_trade_fee f + fk_rounding_component f"
    and "\<not> fk_final_exchange_fee_known f" using f by simp_all
qed

section \<open>Candidates and point-in-time inputs\<close>

record TradeCandidate =
  tc_candidate_id :: string
  tc_market_ticker :: string
  tc_fair_probability :: decimal
  tc_executable_price :: decimal
  tc_fees :: decimal
  tc_spread_cost :: decimal
  tc_expected_slippage :: decimal
  tc_fill_probability :: decimal
  tc_uncertainty_reserve :: decimal
  tc_liquidity_quality :: decimal
  tc_correlation_reserve :: decimal
  tc_capital_turnover_cost :: decimal
  tc_information_decay :: decimal
  tc_research_status :: string
  tc_production_influence :: decimal

definition unit_interval :: "decimal \<Rightarrow> bool" where
  "unit_interval x \<longleftrightarrow> 0 \<le> x \<and> x \<le> 1"

definition TradeCandidate_post_init :: "TradeCandidate \<Rightarrow> TradeCandidate result" where
  "TradeCandidate_post_init c =
     (if list_ex (\<lambda>v. \<not> unit_interval v)
        [tc_fair_probability c, tc_executable_price c, tc_fill_probability c,
         tc_liquidity_quality c, tc_information_decay c]
      then Inl (OpportunityError ''candidate probability/quality input invalid'')
      else if tc_production_influence c \<noteq> 0
      then Inl (OpportunityError ''M10 candidate has zero production influence'')
      else Inr c)"

definition descriptive_after_cost_difference :: "TradeCandidate \<Rightarrow> decimal" where
  "descriptive_after_cost_difference c =
     (let costs = tc_fees c + tc_spread_cost c + tc_expected_slippage c
            + tc_uncertainty_reserve c + tc_correlation_reserve c + tc_capital_turnover_cost c
      in (tc_fair_probability c - tc_executable_price c - costs)
           * tc_fill_probability c * tc_information_decay c)"

record AsOfOpportunitySnapshot =
  as_forecast_time :: instant
  as_kalshi_time :: instant
  as_external_market_time :: "instant option"
  as_evidence_time :: instant
  as_replay_time :: instant

definition maximum_skew :: "AsOfOpportunitySnapshot \<Rightarrow> duration" where
  "maximum_skew s =
     (let times = [as_forecast_time s, as_kalshi_time s, as_evidence_time s]
            @ (case as_external_market_time s of None \<Rightarrow> [] | Some t \<Rightarrow> [t])
      in Max (set times) - Min (set times))"

definition AsOf_validate :: "AsOfOpportunitySnapshot \<Rightarrow> duration \<Rightarrow> unit result" where
  "AsOf_validate s max_skew =
     (if list_ex (\<lambda>t. t > as_replay_time s)
        [as_forecast_time s, as_kalshi_time s, as_evidence_time s]
      then Inl (OpportunityError ''future opportunity input'')
      else if maximum_skew s > max_skew
      then Inl (OpportunityError ''opportunity temporal skew'')
      else Inr ())"

section \<open>Economics of the two outcomes\<close>

record ResearchThresholds =
  rt_general :: decimal
  rt_weather_objective :: decimal
  rt_election_legal :: decimal
  rt_watch_margin :: decimal
  rt_close_guard :: duration

definition default_thresholds :: ResearchThresholds where
  "default_thresholds = \<lparr>rt_general = 5 / 100, rt_weather_objective = 7 / 100,
     rt_election_legal = 10 / 100, rt_watch_margin = 15 / 1000, rt_close_guard = minutes 15\<rparr>"

definition for_family :: "ResearchThresholds \<Rightarrow> string \<Rightarrow> decimal" where
  "for_family t family =
     (if family \<in> set [''weather'', ''macro'', ''objective_data''] then rt_weather_objective t
      else if family \<in> set [''election'', ''legal''] then rt_election_legal t
      else rt_general t)"

record OutcomeEconomics =
  oe_outcome_side :: OutcomeSide
  oe_fair_probability :: decimal
  oe_conservative_probability :: decimal
  oe_executable_price :: decimal
  oe_gross_probability_difference :: decimal
  oe_gross_expected_value :: decimal
  oe_break_even_probability :: decimal
  oe_expected_fee :: decimal
  oe_expected_slippage :: decimal
  oe_conservative_expected_value :: decimal

definition outcome_probabilities :: "decimal \<Rightarrow> decimal \<Rightarrow> decimal \<Rightarrow>
    (OutcomeSide \<Rightarrow> decimal \<times> decimal \<times> decimal) result" where
  "outcome_probabilities p_yes lower_yes upper_yes =
     (if \<not> (0 \<le> lower_yes \<and> lower_yes \<le> p_yes \<and> p_yes \<le> upper_yes \<and> upper_yes \<le> 1)
      then Inl (OpportunityError ''forecast distribution invalid'')
      else Inr (\<lambda>side. case side of YES \<Rightarrow> (p_yes, lower_yes, upper_yes)
        | NO \<Rightarrow> (1 - p_yes, 1 - upper_yes, 1 - lower_yes)))"

definition evaluate_outcome :: "OutcomeSide \<Rightarrow> decimal \<Rightarrow> decimal \<Rightarrow> decimal \<Rightarrow> FeePolicy \<Rightarrow>
    decimal \<Rightarrow> decimal \<Rightarrow> OutcomeEconomics result" where
  "evaluate_outcome side fair conservative price policy quantity slippage =
     rbind (calculate_fee policy price quantity False) (\<lambda>calc.
       let fee = fk_total_fee calc / quantity; break_even = price + fee
       in Inr \<lparr>oe_outcome_side = side, oe_fair_probability = fair,
            oe_conservative_probability = conservative, oe_executable_price = price,
            oe_gross_probability_difference = fair - price, oe_gross_expected_value = fair - price,
            oe_break_even_probability = break_even, oe_expected_fee = fee,
            oe_expected_slippage = slippage,
            oe_conservative_expected_value = conservative - break_even\<rparr>)"

definition evaluate_side :: "(OutcomeSide \<Rightarrow> decimal \<times> decimal \<times> decimal) \<Rightarrow> FeePolicy \<Rightarrow>
    decimal \<Rightarrow> OutcomeSide \<Rightarrow> ExecutableLevel list \<Rightarrow> OutcomeEconomics result" where
  "evaluate_side probabilities policy quantity side asks =
     rbind (walk_depth asks quantity) (\<lambda>walk.
       case (dw_average_price walk, asks) of
         (Some average, best # _) \<Rightarrow>
           (if \<not> DepthWalk_complete walk
            then Inl (OpportunityError ''insufficient displayed depth'')
            else case probabilities side of (fair, conservative, upper) \<Rightarrow>
              evaluate_outcome side fair conservative average policy quantity
                (average - el_price best))
       | _ \<Rightarrow> Inl (OpportunityError ''insufficient displayed depth''))"

definition evaluate_both :: "NormalizedBook \<Rightarrow> decimal \<Rightarrow> decimal \<Rightarrow> decimal \<Rightarrow> FeePolicy \<Rightarrow>
    decimal \<Rightarrow> (OutcomeEconomics \<times> OutcomeEconomics) result" where
  "evaluate_both book p_yes lower_yes upper_yes policy quantity =
     rbind (outcome_probabilities p_yes lower_yes upper_yes) (\<lambda>probabilities.
     rbind (evaluate_side probabilities policy quantity YES (nb_yes_asks book)) (\<lambda>yes.
     rbind (evaluate_side probabilities policy quantity NO (nb_no_asks book)) (\<lambda>no.
       Inr (yes, no))))"

lemma evaluate_side_ok:
  assumes "evaluate_side pr policy q side asks = Inr e"
  shows "\<exists>walk best rest average. walk_depth asks q = Inr walk \<and> asks = best # rest \<and>
    dw_average_price walk = Some average \<and> dw_unfilled walk = 0 \<and>
    evaluate_outcome side (fst (pr side)) (fst (snd (pr side))) average policy q
      (average - el_price best) = Inr e"
proof -
  from assms obtain walk where w: "walk_depth asks q = Inr walk"
    by (auto simp: evaluate_side_def rbind_eq_Inr)
  with assms show ?thesis
    by (cases "dw_average_price walk"; cases asks)
      (auto simp: evaluate_side_def DepthWalk_complete_def split_beta split: if_splits)
qed

lemma evaluate_outcome_ok:
  assumes "evaluate_outcome side fair con price policy q slip = Inr e"
  shows "\<exists>calc. calculate_fee policy price q False = Inr calc \<and>
    oe_expected_fee e = fk_total_fee calc / q \<and>
    oe_break_even_probability e = price + oe_expected_fee e \<and>
    oe_conservative_expected_value e = con - oe_break_even_probability e \<and>
    oe_executable_price e = price \<and> oe_fair_probability e = fair \<and> oe_outcome_side e = side"
  using assms by (auto simp: evaluate_outcome_def rbind_eq_Inr Let_def)

text \<open>The average price of a complete walk is not below the best ask.\<close>

lemma greedy_cost_ge:
  "0 \<le> r \<Longrightarrow> (\<And>l. l \<in> set ls \<Longrightarrow> p \<le> el_price l) \<Longrightarrow>
     fst (greedy ls r) * p \<le> snd (greedy ls r)"
proof (induction ls arbitrary: r)
  case (Cons l ls)
  let ?take = "max 0 (min r (el_quantity l))"
  have r': "0 \<le> r - ?take" using Cons.prems(1) by (simp add: max_def min_def)
  have "fst (greedy ls (r - ?take)) * p \<le> snd (greedy ls (r - ?take))"
    by (rule Cons.IH [OF r']) (use Cons.prems(2) in auto)
  moreover have "?take * p \<le> ?take * el_price l"
    using Cons.prems(2) by (intro mult_left_mono) auto
  ultimately show ?case by (simp add: Let_def split_beta algebra_simps)
qed simp

lemma average_ge_best:
  assumes "walk_depth (best # rest) q = Inr w" and "dw_average_price w = Some average"
    and "ascending (best # rest)"
  shows "el_price best \<le> average"
proof -
  note ok = walk_depth_ok [OF assms(1)]
  have fill: "dw_filled w \<noteq> 0" and avg: "average = dw_total_cost w / dw_filled w"
    using ok(8) assms(2) by (auto split: if_splits)
  have "fst (greedy (best # rest) q) * el_price best \<le> snd (greedy (best # rest) q)"
    using ok(1) assms(3) by (intro greedy_cost_ge) (auto intro: head_least)
  then have "dw_filled w * el_price best \<le> dw_total_cost w" using ok(3,4) by simp
  moreover have "0 < dw_filled w" using fill ok(6) by simp
  ultimately show ?thesis unfolding avg by (simp add: pos_le_divide_eq mult.commute)
qed

lemma evaluate_side_bound:
  assumes "evaluate_side pr policy q side asks = Inr e" and "ascending asks"
    and "sound_policy policy"
  shows "\<exists>best rest. asks = best # rest \<and> el_price best \<le> oe_executable_price e \<and>
    0 \<le> oe_expected_fee e \<and>
    oe_conservative_expected_value e = fst (snd (pr side)) - oe_executable_price e - oe_expected_fee e"
proof -
  from evaluate_side_ok [OF assms(1)] obtain walk best rest average where
    w: "walk_depth asks q = Inr walk" and asks: "asks = best # rest"
    and avg: "dw_average_price walk = Some average"
    and ev: "evaluate_outcome side (fst (pr side)) (fst (snd (pr side))) average policy q
      (average - el_price best) = Inr e" by blast
  from evaluate_outcome_ok [OF ev] obtain calc where
    calc: "calculate_fee policy average q False = Inr calc"
    and e: "oe_expected_fee e = fk_total_fee calc / q"
      "oe_break_even_probability e = average + oe_expected_fee e"
      "oe_conservative_expected_value e = fst (snd (pr side)) - oe_break_even_probability e"
      "oe_executable_price e = average" by blast
  have "0 \<le> fk_total_fee calc" using calculate_fee_ok(1,2) [OF assms(3) calc] by linarith
  moreover have "0 < q" using walk_depth_ok(1) [OF w] .
  moreover have "el_price best \<le> average"
    using average_ge_best w avg assms(2) unfolding asks by blast
  ultimately show ?thesis using asks e by simp
qed

text \<open>
  The two conservative values add up to less than zero: an uncertainty interval, an uncrossed
  book and fees that are not negative never make both outcomes attractive.
\<close>

lemma conservative_values_negative:
  assumes "normalize_binary_book levels = Inr book" and "sound_policy policy"
    and "evaluate_both book p l u policy q = Inr (yes, no)"
  shows "oe_conservative_expected_value yes + oe_conservative_expected_value no < 0"
proof -
  from assms(3) obtain pr where
    pr: "outcome_probabilities p l u = Inr pr"
    and y: "evaluate_side pr policy q YES (nb_yes_asks book) = Inr yes"
    and n: "evaluate_side pr policy q NO (nb_no_asks book) = Inr no"
    by (auto simp: evaluate_both_def rbind_eq_Inr)
  from evaluate_side_bound [OF y normalize_ok(2) [OF assms(1)] assms(2)] obtain yb yr where
    yb: "nb_yes_asks book = yb # yr" "el_price yb \<le> oe_executable_price yes"
    "0 \<le> oe_expected_fee yes" "oe_conservative_expected_value yes =
      fst (snd (pr YES)) - oe_executable_price yes - oe_expected_fee yes" by blast
  from evaluate_side_bound [OF n normalize_ok(4) [OF assms(1)] assms(2)] obtain nb nr where
    nb: "nb_no_asks book = nb # nr" "el_price nb \<le> oe_executable_price no"
    "0 \<le> oe_expected_fee no" "oe_conservative_expected_value no =
      fst (snd (pr NO)) - oe_executable_price no - oe_expected_fee no" by blast
  have "1 < el_price yb + el_price nb"
    using best_asks_no_arbitrage [OF assms(1)] yb(1) nb(1)
    by (simp add: yes_best_ask_def no_best_ask_def)
  moreover have "fst (snd (pr YES)) + fst (snd (pr NO)) \<le> 1"
    using pr by (auto simp: outcome_probabilities_def split: if_splits)
  ultimately show ?thesis using yb nb by linarith
qed

section \<open>The decision\<close>

datatype DecisionState =
    DS_REJECTED | DS_INCOMPLETE | DS_WATCH | DS_RESEARCH_CANDIDATE
  | DS_HIGH_PRIORITY_RESEARCH_CANDIDATE

text \<open>\<open>RejectionReason\<close> is a \<open>StrEnum\<close>: its members are their text.\<close>

type_synonym RejectionReason = string

definition soft_reasons :: "RejectionReason list" where
  "soft_reasons = [''NET_VALUE_BELOW_THRESHOLD'', ''INSUFFICIENT_SEPARATION'']"

definition decision_reasons :: "OutcomeEconomics \<Rightarrow> string \<Rightarrow> duration \<Rightarrow>
    RejectionReason list \<Rightarrow> ResearchThresholds \<Rightarrow> RejectionReason list" where
  "decision_reasons e family time_to_close reasons t =
     reasons
     @ only_if (time_to_close \<le> rt_close_guard t) ''TOO_CLOSE_TO_CLOSE''
     @ only_if (oe_conservative_expected_value e \<le> 0) ''INSUFFICIENT_SEPARATION''
     @ only_if (oe_conservative_expected_value e < for_family t family)
         ''NET_VALUE_BELOW_THRESHOLD''"

text \<open>
  The decision. Fees are finite in the model, so the \<open>INCOMPLETE\<close> branch for a fee that is not
  finite does not arise.
\<close>

definition decide :: "OutcomeEconomics \<Rightarrow> string \<Rightarrow> duration \<Rightarrow> RejectionReason list \<Rightarrow>
    ResearchThresholds \<Rightarrow> DecisionState option \<Rightarrow> DecisionState \<times> RejectionReason list" where
  "decide e family time_to_close reasons0 t previous =
     (let reasons = decision_reasons e family time_to_close reasons0 t;
          hurdle = for_family t family;
          hard = filter (\<lambda>r. r \<notin> set soft_reasons) reasons;
          state = (if hard \<noteq> [] then DS_REJECTED
            else if oe_conservative_expected_value e \<ge> hurdle then DS_RESEARCH_CANDIDATE
            else DS_WATCH);
          final = (if previous = Some DS_RESEARCH_CANDIDATE \<and> state = DS_WATCH \<and>
              oe_conservative_expected_value e \<ge> hurdle - rt_watch_margin t
            then DS_WATCH else state)
      in (final, py_sorted reasons))"

lemma decide_state_eq:
  "fst (decide e family ttc rs t prev) =
     (if \<exists>r \<in> set rs. r \<notin> set soft_reasons then DS_REJECTED
      else if ttc \<le> rt_close_guard t then DS_REJECTED
      else if for_family t family \<le> oe_conservative_expected_value e then DS_RESEARCH_CANDIDATE
      else DS_WATCH)"
proof -
  have soft: "''INSUFFICIENT_SEPARATION'' \<in> set soft_reasons"
    "''NET_VALUE_BELOW_THRESHOLD'' \<in> set soft_reasons" "''TOO_CLOSE_TO_CLOSE'' \<notin> set soft_reasons"
    by (simp_all add: soft_reasons_def)
  have "filter (\<lambda>r. r \<notin> set soft_reasons) (decision_reasons e family ttc rs t) \<noteq> [] \<longleftrightarrow>
      (\<exists>r \<in> set rs. r \<notin> set soft_reasons) \<or> ttc \<le> rt_close_guard t"
    using soft by (auto simp: decision_reasons_def filter_empty_conv)
  then show ?thesis by (simp add: decide_def Let_def del: filter_empty_conv)
qed

lemma decide_reasons_set:
  "set (snd (decide e family ttc rs t prev)) = set (decision_reasons e family ttc rs t)"
  by (simp add: decide_def Let_def)

text \<open>The previous decision has no influence: the hysteresis branch assigns the same state.\<close>

lemma decide_ignores_previous: "decide e family ttc rs t prev = decide e family ttc rs t None"
  by (simp add: decide_def Let_def)

definition rank_score :: "decimal \<Rightarrow> decimal list \<Rightarrow> decimal result" where
  "rank_score conservative_ev factors =
     (if list_ex (\<lambda>f. \<not> unit_interval f) factors
      then Inl (OpportunityError ''ranking component outside bounds'')
      else Inr (foldl (*) (max 0 conservative_ev) factors))"

lemma foldl_unit_bounds:
  "0 \<le> x \<Longrightarrow> list_all unit_interval fs \<Longrightarrow> 0 \<le> foldl (*) x fs \<and> foldl (*) x fs \<le> x"
proof (induction fs arbitrary: x)
  case (Cons f fs)
  then have "0 \<le> x * f" and "x * f \<le> x"
    by (auto simp: unit_interval_def mult_left_le)
  with Cons.IH [of "x * f"] Cons.prems show ?case by fastforce
qed simp

lemma rank_score_bounds:
  "rank_score ev fs = Inr s \<Longrightarrow> 0 \<le> s \<and> s \<le> max 0 ev"
  using foldl_unit_bounds [of "max 0 ev" fs]
  by (auto simp: rank_score_def list_ex_iff list_all_iff split: if_splits)

definition stale_reasons :: "instant \<Rightarrow> instant \<Rightarrow> instant \<Rightarrow> instant \<Rightarrow> duration \<Rightarrow> duration \<Rightarrow>
    duration \<Rightarrow> RejectionReason list" where
  "stale_reasons now book_at forecast_at evidence_at max_book max_forecast max_evidence =
     only_if (now - book_at > max_book) ''BOOK_STALE''
     @ only_if (now - forecast_at > max_forecast) ''FORECAST_STALE''
     @ only_if (now - evidence_at > max_evidence) ''INFORMATION_TOO_STALE''"

section \<open>Cross-venue observations and maker scenarios\<close>

datatype SemanticMatch = IDENTICAL | HEDGEABLE_WITH_BASIS | RELATED_ONLY | INCOMPATIBLE

record CrossVenueInput =
  cv_observation_id :: string
  cv_semantic_match :: SemanticMatch
  cv_kalshi_price :: decimal
  cv_kalshi_depth :: decimal
  cv_polymarket_price :: decimal
  cv_polymarket_depth :: decimal
  cv_kalshi_fee :: "decimal option"
  cv_polymarket_fee :: "decimal option"
  cv_expected_slippage :: "decimal option"
  cv_timestamp_skew_ms :: int
  cv_semantic_reserve :: decimal
  cv_leg_risk_reserve :: decimal
  cv_venue_state_risk :: string
  cv_reference_overlap :: bool

definition or_zero :: "decimal option \<Rightarrow> decimal" where
  "or_zero x = (case x of None \<Rightarrow> 0 | Some d \<Rightarrow> d)"

definition cross_hurdle :: "CrossVenueInput \<Rightarrow> decimal" where
  "cross_hurdle c = or_zero (cv_kalshi_fee c) + or_zero (cv_polymarket_fee c)
     + or_zero (cv_expected_slippage c) + cv_semantic_reserve c + cv_leg_risk_reserve c
     + 15 / 1000"

text \<open>The observation is its input together with the research state.\<close>

definition cross_venue_state :: "CrossVenueInput \<Rightarrow> string" where
  "cross_venue_state c =
     (let allowed = (cv_semantic_match c = IDENTICAL \<or> cv_semantic_match c = HEDGEABLE_WITH_BASIS);
          known = (None \<notin> set [cv_kalshi_fee c, cv_polymarket_fee c, cv_expected_slippage c]);
          discrepancy = \<bar>cv_kalshi_price c - cv_polymarket_price c\<bar>;
          state = (if \<not> known then ''INCOMPLETE''
            else if \<not> allowed then ''SEMANTIC_MATCH_INSUFFICIENT''
            else if discrepancy \<ge> max (4 / 100) (cross_hurdle c)
            then ''CROSS_VENUE_RESEARCH_CANDIDATE'' else ''WATCH'')
      in if cv_reference_overlap c \<and> state = ''CROSS_VENUE_RESEARCH_CANDIDATE''
         then ''WATCH'' else state)"

lemma cross_venue_candidate:
  "cross_venue_state c = ''CROSS_VENUE_RESEARCH_CANDIDATE'' \<longleftrightarrow>
     cv_kalshi_fee c \<noteq> None \<and> cv_polymarket_fee c \<noteq> None \<and> cv_expected_slippage c \<noteq> None \<and>
     (cv_semantic_match c = IDENTICAL \<or> cv_semantic_match c = HEDGEABLE_WITH_BASIS) \<and>
     4 / 100 \<le> \<bar>cv_kalshi_price c - cv_polymarket_price c\<bar> \<and>
     cross_hurdle c \<le> \<bar>cv_kalshi_price c - cv_polymarket_price c\<bar> \<and> \<not> cv_reference_overlap c"
  by (cases "cv_kalshi_fee c"; cases "cv_polymarket_fee c"; cases "cv_expected_slippage c")
    (auto simp: cross_venue_state_def Let_def)

datatype FillQuality =
    FQ_UNAVAILABLE | FQ_CONSERVATIVE_HEURISTIC | FQ_EMPIRICAL_RESEARCH_MODEL
  | FQ_DISPLAYED_TAKER_DEPTH

datatype AdverseSelectionQuality = AS_UNKNOWN | AS_CONSERVATIVE_HEURISTIC | AS_EMPIRICAL

record MakerScenario =
  ms_price :: decimal
  ms_fee_regime :: string
  ms_fill_probability :: "decimal option"
  ms_fill_quality :: FillQuality
  ms_adverse_selection_reserve :: "decimal option"
  ms_adverse_selection_quality :: AdverseSelectionQuality
  ms_ev_conditional_on_fill :: "decimal option"
  ms_ev_expected_over_attempt :: "decimal option"

definition maker_scenario :: "decimal \<Rightarrow> string \<Rightarrow> decimal option \<Rightarrow> decimal option \<Rightarrow> decimal \<Rightarrow>
    MakerScenario" where
  "maker_scenario price fee_regime fill adverse decay =
     (let conditional = map_option uminus adverse;
          attempt = (case (conditional, fill) of
            (Some c, Some f) \<Rightarrow> Some (c * f * decay) | _ \<Rightarrow> None)
      in \<lparr>ms_price = price, ms_fee_regime = fee_regime, ms_fill_probability = fill,
          ms_fill_quality = (if fill = None then FQ_UNAVAILABLE else FQ_CONSERVATIVE_HEURISTIC),
          ms_adverse_selection_reserve = adverse,
          ms_adverse_selection_quality =
            (if adverse = None then AS_UNKNOWN else AS_CONSERVATIVE_HEURISTIC),
          ms_ev_conditional_on_fill = conditional, ms_ev_expected_over_attempt = attempt\<rparr>)"

end
