(* ===== verification/Opp_Properties.thy ===== *)
theory Opp_Properties
  imports Opp_Engine
begin

text \<open>
  The properties of the opportunity engine: the normalized binary book, the depth walk, fees, the
  economics of both outcomes and the decision.
\<close>

section \<open>Sample values\<close>

definition sample_bid :: "OutcomeSide \<Rightarrow> decimal \<Rightarrow> decimal \<Rightarrow> string \<Rightarrow> RawBidLevel" where
  "sample_bid side p q i = \<lparr>rb_raw_level_id = i, rb_side = side, rb_price = p,
     rb_quantity = q\<rparr>"

definition sample_bids :: "RawBidLevel list" where
  "sample_bids = [sample_bid YES (40/100) 10 ''a'', sample_bid YES (39/100) 5 ''b'',
     sample_bid NO (55/100) 4 ''c'', sample_bid NO (50/100) 8 ''d'']"

definition sample_fees :: FeePolicy where
  "sample_fees = \<lparr>fp_policy_id = ''p'', fp_fee_type = QUADRATIC, fp_fee_multiplier = 1,
     fp_effective_at = 0, fp_retired_at = None, fp_formula_version = ''v1'',
     fp_source_reference = ''s'', fp_verified = True, fp_flat_rate = None,
     fp_quadratic_coefficient = Some (7/100), fp_maker_quadratic_coefficient = None,
     fp_balance_rounding_increment = 1/10000, fp_production_influence = 0\<rparr>"

lemma sample_fees_sound: "sound_policy sample_fees"
  by (simp add: sound_policy_def sample_fees_def)

lemma sample_book: "\<exists>book. normalize_binary_book sample_bids = Inr book"
proof -
  have "is_ok (normalize_binary_book sample_bids)" by code_simp
  then show ?thesis by (cases "normalize_binary_book sample_bids") auto
qed

section \<open>Books and depth\<close>

text \<open>C10. A book that normalizes holds no arbitrage: any YES bid and any NO bid together pay less
  than one dollar, and the two best asks together cost more than one. All four ladders are sorted
  with the best price first: bids falling, asks rising. No level is lost, invented or repriced: the
  bids of an outcome are the raw bids of that outcome with their prices and quantities, and the asks
  of an outcome are the raw bids of the other one at one dollar less their price, for the same
  quantity.\<close>

theorem normalized_book_has_no_arbitrage:
  assumes "normalize_binary_book levels = Inr book"
  shows "(\<forall>y \<in> set levels. \<forall>n \<in> set levels. rb_side y = YES \<and> rb_side n = NO \<longrightarrow>
      rb_price y + rb_price n < 1) \<and>
    (\<forall>p q. yes_best_ask book = Some p \<and> no_best_ask book = Some q \<longrightarrow> 1 < p + q) \<and>
    sorted (rev (map el_price (nb_yes_bids book))) \<and>
    sorted (rev (map el_price (nb_no_bids book))) \<and>
    sorted (map el_price (nb_yes_asks book)) \<and> sorted (map el_price (nb_no_asks book)) \<and>
    mset (map (\<lambda>l. (el_price l, el_quantity l)) (nb_yes_bids book)) =
      mset (map (\<lambda>r. (rb_price r, rb_quantity r)) (filter (\<lambda>l. rb_side l = YES) levels)) \<and>
    mset (map (\<lambda>l. (el_price l, el_quantity l)) (nb_no_bids book)) =
      mset (map (\<lambda>r. (rb_price r, rb_quantity r)) (filter (\<lambda>l. rb_side l = NO) levels)) \<and>
    mset (map (\<lambda>l. (el_price l, el_quantity l)) (nb_yes_asks book)) =
      mset (map (\<lambda>r. (1 - rb_price r, rb_quantity r)) (filter (\<lambda>l. rb_side l = NO) levels)) \<and>
    mset (map (\<lambda>l. (el_price l, el_quantity l)) (nb_no_asks book)) =
      mset (map (\<lambda>r. (1 - rb_price r, rb_quantity r)) (filter (\<lambda>l. rb_side l = YES) levels))"
proof -
  note ok = normalize_ok [OF assms]
  have "sorted (rev (map el_price (nb_yes_bids book)))"
    and "sorted (rev (map el_price (nb_no_bids book)))"
    using ok(1,3) by (simp_all only: descending_iff)
  with ok(2,4) show ?thesis
    using raw_bids_below_one [OF assms] best_asks_no_arbitrage [OF assms] normalized_levels [OF assms]
    by (simp add: ascending_def)
qed

theorem normalized_book_has_no_arbitrage_witness:
  "\<exists>book. normalize_binary_book sample_bids = Inr book \<and>
     (\<forall>p q. yes_best_ask book = Some p \<and> no_best_ask book = Some q \<longrightarrow> 1 < p + q)"
  using sample_book normalized_book_has_no_arbitrage by blast

text \<open>C32. The depth walk buys at the least cost. On asks sorted by price whose quantities are not
  negative (the asks of a normalized book are) it fills the smaller of the requested quantity and the
  displayed depth and reports the rest as unfilled. Its total cost is what some split of the filled
  quantity costs, taking from every level between nothing and what the level offers at that level's
  price, and no such split of the same quantity costs less. The average price is that cost per
  contract.\<close>

theorem depth_walk_is_cheapest:
  assumes "walk_depth asks q = Inr w" and "sorted (map el_price asks)"
    and "\<forall>l \<in> set asks. 0 \<le> el_quantity l"
  shows "dw_filled w = min q (dsum (map el_quantity asks)) \<and> dw_unfilled w = q - dw_filled w \<and>
    dw_average_price w =
      (if dw_filled w = 0 then None else Some (dw_total_cost w / dw_filled w)) \<and>
    (\<exists>xs. list_all2 (\<lambda>l x. 0 \<le> x \<and> x \<le> el_quantity l) asks xs \<and> dsum xs = dw_filled w \<and>
       dw_total_cost w = dsum (map (\<lambda>(l, x). x * el_price l) (zip asks xs))) \<and>
    (\<forall>xs. list_all2 (\<lambda>l x. 0 \<le> x \<and> x \<le> el_quantity l) asks xs \<and> dsum xs = dw_filled w \<longrightarrow>
       dw_total_cost w \<le> dsum (map (\<lambda>(l, x). x * el_price l) (zip asks xs)))"
proof -
  note ok = walk_depth_ok [OF assms(1)]
  have asc: "ascending asks" using assms(2) by (simp add: ascending_def)
  have fill: "fst (greedy asks q) = min q (dsum (map el_quantity asks))"
    using ok(1) assms(3) by (intro greedy_filled) auto
  have least: "Min (insert 0 (el_price ` set asks)) \<le> el_price l" if "l \<in> set asks" for l
    using that by simp
  have cheap: "dw_total_cost w \<le> alloc_cost asks xs"
    if "allocation asks xs" and "dsum xs = dw_filled w" for xs
  proof -
    have "snd (greedy asks q) + (dsum xs - fst (greedy asks q)) * Min (insert 0 (el_price ` set asks))
        \<le> alloc_cost asks xs"
      using ok(1,3) that(2) by (intro greedy_cheapest [OF asc that(1)] least) auto
    then show ?thesis using ok that(2) by simp
  qed
  have "\<exists>xs. allocation asks xs \<and> dsum xs = dw_filled w \<and> dw_total_cost w = alloc_cost asks xs"
    using greedy_attained [of q asks] ok(1,3,4) assms(3) by force
  with cheap ok(3,5,8) fill show ?thesis by (simp add: allocation_def alloc_cost_sum)
qed

theorem depth_walk_is_cheapest_witness:
  "\<exists>w. walk_depth (book_asks sample_bids YES) 12 = Inr w \<and> dw_filled w = 12 \<and>
     (\<exists>xs. list_all2 (\<lambda>l x. 0 \<le> x \<and> x \<le> el_quantity l) (book_asks sample_bids YES) xs \<and>
       dsum xs = 12 \<and> dw_total_cost w =
         dsum (map (\<lambda>(l, x). x * el_price l) (zip (book_asks sample_bids YES) xs)))"
proof -
  let ?asks = "book_asks sample_bids YES"
  have "is_ok (walk_depth ?asks 12)" by code_simp
  then obtain w where w: "walk_depth ?asks 12 = Inr w" by (cases "walk_depth ?asks 12") auto
  have "\<not> is_ok (walk_depth ?asks 12) \<or> dw_filled (projr (walk_depth ?asks 12)) = 12" by code_simp
  then have f: "dw_filled w = 12" using w by simp
  have so: "sorted (map el_price ?asks)" by code_simp
  have "list_all (\<lambda>l. 0 \<le> el_quantity l) ?asks" by code_simp
  then have "\<forall>l \<in> set ?asks. 0 \<le> el_quantity l" by (simp add: list_all_iff)
  note this [THEN depth_walk_is_cheapest [OF w so]]
  then show ?thesis
    unfolding f by (intro exI [of _ w] conjI w f) (elim conjE)
qed

section \<open>Fees and economics\<close>

text \<open>A calculated fee is never understated: under a policy whose coefficients are not negative
  it is the theoretical fee rounded up to the next multiple of the balance increment, less than one
  increment above it, never negative, and never presented as final.\<close>

theorem fee_rounds_up:
  assumes "sound_policy p" and "calculate_fee p price q maker = Inr f"
  shows "0 \<le> fk_theoretical_trade_fee f \<and> fk_theoretical_trade_fee f \<le> fk_total_fee f \<and>
    fk_total_fee f < fk_theoretical_trade_fee f + fp_balance_rounding_increment p \<and>
    (\<exists>n :: int. fk_total_fee f = of_int n * fp_balance_rounding_increment p) \<and>
    fk_total_fee f = fk_theoretical_trade_fee f + fk_rounding_component f \<and>
    theoretical_fee p price q maker = Inr (fk_theoretical_trade_fee f) \<and>
    \<not> fk_final_exchange_fee_known f"
proof -
  have "theoretical_fee p price q maker = Inr (fk_theoretical_trade_fee f)"
    using assms(2) by (auto simp: calculate_fee_def rbind_eq_Inr Let_def split: if_splits)
  with calculate_fee_ok [OF assms] show ?thesis by blast
qed

theorem fee_rounds_up_witness:
  "\<exists>f. calculate_fee sample_fees (1/3) 2 False = Inr f \<and> fk_theoretical_trade_fee f \<le> fk_total_fee f"
proof -
  have "is_ok (calculate_fee sample_fees (1/3) 2 False)" by code_simp
  then obtain f where "calculate_fee sample_fees (1/3) 2 False = Inr f"
    by (cases "calculate_fee sample_fees (1/3) 2 False") auto
  with fee_rounds_up [OF sample_fees_sound this] show ?thesis by blast
qed

text \<open>The two outcomes are never attractive together: on a normalized book and under fees that
  are not negative, the conservative expected values of YES and NO add up to less than zero, so with
  hurdles that are not negative at most one of them is decided a research candidate.\<close>

theorem at_most_one_candidate:
  assumes "normalize_binary_book levels = Inr book" and "sound_policy policy"
    and "evaluate_both book p l u policy q = Inr (yes, no)" and "0 \<le> for_family t family"
  shows "oe_conservative_expected_value yes + oe_conservative_expected_value no < 0 \<and>
    \<not> (fst (decide yes family ttc rs t prev) = DS_RESEARCH_CANDIDATE \<and>
       fst (decide no family ttc' rs' t prev') = DS_RESEARCH_CANDIDATE)"
proof -
  have sum: "oe_conservative_expected_value yes + oe_conservative_expected_value no < 0"
    by (rule conservative_values_negative [OF assms(1-3)])
  have "for_family t family \<le> oe_conservative_expected_value e"
    if "fst (decide e family tc r t pv) = DS_RESEARCH_CANDIDATE" for e tc r pv
    using that by (simp add: decide_state_eq split: if_splits)
  note cand = this [of yes ttc rs prev] this [of no ttc' rs' prev']
  show ?thesis
  proof (intro conjI notI sum)
    assume "fst (decide yes family ttc rs t prev) = DS_RESEARCH_CANDIDATE \<and>
       fst (decide no family ttc' rs' t prev') = DS_RESEARCH_CANDIDATE"
    with cand sum assms(4) show False by linarith
  qed
qed

theorem at_most_one_candidate_witness:
  "\<exists>book yes no. normalize_binary_book sample_bids = Inr book \<and>
     evaluate_both book (45/100) (40/100) (50/100) sample_fees 2 = Inr (yes, no) \<and>
     oe_conservative_expected_value yes + oe_conservative_expected_value no < 0"
proof -
  obtain book where b: "normalize_binary_book sample_bids = Inr book" using sample_book by blast
  have "is_ok (rbind (normalize_binary_book sample_bids)
      (\<lambda>book. evaluate_both book (45/100) (40/100) (50/100) sample_fees 2))" by code_simp
  with b have "is_ok (evaluate_both book (45/100) (40/100) (50/100) sample_fees 2)" by simp
  then obtain yes no where ev: "evaluate_both book (45/100) (40/100) (50/100) sample_fees 2 =
      Inr (yes, no)"
    by (cases "evaluate_both book (45/100) (40/100) (50/100) sample_fees 2") auto
  have "0 \<le> for_family default_thresholds ''weather''" by code_simp
  from at_most_one_candidate [OF b sample_fees_sound ev this] b ev show ?thesis by blast
qed

text \<open>The decision is determined by the caller's reasons, the time to the close and the
  conservative value: any reason beyond the two value reasons rejects, so does being inside the
  close guard, otherwise the value decides between candidate and watch; the previous decision has no
  influence, and the reasons shown are the caller's and the ones found, sorted and distinct.\<close>

theorem decision_is_determined:
  "fst (decide e family ttc rs t prev) =
     (if (\<exists>r \<in> set rs. r \<noteq> ''NET_VALUE_BELOW_THRESHOLD'' \<and> r \<noteq> ''INSUFFICIENT_SEPARATION'') \<or>
         ttc \<le> rt_close_guard t then DS_REJECTED
      else if for_family t family \<le> oe_conservative_expected_value e then DS_RESEARCH_CANDIDATE
      else DS_WATCH) \<and>
   decide e family ttc rs t prev = decide e family ttc rs t None \<and>
   set (snd (decide e family ttc rs t prev)) = set rs \<union>
     {r. (r = ''TOO_CLOSE_TO_CLOSE'' \<and> ttc \<le> rt_close_guard t) \<or>
         (r = ''INSUFFICIENT_SEPARATION'' \<and> oe_conservative_expected_value e \<le> 0) \<or>
         (r = ''NET_VALUE_BELOW_THRESHOLD'' \<and> oe_conservative_expected_value e < for_family t family)} \<and>
   sorted (snd (decide e family ttc rs t prev)) \<and> distinct (snd (decide e family ttc rs t prev))"
proof -
  have "sorted (snd (decide e family ttc rs t prev))" "distinct (snd (decide e family ttc rs t prev))"
    by (simp_all add: decide_def Let_def)
  moreover have "set (snd (decide e family ttc rs t prev)) = set rs \<union>
     {r. (r = ''TOO_CLOSE_TO_CLOSE'' \<and> ttc \<le> rt_close_guard t) \<or>
         (r = ''INSUFFICIENT_SEPARATION'' \<and> oe_conservative_expected_value e \<le> 0) \<or>
         (r = ''NET_VALUE_BELOW_THRESHOLD'' \<and> oe_conservative_expected_value e < for_family t family)}"
    unfolding decide_reasons_set decision_reasons_def by auto
  ultimately show ?thesis
    using decide_ignores_previous unfolding decide_state_eq soft_reasons_def by auto
qed

theorem decision_is_determined_witness:
  "decide \<lparr>oe_outcome_side = YES, oe_fair_probability = 1/2, oe_conservative_probability = 1/2,
      oe_executable_price = 1/2, oe_gross_probability_difference = 0, oe_gross_expected_value = 0,
      oe_break_even_probability = 1/2, oe_expected_fee = 0, oe_expected_slippage = 0,
      oe_conservative_expected_value = 0\<rparr> ''weather'' 0 [] default_thresholds
      (Some DS_RESEARCH_CANDIDATE) =
   decide \<lparr>oe_outcome_side = YES, oe_fair_probability = 1/2, oe_conservative_probability = 1/2,
      oe_executable_price = 1/2, oe_gross_probability_difference = 0, oe_gross_expected_value = 0,
      oe_break_even_probability = 1/2, oe_expected_fee = 0, oe_expected_slippage = 0,
      oe_conservative_expected_value = 0\<rparr> ''weather'' 0 [] default_thresholds None"
  using decision_is_determined by blast

text \<open>A cross-venue observation is a research candidate exactly when all costs are known, the
  contracts are identical or hedgeable, the venues do not share their reference, and the price
  difference reaches four cents and the sum of fees, slippage, reserves and the fixed margin; and a
  ranking score lies between zero and the conservative value it discounts.\<close>

theorem cross_venue_candidates_and_ranking:
  "(cross_venue_state c = ''CROSS_VENUE_RESEARCH_CANDIDATE'' \<longleftrightarrow>
     (\<exists>f g s. cv_kalshi_fee c = Some f \<and> cv_polymarket_fee c = Some g \<and>
        cv_expected_slippage c = Some s \<and>
        f + g + s + cv_semantic_reserve c + cv_leg_risk_reserve c + 15 / 1000
          \<le> \<bar>cv_kalshi_price c - cv_polymarket_price c\<bar>) \<and>
     (cv_semantic_match c = IDENTICAL \<or> cv_semantic_match c = HEDGEABLE_WITH_BASIS) \<and>
     4 / 100 \<le> \<bar>cv_kalshi_price c - cv_polymarket_price c\<bar> \<and> \<not> cv_reference_overlap c) \<and>
   (case rank_score ev factors of Inl e \<Rightarrow> True | Inr score \<Rightarrow> 0 \<le> score \<and> score \<le> max 0 ev)"
proof -
  have "case rank_score ev factors of Inl e \<Rightarrow> True | Inr score \<Rightarrow> 0 \<le> score \<and> score \<le> max 0 ev"
    using rank_score_bounds by (auto split: sum.split)
  then show ?thesis
    unfolding cross_venue_candidate cross_hurdle_def or_zero_def
    by (cases "cv_kalshi_fee c"; cases "cv_polymarket_fee c"; cases "cv_expected_slippage c") auto
qed

end
