(* ===== verification/Market_Book.thy ===== *)
theory Market_Book
  imports Decimals "HOL-Library.AList"
begin

text \<open>
  \<open>services/real_time_market_data/orderbook.py\<close>: the sequenced book of one market. A Python
  dict from price to size is an association list with distinct keys in insertion order. The
  abstract book is the size displayed at each price; an accepted delta adds to it, and a run of
  consecutive deltas is the sum of its changes.
\<close>

datatype BookState = EMPTY | CURRENT | GAP | STALE

datatype PriceMode = UNIFIED_YES | LEGACY_SIDE

type_synonym levels = "(decimal \<times> decimal) list"

record SequencedBook =
  sb_ticker :: string
  sb_sequence :: int
  sb_yes :: levels
  sb_no :: levels
  sb_state :: BookState
  sb_observed_at :: "instant option"
  sb_price_structure_hash :: "string option"
  sb_price_mode :: PriceMode
  sb_ingested_at :: "instant option"

definition new_book :: "string \<Rightarrow> SequencedBook" where
  "new_book ticker = \<lparr>sb_ticker = ticker, sb_sequence = 0, sb_yes = [], sb_no = [],
     sb_state = EMPTY, sb_observed_at = None, sb_price_structure_hash = None,
     sb_price_mode = UNIFIED_YES, sb_ingested_at = None\<rparr>"

text \<open>\<open>market_universe.domain.exact\<close>: a fixed-point text with a finite value.\<close>

definition exact :: "hashable \<Rightarrow> string \<Rightarrow> decimal result" where
  "exact value field = (case value of
       HStr s \<Rightarrow> (case decimal_of_string s of Some d \<Rightarrow> Inr d
         | None \<Rightarrow> Inl (UniverseValidationError (''invalid '' @ field)))
     | _ \<Rightarrow> Inl (UniverseValidationError (field @ '' must be fixed-point string'')))"

section \<open>Snapshots\<close>

fun levels_loop :: "(decimal \<times> decimal) result list \<Rightarrow> levels \<Rightarrow> levels result" where
  "levels_loop [] acc = Inr acc"
| "levels_loop (Inl e # rest) acc = Inl e"
| "levels_loop (Inr (price, sz) # rest) acc =
     (if price \<le> 0 \<or> price \<ge> 1 \<or> sz \<le> 0 \<or> map_of acc price \<noteq> None
      then Inl (UniverseValidationError ''snapshot level invalid'')
      else levels_loop rest (acc @ [(price, sz)]))"

definition parse_level :: "hashable \<Rightarrow> (decimal \<times> decimal) result" where
  "parse_level item = (case item of
       HList [p, s] \<Rightarrow> rbind (exact p ''price'') (\<lambda>price.
         rbind (exact s ''size'') (\<lambda>sz. Inr (price, sz)))
     | _ \<Rightarrow> Inl (UniverseValidationError ''snapshot level malformed''))"

definition book_levels :: "hashable \<Rightarrow> levels result" where
  "book_levels raw = (case raw of HList items \<Rightarrow> levels_loop (map parse_level items) []
     | _ \<Rightarrow> Inl (UniverseValidationError ''snapshot levels malformed''))"

text \<open>
  \<open>snapshot\<close> assigns the YES side before it parses the NO side, so a failure there leaves the
  new YES side in place: the handler returns the book it leaves behind.
\<close>

definition snapshot_with :: "int \<Rightarrow> levels result \<Rightarrow> levels result \<Rightarrow> datetime \<Rightarrow> string \<Rightarrow>
    datetime option \<Rightarrow> PriceMode \<Rightarrow> (SequencedBook, unit) handler" where
  "snapshot_with sequence yes no observed_at structure_hash ingested_at mode =
     (if sequence < 0 \<or> \<not> tz_aware observed_at
      then sraise (UniverseValidationError ''invalid snapshot envelope'')
      else sbind (sresult yes) (\<lambda>y.
        sbind (supdate (\<lambda>b. b\<lparr>sb_yes := y\<rparr>)) (\<lambda>_.
        sbind (sresult no) (\<lambda>n.
        supdate (\<lambda>b. b\<lparr>sb_no := n, sb_sequence := sequence,
          sb_observed_at := Some (astimezone_utc observed_at),
          sb_price_structure_hash := Some structure_hash, sb_price_mode := mode,
          sb_ingested_at := Some (astimezone_utc
            (case ingested_at of None \<Rightarrow> observed_at | Some t \<Rightarrow> t)),
          sb_state := CURRENT\<rparr>)))))"

definition snapshot :: "int \<Rightarrow> hashable \<Rightarrow> hashable \<Rightarrow> datetime \<Rightarrow> string \<Rightarrow> datetime option \<Rightarrow>
    PriceMode \<Rightarrow> (SequencedBook, unit) handler" where
  "snapshot sequence yes no = snapshot_with sequence (book_levels yes) (book_levels no)"

section \<open>Deltas\<close>

definition level_after :: "levels \<Rightarrow> decimal \<Rightarrow> decimal \<Rightarrow> decimal" where
  "level_after levels price size_delta =
     (case map_of levels price of None \<Rightarrow> 0 | Some s \<Rightarrow> s) + size_delta"

definition set_level :: "levels \<Rightarrow> decimal \<Rightarrow> decimal \<Rightarrow> levels" where
  "set_level levels price new =
     (if new = 0 then AList.delete price levels else AList.update price new levels)"

definition to_gap :: "SequencedBook \<Rightarrow> SequencedBook" where
  "to_gap b = b\<lparr>sb_state := GAP\<rparr>"

definition delta_with :: "int \<Rightarrow> string \<Rightarrow> decimal result \<Rightarrow> decimal result \<Rightarrow> datetime \<Rightarrow>
    (SequencedBook, bool) handler" where
  "delta_with sequence side price_value size_value observed_at b =
     (if sb_state b \<noteq> CURRENT \<or> sequence \<noteq> sb_sequence b + 1 then (to_gap b, Inr False)
      else if side \<notin> set [''yes'', ''no''] then (to_gap b, Inr False)
      else case price_value of Inl e \<Rightarrow> (b, Inl e) | Inr price \<Rightarrow>
        (case size_value of Inl e \<Rightarrow> (b, Inl e) | Inr size_delta \<Rightarrow>
          let levels = (if side = ''yes'' then sb_yes b else sb_no b);
              new = level_after levels price size_delta
          in if price \<le> 0 \<or> price \<ge> 1 \<or> new < 0 then (to_gap b, Inr False)
             else (let levels' = set_level levels price new;
                       b' = (if side = ''yes'' then b\<lparr>sb_yes := levels'\<rparr> else b\<lparr>sb_no := levels'\<rparr>)
               in (b'\<lparr>sb_sequence := sequence,
                     sb_observed_at := Some (astimezone_utc observed_at),
                     sb_ingested_at := Some (astimezone_utc observed_at)\<rparr>, Inr True))))"

definition delta :: "int \<Rightarrow> string \<Rightarrow> hashable \<Rightarrow> hashable \<Rightarrow> datetime \<Rightarrow>
    (SequencedBook, bool) handler" where
  "delta sequence side price_value size_delta_value observed_at =
     delta_with sequence side (exact price_value ''price'') (exact size_delta_value ''size delta'')
       observed_at"

definition invalidate_for_metadata :: "string \<Rightarrow> SequencedBook \<Rightarrow> SequencedBook" where
  "invalidate_for_metadata new_hash b =
     (if sb_price_structure_hash b \<noteq> Some new_hash then to_gap b else b)"

section \<open>Views\<close>

record BookView =
  bv_ticker :: string
  bv_sequence :: int
  bv_yes_bids :: levels
  bv_no_bids :: levels
  bv_best_yes_bid :: "decimal option"
  bv_best_yes_ask :: "decimal option"
  bv_state :: BookState
  bv_observed_at :: instant
  bv_ingested_at :: instant
  bv_best_bid_size :: "decimal option"
  bv_best_ask_size :: "decimal option"
  bv_price_mode :: PriceMode

definition max_key :: "levels \<Rightarrow> decimal option" where
  "max_key ls = (if ls = [] then None else Some (Max (set (map fst ls))))"

definition min_key :: "levels \<Rightarrow> decimal option" where
  "min_key ls = (if ls = [] then None else Some (Min (set (map fst ls))))"

definition view :: "instant \<Rightarrow> duration \<Rightarrow> SequencedBook \<Rightarrow> BookView" where
  "view now stale_after b =
     (let observed = (case sb_observed_at b of None \<Rightarrow> 0 | Some t \<Rightarrow> t);
          state = (if sb_observed_at b \<noteq> None \<and> sb_state b = CURRENT \<and> now - observed > stale_after
            then STALE else sb_state b);
          bid = max_key (sb_yes b);
          ask = (if sb_price_mode b = UNIFIED_YES then min_key (sb_no b)
            else map_option (\<lambda>p. 1 - p) (max_key (sb_no b)));
          ask_key = (if sb_price_mode b = UNIFIED_YES then ask else map_option (\<lambda>p. 1 - p) ask)
      in \<lparr>bv_ticker = sb_ticker b, bv_sequence = sb_sequence b,
          bv_yes_bids = rev (sort (sb_yes b)), bv_no_bids = rev (sort (sb_no b)),
          bv_best_yes_bid = bid, bv_best_yes_ask = ask, bv_state = state,
          bv_observed_at = observed,
          bv_ingested_at = (case sb_ingested_at b of None \<Rightarrow> observed | Some t \<Rightarrow> t),
          bv_best_bid_size = Option.bind bid (map_of (sb_yes b)),
          bv_best_ask_size = Option.bind ask_key (map_of (sb_no b)),
          bv_price_mode = sb_price_mode b\<rparr>)"

section \<open>Well-formed books\<close>

definition levels_ok :: "levels \<Rightarrow> bool" where
  "levels_ok ls \<longleftrightarrow> distinct (map fst ls) \<and>
     (\<forall>(p, s) \<in> set ls. 0 < p \<and> p < 1 \<and> 0 < s)"

definition book_ok :: "SequencedBook \<Rightarrow> bool" where
  "book_ok b \<longleftrightarrow> levels_ok (sb_yes b) \<and> levels_ok (sb_no b)"

lemma book_ok_new: "book_ok (new_book t)"
  by (simp add: book_ok_def new_book_def levels_ok_def)

lemma book_ok_gap [simp]: "book_ok (to_gap b) = book_ok b"
  by (simp add: book_ok_def to_gap_def)

lemma levels_loop_ok:
  "levels_loop items acc = Inr ls \<Longrightarrow> levels_ok acc \<Longrightarrow> levels_ok ls"
proof (induction items acc rule: levels_loop.induct)
  case (3 price sz rest acc)
  then have "\<not> (price \<le> 0 \<or> price \<ge> 1 \<or> sz \<le> 0 \<or> map_of acc price \<noteq> None)"
    by (auto split: if_splits)
  then have "levels_ok (acc @ [(price, sz)])"
    using "3.prems"(2) by (auto simp: levels_ok_def map_of_eq_None_iff)
  with "3.IH" "3.prems" show ?case by (auto split: if_splits)
qed auto

lemma book_levels_ok: "book_levels raw = Inr ls \<Longrightarrow> levels_ok ls"
  by (auto simp: book_levels_def levels_ok_def split: hashable.splits
      dest!: levels_loop_ok)

lemma set_level_ok:
  assumes "levels_ok ls" and "0 < p" and "p < 1" and "0 \<le> new"
  shows "levels_ok (set_level ls p new)"
proof -
  have keys: "distinct (map fst ls)" using assms(1) by (simp add: levels_ok_def)
  have "0 < fst x \<and> fst x < 1 \<and> 0 < snd x" if "x \<in> set (set_level ls p new)" for x
  proof (cases "new = 0")
    case True
    with that have "x \<in> set ls" by (auto simp: set_level_def AList.delete_eq)
    with assms(1) show ?thesis by (auto simp: levels_ok_def)
  next
    case False
    obtain k v where x: "x = (k, v)" by (cases x)
    have "distinct (map fst (AList.update p new ls))" by (rule distinct_update [OF keys])
    with that x False have "map_of (AList.update p new ls) k = Some v"
      by (simp add: set_level_def)
    then have "(if k = p then Some new else map_of ls k) = Some v" by (simp add: update_conv')
    with assms x False show ?thesis
      by (auto simp: levels_ok_def split: if_splits dest!: map_of_SomeD)
  qed
  moreover have "distinct (map fst (set_level ls p new))"
    using keys by (simp add: set_level_def distinct_update distinct_delete)
  ultimately show ?thesis by (auto simp: levels_ok_def)
qed

section \<open>The abstract book\<close>

definition sizes :: "levels \<Rightarrow> decimal \<Rightarrow> decimal" where
  "sizes ls p = (case map_of ls p of None \<Rightarrow> 0 | Some s \<Rightarrow> s)"

definition side_levels :: "string \<Rightarrow> SequencedBook \<Rightarrow> levels" where
  "side_levels side b = (if side = ''yes'' then sb_yes b else sb_no b)"

lemma sizes_set_level: "sizes (set_level ls p new) = (sizes ls)(p := new)"
  by (auto simp: fun_eq_iff sizes_def set_level_def update_conv' delete_conv')

text \<open>When a delta is accepted, and what it does.\<close>

definition delta_fits :: "int \<Rightarrow> string \<Rightarrow> decimal \<Rightarrow> decimal \<Rightarrow> SequencedBook \<Rightarrow> bool" where
  "delta_fits sequence side price d b \<longleftrightarrow> sb_state b = CURRENT \<and> sequence = sb_sequence b + 1 \<and>
     (side = ''yes'' \<or> side = ''no'') \<and> 0 < price \<and> price < 1 \<and>
     0 \<le> sizes (side_levels side b) price + d"

lemma delta_refused:
  assumes "\<not> delta_fits sequence side price d b"
  shows "delta_with sequence side (Inr price) (Inr d) t b = (to_gap b, Inr False)"
  using assms
  by (auto simp: delta_with_def delta_fits_def Let_def level_after_def sizes_def side_levels_def)

lemma delta_accepted:
  assumes "delta_fits sequence side price d b"
    and "delta_with sequence side (Inr price) (Inr d) t b = (b', r)"
  shows "r = Inr True" and "sb_sequence b' = sequence" and "sb_state b' = CURRENT"
    and "sizes (side_levels side b') =
      (sizes (side_levels side b))(price := sizes (side_levels side b) price + d)"
    and "\<And>other. (other = ''yes'') \<noteq> (side = ''yes'') \<Longrightarrow> side_levels other b' = side_levels other b"
    and "sb_price_mode b' = sb_price_mode b" and "sb_ticker b' = sb_ticker b"
    and "sb_observed_at b' = Some (astimezone_utc t)"
  using assms
  by (auto simp: delta_with_def delta_fits_def Let_def level_after_def sizes_def [symmetric]
      side_levels_def sizes_set_level split: if_splits)

lemma delta_ok:
  assumes "book_ok b" and "delta_with sequence side pv sv t b = (b', r)"
  shows "book_ok b'"
proof (cases "sb_state b = CURRENT \<and> sequence = sb_sequence b + 1 \<and> (side = ''yes'' \<or> side = ''no'')")
  case False
  with assms show ?thesis by (auto simp: delta_with_def split: if_splits)
next
  case True
  show ?thesis
  proof (cases pv)
    case (Inl e)
    with True assms show ?thesis by (auto simp: delta_with_def)
  next
    case pr: (Inr price)
    show ?thesis
    proof (cases sv)
      case (Inl e)
      with True assms pr show ?thesis by (auto simp: delta_with_def)
    next
      case (Inr d)
      let ?ls = "side_levels side b" and ?new = "level_after (side_levels side b) price d"
      have ls: "levels_ok ?ls" using assms(1) by (simp add: book_ok_def side_levels_def)
      show ?thesis
      proof (cases "price \<le> 0 \<or> price \<ge> 1 \<or> ?new < 0")
        case True
        then have "b' = to_gap b" using assms(2) pr Inr \<open>sb_state b = CURRENT \<and> _\<close>
          by (auto simp: delta_with_def Let_def side_levels_def split: if_splits)
        with assms(1) show ?thesis by simp
      next
        case False
        then have "levels_ok (set_level ?ls price ?new)" by (intro set_level_ok [OF ls]) auto
        with False show ?thesis using assms pr Inr True
          by (auto simp: delta_with_def Let_def side_levels_def book_ok_def split: if_splits)
      qed
    qed
  qed
qed

lemma snapshot_ok:
  assumes "snapshot s y n t h i m b = (b', Inr ())"
  shows "book_ok b'" and "sb_state b' = CURRENT" and "sb_sequence b' = s" and "0 \<le> s"
    and "book_levels y = Inr (sb_yes b')" and "book_levels n = Inr (sb_no b')"
  using assms
  by (auto simp: snapshot_def snapshot_with_def sbind_Inr book_ok_def book_levels_ok
      split: if_splits)

section \<open>A run of deltas is the sum of its changes\<close>

record Change =
  ch_side :: string
  ch_price :: decimal
  ch_delta :: decimal
  ch_at :: datetime

fun apply_changes :: "Change list \<Rightarrow> SequencedBook \<Rightarrow> SequencedBook" where
  "apply_changes [] b = b"
| "apply_changes (c # cs) b = apply_changes cs (fst (delta_with (sb_sequence b + 1) (ch_side c)
     (Inr (ch_price c)) (Inr (ch_delta c)) (ch_at c) b))"

definition net_change :: "string \<Rightarrow> decimal \<Rightarrow> Change list \<Rightarrow> decimal" where
  "net_change side price cs =
     dsum (map ch_delta (filter (\<lambda>c. ch_side c = side \<and> ch_price c = price) cs))"

lemma gap_stays:
  "sb_state b \<noteq> CURRENT \<Longrightarrow> sb_state (apply_changes cs b) \<noteq> CURRENT"
proof (induction cs arbitrary: b)
  case (Cons c cs)
  have "sb_state (fst (delta_with (sb_sequence b + 1) (ch_side c) (Inr (ch_price c))
      (Inr (ch_delta c)) (ch_at c) b)) \<noteq> CURRENT"
    using Cons.prems by (simp add: delta_with_def to_gap_def)
  with Cons.IH show ?case by simp
qed simp

lemma apply_changes_sum:
  assumes "sb_state (apply_changes cs b) = CURRENT" and "side = ''yes'' \<or> side = ''no''"
  shows "sizes (side_levels side (apply_changes cs b)) p =
      sizes (side_levels side b) p + net_change side p cs"
    and "sb_sequence (apply_changes cs b) = sb_sequence b + int (length cs)"
proof -
  have "sizes (side_levels side (apply_changes cs b)) p =
      sizes (side_levels side b) p + net_change side p cs \<and>
    sb_sequence (apply_changes cs b) = sb_sequence b + int (length cs)"
    using assms(1)
  proof (induction cs arbitrary: b)
    case Nil
    then show ?case by (simp add: net_change_def)
  next
    case (Cons c cs)
    obtain b' r where d: "delta_with (sb_sequence b + 1) (ch_side c) (Inr (ch_price c))
        (Inr (ch_delta c)) (ch_at c) b = (b', r)" by fastforce
    have fits: "delta_fits (sb_sequence b + 1) (ch_side c) (ch_price c) (ch_delta c) b"
    proof (rule ccontr)
      assume "\<not> delta_fits (sb_sequence b + 1) (ch_side c) (ch_price c) (ch_delta c) b"
      from delta_refused [OF this] d have "sb_state b' \<noteq> CURRENT" by (auto simp: to_gap_def)
      from gap_stays [OF this] Cons.prems d show False by simp
    qed
    note acc = delta_accepted [OF fits d]
    have side: "ch_side c = ''yes'' \<or> ch_side c = ''no''" using fits by (simp add: delta_fits_def)
    have "sizes (side_levels side b') p =
        sizes (side_levels side b) p + (if ch_side c = side \<and> ch_price c = p then ch_delta c else 0)"
    proof (cases "ch_side c = side")
      case True
      with acc(4) show ?thesis by simp
    next
      case False
      with side assms(2) have "(side = ''yes'') \<noteq> (ch_side c = ''yes'')" by auto
      from acc(5) [OF this] False show ?thesis by simp
    qed
    moreover have "sb_state (apply_changes cs b') = CURRENT" using Cons.prems d by simp
    note Cons.IH [OF this]
    ultimately show ?case using d acc(2) by (simp add: net_change_def)
  qed
  then show "sizes (side_levels side (apply_changes cs b)) p =
      sizes (side_levels side b) p + net_change side p cs"
    and "sb_sequence (apply_changes cs b) = sb_sequence b + int (length cs)" by simp_all
qed

lemma apply_changes_ok: "book_ok b \<Longrightarrow> book_ok (apply_changes cs b)"
proof (induction cs arbitrary: b)
  case (Cons c cs)
  from delta_ok [OF Cons.prems prod.collapse [symmetric]] Cons.IH show ?case by simp
qed simp

section \<open>What a view shows\<close>

lemma view_best_bid:
  assumes "levels_ok (sb_yes b)" and "bv_best_yes_bid (view now stale b) = Some p"
  shows "bv_best_bid_size (view now stale b) = Some (sizes (sb_yes b) p)"
    and "0 < sizes (sb_yes b) p" and "\<And>q. 0 < sizes (sb_yes b) q \<Longrightarrow> q \<le> p"
proof -
  from assms(2) have ne: "sb_yes b \<noteq> []" and p: "p = Max (set (map fst (sb_yes b)))"
    by (auto simp: view_def Let_def max_key_def split: if_splits)
  have "p \<in> set (map fst (sb_yes b))" unfolding p using ne by (intro Max_in) auto
  then obtain s where s: "(p, s) \<in> set (sb_yes b)" by auto
  with assms(1) have look: "map_of (sb_yes b) p = Some s" and "0 < s"
    by (auto simp: levels_ok_def)
  then show "0 < sizes (sb_yes b) p" by (simp add: sizes_def)
  show "bv_best_bid_size (view now stale b) = Some (sizes (sb_yes b) p)"
    using assms(2) look by (simp add: view_def Let_def sizes_def)
  show "q \<le> p" if "0 < sizes (sb_yes b) q" for q
  proof -
    from that have "q \<in> set (map fst (sb_yes b))"
      by (auto simp: sizes_def split: option.splits dest!: map_of_SomeD intro: rev_image_eqI)
    then show ?thesis unfolding p by (intro Max_ge) auto
  qed
qed

lemma view_no_bid:
  assumes "bv_best_yes_bid (view now stale b) = None"
  shows "sizes (sb_yes b) q = 0"
  using assms by (simp add: view_def Let_def max_key_def sizes_def split: if_splits)

lemma view_no_ask:
  assumes "bv_best_yes_ask (view now stale b) = None"
  shows "sizes (sb_no b) q = 0"
  using assms by (simp add: view_def Let_def max_key_def min_key_def sizes_def split: if_splits)

lemma occupied_between: "levels_ok ls \<Longrightarrow> 0 < sizes ls p \<Longrightarrow> 0 < p \<and> p < 1"
  by (auto simp: levels_ok_def sizes_def split: option.splits dest!: map_of_SomeD)

text \<open>The YES price an offer on the NO side stands for, in either price mode.\<close>

definition ask_price :: "PriceMode \<Rightarrow> decimal \<Rightarrow> decimal" where
  "ask_price mode p = (if mode = UNIFIED_YES then p else 1 - p)"

lemma view_best_ask:
  assumes "levels_ok (sb_no b)" and "bv_best_yes_ask (view now stale b) = Some a"
  shows "\<exists>p. a = ask_price (sb_price_mode b) p \<and> 0 < sizes (sb_no b) p \<and>
      bv_best_ask_size (view now stale b) = Some (sizes (sb_no b) p)"
    and "\<And>q. 0 < sizes (sb_no b) q \<Longrightarrow> a \<le> ask_price (sb_price_mode b) q"
proof -
  let ?K = "set (map fst (sb_no b))" and ?m = "sb_price_mode b"
  from assms(2) have ne: "sb_no b \<noteq> []"
    and a: "a = (if ?m = UNIFIED_YES then Min ?K else 1 - Max ?K)"
    by (auto simp: view_def Let_def max_key_def min_key_def split: if_splits)
  define p where "p = (if ?m = UNIFIED_YES then Min ?K else Max ?K)"
  have fin: "finite ?K" "?K \<noteq> {}" using ne by auto
  have "p \<in> ?K" using Min_in [OF fin] Max_in [OF fin] by (simp add: p_def)
  then obtain s where s: "(p, s) \<in> set (sb_no b)" by auto
  with assms(1) have look: "map_of (sb_no b) p = Some s" and pos: "0 < s"
    by (auto simp: levels_ok_def)
  have key: "(if ?m = UNIFIED_YES then a else 1 - a) = p" and ap: "a = ask_price ?m p"
    by (simp_all add: a p_def ask_price_def)
  have "bv_best_ask_size (view now stale b) = Some s"
    using assms(2) key look by (auto simp: view_def Let_def split: if_splits)
  with look pos ap show "\<exists>p. a = ask_price ?m p \<and> 0 < sizes (sb_no b) p \<and>
      bv_best_ask_size (view now stale b) = Some (sizes (sb_no b) p)"
    by (intro exI [of _ p]) (simp add: sizes_def)
  show "a \<le> ask_price ?m q" if "0 < sizes (sb_no b) q" for q
  proof -
    from that have "q \<in> ?K"
      by (auto simp: sizes_def split: option.splits dest!: map_of_SomeD intro: rev_image_eqI)
    with Min_le [OF fin(1)] Max_ge [OF fin(1)] show ?thesis
      by (simp add: a ask_price_def)
  qed
qed

lemma view_current:
  "bv_state (view now stale b) = CURRENT \<longleftrightarrow> sb_state b = CURRENT \<and>
     (\<forall>t. sb_observed_at b = Some t \<longrightarrow> now - t \<le> stale)"
  by (cases "sb_observed_at b") (auto simp: view_def Let_def)

end
