(* ===== verification/Market_Manager.thy ===== *)
theory Market_Manager
  imports Market_Book Tables
begin

text \<open>
  \<open>services/real_time_market_data\<close>: the command protocol (\<open>protocol.py\<close>), the event parsers
  (\<open>events.py\<close>), the subscription manager with its per-subscription sequence (\<open>manager.py\<close>)
  and the reconnect supervisor (\<open>session.py\<close>). Connection epochs are texts, and an incoming
  message is its dictionary with the nested \<open>msg\<close> dictionary separated.
\<close>

record WireMessage =
  wm_type :: "hashable option"
  wm_id :: "hashable option"
  wm_sid :: "hashable option"
  wm_seq :: "hashable option"
  wm_msg :: "json_obj option"

text \<open>\<open>isinstance(v, int)\<close> accepts booleans; \<open>type(v) is int\<close> does not.\<close>

definition as_int :: "hashable option \<Rightarrow> int option" where
  "as_int v = (case v of Some (HInt n) \<Rightarrow> Some n
     | Some (HBool b) \<Rightarrow> Some (if b then 1 else 0) | _ \<Rightarrow> None)"

definition strict_int :: "hashable option \<Rightarrow> int option" where
  "strict_int v = (case v of Some (HInt n) \<Rightarrow> Some n | _ \<Rightarrow> None)"

definition as_str :: "hashable option \<Rightarrow> string option" where
  "as_str v = (case v of Some (HStr s) \<Rightarrow> Some s | _ \<Rightarrow> None)"

section \<open>The command protocol\<close>

datatype Channel = ORDERBOOK | TICKER | TRADE | LIFECYCLE | MVE_LIFECYCLE

definition Channel_value :: "Channel \<Rightarrow> string" where
  "Channel_value c = (case c of ORDERBOOK \<Rightarrow> ''orderbook_delta'' | TICKER \<Rightarrow> ''ticker''
     | TRADE \<Rightarrow> ''trade'' | LIFECYCLE \<Rightarrow> ''market_lifecycle_v2''
     | MVE_LIFECYCLE \<Rightarrow> ''multivariate_market_lifecycle'')"

datatype CommandKind = SUBSCRIBE | UNSUBSCRIBE | LIST | UPDATE

definition CommandKind_value :: "CommandKind \<Rightarrow> string" where
  "CommandKind_value k = (case k of SUBSCRIBE \<Rightarrow> ''subscribe'' | UNSUBSCRIBE \<Rightarrow> ''unsubscribe''
     | LIST \<Rightarrow> ''list_subscriptions'' | UPDATE \<Rightarrow> ''update_subscription'')"

record PendingCommand =
  pc_command_id :: int
  pc_kind :: CommandKind
  pc_channel :: "Channel option"
  pc_market_tickers :: "string list"
  pc_action :: "string option"

record Subscription =
  su_epoch :: string
  su_sid :: int
  su_channel :: Channel
  su_command_id :: int
  su_market_tickers :: "string list"
  su_use_yes_price :: "bool option"

record ProtocolState =
  pt_epoch :: string
  pt_next_id :: int
  pt_pending :: "(int \<times> PendingCommand) list"
  pt_subscriptions :: "(int \<times> Subscription) list"
  pt_errors :: "hashable list"

definition new_protocol :: "string \<Rightarrow> ProtocolState" where
  "new_protocol epoch = \<lparr>pt_epoch = epoch, pt_next_id = 1, pt_pending = [],
     pt_subscriptions = [], pt_errors = []\<rparr>"

record Command =
  cm_id :: int
  cm_cmd :: string
  cm_params :: "json_obj option"

definition command :: "CommandKind \<Rightarrow> json_obj option \<Rightarrow> Channel option \<Rightarrow> string list \<Rightarrow>
    string option \<Rightarrow> ProtocolState \<Rightarrow> ProtocolState \<times> Command" where
  "command kind params channel tickers action p =
     (let command_id = pt_next_id p
      in (p\<lparr>pt_next_id := command_id + 1,
            pt_pending := AList.update command_id
              \<lparr>pc_command_id = command_id, pc_kind = kind, pc_channel = channel,
               pc_market_tickers = tickers, pc_action = action\<rparr> (pt_pending p)\<rparr>,
          \<lparr>cm_id = command_id, cm_cmd = CommandKind_value kind, cm_params = params\<rparr>))"

definition json_strings :: "string list \<Rightarrow> hashable" where
  "json_strings xs = HList (map HStr xs)"

definition subscribe :: "Channel \<Rightarrow> string list \<Rightarrow> (ProtocolState, Command) handler" where
  "subscribe channel tickers p =
     (if channel = ORDERBOOK \<and> tickers = []
      then (p, Inl (ProtocolError ''orderbook subscription requires market tickers''))
      else let params = [(''channels'', json_strings [Channel_value channel])]
             @ (if channel = ORDERBOOK
                then [(''market_tickers'', json_strings tickers), (''use_yes_price'', HBool True)]
                else if tickers \<noteq> [] then [(''market_tickers'', json_strings tickers)] else []);
             (p', c) = command SUBSCRIBE (Some params) (Some channel) tickers None p
        in (p', Inr c))"

definition unsubscribe :: "int \<Rightarrow> (ProtocolState, Command) handler" where
  "unsubscribe sid p = (let (p', c) = command UNSUBSCRIBE
     (Some [(''sids'', HList [HInt sid])]) None [] None p in (p', Inr c))"

definition list_subscriptions :: "(ProtocolState, Command) handler" where
  "list_subscriptions p = (let (p', c) = command LIST None None [] None p in (p', Inr c))"

definition update_subscription :: "int \<Rightarrow> string \<Rightarrow> string list \<Rightarrow> (ProtocolState, Command) handler" where
  "update_subscription sid action tickers p =
     (if action \<notin> set [''add_markets'', ''delete_markets'', ''get_snapshot'']
      then (p, Inl (ProtocolError ''unsupported subscription update''))
      else if tickers = [] then (p, Inl (ProtocolError ''update requires market tickers''))
      else let (p', c) = command UPDATE (Some [(''sid'', HInt sid), (''action'', HStr action),
             (''market_tickers'', json_strings tickers)]) None tickers (Some action) p
        in (p', Inr c))"

text \<open>The pending command is popped before the answer is examined.\<close>

definition protocol_error_text :: "WireMessage \<Rightarrow> hashable" where
  "protocol_error_text raw = (case wm_msg raw of None \<Rightarrow> HStr ''protocol error''
     | Some m \<Rightarrow> (case map_of m ''msg'' of
         None \<Rightarrow> HStr ''protocol error''
       | Some v \<Rightarrow> if v \<in> set [HStr '''', HInt 0, HBool False, HNone, HDec 0, HList []]
           then HStr ''protocol error'' else v))"

definition response :: "WireMessage \<Rightarrow> (ProtocolState, Subscription option) handler" where
  "response raw p = (case as_str (wm_type raw) of
     None \<Rightarrow> (p, Inl (ProtocolError ''malformed command response''))
   | Some kind \<Rightarrow> (case Option.bind (strict_int (wm_id raw)) (\<lambda>n.
         if n < 0 then None else map_option (Pair n) (map_of (pt_pending p) n)) of
       None \<Rightarrow> (p, Inl (ProtocolError ''unknown command id''))
     | Some (command_id, pending) \<Rightarrow>
         let p1 = p\<lparr>pt_pending := AList.delete command_id (pt_pending p)\<rparr> in
         if kind = ''error'' then (p1\<lparr>pt_errors := pt_errors p1 @ [protocol_error_text raw]\<rparr>, Inr None)
         else if kind = ''subscribed'' then
           (case (Option.bind (wm_msg raw) (\<lambda>m. strict_int (map_of m ''sid'')), pc_channel pending) of
              (Some sid, Some channel) \<Rightarrow>
                if sid < 0 then (p1, Inl (ProtocolError ''malformed subscribed response''))
                else let s = \<lparr>su_epoch = pt_epoch p1, su_sid = sid, su_channel = channel,
                     su_command_id = command_id, su_market_tickers = pc_market_tickers pending,
                     su_use_yes_price = (if channel = ORDERBOOK then Some True else None)\<rparr>
                  in (p1\<lparr>pt_subscriptions := AList.update sid s (pt_subscriptions p1)\<rparr>, Inr (Some s))
            | _ \<Rightarrow> (p1, Inl (ProtocolError ''malformed subscribed response'')))
         else if kind = ''ok'' then (p1, Inr None)
         else (p1, Inl (ProtocolError ''unexpected command response type''))))"

text \<open>Command ids: positive, below the next one, each pending once.\<close>

definition protocol_ok :: "ProtocolState \<Rightarrow> bool" where
  "protocol_ok p \<longleftrightarrow> 1 \<le> pt_next_id p \<and> distinct (map fst (pt_pending p)) \<and>
     (\<forall>(n, c) \<in> set (pt_pending p). 1 \<le> n \<and> n < pt_next_id p \<and> pc_command_id c = n)"

lemma protocol_ok_new: "protocol_ok (new_protocol e)"
  by (simp add: protocol_ok_def new_protocol_def)

lemma update_fresh: "k \<notin> fst ` set al \<Longrightarrow> AList.update k v al = al @ [(k, v)]"
  by (induction al) auto

lemma command_ok:
  assumes "protocol_ok p" and "command k ps ch ts a p = (p', c)"
  shows "protocol_ok p'" and "cm_id c = pt_next_id p" and "cm_id c \<notin> fst ` set (pt_pending p)"
    and "fst ` set (pt_pending p') = insert (cm_id c) (fst ` set (pt_pending p))"
    and "pt_next_id p' = pt_next_id p + 1"
proof -
  have fresh: "pt_next_id p \<notin> fst ` set (pt_pending p)"
    using assms(1) by (force simp: protocol_ok_def)
  note up = update_fresh [OF fresh]
  have "1 \<le> n \<and> n < pt_next_id p + 1 \<and> pc_command_id d = n" if "(n, d) \<in> set (pt_pending p)" for n d
    using assms(1) that by (fastforce simp: protocol_ok_def)
  with assms fresh show "protocol_ok p'"
    by (auto simp: command_def Let_def protocol_ok_def up)
  show "cm_id c = pt_next_id p" and "pt_next_id p' = pt_next_id p + 1"
    using assms by (auto simp: command_def Let_def)
  show "cm_id c \<notin> fst ` set (pt_pending p)"
    and "fst ` set (pt_pending p') = insert (cm_id c) (fst ` set (pt_pending p))"
    using assms(2) fresh by (force simp: command_def Let_def up)+
qed

text \<open>A response is accepted only for a pending command, and it is no longer pending then.\<close>

lemma response_once:
  assumes "response raw p = (p', Inr s)"
  shows "\<exists>n. strict_int (wm_id raw) = Some n \<and> n \<in> fst ` set (pt_pending p) \<and>
    fst ` set (pt_pending p') = fst ` set (pt_pending p) - {n}"
proof -
  from assms obtain kind where kind: "as_str (wm_type raw) = Some kind"
    by (cases "as_str (wm_type raw)") (auto simp: response_def)
  from assms kind obtain n c where n: "strict_int (wm_id raw) = Some n"
    and c: "map_of (pt_pending p) n = Some c" and "0 \<le> n"
    by (cases "strict_int (wm_id raw)"; cases "map_of (pt_pending p) (the (strict_int (wm_id raw)))")
      (auto simp: response_def split: if_splits)
  have "pt_pending p' = AList.delete n (pt_pending p)"
    using assms kind n c \<open>0 \<le> n\<close>
    by (auto simp: response_def Let_def split: if_splits option.splits)
  moreover from c have "(n, c) \<in> set (pt_pending p)" by (rule map_of_SomeD)
  ultimately show ?thesis using n
    by (intro exI [of _ n]) (force simp: AList.delete_eq)
qed

section \<open>Each command is answered once\<close>

text \<open>
  The history of a protocol state interleaves commands with incoming responses. A response claims
  its command id: \<open>answered_ids\<close> are the ids issued and no longer pending.
\<close>

datatype ProtocolOp = PSubscribe Channel "string list" | PUnsubscribe int | PList
  | PUpdate int string "string list"

fun protocol_exec :: "ProtocolOp \<Rightarrow> ProtocolState \<Rightarrow> ProtocolState" where
  "protocol_exec (PSubscribe channel tickers) p = fst (subscribe channel tickers p)"
| "protocol_exec (PUnsubscribe sid) p = fst (unsubscribe sid p)"
| "protocol_exec PList p = fst (list_subscriptions p)"
| "protocol_exec (PUpdate sid action tickers) p = fst (update_subscription sid action tickers p)"

definition answers :: "WireMessage \<Rightarrow> ProtocolState \<Rightarrow> bool" where
  "answers raw p \<longleftrightarrow> as_str (wm_type raw) \<noteq> None \<and>
     (case strict_int (wm_id raw) of None \<Rightarrow> False
      | Some n \<Rightarrow> 0 \<le> n \<and> map_of (pt_pending p) n \<noteq> None)"

definition try_response :: "WireMessage \<Rightarrow> ProtocolState \<Rightarrow> ProtocolState \<times> bool" where
  "try_response raw p = (fst (response raw p), answers raw p)"

definition answered_ids :: "ProtocolState \<Rightarrow> int option set" where
  "answered_ids p = Some ` ({n. 1 \<le> n \<and> n < pt_next_id p} - fst ` set (pt_pending p))"

lemma response_unanswered: "\<not> answers raw p \<Longrightarrow> fst (response raw p) = p"
  by (cases "as_str (wm_type raw)"; cases "strict_int (wm_id raw)")
    (auto simp: response_def answers_def split: option.splits)

lemma response_answered:
  assumes "answers raw p" and "strict_int (wm_id raw) = Some n"
  shows "pt_pending (fst (response raw p)) = AList.delete n (pt_pending p)"
    and "pt_next_id (fst (response raw p)) = pt_next_id p"
proof -
  from assms obtain kind c where "as_str (wm_type raw) = Some kind" "0 \<le> n"
    "map_of (pt_pending p) n = Some c"
    by (auto simp: answers_def)
  with assms(2) show "pt_pending (fst (response raw p)) = AList.delete n (pt_pending p)"
    and "pt_next_id (fst (response raw p)) = pt_next_id p"
    by (auto simp: response_def Let_def split: option.splits)
qed

lemma protocol_ok_delete:
  assumes "protocol_ok p" and "pt_pending q = AList.delete n (pt_pending p)"
    and "pt_next_id q = pt_next_id p"
  shows "protocol_ok q"
  using assms distinct_delete [of "pt_pending p" n] by (auto simp: protocol_ok_def AList.delete_eq)

definition commanded :: "ProtocolState \<Rightarrow> ProtocolState \<Rightarrow> bool" where
  "commanded p q \<longleftrightarrow> (\<exists>k ps ch ts a. q = fst (command k ps ch ts a p))"

lemma commandedI [simp, intro]: "commanded p (fst (command k ps ch ts a p))"
  unfolding commanded_def by blast

lemma exec_command: "protocol_exec op p = p \<or> commanded p (protocol_exec op p)"
  by (cases op) (simp_all add: subscribe_def unsubscribe_def list_subscriptions_def
      update_subscription_def Let_def split_beta)

lemma command_answered:
  assumes "protocol_ok p"
  shows "answered_ids (fst (command k ps ch ts a p)) = answered_ids p"
proof -
  obtain q c where c: "command k ps ch ts a p = (q, c)" by fastforce
  note ok = command_ok [OF assms c]
  have "1 \<le> pt_next_id p" using assms by (simp add: protocol_ok_def)
  then have "{n. 1 \<le> n \<and> n < pt_next_id q} - fst ` set (pt_pending q) =
      {n. 1 \<le> n \<and> n < pt_next_id p} - fst ` set (pt_pending p)"
    unfolding ok(4,5) using ok(2) by auto
  with c show ?thesis by (simp add: answered_ids_def)
qed

lemma pending_range: "protocol_ok p \<Longrightarrow> n \<in> fst ` set (pt_pending p) \<Longrightarrow> 1 \<le> n \<and> n < pt_next_id p"
  by (force simp: protocol_ok_def)

interpretation protocol_answer: exactly_once
  try_response protocol_exec "\<lambda>raw. strict_int (wm_id raw)" answered_ids protocol_ok
proof unfold_locales
  fix raw and p p' :: ProtocolState and b and x
  assume ok: "protocol_ok p"
  show "strict_int (wm_id raw) \<notin> answered_ids p" if "try_response raw p = (p', True)"
    using that by (auto simp: try_response_def answers_def answered_ids_def split: option.splits
        dest!: map_of_SomeD intro: rev_image_eqI)
  show "answered_ids p' = (if b then insert (strict_int (wm_id raw)) (answered_ids p)
      else answered_ids p)" if "try_response raw p = (p', b)"
  proof (cases "answers raw p")
    case False
    with that response_unanswered show ?thesis by (auto simp: try_response_def)
  next
    case True
    then obtain n c where n: "strict_int (wm_id raw) = Some n" "map_of (pt_pending p) n = Some c"
      by (auto simp: answers_def split: option.splits)
    then have "n \<in> fst ` set (pt_pending p)" by (force dest: map_of_SomeD)
    note range = pending_range [OF ok this]
    have "{k. 1 \<le> k \<and> k < pt_next_id p} - fst ` set (AList.delete n (pt_pending p)) =
        insert n ({k. 1 \<le> k \<and> k < pt_next_id p} - fst ` set (pt_pending p))"
      using range by (force simp: AList.delete_eq)
    with that True n response_answered [OF True n(1)] show ?thesis
      by (auto simp: try_response_def answered_ids_def)
  qed
  show "protocol_ok p'" if "try_response raw p = (p', b)"
  proof (cases "answers raw p")
    case False
    with that response_unanswered ok show ?thesis by (auto simp: try_response_def)
  next
    case True
    then obtain n where "strict_int (wm_id raw) = Some n" by (auto simp: answers_def split: option.splits)
    from protocol_ok_delete [OF ok response_answered [OF True this]] that show ?thesis
      by (simp add: try_response_def)
  qed
  show "answered_ids (protocol_exec x p) = answered_ids p"
    using exec_command [of x p] command_answered [OF ok] by (auto simp: commanded_def)
  show "protocol_ok (protocol_exec x p)"
    using exec_command [of x p] command_ok(1) [OF ok prod.collapse [symmetric]] ok
    by (auto simp: commanded_def)
qed

section \<open>Event parsing\<close>

definition event_time :: "hashable option \<Rightarrow> instant result" where
  "event_time v = (case as_int v of
       Some n \<Rightarrow> if n < 0 then Inl (UniverseValidationError ''ts_ms missing or invalid'')
         else Inr (milliseconds n)
     | None \<Rightarrow> Inl (UniverseValidationError ''ts_ms missing or invalid''))"

definition envelope :: "WireMessage \<Rightarrow> string \<Rightarrow> (int \<times> int \<times> json_obj) result" where
  "envelope raw expected =
     (case (as_int (wm_sid raw), as_int (wm_seq raw), wm_msg raw) of
        (Some sid, Some seq, Some msg) \<Rightarrow>
          if wm_type raw = Some (HStr expected) then Inr (sid, seq, msg)
          else Inl (UniverseValidationError (''malformed '' @ expected))
      | _ \<Rightarrow> Inl (UniverseValidationError (''malformed '' @ expected)))"

definition exact_field :: "json_obj \<Rightarrow> string \<Rightarrow> decimal result" where
  "exact_field msg key = exact (case map_of msg key of None \<Rightarrow> HNone | Some v \<Rightarrow> v) key"

record BookSnapshotEvent =
  bs_sid :: int
  bs_seq :: int
  bs_ticker :: string
  bs_market_id :: string
  bs_yes :: levels
  bs_no :: levels
  bs_mode :: PriceMode

definition parse_levels :: "json_obj \<Rightarrow> string \<Rightarrow> levels result" where
  "parse_levels msg name = (case map_of msg name of
       Some (HList items) \<Rightarrow> rmap (\<lambda>item. case item of
           HList [p, s] \<Rightarrow> rbind (exact p ''price'') (\<lambda>price.
             rbind (exact s ''size'') (\<lambda>sz. Inr (price, sz)))
         | _ \<Rightarrow> Inl (UniverseValidationError ''book level malformed'')) items
     | _ \<Rightarrow> Inl (UniverseValidationError ''book side missing''))"

definition parse_snapshot :: "WireMessage \<Rightarrow> PriceMode \<Rightarrow> BookSnapshotEvent result" where
  "parse_snapshot raw mode = rbind (envelope raw ''orderbook_snapshot'') (\<lambda>(sid, seq, msg).
     case (as_str (map_of msg ''market_ticker''), as_str (map_of msg ''market_id'')) of
       (Some ticker, Some market_id) \<Rightarrow>
         rbind (parse_levels msg ''yes_dollars_fp'') (\<lambda>yes.
         rbind (parse_levels msg ''no_dollars_fp'') (\<lambda>no.
           Inr \<lparr>bs_sid = sid, bs_seq = seq, bs_ticker = ticker, bs_market_id = market_id,
             bs_yes = yes, bs_no = no, bs_mode = mode\<rparr>))
     | _ \<Rightarrow> Inl (UniverseValidationError ''book identity missing''))"

record BookDeltaEvent =
  be_sid :: int
  be_seq :: int
  be_ticker :: string
  be_market_id :: string
  be_price :: decimal
  be_delta :: decimal
  be_side :: string
  be_exchange_at :: instant

definition parse_delta :: "WireMessage \<Rightarrow> BookDeltaEvent result" where
  "parse_delta raw = rbind (envelope raw ''orderbook_delta'') (\<lambda>(sid, seq, msg).
     case (as_str (map_of msg ''side''), as_str (map_of msg ''market_ticker''),
           as_str (map_of msg ''market_id'')) of
       (Some side, Some ticker, Some market_id) \<Rightarrow>
         if side \<notin> set [''yes'', ''no'']
         then Inl (UniverseValidationError ''delta identity or side invalid'')
         else rbind (exact_field msg ''price_dollars'') (\<lambda>price.
           rbind (exact_field msg ''delta_fp'') (\<lambda>d.
           rbind (event_time (map_of msg ''ts_ms'')) (\<lambda>t.
             Inr \<lparr>be_sid = sid, be_seq = seq, be_ticker = ticker, be_market_id = market_id,
               be_price = price, be_delta = d, be_side = side, be_exchange_at = t\<rparr>)))
     | _ \<Rightarrow> Inl (UniverseValidationError ''delta identity or side invalid''))"

record TradeEvent =
  te_sid :: int
  te_seq :: int
  te_trade_id :: string
  te_ticker :: string
  te_yes_price :: decimal
  te_no_price :: decimal
  te_count :: decimal
  te_taker_outcome_side :: string
  te_taker_book_side :: string
  te_exchange_at :: instant

definition parse_trade :: "WireMessage \<Rightarrow> TradeEvent result" where
  "parse_trade raw = rbind (envelope raw ''trade'') (\<lambda>(sid, seq, msg).
     case (as_str (map_of msg ''taker_outcome_side''), as_str (map_of msg ''taker_book_side'')) of
       (Some outcome, Some book) \<Rightarrow>
         if outcome \<notin> set [''yes'', ''no''] \<or> book \<notin> set [''bid'', ''ask'']
         then Inl (UniverseValidationError ''canonical taker direction missing'')
         else (case (as_str (map_of msg ''trade_id''), as_str (map_of msg ''market_ticker'')) of
           (Some trade_id, Some ticker) \<Rightarrow>
             rbind (exact_field msg ''yes_price_dollars'') (\<lambda>yes.
             rbind (exact_field msg ''no_price_dollars'') (\<lambda>no.
             if yes + no \<noteq> 1 then Inl (UniverseValidationError ''trade prices do not complement'')
             else rbind (exact_field msg ''count_fp'') (\<lambda>cnt.
               rbind (event_time (map_of msg ''ts_ms'')) (\<lambda>t.
                 Inr \<lparr>te_sid = sid, te_seq = seq, te_trade_id = trade_id, te_ticker = ticker,
                   te_yes_price = yes, te_no_price = no, te_count = cnt,
                   te_taker_outcome_side = outcome, te_taker_book_side = book,
                   te_exchange_at = t\<rparr>))))
         | _ \<Rightarrow> Inl (UniverseValidationError ''trade identity missing''))
     | _ \<Rightarrow> Inl (UniverseValidationError ''canonical taker direction missing''))"

lemma parse_trade_complement: "parse_trade raw = Inr t \<Longrightarrow> te_yes_price t + te_no_price t = 1"
proof -
  assume p: "parse_trade raw = Inr t"
  then obtain sid seq msg where env: "envelope raw ''trade'' = Inr (sid, seq, msg)"
    unfolding parse_trade_def rbind_eq_Inr by auto
  from p env show ?thesis
    by (cases "as_str (map_of msg ''taker_outcome_side'')";
        cases "as_str (map_of msg ''taker_book_side'')";
        cases "as_str (map_of msg ''trade_id'')"; cases "as_str (map_of msg ''market_ticker'')")
      (simp_all add: parse_trade_def rbind_eq_Inr split: if_splits, auto)
qed

end
