(* ===== verification/Market_Recovery.thy ===== *)
theory Market_Recovery
  imports Market_Manager
begin

text \<open>
  \<open>services/real_time_market_data/manager.py\<close> and \<open>session.py\<close>: per-subscription sequence
  checking, installation of snapshots, application of deltas, backpressure, reconnection. The
  invariant: every book stays well formed, and a detected gap invalidates every book of the
  subscription until a snapshot replaces it.
\<close>

datatype RealtimeState =
    RS_DISCONNECTED | RS_CONNECTING | RS_AUTHENTICATING | RS_SUBSCRIBING | RS_SNAPSHOTTING
  | RS_HEALTHY | RS_DEGRADED | RS_GAP_DETECTED | RS_STALE | RS_BACKPRESSURED | RS_RECONNECTING
  | RS_FAILED

record Gap =
  gp_epoch :: string
  gp_sid :: int
  gp_expected :: int
  gp_actual :: int
  gp_markets :: "string list"
  gp_started_at :: instant
  gp_recovery_method :: "string option"
  gp_recovered_at :: "instant option"

record Liveness =
  lv_last_frame_at :: "instant option"
  lv_last_application_at :: "instant option"

definition frame :: "instant \<Rightarrow> bool \<Rightarrow> Liveness \<Rightarrow> Liveness" where
  "frame now application l = l\<lparr>lv_last_frame_at := Some now,
     lv_last_application_at := (if application then Some now else lv_last_application_at l)\<rparr>"

definition stalled :: "instant \<Rightarrow> duration \<Rightarrow> Liveness \<Rightarrow> bool" where
  "stalled now timeout l = (case lv_last_frame_at l of None \<Rightarrow> True
     | Some t \<Rightarrow> now - t > timeout)"

text \<open>Sets of tickers are lists without duplicates; the queue is a list.\<close>

record SubscriptionManager =
  mg_max_depth_markets :: nat
  mg_desired_depth :: "string list"
  mg_subscribed_depth :: "string list"
  mg_pending_add :: "string list"
  mg_pending_remove :: "string list"
  mg_queue_limit :: nat
  mg_queue :: "WireMessage list"
  mg_state :: RealtimeState
  mg_epoch :: "string option"
  mg_protocol :: "ProtocolState option"
  mg_last_seq :: "(int \<times> int) list"
  mg_sid_markets :: "(int \<times> string list) list"
  mg_books :: "(string \<times> SequencedBook) list"
  mg_gaps :: "Gap list"
  mg_reconnect_count :: nat
  mg_liveness :: Liveness
  mg_processing_lag_ms :: int

definition new_manager :: SubscriptionManager where
  "new_manager = \<lparr>mg_max_depth_markets = 250, mg_desired_depth = [], mg_subscribed_depth = [],
     mg_pending_add = [], mg_pending_remove = [], mg_queue_limit = 10000, mg_queue = [],
     mg_state = RS_DISCONNECTED, mg_epoch = None, mg_protocol = None, mg_last_seq = [],
     mg_sid_markets = [], mg_books = [], mg_gaps = [], mg_reconnect_count = 0,
     mg_liveness = \<lparr>lv_last_frame_at = None, lv_last_application_at = None\<rparr>,
     mg_processing_lag_ms = 0\<rparr>"

definition zero_uuid :: string where
  "zero_uuid = ''00000000-0000-0000-0000-000000000000''"

definition epoch_text :: "SubscriptionManager \<Rightarrow> string" where
  "epoch_text m = (case mg_epoch m of None \<Rightarrow> zero_uuid | Some e \<Rightarrow> e)"

definition map_books :: "(SequencedBook \<Rightarrow> SequencedBook) \<Rightarrow> SubscriptionManager \<Rightarrow>
    SubscriptionManager" where
  "map_books f m = m\<lparr>mg_books := map (apsnd f) (mg_books m)\<rparr>"

definition to_stale :: "SequencedBook \<Rightarrow> SequencedBook" where
  "to_stale b = b\<lparr>sb_state := STALE\<rparr>"

definition new_epoch :: "string \<Rightarrow> SubscriptionManager \<Rightarrow> SubscriptionManager" where
  "new_epoch uuid m = map_books to_stale
     (m\<lparr>mg_epoch := Some uuid, mg_protocol := Some (new_protocol uuid), mg_last_seq := [],
        mg_sid_markets := [], mg_subscribed_depth := [], mg_state := RS_SUBSCRIBING\<rparr>)"

definition set_depth_watch :: "string list \<Rightarrow> SubscriptionManager \<Rightarrow> SubscriptionManager" where
  "set_depth_watch tickers m =
     (let bounded = take (mg_max_depth_markets m) (py_sorted tickers)
      in m\<lparr>mg_desired_depth := bounded,
           mg_pending_add := filter (\<lambda>t. t \<notin> set (mg_subscribed_depth m)) bounded,
           mg_pending_remove := filter (\<lambda>t. t \<notin> set bounded) (mg_subscribed_depth m)\<rparr>)"

definition on_protocol :: "(ProtocolState, 'a) handler \<Rightarrow> (SubscriptionManager, 'a) handler" where
  "on_protocol h m = (case mg_protocol m of
       None \<Rightarrow> (m, Inl (RuntimeError ''no connection epoch''))
     | Some p \<Rightarrow> (let (p', r) = h p in (m\<lparr>mg_protocol := Some p'\<rparr>, r)))"

definition global_commands :: "(SubscriptionManager, Command list) handler" where
  "global_commands =
     sbind (on_protocol (subscribe TICKER [])) (\<lambda>a.
     sbind (on_protocol (subscribe TRADE [])) (\<lambda>b.
     sbind (on_protocol (subscribe LIFECYCLE [])) (\<lambda>c.
     sbind (on_protocol (subscribe MVE_LIFECYCLE [])) (\<lambda>d. sreturn [a, b, c, d]))))"

definition depth_commands :: "int option \<Rightarrow> (SubscriptionManager, Command list) handler" where
  "depth_commands sid m = (case mg_protocol m of
       None \<Rightarrow> (m, Inl (RuntimeError ''no connection epoch''))
     | Some _ \<Rightarrow> (case sid of
         None \<Rightarrow> if mg_desired_depth m \<noteq> []
           then sbind (on_protocol (subscribe ORDERBOOK (py_sorted (mg_desired_depth m))))
             (\<lambda>c. sreturn [c]) m
           else (m, Inr [])
       | Some n \<Rightarrow>
           sbind (if mg_pending_add m \<noteq> []
               then sbind (on_protocol (update_subscription n ''add_markets''
                 (py_sorted (mg_pending_add m)))) (\<lambda>c. sreturn [c])
               else sreturn []) (\<lambda>add.
           sbind (if mg_pending_remove m \<noteq> []
               then sbind (on_protocol (update_subscription n ''delete_markets''
                 (py_sorted (mg_pending_remove m)))) (\<lambda>c. sreturn [c])
               else sreturn []) (\<lambda>rem. sreturn (add @ rem))) m))"

definition sid_tickers :: "int \<Rightarrow> SubscriptionManager \<Rightarrow> string list" where
  "sid_tickers sid m = (case map_of (mg_sid_markets m) sid of None \<Rightarrow> [] | Some ts \<Rightarrow> ts)"

definition gap_books :: "string list \<Rightarrow> (string \<times> SequencedBook) list \<Rightarrow>
    (string \<times> SequencedBook) list" where
  "gap_books markets books = map (\<lambda>(t, b). (t, if t \<in> set markets then to_gap b else b)) books"

definition sequence_check :: "int \<Rightarrow> int \<Rightarrow> instant \<Rightarrow> SubscriptionManager \<Rightarrow>
    SubscriptionManager \<times> bool" where
  "sequence_check sid seq now m = (case map_of (mg_last_seq m) sid of
       None \<Rightarrow> (m\<lparr>mg_last_seq := AList.update sid seq (mg_last_seq m)\<rparr>, True)
     | Some previous \<Rightarrow>
         if seq \<noteq> previous + 1 then
           (let markets = py_sorted (sid_tickers sid m)
            in (m\<lparr>mg_state := RS_GAP_DETECTED,
                  mg_gaps := mg_gaps m @ [\<lparr>gp_epoch = epoch_text m, gp_sid = sid,
                    gp_expected = previous + 1, gp_actual = seq, gp_markets = markets,
                    gp_started_at = now, gp_recovery_method = None, gp_recovered_at = None\<rparr>],
                  mg_books := gap_books markets (mg_books m)\<rparr>, False))
         else (m\<lparr>mg_last_seq := AList.update sid seq (mg_last_seq m)\<rparr>, True))"

definition gap_from_raw :: "WireMessage \<Rightarrow> instant \<Rightarrow> SubscriptionManager \<Rightarrow> SubscriptionManager" where
  "gap_from_raw raw now m =
     (let sid = (case as_int (wm_sid raw) of None \<Rightarrow> -1 | Some n \<Rightarrow> n);
          seq = (case as_int (wm_seq raw) of None \<Rightarrow> -1 | Some n \<Rightarrow> n);
          expected = (case map_of (mg_last_seq m) sid of None \<Rightarrow> -1 | Some n \<Rightarrow> n) + 1
      in m\<lparr>mg_gaps := mg_gaps m @ [\<lparr>gp_epoch = epoch_text m, gp_sid = sid,
           gp_expected = expected, gp_actual = seq, gp_markets = py_sorted (sid_tickers sid m),
           gp_started_at = now, gp_recovery_method = None, gp_recovered_at = None\<rparr>]\<rparr>)"

definition enqueue :: "WireMessage \<Rightarrow> instant \<Rightarrow> SubscriptionManager \<Rightarrow>
    SubscriptionManager \<times> bool" where
  "enqueue raw now m0 =
     (let m = m0\<lparr>mg_liveness := frame now True (mg_liveness m0)\<rparr>
      in if length (mg_queue m) \<ge> mg_queue_limit m
         then (gap_from_raw raw now (m\<lparr>mg_state := RS_BACKPRESSURED\<rparr>), False)
         else (m\<lparr>mg_queue := mg_queue m @ [raw]\<rparr>, True))"

definition recover_gap :: "int \<Rightarrow> instant \<Rightarrow> Gap list \<Rightarrow> Gap list" where
  "recover_gap sid now gaps =
     (let is_open = (\<lambda>g. gp_sid g = sid \<and> gp_recovered_at g = None)
      in case filter (\<lambda>i. is_open (gaps ! i)) (rev [0..<length gaps]) of
           [] \<Rightarrow> gaps
         | i # _ \<Rightarrow> gaps[i := (gaps ! i)\<lparr>gp_recovery_method := Some ''websocket_get_snapshot'',
             gp_recovered_at := Some now\<rparr>])"

definition add_ticker :: "string \<Rightarrow> string list \<Rightarrow> string list" where
  "add_ticker t ts = (if t \<in> set ts then ts else ts @ [t])"

definition book_or_new :: "string \<Rightarrow> SubscriptionManager \<Rightarrow> SequencedBook" where
  "book_or_new t m = (case map_of (mg_books m) t of None \<Rightarrow> new_book t | Some b \<Rightarrow> b)"

text \<open>
  The levels are sent through \<open>str\<close> and parsed again, which is the identity on finite Decimals:
  the model passes the parsed levels on.
\<close>

definition register_snapshot :: "BookSnapshotEvent \<Rightarrow> instant \<Rightarrow> SubscriptionManager \<Rightarrow>
    SubscriptionManager" where
  "register_snapshot e now m0 =
     (let (m1, ok) = sequence_check (bs_sid e) (bs_seq e) now m0;
          m2 = (if \<not> ok \<and> map_of (mg_last_seq m1) (bs_sid e) \<noteq> None
            then m1\<lparr>mg_last_seq := AList.update (bs_sid e) (bs_seq e) (mg_last_seq m1)\<rparr> else m1)
      in m2\<lparr>mg_sid_markets := AList.update (bs_sid e)
           (add_ticker (bs_ticker e) (sid_tickers (bs_sid e) m2)) (mg_sid_markets m2)\<rparr>)"

definition install_snapshot :: "BookSnapshotEvent \<Rightarrow> instant \<Rightarrow> string \<Rightarrow>
    (SubscriptionManager, unit) handler" where
  "install_snapshot e now structure_hash m0 =
     (let m = register_snapshot e now m0;
          (book, r) = snapshot_with (bs_seq e) (levels_loop (map Inr (bs_yes e)) [])
            (levels_loop (map Inr (bs_no e)) []) (Aware now) structure_hash (Some (Aware now))
            (bs_mode e) (book_or_new (bs_ticker e) m);
          m' = m\<lparr>mg_books := AList.update (bs_ticker e) book (mg_books m)\<rparr>
      in case r of
           Inl err \<Rightarrow> (m', Inl err)
         | Inr _ \<Rightarrow> (m'\<lparr>mg_subscribed_depth := add_ticker (bs_ticker e) (mg_subscribed_depth m'),
             mg_gaps := recover_gap (bs_sid e) now (mg_gaps m'), mg_state := RS_HEALTHY\<rparr>, Inr ()))"

definition apply_delta :: "BookDeltaEvent \<Rightarrow> instant \<Rightarrow> SubscriptionManager \<Rightarrow>
    SubscriptionManager \<times> bool" where
  "apply_delta e now m0 =
     (let (m, ok) = sequence_check (be_sid e) (be_seq e) now m0
      in if \<not> ok then (m, False)
      else (case map_of (mg_books m) (be_ticker e) of
          None \<Rightarrow> (m\<lparr>mg_state := RS_GAP_DETECTED\<rparr>, False)
        | Some book \<Rightarrow>
            if sb_state book \<noteq> CURRENT then (m\<lparr>mg_state := RS_GAP_DETECTED\<rparr>, False)
            else (let (book', r) = delta_with (be_seq e) (be_side e) (Inr (be_price e))
                       (Inr (be_delta e)) (Aware (be_exchange_at e))
                       (book\<lparr>sb_sequence := be_seq e - 1\<rparr>);
                     m' = m\<lparr>mg_books := AList.update (be_ticker e) book' (mg_books m)\<rparr>
               in if r = Inr True then (m', True)
                  else (m'\<lparr>mg_state := RS_GAP_DETECTED\<rparr>, False))))"

definition recovery_command :: "int \<Rightarrow> (SubscriptionManager, Command) handler" where
  "recovery_command sid m = (case mg_protocol m of
       None \<Rightarrow> (m, Inl (RuntimeError ''no connection epoch''))
     | Some _ \<Rightarrow> (let tickers = py_sorted (sid_tickers sid m)
         in if tickers = [] then (m, Inl (RuntimeError ''affected subscription is unknown''))
            else on_protocol (update_subscription sid ''get_snapshot'' tickers) m))"

definition backoff :: "nat \<Rightarrow> decimal" where
  "backoff attempt = min 30 ((1 / 2) * 2 ^ min attempt 6)"

definition manager_disconnected :: "SubscriptionManager \<Rightarrow> SubscriptionManager \<times> decimal" where
  "manager_disconnected m =
     (let m' = map_books to_stale (m\<lparr>mg_state := RS_RECONNECTING,
        mg_reconnect_count := mg_reconnect_count m + 1\<rparr>)
      in (m', backoff (mg_reconnect_count m')))"

section \<open>The reconnect supervisor\<close>

datatype ConnectionState =
    CS_DISCONNECTED | CS_CONNECTING | CS_AUTHENTICATED | CS_RESYNCHRONIZING | CS_HEALTHY

text \<open>
  The snapshot provider is a parameter: for a ticker it returns a sequence, both sides and the
  structure hash. \<open>clk\<close> is the wall clock each snapshot reads.
\<close>

type_synonym provider = "string \<Rightarrow> int \<times> hashable \<times> hashable \<times> string"

record RealtimeSupervisor =
  rs_books :: "(string \<times> SequencedBook) list"
  rs_subscriptions :: "string list"
  rs_state :: ConnectionState
  rs_reconnect_attempt :: nat

definition supervisor_subscribe :: "string list \<Rightarrow> RealtimeSupervisor \<Rightarrow> RealtimeSupervisor" where
  "supervisor_subscribe tickers s =
     s\<lparr>rs_subscriptions := fold add_ticker tickers (rs_subscriptions s),
       rs_books := fold (\<lambda>t bs. AList.update t
         (case map_of (rs_books s) t of None \<Rightarrow> new_book t | Some b \<Rightarrow> b) bs) tickers (rs_books s)\<rparr>"

definition resnapshot_one :: "provider \<Rightarrow> instant \<Rightarrow> string \<Rightarrow> (RealtimeSupervisor, unit) handler" where
  "resnapshot_one provider now ticker s = (case map_of (rs_books s) ticker of
       None \<Rightarrow> (s, Inl KeyError)
     | Some b \<Rightarrow> (case provider ticker of (sequence, yes, no, structure) \<Rightarrow>
         let (b', r) = snapshot sequence yes no (Aware now) structure None UNIFIED_YES b
         in (s\<lparr>rs_books := AList.update ticker b' (rs_books s)\<rparr>, r)))"

fun resnapshot_each :: "provider \<Rightarrow> instant \<Rightarrow> string list \<Rightarrow> (RealtimeSupervisor, unit) handler" where
  "resnapshot_each provider now [] = sreturn ()"
| "resnapshot_each provider now (t # ts) =
     sbind (resnapshot_one provider now t) (\<lambda>_. resnapshot_each provider now ts)"

definition resnapshot_all :: "provider \<Rightarrow> instant \<Rightarrow> (RealtimeSupervisor, unit) handler" where
  "resnapshot_all provider now s =
     sbind (supdate (rs_state_update (\<lambda>_. CS_RESYNCHRONIZING))) (\<lambda>_.
     sbind (resnapshot_each provider now (py_sorted (rs_subscriptions s))) (\<lambda>_.
     supdate (\<lambda>s. s\<lparr>rs_state := CS_HEALTHY, rs_reconnect_attempt := 0\<rparr>))) s"

definition connected :: "provider \<Rightarrow> instant \<Rightarrow> bool \<Rightarrow> (RealtimeSupervisor, unit) handler" where
  "connected provider now authenticated =
     sbind (supdate (rs_state_update (\<lambda>_. if authenticated then CS_AUTHENTICATED
       else CS_DISCONNECTED))) (\<lambda>_.
     if authenticated then resnapshot_all provider now else sreturn ())"

definition supervisor_disconnected :: "RealtimeSupervisor \<Rightarrow> RealtimeSupervisor \<times> decimal" where
  "supervisor_disconnected s =
     (let n = rs_reconnect_attempt s + 1
      in (s\<lparr>rs_state := CS_DISCONNECTED, rs_reconnect_attempt := n,
            rs_books := map (apsnd to_gap) (rs_books s)\<rparr>, backoff n))"

definition supervisor_sequence_gap :: "provider \<Rightarrow> instant \<Rightarrow> string \<Rightarrow>
    (RealtimeSupervisor, unit) handler" where
  "supervisor_sequence_gap provider now ticker =
     sbind (supdate (rs_state_update (\<lambda>_. CS_RESYNCHRONIZING))) (\<lambda>_.
     sbind (resnapshot_one provider now ticker) (\<lambda>_.
     supdate (rs_state_update (\<lambda>_. CS_HEALTHY))))"

lemma backoff_bounds: "1 / 2 \<le> backoff n" "backoff n \<le> 30"
proof -
  have "1 \<le> (2 :: decimal) ^ min n 6" by (rule one_le_power) simp
  then show "1 / 2 \<le> backoff n" by (simp add: backoff_def)
  show "backoff n \<le> 30" by (simp add: backoff_def)
qed

lemma backoff_mono: "m \<le> n \<Longrightarrow> backoff m \<le> backoff n"
  unfolding backoff_def by (intro min.mono mult_left_mono power_increasing) auto

section \<open>Sequence checking\<close>

lemma sequence_check_True:
  assumes "sequence_check sid seq now m = (m', True)"
  shows "map_of (mg_last_seq m) sid = None \<or> map_of (mg_last_seq m) sid = Some (seq - 1)"
    and "map_of (mg_last_seq m') sid = Some seq" and "mg_books m' = mg_books m"
    and "mg_sid_markets m' = mg_sid_markets m" and "mg_gaps m' = mg_gaps m"
  using assms
  by (auto simp: sequence_check_def Let_def update_conv' split: option.splits if_splits)

lemma sequence_check_False:
  assumes "sequence_check sid seq now m = (m', False)"
  shows "\<exists>previous. map_of (mg_last_seq m) sid = Some previous \<and> seq \<noteq> previous + 1"
    and "mg_books m' = gap_books (sid_tickers sid m) (mg_books m)"
    and "mg_state m' = RS_GAP_DETECTED"
    and "length (mg_gaps m') = Suc (length (mg_gaps m))"
  using assms
  by (auto simp: sequence_check_def Let_def gap_books_def split: option.splits if_splits)

lemma map_of_gap_books:
  "map_of (gap_books ts bs) t =
     map_option (\<lambda>b. if t \<in> set ts then to_gap b else b) (map_of bs t)"
  by (induction bs) (auto simp: gap_books_def)

text \<open>After a gap, no book of the subscription is current.\<close>

lemma gap_invalidates:
  assumes "sequence_check sid seq now m = (m', False)" and "t \<in> set (sid_tickers sid m)"
    and "map_of (mg_books m') t = Some b"
  shows "sb_state b = GAP"
  using assms(2,3)
  by (auto simp: sequence_check_False(2) [OF assms(1)] map_of_gap_books to_gap_def)

text \<open>An applied delta continues its subscription and adds to a current book.\<close>

lemma apply_delta_True:
  assumes "apply_delta e now m = (m', True)"
  shows "\<exists>b b'. map_of (mg_books m) (be_ticker e) = Some b \<and> sb_state b = CURRENT \<and>
      map_of (mg_books m') (be_ticker e) = Some b' \<and> sb_state b' = CURRENT \<and>
      sb_sequence b' = be_seq e \<and>
      sizes (side_levels (be_side e) b') = (sizes (side_levels (be_side e) b))
        (be_price e := sizes (side_levels (be_side e) b) (be_price e) + be_delta e)"
    and "map_of (mg_last_seq m) (be_sid e) = None \<or>
      map_of (mg_last_seq m) (be_sid e) = Some (be_seq e - 1)"
    and "map_of (mg_last_seq m') (be_sid e) = Some (be_seq e)"
proof -
  obtain m1 ok where sc: "sequence_check (be_sid e) (be_seq e) now m = (m1, ok)" by fastforce
  with assms have ok: "ok" by (auto simp: apply_delta_def split: if_splits)
  note sq = sequence_check_True [OF sc [unfolded ok [THEN eqTrueI]]]
  show "map_of (mg_last_seq m) (be_sid e) = None \<or>
      map_of (mg_last_seq m) (be_sid e) = Some (be_seq e - 1)" by (rule sq(1))
  from assms sc ok obtain b where b: "map_of (mg_books m1) (be_ticker e) = Some b"
    and cur: "sb_state b = CURRENT"
    by (auto simp: apply_delta_def Let_def split: option.splits if_splits prod.splits)
  let ?b0 = "b\<lparr>sb_sequence := be_seq e - 1\<rparr>"
  obtain b' r where d: "delta_with (be_seq e) (be_side e) (Inr (be_price e)) (Inr (be_delta e))
      (Aware (be_exchange_at e)) ?b0 = (b', r)" by fastforce
  have r: "r = Inr True" and m': "m' = m1\<lparr>mg_books := AList.update (be_ticker e) b' (mg_books m1)\<rparr>"
    using assms sc ok b cur d by (auto simp: apply_delta_def Let_def split: if_splits)
  have fits: "delta_fits (be_seq e) (be_side e) (be_price e) (be_delta e) ?b0"
    using delta_refused [of "be_seq e" "be_side e" "be_price e" "be_delta e" ?b0] d r by force
  note acc = delta_accepted [OF fits d]
  have side: "side_levels (be_side e) ?b0 = side_levels (be_side e) b"
    by (simp add: side_levels_def)
  show "map_of (mg_last_seq m') (be_sid e) = Some (be_seq e)" using sq(2) m' by simp
  show "\<exists>b b'. map_of (mg_books m) (be_ticker e) = Some b \<and> sb_state b = CURRENT \<and>
      map_of (mg_books m') (be_ticker e) = Some b' \<and> sb_state b' = CURRENT \<and>
      sb_sequence b' = be_seq e \<and>
      sizes (side_levels (be_side e) b') = (sizes (side_levels (be_side e) b))
        (be_price e := sizes (side_levels (be_side e) b) (be_price e) + be_delta e)"
    using b cur acc m' sq(3) unfolding side by (auto simp: update_conv')
qed

text \<open>A book that is not current refuses deltas, whatever arrives in between.\<close>

definition not_current :: "string \<Rightarrow> SubscriptionManager \<Rightarrow> bool" where
  "not_current t m \<longleftrightarrow> (\<forall>b. map_of (mg_books m) t = Some b \<longrightarrow> sb_state b \<noteq> CURRENT)"

fun apply_deltas :: "(BookDeltaEvent \<times> instant) list \<Rightarrow> SubscriptionManager \<Rightarrow>
    SubscriptionManager" where
  "apply_deltas [] m = m"
| "apply_deltas ((e, now) # es) m = apply_deltas es (fst (apply_delta e now m))"

lemma sequence_check_not_current:
  assumes "not_current t m" and "sequence_check sid seq now m = (m', r)"
  shows "not_current t m'"
  using assms
  by (auto simp: sequence_check_def Let_def not_current_def map_of_gap_books to_gap_def
      split: option.splits if_splits)

lemma not_current_refuses: "not_current (be_ticker e) m \<Longrightarrow> \<not> snd (apply_delta e now m)"
proof
  assume nc: "not_current (be_ticker e) m" and "snd (apply_delta e now m)"
  then obtain m' where "apply_delta e now m = (m', True)" by (metis prod.collapse)
  from apply_delta_True(1) [OF this] nc show False by (auto simp: not_current_def)
qed

lemma apply_delta_not_current:
  assumes "not_current t m"
  shows "not_current t (fst (apply_delta e now m))"
proof -
  obtain m1 ok where sc: "sequence_check (be_sid e) (be_seq e) now m = (m1, ok)" by fastforce
  have nc: "not_current t m1" using sequence_check_not_current [OF assms sc] .
  show ?thesis
  proof (cases "be_ticker e = t")
    case True
    with nc sc show ?thesis
      by (auto simp: apply_delta_def not_current_def split: option.splits)
  next
    case False
    with nc sc show ?thesis
      by (auto simp: apply_delta_def Let_def not_current_def update_conv' split: option.splits
          prod.splits)
  qed
qed

lemma apply_deltas_not_current: "not_current t m \<Longrightarrow> not_current t (apply_deltas es m)"
  by (induction es m rule: apply_deltas.induct) (simp_all add: apply_delta_not_current)

lemma apply_delta_gap:
  assumes "map_of (mg_last_seq m) (be_sid e) = Some previous" and "be_seq e \<noteq> previous + 1"
  shows "\<not> snd (apply_delta e now m)" and "mg_state (fst (apply_delta e now m)) = RS_GAP_DETECTED"
    and "t \<in> set (sid_tickers (be_sid e) m) \<Longrightarrow> not_current t (fst (apply_delta e now m))"
proof -
  obtain m' r where sc: "sequence_check (be_sid e) (be_seq e) now m = (m', r)" by fastforce
  with assms have r: "r = False" by (auto simp: sequence_check_def Let_def)
  note gap = sequence_check_False [OF sc [unfolded r]]
  have fst: "fst (apply_delta e now m) = m'" using sc r by (simp add: apply_delta_def)
  show "\<not> snd (apply_delta e now m)" using sc r by (simp add: apply_delta_def)
  show "mg_state (fst (apply_delta e now m)) = RS_GAP_DETECTED" using fst gap(3) by simp
  show "not_current t (fst (apply_delta e now m))" if "t \<in> set (sid_tickers (be_sid e) m)"
    using gap_invalidates [OF sc [unfolded r] that] by (auto simp: fst not_current_def)
qed

section \<open>Every operation keeps the books well formed\<close>

definition books_ok :: "(string \<times> SequencedBook) list \<Rightarrow> bool" where
  "books_ok bs \<longleftrightarrow> (\<forall>t b. map_of bs t = Some b \<longrightarrow> book_ok b)"

definition manager_ok :: "SubscriptionManager \<Rightarrow> bool" where
  "manager_ok m \<longleftrightarrow> books_ok (mg_books m) \<and> length (mg_queue m) \<le> mg_queue_limit m \<and>
     length (mg_desired_depth m) \<le> mg_max_depth_markets m"

lemma books_ok_update: "books_ok bs \<Longrightarrow> book_ok b \<Longrightarrow> books_ok (AList.update t b bs)"
  by (auto simp: books_ok_def update_conv')

lemma map_of_apsnd: "map_of (map (apsnd f) bs) t = map_option f (map_of bs t)"
  by (induction bs) auto

lemma books_ok_map:
  "books_ok bs \<Longrightarrow> (\<And>b. book_ok b \<Longrightarrow> book_ok (f b)) \<Longrightarrow> books_ok (map (apsnd f) bs)"
  by (auto simp: books_ok_def map_of_apsnd)

lemma book_ok_stale [simp]: "book_ok (to_stale b) = book_ok b"
  by (simp add: book_ok_def to_stale_def)

lemma books_ok_gap: "books_ok bs \<Longrightarrow> books_ok (gap_books ts bs)"
  by (auto simp: books_ok_def map_of_gap_books)

lemma sequence_check_ok:
  "manager_ok m \<Longrightarrow> sequence_check sid seq now m = (m', r) \<Longrightarrow> manager_ok m'"
  by (auto simp: sequence_check_def Let_def manager_ok_def books_ok_gap
      split: option.splits if_splits)

lemma snapshot_with_keeps_ok:
  assumes "book_ok b" and "snapshot_with s (levels_loop ys []) (levels_loop ns []) t h i md b = (b', r)"
  shows "book_ok b'"
proof -
  have nil: "levels_ok []" by (simp add: levels_ok_def)
  show ?thesis
    using assms levels_loop_ok [OF _ nil]
    by (cases "levels_loop ys []"; cases "levels_loop ns []")
      (auto simp: snapshot_with_def sbind_def book_ok_def split: if_splits)
qed

lemma register_snapshot_ok: "manager_ok m \<Longrightarrow> manager_ok (register_snapshot e now m)"
proof -
  assume ok: "manager_ok m"
  obtain m1 b where sc: "sequence_check (bs_sid e) (bs_seq e) now m = (m1, b)" by fastforce
  have "manager_ok m1" using sequence_check_ok [OF ok sc] .
  then show ?thesis using sc by (simp add: register_snapshot_def Let_def manager_ok_def)
qed

lemma install_snapshot_ok:
  assumes "manager_ok m" and "install_snapshot e now h m = (m', r)"
  shows "manager_ok m'"
proof -
  let ?m = "register_snapshot e now m"
  have ok: "manager_ok ?m" by (rule register_snapshot_ok [OF assms(1)])
  obtain b' r' where s: "snapshot_with (bs_seq e) (levels_loop (map Inr (bs_yes e)) [])
      (levels_loop (map Inr (bs_no e)) []) (Aware now) h (Some (Aware now)) (bs_mode e)
      (book_or_new (bs_ticker e) ?m) = (b', r')" by fastforce
  have "book_ok (book_or_new (bs_ticker e) ?m)"
    using ok by (auto simp: book_or_new_def manager_ok_def books_ok_def book_ok_new
        split: option.splits)
  from snapshot_with_keeps_ok [OF this s] have b': "book_ok b'" .
  have "mg_books m' = AList.update (bs_ticker e) b' (mg_books ?m)" and "mg_queue m' = mg_queue ?m"
    and "mg_queue_limit m' = mg_queue_limit ?m" and "mg_desired_depth m' = mg_desired_depth ?m"
    and "mg_max_depth_markets m' = mg_max_depth_markets ?m"
    using assms(2) s by (auto simp: install_snapshot_def Let_def split: sum.splits)
  with ok b' show ?thesis by (simp add: manager_ok_def books_ok_update)
qed

lemma apply_delta_ok:
  assumes "manager_ok m" and "apply_delta e now m = (m', r)"
  shows "manager_ok m'"
proof -
  obtain m1 ok where sc: "sequence_check (be_sid e) (be_seq e) now m = (m1, ok)" by fastforce
  have ok1: "manager_ok m1" using sequence_check_ok [OF assms(1) sc] .
  show ?thesis
  proof (cases "ok \<and> (\<exists>b. map_of (mg_books m1) (be_ticker e) = Some b \<and> sb_state b = CURRENT)")
    case False
    have "m' = m1 \<or> m' = m1\<lparr>mg_state := RS_GAP_DETECTED\<rparr>"
      using False assms(2) sc
      by (auto simp: apply_delta_def split: if_splits option.splits)
    with ok1 show ?thesis by (auto simp: manager_ok_def)
  next
    case True
    then obtain b where b: "map_of (mg_books m1) (be_ticker e) = Some b" "sb_state b = CURRENT"
      and ok by blast
    obtain b' r' where d: "delta_with (be_seq e) (be_side e) (Inr (be_price e)) (Inr (be_delta e))
        (Aware (be_exchange_at e)) (b\<lparr>sb_sequence := be_seq e - 1\<rparr>) = (b', r')" by fastforce
    have "book_ok b" using ok1 b(1) by (auto simp: manager_ok_def books_ok_def)
    then have "book_ok (b\<lparr>sb_sequence := be_seq e - 1\<rparr>)" by (simp add: book_ok_def)
    from delta_ok [OF this d] have "book_ok b'" .
    moreover let ?m = "m1\<lparr>mg_books := AList.update (be_ticker e) b' (mg_books m1)\<rparr>"
    have "m' = ?m \<or> m' = ?m\<lparr>mg_state := RS_GAP_DETECTED\<rparr>"
      using assms(2) sc b \<open>ok\<close> d by (auto simp: apply_delta_def Let_def split: if_splits)
    ultimately show ?thesis using ok1 by (auto simp: manager_ok_def books_ok_update)
  qed
qed

text \<open>The manager as a transition system over the messages it handles.\<close>

inductive manager_step :: "SubscriptionManager \<Rightarrow> SubscriptionManager \<Rightarrow> bool" where
  ms_epoch: "manager_step m (new_epoch uuid m)"
| ms_watch: "manager_step m (set_depth_watch ts m)"
| ms_enqueue: "enqueue raw now m = (m', b) \<Longrightarrow> manager_step m m'"
| ms_snapshot: "install_snapshot e now h m = (m', r) \<Longrightarrow> manager_step m m'"
| ms_delta: "apply_delta d now m = (m', b) \<Longrightarrow> manager_step m m'"
| ms_disconnect: "manager_disconnected m = (m', t) \<Longrightarrow> manager_step m m'"

inductive manager_reachable :: "SubscriptionManager \<Rightarrow> bool" where
  mr_start: "manager_reachable new_manager"
| mr_step: "manager_reachable m \<Longrightarrow> manager_step m m' \<Longrightarrow> manager_reachable m'"

lemma manager_step_ok: "manager_step m m' \<Longrightarrow> manager_ok m \<Longrightarrow> manager_ok m'"
proof (induction rule: manager_step.induct)
  case (ms_epoch m uuid)
  then show ?case by (simp add: manager_ok_def new_epoch_def map_books_def books_ok_map)
next
  case (ms_watch m ts)
  then show ?case by (simp add: manager_ok_def set_depth_watch_def Let_def)
next
  case (ms_enqueue raw now m m' b)
  then show ?case
    by (auto simp: manager_ok_def enqueue_def gap_from_raw_def Let_def split: if_splits)
next
  case (ms_disconnect m m' t)
  then show ?case
    by (auto simp: manager_ok_def manager_disconnected_def Let_def map_books_def books_ok_map)
qed (auto intro: install_snapshot_ok apply_delta_ok)

lemma manager_reachable_ok: "manager_reachable m \<Longrightarrow> manager_ok m"
proof (induction rule: manager_reachable.induct)
  case mr_start
  show ?case by (simp add: manager_ok_def new_manager_def books_ok_def)
qed (rule manager_step_ok)

end
