(* ===== verification/Market_Properties.thy ===== *)
theory Market_Properties
  imports Market_Recovery
begin

text \<open>
  The properties of \<open>services/real_time_market_data\<close>: sequenced books, what a view displays, gaps,
  and the command protocol.
\<close>

definition sample_book0 :: SequencedBook where
  "sample_book0 = (new_book ''M'')\<lparr>sb_yes := [(1/4, 10), (3/10, 5)], sb_no := [(2/5, 8)],
     sb_sequence := 7, sb_state := CURRENT, sb_observed_at := Some 0\<rparr>"

definition sample_changes :: "Change list" where
  "sample_changes = [\<lparr>ch_side = ''yes'', ch_price = 3/10, ch_delta = -5, ch_at = Aware 1\<rparr>,
     \<lparr>ch_side = ''no'', ch_price = 1/2, ch_delta = 3, ch_at = Aware 2\<rparr>,
     \<lparr>ch_side = ''yes'', ch_price = 3/10, ch_delta = 2, ch_at = Aware 3\<rparr>]"

text \<open>C22. A run of consecutive deltas that leaves a well-formed book current is exactly the sum of
  its changes: every price of either side moved by the changes named for it, the sequence advanced
  by their number, and no level became empty or negative.\<close>

theorem deltas_are_their_sum:
  assumes "book_ok b" and "sb_state (apply_changes cs b) = CURRENT"
  shows "sizes (sb_yes (apply_changes cs b)) p = sizes (sb_yes b) p + net_change ''yes'' p cs \<and>
    sizes (sb_no (apply_changes cs b)) p = sizes (sb_no b) p + net_change ''no'' p cs \<and>
    sb_sequence (apply_changes cs b) = sb_sequence b + int (length cs) \<and>
    book_ok (apply_changes cs b)"
  using apply_changes_sum(1) [OF assms(2), of "''yes''" p]
    apply_changes_sum(1) [OF assms(2), of "''no''" p] apply_changes_sum(2) [OF assms(2), of "''yes''"]
    apply_changes_ok [OF assms(1)]
  by (simp add: side_levels_def)

theorem deltas_are_their_sum_witness:
  "sizes (sb_yes (apply_changes sample_changes sample_book0)) (3/10) = 2 \<and>
   sb_sequence (apply_changes sample_changes sample_book0) = 10"
proof -
  have "book_ok sample_book0"
    by (simp add: sample_book0_def book_ok_def levels_ok_def new_book_def)
  moreover have "sb_state (apply_changes sample_changes sample_book0) = CURRENT" by code_simp
  ultimately show ?thesis
    using deltas_are_their_sum [of sample_book0 sample_changes "3/10"]
    by (simp add: net_change_def sample_changes_def sizes_def)
      (simp add: sample_book0_def new_book_def)
qed

text \<open>C33. In every state the subscription manager can reach, what a book displays is what it holds:
  the best bid is a price strictly between 0 and 1 shown with its own positive size, and no YES level
  above it is occupied; without a best bid there is no YES size at all. The best ask is also strictly
  between 0 and 1, it is the price of an occupied NO level shown with that level's size, and no
  occupied NO level stands for a lower one; without a best ask there is no NO size at all. The queue
  stays within its limit.\<close>

theorem displayed_prices_are_best:
  assumes "manager_reachable m" and "map_of (mg_books m) t = Some b"
  shows "(case bv_best_yes_bid (view now stale b) of
      None \<Rightarrow> \<forall>q. sizes (sb_yes b) q = 0
    | Some p \<Rightarrow> 0 < p \<and> p < 1 \<and> bv_best_bid_size (view now stale b) = Some (sizes (sb_yes b) p) \<and>
        0 < sizes (sb_yes b) p \<and> (\<forall>q. 0 < sizes (sb_yes b) q \<longrightarrow> q \<le> p)) \<and>
    (case bv_best_yes_ask (view now stale b) of
      None \<Rightarrow> \<forall>q. sizes (sb_no b) q = 0
    | Some a \<Rightarrow> 0 < a \<and> a < 1 \<and> (\<exists>p. a = ask_price (sb_price_mode b) p \<and> 0 < sizes (sb_no b) p \<and>
          bv_best_ask_size (view now stale b) = Some (sizes (sb_no b) p)) \<and>
        (\<forall>q. 0 < sizes (sb_no b) q \<longrightarrow> a \<le> ask_price (sb_price_mode b) q)) \<and>
    length (mg_queue m) \<le> mg_queue_limit m"
proof -
  from manager_reachable_ok [OF assms(1)] have ok: "manager_ok m" .
  with assms(2) have lv: "levels_ok (sb_yes b)" "levels_ok (sb_no b)"
    by (auto simp: manager_ok_def books_ok_def book_ok_def)
  have q: "length (mg_queue m) \<le> mg_queue_limit m" using ok by (simp add: manager_ok_def)
  have bid: "case bv_best_yes_bid (view now stale b) of
      None \<Rightarrow> \<forall>q. sizes (sb_yes b) q = 0
    | Some p \<Rightarrow> 0 < p \<and> p < 1 \<and> bv_best_bid_size (view now stale b) = Some (sizes (sb_yes b) p) \<and>
        0 < sizes (sb_yes b) p \<and> (\<forall>q. 0 < sizes (sb_yes b) q \<longrightarrow> q \<le> p)"
    using view_no_bid view_best_bid [OF lv(1)] occupied_between [OF lv(1)]
    by (simp split: option.split)
  have ask: "case bv_best_yes_ask (view now stale b) of
      None \<Rightarrow> \<forall>q. sizes (sb_no b) q = 0
    | Some a \<Rightarrow> 0 < a \<and> a < 1 \<and> (\<exists>p. a = ask_price (sb_price_mode b) p \<and> 0 < sizes (sb_no b) p \<and>
          bv_best_ask_size (view now stale b) = Some (sizes (sb_no b) p)) \<and>
        (\<forall>q. 0 < sizes (sb_no b) q \<longrightarrow> a \<le> ask_price (sb_price_mode b) q)"
  proof (cases "bv_best_yes_ask (view now stale b)")
    case None
    then show ?thesis by (simp add: view_no_ask)
  next
    case (Some a)
    from view_best_ask(1) [OF lv(2) Some] obtain p where p: "a = ask_price (sb_price_mode b) p"
      "0 < sizes (sb_no b) p" by blast
    have "0 < a \<and> a < 1" using occupied_between [OF lv(2) p(2)] by (simp add: p(1) ask_price_def)
    with Some view_best_ask [OF lv(2) Some] show ?thesis by simp
  qed
  show ?thesis using bid ask q by blast
qed

definition sample_snapshot_event :: BookSnapshotEvent where
  "sample_snapshot_event = \<lparr>bs_sid = 1, bs_seq = 5, bs_ticker = ''M'', bs_market_id = ''m'',
     bs_yes = [(1/4, 10), (3/10, 5)], bs_no = [(2/5, 8)], bs_mode = UNIFIED_YES\<rparr>"

definition sample_manager :: SubscriptionManager where
  "sample_manager = fst (install_snapshot sample_snapshot_event 1 ''h'' new_manager)"

lemma sample_manager_reachable: "manager_reachable sample_manager"
  by (rule mr_step [OF mr_start ms_snapshot]) (simp add: sample_manager_def prod_eq_iff)

lemma sample_manager_book:
  "\<exists>b. map_of (mg_books sample_manager) ''M'' = Some b \<and> bv_best_yes_bid (view 2 3 b) = Some (3/10)"
proof -
  have "map_option (\<lambda>b. bv_best_yes_bid (view 2 3 b)) (map_of (mg_books sample_manager) ''M'') =
    Some (Some (3/10))" by code_simp
  then show ?thesis by (cases "map_of (mg_books sample_manager) ''M''") simp_all
qed

theorem displayed_prices_are_best_witness:
  "\<exists>b. map_of (mg_books sample_manager) ''M'' = Some b \<and>
     (\<forall>q. 0 < sizes (sb_yes b) q \<longrightarrow> q \<le> 3/10)"
proof -
  from sample_manager_book obtain b where b: "map_of (mg_books sample_manager) ''M'' = Some b"
    and bid: "bv_best_yes_bid (view 2 3 b) = Some (3/10)" by blast
  from displayed_prices_are_best [OF sample_manager_reachable b, of 2 3] bid b show ?thesis by auto
qed

text \<open>C9. A sequence gap is never papered over by later deltas: a delta that does not continue its
  subscription is refused and invalidates every book of the subscription, and whatever deltas
  arrive afterwards, on any subscription, none of them is applied to those books (only a snapshot
  brings a book back).\<close>

theorem gap_refuses_deltas_until_snapshot:
  assumes "map_of (mg_last_seq m) (be_sid e) = Some previous" and "be_seq e \<noteq> previous + 1"
    and "be_ticker later \<in> set (sid_tickers (be_sid e) m)"
    and "m' = apply_deltas others (fst (apply_delta e now m))"
  shows "\<not> snd (apply_delta e now m) \<and> mg_state (fst (apply_delta e now m)) = RS_GAP_DETECTED \<and>
    \<not> snd (apply_delta later now' m') \<and>
    (\<forall>b. map_of (mg_books m') (be_ticker later) = Some b \<longrightarrow>
       bv_state (view now' stale b) \<noteq> CURRENT)"
proof -
  note gap = apply_delta_gap [OF assms(1,2)]
  from apply_deltas_not_current [OF gap(3) [OF assms(3)]]
  have nc: "not_current (be_ticker later) m'" by (simp add: assms(4))
  with gap not_current_refuses [OF nc] show ?thesis
    by (auto simp: not_current_def view_current)
qed

definition sample_delta :: "int \<Rightarrow> BookDeltaEvent" where
  "sample_delta n = \<lparr>be_sid = 1, be_seq = n, be_ticker = ''M'', be_market_id = ''m'',
     be_price = 3/10, be_delta = 1, be_side = ''yes'', be_exchange_at = 2\<rparr>"

theorem gap_refuses_deltas_until_snapshot_witness:
  "\<not> snd (apply_delta (sample_delta 7) 2 sample_manager) \<and>
   \<not> snd (apply_delta (sample_delta 8) 3
      (apply_deltas [(sample_delta 6, 2)] (fst (apply_delta (sample_delta 7) 2 sample_manager))))"
proof -
  have "map_of (mg_last_seq sample_manager) (be_sid (sample_delta 7)) = Some 5"
    and "be_ticker (sample_delta 8) \<in> set (sid_tickers (be_sid (sample_delta 7)) sample_manager)"
    by code_simp+
  from gap_refuses_deltas_until_snapshot [OF this(1) _ this(2) refl, of 2 3 "[(sample_delta 6, 2)]"]
  show ?thesis by (simp add: sample_delta_def)
qed

text \<open>An applied delta continues its subscription's sequence and adds its change to the current
  book of its market, on its side and at its price only.\<close>

theorem applied_delta_is_exact:
  assumes "apply_delta e now m = (m', True)"
  shows "map_of (mg_last_seq m') (be_sid e) = Some (be_seq e) \<and>
    (map_of (mg_last_seq m) (be_sid e) \<noteq> None \<longrightarrow>
      map_of (mg_last_seq m) (be_sid e) = Some (be_seq e - 1)) \<and>
    (\<exists>b b'. map_of (mg_books m) (be_ticker e) = Some b \<and> sb_state b = CURRENT \<and>
      map_of (mg_books m') (be_ticker e) = Some b' \<and> sb_state b' = CURRENT \<and>
      sb_sequence b' = be_seq e \<and>
      sizes (side_levels (be_side e) b') = (sizes (side_levels (be_side e) b))
        (be_price e := sizes (side_levels (be_side e) b) (be_price e) + be_delta e))"
  using apply_delta_True [OF assms] by auto

theorem applied_delta_is_exact_witness:
  "map_of (mg_last_seq (fst (apply_delta (sample_delta 6) 2 sample_manager))) 1 = Some 6"
proof -
  have "snd (apply_delta (sample_delta 6) 2 sample_manager)" by code_simp
  then have "apply_delta (sample_delta 6) 2 sample_manager =
      (fst (apply_delta (sample_delta 6) 2 sample_manager), True)" by (simp add: prod_eq_iff)
  from applied_delta_is_exact [OF this] show ?thesis by (simp add: sample_delta_def)
qed

text \<open>Every command is answered at most once: over any interleaving of commands and incoming
  messages on a connection, the command ids of the accepted responses are pairwise different.\<close>

theorem commands_are_answered_once:
  "distinct (map (\<lambda>raw. strict_int (wm_id raw))
     (fst (claim_run try_response protocol_exec events (new_protocol epoch))))"
  using protocol_answer.run_grants [OF protocol_ok_new]
  by (metis prod.collapse)

end
