(* ===== verification/Production_Requests.thy ===== *)
theory Production_Requests
  imports Demo_Adapter
begin

text \<open>
  \<open>services/production_execution\<close>: the typed request envelopes of the production signer
  (\<open>domain.py\<close>, \<open>requests.py\<close>), its transport's view of a request (\<open>transport.py\<close>), the
  write budget (\<open>rate_budget.py\<close>), the credential and the disarmed boundary
  (\<open>credentials.py\<close>, \<open>boundary.py\<close>). The signer's authority is characterized exactly: which
  methods and paths it accepts, and that the transport reads back the same operation.
\<close>

section \<open>Two-character substrings\<close>

lemma startswith_pair: "startswith [a, b] s \<longleftrightarrow> (\<exists>t. s = a # b # t)"
  by (auto simp: startswith_iff)

lemma contains_sub_iff: "contains_sub p s \<longleftrightarrow> (\<exists>i \<le> length s. startswith p (drop i s))"
  by (auto simp: contains_sub_def list_ex_iff less_Suc_eq_le simp del: upt_Suc)

lemma contains_sub_Cons:
  "contains_sub p (x # xs) \<longleftrightarrow> startswith p (x # xs) \<or> contains_sub p xs"
proof
  assume "contains_sub p (x # xs)"
  then obtain i where i: "i \<le> length (x # xs)" "startswith p (drop i (x # xs))"
    by (auto simp: contains_sub_iff)
  then show "startswith p (x # xs) \<or> contains_sub p xs"
    by (cases i) (auto simp: contains_sub_iff)
next
  assume "startswith p (x # xs) \<or> contains_sub p xs"
  then show "contains_sub p (x # xs)"
  proof
    assume "startswith p (x # xs)"
    then show ?thesis unfolding contains_sub_iff by (intro exI [of _ 0]) simp
  next
    assume "contains_sub p xs"
    then obtain i where "i \<le> length xs" "startswith p (drop i xs)" by (auto simp: contains_sub_iff)
    then show ?thesis unfolding contains_sub_iff by (intro exI [of _ "Suc i"]) simp
  qed
qed

lemma contains_sub_Nil: "contains_sub p [] \<longleftrightarrow> p = []"
  by (auto simp: contains_sub_def startswith_def)

lemma contains_char: "contains_sub [c] s \<longleftrightarrow> c \<in> set s"
  by (induction s) (auto simp: contains_sub_Nil contains_sub_Cons startswith_def)

lemma contains_pair_append:
  "contains_sub [a, b] (xs @ ys) \<longleftrightarrow> contains_sub [a, b] xs \<or> contains_sub [a, b] ys \<or>
     (xs \<noteq> [] \<and> ys \<noteq> [] \<and> last xs = a \<and> hd ys = b)"
proof (induction xs)
  case Nil
  then show ?case by (simp add: contains_sub_Nil)
next
  case (Cons x xs)
  show ?case
  proof (cases xs)
    case Nil
    then show ?thesis
      by (cases ys) (auto simp: contains_sub_Cons contains_sub_Nil startswith_pair)
  next
    case (Cons z zs)
    with \<open>contains_sub [a, b] (xs @ ys) \<longleftrightarrow> _\<close> show ?thesis
      by (auto simp: contains_sub_Cons [of _ x] startswith_pair)
  qed
qed

lemma contains_pair_free: "b \<notin> set s \<Longrightarrow> \<not> contains_sub [a, b] s"
  by (induction s) (auto simp: contains_sub_Nil contains_sub_Cons startswith_pair)

text \<open>\<open>str.split\<close> on one character.\<close>

fun split_on :: "char \<Rightarrow> string \<Rightarrow> string list" where
  "split_on c [] = [[]]"
| "split_on c (x # xs) = (if x = c then [] # split_on c xs
     else case split_on c xs of [] \<Rightarrow> [[x]] | w # ws \<Rightarrow> (x # w) # ws)"

lemma split_on_nonempty [simp]: "split_on c s \<noteq> []"
  by (cases s) (auto split: list.splits)

lemma split_on_free: "c \<notin> set s \<Longrightarrow> split_on c s = [s]"
  by (induction s) auto

lemma split_on_append: "c \<notin> set s \<Longrightarrow> split_on c (s @ c # t) = s # split_on c t"
  by (induction s) auto

text \<open>Joining the pieces again gives the text.\<close>

fun join_on :: "char \<Rightarrow> string list \<Rightarrow> string" where
  "join_on c [] = []"
| "join_on c [w] = w"
| "join_on c (w # v # ws) = w @ c # join_on c (v # ws)"

lemma join_split: "join_on c (split_on c s) = s"
proof (induction s)
  case (Cons x xs)
  obtain w ws where s: "split_on c xs = w # ws" using split_on_nonempty by (metis list.exhaust)
  have push: "join_on c ((x # w) # ws) = x # join_on c (w # ws)" by (cases ws) auto
  show ?case using Cons s push by auto
qed simp

section \<open>The authority of the signer\<close>

datatype ProductionArmState = DISARMED | CANARY_PENDING_APPROVAL | SUPERVISED_CANARY | ARMED_BOUNDED

datatype Operation = OP_CREATE | OP_CANCEL | OP_AMEND | OP_DECREASE

datatype AuthorityClass = NEW_RISK | RISK_REDUCING | EMERGENCY_SAFETY

definition Operation_value :: "Operation \<Rightarrow> string" where
  "Operation_value op = (case op of OP_CREATE \<Rightarrow> ''CREATE'' | OP_CANCEL \<Rightarrow> ''CANCEL''
     | OP_AMEND \<Rightarrow> ''AMEND'' | OP_DECREASE \<Rightarrow> ''DECREASE'')"

definition AuthorityClass_value :: "AuthorityClass \<Rightarrow> string" where
  "AuthorityClass_value a = (case a of NEW_RISK \<Rightarrow> ''NEW_RISK'' | RISK_REDUCING \<Rightarrow> ''RISK_REDUCING''
     | EMERGENCY_SAFETY \<Rightarrow> ''EMERGENCY_SAFETY'')"

definition PRODUCTION_ORIGIN :: string where
  "PRODUCTION_ORIGIN = ''https://external-api.kalshi.com''"

definition TRADE_ROOT :: string where
  "TRADE_ROOT = ''/trade-api/v2''"

definition orders_root :: string where
  "orders_root = TRADE_ROOT @ ''/portfolio/events/orders''"

text \<open>The pattern \<open>[A-Za-z0-9_-]{1,128}\<close>, matched against the whole text.\<close>

definition order_id_char :: "char \<Rightarrow> bool" where
  "order_id_char c \<longleftrightarrow> ascii_alnum c \<or> c = CHR ''_'' \<or> c = CHR ''-''"

definition valid_order_id :: "string \<Rightarrow> bool" where
  "valid_order_id s \<longleftrightarrow> 1 \<le> length s \<and> length s \<le> 128 \<and> list_all order_id_char s"

definition path_confused :: "string \<Rightarrow> bool" where
  "path_confused path \<longleftrightarrow> contains_sub ''?'' path \<or> contains_sub ''//'' path \<or>
     contains_sub ''%'' path \<or> contains_sub ''..'' path \<or> \<not> startswith ''/'' path"

definition validate_operation :: "Operation \<Rightarrow> string \<Rightarrow> string \<Rightarrow> unit result" where
  "validate_operation operation method path =
     (if path_confused path then Inl (ValueError ''path confusion rejected'')
      else let suffix = split_on CHR ''/'' (removeprefix (orders_root @ ''/'') path);
               valid_id = (suffix \<noteq> [] \<and> valid_order_id (hd suffix));
               valid = (case operation of
                   OP_CREATE \<Rightarrow> method = ''POST'' \<and> path = orders_root
                 | OP_CANCEL \<Rightarrow> method = ''DELETE'' \<and> length suffix = 1 \<and> valid_id \<and>
                     hd suffix \<noteq> ''batched''
                 | OP_AMEND \<Rightarrow> method = ''POST'' \<and> length suffix = 2 \<and> suffix ! 1 = ''amend'' \<and> valid_id
                 | OP_DECREASE \<Rightarrow> method = ''POST'' \<and> length suffix = 2 \<and>
                     suffix ! 1 = ''decrease'' \<and> valid_id)
        in if valid then Inr ()
           else Inl (ValueError ''method/path is outside production signer authority''))"

text \<open>The specification of the signer's authority.\<close>

definition order_url :: "string \<Rightarrow> string" where
  "order_url oid = orders_root @ ''/'' @ oid"

definition in_authority :: "Operation \<Rightarrow> string \<Rightarrow> string \<Rightarrow> bool" where
  "in_authority operation method path = (case operation of
       OP_CREATE \<Rightarrow> method = ''POST'' \<and> path = orders_root
     | OP_CANCEL \<Rightarrow> method = ''DELETE'' \<and>
         (\<exists>oid. valid_order_id oid \<and> oid \<noteq> ''batched'' \<and> path = order_url oid)
     | OP_AMEND \<Rightarrow> method = ''POST'' \<and>
         (\<exists>oid. valid_order_id oid \<and> path = order_url oid @ ''/amend'')
     | OP_DECREASE \<Rightarrow> method = ''POST'' \<and>
         (\<exists>oid. valid_order_id oid \<and> path = order_url oid @ ''/decrease''))"

lemma order_id_chars:
  assumes "valid_order_id oid"
  shows "CHR ''/'' \<notin> set oid" and "CHR ''?'' \<notin> set oid" and "CHR ''%'' \<notin> set oid"
    and "CHR ''.'' \<notin> set oid" and "oid \<noteq> []"
  using assms
  by (auto simp: valid_order_id_def list_all_iff order_id_char_def ascii_alnum_def Let_def)

lemma root_facts:
  "startswith ''/'' (orders_root @ s)" "CHR ''?'' \<notin> set orders_root" "CHR ''%'' \<notin> set orders_root"
  "CHR ''.'' \<notin> set orders_root" "\<not> contains_sub ''//'' orders_root"
  "last orders_root \<noteq> CHR ''/''" "orders_root \<noteq> []"
  by (simp_all add: orders_root_def TRADE_ROOT_def startswith_def contains_sub_Cons
      contains_sub_Nil)

lemma url_not_confused:
  assumes "valid_order_id oid" and "tail \<in> {'''', ''/amend'', ''/decrease''}"
  shows "\<not> path_confused (order_url oid @ tail)"
proof -
  note ch = order_id_chars [OF assms(1)]
  have dots: "CHR ''.'' \<notin> set (order_url oid @ tail)"
    using ch root_facts assms(2) by (auto simp: order_url_def)
  have slash: "\<not> contains_sub ''//'' (order_url oid @ tail)"
  proof -
    have oid: "\<not> contains_sub ''//'' oid" using ch(1) by (rule contains_pair_free)
    have "last oid \<noteq> CHR ''/''" and "hd oid \<noteq> CHR ''/''"
      using ch(1,5) by (metis last_in_set, metis hd_in_set)
    moreover have "\<not> contains_sub ''//'' tail"
      using assms(2) by (auto simp: contains_sub_Cons contains_sub_Nil startswith_def)
    moreover from this oid have tl: "\<not> contains_sub ''//'' (oid @ tail)"
      using calculation by (simp only: contains_pair_append) auto
    moreover have "\<not> contains_sub ''//'' (orders_root @ ''/'')"
      using root_facts by (auto simp: contains_pair_append contains_sub_Cons contains_sub_Nil
          startswith_pair)
    moreover have "hd (oid @ tail) = hd oid" using ch(5) by simp
    ultimately have "\<not> contains_sub ''//'' ((orders_root @ ''/'') @ (oid @ tail))"
      by (simp only: contains_pair_append [of _ _ "orders_root @ ''/''"]) auto
    then show ?thesis by (simp add: order_url_def)
  qed
  from dots have "\<not> contains_sub ''..'' (order_url oid @ tail)" by (rule contains_pair_free)
  with slash show ?thesis
    using ch root_facts assms(2)
    by (auto simp: path_confused_def contains_char order_url_def)
qed

lemma suffix_of_url:
  assumes "valid_order_id oid"
  shows "split_on CHR ''/'' (removeprefix (orders_root @ ''/'') (order_url oid)) = [oid]"
    and "split_on CHR ''/'' (removeprefix (orders_root @ ''/'') (order_url oid @ ''/'' @ verb)) =
      oid # split_on CHR ''/'' verb"
proof -
  have r: "removeprefix (orders_root @ ''/'') ((orders_root @ ''/'') @ s) = s" for s
    by (rule removeprefix_append)
  have 1: "removeprefix (orders_root @ ''/'') (order_url oid) = oid"
    and 2: "removeprefix (orders_root @ ''/'') (order_url oid @ ''/'' @ verb) = oid @ ''/'' @ verb"
    using r [of oid] r [of "oid @ ''/'' @ verb"] by (simp_all add: order_url_def)
  note ch = order_id_chars(1) [OF assms]
  show "split_on CHR ''/'' (removeprefix (orders_root @ ''/'') (order_url oid)) = [oid]"
    unfolding 1 by (rule split_on_free [OF ch])
  show "split_on CHR ''/'' (removeprefix (orders_root @ ''/'') (order_url oid @ ''/'' @ verb)) =
      oid # split_on CHR ''/'' verb"
    unfolding 2 using split_on_append [OF ch, of verb] by simp
qed

text \<open>A path whose first piece is an order id starts with the orders root.\<close>

lemma path_of_suffix:
  assumes "startswith ''/'' path" and "split_on CHR ''/'' (removeprefix (orders_root @ ''/'') path) = oid # rest"
    and "valid_order_id oid"
  shows "path = orders_root @ ''/'' @ join_on CHR ''/'' (oid # rest)"
proof (cases "startswith (orders_root @ ''/'') path")
  case True
  then obtain r where p: "path = (orders_root @ ''/'') @ r" by (auto simp: startswith_iff)
  then have "removeprefix (orders_root @ ''/'') path = r" by (simp only: removeprefix_append)
  with assms(2) join_split [of "CHR ''/''" r] show ?thesis by (simp add: p)
next
  case False
  then have "removeprefix (orders_root @ ''/'') path = path" by (simp add: removeprefix_def)
  moreover from assms(1) obtain s where "path = CHR ''/'' # s" by (auto simp: startswith_iff)
  ultimately have "oid = []" using assms(2) by simp
  with assms(3) show ?thesis by (simp add: valid_order_id_def)
qed

lemma validate_operation_sound:
  assumes "validate_operation operation method path = Inr ()"
  shows "in_authority operation method path"
proof -
  let ?suffix = "split_on CHR ''/'' (removeprefix (orders_root @ ''/'') path)"
  have start: "startswith ''/'' path"
    using assms by (auto simp: validate_operation_def path_confused_def split: if_splits)
  obtain oid rest where s: "?suffix = oid # rest" by (metis list.exhaust split_on_nonempty)
  show ?thesis
  proof (cases operation)
    case OP_CREATE
    with assms show ?thesis
      by (auto simp: validate_operation_def in_authority_def Let_def split: if_splits)
  next
    case OP_CANCEL
    with assms s have v: "method = ''DELETE''" "rest = []" "valid_order_id oid" "oid \<noteq> ''batched''"
      by (auto simp: validate_operation_def Let_def split: if_splits)
    from path_of_suffix [OF start s v(3)] v OP_CANCEL show ?thesis
      by (auto simp: in_authority_def order_url_def)
  next
    case OP_AMEND
    with assms s have v: "method = ''POST''" "length rest = 1" "valid_order_id oid" "rest ! 0 = ''amend''"
      by (auto simp: validate_operation_def Let_def split: if_splits)
    then have "rest = [''amend'']" by (cases rest) auto
    with path_of_suffix [OF start s v(3)] v OP_AMEND show ?thesis
      by (auto simp: in_authority_def order_url_def)
  next
    case OP_DECREASE
    with assms s have v: "method = ''POST''" "length rest = 1" "valid_order_id oid" "rest ! 0 = ''decrease''"
      by (auto simp: validate_operation_def Let_def split: if_splits)
    then have "rest = [''decrease'']" by (cases rest) auto
    with path_of_suffix [OF start s v(3)] v OP_DECREASE show ?thesis
      by (auto simp: in_authority_def order_url_def)
  qed
qed

lemma validate_operation_complete:
  assumes "in_authority operation method path"
  shows "validate_operation operation method path = Inr ()"
proof (cases operation)
  case OP_CREATE
  have "\<not> path_confused orders_root"
    by (simp add: path_confused_def orders_root_def TRADE_ROOT_def contains_sub_Cons
        contains_sub_Nil startswith_def)
  with assms OP_CREATE show ?thesis by (simp add: validate_operation_def in_authority_def)
next
  case OP_CANCEL
  with assms obtain oid where v: "valid_order_id oid" "oid \<noteq> ''batched''" "path = order_url oid"
    "method = ''DELETE''" by (auto simp: in_authority_def)
  have "\<not> path_confused path" using url_not_confused [OF v(1), of "''''"] v(3) by simp
  with v suffix_of_url(1) [OF v(1)] OP_CANCEL show ?thesis by (simp add: validate_operation_def)
next
  case OP_AMEND
  with assms obtain oid where v: "valid_order_id oid" "path = order_url oid @ ''/amend''"
    "method = ''POST''" by (auto simp: in_authority_def)
  have "\<not> path_confused path" using url_not_confused [OF v(1), of "''/amend''"] v(2) by simp
  with v suffix_of_url(2) [OF v(1), of "''amend''"] OP_AMEND show ?thesis
    by (simp add: validate_operation_def)
next
  case OP_DECREASE
  with assms obtain oid where v: "valid_order_id oid" "path = order_url oid @ ''/decrease''"
    "method = ''POST''" by (auto simp: in_authority_def)
  have "\<not> path_confused path" using url_not_confused [OF v(1), of "''/decrease''"] v(2) by simp
  with v suffix_of_url(2) [OF v(1), of "''decrease''"] OP_DECREASE show ?thesis
    by (simp add: validate_operation_def)
qed

section \<open>The transport's view\<close>

definition operation_for :: "string \<Rightarrow> string \<Rightarrow> Operation result" where
  "operation_for method path =
     (if method = ''POST'' \<and> path = orders_root then Inr OP_CREATE
      else if method = ''DELETE'' \<and> startswith (orders_root @ ''/'') path \<and>
        path \<noteq> orders_root @ ''/batched'' then Inr OP_CANCEL
      else if method = ''POST'' \<and> endswith ''/amend'' path then Inr OP_AMEND
      else if method = ''POST'' \<and> endswith ''/decrease'' path then Inr OP_DECREASE
      else Inl (RuntimeError ''method/path outside typed production authority''))"

record SendFlags =
  sf_origin :: string
  sf_method :: string
  sf_path :: string
  sf_verify_tls :: bool
  sf_follow_redirects :: bool
  sf_timeout_seconds :: int
  sf_maximum_response_bytes :: int

definition transport_guard :: "SendFlags \<Rightarrow> Operation result" where
  "transport_guard f =
     (if sf_origin f \<noteq> PRODUCTION_ORIGIN \<or> \<not> sf_verify_tls f \<or> sf_follow_redirects f
      then Inl (RuntimeError ''production transport safety flags rejected'')
      else if sf_timeout_seconds f \<noteq> 3 \<or> sf_maximum_response_bytes f \<noteq> 1000000
      then Inl (RuntimeError ''production transport bounds rejected'')
      else rbind (operation_for (sf_method f) (sf_path f)) (\<lambda>operation.
        rbind (validate_operation operation (sf_method f) (sf_path f)) (\<lambda>_. Inr operation)))"

lemma endswith_append: "endswith p (s @ p)"
  by (simp add: endswith_def)

lemma endswith_iff: "endswith p s \<longleftrightarrow> (\<exists>r. s = r @ p)"
  unfolding endswith_def startswith_iff by (metis rev_append rev_rev_ident)

lemma operation_for_authority:
  assumes "in_authority operation method path"
  shows "operation_for method path = Inr operation"
proof (cases operation)
  case OP_CREATE
  with assms show ?thesis by (simp add: in_authority_def operation_for_def)
next
  case OP_CANCEL
  with assms obtain oid where v: "oid \<noteq> ''batched''" "path = order_url oid"
    "method = ''DELETE''" by (auto simp: in_authority_def)
  have "startswith (orders_root @ ''/'') path"
    by (auto simp: v(2) order_url_def startswith_iff)
  with v OP_CANCEL show ?thesis by (simp add: operation_for_def order_url_def)
next
  case OP_AMEND
  with assms obtain oid where v: "path = order_url oid @ ''/amend''" "method = ''POST''"
    by (auto simp: in_authority_def)
  have "path \<noteq> orders_root" by (simp add: v order_url_def)
  moreover have "endswith ''/amend'' path" unfolding v by (rule endswith_append)
  ultimately show ?thesis using v OP_AMEND by (simp add: operation_for_def)
next
  case OP_DECREASE
  with assms obtain oid where v: "path = order_url oid @ ''/decrease''" "method = ''POST''"
    by (auto simp: in_authority_def)
  have "path \<noteq> orders_root" by (simp add: v order_url_def)
  moreover have "endswith ''/decrease'' path" unfolding v by (rule endswith_append)
  moreover have "\<not> endswith ''/amend'' path"
  proof
    assume "endswith ''/amend'' path"
    then obtain r where "r @ ''/amend'' = order_url oid @ ''/decrease''"
      unfolding v by (auto simp: endswith_iff)
    from arg_cong [OF this, of last] show False by simp
  qed
  ultimately show ?thesis using v OP_DECREASE by (simp add: operation_for_def)
qed

section \<open>The production write budget\<close>

record ProductionWriteBudget =
  pw_available :: int
  pw_safety_reserve :: int

definition ProductionWriteBudget_acquire ::
    "AuthorityClass \<Rightarrow> ProductionWriteBudget \<Rightarrow> ProductionWriteBudget \<times> bool" where
  "ProductionWriteBudget_acquire authority b =
     (let safety = authority \<in> set [RISK_REDUCING, EMERGENCY_SAFETY]
      in if pw_available b \<le> 0 \<or> \<not> safety \<and> pw_available b \<le> pw_safety_reserve b
         then (b, False)
         else (b\<lparr>pw_available := pw_available b - 1\<rparr>, True))"

interpretation production_budget: write_budget
  ProductionWriteBudget_acquire pw_available pw_safety_reserve "\<lambda>a. a \<noteq> NEW_RISK"
proof unfold_locales
  show "snd (ProductionWriteBudget_acquire k b) \<longleftrightarrow>
      0 < pw_available b \<and> (k \<noteq> NEW_RISK \<or> pw_safety_reserve b < pw_available b)" for k b
    by (cases k) (auto simp: ProductionWriteBudget_acquire_def)
qed (auto simp: ProductionWriteBudget_acquire_def Let_def split: if_splits)

section \<open>Credentials and the disarmed boundary\<close>

definition REQUIRED_LIVE_WRITE_SCOPES :: "string list" where
  "REQUIRED_LIVE_WRITE_SCOPES = [''read'', ''write::trade'']"

record ProductionWriteCredential =
  pk_key_id :: string
  pk_private_key_pem :: string
  pk_scopes :: "string list"
  pk_environment :: string
  pk_credential_class :: string
  pk_fixture_only :: bool

definition ProductionWriteCredential_post_init ::
    "ProductionWriteCredential \<Rightarrow> ProductionWriteCredential result" where
  "ProductionWriteCredential_post_init c =
     (if pk_credential_class c \<noteq> ''PRODUCTION_WRITE'' \<or> pk_environment c \<noteq> ''PRODUCTION''
      then Inl (ValueError ''credential-domain confusion'')
      else if set (pk_scopes c) \<noteq> set REQUIRED_LIVE_WRITE_SCOPES
      then Inl (ValueError ''exact read and write::trade scopes are required'')
      else if pk_key_id c = '''' \<or> pk_private_key_pem c = ''''
      then Inl (ValueError ''complete credential required'')
      else Inr c)"

record CredentialHealth =
  ch_installed :: bool
  ch_scope_validated :: bool
  ch_health_state :: string

record ProductionExecutionBoundary =
  pb_arm_state :: ProductionArmState
  pb_credential :: CredentialHealth

definition ProductionExecutionBoundary_post_init ::
    "ProductionExecutionBoundary \<Rightarrow> ProductionExecutionBoundary result" where
  "ProductionExecutionBoundary_post_init b = (if pb_arm_state b \<noteq> DISARMED
     then Inl (ValueError ''M15 cannot leave DISARMED'') else Inr b)"

definition preflight :: "ProductionExecutionBoundary \<Rightarrow> unit result" where
  "preflight b = (if ch_installed (pb_credential b)
     then Inl (ValueError ''initial M15 boundary accepts no production credential'')
     else Inl (PermissionError ''production execution is DISARMED and unavailable''))"

end
