(* ===== verification/Production_Journal.thy ===== *)
theory Production_Journal
  imports Production_Requests Demo_Store_Inv "HOL-Library.AList"
begin

text \<open>
  The production request envelopes (\<open>domain.py\<close>, \<open>requests.py\<close>) and the durable journal of the
  signer (\<open>store.py\<close>): hashes and lifetime of an envelope, the translation of a NO order into
  a YES ask, ownership of a submission as an \<open>exactly_once\<close> claim and recovery as a
  \<open>recoverable_journal\<close>.
\<close>

section \<open>Envelopes\<close>

record ProductionRequestEnvelope =
  pe_execution_id :: string
  pe_risk_authorization_id :: string
  pe_risk_decision_id :: string
  pe_intent_hash :: string
  pe_operation :: Operation
  pe_authority_class :: AuthorityClass
  pe_method :: string
  pe_path :: string
  pe_origin :: string
  pe_market_ticker :: string
  pe_outcome_side :: string
  pe_book_side :: string
  pe_price :: "decimal option"
  pe_quantity :: "decimal option"
  pe_time_in_force :: "string option"
  pe_expiration :: "datetime option"
  pe_post_only :: bool
  pe_reduce_only :: bool
  pe_cancel_order_on_pause :: bool
  pe_self_trade_prevention_type :: "string option"
  pe_order_group_id :: "string option"
  pe_exchange_index :: int
  pe_subaccount :: int
  pe_client_order_id :: string
  pe_canonical_body :: json_obj
  pe_body_hash :: string
  pe_query :: "(string \<times> string) list"
  pe_rules_version :: string
  pe_candidate_version :: string
  pe_portfolio_state_hash :: string
  pe_reconciliation_state_hash :: string
  pe_created_at :: datetime
  pe_expires_at :: datetime
  pe_content_hash :: string

text \<open>
  \<open>canonical_json\<close> is the object with its keys in order; values are never binary floats in the
  model. The bytes of a canonical body are represented by that object.
\<close>

definition canonical_json :: "json_obj \<Rightarrow> json_obj" where
  "canonical_json body = sort_key fst body"

definition json_hash :: "json_obj \<Rightarrow> hashable" where
  "json_hash body = HList (map (\<lambda>(k, v). HList [HStr k, v]) body)"

text \<open>
  \<open>content_bytes\<close> hashes the text \<open>str(value)\<close> of every field: \<open>None\<close> and the text \<open>None\<close> are
  one. The texts of numbers, times and pairs are kept as the values they stand for.
\<close>

fun py_text :: "hashable \<Rightarrow> hashable" where
  "py_text HNone = HStr ''None''"
| "py_text (HBool b) = HStr (if b then ''True'' else ''False'')"
| "py_text v = v"

definition content_fields :: "ProductionRequestEnvelope \<Rightarrow> hashable" where
  "content_fields e = HList (map py_text
     [HStr (pe_execution_id e), HStr (pe_risk_authorization_id e), HStr (pe_risk_decision_id e),
      HStr (pe_intent_hash e), HStr (Operation_value (pe_operation e)),
      HStr (AuthorityClass_value (pe_authority_class e)), HStr (pe_method e), HStr (pe_path e),
      HStr (pe_origin e), HStr (pe_market_ticker e), HStr (pe_outcome_side e),
      HStr (pe_book_side e), hopt HDec (pe_price e), hopt HDec (pe_quantity e),
      hopt HStr (pe_time_in_force e), hopt (\<lambda>d. HTime (astimezone_utc d)) (pe_expiration e),
      HBool (pe_post_only e), HBool (pe_reduce_only e), HBool (pe_cancel_order_on_pause e),
      hopt HStr (pe_self_trade_prevention_type e), hopt HStr (pe_order_group_id e),
      HInt (pe_exchange_index e), HInt (pe_subaccount e), HStr (pe_client_order_id e),
      HStr (pe_body_hash e), HList (map (\<lambda>(k, v). HList [HStr k, HStr v]) (pe_query e)),
      HStr (pe_rules_version e), HStr (pe_candidate_version e),
      HStr (pe_portfolio_state_hash e), HStr (pe_reconciliation_state_hash e),
      HTime (astimezone_utc (pe_created_at e)), HTime (astimezone_utc (pe_expires_at e))])"

definition envelope_post_init ::
    "digest_fn \<Rightarrow> ProductionRequestEnvelope \<Rightarrow> ProductionRequestEnvelope result" where
  "envelope_post_init dig e =
     (if pe_origin e \<noteq> PRODUCTION_ORIGIN \<or> pe_subaccount e \<noteq> 0 \<or> pe_exchange_index e \<noteq> 0
      then Inl (ValueError ''production origin, subaccount, or exchange index is invalid'')
      else if \<not> tz_aware (pe_created_at e) \<or> \<not> tz_aware (pe_expires_at e)
      then Inl (ValueError ''UTC-aware envelope timestamps required'')
      else if astimezone_utc (pe_expires_at e) \<le> astimezone_utc (pe_created_at e) \<or>
        astimezone_utc (pe_expires_at e) - astimezone_utc (pe_created_at e) > seconds 5
      then Inl (ValueError ''production envelope TTL must be at most five seconds'')
      else rbind (validate_operation (pe_operation e) (pe_method e) (pe_path e)) (\<lambda>_.
      if pe_body_hash e \<noteq> dig (json_hash (pe_canonical_body e))
      then Inl (ValueError ''BODY_HASH_MISMATCH'')
      else if pe_content_hash e \<noteq> dig (content_fields e)
      then Inl (ValueError ''ENVELOPE_CHANGED'')
      else if canonical_json (pe_canonical_body e) \<noteq> pe_canonical_body e \<or>
        map_of (pe_canonical_body e) ''subaccount'' \<noteq> Some (HInt 0)
      then Inl (ValueError ''canonical body or subaccount changed'')
      else Inr e))"

text \<open>\<open>build_envelope\<close> fills in the canonical body and both hashes.\<close>

definition build_envelope :: "digest_fn \<Rightarrow> json_obj \<Rightarrow> ProductionRequestEnvelope \<Rightarrow>
    ProductionRequestEnvelope result" where
  "build_envelope dig body values =
     (let canonical = canonical_json body;
          provisional = values\<lparr>pe_canonical_body := canonical,
            pe_body_hash := dig (json_hash canonical), pe_content_hash := ''''\<rparr>
      in envelope_post_init dig
           (provisional\<lparr>pe_content_hash := dig (content_fields provisional)\<rparr>))"

lemma content_fields_hash [simp]:
  "content_fields (e\<lparr>pe_content_hash := h\<rparr>) = content_fields e"
  by (simp add: content_fields_def)

lemma canonical_idem [simp]: "canonical_json (canonical_json b) = canonical_json b"
  by (simp add: canonical_json_def sort_key_id_if_sorted)

lemma envelope_post_init_Inr:
  assumes "envelope_post_init dig x = Inr e"
  shows "e = x" and "in_authority (pe_operation e) (pe_method e) (pe_path e)"
    and "pe_origin e = PRODUCTION_ORIGIN" and "pe_subaccount e = 0" and "pe_exchange_index e = 0"
    and "astimezone_utc (pe_created_at e) < astimezone_utc (pe_expires_at e)"
    and "astimezone_utc (pe_expires_at e) \<le> astimezone_utc (pe_created_at e) + seconds 5"
    and "pe_content_hash e = dig (content_fields e)"
    and "pe_body_hash e = dig (json_hash (pe_canonical_body e))"
    and "map_of (pe_canonical_body e) ''subaccount'' = Some (HInt 0)"
  using assms validate_operation_sound [of "pe_operation x" "pe_method x" "pe_path x"]
  unfolding envelope_post_init_def
  by (simp_all add: rbind_eq_Inr split: if_splits)

lemma build_envelope_Inr:
  assumes "build_envelope dig body v = Inr e"
  shows "envelope_post_init dig e = Inr e"
    and "pe_canonical_body e = canonical_json body"
    and "pe_operation e = pe_operation v" and "pe_path e = pe_path v" and "pe_price e = pe_price v"
    and "pe_authority_class e = pe_authority_class v"
proof -
  let ?p = "v\<lparr>pe_canonical_body := canonical_json body,
    pe_body_hash := dig (json_hash (canonical_json body)), pe_content_hash := ''''\<rparr>"
  let ?x = "?p\<lparr>pe_content_hash := dig (content_fields ?p)\<rparr>"
  have x: "envelope_post_init dig ?x = Inr e"
    using assms by (simp only: build_envelope_def Let_def)
  then have e: "e = ?x" by (rule envelope_post_init_Inr(1))
  with x show "envelope_post_init dig e = Inr e" by simp
  show "pe_canonical_body e = canonical_json body" and "pe_operation e = pe_operation v"
    and "pe_path e = pe_path v" and "pe_price e = pe_price v"
    and "pe_authority_class e = pe_authority_class v"
    by (simp_all add: e)
qed

lemma json_hash_inject: "json_hash x = json_hash y \<longleftrightarrow> x = y"
proof -
  have "inj (\<lambda>(k :: string, v). HList [HStr k, v])" by (auto simp: inj_def)
  then show ?thesis by (simp add: json_hash_def inj_map_eq_map)
qed

lemma map_of_canonical:
  assumes "distinct (map fst body)"
  shows "map_of (canonical_json body) = map_of body"
proof -
  have "distinct (map fst (canonical_json body))"
    using assms by (simp add: canonical_json_def distinct_map)
  with assms show ?thesis by (simp add: map_of_inject_set canonical_json_def)
qed

text \<open>\<open>build_envelope\<close> supplies both hashes and the canonical body, so only the envelope's own
  fields decide whether it is accepted.\<close>

definition signable :: "json_obj \<Rightarrow> ProductionRequestEnvelope \<Rightarrow> bool" where
  "signable body v \<longleftrightarrow> pe_origin v = PRODUCTION_ORIGIN \<and> pe_subaccount v = 0 \<and>
     pe_exchange_index v = 0 \<and> tz_aware (pe_created_at v) \<and> tz_aware (pe_expires_at v) \<and>
     astimezone_utc (pe_created_at v) < astimezone_utc (pe_expires_at v) \<and>
     astimezone_utc (pe_expires_at v) \<le> astimezone_utc (pe_created_at v) + seconds 5 \<and>
     in_authority (pe_operation v) (pe_method v) (pe_path v) \<and>
     map_of (canonical_json body) ''subaccount'' = Some (HInt 0)"

lemma validate_iff: "validate_operation op m p = Inr () \<longleftrightarrow> in_authority op m p"
  using validate_operation_sound validate_operation_complete by blast

lemma build_envelope_ok: "(\<exists>e. build_envelope dig body v = Inr e) \<longleftrightarrow> signable body v"
proof -
  let ?p = "v\<lparr>pe_canonical_body := canonical_json body,
    pe_body_hash := dig (json_hash (canonical_json body)), pe_content_hash := ''''\<rparr>"
  let ?x = "?p\<lparr>pe_content_hash := dig (content_fields ?p)\<rparr>"
  have b: "build_envelope dig body v = envelope_post_init dig ?x"
    by (simp only: build_envelope_def Let_def)
  have h: "pe_content_hash ?x = dig (content_fields ?x)"
    by (simp only: content_fields_hash) simp
  have "(\<exists>e. envelope_post_init dig ?x = Inr e) \<longleftrightarrow> signable body v"
    unfolding envelope_post_init_def h
    by (cases "validate_operation (pe_operation v) (pe_method v) (pe_path v)")
      (auto simp: signable_def rbind_def validate_iff [symmetric] not_le)
  then show ?thesis by (simp only: b)
qed

section \<open>Creating orders\<close>

definition wire_stp :: "string \<Rightarrow> string result" where
  "wire_stp value =
     (let r = (if value = ''cancel_newest'' \<or> value = ''CANCEL_NEWEST'' then ''taker_at_cross''
        else value)
      in if r \<notin> set [''taker_at_cross'', ''maker'']
         then Inl (ValueError ''unsupported current Kalshi V2 self-trade prevention type'')
         else Inr r)"

record CreateArgs =
  ca_execution_id :: string
  ca_authorization_id :: string
  ca_decision_id :: string
  ca_intent_hash :: string
  ca_ticker :: string
  ca_outcome_side :: string
  ca_price :: decimal
  ca_quantity :: decimal
  ca_tif :: string
  ca_expiration :: "datetime option"
  ca_post_only :: bool
  ca_reduce_only :: bool
  ca_cancel_on_pause :: bool
  ca_stp :: string
  ca_order_group_id :: "string option"
  ca_client_order_id :: string
  ca_rules_version :: string
  ca_candidate_version :: string
  ca_portfolio_hash :: string
  ca_reconciliation_hash :: string
  ca_created_at :: datetime
  ca_expires_at :: datetime

definition v2_price :: "CreateArgs \<Rightarrow> decimal" where
  "v2_price a = (if ca_outcome_side a = ''YES'' then ca_price a else 1 - ca_price a)"

definition v2_side :: "CreateArgs \<Rightarrow> string" where
  "v2_side a = (if ca_outcome_side a = ''YES'' then ''bid'' else ''ask'')"

definition create_body :: "CreateArgs \<Rightarrow> string \<Rightarrow> json_obj" where
  "create_body a stp =
     [(''ticker'', HStr (ca_ticker a)), (''client_order_id'', HStr (ca_client_order_id a)),
      (''side'', HStr (v2_side a)), (''count'', HDec (ca_quantity a)),
      (''price'', HDec (v2_price a)), (''time_in_force'', HStr (ca_tif a)),
      (''self_trade_prevention_type'', HStr stp), (''post_only'', HBool (ca_post_only a)),
      (''cancel_order_on_pause'', HBool (ca_cancel_on_pause a)),
      (''reduce_only'', HBool (ca_reduce_only a)), (''subaccount'', HInt 0),
      (''exchange_index'', HInt 0)]
     @ optional_field ''expiration_time'' (\<lambda>d. HInt (unix_seconds (astimezone_utc d)))
         (ca_expiration a)
     @ optional_field ''order_group_id'' HStr (ca_order_group_id a)"

definition create_envelope ::
    "digest_fn \<Rightarrow> CreateArgs \<Rightarrow> ProductionRequestEnvelope result" where
  "create_envelope dig a =
     (if ca_outcome_side a \<notin> set [''YES'', ''NO'']
      then Inl (ValueError ''canonical YES or NO outcome required'')
      else if ca_tif a \<notin> set [''fill_or_kill'', ''good_till_canceled'', ''immediate_or_cancel'']
      then Inl (ValueError ''unsupported current Kalshi V2 time in force'')
      else if ca_post_only a \<and> ca_tif a \<noteq> ''good_till_canceled''
      then Inl (ValueError ''current Kalshi V2 post-only orders require good_till_canceled'')
      else if ca_expiration a \<noteq> None \<and> ca_tif a \<noteq> ''good_till_canceled''
      then Inl (ValueError ''current Kalshi V2 expiration requires good_till_canceled'')
      else if \<not> (0 < v2_price a \<and> v2_price a < 1) \<or> ca_quantity a \<le> 0
      then Inl (ValueError ''invalid fixed-point order economics'')
      else rbind (wire_stp (ca_stp a)) (\<lambda>stp.
        build_envelope dig (create_body a stp)
          \<lparr>pe_execution_id = ca_execution_id a,
           pe_risk_authorization_id = ca_authorization_id a,
           pe_risk_decision_id = ca_decision_id a, pe_intent_hash = ca_intent_hash a,
           pe_operation = OP_CREATE,
           pe_authority_class = (if \<not> ca_reduce_only a then NEW_RISK else RISK_REDUCING),
           pe_method = ''POST'', pe_path = orders_root, pe_origin = PRODUCTION_ORIGIN,
           pe_market_ticker = ca_ticker a, pe_outcome_side = ca_outcome_side a,
           pe_book_side = v2_side a, pe_price = Some (ca_price a),
           pe_quantity = Some (ca_quantity a), pe_time_in_force = Some (ca_tif a),
           pe_expiration = ca_expiration a, pe_post_only = ca_post_only a,
           pe_reduce_only = ca_reduce_only a, pe_cancel_order_on_pause = ca_cancel_on_pause a,
           pe_self_trade_prevention_type = Some stp, pe_order_group_id = ca_order_group_id a,
           pe_exchange_index = 0, pe_subaccount = 0,
           pe_client_order_id = ca_client_order_id a, pe_canonical_body = [],
           pe_body_hash = '''', pe_query = [], pe_rules_version = ca_rules_version a,
           pe_candidate_version = ca_candidate_version a,
           pe_portfolio_state_hash = ca_portfolio_hash a,
           pe_reconciliation_state_hash = ca_reconciliation_hash a,
           pe_created_at = ca_created_at a, pe_expires_at = ca_expires_at a,
           pe_content_hash = ''''\<rparr>))"

definition lifecycle_suffix :: "Operation \<Rightarrow> string" where
  "lifecycle_suffix op = (case op of OP_CANCEL \<Rightarrow> '''' | OP_AMEND \<Rightarrow> ''/amend''
     | OP_DECREASE \<Rightarrow> ''/decrease'' | OP_CREATE \<Rightarrow> '''')"

definition lifecycle_envelope :: "digest_fn \<Rightarrow> Operation \<Rightarrow> string \<Rightarrow> AuthorityClass \<Rightarrow> json_obj \<Rightarrow>
    ProductionRequestEnvelope \<Rightarrow> string \<Rightarrow> string \<Rightarrow> string \<Rightarrow> ProductionRequestEnvelope result" where
  "lifecycle_envelope dig op order_id authority replacement_body template aid did ih =
     (if op \<notin> set [OP_CANCEL, OP_AMEND, OP_DECREASE]
      then Inl (ValueError ''lifecycle operation required'')
      else build_envelope dig (AList.update ''subaccount'' (HInt 0) replacement_body)
        (template\<lparr>pe_risk_authorization_id := aid, pe_risk_decision_id := did,
           pe_intent_hash := ih, pe_operation := op, pe_authority_class := authority,
           pe_method := (if op = OP_CANCEL then ''DELETE'' else ''POST''),
           pe_path := order_url order_id @ lifecycle_suffix op,
           pe_origin := PRODUCTION_ORIGIN\<rparr>))"

lemma create_envelope_Inr:
  assumes "create_envelope dig a = Inr e"
  shows "\<exists>stp. wire_stp (ca_stp a) = Inr stp \<and> pe_canonical_body e = canonical_json (create_body a stp)"
    and "0 < v2_price a" and "v2_price a < 1" and "0 < ca_quantity a"
    and "pe_operation e = OP_CREATE" and "pe_path e = orders_root"
    and "pe_authority_class e = (if ca_reduce_only a then RISK_REDUCING else NEW_RISK)"
    and "envelope_post_init dig e = Inr e"
    and "ca_outcome_side a = ''YES'' \<or> ca_outcome_side a = ''NO''"
proof -
  show econ: "0 < v2_price a" "v2_price a < 1" "0 < ca_quantity a"
    and "ca_outcome_side a = ''YES'' \<or> ca_outcome_side a = ''NO''"
    using assms unfolding create_envelope_def by (simp_all add: not_le split: if_splits)
  from assms obtain stp where stp: "wire_stp (ca_stp a) = Inr stp"
    unfolding create_envelope_def by (auto simp: rbind_eq_Inr simp del: list.set split: if_splits)
  from assms stp obtain v where b: "build_envelope dig (create_body a stp) v = Inr e"
    and v: "pe_operation v = OP_CREATE" "pe_path v = orders_root"
      "pe_authority_class v = (if \<not> ca_reduce_only a then NEW_RISK else RISK_REDUCING)"
    unfolding create_envelope_def by (simp split: if_splits)
  note be = build_envelope_Inr [OF b]
  show "\<exists>stp. wire_stp (ca_stp a) = Inr stp \<and>
      pe_canonical_body e = canonical_json (create_body a stp)" using stp be(2) by blast
  show "pe_operation e = OP_CREATE" and "pe_path e = orders_root"
    and "envelope_post_init dig e = Inr e"
    and "pe_authority_class e = (if ca_reduce_only a then RISK_REDUCING else NEW_RISK)"
    using be v by simp_all
qed

lemma create_body_keys: "distinct (map fst (create_body a stp))"
  by (cases "ca_expiration a"; cases "ca_order_group_id a")
    (simp_all add: create_body_def optional_field_def)

lemma create_body_fields:
  "map_of (canonical_json (create_body a stp)) ''side'' = Some (HStr (v2_side a))"
  "map_of (canonical_json (create_body a stp)) ''price'' = Some (HDec (v2_price a))"
  "map_of (canonical_json (create_body a stp)) ''count'' = Some (HDec (ca_quantity a))"
  "map_of (canonical_json (create_body a stp)) ''client_order_id'' = Some (HStr (ca_client_order_id a))"
  "map_of (canonical_json (create_body a stp)) ''reduce_only'' = Some (HBool (ca_reduce_only a))"
  "map_of (canonical_json (create_body a stp)) ''subaccount'' = Some (HInt 0)"
  unfolding map_of_canonical [OF create_body_keys] by (simp_all add: create_body_def)

definition stp_supported :: "string \<Rightarrow> bool" where
  "stp_supported s \<longleftrightarrow> s = ''cancel_newest'' \<or> s = ''CANCEL_NEWEST'' \<or> s = ''taker_at_cross'' \<or>
     s = ''maker''"

lemma wire_stp_ok: "(\<exists>r. wire_stp s = Inr r) \<longleftrightarrow> stp_supported s"
  by (auto simp: wire_stp_def stp_supported_def Let_def split: if_splits)

text \<open>Exactly which create requests are turned into a signed envelope.\<close>

definition creatable :: "CreateArgs \<Rightarrow> bool" where
  "creatable a \<longleftrightarrow> (ca_outcome_side a = ''YES'' \<or> ca_outcome_side a = ''NO'') \<and>
     (ca_tif a = ''good_till_canceled'' \<or> (ca_tif a = ''fill_or_kill'' \<or>
        ca_tif a = ''immediate_or_cancel'') \<and> \<not> ca_post_only a \<and> ca_expiration a = None) \<and>
     0 < ca_price a \<and> ca_price a < 1 \<and> 0 < ca_quantity a \<and> stp_supported (ca_stp a) \<and>
     tz_aware (ca_created_at a) \<and> tz_aware (ca_expires_at a) \<and>
     astimezone_utc (ca_created_at a) < astimezone_utc (ca_expires_at a) \<and>
     astimezone_utc (ca_expires_at a) \<le> astimezone_utc (ca_created_at a) + seconds 5"

lemma ex_ok_if: "(\<exists>e. (if b then Inl m else x) = Inr e) \<longleftrightarrow> \<not> b \<and> (\<exists>e. x = Inr e)"
  by simp

lemma v2_price_range: "0 < v2_price a \<and> v2_price a < 1 \<longleftrightarrow> 0 < ca_price a \<and> ca_price a < 1"
  by (auto simp: v2_price_def)

lemma create_envelope_ok: "(\<exists>e. create_envelope dig a = Inr e) \<longleftrightarrow> creatable a"
proof (cases "wire_stp (ca_stp a)")
  case (Inl e)
  then have "\<not> stp_supported (ca_stp a)" using wire_stp_ok [of "ca_stp a"] by simp
  with Inl show ?thesis by (simp add: create_envelope_def creatable_def rbind_def)
next
  case (Inr stp)
  then have "stp_supported (ca_stp a)" using wire_stp_ok by blast
  then show ?thesis
    unfolding create_envelope_def Inr rbind_simps ex_ok_if build_envelope_ok creatable_def
    by (simp add: signable_def create_body_fields in_authority_def v2_price_range not_le) blast
qed

section \<open>The journal\<close>

record ProductionRow =
  pj_execution_id :: string
  pj_authorization_id :: string
  pj_intent_hash :: string
  pj_client_order_id :: string
  pj_origin :: string
  pj_method :: string
  pj_path :: string
  pj_body_hash :: string
  pj_boundary_version :: string
  pj_created_at :: instant
  pj_state :: string
  pj_possibly_sent :: bool

record AuditRow =
  ad_happened_at :: instant
  ad_event_type :: string
  ad_execution_id :: string
  ad_reason_code :: string

record ProductionJournal =
  pl_rows :: "ProductionRow list"
  pl_audit :: "AuditRow list"
  pl_state :: "string option"

definition new_journal :: ProductionJournal where
  "new_journal = \<lparr>pl_rows = [], pl_audit = [], pl_state = Some ''DISARMED''\<rparr>"

definition production_audit :: "instant \<Rightarrow> string \<Rightarrow> string \<Rightarrow> string \<Rightarrow> ProductionJournal \<Rightarrow>
    ProductionJournal" where
  "production_audit now event execution_id reason j =
     j\<lparr>pl_audit := pl_audit j @ [\<lparr>ad_happened_at = now, ad_event_type = event,
       ad_execution_id = execution_id, ad_reason_code = reason\<rparr>]\<rparr>"

definition production_keys :: "(ProductionRow, string) col list" where
  "production_keys = [\<lambda>r. Some (pj_execution_id r), \<lambda>r. Some (pj_authorization_id r),
     \<lambda>r. Some (pj_client_order_id r)]"

definition production_row :: "string \<Rightarrow> ProductionRequestEnvelope \<Rightarrow> ProductionRow" where
  "production_row version e =
     \<lparr>pj_execution_id = pe_execution_id e, pj_authorization_id = pe_risk_authorization_id e,
      pj_intent_hash = pe_intent_hash e, pj_client_order_id = pe_client_order_id e,
      pj_origin = pe_origin e, pj_method = pe_method e, pj_path = pe_path e,
      pj_body_hash = pe_body_hash e, pj_boundary_version = version,
      pj_created_at = astimezone_utc (pe_created_at e), pj_state = ''PREPARED_NOT_SENT'',
      pj_possibly_sent = False\<rparr>"

text \<open>The \<open>CHECK\<close> on the origin column makes a foreign origin an integrity error as well.\<close>

definition claim :: "instant \<Rightarrow> string \<times> ProductionRequestEnvelope \<Rightarrow> ProductionJournal \<Rightarrow>
    ProductionJournal \<times> bool" where
  "claim now q j = (case q of (version, e) \<Rightarrow>
     (if pe_origin e \<noteq> PRODUCTION_ORIGIN then (j, False)
      else case sql_insert production_keys (production_row version e) (pl_rows j) of
          None \<Rightarrow> (j, False)
        | Some rows \<Rightarrow> (production_audit now ''PRODUCTION_REQUEST_PREPARED'' (pe_execution_id e)
            ''OFFLINE'' (j\<lparr>pl_rows := rows\<rparr>), True)))"

definition journal_transition :: "instant \<Rightarrow> string \<Rightarrow> string \<Rightarrow> bool \<Rightarrow> ProductionJournal \<Rightarrow>
    ProductionJournal" where
  "journal_transition now execution_id state possibly_sent j =
     production_audit now state execution_id state
       (j\<lparr>pl_rows := sql_update (\<lambda>r. pj_execution_id r = execution_id)
         (\<lambda>r. r\<lparr>pj_state := state, pj_possibly_sent := possibly_sent\<rparr>) (pl_rows j)\<rparr>)"

definition production_open :: "ProductionRow \<Rightarrow> bool" where
  "production_open r \<longleftrightarrow> pj_state r \<notin> set [''RECONCILED'', ''REJECTED_DISARMED'']"

definition recover_row :: "string \<Rightarrow> ProductionRow list \<Rightarrow> ProductionRow list" where
  "recover_row execution_id = sql_update (\<lambda>r. pj_execution_id r = execution_id)
     (pj_state_update (\<lambda>_. ''UNKNOWN_RECONCILIATION_REQUIRED''))"

definition recover_rows :: "ProductionRow list \<Rightarrow> ProductionRow list \<times> string list" where
  "recover_rows rows = (let ids = map pj_execution_id (filter production_open rows)
     in (fold recover_row ids rows, ids))"

definition production_recover :: "instant \<Rightarrow> ProductionJournal \<Rightarrow> ProductionJournal \<times> string list" where
  "production_recover now j = (let (rows, ids) = recover_rows (pl_rows j)
     in (fold (\<lambda>i. production_audit now ''PRODUCTION_RECONCILIATION_REQUIRED'' i ''RESTART'') ids
          (j\<lparr>pl_rows := rows\<rparr>), ids))"

definition arm_state :: "ProductionJournal \<Rightarrow> string" where
  "arm_state j = (case pl_state j of None \<Rightarrow> ''DISARMED'' | Some s \<Rightarrow> s)"

lemma audit_frame [simp]:
  "pl_rows (production_audit now a b c j) = pl_rows j"
  "pl_state (production_audit now a b c j) = pl_state j"
  by (simp_all add: production_audit_def)

lemma fold_audit_frame [simp]:
  "pl_rows (fold (\<lambda>i. production_audit now a i c) ids j) = pl_rows j"
  "pl_state (fold (\<lambda>i. production_audit now a i c) ids j) = pl_state j"
  by (induction ids arbitrary: j) simp_all

definition marked :: "string set \<Rightarrow> ProductionRow \<Rightarrow> ProductionRow" where
  "marked A r = (if pj_execution_id r \<in> A
     then r\<lparr>pj_state := ''UNKNOWN_RECONCILIATION_REQUIRED''\<rparr> else r)"

lemma marked_fields [simp]:
  "pj_execution_id (marked A r) = pj_execution_id r"
  "pj_authorization_id (marked A r) = pj_authorization_id r"
  "pj_client_order_id (marked A r) = pj_client_order_id r"
  "pj_possibly_sent (marked A r) = pj_possibly_sent r"
  by (simp_all add: marked_def)

lemma fold_recover_row: "fold recover_row ids rows = map (marked (set ids)) rows"
proof (induction ids arbitrary: rows)
  case Nil
  have "marked {} = id" by (auto simp: marked_def fun_eq_iff)
  then show ?case by simp
next
  case (Cons i ids)
  have "recover_row i rows = map (marked {i}) rows"
    by (simp add: recover_row_def sql_update_def marked_def)
  moreover have "marked (set ids) (marked {i} r) = marked (set (i # ids)) r" for r
    by (simp add: marked_def)
  ultimately show ?case using Cons by (simp add: o_def)
qed

definition open_rows :: "ProductionRow list \<Rightarrow> string set" where
  "open_rows rows = pj_execution_id ` {r \<in> set rows. production_open r}"

lemma recover_rows_closed:
  "recover_rows rows = (map (marked (open_rows rows)) rows,
     map pj_execution_id (filter production_open rows))"
proof -
  have "set (map pj_execution_id (filter production_open rows)) = open_rows rows"
    by (simp add: open_rows_def)
  then show ?thesis by (simp add: recover_rows_def Let_def fold_recover_row del: set_map)
qed

lemma production_open_marked:
  "production_open (marked A r) \<longleftrightarrow> pj_execution_id r \<in> A \<or> production_open r"
  by (simp add: marked_def production_open_def)

lemma open_rows_marked:
  "open_rows (map (marked A) rows) = pj_execution_id ` {r \<in> set rows. pj_execution_id r \<in> A \<or> production_open r}"
proof -
  have "{r \<in> marked A ` set rows. production_open r} =
      marked A ` {r \<in> set rows. pj_execution_id r \<in> A \<or> production_open r}"
    by (auto simp: production_open_marked)
  then show ?thesis by (simp add: open_rows_def image_image)
qed

interpretation production_recovery: recoverable_journal recover_rows open_rows
  "\<lambda>i rows. \<forall>r \<in> set rows. pj_execution_id r = i \<longrightarrow> pj_state r = ''UNKNOWN_RECONCILIATION_REQUIRED''"
proof unfold_locales
  fix rows
  show "set (snd (recover_rows rows)) = open_rows rows"
    by (simp add: recover_rows_closed open_rows_def)
  show "open_rows (fst (recover_rows rows)) = open_rows rows"
    unfolding recover_rows_closed fst_conv open_rows_marked by (auto simp: open_rows_def)
  show "\<forall>r \<in> set (fst (recover_rows rows)). pj_execution_id r = k \<longrightarrow>
      pj_state r = ''UNKNOWN_RECONCILIATION_REQUIRED''" if "k \<in> open_rows rows" for k
    using that by (auto simp: recover_rows_closed marked_def)
  assume "\<And>k. k \<in> open_rows rows \<Longrightarrow> \<forall>r \<in> set rows. pj_execution_id r = k \<longrightarrow>
      pj_state r = ''UNKNOWN_RECONCILIATION_REQUIRED''"
  then show "fst (recover_rows rows) = rows"
    by (auto simp: recover_rows_closed marked_def intro!: map_idI)
qed

section \<open>Ownership\<close>

datatype JournalOp = JTransition instant string string bool | JRecover instant

fun journal_exec :: "JournalOp \<Rightarrow> ProductionJournal \<Rightarrow> ProductionJournal" where
  "journal_exec (JTransition now i s b) j = journal_transition now i s b j"
| "journal_exec (JRecover now) j = fst (production_recover now j)"

definition owned_authorizations :: "ProductionJournal \<Rightarrow> string set" where
  "owned_authorizations j = pj_authorization_id ` set (pl_rows j)"

lemma production_recover_rows: "pl_rows (fst (production_recover now j)) = fst (recover_rows (pl_rows j))"
  by (simp add: production_recover_def split_beta)

lemma owned_exec: "owned_authorizations (journal_exec op j) = owned_authorizations j"
proof -
  have "map pj_authorization_id (pl_rows (journal_exec op j)) = map pj_authorization_id (pl_rows j)"
    by (cases op) (simp_all add: journal_transition_def production_recover_rows recover_rows_closed)
  from arg_cong [OF this, of set] show ?thesis by (simp add: owned_authorizations_def)
qed

interpretation production_claim: exactly_once
  "claim now" journal_exec "\<lambda>(v, e). pe_risk_authorization_id e" owned_authorizations "\<lambda>_. True"
proof unfold_locales
  fix q :: "string \<times> ProductionRequestEnvelope" and j j' :: ProductionJournal and b
  obtain v e where q: "q = (v, e)" by (cases q)
  have key: "(case q of (v, e) \<Rightarrow> pe_risk_authorization_id e) = pj_authorization_id (production_row v e)"
    by (simp add: q production_row_def)
  show "(case q of (v, e) \<Rightarrow> pe_risk_authorization_id e) \<notin> owned_authorizations j"
    if "claim now q j = (j', True)"
    using that unfolding key
    by (auto simp: q claim_def sql_insert_Some production_keys_def conflicts_def list_ex_iff
        owned_authorizations_def split: if_splits option.splits)
  show "owned_authorizations j' = (if b
      then insert (case q of (v, e) \<Rightarrow> pe_risk_authorization_id e) (owned_authorizations j)
      else owned_authorizations j)" if "claim now q j = (j', b)"
    using that unfolding key
    by (auto simp: q claim_def sql_insert_Some owned_authorizations_def
        split: if_splits option.splits)
qed (simp_all add: owned_exec)

text \<open>No operation of the journal leaves the disarmed state.\<close>

lemma arm_state_exec: "arm_state (journal_exec op j) = arm_state j"
  by (cases op) (simp_all add: arm_state_def journal_transition_def production_recover_def split_beta)

lemma arm_state_claim: "arm_state (fst (claim now q j)) = arm_state j"
  by (simp add: claim_def arm_state_def split: prod.splits option.splits)

lemma arm_state_run:
  "arm_state (snd (claim_run (claim now) journal_exec events j)) = arm_state j"
proof (induction events arbitrary: j)
  case (Cons e es)
  show ?case
  proof (cases e)
    case (Claim q)
    obtain j' b where "claim now q j = (j', b)" by fastforce
    with Claim Cons.IH [of j'] arm_state_claim [of now q j] show ?thesis
      by (simp split: prod.splits) (metis snd_conv)
  qed (simp add: Cons.IH arm_state_exec)
qed simp

end
