(* ===== verification/Production_Properties.thy ===== *)
theory Production_Properties
  imports Production_Journal
begin

text \<open>
  The properties of the production signer (\<open>services/production_execution\<close>): the authority it
  grants, the envelopes it signs, and its durable journal.
\<close>

text \<open>C8. The authority of the signer is exactly one create path and three paths per valid order id:
  \<open>validate_operation\<close> accepts a method and path for an operation if and only if they are in it
  (no percent-encoding, traversal, query or doubled slash slips through), and the transport's
  guard reads the same operation back from them, under its fixed TLS, redirect and size flags.\<close>

theorem signer_authority_is_exact:
  "(validate_operation operation method path = Inr () \<longleftrightarrow> in_authority operation method path) \<and>
   (transport_guard f = Inr operation \<longleftrightarrow> sf_origin f = PRODUCTION_ORIGIN \<and> sf_verify_tls f \<and>
     \<not> sf_follow_redirects f \<and> sf_timeout_seconds f = 3 \<and>
     sf_maximum_response_bytes f = 1000000 \<and>
     in_authority operation (sf_method f) (sf_path f))"
proof
  show "validate_operation operation method path = Inr () \<longleftrightarrow> in_authority operation method path"
    by (rule validate_iff)
  have "rbind (operation_for (sf_method f) (sf_path f)) (\<lambda>op.
      rbind (validate_operation op (sf_method f) (sf_path f)) (\<lambda>_. Inr op)) = Inr operation \<longleftrightarrow>
    in_authority operation (sf_method f) (sf_path f)"
    using operation_for_authority by (auto simp: rbind_eq_Inr validate_iff)
  then show "transport_guard f = Inr operation \<longleftrightarrow> sf_origin f = PRODUCTION_ORIGIN \<and>
      sf_verify_tls f \<and> \<not> sf_follow_redirects f \<and> sf_timeout_seconds f = 3 \<and>
      sf_maximum_response_bytes f = 1000000 \<and> in_authority operation (sf_method f) (sf_path f)"
    unfolding transport_guard_def by auto
qed

text \<open>C12. A create request is turned into a signed envelope exactly when its fields are admissible
  (canonical outcome, time in force compatible with post-only and expiration, price inside the
  unit interval, positive quantity, known self-trade prevention, aware timestamps, at most five
  seconds of life), and then the signed body orders the YES contract: a NO order at price p
  becomes an ask at 1 - p.\<close>

theorem create_envelope_is_exact:
  "((\<exists>e. create_envelope dig a = Inr e) \<longleftrightarrow> creatable a) \<and>
   (\<forall>e. create_envelope dig a = Inr e \<longrightarrow>
     map_of (pe_canonical_body e) ''side'' =
       Some (HStr (if ca_outcome_side a = ''YES'' then ''bid'' else ''ask'')) \<and>
     map_of (pe_canonical_body e) ''price'' =
       Some (HDec (if ca_outcome_side a = ''YES'' then ca_price a else 1 - ca_price a)) \<and>
     map_of (pe_canonical_body e) ''count'' = Some (HDec (ca_quantity a)) \<and>
     map_of (pe_canonical_body e) ''client_order_id'' = Some (HStr (ca_client_order_id a)) \<and>
     map_of (pe_canonical_body e) ''subaccount'' = Some (HInt 0) \<and>
     pe_authority_class e = (if ca_reduce_only a then RISK_REDUCING else NEW_RISK) \<and>
     in_authority OP_CREATE (pe_method e) (pe_path e) \<and> envelope_post_init dig e = Inr e)"
proof (intro conjI allI impI)
  show "(\<exists>e. create_envelope dig a = Inr e) \<longleftrightarrow> creatable a" by (rule create_envelope_ok)
next
  fix e assume e: "create_envelope dig a = Inr e"
  note ce = create_envelope_Inr [OF e]
  from ce(1) obtain stp where "pe_canonical_body e = canonical_json (create_body a stp)" by blast
  then show "map_of (pe_canonical_body e) ''side'' =
       Some (HStr (if ca_outcome_side a = ''YES'' then ''bid'' else ''ask''))"
    and "map_of (pe_canonical_body e) ''price'' =
       Some (HDec (if ca_outcome_side a = ''YES'' then ca_price a else 1 - ca_price a))"
    and "map_of (pe_canonical_body e) ''count'' = Some (HDec (ca_quantity a))"
    and "map_of (pe_canonical_body e) ''client_order_id'' = Some (HStr (ca_client_order_id a))"
    and "map_of (pe_canonical_body e) ''subaccount'' = Some (HInt 0)"
    by (simp_all add: create_body_fields v2_side_def v2_price_def)
  show "pe_authority_class e = (if ca_reduce_only a then RISK_REDUCING else NEW_RISK)"
    and "envelope_post_init dig e = Inr e" by (fact ce)+
  show "in_authority OP_CREATE (pe_method e) (pe_path e)"
    using envelope_post_init_Inr(2) [OF ce(8)] ce(5) by simp
qed

definition sample_args :: CreateArgs where
  "sample_args = \<lparr>ca_execution_id = ''x'', ca_authorization_id = ''a'', ca_decision_id = ''d'',
     ca_intent_hash = ''ih'', ca_ticker = ''M'', ca_outcome_side = ''NO'', ca_price = 2/5,
     ca_quantity = 3, ca_tif = ''good_till_canceled'', ca_expiration = None, ca_post_only = True,
     ca_reduce_only = False, ca_cancel_on_pause = True, ca_stp = ''taker_at_cross'',
     ca_order_group_id = None, ca_client_order_id = ''c'', ca_rules_version = ''r'',
     ca_candidate_version = ''v'', ca_portfolio_hash = ''p'', ca_reconciliation_hash = ''q'',
     ca_created_at = Aware 0, ca_expires_at = Aware (seconds 5)\<rparr>"

theorem create_envelope_is_exact_witness:
  "\<exists>e. create_envelope (\<lambda>_. ''h'') sample_args = Inr e \<and>
     map_of (pe_canonical_body e) ''price'' = Some (HDec (3/5)) \<and>
     map_of (pe_canonical_body e) ''side'' = Some (HStr ''ask'')"
proof -
  have "creatable sample_args"
    by (simp add: creatable_def sample_args_def stp_supported_def seconds_def)
  then obtain e where e: "create_envelope (\<lambda>_. ''h'') sample_args = Inr e"
    using create_envelope_is_exact [of "\<lambda>_. ''h''" sample_args] by blast
  with create_envelope_is_exact [of "\<lambda>_. ''h''" sample_args] show ?thesis
    by (intro exI [of _ e]) (simp add: sample_args_def)
qed

text \<open>C30. Every accepted envelope survives the way to the wire: the transport reads its operation
  back from its method and path, its life is at most five seconds, and two accepted envelopes with
  one content hash agree on everything that is sent (method, path, body), unless the digest
  itself collides on what they hash.\<close>

theorem accepted_envelope_round_trip:
  assumes "envelope_post_init dig e = Inr e" and "envelope_post_init dig f = Inr f"
    and "pe_content_hash e = pe_content_hash f"
  shows "transport_guard \<lparr>sf_origin = pe_origin e, sf_method = pe_method e, sf_path = pe_path e,
      sf_verify_tls = True, sf_follow_redirects = False, sf_timeout_seconds = 3,
      sf_maximum_response_bytes = 1000000\<rparr> = Inr (pe_operation e) \<and>
    astimezone_utc (pe_created_at e) < astimezone_utc (pe_expires_at e) \<and>
    astimezone_utc (pe_expires_at e) \<le> astimezone_utc (pe_created_at e) + seconds 5 \<and>
    (pe_method e = pe_method f \<and> pe_path e = pe_path f \<and>
       pe_canonical_body e = pe_canonical_body f \<or>
     content_fields e \<noteq> content_fields f \<and> dig (content_fields e) = dig (content_fields f) \<or>
     json_hash (pe_canonical_body e) \<noteq> json_hash (pe_canonical_body f) \<and>
       dig (json_hash (pe_canonical_body e)) = dig (json_hash (pe_canonical_body f)))"
proof -
  note e = envelope_post_init_Inr [OF assms(1)] and f = envelope_post_init_Inr [OF assms(2)]
  have "validate_operation (pe_operation e) (pe_method e) (pe_path e) = Inr ()"
    using e(2) by (simp only: validate_iff)
  with operation_for_authority [OF e(2)] e(3) have t: "transport_guard \<lparr>sf_origin = pe_origin e,
      sf_method = pe_method e, sf_path = pe_path e, sf_verify_tls = True,
      sf_follow_redirects = False, sf_timeout_seconds = 3,
      sf_maximum_response_bytes = 1000000\<rparr> = Inr (pe_operation e)"
    by (simp add: transport_guard_def)
  have c: "dig (content_fields e) = dig (content_fields f)" using e(8) f(8) assms(3) by simp
  have "pe_method e = pe_method f \<and> pe_path e = pe_path f \<and> pe_canonical_body e = pe_canonical_body f"
    if "content_fields e = content_fields f"
      and "dig (json_hash (pe_canonical_body e)) = dig (json_hash (pe_canonical_body f)) \<longrightarrow>
        json_hash (pe_canonical_body e) = json_hash (pe_canonical_body f)"
  proof -
    from that(1) have h: "pe_body_hash e = pe_body_hash f" "pe_method e = pe_method f"
      "pe_path e = pe_path f" by (simp_all add: content_fields_def)
    with that(2) e(9) f(9) have "json_hash (pe_canonical_body e) = json_hash (pe_canonical_body f)"
      by simp
    with h show ?thesis by (simp add: json_hash_inject)
  qed
  then have "pe_method e = pe_method f \<and> pe_path e = pe_path f \<and>
       pe_canonical_body e = pe_canonical_body f \<or>
     content_fields e \<noteq> content_fields f \<and> dig (content_fields e) = dig (content_fields f) \<or>
     json_hash (pe_canonical_body e) \<noteq> json_hash (pe_canonical_body f) \<and>
       dig (json_hash (pe_canonical_body e)) = dig (json_hash (pe_canonical_body f))"
    using c by argo
  then show ?thesis using t e(6,7) by (intro conjI)
qed

theorem accepted_envelope_round_trip_witness:
  "\<exists>e. create_envelope (\<lambda>_. ''h'') sample_args = Inr e \<and>
     transport_guard \<lparr>sf_origin = pe_origin e, sf_method = pe_method e, sf_path = pe_path e,
      sf_verify_tls = True, sf_follow_redirects = False, sf_timeout_seconds = 3,
      sf_maximum_response_bytes = 1000000\<rparr> = Inr (pe_operation e)"
proof -
  have "creatable sample_args"
    by (simp add: creatable_def sample_args_def stp_supported_def seconds_def)
  then obtain e where e: "create_envelope (\<lambda>_. ''h'') sample_args = Inr e"
    using create_envelope_ok by blast
  note ok = create_envelope_Inr(8) [OF e]
  from accepted_envelope_round_trip [OF ok ok refl] e show ?thesis by blast
qed

text \<open>C34. The journal of the signer is a lock that is taken once and never armed: over any
  interleaving of claims, state transitions and recoveries no risk authorization is claimed twice,
  the recorded state stays \<open>DISARMED\<close>, and the boundary itself never lets a request through.\<close>

theorem production_claims_once_and_stays_disarmed:
  "distinct (map (\<lambda>(version, e). pe_risk_authorization_id e)
      (fst (claim_run (claim now) journal_exec events new_journal))) \<and>
   arm_state (snd (claim_run (claim now) journal_exec events new_journal)) = ''DISARMED'' \<and>
   (\<exists>message. preflight boundary = Inl message)"
proof (intro conjI)
  show "distinct (map (\<lambda>(version, e). pe_risk_authorization_id e)
      (fst (claim_run (claim now) journal_exec events new_journal)))"
    using production_claim.run_grants [OF TrueI prod.collapse [symmetric], of now events new_journal]
    by simp
  show "arm_state (snd (claim_run (claim now) journal_exec events new_journal)) = ''DISARMED''"
    by (simp add: arm_state_run) (simp add: arm_state_def new_journal_def)
  show "\<exists>message. preflight boundary = Inl message" by (simp add: preflight_def)
qed

text \<open>Restart recovery of the signer's journal: it returns exactly the executions that are
  neither reconciled nor rejected while disarmed, leaves every one of them awaiting
  reconciliation, changes no other row, and recovering again changes nothing more.\<close>

theorem production_recovery_is_idempotent:
  assumes "production_recover now j = (j', ids)" and "production_recover later j' = (j'', ids')"
  shows "set ids = pj_execution_id ` {r \<in> set (pl_rows j).
      pj_state r \<noteq> ''RECONCILED'' \<and> pj_state r \<noteq> ''REJECTED_DISARMED''} \<and>
    (\<forall>r \<in> set (pl_rows j'). pj_execution_id r \<in> set ids \<longrightarrow>
       pj_state r = ''UNKNOWN_RECONCILIATION_REQUIRED'') \<and>
    filter (\<lambda>r. pj_execution_id r \<notin> set ids) (pl_rows j') =
      filter (\<lambda>r. pj_execution_id r \<notin> set ids) (pl_rows j) \<and>
    pl_rows j'' = pl_rows j' \<and> set ids' = set ids \<and> arm_state j'' = arm_state j"
proof -
  have j': "pl_rows j' = fst (recover_rows (pl_rows j))" and i: "ids = snd (recover_rows (pl_rows j))"
    and j'': "pl_rows j'' = fst (recover_rows (pl_rows j'))"
    and i': "ids' = snd (recover_rows (pl_rows j'))" and a: "arm_state j'' = arm_state j"
    using assms by (auto simp: production_recover_def arm_state_def split: prod.splits)
  have open_ids: "set ids = open_rows (pl_rows j)"
    by (simp add: i production_recovery.recovery_reports)
  have rows: "pl_rows j' = map (marked (set ids)) (pl_rows j)"
    by (simp add: j' recover_rows_closed open_ids)
  have "filter (\<lambda>r. pj_execution_id r \<notin> A) (map (marked A) rs) =
      filter (\<lambda>r. pj_execution_id r \<notin> A) rs" for A rs
    by (induction rs) (auto simp: marked_def)
  then have "filter (\<lambda>r. pj_execution_id r \<notin> set ids) (pl_rows j') =
      filter (\<lambda>r. pj_execution_id r \<notin> set ids) (pl_rows j)" by (simp add: rows)
  moreover have "\<forall>r \<in> set (pl_rows j'). pj_execution_id r \<in> set ids \<longrightarrow>
      pj_state r = ''UNKNOWN_RECONCILIATION_REQUIRED''" by (auto simp: rows marked_def)
  moreover have "pl_rows j'' = pl_rows j'"
    by (simp only: j'' j' production_recovery.recovery_idem)
  moreover have "set ids' = set ids"
    by (simp only: i' i j' production_recovery.recovery_reports_again)
  moreover have "set ids = pj_execution_id ` {r \<in> set (pl_rows j).
      pj_state r \<noteq> ''RECONCILED'' \<and> pj_state r \<noteq> ''REJECTED_DISARMED''}"
    by (simp add: open_ids open_rows_def production_open_def)
  ultimately show ?thesis using a by blast
qed

definition sample_journal :: ProductionJournal where
  "sample_journal = new_journal\<lparr>pl_rows := [\<lparr>pj_execution_id = ''x'', pj_authorization_id = ''a'',
     pj_intent_hash = ''ih'', pj_client_order_id = ''c'', pj_origin = PRODUCTION_ORIGIN,
     pj_method = ''POST'', pj_path = orders_root, pj_body_hash = ''h'',
     pj_boundary_version = ''v'', pj_created_at = 0, pj_state = ''PREPARED_NOT_SENT'',
     pj_possibly_sent = False\<rparr>]\<rparr>"

theorem production_recovery_is_idempotent_witness:
  "\<exists>j' ids j'' ids'. production_recover 1 sample_journal = (j', ids) \<and>
     production_recover 2 j' = (j'', ids') \<and> set ids = {''x''} \<and> pl_rows j'' = pl_rows j'"
proof -
  obtain j' ids j'' ids' where r: "production_recover 1 sample_journal = (j', ids)"
    "production_recover 2 j' = (j'', ids')" by fastforce
  note rec = production_recovery_is_idempotent [OF r]
  have "pj_execution_id ` {r \<in> set (pl_rows sample_journal). pj_state r \<noteq> ''RECONCILED'' \<and>
      pj_state r \<noteq> ''REJECTED_DISARMED''} = {''x''}"
    by (simp add: sample_journal_def conj_disj_distribR Collect_conv_if)
  with rec have "set ids = {''x''}" by (simp only:)
  with rec r show ?thesis by blast
qed

end
