(* ===== verification/Canary_Domain.thy ===== *)
theory Canary_Domain
  imports Iso_Time
begin

text \<open>
  \<open>services/supervised_canary\<close>: the previews and approvals of a supervised one-contract order
  (\<open>domain.py\<close>), the readiness gates (\<open>readiness.py\<close>) and the decisions made from them
  (\<open>workflow.py\<close>). The timestamps of this service are timezone-aware and keep their own UTC
  offset (\<open>Iso_Time.stamp\<close>), because the store saves and compares their texts.
\<close>

section \<open>Previews\<close>

datatype CanaryState =
    DRAFT | APPROVAL_UNAVAILABLE | EXPIRED | READY_FOR_APPROVAL | AWAITING_REAUTH | HUMAN_APPROVED
  | FINAL_REVALIDATION | CANARY_AUTHORIZED | SUBMISSION_PENDING | SUBMITTED_OR_UNKNOWN
  | RECONCILING | CANARY_COMPLETE | CANARY_FAILED | REVOKED

text \<open>A JSON object with its keys in order.\<close>

definition sorted_object :: "(string \<times> hashable) list \<Rightarrow> hashable" where
  "sorted_object kvs = HList (map (\<lambda>(k, v). HList [HStr k, v]) (sort_key fst kvs))"

record CanaryPreview =
  cv_preview_id :: string
  cv_candidate_id :: string
  cv_risk_decision_id :: string
  cv_intent_hash :: string
  cv_market :: string
  cv_outcome_side :: string
  cv_price :: decimal
  cv_quantity :: decimal
  cv_maximum_loss :: decimal
  cv_created_at :: stamp
  cv_expires_at :: stamp
  cv_state :: CanaryState
  cv_content_hash :: string

definition CanaryPreview_post_init :: "digest_fn \<Rightarrow> CanaryPreview \<Rightarrow> CanaryPreview result" where
  "CanaryPreview_post_init dig p =
     (if cv_quantity p > 1 \<or> cv_quantity p \<le> 0
      then Inl (ValueError ''supervised canary is limited to one contract'')
      else if zt_at (cv_expires_at p) \<le> zt_at (cv_created_at p) \<or>
        zt_at (cv_expires_at p) - zt_at (cv_created_at p) > minutes 2
      then Inl (ValueError ''canary preview expiry must be two minutes or less'')
      else Inr (p\<lparr>cv_content_hash := dig (HList [HStr (cv_preview_id p),
        HStr (cv_candidate_id p), HStr (cv_risk_decision_id p), HStr (cv_intent_hash p),
        HStr (cv_market p), HStr (cv_outcome_side p), HDec (cv_price p), HDec (cv_quantity p),
        HDec (cv_maximum_loss p), HStr (iso_text (cv_created_at p)),
        HStr (iso_text (cv_expires_at p))])\<rparr>))"

record CanaryReadiness =
  cr_deployed :: bool
  cr_production_read_verified :: bool
  cr_production_write_credential_installed :: bool
  cr_reconciled :: bool
  cr_strategy_evidence_passed :: bool
  cr_safety_review_passed :: bool
  cr_owner_password_reauthenticated :: bool
  cr_owner_totp_reauthenticated :: bool
  cr_explicit_first_trade_approval :: bool

definition CanaryReadiness_evaluate :: "CanaryReadiness \<Rightarrow> CanaryState" where
  "CanaryReadiness_evaluate r = APPROVAL_UNAVAILABLE"

datatype ApprovalState = AP_ISSUED | AP_CONSUMED | AP_EXPIRED | AP_REVOKED

text \<open>
  The database checks the text of the quantity, which depends on the digits its Decimal was
  written with: \<open>hp_quantity_text\<close> is \<open>str(quantity)\<close>.
\<close>

record HumanCanaryPreview =
  hp_preview_id :: string
  hp_created_at :: stamp
  hp_expires_at :: stamp
  hp_candidate_id :: string
  hp_market_ticker :: string
  hp_event_ticker :: string
  hp_market_title :: string
  hp_resolution_question :: string
  hp_close_time :: stamp
  hp_rules_version :: string
  hp_rules_hash :: string
  hp_settlement_source :: string
  hp_forecast_version :: string
  hp_independent_forecast :: decimal
  hp_market_reference :: decimal
  hp_uncertainty :: decimal
  hp_selected_outcome :: string
  hp_limit_price :: decimal
  hp_quantity :: decimal
  hp_quantity_text :: string
  hp_maximum_fee :: decimal
  hp_maximum_commitment :: decimal
  hp_maximum_loss :: decimal
  hp_current_market_risk :: decimal
  hp_projected_market_risk :: decimal
  hp_current_event_risk :: decimal
  hp_projected_event_risk :: decimal
  hp_current_aggregate_risk :: decimal
  hp_projected_aggregate_risk :: decimal
  hp_protected_reserve :: decimal
  hp_after_cost_value :: decimal
  hp_execution_style :: string
  hp_post_only :: bool
  hp_reduce_only :: bool
  hp_cancel_order_on_pause :: bool
  hp_stp_policy :: string
  hp_order_group_policy :: string
  hp_client_order_id :: string
  hp_reconciliation_version :: string
  hp_market_data_version :: string
  hp_api_compatibility_version :: string
  hp_evidence_mode :: string
  hp_subaccount :: int
  hp_content_hash :: string

definition HumanCanaryPreview_payload :: "HumanCanaryPreview \<Rightarrow> hashable" where
  "HumanCanaryPreview_payload p = sorted_object
     [(''preview_id'', HStr (hp_preview_id p)), (''created_at'', HStr (str_text (hp_created_at p))),
      (''expires_at'', HStr (str_text (hp_expires_at p))),
      (''candidate_id'', HStr (hp_candidate_id p)), (''market_ticker'', HStr (hp_market_ticker p)),
      (''event_ticker'', HStr (hp_event_ticker p)), (''market_title'', HStr (hp_market_title p)),
      (''resolution_question'', HStr (hp_resolution_question p)),
      (''close_time'', HStr (str_text (hp_close_time p))),
      (''rules_version'', HStr (hp_rules_version p)), (''rules_hash'', HStr (hp_rules_hash p)),
      (''settlement_source'', HStr (hp_settlement_source p)),
      (''forecast_version'', HStr (hp_forecast_version p)),
      (''independent_forecast'', HDec (hp_independent_forecast p)),
      (''market_reference'', HDec (hp_market_reference p)),
      (''uncertainty'', HDec (hp_uncertainty p)),
      (''selected_outcome'', HStr (hp_selected_outcome p)),
      (''limit_price'', HDec (hp_limit_price p)), (''quantity'', HStr (hp_quantity_text p)),
      (''maximum_fee'', HDec (hp_maximum_fee p)),
      (''maximum_commitment'', HDec (hp_maximum_commitment p)),
      (''maximum_loss'', HDec (hp_maximum_loss p)),
      (''current_market_risk'', HDec (hp_current_market_risk p)),
      (''projected_market_risk'', HDec (hp_projected_market_risk p)),
      (''current_event_risk'', HDec (hp_current_event_risk p)),
      (''projected_event_risk'', HDec (hp_projected_event_risk p)),
      (''current_aggregate_risk'', HDec (hp_current_aggregate_risk p)),
      (''projected_aggregate_risk'', HDec (hp_projected_aggregate_risk p)),
      (''protected_reserve'', HDec (hp_protected_reserve p)),
      (''after_cost_value'', HDec (hp_after_cost_value p)),
      (''execution_style'', HStr (hp_execution_style p)), (''post_only'', HBool (hp_post_only p)),
      (''reduce_only'', HBool (hp_reduce_only p)),
      (''cancel_order_on_pause'', HBool (hp_cancel_order_on_pause p)),
      (''stp_policy'', HStr (hp_stp_policy p)),
      (''order_group_policy'', HStr (hp_order_group_policy p)),
      (''client_order_id'', HStr (hp_client_order_id p)),
      (''reconciliation_version'', HStr (hp_reconciliation_version p)),
      (''market_data_version'', HStr (hp_market_data_version p)),
      (''api_compatibility_version'', HStr (hp_api_compatibility_version p)),
      (''evidence_mode'', HStr (hp_evidence_mode p)), (''subaccount'', HInt (hp_subaccount p))]"

definition HumanCanaryPreview_post_init ::
    "digest_fn \<Rightarrow> HumanCanaryPreview \<Rightarrow> HumanCanaryPreview result" where
  "HumanCanaryPreview_post_init dig p =
     (if hp_quantity p \<noteq> 1 \<or> hp_subaccount p \<noteq> 0
      then Inl (ValueError ''canary opening quantity must be exactly 1.00 on subaccount 0'')
      else if zt_at (hp_expires_at p) \<le> zt_at (hp_created_at p) \<or>
        zt_at (hp_expires_at p) - zt_at (hp_created_at p) > minutes 2
      then Inl (ValueError ''preview TTL exceeds two minutes'')
      else Inr (p\<lparr>hp_content_hash := dig (HumanCanaryPreview_payload p)\<rparr>))"

section \<open>Approvals\<close>

record HumanCanaryApproval =
  ha_approval_id :: string
  ha_owner_identity :: string
  ha_preview_hash :: string
  ha_candidate_id :: string
  ha_intent_hash :: string
  ha_exact_price :: decimal
  ha_exact_quantity :: decimal
  ha_maximum_fee :: decimal
  ha_maximum_loss :: decimal
  ha_rules_hash :: string
  ha_reconciliation_version :: string
  ha_production_read_state :: string
  ha_approved_at :: stamp
  ha_expires_at :: stamp
  ha_reason :: string
  ha_confirmation :: string
  ha_step_up_proof_reference :: string
  ha_state :: ApprovalState
  ha_content_hash :: string

definition ApprovalState_value :: "ApprovalState \<Rightarrow> string" where
  "ApprovalState_value s = (case s of AP_ISSUED \<Rightarrow> ''ISSUED'' | AP_CONSUMED \<Rightarrow> ''CONSUMED''
     | AP_EXPIRED \<Rightarrow> ''EXPIRED'' | AP_REVOKED \<Rightarrow> ''REVOKED'')"

definition HumanCanaryApproval_payload :: "HumanCanaryApproval \<Rightarrow> hashable" where
  "HumanCanaryApproval_payload a = HList
     [HStr (ha_approval_id a), HStr (ha_owner_identity a), HStr (ha_preview_hash a),
      HStr (ha_candidate_id a), HStr (ha_intent_hash a), HDec (ha_exact_price a),
      HDec (ha_exact_quantity a), HDec (ha_maximum_fee a), HDec (ha_maximum_loss a),
      HStr (ha_rules_hash a), HStr (ha_reconciliation_version a),
      HStr (ha_production_read_state a), HStr (str_text (ha_approved_at a)),
      HStr (str_text (ha_expires_at a)), HStr (ha_reason a), HStr (ha_confirmation a),
      HStr (ha_step_up_proof_reference a), HStr (ApprovalState_value (ha_state a))]"

definition HumanCanaryApproval_post_init ::
    "digest_fn \<Rightarrow> HumanCanaryApproval \<Rightarrow> HumanCanaryApproval result" where
  "HumanCanaryApproval_post_init dig a =
     (if ha_exact_quantity a \<noteq> 1 \<or>
        zt_at (ha_expires_at a) - zt_at (ha_approved_at a) > seconds 60
      then Inl (ValueError ''approval must bind one contract for no more than 60 seconds'')
      else if ha_confirmation a \<noteq> ''APPROVE THIS ONE-CONTRACT CANARY''
      then Inl (ValueError ''explicit canary confirmation required'')
      else Inr (a\<lparr>ha_content_hash := dig (HumanCanaryApproval_payload a)\<rparr>))"

section \<open>Readiness\<close>

record ReadinessSnapshot =
  rs_m13_verified :: bool
  rs_m14_live_demo_verified :: bool
  rs_m15_path_verified :: bool
  rs_production_deployment_live_verified :: bool
  rs_production_read_live_verified :: bool
  rs_real_reconciliation_live_verified :: bool
  rs_api_compatibility_live_verified :: bool
  rs_postgres_concurrency_live_verified :: bool
  rs_signer_runtime_live_verified :: bool
  rs_model_eligible :: bool
  rs_source_evidence_ready :: bool
  rs_write_credential_installed :: bool
  rs_compliance_clear :: bool
  rs_global_halt_clear :: bool
  rs_kills_clear :: bool
  rs_exchange_active :: bool
  rs_trading_active :: bool
  rs_market_tradable :: bool
  rs_rules_current :: bool
  rs_candidate_current :: bool
  rs_fee_verified :: bool
  rs_account_reconciled :: bool
  rs_no_unknown_orders :: bool
  rs_no_unknown_positions :: bool
  rs_clock_safe :: bool
  rs_write_budget_safe :: bool
  rs_read_budget_safe :: bool
  rs_user_data_timestamp :: "stamp option"
  rs_observed_at :: stamp

definition ReadinessSnapshot_flags :: "ReadinessSnapshot \<Rightarrow> (string \<times> bool) list" where
  "ReadinessSnapshot_flags r =
     [(''m13_verified'', rs_m13_verified r),
      (''m14_live_demo_verified'', rs_m14_live_demo_verified r),
      (''m15_path_verified'', rs_m15_path_verified r),
      (''production_deployment_live_verified'', rs_production_deployment_live_verified r),
      (''production_read_live_verified'', rs_production_read_live_verified r),
      (''real_reconciliation_live_verified'', rs_real_reconciliation_live_verified r),
      (''api_compatibility_live_verified'', rs_api_compatibility_live_verified r),
      (''postgres_concurrency_live_verified'', rs_postgres_concurrency_live_verified r),
      (''signer_runtime_live_verified'', rs_signer_runtime_live_verified r),
      (''model_eligible'', rs_model_eligible r),
      (''source_evidence_ready'', rs_source_evidence_ready r),
      (''write_credential_installed'', rs_write_credential_installed r),
      (''compliance_clear'', rs_compliance_clear r),
      (''global_halt_clear'', rs_global_halt_clear r), (''kills_clear'', rs_kills_clear r),
      (''exchange_active'', rs_exchange_active r), (''trading_active'', rs_trading_active r),
      (''market_tradable'', rs_market_tradable r), (''rules_current'', rs_rules_current r),
      (''candidate_current'', rs_candidate_current r), (''fee_verified'', rs_fee_verified r),
      (''account_reconciled'', rs_account_reconciled r),
      (''no_unknown_orders'', rs_no_unknown_orders r),
      (''no_unknown_positions'', rs_no_unknown_positions r), (''clock_safe'', rs_clock_safe r),
      (''write_budget_safe'', rs_write_budget_safe r),
      (''read_budget_safe'', rs_read_budget_safe r)]"

definition user_data_stale :: "instant \<Rightarrow> duration \<Rightarrow> ReadinessSnapshot \<Rightarrow> bool" where
  "user_data_stale now maximum_age r = (case rs_user_data_timestamp r of None \<Rightarrow> True
     | Some z \<Rightarrow> now - zt_at z > maximum_age)"

definition ReadinessSnapshot_missing :: "instant \<Rightarrow> duration \<Rightarrow> ReadinessSnapshot \<Rightarrow> string list" where
  "ReadinessSnapshot_missing now maximum_age r =
     sort (map fst (filter (\<lambda>(name, flag). \<not> flag) (ReadinessSnapshot_flags r)) @
       only_if (user_data_stale now maximum_age r) ''user_data_fresh'')"

definition ReadinessSnapshot_approvable :: "instant \<Rightarrow> ReadinessSnapshot \<Rightarrow> bool" where
  "ReadinessSnapshot_approvable now r \<longleftrightarrow> ReadinessSnapshot_missing now (seconds 30) r = []"

record FinalCanaryState =
  fc_preview_hash :: string
  fc_approval_hash :: string
  fc_exact_price_unchanged :: bool
  fc_exact_quantity_unchanged :: bool
  fc_rules_hash_unchanged :: bool
  fc_candidate_unchanged :: bool
  fc_forecast_current :: bool
  fc_fresh_m13_passed :: bool
  fc_fresh_m13_authorization_issued :: bool
  fc_m15_body_hash_matches :: bool
  fc_readiness :: ReadinessSnapshot

definition permits_boundary :: "instant \<Rightarrow> FinalCanaryState \<Rightarrow> bool" where
  "permits_boundary now f \<longleftrightarrow> fc_exact_price_unchanged f \<and> fc_exact_quantity_unchanged f \<and>
     fc_rules_hash_unchanged f \<and> fc_candidate_unchanged f \<and> fc_forecast_current f \<and>
     fc_fresh_m13_passed f \<and> fc_fresh_m13_authorization_issued f \<and>
     fc_m15_body_hash_matches f \<and> ReadinessSnapshot_approvable now (fc_readiness f)"

section \<open>Decisions\<close>

record CanaryDecision =
  cd_state :: CanaryState
  cd_missing_gates :: "string list"
  cd_production_state :: string
  cd_send_permitted :: bool

definition canary_decision :: "CanaryState \<Rightarrow> string list \<Rightarrow> CanaryDecision" where
  "canary_decision state missing = \<lparr>cd_state = state, cd_missing_gates = missing,
     cd_production_state = ''DISARMED'', cd_send_permitted = False\<rparr>"

definition evaluate_preview :: "HumanCanaryPreview \<Rightarrow> ReadinessSnapshot \<Rightarrow> instant \<Rightarrow>
    CanaryDecision" where
  "evaluate_preview preview readiness now =
     (if now \<ge> zt_at (hp_expires_at preview) then canary_decision EXPIRED [''preview_expired'']
      else let missing = ReadinessSnapshot_missing now (seconds 30) readiness
        in canary_decision (if missing = [] then READY_FOR_APPROVAL else APPROVAL_UNAVAILABLE)
             missing)"

definition revalidation_reasons :: "HumanCanaryPreview \<Rightarrow> HumanCanaryApproval \<Rightarrow>
    FinalCanaryState \<Rightarrow> instant \<Rightarrow> string list" where
  "revalidation_reasons preview approval final now =
     only_if (ha_state approval \<noteq> AP_ISSUED \<or> now \<ge> zt_at (ha_expires_at approval))
       ''approval_expired_or_used'' @
     only_if (ha_preview_hash approval \<noteq> hp_content_hash preview) ''preview_changed'' @
     only_if (fc_preview_hash final \<noteq> hp_content_hash preview \<or>
       fc_approval_hash final \<noteq> ha_content_hash approval) ''final_binding_changed'' @
     only_if (ha_exact_price approval \<noteq> hp_limit_price preview \<or>
       ha_exact_quantity approval \<noteq> hp_quantity preview) ''price_or_quantity_changed'' @
     only_if (ha_rules_hash approval \<noteq> hp_rules_hash preview) ''rules_changed'' @
     (if \<not> permits_boundary now final
      then (let missing = ReadinessSnapshot_missing now (seconds 30) (fc_readiness final)
        in if missing = [] then [''final_preflight_failed''] else missing)
      else [])"

definition final_revalidation :: "HumanCanaryPreview \<Rightarrow> HumanCanaryApproval \<Rightarrow>
    FinalCanaryState \<Rightarrow> instant \<Rightarrow> CanaryDecision" where
  "final_revalidation preview approval final now =
     (let reasons = revalidation_reasons preview approval final now
      in if reasons \<noteq> [] then canary_decision CANARY_FAILED (py_sorted reasons)
         else canary_decision CANARY_AUTHORIZED [])"

record CanaryAcceptanceReport =
  ct_report_id :: string
  ct_execution_state :: string
  ct_fill_quantity :: string
  ct_fill_price :: string
  ct_fees :: string
  ct_cash_reconciled :: bool
  ct_position_reconciled :: bool
  ct_reserve_preserved :: bool
  ct_risk_limits_preserved :: bool
  ct_no_unknown_order :: bool
  ct_signer_state :: string
  ct_websocket_state :: string
  ct_rest_state :: string
  ct_journal_state :: string
  ct_strategy_outcome :: string

definition operationally_complete :: "CanaryAcceptanceReport \<Rightarrow> bool" where
  "operationally_complete r \<longleftrightarrow> ct_cash_reconciled r \<and> ct_position_reconciled r \<and>
     ct_reserve_preserved r \<and> ct_risk_limits_preserved r \<and> ct_no_unknown_order r \<and>
     ct_execution_state r = ''KNOWN''"

section \<open>Facts\<close>

lemma missing_set:
  "set (ReadinessSnapshot_missing now age r) =
     fst ` {f \<in> set (ReadinessSnapshot_flags r). \<not> snd f} \<union>
     (if user_data_stale now age r then {''user_data_fresh''} else {})"
  by (force simp: ReadinessSnapshot_missing_def)

lemma approvable_iff:
  "ReadinessSnapshot_approvable now r \<longleftrightarrow> (\<forall>f \<in> set (ReadinessSnapshot_flags r). snd f) \<and>
     (\<exists>z. rs_user_data_timestamp r = Some z \<and> now \<le> zt_at z + seconds 30)"
proof -
  have "ReadinessSnapshot_approvable now r \<longleftrightarrow>
      set (ReadinessSnapshot_missing now (seconds 30) r) = {}"
    by (simp only: ReadinessSnapshot_approvable_def set_empty)
  also have "\<dots> \<longleftrightarrow> (\<forall>f \<in> set (ReadinessSnapshot_flags r). snd f) \<and>
      \<not> user_data_stale now (seconds 30) r"
    unfolding missing_set by (cases "user_data_stale now (seconds 30) r") (auto, fastforce)
  also have "\<not> user_data_stale now (seconds 30) r \<longleftrightarrow>
      (\<exists>z. rs_user_data_timestamp r = Some z \<and> now \<le> zt_at z + seconds 30)"
    by (auto simp: user_data_stale_def split: option.splits)
  finally show ?thesis .
qed

end
