(* ===== verification/Canary_Store.thy ===== *)
theory Canary_Store
  imports Canary_Domain Tables Decimals
begin

text \<open>
  \<open>services/supervised_canary/store.py\<close>: the durable store of the supervised canary as a record
  of its tables. Each method is one transaction: it returns the new store, or an exception and the
  store is as before. \<open>CHECK\<close> constraints and unique indexes that fail raise
  \<open>IntegrityError\<close>.
\<close>

section \<open>Tables\<close>

definition UNRESOLVED :: "CanaryState list" where
  "UNRESOLVED = [READY_FOR_APPROVAL, AWAITING_REAUTH, HUMAN_APPROVED, FINAL_REVALIDATION,
     CANARY_AUTHORIZED, SUBMISSION_PENDING, SUBMITTED_OR_UNKNOWN, RECONCILING]"

record PreviewRow =
  pv_preview_id :: string
  pv_content_hash :: string
  pv_candidate_id :: string
  pv_client_order_id :: string
  pv_price :: decimal
  pv_quantity :: string
  pv_created_at :: string
  pv_expires_at :: string
  pv_state :: CanaryState

record ApprovalRow =
  ar_approval_id :: string
  ar_preview_hash :: string
  ar_owner_identity :: string
  ar_content_hash :: string
  ar_approved_at :: string
  ar_expires_at :: string
  ar_state :: ApprovalState

record SessionRow =
  sr_session_id :: string
  sr_preview_id :: string
  sr_approval_id :: string
  sr_client_order_id :: string
  sr_state :: CanaryState
  sr_filled_atoms :: int
  sr_remaining_atoms :: int
  sr_reconciliation_version :: "string option"
  sr_possibly_submitted :: bool
  sr_created_at :: string
  sr_resolved_at :: "string option"

record CanaryEvent =
  ce_happened_at :: instant
  ce_event_type :: string
  ce_reference_hash :: string
  ce_actor :: string

record CanaryStore =
  cs_production_state :: string
  cs_previews :: "PreviewRow list"
  cs_approvals :: "ApprovalRow list"
  cs_sessions :: "SessionRow list"
  cs_real_fill_count :: int
  cs_real_submission_count :: int
  cs_events :: "CanaryEvent list"

definition preview_keys :: "(PreviewRow, string) col list" where
  "preview_keys = [\<lambda>r. Some (pv_preview_id r), \<lambda>r. Some (pv_content_hash r),
     \<lambda>r. Some (pv_client_order_id r)]"

definition approval_keys :: "(ApprovalRow, string) col list" where
  "approval_keys = [\<lambda>r. Some (ar_approval_id r), \<lambda>r. Some (ar_preview_hash r),
     \<lambda>r. Some (ar_content_hash r)]"

definition session_keys :: "(SessionRow, string) col list" where
  "session_keys = [\<lambda>r. Some (sr_session_id r), \<lambda>r. Some (sr_preview_id r),
     \<lambda>r. Some (sr_approval_id r), \<lambda>r. Some (sr_client_order_id r)]"

text \<open>A new database, and one that is opened again: the runtime state is reset, the counters
  are kept.\<close>

definition new_canary_store :: CanaryStore where
  "new_canary_store = \<lparr>cs_production_state = ''DISARMED'', cs_previews = [], cs_approvals = [],
     cs_sessions = [], cs_real_fill_count = 0, cs_real_submission_count = 0, cs_events = []\<rparr>"

definition reopen :: "CanaryStore \<Rightarrow> CanaryStore" where
  "reopen st = st\<lparr>cs_production_state := ''DISARMED''\<rparr>"

definition is_unresolved :: "SessionRow \<Rightarrow> bool" where
  "is_unresolved r \<longleftrightarrow> sr_state r \<in> set UNRESOLVED"

definition unresolved_count :: "SessionRow list \<Rightarrow> nat" where
  "unresolved_count rows = length (filter is_unresolved rows)"

text \<open>The partial unique index \<open>one_unresolved_canary\<close>, and the constraint on the atoms.\<close>

definition sessions_checked :: "SessionRow list \<Rightarrow> SessionRow list result" where
  "sessions_checked rows = (if unresolved_count rows > 1 then Inl IntegrityError else Inr rows)"

definition atoms_ok :: "SessionRow \<Rightarrow> bool" where
  "atoms_ok r \<longleftrightarrow> 0 \<le> sr_filled_atoms r \<and> 0 \<le> sr_remaining_atoms r \<and>
     sr_filled_atoms r + sr_remaining_atoms r = 1000000"

definition canary_event :: "instant \<Rightarrow> string \<Rightarrow> string \<Rightarrow> string \<Rightarrow> CanaryStore \<Rightarrow> CanaryStore" where
  "canary_event clk kind reference actor st =
     st\<lparr>cs_events := cs_events st @ [\<lparr>ce_happened_at = clk, ce_event_type = kind,
       ce_reference_hash = reference, ce_actor = actor\<rparr>]\<rparr>"

section \<open>Migration of the earlier quantity columns\<close>

record LegacyRow =
  lg_session_id :: string
  lg_preview_id :: string
  lg_approval_id :: string
  lg_client_order_id :: string
  lg_state :: CanaryState
  lg_filled_quantity :: decimal
  lg_remaining_quantity :: decimal
  lg_reconciliation_version :: "string option"
  lg_possibly_submitted :: bool
  lg_created_at :: string
  lg_resolved_at :: "string option"

definition migrate_row :: "LegacyRow \<Rightarrow> SessionRow result" where
  "migrate_row r =
     (let filled_atoms = lg_filled_quantity r * 1000000;
          remaining_atoms = lg_remaining_quantity r * 1000000
      in if filled_atoms \<noteq> of_int \<lfloor>filled_atoms\<rfloor> \<or> remaining_atoms \<noteq> of_int \<lfloor>remaining_atoms\<rfloor> \<or>
           filled_atoms + remaining_atoms \<noteq> 1000000
         then Inl (RuntimeError ''legacy canary quantities cannot be migrated exactly'')
         else Inr \<lparr>sr_session_id = lg_session_id r, sr_preview_id = lg_preview_id r,
           sr_approval_id = lg_approval_id r, sr_client_order_id = lg_client_order_id r,
           sr_state = lg_state r, sr_filled_atoms = \<lfloor>filled_atoms\<rfloor>,
           sr_remaining_atoms = \<lfloor>remaining_atoms\<rfloor>,
           sr_reconciliation_version = lg_reconciliation_version r,
           sr_possibly_submitted = lg_possibly_submitted r, sr_created_at = lg_created_at r,
           sr_resolved_at = lg_resolved_at r\<rparr>)"

fun insert_all :: "SessionRow list \<Rightarrow> SessionRow list \<Rightarrow> SessionRow list result" where
  "insert_all [] tab = Inr tab"
| "insert_all (r # rs) tab = (if \<not> atoms_ok r then Inl IntegrityError
     else case sql_insert session_keys r tab of None \<Rightarrow> Inl IntegrityError
       | Some tab' \<Rightarrow> insert_all rs tab')"

definition migrate_legacy :: "LegacyRow list \<Rightarrow> SessionRow list result" where
  "migrate_legacy rows = rbind (rmap migrate_row rows) (\<lambda>converted.
     rbind (insert_all converted []) sessions_checked)"

text \<open>A database of the earlier version: its sessions have the quantity columns, every other table
  is the one of today or is missing. Opening it creates what is missing (an absent table is empty,
  an absent counter row is zero), resets the runtime state, keeps previews, approvals, events and
  both counters, and replaces the sessions by the converted ones.\<close>

record LegacyStore =
  lc_previews :: "PreviewRow list"
  lc_approvals :: "ApprovalRow list"
  lc_sessions :: "LegacyRow list"
  lc_real_fill_count :: "int option"
  lc_real_submission_count :: "int option"
  lc_events :: "CanaryEvent list"

definition migrated_store :: "LegacyStore \<Rightarrow> SessionRow list \<Rightarrow> CanaryStore" where
  "migrated_store db rows = \<lparr>cs_production_state = ''DISARMED'', cs_previews = lc_previews db,
     cs_approvals = lc_approvals db, cs_sessions = rows,
     cs_real_fill_count = (case lc_real_fill_count db of None \<Rightarrow> 0 | Some n \<Rightarrow> n),
     cs_real_submission_count = (case lc_real_submission_count db of None \<Rightarrow> 0 | Some n \<Rightarrow> n),
     cs_events = lc_events db\<rparr>"

definition open_legacy :: "LegacyStore \<Rightarrow> CanaryStore result" where
  "open_legacy db = rbind (migrate_legacy (lc_sessions db)) (\<lambda>rows. Inr (migrated_store db rows))"

text \<open>What the schema enforces on the tables that are kept: their unique columns and the ranges of
  the two counters.\<close>

definition legacy_schema :: "LegacyStore \<Rightarrow> bool" where
  "legacy_schema db \<longleftrightarrow> (\<forall>c \<in> set preview_keys. unique_col c (lc_previews db)) \<and>
     (\<forall>c \<in> set approval_keys. unique_col c (lc_approvals db)) \<and>
     list_all (\<lambda>n. 0 \<le> n \<and> n \<le> 50) (case lc_real_fill_count db of None \<Rightarrow> [] | Some n \<Rightarrow> [n]) \<and>
     list_all (\<lambda>n. 0 \<le> n \<and> n \<le> 1) (case lc_real_submission_count db of None \<Rightarrow> [] | Some n \<Rightarrow> [n])"

section \<open>Previews and approvals\<close>

definition add_preview :: "instant \<Rightarrow> HumanCanaryPreview \<Rightarrow> CanaryStore \<Rightarrow> CanaryStore result" where
  "add_preview clk p st =
     (if hp_quantity_text p \<noteq> ''1.00'' then Inl IntegrityError
      else case sql_insert preview_keys
          \<lparr>pv_preview_id = hp_preview_id p, pv_content_hash = hp_content_hash p,
           pv_candidate_id = hp_candidate_id p, pv_client_order_id = hp_client_order_id p,
           pv_price = hp_limit_price p, pv_quantity = hp_quantity_text p,
           pv_created_at = iso_text (hp_created_at p), pv_expires_at = iso_text (hp_expires_at p),
           pv_state = DRAFT\<rparr> (cs_previews st) of
        None \<Rightarrow> Inl IntegrityError
      | Some rows \<Rightarrow> Inr (canary_event clk ''CANARY_PREVIEW_CREATED'' (hp_content_hash p)
          ''SYSTEM'' (st\<lparr>cs_previews := rows\<rparr>)))"

record StepUp =
  su_authenticated_session :: bool
  su_recent_session :: bool
  su_password_valid :: bool
  su_totp_valid :: bool
  su_csrf_valid :: bool
  su_rate_limit_clear :: bool

definition stepped_up :: "StepUp \<Rightarrow> bool" where
  "stepped_up s \<longleftrightarrow> su_authenticated_session s \<and> su_recent_session s \<and> su_password_valid s \<and>
     su_totp_valid s \<and> su_csrf_valid s \<and> su_rate_limit_clear s"

definition issue_approval :: "instant \<Rightarrow> HumanCanaryApproval \<Rightarrow> HumanCanaryPreview \<Rightarrow> instant \<Rightarrow>
    StepUp \<Rightarrow> CanaryStore \<Rightarrow> CanaryStore result" where
  "issue_approval clk a p now s st =
     (if \<not> stepped_up s then Inl (PermissionError ''step-up authentication failed'')
      else if now \<ge> zt_at (hp_expires_at p) \<or> ha_preview_hash a \<noteq> hp_content_hash p
      then Inl (PermissionError ''preview expired or changed'')
      else case sql_insert approval_keys
          \<lparr>ar_approval_id = ha_approval_id a, ar_preview_hash = ha_preview_hash a,
           ar_owner_identity = ha_owner_identity a, ar_content_hash = ha_content_hash a,
           ar_approved_at = iso_text (ha_approved_at a), ar_expires_at = iso_text (ha_expires_at a),
           ar_state = AP_ISSUED\<rparr> (cs_approvals st) of
        None \<Rightarrow> Inl IntegrityError
      | Some rows \<Rightarrow> Inr (canary_event clk ''CANARY_HUMAN_APPROVED'' (ha_content_hash a)
          (ha_owner_identity a) (st\<lparr>cs_approvals := rows\<rparr>)))"

definition approval_matches :: "string \<Rightarrow> string \<Rightarrow> string \<Rightarrow> stamp \<Rightarrow> ApprovalRow \<Rightarrow> bool" where
  "approval_matches approval_id owner preview_hash now r \<longleftrightarrow> ar_approval_id r = approval_id \<and>
     ar_owner_identity r = owner \<and> ar_preview_hash r = preview_hash \<and> ar_state r = AP_ISSUED \<and>
     ar_expires_at r > iso_text now"

definition consume_approval :: "string \<Rightarrow> string \<Rightarrow> string \<Rightarrow> stamp \<Rightarrow> CanaryStore \<Rightarrow>
    CanaryStore \<times> bool" where
  "consume_approval approval_id owner preview_hash now st =
     (let hit = approval_matches approval_id owner preview_hash now
      in (st\<lparr>cs_approvals := sql_update hit (ar_state_update (\<lambda>_. AP_CONSUMED)) (cs_approvals st)\<rparr>,
          length (filter hit (cs_approvals st)) = 1))"

section \<open>Sessions\<close>

definition open_session :: "string \<Rightarrow> string \<Rightarrow> string \<Rightarrow> string \<Rightarrow> stamp \<Rightarrow> CanaryStore \<Rightarrow>
    CanaryStore \<times> bool" where
  "open_session session_id preview_id approval_id client_order_id now st =
     (if cs_real_submission_count st \<noteq> 0 then (st, False)
      else case sql_insert session_keys
          \<lparr>sr_session_id = session_id, sr_preview_id = preview_id, sr_approval_id = approval_id,
           sr_client_order_id = client_order_id, sr_state = CANARY_AUTHORIZED,
           sr_filled_atoms = 0, sr_remaining_atoms = 1000000, sr_reconciliation_version = None,
           sr_possibly_submitted = False, sr_created_at = iso_text now, sr_resolved_at = None\<rparr>
          (cs_sessions st) of
        None \<Rightarrow> (st, False)
      | Some rows \<Rightarrow> (case sessions_checked rows of
          Inl _ \<Rightarrow> (st, False)
        | Inr rows' \<Rightarrow> (st\<lparr>cs_sessions := rows'\<rparr>, True)))"

definition find_session :: "string \<Rightarrow> CanaryStore \<Rightarrow> SessionRow option" where
  "find_session session_id st = sql_find (\<lambda>r. sr_session_id r = session_id) (cs_sessions st)"

definition record_submission_attempt :: "string \<Rightarrow> string \<Rightarrow> CanaryStore \<Rightarrow> CanaryStore result" where
  "record_submission_attempt session_id mode st =
     (if mode \<noteq> ''REAL_PRODUCTION''
      then Inl (ValueError ''only real production submission attempts consume this budget'')
      else if find_session session_id st = None
      then Inl (ValueError ''unknown canary session'')
      else if cs_real_submission_count st \<noteq> 0
      then Inl (ValueError ''global one-order experimental canary limit already used'')
      else Inr (st\<lparr>cs_real_submission_count := 1\<rparr>))"

definition update_session :: "string \<Rightarrow> (SessionRow \<Rightarrow> SessionRow) \<Rightarrow> CanaryStore \<Rightarrow>
    CanaryStore result" where
  "update_session session_id f st =
     rbind (sessions_checked (sql_update (\<lambda>r. sr_session_id r = session_id) f (cs_sessions st)))
       (\<lambda>rows. Inr (st\<lparr>cs_sessions := rows\<rparr>))"

definition record_fill :: "string \<Rightarrow> decimal \<Rightarrow> string \<Rightarrow> CanaryStore \<Rightarrow> CanaryStore result" where
  "record_fill session_id filled mode st =
     (if mode \<noteq> ''REAL_PRODUCTION'' then Inr st
      else if \<not> (0 \<le> filled \<and> filled \<le> 1)
      then Inl (ValueError ''fill exceeds one-contract canary'')
      else if filled * 1000000 \<noteq> of_int \<lfloor>filled * 1000000\<rfloor>
      then Inl (ValueError ''fill quantity exceeds six-decimal fixed-point precision'')
      else case find_session session_id st of
        None \<Rightarrow> Inl (ValueError ''unknown canary session'')
      | Some row \<Rightarrow>
          (let atoms = \<lfloor>filled * 1000000\<rfloor>; previous = sr_filled_atoms row
           in if atoms < previous
              then Inl (ValueError ''cumulative fill quantity cannot decrease'')
              else rbind (update_session session_id (\<lambda>r. r\<lparr>sr_filled_atoms := atoms,
                  sr_remaining_atoms := 1000000 - atoms, sr_state := RECONCILING\<rparr>) st) (\<lambda>st'.
                Inr (if atoms > previous
                  then st'\<lparr>cs_real_fill_count := min 50 (cs_real_fill_count st' + 1)\<rparr>
                  else st'))))"

definition RESOLUTIONS :: "CanaryState list" where
  "RESOLUTIONS = [CANARY_COMPLETE, CANARY_FAILED, SUBMITTED_OR_UNKNOWN, REVOKED, EXPIRED]"

definition resolve :: "instant \<Rightarrow> string \<Rightarrow> CanaryState \<Rightarrow> stamp \<Rightarrow> CanaryStore \<Rightarrow>
    CanaryStore result" where
  "resolve clk session_id state now st =
     (if state \<notin> set RESOLUTIONS then Inl (ValueError ''terminal/disarm state required'')
      else rbind (update_session session_id (\<lambda>r. r\<lparr>sr_state := state,
          sr_resolved_at := Some (iso_text now),
          sr_possibly_submitted := (state = SUBMITTED_OR_UNKNOWN)\<rparr>) st) (\<lambda>st'.
        Inr (canary_event clk ''PRODUCTION_AUTO_DISARMED'' session_id ''SYSTEM''
          (st'\<lparr>cs_production_state := ''DISARMED''\<rparr>))))"

definition needs_recovery :: "SessionRow \<Rightarrow> bool" where
  "needs_recovery r \<longleftrightarrow> sr_possibly_submitted r \<and>
     sr_state r \<notin> set [CANARY_COMPLETE, CANARY_FAILED, REVOKED, EXPIRED]"

definition recover_session :: "string \<Rightarrow> SessionRow list \<Rightarrow> SessionRow list" where
  "recover_session session_id = sql_update (\<lambda>r. sr_session_id r = session_id)
     (sr_state_update (\<lambda>_. SUBMITTED_OR_UNKNOWN))"

definition recover_sessions :: "SessionRow list \<Rightarrow> SessionRow list \<times> string list" where
  "recover_sessions rows = (let ids = map sr_session_id (filter needs_recovery rows)
     in (fold recover_session ids rows, ids))"

definition canary_recover :: "CanaryStore \<Rightarrow> (CanaryStore \<times> string list) result" where
  "canary_recover st = (let (rows, ids) = recover_sessions (cs_sessions st)
     in rbind (sessions_checked rows) (\<lambda>rows'.
       Inr (st\<lparr>cs_production_state := ''DISARMED'', cs_sessions := rows'\<rparr>, ids)))"

definition submission_budget_used :: "CanaryStore \<Rightarrow> bool" where
  "submission_budget_used st \<longleftrightarrow> cs_real_submission_count st \<noteq> 0"

definition unresolved_canary_present :: "CanaryStore \<Rightarrow> bool" where
  "unresolved_canary_present st \<longleftrightarrow> list_ex is_unresolved (cs_sessions st)"

end
