(* ===== verification/Canary_Inv.thy ===== *)
theory Canary_Inv
  imports Canary_Store Demo_Store_Inv
begin

text \<open>
  The supervised canary's store as a transition system: what every reachable store satisfies, and
  its claims as instances of the shared contracts (an approval is consumed once, the one
  submission is recorded once, recovery is idempotent).
\<close>

section \<open>The invariant\<close>

definition canary_inv :: "CanaryStore \<Rightarrow> bool" where
  "canary_inv st \<longleftrightarrow> distinct (map ar_approval_id (cs_approvals st)) \<and>
     distinct (map ar_preview_hash (cs_approvals st)) \<and>
     distinct (map sr_session_id (cs_sessions st)) \<and>
     distinct (map sr_approval_id (cs_sessions st)) \<and>
     distinct (map sr_client_order_id (cs_sessions st)) \<and>
     unresolved_count (cs_sessions st) \<le> 1 \<and> (\<forall>r \<in> set (cs_sessions st). atoms_ok r) \<and>
     0 \<le> cs_real_fill_count st \<and> cs_real_fill_count st \<le> 50 \<and>
     (cs_real_submission_count st = 0 \<or> cs_real_submission_count st = 1) \<and>
     cs_production_state st = ''DISARMED''"

lemma canary_inv_new: "canary_inv new_canary_store"
  by (simp add: canary_inv_def new_canary_store_def unresolved_count_def)

lemma canary_event_frame [simp]:
  "cs_approvals (canary_event c k r a st) = cs_approvals st"
  "cs_sessions (canary_event c k r a st) = cs_sessions st"
  "cs_previews (canary_event c k r a st) = cs_previews st"
  "cs_real_fill_count (canary_event c k r a st) = cs_real_fill_count st"
  "cs_real_submission_count (canary_event c k r a st) = cs_real_submission_count st"
  "cs_production_state (canary_event c k r a st) = cs_production_state st"
  by (simp_all add: canary_event_def)

lemma canary_inv_event [simp]: "canary_inv (canary_event c k r a st) = canary_inv st"
  by (simp add: canary_inv_def)

lemma distinct_insert_key:
  assumes "sql_insert cs r tab = Some tab'" and "(\<lambda>r. Some (f r)) \<in> set cs"
    and "distinct (map f tab)"
  shows "distinct (map f tab')"
  using unique_col_insert [OF _ assms(1,2)] assms(3) by (simp add: unique_col_Some)

lemma sessions_checked_Inr:
  "sessions_checked rows = Inr rows' \<longleftrightarrow> rows' = rows \<and> unresolved_count rows \<le> 1"
  by (auto simp: sessions_checked_def)

lemma add_preview_inv: "canary_inv st \<Longrightarrow> add_preview clk p st = Inr st' \<Longrightarrow> canary_inv st'"
  by (auto simp: add_preview_def canary_inv_def split: if_splits option.splits)

lemma issue_approval_inv:
  assumes "canary_inv st" and "issue_approval clk a p now s st = Inr st'"
  shows "canary_inv st'"
proof -
  from assms(2) obtain r rows where ins: "sql_insert approval_keys r (cs_approvals st) = Some rows"
    and st': "st' = canary_event clk ''CANARY_HUMAN_APPROVED'' (ha_content_hash a)
      (ha_owner_identity a) (st\<lparr>cs_approvals := rows\<rparr>)"
    by (auto simp: issue_approval_def split: if_splits option.splits)
  from assms(1) have d: "distinct (map ar_approval_id (cs_approvals st))"
    "distinct (map ar_preview_hash (cs_approvals st))" by (simp_all add: canary_inv_def)
  have "distinct (map ar_approval_id rows)" "distinct (map ar_preview_hash rows)"
    by (rule distinct_insert_key [OF ins _ d(1)], simp add: approval_keys_def)
      (rule distinct_insert_key [OF ins _ d(2)], simp add: approval_keys_def)
  with assms(1) st' show ?thesis by (auto simp: canary_inv_def)
qed

lemma consume_approval_inv: "canary_inv st \<Longrightarrow> canary_inv (fst (consume_approval i w h now st))"
  by (simp add: consume_approval_def Let_def canary_inv_def)

lemma open_session_inv:
  assumes "canary_inv st"
  shows "canary_inv (fst (open_session i p a c now st))"
proof (cases "snd (open_session i p a c now st)")
  case False
  then have "fst (open_session i p a c now st) = st"
    by (auto simp: open_session_def split: if_splits option.splits sum.splits)
  with assms show ?thesis by simp
next
  case True
  then obtain rows r where ins: "sql_insert session_keys r (cs_sessions st) = Some rows"
    and r: "atoms_ok r" and u: "unresolved_count rows \<le> 1"
    and st': "fst (open_session i p a c now st) = st\<lparr>cs_sessions := rows\<rparr>"
    by (auto simp: open_session_def atoms_ok_def sessions_checked_def
        split: if_splits option.splits sum.splits)
  from assms have d: "distinct (map sr_session_id (cs_sessions st))"
    "distinct (map sr_approval_id (cs_sessions st))"
    "distinct (map sr_client_order_id (cs_sessions st))"
    by (simp_all add: canary_inv_def)
  have "distinct (map sr_session_id rows)"
    by (rule distinct_insert_key [OF ins _ d(1)]) (simp add: session_keys_def)
  moreover have "distinct (map sr_approval_id rows)"
    by (rule distinct_insert_key [OF ins _ d(2)]) (simp add: session_keys_def)
  moreover have "distinct (map sr_client_order_id rows)"
    by (rule distinct_insert_key [OF ins _ d(3)]) (simp add: session_keys_def)
  moreover have "set rows = insert r (set (cs_sessions st))" using ins by (auto simp: sql_insert_Some)
  ultimately show ?thesis using assms r u by (simp add: canary_inv_def st')
qed

lemma submission_inv:
  "canary_inv st \<Longrightarrow> record_submission_attempt i m st = Inr st' \<Longrightarrow> canary_inv st'"
  by (auto simp: record_submission_attempt_def canary_inv_def split: if_splits)

lemma update_session_inv:
  assumes "canary_inv st" and "update_session i f st = Inr st'"
    and "\<And>r. sr_session_id (f r) = sr_session_id r" and "\<And>r. sr_approval_id (f r) = sr_approval_id r"
    and "\<And>r. sr_client_order_id (f r) = sr_client_order_id r" and "\<And>r. atoms_ok r \<Longrightarrow> atoms_ok (f r)"
  shows "canary_inv st'"
  using assms
  by (auto simp: update_session_def rbind_eq_Inr sessions_checked_Inr canary_inv_def set_sql_update)

lemma record_fill_inv:
  assumes "canary_inv st" and "record_fill i q m st = Inr st'"
  shows "canary_inv st'"
proof (cases "m = ''REAL_PRODUCTION''")
  case False
  with assms show ?thesis by (simp add: record_fill_def)
next
  case True
  let ?n = "\<lfloor>q * 1000000\<rfloor>"
  from True assms(2) obtain st1 where q: "0 \<le> q" "q \<le> 1" and up: "update_session i (\<lambda>r. r\<lparr>sr_filled_atoms := ?n,
        sr_remaining_atoms := 1000000 - ?n, sr_state := RECONCILING\<rparr>) st = Inr st1"
    and st': "st' = st1 \<or> st' = st1\<lparr>cs_real_fill_count := min 50 (cs_real_fill_count st1 + 1)\<rparr>"
    by (auto simp: record_fill_def Let_def rbind_eq_Inr split: if_splits option.splits)
  from q have "0 \<le> ?n" "?n \<le> 1000000" by (simp_all add: floor_le_iff)
  then have "canary_inv st1" by (intro update_session_inv [OF assms(1) up]) (simp_all add: atoms_ok_def)
  with st' show ?thesis by (auto simp: canary_inv_def)
qed

lemma resolve_inv:
  assumes "canary_inv st" and "resolve clk i s now st = Inr st'"
  shows "canary_inv st'"
proof -
  from assms(2) obtain st1 where up: "update_session i (\<lambda>r. r\<lparr>sr_state := s,
          sr_resolved_at := Some (iso_text now),
          sr_possibly_submitted := (s = SUBMITTED_OR_UNKNOWN)\<rparr>) st = Inr st1"
    and st': "st' = canary_event clk ''PRODUCTION_AUTO_DISARMED'' i ''SYSTEM''
      (st1\<lparr>cs_production_state := ''DISARMED''\<rparr>)"
    by (auto simp: resolve_def rbind_eq_Inr split: if_splits)
  have "canary_inv st1" by (rule update_session_inv [OF assms(1) up]) (simp_all add: atoms_ok_def)
  with st' show ?thesis by (simp add: canary_inv_def)
qed

section \<open>Recovery\<close>

definition restored :: "string set \<Rightarrow> SessionRow \<Rightarrow> SessionRow" where
  "restored A r = (if sr_session_id r \<in> A then r\<lparr>sr_state := SUBMITTED_OR_UNKNOWN\<rparr> else r)"

lemma restored_fields [simp]:
  "sr_session_id (restored A r) = sr_session_id r"
  "sr_approval_id (restored A r) = sr_approval_id r"
  "sr_client_order_id (restored A r) = sr_client_order_id r"
  "sr_possibly_submitted (restored A r) = sr_possibly_submitted r"
  "atoms_ok (restored A r) = atoms_ok r"
  by (simp_all add: restored_def atoms_ok_def)

lemma fold_recover_session: "fold recover_session ids rows = map (restored (set ids)) rows"
proof (induction ids arbitrary: rows)
  case Nil
  have "restored {} = id" by (auto simp: restored_def fun_eq_iff)
  then show ?case by simp
next
  case (Cons i ids)
  have "recover_session i rows = map (restored {i}) rows"
    by (simp add: recover_session_def sql_update_def restored_def)
  moreover have "restored (set ids) (restored {i} r) = restored (set (i # ids)) r" for r
    by (simp add: restored_def)
  ultimately show ?case using Cons by (simp add: o_def)
qed

definition awaiting :: "SessionRow list \<Rightarrow> string set" where
  "awaiting rows = sr_session_id ` {r \<in> set rows. needs_recovery r}"

lemma recover_sessions_closed:
  "recover_sessions rows =
     (map (restored (awaiting rows)) rows, map sr_session_id (filter needs_recovery rows))"
proof -
  have "set (map sr_session_id (filter needs_recovery rows)) = awaiting rows"
    by (simp add: awaiting_def)
  then show ?thesis by (simp add: recover_sessions_def Let_def fold_recover_session del: set_map)
qed

lemma needs_recovery_restored:
  "needs_recovery (restored A r) \<longleftrightarrow> sr_possibly_submitted r \<and> sr_session_id r \<in> A \<or> needs_recovery r"
  by (auto simp: restored_def needs_recovery_def)

lemma awaiting_restored:
  "awaiting (map (restored A) rows) = sr_session_id ` {r \<in> set rows.
     sr_possibly_submitted r \<and> sr_session_id r \<in> A \<or> needs_recovery r}"
proof -
  have "{r \<in> restored A ` set rows. needs_recovery r} =
      restored A ` {r \<in> set rows. sr_possibly_submitted r \<and> sr_session_id r \<in> A \<or> needs_recovery r}"
    by (auto simp: needs_recovery_restored)
  then show ?thesis by (simp add: awaiting_def image_image)
qed

interpretation canary_recovery: recoverable_journal recover_sessions awaiting
  "\<lambda>i rows. \<forall>r \<in> set rows. sr_session_id r = i \<longrightarrow> sr_state r = SUBMITTED_OR_UNKNOWN"
proof unfold_locales
  fix rows :: "SessionRow list" and k
  show "awaiting (fst (recover_sessions rows)) = awaiting rows"
    unfolding recover_sessions_closed fst_conv awaiting_restored by (auto simp: awaiting_def)
  show "set (snd (recover_sessions rows)) = awaiting rows"
    by (simp add: recover_sessions_closed awaiting_def)
  show "\<forall>r \<in> set (fst (recover_sessions rows)). sr_session_id r = k \<longrightarrow> sr_state r = SUBMITTED_OR_UNKNOWN"
    if "k \<in> awaiting rows"
    using that by (auto simp: recover_sessions_closed restored_def)
  assume "\<And>k. k \<in> awaiting rows \<Longrightarrow> \<forall>r \<in> set rows. sr_session_id r = k \<longrightarrow> sr_state r = SUBMITTED_OR_UNKNOWN"
  then show "fst (recover_sessions rows) = rows"
    by (auto simp: recover_sessions_closed restored_def intro!: map_idI)
qed

lemma recover_inv:
  assumes "canary_inv st" and "canary_recover st = Inr (st', ids)"
  shows "canary_inv st'"
  using assms
  by (auto simp: canary_recover_def recover_sessions_closed rbind_eq_Inr sessions_checked_Inr
      canary_inv_def comp_def)

section \<open>Histories\<close>

text \<open>Every operation but the two that are claims: a submission attempt and a consumption.\<close>

datatype CanaryOp =
    CReopen | CAddPreview instant HumanCanaryPreview
  | CIssue instant HumanCanaryApproval HumanCanaryPreview instant StepUp
  | COpen string string string string stamp | CFill string decimal string
  | CResolve instant string CanaryState stamp | CRecover
  | CConsume string string string stamp | CSubmit string string

definition kept_on_error :: "CanaryStore \<Rightarrow> CanaryStore result \<Rightarrow> CanaryStore" where
  "kept_on_error st r = (case r of Inl _ \<Rightarrow> st | Inr st' \<Rightarrow> st')"

fun canary_exec :: "CanaryOp \<Rightarrow> CanaryStore \<Rightarrow> CanaryStore" where
  "canary_exec CReopen st = reopen st"
| "canary_exec (CAddPreview clk p) st = kept_on_error st (add_preview clk p st)"
| "canary_exec (CIssue clk a p now s) st = kept_on_error st (issue_approval clk a p now s st)"
| "canary_exec (COpen i p a c now) st = fst (open_session i p a c now st)"
| "canary_exec (CFill i q m) st = kept_on_error st (record_fill i q m st)"
| "canary_exec (CResolve clk i s now) st = kept_on_error st (resolve clk i s now st)"
| "canary_exec CRecover st = kept_on_error st (rbind (canary_recover st) (\<lambda>(st', ids). Inr st'))"
| "canary_exec (CConsume i w h now) st = fst (consume_approval i w h now st)"
| "canary_exec (CSubmit i m) st = kept_on_error st (record_submission_attempt i m st)"

lemma kept_on_error_inv:
  "canary_inv st \<Longrightarrow> (\<And>st'. r = Inr st' \<Longrightarrow> canary_inv st') \<Longrightarrow> canary_inv (kept_on_error st r)"
  by (cases r) (simp_all add: kept_on_error_def)

lemma canary_exec_inv:
  assumes inv: "canary_inv st"
  shows "canary_inv (canary_exec op st)"
proof (cases op)
  case CReopen
  with inv show ?thesis by (simp add: reopen_def canary_inv_def)
next
  case CRecover
  have "canary_inv st'" if "rbind (canary_recover st) (\<lambda>(st', ids). Inr st') = Inr st'" for st'
    using that recover_inv [OF inv] by (auto simp: rbind_eq_Inr)
  with CRecover show ?thesis by (simp add: kept_on_error_inv [OF inv])
qed (simp_all add: kept_on_error_inv [OF inv] add_preview_inv [OF inv] issue_approval_inv [OF inv]
    open_session_inv [OF inv] record_fill_inv [OF inv] resolve_inv [OF inv]
    consume_approval_inv [OF inv] submission_inv [OF inv])

text \<open>A store starts empty, or as a database of the earlier version that is opened and migrated.\<close>

inductive canary_reachable :: "CanaryStore \<Rightarrow> bool" where
  canary_start: "canary_reachable new_canary_store"
| canary_migrated: "legacy_schema db \<Longrightarrow> open_legacy db = Inr st \<Longrightarrow> canary_reachable st"
| canary_step: "canary_reachable st \<Longrightarrow> canary_reachable (canary_exec op st)"

lemma insert_all_ok:
  "insert_all rs tab = Inr tab' \<Longrightarrow> \<forall>r \<in> set tab. atoms_ok r \<Longrightarrow>
     distinct (map sr_session_id tab) \<Longrightarrow> distinct (map sr_approval_id tab) \<Longrightarrow>
     distinct (map sr_client_order_id tab) \<Longrightarrow>
   (\<forall>r \<in> set tab'. atoms_ok r) \<and> distinct (map sr_session_id tab') \<and>
     distinct (map sr_approval_id tab') \<and> distinct (map sr_client_order_id tab')"
proof (induction rs tab rule: insert_all.induct)
  case (2 r rs tab)
  from "2.prems"(1) obtain tab1 where r: "atoms_ok r"
    and ins: "sql_insert session_keys r tab = Some tab1" and rest: "insert_all rs tab1 = Inr tab'"
    by (auto split: if_splits option.splits)
  have "distinct (map sr_session_id tab1)"
    by (rule distinct_insert_key [OF ins _ "2.prems"(3)]) (simp add: session_keys_def)
  moreover have "distinct (map sr_approval_id tab1)"
    by (rule distinct_insert_key [OF ins _ "2.prems"(4)]) (simp add: session_keys_def)
  moreover have "distinct (map sr_client_order_id tab1)"
    by (rule distinct_insert_key [OF ins _ "2.prems"(5)]) (simp add: session_keys_def)
  moreover have "\<forall>r \<in> set tab1. atoms_ok r"
    using ins r "2.prems"(2) by (auto simp: sql_insert_Some)
  ultimately show ?case using "2.IH" ins r rest by simp
qed simp

lemma canary_reachable_inv: "canary_reachable st \<Longrightarrow> canary_inv st"
proof (induction rule: canary_reachable.induct)
  case (canary_migrated db st)
  from canary_migrated(2) obtain conv sessions where st: "st = migrated_store db sessions"
    and rows: "insert_all conv [] = Inr sessions" "unresolved_count sessions \<le> 1"
    by (auto simp: open_legacy_def migrate_legacy_def rbind_eq_Inr sessions_checked_Inr)
  from canary_migrated(1) have kept: "distinct (map ar_approval_id (lc_approvals db))"
    "distinct (map ar_preview_hash (lc_approvals db))"
    "0 \<le> cs_real_fill_count st" "cs_real_fill_count st \<le> 50"
    "cs_real_submission_count st = 0 \<or> cs_real_submission_count st = 1"
    by (auto simp: legacy_schema_def approval_keys_def unique_col_Some migrated_store_def st
        split: option.splits)
  from insert_all_ok [of conv "[]" sessions] rows kept show ?case
    by (simp add: canary_inv_def migrated_store_def st)
qed (auto intro: canary_inv_new canary_exec_inv)

section \<open>One submission ever, one consumption per approval\<close>

definition try_submission :: "string \<times> string \<Rightarrow> CanaryStore \<Rightarrow> CanaryStore \<times> bool" where
  "try_submission q st = (case record_submission_attempt (fst q) (snd q) st of
     Inl _ \<Rightarrow> (st, False) | Inr st' \<Rightarrow> (st', True))"

definition spent :: "CanaryStore \<Rightarrow> unit set" where
  "spent st = (if submission_budget_used st then {()} else {})"

definition try_approval :: "string \<times> string \<times> string \<times> stamp \<Rightarrow> CanaryStore \<Rightarrow>
    CanaryStore \<times> bool" where
  "try_approval q st = (case q of (i, w, h, now) \<Rightarrow> consume_approval i w h now st)"

definition consumed_approvals :: "CanaryStore \<Rightarrow> string set" where
  "consumed_approvals st = ar_approval_id ` {r \<in> set (cs_approvals st). ar_state r = AP_CONSUMED}"

fun is_submission :: "CanaryOp \<Rightarrow> bool" where
  "is_submission (CSubmit i m) = True"
| "is_submission op = False"

fun is_consumption :: "CanaryOp \<Rightarrow> bool" where
  "is_consumption (CConsume i w h now) = True"
| "is_consumption op = False"

definition beside_submission :: "CanaryOp \<Rightarrow> CanaryStore \<Rightarrow> CanaryStore" where
  "beside_submission op st = (if is_submission op then st else canary_exec op st)"

definition beside_consumption :: "CanaryOp \<Rightarrow> CanaryStore \<Rightarrow> CanaryStore" where
  "beside_consumption op st = (if is_consumption op then st else canary_exec op st)"

lemma kept_on_error_keeps:
  "(\<And>st'. r = Inr st' \<Longrightarrow> f st' = f st) \<Longrightarrow> f (kept_on_error st r) = f st"
  by (cases r) (simp_all add: kept_on_error_def)

lemma budget_frame:
  "add_preview clk p st = Inr st1 \<Longrightarrow> cs_real_submission_count st1 = cs_real_submission_count st"
  "issue_approval clk a p now s st = Inr st2 \<Longrightarrow>
    cs_real_submission_count st2 = cs_real_submission_count st"
  "cs_real_submission_count (fst (open_session i pv ap c z st)) = cs_real_submission_count st"
  "record_fill i q m st = Inr st3 \<Longrightarrow> cs_real_submission_count st3 = cs_real_submission_count st"
  "resolve clk i state z st = Inr st4 \<Longrightarrow> cs_real_submission_count st4 = cs_real_submission_count st"
  "canary_recover st = Inr (st5, ids) \<Longrightarrow> cs_real_submission_count st5 = cs_real_submission_count st"
  "cs_real_submission_count (fst (consume_approval i w h z st)) = cs_real_submission_count st"
  "cs_real_submission_count (reopen st) = cs_real_submission_count st"
  by (auto simp: add_preview_def issue_approval_def open_session_def record_fill_def resolve_def
      canary_recover_def consume_approval_def reopen_def update_session_def rbind_eq_Inr Let_def
      split: if_splits option.splits sum.splits prod.splits)

lemma beside_submission_spent: "spent (beside_submission op st) = spent st"
proof -
  have "cs_real_submission_count (beside_submission op st) = cs_real_submission_count st"
    by (cases op) (auto simp: beside_submission_def budget_frame rbind_eq_Inr
        intro!: kept_on_error_keeps)
  then show ?thesis by (simp add: spent_def submission_budget_used_def)
qed

interpretation one_submission: exactly_once
  try_submission beside_submission "\<lambda>_. ()" spent canary_inv
proof unfold_locales
  fix q and st st' :: CanaryStore and b
  assume inv: "canary_inv st"
  show "() \<notin> spent st" if "try_submission q st = (st', True)"
    using that by (auto simp: try_submission_def record_submission_attempt_def spent_def
        submission_budget_used_def split: if_splits)
  show "spent st' = (if b then insert () (spent st) else spent st)"
    if "try_submission q st = (st', b)"
    using that by (auto simp: try_submission_def record_submission_attempt_def spent_def
        submission_budget_used_def split: if_splits)
  show "canary_inv st'" if "try_submission q st = (st', b)"
    using that inv submission_inv [OF inv]
    by (auto simp: try_submission_def split: sum.splits)
  show "spent (beside_submission x st) = spent st" for x by (rule beside_submission_spent)
  show "canary_inv (beside_submission x st)" for x
    using canary_exec_inv [OF inv] inv by (simp add: beside_submission_def)
qed

lemma approvals_frame:
  "add_preview clk p st = Inr st1 \<Longrightarrow> cs_approvals st1 = cs_approvals st"
  "cs_approvals (fst (open_session i pv ap c z st)) = cs_approvals st"
  "record_submission_attempt i m st = Inr st2 \<Longrightarrow> cs_approvals st2 = cs_approvals st"
  "record_fill i q m st = Inr st3 \<Longrightarrow> cs_approvals st3 = cs_approvals st"
  "resolve clk i state z st = Inr st4 \<Longrightarrow> cs_approvals st4 = cs_approvals st"
  "canary_recover st = Inr (st5, ids) \<Longrightarrow> cs_approvals st5 = cs_approvals st"
  "cs_approvals (reopen st) = cs_approvals st"
  by (auto simp: add_preview_def open_session_def record_submission_attempt_def record_fill_def
      resolve_def canary_recover_def reopen_def update_session_def rbind_eq_Inr Let_def
      split: if_splits option.splits sum.splits prod.splits)

lemma issue_keeps_consumed:
  "issue_approval clk a p now s st = Inr st' \<Longrightarrow> consumed_approvals st' = consumed_approvals st"
  by (auto simp: issue_approval_def sql_insert_Some consumed_approvals_def
      split: if_splits option.splits)

lemma beside_consumption_consumed: "consumed_approvals (beside_consumption op st) = consumed_approvals st"
proof (cases op)
  case (CIssue clk a p now s)
  then show ?thesis
    by (auto simp: beside_consumption_def issue_keeps_consumed intro!: kept_on_error_keeps)
next
  case (CConsume i w h now)
  then show ?thesis by (simp add: beside_consumption_def)
qed (auto simp: beside_consumption_def consumed_approvals_def approvals_frame rbind_eq_Inr
    intro!: arg_cong [of _ _ "\<lambda>t. ar_approval_id ` {r \<in> set t. ar_state r = AP_CONSUMED}"]
      kept_on_error_keeps [of _ cs_approvals])

lemma matching_rows:
  assumes "distinct (map ar_approval_id rows)"
  shows "filter (approval_matches i w h now) rows =
    (case sql_find (\<lambda>r. ar_approval_id r = i) rows of None \<Rightarrow> []
     | Some r \<Rightarrow> if approval_matches i w h now r then [r] else [])"
proof -
  have at_most: "filter (\<lambda>r. ar_approval_id r = i) rows = [r]"
    if "sql_find (\<lambda>r. ar_approval_id r = i) rows = Some r" for r
    by (rule filter_unique_key [OF assms]) (use sql_find_Some [OF that] in auto)
  have sub: "filter (approval_matches i w h now) rows =
      filter (approval_matches i w h now) (filter (\<lambda>r. ar_approval_id r = i) rows)"
    by (auto simp: approval_matches_def intro!: filter_cong)
  show ?thesis
  proof (cases "sql_find (\<lambda>r. ar_approval_id r = i) rows")
    case None
    then have "filter (approval_matches i w h now) rows = []"
      by (auto simp: sql_find_None filter_empty_conv approval_matches_def)
    with None show ?thesis by simp
  next
    case (Some r)
    then show ?thesis by (simp add: sub at_most)
  qed
qed

lemma consume_approval_True:
  assumes "distinct (map ar_approval_id (cs_approvals st))"
  shows "snd (consume_approval i w h now st) \<longleftrightarrow>
    (\<exists>r \<in> set (cs_approvals st). approval_matches i w h now r)"
proof -
  have "snd (consume_approval i w h now st) \<longleftrightarrow>
      filter (approval_matches i w h now) (cs_approvals st) \<noteq> []"
    unfolding consume_approval_def Let_def snd_conv matching_rows [OF assms]
    by (simp split: option.splits)
  then show ?thesis by (simp add: filter_empty_conv)
qed

interpretation approval_once: exactly_once
  try_approval beside_consumption fst consumed_approvals canary_inv
proof unfold_locales
  fix q :: "string \<times> string \<times> string \<times> stamp" and st st' :: CanaryStore and b
  assume inv: "canary_inv st"
  obtain i w h now where q: "q = (i, w, h, now)" by (cases q)
  let ?hit = "approval_matches i w h now"
  have d: "distinct (map ar_approval_id (cs_approvals st))" using inv by (simp add: canary_inv_def)
  have one: "r = r'" if "r \<in> set (cs_approvals st)" "r' \<in> set (cs_approvals st)"
    "ar_approval_id r = ar_approval_id r'" for r r'
    using d that by (metis distinct_map inj_onD)
  show "fst q \<notin> consumed_approvals st" if "try_approval q st = (st', True)"
  proof
    assume "fst q \<in> consumed_approvals st"
    then obtain r' where r': "r' \<in> set (cs_approvals st)" "ar_approval_id r' = i"
      "ar_state r' = AP_CONSUMED" by (auto simp: consumed_approvals_def q)
    have "snd (consume_approval i w h now st)" using that by (simp add: try_approval_def q)
    then obtain r where "r \<in> set (cs_approvals st)" "?hit r" using consume_approval_True [OF d] by blast
    with one [of r r'] r' show False by (simp add: approval_matches_def)
  qed
  show "consumed_approvals st' = (if b then insert (fst q) (consumed_approvals st)
      else consumed_approvals st)" if t: "try_approval q st = (st', b)"
  proof -
    have st': "cs_approvals st' = sql_update ?hit (ar_state_update (\<lambda>_. AP_CONSUMED)) (cs_approvals st)"
      and b: "b = (\<exists>r \<in> set (cs_approvals st). ?hit r)"
      using t consume_approval_True [OF d, of i w h now]
      by (auto simp: try_approval_def q consume_approval_def Let_def)
    have "consumed_approvals st' = consumed_approvals st \<union>
        ar_approval_id ` {r \<in> set (cs_approvals st). ?hit r}"
    proof -
      let ?f = "ar_state_update (\<lambda>_. AP_CONSUMED)" and ?A = "set (cs_approvals st)"
      have "{r \<in> set (cs_approvals st'). ar_state r = AP_CONSUMED} =
          {r \<in> ?A. ar_state r = AP_CONSUMED} \<union> ?f ` {r \<in> ?A. ?hit r}"
        unfolding st' set_sql_update by (auto simp: approval_matches_def)
      then show ?thesis by (simp add: consumed_approvals_def image_Un image_image)
    qed
    moreover have "ar_approval_id ` {r \<in> set (cs_approvals st). ?hit r} = (if b then {i} else {})"
      unfolding b by (auto simp: approval_matches_def)
    ultimately show ?thesis by (simp add: q)
  qed
  show "canary_inv st'" if "try_approval q st = (st', b)"
    using that consume_approval_inv [OF inv, of i w h now] by (simp add: try_approval_def q)
  show "consumed_approvals (beside_consumption x st) = consumed_approvals st" for x
    by (rule beside_consumption_consumed)
  show "canary_inv (beside_consumption x st)" for x
    using canary_exec_inv [OF inv] inv by (simp add: beside_consumption_def)
qed

end
