(* ===== verification/Canary_Properties.thy ===== *)
theory Canary_Properties
  imports Canary_Inv
begin

text \<open>
  The properties of the supervised canary: one production submission for the lifetime of the
  database, approvals that are consumed once for exactly what they bind, what every reachable
  store satisfies, and the final revalidation before the disarmed boundary.
\<close>

lemma reachable_distinct_approvals:
  "canary_reachable st \<Longrightarrow> distinct (map ar_approval_id (cs_approvals st))"
  using canary_reachable_inv by (simp add: canary_inv_def)

lemma spent_blocks_sessions:
  "submission_budget_used st \<Longrightarrow> open_session i p a c now st = (st, False)"
  by (simp add: open_session_def submission_budget_used_def)

text \<open>C6. Whatever happens to a store, at most one real submission attempt is ever granted. Once one
  has been, the budget stays spent and no session can be opened any more.\<close>

theorem one_submission_ever:
  assumes "canary_reachable st"
    and "claim_run try_submission beside_submission events st = (granted, st')"
  shows "length granted \<le> 1 \<and> (submission_budget_used st \<longrightarrow> granted = []) \<and>
    (granted \<noteq> [] \<longrightarrow> submission_budget_used st' \<and> open_session i p a c now st' = (st', False))"
proof -
  note run = one_submission.run_grants [OF canary_reachable_inv [OF assms(1)] assms(2)]
  have "distinct (map (\<lambda>_. ()) granted)" using run by blast
  then have "length granted \<le> 1" by (cases granted; cases "tl granted") auto
  moreover have "granted = []" if "submission_budget_used st"
    using run that by (cases granted) (auto simp: spent_def)
  moreover have "submission_budget_used st'" if "granted \<noteq> []"
    using run that by (cases granted) (auto simp: spent_def split: if_splits)
  ultimately show ?thesis using spent_blocks_sessions by blast
qed

definition sample_session :: CanaryStore where
  "sample_session = canary_exec (COpen ''s'' ''p'' ''a'' ''c'' (utc 0)) new_canary_store"

lemma sample_session_reachable: "canary_reachable sample_session"
  unfolding sample_session_def by (intro canary_step canary_start)

theorem one_submission_ever_witness:
  "length (fst (claim_run try_submission beside_submission
     [Claim (''s'', ''REAL_PRODUCTION''), Other CReopen, Claim (''s'', ''REAL_PRODUCTION'')]
     sample_session)) \<le> 1 \<and>
   fst (claim_run try_submission beside_submission
     [Claim (''s'', ''REAL_PRODUCTION''), Other CReopen, Claim (''s'', ''REAL_PRODUCTION'')]
     sample_session) = [(''s'', ''REAL_PRODUCTION'')]"
proof
  show "length (fst (claim_run try_submission beside_submission
     [Claim (''s'', ''REAL_PRODUCTION''), Other CReopen, Claim (''s'', ''REAL_PRODUCTION'')]
     sample_session)) \<le> 1"
    using one_submission_ever [OF sample_session_reachable] by (metis prod.collapse)
qed code_simp

text \<open>C7. An approval that was issued is consumed exactly when its owner asks for the preview it
  binds strictly before it expires (times in UTC of the years 0 to 9999), and in any run of the
  store at most one consumption of it succeeds.\<close>

theorem approval_binds_and_is_consumed_once:
  assumes "canary_reachable st" and "issue_approval clk a p now s st = Inr st1"
    and "zt_offset (ha_expires_at a) = 0" and "zt_offset z = 0"
    and "0 \<le> iso_year (zt_at (ha_expires_at a))" "iso_year (zt_at (ha_expires_at a)) < 10000"
    and "0 \<le> iso_year (zt_at z)" "iso_year (zt_at z) < 10000"
    and "claim_run try_approval beside_consumption events st1 = (granted, st2)"
  shows "(snd (consume_approval (ha_approval_id a) owner h z st1) \<longleftrightarrow>
      owner = ha_owner_identity a \<and> h = ha_preview_hash a \<and> zt_at z < zt_at (ha_expires_at a)) \<and>
    distinct (map fst granted)"
proof
  have reach: "canary_reachable st1"
    using canary_step [OF assms(1), of "CIssue clk a p now s"] assms(2) by (simp add: kept_on_error_def)
  let ?row = "\<lparr>ar_approval_id = ha_approval_id a, ar_preview_hash = ha_preview_hash a,
    ar_owner_identity = ha_owner_identity a, ar_content_hash = ha_content_hash a,
    ar_approved_at = iso_text (ha_approved_at a), ar_expires_at = iso_text (ha_expires_at a),
    ar_state = AP_ISSUED\<rparr>"
  have row: "?row \<in> set (cs_approvals st1)"
    using assms(2) by (auto simp: issue_approval_def sql_insert_Some split: if_splits option.splits)
  have only: "r = ?row" if "r \<in> set (cs_approvals st1)" "ar_approval_id r = ha_approval_id a" for r
  proof -
    have "inj_on ar_approval_id (set (cs_approvals st1))"
      using reachable_distinct_approvals [OF reach] by (simp add: distinct_map)
    from inj_onD [OF this _ that(1) row] that(2) show ?thesis by simp
  qed
  let ?hit = "approval_matches (ha_approval_id a) owner h z"
  have id: "ar_approval_id r = ha_approval_id a" if "?hit r" for r
    using that by (simp add: approval_matches_def)
  have "snd (consume_approval (ha_approval_id a) owner h z st1) \<longleftrightarrow>
      (\<exists>r \<in> set (cs_approvals st1). ?hit r)"
    by (rule consume_approval_True [OF reachable_distinct_approvals [OF reach]])
  also have "\<dots> \<longleftrightarrow> ?hit ?row" using row only [OF _ id] by metis
  also have "\<dots> \<longleftrightarrow> owner = ha_owner_identity a \<and> h = ha_preview_hash a \<and>
      zt_at z < zt_at (ha_expires_at a)"
    using isoformat_order [OF assms(7,8,5,6)]
    by (auto simp: approval_matches_def iso_text_utc assms(3,4))
  finally show "snd (consume_approval (ha_approval_id a) owner h z st1) \<longleftrightarrow>
      owner = ha_owner_identity a \<and> h = ha_preview_hash a \<and> zt_at z < zt_at (ha_expires_at a)" .
  show "distinct (map fst granted)"
    using approval_once.run_grants [OF canary_reachable_inv [OF reach] assms(9)] by blast
qed

definition sample_preview :: HumanCanaryPreview where
  "sample_preview = \<lparr>hp_preview_id = ''p'', hp_created_at = utc 0, hp_expires_at = utc (minutes 2),
     hp_candidate_id = ''c'', hp_market_ticker = ''M'', hp_event_ticker = ''E'',
     hp_market_title = '''', hp_resolution_question = '''', hp_close_time = utc (minutes 9),
     hp_rules_version = '''', hp_rules_hash = ''r'', hp_settlement_source = '''',
     hp_forecast_version = '''', hp_independent_forecast = 1 / 2, hp_market_reference = 1 / 2,
     hp_uncertainty = 0, hp_selected_outcome = ''YES'', hp_limit_price = 1 / 2, hp_quantity = 1,
     hp_quantity_text = ''1.00'', hp_maximum_fee = 0, hp_maximum_commitment = 1 / 2,
     hp_maximum_loss = 1 / 2, hp_current_market_risk = 0, hp_projected_market_risk = 0,
     hp_current_event_risk = 0, hp_projected_event_risk = 0, hp_current_aggregate_risk = 0,
     hp_projected_aggregate_risk = 0, hp_protected_reserve = 0, hp_after_cost_value = 0,
     hp_execution_style = '''', hp_post_only = True, hp_reduce_only = False,
     hp_cancel_order_on_pause = True, hp_stp_policy = '''', hp_order_group_policy = '''',
     hp_client_order_id = ''k'', hp_reconciliation_version = '''', hp_market_data_version = '''',
     hp_api_compatibility_version = '''', hp_evidence_mode = '''', hp_subaccount = 0,
     hp_content_hash = ''ph''\<rparr>"

definition sample_approval :: HumanCanaryApproval where
  "sample_approval = \<lparr>ha_approval_id = ''a'', ha_owner_identity = ''owner'',
     ha_preview_hash = ''ph'', ha_candidate_id = ''c'', ha_intent_hash = ''i'',
     ha_exact_price = 1 / 2, ha_exact_quantity = 1, ha_maximum_fee = 0, ha_maximum_loss = 1 / 2,
     ha_rules_hash = ''r'', ha_reconciliation_version = '''', ha_production_read_state = '''',
     ha_approved_at = utc 0, ha_expires_at = utc (seconds 60), ha_reason = '''',
     ha_confirmation = ''APPROVE THIS ONE-CONTRACT CANARY'', ha_step_up_proof_reference = '''',
     ha_state = AP_ISSUED, ha_content_hash = ''ah''\<rparr>"

definition sample_step_up :: StepUp where
  "sample_step_up = \<lparr>su_authenticated_session = True, su_recent_session = True,
     su_password_valid = True, su_totp_valid = True, su_csrf_valid = True,
     su_rate_limit_clear = True\<rparr>"

definition sample_approved :: CanaryStore where
  "sample_approved = kept_on_error new_canary_store
     (issue_approval 0 sample_approval sample_preview 0 sample_step_up new_canary_store)"

lemma sample_approved:
  "issue_approval 0 sample_approval sample_preview 0 sample_step_up new_canary_store =
     Inr sample_approved"
  by code_simp

theorem approval_binds_and_is_consumed_once_witness:
  "(snd (consume_approval ''a'' ''owner'' ''ph'' (utc (seconds 59)) sample_approved) \<longleftrightarrow>
     seconds 59 < seconds 60) \<and>
   distinct (map fst (fst (claim_run try_approval beside_consumption
     [Claim (''a'', ''owner'', ''ph'', utc 0), Claim (''a'', ''owner'', ''ph'', utc 0)]
     sample_approved)))"
proof -
  have years: "0 \<le> iso_year (seconds 60)" "iso_year (seconds 60) < 10000"
    "0 \<le> iso_year (seconds 59)" "iso_year (seconds 59) < 10000" by code_simp+
  have f: "ha_approval_id sample_approval = ''a''" "ha_owner_identity sample_approval = ''owner''"
    "ha_preview_hash sample_approval = ''ph''" "ha_expires_at sample_approval = utc (seconds 60)"
    by (simp_all add: sample_approval_def)
  show ?thesis
    using approval_binds_and_is_consumed_once [OF canary_start sample_approved, of "utc (seconds 59)"
        "[Claim (''a'', ''owner'', ''ph'', utc 0), Claim (''a'', ''owner'', ''ph'', utc 0)]"
        "fst (claim_run try_approval beside_consumption
          [Claim (''a'', ''owner'', ''ph'', utc 0), Claim (''a'', ''owner'', ''ph'', utc 0)]
          sample_approved)" _ "''owner''" "''ph''"] years
    by (simp add: f utc_def del: claim_run.simps) (metis prod.collapse)
qed

text \<open>C23. Every store reachable from a new database, or from an earlier database that satisfies the
  constraints of the tables that are kept (previews, approvals, events and both counters) and whose
  session quantities migrate, has at most one unresolved session; session, approval and client order
  ids that never repeat; quantities that add up to one contract of a million atoms; counters within
  their bounds; and the production state disarmed.\<close>

theorem canary_store_is_consistent:
  assumes "canary_reachable st"
  shows "unresolved_count (cs_sessions st) \<le> 1 \<and>
    distinct (map sr_session_id (cs_sessions st)) \<and>
    distinct (map sr_approval_id (cs_sessions st)) \<and>
    distinct (map sr_client_order_id (cs_sessions st)) \<and>
    distinct (map ar_preview_hash (cs_approvals st)) \<and>
    (\<forall>r \<in> set (cs_sessions st). 0 \<le> sr_filled_atoms r \<and> 0 \<le> sr_remaining_atoms r \<and>
      sr_filled_atoms r + sr_remaining_atoms r = 1000000) \<and>
    0 \<le> cs_real_fill_count st \<and> cs_real_fill_count st \<le> 50 \<and>
    cs_real_submission_count st \<in> {0, 1} \<and> cs_production_state st = ''DISARMED''"
  using canary_reachable_inv [OF assms] by (auto simp: canary_inv_def atoms_ok_def)

definition sample_legacy :: LegacyStore where
  "sample_legacy = \<lparr>lc_previews = [],
     lc_approvals = [\<lparr>ar_approval_id = ''a0'', ar_preview_hash = ''h0'', ar_owner_identity = ''w'',
       ar_content_hash = ''c0'', ar_approved_at = ''t'', ar_expires_at = ''u'',
       ar_state = AP_CONSUMED\<rparr>],
     lc_sessions = [\<lparr>lg_session_id = ''s'', lg_preview_id = ''p'', lg_approval_id = ''a'',
       lg_client_order_id = ''c'', lg_state = RECONCILING, lg_filled_quantity = 4/10,
       lg_remaining_quantity = 6/10, lg_reconciliation_version = None,
       lg_possibly_submitted = False, lg_created_at = ''now'', lg_resolved_at = None\<rparr>],
     lc_real_fill_count = Some 3, lc_real_submission_count = Some 1, lc_events = []\<rparr>"

theorem canary_store_is_consistent_witness:
  "\<exists>st. open_legacy sample_legacy = Inr st \<and> unresolved_count (cs_sessions st) \<le> 1 \<and>
     map sr_filled_atoms (cs_sessions st) = [400000] \<and> cs_real_fill_count st = 3 \<and>
     cs_real_submission_count st = 1 \<and> length (cs_approvals st) = 1"
proof -
  have schema: "legacy_schema sample_legacy"
    by (simp add: legacy_schema_def sample_legacy_def approval_keys_def unique_col_Some)
  have "is_ok (open_legacy sample_legacy)" by code_simp
  then obtain st where st: "open_legacy sample_legacy = Inr st"
    by (cases "open_legacy sample_legacy") auto
  have "map sr_filled_atoms (cs_sessions (projr (open_legacy sample_legacy))) = [400000] \<and>
      cs_real_fill_count (projr (open_legacy sample_legacy)) = 3 \<and>
      cs_real_submission_count (projr (open_legacy sample_legacy)) = 1 \<and>
      length (cs_approvals (projr (open_legacy sample_legacy))) = 1" by code_simp
  with canary_store_is_consistent [OF canary_migrated [OF schema st]] st show ?thesis by simp
qed

text \<open>The final revalidation authorizes exactly when the approval is unused, unexpired and bound
  to this preview, price, quantity and rules, the final state is bound to both, and every fresh
  preflight and readiness gate holds with user data at most thirty seconds old; it never permits
  a send and always reports the production state as disarmed.\<close>

theorem final_revalidation_is_exact:
  "(cd_state (final_revalidation preview approval final now) = CANARY_AUTHORIZED \<longleftrightarrow>
     ha_state approval = AP_ISSUED \<and> now < zt_at (ha_expires_at approval) \<and>
     ha_preview_hash approval = hp_content_hash preview \<and>
     fc_preview_hash final = hp_content_hash preview \<and>
     fc_approval_hash final = ha_content_hash approval \<and>
     ha_exact_price approval = hp_limit_price preview \<and>
     ha_exact_quantity approval = hp_quantity preview \<and>
     ha_rules_hash approval = hp_rules_hash preview \<and>
     list_all (\<lambda>f. f final) [fc_exact_price_unchanged, fc_exact_quantity_unchanged,
       fc_rules_hash_unchanged, fc_candidate_unchanged, fc_forecast_current, fc_fresh_m13_passed,
       fc_fresh_m13_authorization_issued, fc_m15_body_hash_matches] \<and>
     list_all snd (ReadinessSnapshot_flags (fc_readiness final)) \<and>
     (\<exists>z. rs_user_data_timestamp (fc_readiness final) = Some z \<and> now \<le> zt_at z + seconds 30)) \<and>
   (if cd_state (final_revalidation preview approval final now) = CANARY_AUTHORIZED
    then cd_missing_gates (final_revalidation preview approval final now) = []
    else cd_state (final_revalidation preview approval final now) = CANARY_FAILED \<and>
     cd_missing_gates (final_revalidation preview approval final now) \<noteq> []) \<and>
   \<not> cd_send_permitted (final_revalidation preview approval final now) \<and>
   cd_production_state (final_revalidation preview approval final now) = ''DISARMED''"
proof -
  let ?d = "final_revalidation preview approval final now"
    and ?r = "revalidation_reasons preview approval final now"
  have auth: "cd_state ?d = CANARY_AUTHORIZED \<longleftrightarrow> ?r = []"
    by (simp add: final_revalidation_def Let_def canary_decision_def)
  have fail: "if cd_state ?d = CANARY_AUTHORIZED then cd_missing_gates ?d = [] else cd_state ?d = CANARY_FAILED \<and> cd_missing_gates ?d \<noteq> []"
    by (simp add: final_revalidation_def Let_def canary_decision_def)
  have none: "?r = [] \<longleftrightarrow> ha_state approval = AP_ISSUED \<and> now < zt_at (ha_expires_at approval) \<and>
     ha_preview_hash approval = hp_content_hash preview \<and>
     fc_preview_hash final = hp_content_hash preview \<and>
     fc_approval_hash final = ha_content_hash approval \<and>
     ha_exact_price approval = hp_limit_price preview \<and>
     ha_exact_quantity approval = hp_quantity preview \<and>
     ha_rules_hash approval = hp_rules_hash preview \<and> permits_boundary now final"
    by (auto simp: revalidation_reasons_def only_if_def Let_def)
  have frame: "\<not> cd_send_permitted ?d" "cd_production_state ?d = ''DISARMED''"
    by (simp_all add: final_revalidation_def Let_def canary_decision_def)
  have "cd_state ?d = CANARY_AUTHORIZED \<longleftrightarrow>
     ha_state approval = AP_ISSUED \<and> now < zt_at (ha_expires_at approval) \<and>
     ha_preview_hash approval = hp_content_hash preview \<and>
     fc_preview_hash final = hp_content_hash preview \<and>
     fc_approval_hash final = ha_content_hash approval \<and>
     ha_exact_price approval = hp_limit_price preview \<and>
     ha_exact_quantity approval = hp_quantity preview \<and>
     ha_rules_hash approval = hp_rules_hash preview \<and>
     list_all (\<lambda>f. f final) [fc_exact_price_unchanged, fc_exact_quantity_unchanged,
       fc_rules_hash_unchanged, fc_candidate_unchanged, fc_forecast_current, fc_fresh_m13_passed,
       fc_fresh_m13_authorization_issued, fc_m15_body_hash_matches] \<and>
     list_all snd (ReadinessSnapshot_flags (fc_readiness final)) \<and>
     (\<exists>z. rs_user_data_timestamp (fc_readiness final) = Some z \<and> now \<le> zt_at z + seconds 30)"
    unfolding auth none permits_boundary_def approvable_iff
      Ball_set [of "ReadinessSnapshot_flags (fc_readiness final)", symmetric]
    by simp
  with fail frame show ?thesis by blast
qed

end
