(* ===== verification/Sim_Domain.thy ===== *)
theory Sim_Domain
  imports Opp_Engine Calendar
begin

text \<open>
  \<open>services/execution_simulation\<close>: the research-only simulation records with their validation
  (\<open>domain.py\<close>), the three assumption policies and the fidelity gate (\<open>policies.py\<close>), the
  walk-forward manifest and its diagnostics (\<open>evaluation.py\<close>) and the leg-risk states
  (\<open>cross_venue.py\<close>). The frozen hashes are digests of the fields in their order.
\<close>

definition show_int :: "int \<Rightarrow> string" where
  "show_int z = (if z < 0 then CHR ''-'' # show_nat (nat (- z)) else show_nat (nat z))"

section \<open>Vocabulary\<close>

datatype SimulationCase = OPTIMISTIC | BASE | ADVERSE

definition SimulationCase_value :: "SimulationCase \<Rightarrow> string" where
  "SimulationCase_value c = (case c of OPTIMISTIC \<Rightarrow> ''OPTIMISTIC'' | BASE \<Rightarrow> ''BASE''
     | ADVERSE \<Rightarrow> ''ADVERSE'')"

datatype StrategyType = TAKER_NOW | MAKER_AT_BEST | MAKER_IMPROVE_ONE_TICK

datatype QueueQuality =
    OBSERVED_OWN_ORDER_QUEUE | RECONSTRUCTED_AGGREGATE_QUEUE | CONSERVATIVE_QUEUE_ASSUMPTION
  | QUEUE_UNKNOWN

datatype ReplayFidelity = SEQUENCE_BOOK_AND_TRADES | HIGH_RESOLUTION_BOOK | CANDLE_ONLY | FIDELITY_GAP

definition ReplayFidelity_value :: "ReplayFidelity \<Rightarrow> string" where
  "ReplayFidelity_value f = (case f of SEQUENCE_BOOK_AND_TRADES \<Rightarrow> ''SEQUENCE_BOOK_AND_TRADES''
     | HIGH_RESOLUTION_BOOK \<Rightarrow> ''HIGH_RESOLUTION_BOOK'' | CANDLE_ONLY \<Rightarrow> ''CANDLE_ONLY''
     | FIDELITY_GAP \<Rightarrow> ''GAP'')"

datatype OrderState =
    PROPOSED_SIMULATION | ARRIVAL_PENDING | RESTING_SIMULATION | PARTIALLY_FILLED_SIMULATION
  | FILLED_SIMULATION | CANCEL_PENDING_SIMULATION | CANCELED_SIMULATION | EXPIRED_SIMULATION
  | NO_FILL_SIMULATION | INVALIDATED_SIMULATION | EXECUTION_OUTCOME_UNKNOWN

datatype FillState = NO_FILL | PARTIAL_FILL | FULL_FILL

datatype AdvancementState = FAIL | INCONCLUSIVE | PASSES_EXECUTION_RESEARCH_GATE

section \<open>Policies\<close>

record LatencyPolicy =
  lp_policy_id :: string
  lp_version :: string
  lp_signal :: duration
  lp_forecast :: duration
  lp_opportunity :: duration
  lp_scheduling :: duration
  lp_outbound_network :: duration
  lp_exchange_processing :: duration
  lp_cancellation :: duration
  lp_provenance :: string
  lp_measured :: bool

definition decision_to_arrival :: "LatencyPolicy \<Rightarrow> duration" where
  "decision_to_arrival l = lp_scheduling l + lp_outbound_network l + lp_exchange_processing l"

record ExecutionAssumptionPolicy =
  ep_policy_id :: string
  ep_version :: string
  ep_scenario :: SimulationCase
  ep_effective_at :: instant
  ep_latency :: LatencyPolicy
  ep_cancellation_credit :: decimal
  ep_competing_fill_reserve :: decimal
  ep_adverse_selection_reserve :: decimal
  ep_max_rest :: duration
  ep_required_fidelity :: ReplayFidelity
  ep_fee_policy_ids :: "string list"
  ep_content_hash :: string

definition EAP_post_init :: "ExecutionAssumptionPolicy \<Rightarrow> ExecutionAssumptionPolicy result" where
  "EAP_post_init p =
     (if list_ex (\<lambda>v. \<not> (0 \<le> v \<and> v \<le> 1)) [ep_cancellation_credit p,
        ep_competing_fill_reserve p, ep_adverse_selection_reserve p]
      then Inl (SimulationError ''scenario assumption outside [0,1]'')
      else Inr p)"

definition latency_fields :: "LatencyPolicy \<Rightarrow> hashable" where
  "latency_fields l = HList [HStr (lp_policy_id l), HStr (lp_version l), HInt (lp_signal l),
     HInt (lp_forecast l), HInt (lp_opportunity l), HInt (lp_scheduling l),
     HInt (lp_outbound_network l), HInt (lp_exchange_processing l), HInt (lp_cancellation l),
     HStr (lp_provenance l), HBool (lp_measured l)]"

definition EAP_freeze :: "digest_fn \<Rightarrow> ExecutionAssumptionPolicy \<Rightarrow>
    ExecutionAssumptionPolicy result" where
  "EAP_freeze dig p = EAP_post_init (p\<lparr>ep_content_hash := dig (HList [HStr (ep_policy_id p),
     HStr (ep_version p), HStr (SimulationCase_value (ep_scenario p)), HTime (ep_effective_at p),
     latency_fields (ep_latency p), HDec (ep_cancellation_credit p),
     HDec (ep_competing_fill_reserve p), HDec (ep_adverse_selection_reserve p),
     HInt (ep_max_rest p), HStr (ReplayFidelity_value (ep_required_fidelity p)),
     HList (map HStr (ep_fee_policy_ids p))])\<rparr>)"

definition policy_row :: "digest_fn \<Rightarrow> instant \<Rightarrow>
    SimulationCase \<times> int \<times> decimal \<times> decimal \<times> decimal \<Rightarrow> ExecutionAssumptionPolicy result" where
  "policy_row dig effective row = (case row of (c, arrival_ms, cancel_credit, competing, adverse) \<Rightarrow>
     EAP_freeze dig
      \<lparr>ep_policy_id = ''execution-'' @ py_lower (SimulationCase_value c) @ ''-v1'',
       ep_version = ''1'', ep_scenario = c, ep_effective_at = effective,
       ep_latency = \<lparr>lp_policy_id = ''latency-'' @ py_lower (SimulationCase_value c) @ ''-v1'',
         lp_version = ''1'', lp_signal = milliseconds 250, lp_forecast = milliseconds 100,
         lp_opportunity = milliseconds 20, lp_scheduling = milliseconds 10,
         lp_outbound_network = milliseconds (arrival_ms - 30),
         lp_exchange_processing = milliseconds 20,
         lp_cancellation = milliseconds (max 100 arrival_ms),
         lp_provenance = ''SIMULATION_ASSUMPTION'', lp_measured = False\<rparr>,
       ep_cancellation_credit = cancel_credit, ep_competing_fill_reserve = competing,
       ep_adverse_selection_reserve = adverse, ep_max_rest = seconds 30,
       ep_required_fidelity = SEQUENCE_BOOK_AND_TRADES, ep_fee_policy_ids = [''fixture-fee-v1''],
       ep_content_hash = ''''\<rparr>)"

text \<open>The default instant is 2026-01-01 UTC.\<close>

definition default_policies :: "digest_fn \<Rightarrow> instant option \<Rightarrow>
    ExecutionAssumptionPolicy list result" where
  "default_policies dig effective_at =
     rmap (policy_row dig (case effective_at of None \<Rightarrow> seconds 1767225600 | Some t \<Rightarrow> t))
       [(OPTIMISTIC, 70, 50 / 100, 2 / 100, 2 / 1000), (BASE, 300, 15 / 100, 10 / 100, 8 / 1000),
        (ADVERSE, 850, 0, 25 / 100, 2 / 100)]"

definition fidelity_allows :: "StrategyType \<Rightarrow> ReplayFidelity \<Rightarrow> bool" where
  "fidelity_allows strategy fidelity =
     (if fidelity \<in> set [FIDELITY_GAP, CANDLE_ONLY] then False
      else if strategy \<noteq> TAKER_NOW then fidelity = SEQUENCE_BOOK_AND_TRADES
      else fidelity \<in> set [SEQUENCE_BOOK_AND_TRADES, HIGH_RESOLUTION_BOOK])"

section \<open>Simulated fills and orders\<close>

record SimulatedFill =
  sf_simulated_fill_id :: string
  sf_simulated_order_id :: string
  sf_timestamp :: instant
  sf_outcome_side :: OutcomeSide
  sf_book_side :: string
  sf_price :: decimal
  sf_quantity :: decimal
  sf_maker :: bool
  sf_queue_ahead_before :: "decimal option"
  sf_causing_event_id :: string
  sf_fee :: decimal
  sf_cumulative_fill :: decimal
  sf_remaining_quantity :: decimal
  sf_book_lineage :: string
  sf_replay_sequence :: int
  sf_scenario :: SimulationCase

definition SimulatedFill_post_init :: "SimulatedFill \<Rightarrow> SimulatedFill result" where
  "SimulatedFill_post_init f =
     (if list_ex (\<lambda>item. item < 0) [sf_price f, sf_quantity f, sf_fee f, sf_cumulative_fill f,
        sf_remaining_quantity f]
      then Inl (SimulationError ''invalid fill arithmetic'')
      else Inr f)"

record SimulatedOrder =
  so_simulated_order_id :: string
  so_frozen_candidate_id :: string
  so_strategy :: StrategyType
  so_scenario :: SimulationCase
  so_candidate_time :: instant
  so_decision_time :: instant
  so_submit_time :: instant
  so_arrival_time :: instant
  so_initial_quantity :: decimal
  so_remaining_quantity :: decimal
  so_limit_price :: "decimal option"
  so_state :: OrderState
  so_queue_quality :: QueueQuality
  so_queue_ahead :: "decimal option"
  so_fills :: "SimulatedFill list"
  so_cancel_requested_at :: "instant option"
  so_cancel_effective_at :: "instant option"
  so_invalidation_reason :: "string option"
  so_production_influence :: decimal

definition SimulatedOrder_post_init :: "SimulatedOrder \<Rightarrow> SimulatedOrder result" where
  "SimulatedOrder_post_init x =
     (let total = dsum (map sf_quantity (so_fills x)) in
      if so_production_influence x \<noteq> 0
      then Inl (SimulationError ''simulation production influence must remain zero'')
      else if \<not> (so_candidate_time x \<le> so_decision_time x \<and> so_decision_time x \<le> so_submit_time x \<and>
        so_submit_time x \<le> so_arrival_time x)
      then Inl (SimulationError ''simulation timestamps are not chronological'')
      else if (case (so_cancel_requested_at x, so_cancel_effective_at x) of
          (Some req, Some eff) \<Rightarrow> eff < req | _ \<Rightarrow> False)
      then Inl (SimulationError ''cancel effective before request'')
      else if total > so_initial_quantity x \<or>
        total + so_remaining_quantity x \<noteq> so_initial_quantity x
      then Inl (SimulationError ''fill quantity accounting invalid'')
      else if list_ex (\<lambda>f. sf_timestamp f < so_arrival_time x) (so_fills x)
      then Inl (SimulationError ''fill before simulated arrival'')
      else if so_queue_quality x = OBSERVED_OWN_ORDER_QUEUE
      then Inl (SimulationError ''hypothetical orders cannot claim observed own-order queue'')
      else Inr x)"

section \<open>Outcomes and the research gate\<close>

record SimulatedOutcome =
  oc_case :: SimulationCase
  oc_filled_quantity :: decimal
  oc_average_price :: "decimal option"
  oc_fees :: decimal
  oc_adverse_selection :: decimal
  oc_information_decay :: decimal
  oc_after_cost_value :: "decimal option"
  oc_fill_state :: FillState

record AdvancementEvidence =
  ae_unique_settled_events :: int
  ae_effective_sample_size :: decimal
  ae_max_drawdown :: decimal
  ae_max_drawdown_limit :: decimal
  ae_best_event_contribution :: decimal
  ae_concentration_limit :: decimal
  ae_stable_subwindows :: bool
  ae_replay_adequate :: bool
  ae_critical_failure :: bool
  ae_minimum_events :: int

record CandidateSimulation =
  cm_candidate_id :: string
  cm_outcomes :: "SimulatedOutcome list"
  cm_research_advancement :: AdvancementState
  cm_production_influence :: decimal

text \<open>The dictionary by case keeps the last outcome of each.\<close>

definition by_case :: "SimulatedOutcome list \<Rightarrow> SimulationCase \<Rightarrow> SimulatedOutcome option" where
  "by_case outcomes = map_of (map (\<lambda>x. (oc_case x, x)) (rev outcomes))"

definition profitable :: "SimulatedOutcome option \<Rightarrow> bool" where
  "profitable x \<longleftrightarrow> (case x of None \<Rightarrow> False | Some y \<Rightarrow>
     (case oc_after_cost_value y of None \<Rightarrow> False | Some v \<Rightarrow> v > 0))"

definition evidence_passes :: "AdvancementEvidence \<Rightarrow> bool" where
  "evidence_passes e \<longleftrightarrow> ae_unique_settled_events e \<ge> ae_minimum_events e \<and>
     ae_effective_sample_size e \<ge> of_int (ae_minimum_events e) \<and>
     ae_max_drawdown e \<le> ae_max_drawdown_limit e \<and>
     ae_best_event_contribution e \<le> ae_concentration_limit e \<and>
     ae_stable_subwindows e \<and> ae_replay_adequate e \<and> \<not> ae_critical_failure e"

definition assess :: "string \<Rightarrow> SimulatedOutcome list \<Rightarrow> AdvancementEvidence option \<Rightarrow>
    CandidateSimulation" where
  "assess candidate_id outcomes evidence =
     (let cases = by_case outcomes;
          economics_survive = profitable (cases BASE) \<and> profitable (cases ADVERSE);
          state = (if \<not> list_all (\<lambda>c. cases c \<noteq> None) [OPTIMISTIC, BASE, ADVERSE]
            then INCONCLUSIVE
            else case evidence of
              None \<Rightarrow> if \<not> economics_survive then FAIL else INCONCLUSIVE
            | Some e \<Rightarrow> if economics_survive \<and> evidence_passes e
                then PASSES_EXECUTION_RESEARCH_GATE else FAIL)
      in \<lparr>cm_candidate_id = candidate_id, cm_outcomes = outcomes, cm_research_advancement = state,
           cm_production_influence = 0\<rparr>)"

section \<open>Chronological evaluation\<close>

record EvaluationPeriod =
  pd_name :: string
  pd_start_at :: instant
  pd_end_at :: instant

record WalkForwardManifest =
  wf_training :: EvaluationPeriod
  wf_validation :: EvaluationPeriod
  wf_promotion :: EvaluationPeriod
  wf_tested_variants :: "string list"
  wf_multiple_comparison_method :: string
  wf_event_groups :: "(string \<times> string) list"

text \<open>\<open>grouped.setdefault\<close> for each pair, failing at the first pair that contradicts it.\<close>

fun leaked :: "(string \<times> string) list \<Rightarrow> (string \<times> string) list \<Rightarrow> bool" where
  "leaked grouped [] = False"
| "leaked grouped ((event_id, period) # rest) =
     (case map_of grouped event_id of
        None \<Rightarrow> leaked ((event_id, period) # grouped) rest
      | Some prior \<Rightarrow> if prior \<noteq> period then True else leaked grouped rest)"

definition WalkForwardManifest_post_init :: "WalkForwardManifest \<Rightarrow> WalkForwardManifest result" where
  "WalkForwardManifest_post_init m =
     (if \<not> (pd_end_at (wf_training m) \<le> pd_start_at (wf_validation m) \<and>
        pd_end_at (wf_validation m) \<le> pd_start_at (wf_promotion m))
      then Inl (SimulationError ''walk-forward periods overlap or run backward'')
      else if leaked [] (wf_event_groups m)
      then Inl (SimulationError ''related event leaked across evaluation periods'')
      else if wf_tested_variants m = []
      then Inl (SimulationError ''parameter sweep manifest cannot hide tested variants'')
      else Inr m)"

record ExecutionCalibrationTarget =
  et_attempted_at :: instant
  et_predicted_fill_probability :: "decimal option"
  et_actual_simulated_fill :: bool
  et_fill_fraction :: decimal
  et_time_to_first_fill_ms :: "int option"
  et_time_to_full_fill_ms :: "int option"
  et_predicted_slippage :: "decimal option"
  et_simulated_slippage :: "decimal option"
  et_predicted_fee :: "decimal option"
  et_simulated_fee :: "decimal option"
  et_model_status :: string

definition fill_brier :: "ExecutionCalibrationTarget \<Rightarrow> decimal option" where
  "fill_brier t = map_option (\<lambda>p. (p - (if et_actual_simulated_fill t then 1 else 0)) ^ 2)
     (et_predicted_fill_probability t)"

record CollisionDiagnostic =
  cl_market_ticker :: string
  cl_price :: decimal
  cl_outcome_side :: string
  cl_simulated_order_ids :: "string list"
  cl_shared_liquidity :: decimal
  cl_collision :: bool

definition collision_diagnostic :: "string \<Rightarrow> decimal \<Rightarrow> string \<Rightarrow> string list \<Rightarrow> decimal \<Rightarrow>
    CollisionDiagnostic" where
  "collision_diagnostic market price side ids liquidity =
     \<lparr>cl_market_ticker = market, cl_price = price, cl_outcome_side = side,
      cl_simulated_order_ids = ids, cl_shared_liquidity = liquidity,
      cl_collision = (length ids > 1)\<rparr>"

section \<open>Leg risk\<close>

datatype LegState =
    BOTH_FILL | KALSHI_ONLY | POLYMARKET_ONLY | NEITHER | SECOND_LEG_REPRICED | VENUE_STALE
  | VENUE_PAUSED

definition leg_state :: "bool \<Rightarrow> bool \<Rightarrow> bool \<Rightarrow> bool \<Rightarrow> bool \<Rightarrow> LegState" where
  "leg_state venue_paused venue_stale second_leg_repriced kalshi_filled polymarket_filled =
     (if venue_paused then VENUE_PAUSED else if venue_stale then VENUE_STALE
      else if second_leg_repriced then SECOND_LEG_REPRICED
      else if kalshi_filled \<and> polymarket_filled then BOTH_FILL
      else if kalshi_filled then KALSHI_ONLY
      else if polymarket_filled then POLYMARKET_ONLY else NEITHER)"

section \<open>Facts\<close>

lemma SimulatedOrder_post_init_Inr:
  "SimulatedOrder_post_init x = Inr y \<longleftrightarrow> y = x \<and> so_production_influence x = 0 \<and>
     so_candidate_time x \<le> so_decision_time x \<and> so_decision_time x \<le> so_submit_time x \<and>
     so_submit_time x \<le> so_arrival_time x \<and>
     (\<forall>req eff. so_cancel_requested_at x = Some req \<longrightarrow> so_cancel_effective_at x = Some eff \<longrightarrow>
       req \<le> eff) \<and>
     dsum (map sf_quantity (so_fills x)) \<le> so_initial_quantity x \<and>
     dsum (map sf_quantity (so_fills x)) + so_remaining_quantity x = so_initial_quantity x \<and>
     (\<forall>f \<in> set (so_fills x). so_arrival_time x \<le> sf_timestamp f) \<and>
     so_queue_quality x \<noteq> OBSERVED_OWN_ORDER_QUEUE"
  by (auto simp: SimulatedOrder_post_init_def Let_def list_ex_iff not_less not_le split: option.splits)

lemma not_leaked:
  "\<not> leaked grouped rows \<Longrightarrow> (e, p) \<in> set rows \<Longrightarrow>
     map_of grouped e = Some q \<or> (e, q) \<in> set rows \<Longrightarrow> p = q"
proof (induction grouped rows arbitrary: e p q rule: leaked.induct)
  case (2 grouped e' p' rest)
  show ?case
  proof (cases "map_of grouped e'")
    case None
    with "2.prems"(1) have rest: "\<not> leaked ((e', p') # grouped) rest" by simp
    have same: "r = p'" if "(e', r) \<in> set rest" for r
      using "2.IH"(1) [OF None rest, of e' r p'] that by simp
    show ?thesis
    proof (cases "e = e'")
      case True
      have "r = p'" if "(e, r) \<in> set ((e', p') # rest)" for r
        using that same True by auto
      with True None "2.prems"(2,3) show ?thesis by auto
    next
      case False
      then have "map_of ((e', p') # grouped) e = map_of grouped e" by simp
      with False "2.IH"(1) [OF None rest, of e p q] "2.prems"(2,3) show ?thesis by auto
    qed
  next
    case (Some r)
    with "2.prems"(1) have r: "r = p'" and rest: "\<not> leaked grouped rest" by (auto split: if_splits)
    note ih = "2.IH"(2) [OF Some _ rest]
    show ?thesis
    proof (cases "(e, p) \<in> set rest")
      case True
      then show ?thesis using r Some "2.prems"(3) ih [of e p q] by auto
    next
      case False
      then have "e = e'" "p = p'" using "2.prems"(2) by auto
      then show ?thesis using r Some "2.prems"(3) ih [of e q r] by auto
    qed
  qed
qed simp

lemma WalkForwardManifest_separates_events:
  assumes "WalkForwardManifest_post_init m = Inr m'"
    and "(e, p) \<in> set (wf_event_groups m')" and "(e, q) \<in> set (wf_event_groups m')"
  shows "p = q"
  using assms not_leaked [of "[]" "wf_event_groups m" e p q]
  by (auto simp: WalkForwardManifest_post_init_def split: if_splits)

lemma assess_passes_iff:
  "cm_research_advancement (assess i outcomes evidence) = PASSES_EXECUTION_RESEARCH_GATE \<longleftrightarrow>
     (\<exists>e. evidence = Some e \<and> evidence_passes e) \<and> by_case outcomes OPTIMISTIC \<noteq> None \<and>
     profitable (by_case outcomes BASE) \<and> profitable (by_case outcomes ADVERSE)"
  by (auto simp: assess_def Let_def profitable_def split: option.splits if_splits)

end
