(* ===== verification/Sim_Replay.thy ===== *)
theory Sim_Replay
  imports Sim_Domain
begin

text \<open>
  \<open>services/execution_simulation/replay.py\<close>: the taker simulation against the book at arrival and
  the maker simulation behind a conservative aggregate queue. Each iteration of the maker's loop
  is one \<open>maker_step\<close>, whose outcome says whether the loop goes on, breaks, or returns the
  unknown outcome of a replay gap.
\<close>

section \<open>Replay inputs\<close>

record ReplayBook =
  rk_timestamp :: instant
  rk_sequence :: int
  rk_book :: NormalizedBook
  rk_fidelity :: ReplayFidelity
  rk_lineage :: string
  rk_active :: bool

datatype FlowKind = TRADE | LEVEL_REDUCTION | FLOW_GAP | PAUSE | RULE_CHANGE | SOURCE_FAILURE

definition FlowKind_value :: "FlowKind \<Rightarrow> string" where
  "FlowKind_value k = (case k of TRADE \<Rightarrow> ''TRADE'' | LEVEL_REDUCTION \<Rightarrow> ''LEVEL_REDUCTION''
     | FLOW_GAP \<Rightarrow> ''GAP'' | PAUSE \<Rightarrow> ''PAUSE'' | RULE_CHANGE \<Rightarrow> ''RULE_CHANGE''
     | SOURCE_FAILURE \<Rightarrow> ''SOURCE_FAILURE'')"

record ReplayFlow =
  fw_event_id :: string
  fw_timestamp :: instant
  fw_sequence :: int
  fw_kind :: FlowKind
  fw_outcome_side :: "OutcomeSide option"
  fw_price :: "decimal option"
  fw_quantity :: decimal
  fw_book_lineage :: string

definition fill_state :: "decimal \<Rightarrow> decimal \<Rightarrow> FillState" where
  "fill_state filled requested = (if filled = 0 then NO_FILL
     else if filled = requested then FULL_FILL else PARTIAL_FILL)"

definition state_of_fill :: "FillState \<Rightarrow> OrderState" where
  "state_of_fill s = (case s of NO_FILL \<Rightarrow> NO_FILL_SIMULATION
     | PARTIAL_FILL \<Rightarrow> PARTIALLY_FILLED_SIMULATION | FULL_FILL \<Rightarrow> FILLED_SIMULATION)"

definition fill_id :: "string \<Rightarrow> nat \<Rightarrow> string" where
  "fill_id order n = ''sim-fill-'' @ order @ ''-'' @ show_nat n"

section \<open>Taker\<close>

record TakerRequest =
  tk_order_id :: string
  tk_candidate_id :: string
  tk_side :: OutcomeSide
  tk_candidate_time :: instant
  tk_decision_time :: instant
  tk_quantity :: decimal
  tk_policy :: ExecutionAssumptionPolicy
  tk_fee_policy :: FeePolicy
  tk_max_book_age :: duration

text \<open>\<open>max\<close> by timestamp and sequence keeps the first of equal keys.\<close>

fun latest_book :: "ReplayBook \<Rightarrow> ReplayBook list \<Rightarrow> ReplayBook" where
  "latest_book b [] = b"
| "latest_book b (c # cs) =
     (if (rk_timestamp b, rk_sequence b) < (rk_timestamp c, rk_sequence c)
      then latest_book c cs else latest_book b cs)"

definition taker_arrival :: "TakerRequest \<Rightarrow> instant" where
  "taker_arrival t = tk_decision_time t + decision_to_arrival (ep_latency (tk_policy t))"

definition arrival_book :: "TakerRequest \<Rightarrow> ReplayBook list \<Rightarrow> ReplayBook result" where
  "arrival_book t books = (case filter (\<lambda>b. rk_timestamp b \<le> taker_arrival t) books of
     [] \<Rightarrow> Inl (SimulationError ''no arrival-time replay book'')
   | b # bs \<Rightarrow> (let snapshot = latest_book b bs in
       if taker_arrival t - rk_timestamp snapshot > tk_max_book_age t \<or> \<not> rk_active snapshot
       then Inl (SimulationError ''arrival-time book stale or inactive'')
       else if rk_fidelity snapshot \<notin> set [SEQUENCE_BOOK_AND_TRADES, HIGH_RESOLUTION_BOOK]
       then Inl (SimulationError ''taker replay fidelity insufficient'')
       else Inr snapshot))"

definition taker_levels :: "OutcomeSide \<Rightarrow> NormalizedBook \<Rightarrow> ExecutableLevel list" where
  "taker_levels side book = (if side = YES then nb_yes_asks book else nb_no_asks book)"

definition taker_fills :: "TakerRequest \<Rightarrow> ReplayBook \<Rightarrow> DepthWalk \<Rightarrow>
    SimulatedFill list result" where
  "taker_fills t snapshot walk = (case dw_average_price walk of
     None \<Rightarrow> Inr []
   | Some average \<Rightarrow>
      if dw_filled walk = 0 then Inr []
      else rbind (calculate_fee (tk_fee_policy t) average (dw_filled walk) False) (\<lambda>fee.
        rbind (SimulatedFill_post_init
          \<lparr>sf_simulated_fill_id = fill_id (tk_order_id t) 1,
           sf_simulated_order_id = tk_order_id t, sf_timestamp = taker_arrival t,
           sf_outcome_side = tk_side t, sf_book_side = ''ASK'', sf_price = average,
           sf_quantity = dw_filled walk, sf_maker = False, sf_queue_ahead_before = None,
           sf_causing_event_id = ''arrival-book-'' @ show_int (rk_sequence snapshot),
           sf_fee = fk_total_fee fee, sf_cumulative_fill = dw_filled walk,
           sf_remaining_quantity = dw_unfilled walk, sf_book_lineage = rk_lineage snapshot,
           sf_replay_sequence = rk_sequence snapshot, sf_scenario = ep_scenario (tk_policy t)\<rparr>)
        (\<lambda>f. Inr [f])))"

definition simulate_taker :: "TakerRequest \<Rightarrow> ReplayBook list \<Rightarrow> SimulatedOrder result" where
  "simulate_taker t books =
     rbind (arrival_book t books) (\<lambda>snapshot.
     rbind (walk_depth (taker_levels (tk_side t) (rk_book snapshot)) (tk_quantity t)) (\<lambda>walk.
     rbind (taker_fills t snapshot walk) (\<lambda>fills.
       SimulatedOrder_post_init
        \<lparr>so_simulated_order_id = tk_order_id t, so_frozen_candidate_id = tk_candidate_id t,
         so_strategy = TAKER_NOW, so_scenario = ep_scenario (tk_policy t),
         so_candidate_time = tk_candidate_time t, so_decision_time = tk_decision_time t,
         so_submit_time = tk_decision_time t + lp_scheduling (ep_latency (tk_policy t)),
         so_arrival_time = taker_arrival t, so_initial_quantity = tk_quantity t,
         so_remaining_quantity = dw_unfilled walk, so_limit_price = None,
         so_state = state_of_fill (fill_state (dw_filled walk) (tk_quantity t)),
         so_queue_quality = QUEUE_UNKNOWN, so_queue_ahead = None, so_fills = fills,
         so_cancel_requested_at = None, so_cancel_effective_at = None,
         so_invalidation_reason = None, so_production_influence = 0\<rparr>)))"

section \<open>Maker\<close>

record MakerRequest =
  mr_order_id :: string
  mr_candidate_id :: string
  mr_strategy :: StrategyType
  mr_side :: OutcomeSide
  mr_price :: decimal
  mr_quantity :: decimal
  mr_displayed_ahead :: decimal
  mr_candidate_time :: instant
  mr_decision_time :: instant
  mr_policy :: ExecutionAssumptionPolicy
  mr_fee_policy :: FeePolicy

record MakerRun =
  mk_queue :: decimal
  mk_remaining :: decimal
  mk_cumulative :: decimal
  mk_fills :: "SimulatedFill list"
  mk_cancel_requested :: "instant option"
  mk_cancel_effective :: "instant option"
  mk_invalidation :: "string option"
  mk_seen :: "(int \<times> decimal) list"

datatype MakerOutcome = Continue MakerRun | Break MakerRun | GapReturn MakerRun

definition maker_arrival :: "MakerRequest \<Rightarrow> instant" where
  "maker_arrival m = mr_decision_time m + decision_to_arrival (ep_latency (mr_policy m))"

definition maker_expiry :: "MakerRequest \<Rightarrow> instant" where
  "maker_expiry m = maker_arrival m + ep_max_rest (mr_policy m)"

definition maker_start :: "MakerRequest \<Rightarrow> MakerRun" where
  "maker_start m = \<lparr>mk_queue = mr_displayed_ahead m +
       ep_competing_fill_reserve (mr_policy m) * mr_displayed_ahead m,
     mk_remaining = mr_quantity m, mk_cumulative = 0, mk_fills = [], mk_cancel_requested = None,
     mk_cancel_effective = None, mk_invalidation = None, mk_seen = []\<rparr>"

definition disturbing :: "ReplayFlow \<Rightarrow> bool" where
  "disturbing e \<longleftrightarrow> fw_kind e \<in> set [FLOW_GAP, PAUSE, RULE_CHANGE, SOURCE_FAILURE]"

text \<open>A trade at the order's price: it depletes the queue first, then fills the order.\<close>

definition maker_trade :: "MakerRequest \<Rightarrow> ReplayFlow \<Rightarrow> MakerRun \<Rightarrow> MakerOutcome result" where
  "maker_trade m e s =
     (let flow = fw_quantity e; depletion = min (mk_queue s) flow;
          queue = mk_queue s - depletion; executable = flow - depletion;
          fill_quantity = min (mk_remaining s) executable;
          s1 = s\<lparr>mk_seen := (fw_sequence e, flow) # mk_seen s, mk_queue := queue\<rparr>;
          cumulative = mk_cumulative s + fill_quantity; remaining = mk_remaining s - fill_quantity
      in if fill_quantity \<le> 0 then Inr (Continue s1)
         else rbind (calculate_fee (mr_fee_policy m) (mr_price m) cumulative True) (\<lambda>fee.
           rbind (SimulatedFill_post_init
             \<lparr>sf_simulated_fill_id = fill_id (mr_order_id m) (length (mk_fills s) + 1),
              sf_simulated_order_id = mr_order_id m, sf_timestamp = fw_timestamp e,
              sf_outcome_side = mr_side m, sf_book_side = ''BID'', sf_price = mr_price m,
              sf_quantity = fill_quantity, sf_maker = True,
              sf_queue_ahead_before = Some (queue + depletion),
              sf_causing_event_id = fw_event_id e,
              sf_fee = fk_total_fee fee - dsum (map sf_fee (mk_fills s)),
              sf_cumulative_fill = cumulative, sf_remaining_quantity = remaining,
              sf_book_lineage = fw_book_lineage e, sf_replay_sequence = fw_sequence e,
              sf_scenario = ep_scenario (mr_policy m)\<rparr>) (\<lambda>f.
           let s2 = s1\<lparr>mk_cumulative := cumulative, mk_remaining := remaining,
             mk_fills := mk_fills s @ [f]\<rparr>
           in Inr (if remaining = 0 then Break s2 else Continue s2))))"

definition maker_step :: "MakerRequest \<Rightarrow> ReplayFlow \<Rightarrow> MakerRun \<Rightarrow> MakerOutcome result" where
  "maker_step m e s =
     (if fw_timestamp e < maker_arrival m then Inr (Continue s)
      else if fw_timestamp e > maker_expiry m then Inr (Break s)
      else if disturbing e
      then (let s' = s\<lparr>mk_cancel_requested := Some (fw_timestamp e),
          mk_cancel_effective := Some (fw_timestamp e + lp_cancellation (ep_latency (mr_policy m))),
          mk_invalidation := Some (FlowKind_value (fw_kind e))\<rparr>
        in Inr (if fw_kind e = FLOW_GAP then GapReturn s' else Continue s'))
      else if (case mk_cancel_effective s of None \<Rightarrow> False | Some t \<Rightarrow> fw_timestamp e \<ge> t)
      then Inr (Break s)
      else if fw_outcome_side e \<noteq> Some (mr_side m) \<or> fw_price e \<noteq> Some (mr_price m)
      then Inr (Continue s)
      else if fw_kind e = LEVEL_REDUCTION
      then Inr (Continue (s\<lparr>mk_queue :=
        max 0 (mk_queue s - fw_quantity e * ep_cancellation_credit (mr_policy m))\<rparr>))
      else if fw_kind e \<noteq> TRADE \<or> (fw_sequence e, fw_quantity e) \<in> set (mk_seen s)
      then Inr (Continue s)
      else maker_trade m e s)"

fun maker_loop :: "MakerRequest \<Rightarrow> ReplayFlow list \<Rightarrow> MakerRun \<Rightarrow> (MakerRun \<times> bool) result" where
  "maker_loop m [] s = Inr (s, False)"
| "maker_loop m (e # es) s = (case maker_step m e s of
     Inl x \<Rightarrow> Inl x
   | Inr (Continue s') \<Rightarrow> maker_loop m es s'
   | Inr (Break s') \<Rightarrow> Inr (s', False)
   | Inr (GapReturn s') \<Rightarrow> Inr (s', True))"

definition maker_order :: "MakerRequest \<Rightarrow> MakerRun \<Rightarrow> bool \<Rightarrow> SimulatedOrder result" where
  "maker_order m s gap = SimulatedOrder_post_init
     \<lparr>so_simulated_order_id = mr_order_id m, so_frozen_candidate_id = mr_candidate_id m,
      so_strategy = mr_strategy m, so_scenario = ep_scenario (mr_policy m),
      so_candidate_time = mr_candidate_time m, so_decision_time = mr_decision_time m,
      so_submit_time = mr_decision_time m + lp_scheduling (ep_latency (mr_policy m)),
      so_arrival_time = maker_arrival m, so_initial_quantity = mr_quantity m,
      so_remaining_quantity = mk_remaining s, so_limit_price = Some (mr_price m),
      so_state = (if gap then EXECUTION_OUTCOME_UNKNOWN
        else if mk_remaining s = 0 then FILLED_SIMULATION
        else if mk_fills s \<noteq> [] then PARTIALLY_FILLED_SIMULATION
        else if mk_cancel_requested s \<noteq> None then CANCELED_SIMULATION else NO_FILL_SIMULATION),
      so_queue_quality = CONSERVATIVE_QUEUE_ASSUMPTION, so_queue_ahead = Some (mk_queue s),
      so_fills = mk_fills s, so_cancel_requested_at = mk_cancel_requested s,
      so_cancel_effective_at = mk_cancel_effective s,
      so_invalidation_reason = (if gap then Some ''unresolved replay gap'' else mk_invalidation s),
      so_production_influence = 0\<rparr>"

definition replay_order :: "ReplayFlow list \<Rightarrow> ReplayFlow list" where
  "replay_order flows = sort_key (\<lambda>e. (fw_timestamp e, fw_sequence e)) flows"

definition simulate_maker :: "MakerRequest \<Rightarrow> ReplayFlow list \<Rightarrow> SimulatedOrder result" where
  "simulate_maker m flows =
     (if mr_strategy m = TAKER_NOW
      then Inl (SimulationError ''maker simulator requires maker strategy'')
      else if ep_required_fidelity (mr_policy m) \<noteq> SEQUENCE_BOOK_AND_TRADES
      then Inl (SimulationError ''maker policy must require sequence book and trades'')
      else rbind (maker_loop m (replay_order flows) (maker_start m))
        (\<lambda>(s, gap). maker_order m s gap))"

definition expire_partial :: "SimulatedOrder \<Rightarrow> SimulatedOrder result" where
  "expire_partial x = (if so_state x \<noteq> PARTIALLY_FILLED_SIMULATION then Inr x
     else SimulatedOrder_post_init (x\<lparr>so_state := EXPIRED_SIMULATION\<rparr>))"

end
