(* ===== verification/Sim_Inv.thy ===== *)
theory Sim_Inv
  imports Sim_Replay
begin

text \<open>
  What the maker's loop keeps: quantities, queue and fees after every event, the time window of
  the fills, and the closed form of the filled quantity when the replay holds only trades.
\<close>

section \<open>Fees are monotone in the quantity\<close>

lemma theoretical_linear:
  assumes "sound_policy p" and "0 < price" and "price < 1"
    and "theoretical_fee p price q maker = Inr t"
  shows "\<exists>k. 0 \<le> k \<and> (\<forall>r. theoretical_fee p price r maker = Inr (k * r))"
proof -
  have "0 \<le> fp_fee_multiplier p" using assms(1) by (simp add: sound_policy_def)
  consider (flat) c where "fp_fee_type p = FLAT" "fp_flat_rate p = Some c"
    | (curve) c where "fp_fee_type p \<noteq> FLAT" "fee_coefficient p maker = Some c"
    using assms(4) by (auto simp: theoretical_fee_def split: if_splits option.splits)
  then show ?thesis
  proof cases
    case flat
    then have "0 \<le> c" using assms(1) by (simp add: sound_policy_def)
    with flat \<open>0 \<le> fp_fee_multiplier p\<close> show ?thesis
      by (intro exI [of _ "c * fp_fee_multiplier p"]) (simp add: theoretical_fee_def)
  next
    case curve
    then have "0 \<le> c"
      using assms(1) by (auto simp: sound_policy_def fee_coefficient_def split: if_splits)
    with curve \<open>0 \<le> fp_fee_multiplier p\<close> assms(2,3) show ?thesis
      by (intro exI [of _ "c * price * (1 - price) * fp_fee_multiplier p"])
        (cases "fp_fee_type p"; simp add: theoretical_fee_def)
  qed
qed

lemma round_up_mono: "0 < i \<Longrightarrow> x \<le> y \<Longrightarrow> round_up i x \<le> round_up i y"
  by (auto simp: round_up_def intro!: mult_right_mono ceiling_mono divide_right_mono)

lemma calculate_fee_more:
  assumes "sound_policy p" and "calculate_fee p price q maker = Inr f" and "0 < r"
  shows "\<exists>g. calculate_fee p price r maker = Inr g \<and> (q \<le> r \<longrightarrow> fk_total_fee f \<le> fk_total_fee g)"
proof -
  let ?i = "fp_balance_rounding_increment p"
  have i: "0 < ?i" using assms(1) by (simp add: sound_policy_def)
  from assms(2) obtain t where t: "theoretical_fee p price q maker = Inr t"
    and p: "0 < price" "price < 1" and v: "fp_verified p" and f: "fk_total_fee f = round_up ?i t"
    by (auto simp: calculate_fee_def rbind_eq_Inr Let_def split: if_splits)
  from theoretical_linear [OF assms(1) p t] obtain k where k: "0 \<le> k"
    and lin: "\<And>r. theoretical_fee p price r maker = Inr (k * r)" by blast
  from lin [of q] t have tq: "t = k * q" by simp
  have "round_up ?i (k * q) \<le> round_up ?i (k * r)" if "q \<le> r"
    by (rule round_up_mono [OF i]) (use that k in \<open>simp add: mult_left_mono\<close>)
  then show ?thesis using p v i lin [of r] assms(3) by (simp add: calculate_fee_def Let_def f tq)
qed

definition fee_total :: "MakerRequest \<Rightarrow> decimal \<Rightarrow> decimal" where
  "fee_total m q = (case calculate_fee (mr_fee_policy m) (mr_price m) q True of
     Inl _ \<Rightarrow> 0 | Inr f \<Rightarrow> fk_total_fee f)"

lemma fee_total_zero [simp]: "fee_total m 0 = 0"
  by (simp add: fee_total_def calculate_fee_def)

lemma fee_total_mono:
  assumes "sound_policy (mr_fee_policy m)" and "0 \<le> q" and "q \<le> r"
    and "calculate_fee (mr_fee_policy m) (mr_price m) r True = Inr g"
  shows "0 \<le> fee_total m q" and "fee_total m q \<le> fk_total_fee g"
proof -
  have g: "0 \<le> fk_total_fee g" using calculate_fee_ok(1,2) [OF assms(1,4)] by linarith
  have "0 \<le> fee_total m q \<and> fee_total m q \<le> fk_total_fee g"
  proof (cases "q = 0")
    case True
    with g show ?thesis by simp
  next
    case False
    with assms(2) have "0 < q" by simp
    from calculate_fee_more [OF assms(1,4) this] obtain f
      where f: "calculate_fee (mr_fee_policy m) (mr_price m) q True = Inr f" by blast
    have "fk_total_fee f \<le> fk_total_fee g"
      using calculate_fee_more [OF assms(1) f, of r] assms(3,4) \<open>0 < q\<close> by auto
    with f calculate_fee_ok(1,2) [OF assms(1) f] show ?thesis by (simp add: fee_total_def)
  qed
  then show "0 \<le> fee_total m q" and "fee_total m q \<le> fk_total_fee g" by simp_all
qed

section \<open>The invariant of the maker's loop\<close>

definition fill_ok :: "MakerRequest \<Rightarrow> SimulatedFill \<Rightarrow> bool" where
  "fill_ok m f \<longleftrightarrow> maker_arrival m \<le> sf_timestamp f \<and> sf_timestamp f \<le> maker_expiry m \<and>
     0 < sf_quantity f \<and> sf_price f = mr_price m \<and> sf_outcome_side f = mr_side m \<and>
     0 \<le> sf_fee f \<and> sf_maker f"

definition maker_inv :: "MakerRequest \<Rightarrow> MakerRun \<Rightarrow> bool" where
  "maker_inv m s \<longleftrightarrow> 0 \<le> mk_queue s \<and> 0 \<le> mk_remaining s \<and> 0 \<le> mk_cumulative s \<and>
     mk_cumulative s + mk_remaining s = mr_quantity m \<and>
     dsum (map sf_quantity (mk_fills s)) = mk_cumulative s \<and>
     dsum (map sf_fee (mk_fills s)) = fee_total m (mk_cumulative s) \<and>
     (\<forall>f \<in> set (mk_fills s). fill_ok m f) \<and>
     (\<forall>req eff. mk_cancel_requested s = Some req \<longrightarrow> mk_cancel_effective s = Some eff \<longrightarrow> req \<le> eff)"

definition sound_maker :: "MakerRequest \<Rightarrow> bool" where
  "sound_maker m \<longleftrightarrow> 0 \<le> mr_quantity m \<and> 0 \<le> mr_displayed_ahead m \<and>
     0 \<le> ep_competing_fill_reserve (mr_policy m) \<and> sound_policy (mr_fee_policy m) \<and>
     0 \<le> lp_cancellation (ep_latency (mr_policy m)) \<and>
     is_ok (calculate_fee (mr_fee_policy m) (mr_price m) 1 True)"

lemma maker_inv_start: "sound_maker m \<Longrightarrow> maker_inv m (maker_start m)"
  by (simp add: maker_inv_def maker_start_def sound_maker_def)

fun outcome_run :: "MakerOutcome \<Rightarrow> MakerRun" where
  "outcome_run (Continue s) = s"
| "outcome_run (Break s) = s"
| "outcome_run (GapReturn s) = s"

lemma sound_fee:
  assumes "sound_maker m" and "0 < q"
  obtains f where "calculate_fee (mr_fee_policy m) (mr_price m) q True = Inr f"
    and "0 < mr_price m" and "mr_price m < 1"
proof -
  from assms(1) obtain g where g: "calculate_fee (mr_fee_policy m) (mr_price m) 1 True = Inr g"
    by (auto simp: sound_maker_def is_ok_iff)
  have "sound_policy (mr_fee_policy m)" using assms(1) by (simp add: sound_maker_def)
  from calculate_fee_more [OF this g assms(2)] obtain f
    where "calculate_fee (mr_fee_policy m) (mr_price m) q True = Inr f" by blast
  moreover have "0 < mr_price m" "mr_price m < 1"
    using g by (auto simp: calculate_fee_def split: if_splits)
  ultimately show thesis using that by blast
qed

text \<open>A trade with a quantity that is not negative never raises, and keeps the invariant.\<close>

lemma maker_trade_ok:
  assumes sound: "sound_maker m" and inv: "maker_inv m s" and qty: "0 \<le> fw_quantity e"
    and window: "maker_arrival m \<le> fw_timestamp e" "fw_timestamp e \<le> maker_expiry m"
  defines "fill \<equiv> max 0 (min (mk_remaining s) (fw_quantity e - min (mk_queue s) (fw_quantity e)))"
  shows "\<exists>o'. maker_trade m e s = Inr o' \<and> maker_inv m (outcome_run o') \<and>
    mk_queue (outcome_run o') = mk_queue s - min (mk_queue s) (fw_quantity e) \<and>
    mk_cumulative (outcome_run o') = mk_cumulative s + fill \<and>
    mk_seen (outcome_run o') = (fw_sequence e, fw_quantity e) # mk_seen s \<and>
    mk_cancel_effective (outcome_run o') = mk_cancel_effective s \<and>
    (o' = Continue (outcome_run o') \<or> o' = Break (outcome_run o') \<and> mk_remaining (outcome_run o') = 0) \<and>
    (\<exists>fs. mk_fills (outcome_run o') = mk_fills s @ fs \<and> (\<forall>f \<in> set fs. sf_timestamp f = fw_timestamp e))"
proof -
  define d where "d = min (mk_queue s) (fw_quantity e)"
  define q where "q = min (mk_remaining s) (fw_quantity e - d)"
  have fill: "fill = max 0 q" by (simp add: fill_def q_def d_def)
  have d: "d \<le> mk_queue s" and q_le: "q \<le> mk_remaining s" by (simp_all add: d_def q_def)
  let ?queue = "mk_queue s - d"
  show ?thesis
  proof (cases "q \<le> 0")
    case True
    then have "maker_trade m e s = Inr (Continue (s\<lparr>mk_seen :=
        (fw_sequence e, fw_quantity e) # mk_seen s, mk_queue := ?queue\<rparr>))"
      by (simp only: maker_trade_def Let_def d_def [symmetric] q_def [symmetric] if_True)
    with True inv d show ?thesis
      unfolding d_def [symmetric] fill by (simp add: maker_inv_def)
  next
    case False
    then have pos: "0 < q" by simp
    let ?c = "mk_cumulative s + q"
    have c: "0 \<le> mk_cumulative s" and c_pos: "0 < ?c" using inv pos by (simp_all add: maker_inv_def)
    obtain g where g: "calculate_fee (mr_fee_policy m) (mr_price m) ?c True = Inr g"
      and price: "0 < mr_price m" "mr_price m < 1" using sound_fee [OF sound c_pos] by blast
    have sp: "sound_policy (mr_fee_policy m)" using sound by (simp add: sound_maker_def)
    have fees: "fee_total m (mk_cumulative s) \<le> fk_total_fee g"
      using fee_total_mono [OF sp c _ g] pos by simp
    have paid: "dsum (map sf_fee (mk_fills s)) = fee_total m (mk_cumulative s)"
      using inv by (simp add: maker_inv_def)
    have total: "fee_total m ?c = fk_total_fee g" by (simp add: fee_total_def g)
    let ?f = "\<lparr>sf_simulated_fill_id = fill_id (mr_order_id m) (length (mk_fills s) + 1),
              sf_simulated_order_id = mr_order_id m, sf_timestamp = fw_timestamp e,
              sf_outcome_side = mr_side m, sf_book_side = ''BID'', sf_price = mr_price m,
              sf_quantity = q, sf_maker = True, sf_queue_ahead_before = Some (?queue + d),
              sf_causing_event_id = fw_event_id e,
              sf_fee = fk_total_fee g - dsum (map sf_fee (mk_fills s)),
              sf_cumulative_fill = ?c, sf_remaining_quantity = mk_remaining s - q,
              sf_book_lineage = fw_book_lineage e, sf_replay_sequence = fw_sequence e,
              sf_scenario = ep_scenario (mr_policy m)\<rparr>"
    let ?s = "s\<lparr>mk_seen := (fw_sequence e, fw_quantity e) # mk_seen s, mk_queue := ?queue,
      mk_cumulative := ?c, mk_remaining := mk_remaining s - q, mk_fills := mk_fills s @ [?f]\<rparr>"
    have post: "SimulatedFill_post_init ?f = Inr ?f"
      using pos fees paid price c q_le by (simp add: SimulatedFill_post_init_def)
    have run: "maker_trade m e s =
        Inr (if mk_remaining s - q = 0 then Break ?s else Continue ?s)"
      unfolding maker_trade_def Let_def d_def [symmetric] q_def [symmetric] g rbind_simps post
      using False by simp
    have ok: "fill_ok m ?f" using pos window fees paid by (simp add: fill_ok_def)
    have inv': "maker_inv m ?s"
      using inv d q_le pos ok total paid by (simp add: maker_inv_def algebra_simps)
    let ?o = "if mk_remaining s - q = 0 then Break ?s else Continue ?s"
    have o: "outcome_run ?o = ?s" by simp
    show ?thesis
      unfolding d_def [symmetric] fill
      by (rule exI [of _ ?o], unfold o) (use run inv' pos in simp)
  qed
qed

lemma maker_step_ok:
  assumes sound: "sound_maker m" and inv: "maker_inv m s" and qty: "0 \<le> fw_quantity e"
  shows "\<exists>o'. maker_step m e s = Inr o' \<and> maker_inv m (outcome_run o') \<and>
    (\<exists>fs. mk_fills (outcome_run o') = mk_fills s @ fs \<and> (\<forall>f \<in> set fs. sf_timestamp f = fw_timestamp e))"
proof -
  let ?cancelled = "case mk_cancel_effective s of None \<Rightarrow> False | Some t \<Rightarrow> fw_timestamp e \<ge> t"
  consider (early) "fw_timestamp e < maker_arrival m" | (late) "fw_timestamp e > maker_expiry m"
    | (other) "maker_arrival m \<le> fw_timestamp e" "fw_timestamp e \<le> maker_expiry m"
    by linarith
  then show ?thesis
  proof cases
    case early
    then show ?thesis using inv by (simp add: maker_step_def)
  next
    case late
    then show ?thesis using inv by (simp add: maker_step_def)
  next
    case other
    then have in_window: "\<not> fw_timestamp e < maker_arrival m" "\<not> fw_timestamp e > maker_expiry m"
      by simp_all
    show ?thesis
    proof (cases "disturbing e")
      case True
      have "0 \<le> lp_cancellation (ep_latency (mr_policy m))" using sound by (simp add: sound_maker_def)
      with True inv in_window show ?thesis
        by (cases "fw_kind e = FLOW_GAP") (simp_all add: maker_step_def Let_def maker_inv_def)
    next
      case calm: False
      show ?thesis
      proof (cases "?cancelled \<or> fw_outcome_side e \<noteq> Some (mr_side m) \<or>
          fw_price e \<noteq> Some (mr_price m) \<or> fw_kind e \<noteq> TRADE \<or>
          (fw_sequence e, fw_quantity e) \<in> set (mk_seen s)")
        case True
        with calm in_window inv show ?thesis
          by (auto simp: maker_step_def maker_inv_def)
      next
        case False
        then have "maker_step m e s = maker_trade m e s"
          using calm in_window by (simp add: maker_step_def)
        with maker_trade_ok [OF sound inv qty other] show ?thesis by fastforce
      qed
    qed
  qed
qed

lemma maker_loop_ok:
  assumes sound: "sound_maker m"
  shows "maker_inv m s \<Longrightarrow> \<forall>e \<in> set es. 0 \<le> fw_quantity e \<Longrightarrow> sorted (map fw_timestamp es) \<Longrightarrow>
    \<exists>s' gap fs. maker_loop m es s = Inr (s', gap) \<and> maker_inv m s' \<and> mk_fills s' = mk_fills s @ fs \<and>
      sorted (map sf_timestamp fs) \<and> sf_timestamp ` set fs \<subseteq> fw_timestamp ` set es"
proof (induction es arbitrary: s)
  case (Cons e es)
  from Cons.prems obtain o' fs where step: "maker_step m e s = Inr o'" "maker_inv m (outcome_run o')"
    and fs: "mk_fills (outcome_run o') = mk_fills s @ fs" "\<forall>f \<in> set fs. sf_timestamp f = fw_timestamp e"
    using maker_step_ok [OF sound, of s e] by auto
  have flat: "sorted (map sf_timestamp fs)" "sf_timestamp ` set fs \<subseteq> fw_timestamp ` set (e # es)"
    using fs(2) by (induction fs) auto
  show ?case
  proof (cases o')
    case (Continue s1)
    with Cons.IH [of s1] Cons.prems step(2) obtain s' gap gs where
      rest: "maker_loop m es s1 = Inr (s', gap)" "maker_inv m s'" "mk_fills s' = mk_fills s1 @ gs"
        "sorted (map sf_timestamp gs)" "sf_timestamp ` set gs \<subseteq> fw_timestamp ` set es" by auto
    have "\<forall>g \<in> set gs. fw_timestamp e \<le> sf_timestamp g" using rest(5) Cons.prems(3) by auto
    then have "sorted (map sf_timestamp (fs @ gs))"
      using flat(1) rest(4) fs(2) by (auto simp: sorted_append)
    moreover have "sf_timestamp ` set (fs @ gs) \<subseteq> fw_timestamp ` set (e # es)"
      using flat(2) rest(5) by auto
    ultimately show ?thesis using rest(1-3) Continue step(1) fs(1)
      by (intro exI [of _ s'] exI [of _ gap] exI [of _ "fs @ gs"]) simp
  qed (use step fs flat in \<open>auto intro!: exI [of _ fs]\<close>)
qed auto

text \<open>No fill is later than the effective cancellation the run ends with.\<close>

definition before_cancel :: "MakerRun \<Rightarrow> bool" where
  "before_cancel s \<longleftrightarrow> (\<forall>f \<in> set (mk_fills s). \<forall>t. mk_cancel_effective s = Some t \<longrightarrow> sf_timestamp f \<le> t)"

lemma maker_step_cancel:
  assumes sound: "sound_maker m" and inv: "maker_inv m s" and qty: "0 \<le> fw_quantity e"
    and before: "before_cancel s" and past: "\<forall>f \<in> set (mk_fills s). sf_timestamp f \<le> fw_timestamp e"
    and step: "maker_step m e s = Inr o'"
  shows "before_cancel (outcome_run o')"
proof (cases "\<not> fw_timestamp e < maker_arrival m \<and> \<not> fw_timestamp e > maker_expiry m")
  case False
  with step before show ?thesis by (auto simp: maker_step_def split: if_splits)
next
  case window: True
  show ?thesis
  proof (cases "disturbing e")
    case True
    have "0 \<le> lp_cancellation (ep_latency (mr_policy m))" using sound by (simp add: sound_maker_def)
    with True step window past show ?thesis
      by (fastforce simp: maker_step_def Let_def before_cancel_def split: if_splits)
  next
    case calm: False
    show ?thesis
    proof (cases "maker_step m e s = maker_trade m e s \<and>
        \<not> (case mk_cancel_effective s of None \<Rightarrow> False | Some t \<Rightarrow> fw_timestamp e \<ge> t)")
      case True
      with maker_trade_ok [OF sound inv qty] window step before show ?thesis
        by (fastforce simp: before_cancel_def split: option.splits)
    next
      case False
      with calm window step before show ?thesis
        by (auto simp: maker_step_def before_cancel_def split: if_splits)
    qed
  qed
qed

lemma maker_loop_cancel:
  assumes sound: "sound_maker m"
  shows "maker_inv m s \<Longrightarrow> \<forall>e \<in> set es. 0 \<le> fw_quantity e \<Longrightarrow> sorted (map fw_timestamp es) \<Longrightarrow>
    before_cancel s \<Longrightarrow> \<forall>f \<in> set (mk_fills s). \<forall>e \<in> set es. sf_timestamp f \<le> fw_timestamp e \<Longrightarrow>
    maker_loop m es s = Inr (s', gap) \<Longrightarrow> before_cancel s'"
proof (induction es arbitrary: s)
  case (Cons e es)
  from Cons.prems(1,2) obtain o' fs where step: "maker_step m e s = Inr o'" "maker_inv m (outcome_run o')"
    and fs: "mk_fills (outcome_run o') = mk_fills s @ fs" "\<forall>f \<in> set fs. sf_timestamp f = fw_timestamp e"
    using maker_step_ok [OF sound, of s e] by auto
  have now: "before_cancel (outcome_run o')"
    using Cons.prems by (intro maker_step_cancel [OF sound _ _ _ _ step(1)]) simp_all
  show ?case
  proof (cases o')
    case (Continue s1)
    show ?thesis
      by (rule Cons.IH [of s1]) (use Cons.prems step now fs Continue in auto)
  qed (use step now Cons.prems(6) in auto)
qed simp

section \<open>A tape of trades\<close>

definition trade_key :: "ReplayFlow \<Rightarrow> int \<times> decimal" where
  "trade_key e = (fw_sequence e, fw_quantity e)"

definition relevant :: "MakerRequest \<Rightarrow> ReplayFlow \<Rightarrow> bool" where
  "relevant m e \<longleftrightarrow> maker_arrival m \<le> fw_timestamp e \<and> fw_timestamp e \<le> maker_expiry m \<and>
     fw_outcome_side e = Some (mr_side m) \<and> fw_price e = Some (mr_price m)"

definition volume :: "(int \<times> decimal) set \<Rightarrow> decimal" where
  "volume K = sum snd K"

definition queue_at_start :: "MakerRequest \<Rightarrow> decimal" where
  "queue_at_start m = mk_queue (maker_start m)"

definition filled_after :: "MakerRequest \<Rightarrow> decimal \<Rightarrow> decimal" where
  "filled_after m v = min (mr_quantity m) (max 0 (v - queue_at_start m))"

lemma filled_step:
  fixes Q q0 v x :: decimal
  assumes "0 \<le> x" "0 \<le> Q" "q = max 0 (q0 - v)" "c = min Q (max 0 (v - q0))"
  shows "q - min q x = max 0 (q0 - (v + x))"
    and "c + max 0 (min (Q - c) (x - min q x)) = min Q (max 0 (v + x - q0))"
proof -
  show "q - min q x = max 0 (q0 - (v + x))"
    using assms(1,3) by (cases "q0 \<le> v"; cases "q0 \<le> v + x") auto
  have x: "x - min q x = max 0 (v + x - q0) - max 0 (v - q0)"
    using assms(1,3) by (cases "q0 \<le> v"; cases "q0 \<le> v + x") auto
  show "c + max 0 (min (Q - c) (x - min q x)) = min Q (max 0 (v + x - q0))"
    unfolding x using assms(1,2,4) by (auto simp: min_def max_def)
qed

definition on_tape :: "MakerRequest \<Rightarrow> MakerRun \<Rightarrow> bool" where
  "on_tape m s \<longleftrightarrow> maker_inv m s \<and> mk_cancel_effective s = None \<and>
     (\<forall>k \<in> set (mk_seen s). 0 \<le> snd k) \<and>
     mk_queue s = max 0 (queue_at_start m - volume (set (mk_seen s))) \<and>
     mk_cumulative s = filled_after m (volume (set (mk_seen s)))"

lemma volume_insert: "finite K \<Longrightarrow> k \<notin> K \<Longrightarrow> volume (insert k K) = volume K + snd k"
  by (simp add: volume_def add.commute)

lemma volume_mono: "finite L \<Longrightarrow> K \<subseteq> L \<Longrightarrow> \<forall>k \<in> L. 0 \<le> snd k \<Longrightarrow> volume K \<le> volume L"
  unfolding volume_def by (rule sum_mono2) auto

lemma maker_step_relevant:
  assumes "relevant m e" and "fw_kind e = TRADE" and "mk_cancel_effective s = None"
  shows "maker_step m e s = (if trade_key e \<in> set (mk_seen s) then Inr (Continue s)
    else maker_trade m e s)"
  using assms by (simp add: maker_step_def relevant_def disturbing_def trade_key_def)

lemma maker_step_irrelevant:
  assumes "\<not> relevant m e" and "fw_kind e = TRADE" and "mk_cancel_effective s = None"
  shows "maker_step m e s = Inr (Continue s) \<or>
    maker_step m e s = Inr (Break s) \<and> maker_expiry m < fw_timestamp e"
  using assms by (auto simp: maker_step_def relevant_def disturbing_def)

lemma on_tape_trade:
  assumes sound: "sound_maker m" and s: "on_tape m s" and e: "relevant m e" "0 \<le> fw_quantity e"
    and new: "trade_key e \<notin> set (mk_seen s)"
  shows "\<exists>s'. (maker_trade m e s = Inr (Continue s') \<or>
      maker_trade m e s = Inr (Break s') \<and> mk_cumulative s' = mr_quantity m) \<and>
    on_tape m s' \<and> set (mk_seen s') = insert (trade_key e) (set (mk_seen s))"
proof -
  from s have inv: "maker_inv m s" and q: "mk_queue s = max 0 (queue_at_start m - volume (set (mk_seen s)))"
    and c: "mk_cumulative s = filled_after m (volume (set (mk_seen s)))"
    and pos: "\<forall>k \<in> set (mk_seen s). 0 \<le> snd k" and none: "mk_cancel_effective s = None"
    by (simp_all add: on_tape_def)
  from inv have total: "mk_remaining s = mr_quantity m - mk_cumulative s" by (simp add: maker_inv_def)
  have quantity: "0 \<le> mr_quantity m" using sound by (simp add: sound_maker_def)
  from e(1) have window: "maker_arrival m \<le> fw_timestamp e" "fw_timestamp e \<le> maker_expiry m"
    by (simp_all add: relevant_def)
  obtain o' where o': "maker_trade m e s = Inr o'" "maker_inv m (outcome_run o')"
    "mk_queue (outcome_run o') = mk_queue s - min (mk_queue s) (fw_quantity e)"
    "mk_cumulative (outcome_run o') = mk_cumulative s + max 0 (min (mk_remaining s)
      (fw_quantity e - min (mk_queue s) (fw_quantity e)))"
    "mk_seen (outcome_run o') = trade_key e # mk_seen s"
    "mk_cancel_effective (outcome_run o') = mk_cancel_effective s"
    "o' = Continue (outcome_run o') \<or> o' = Break (outcome_run o') \<and> mk_remaining (outcome_run o') = 0"
    using maker_trade_ok [OF sound inv e(2) window] by (auto simp: trade_key_def)
  have v: "volume (insert (trade_key e) (set (mk_seen s))) = volume (set (mk_seen s)) + fw_quantity e"
    using volume_insert [OF _ new] by (simp add: trade_key_def)
  note filled = filled_step [OF e(2) quantity q c [unfolded filled_after_def]]
  have seen: "volume (set (mk_seen (outcome_run o'))) = volume (set (mk_seen s)) + fw_quantity e"
    unfolding o'(5) by (simp add: v)
  have "mk_queue (outcome_run o') = max 0 (queue_at_start m - volume (set (mk_seen (outcome_run o'))))"
    unfolding seen o'(3) by (rule filled(1))
  moreover have "mk_cumulative (outcome_run o') = filled_after m (volume (set (mk_seen (outcome_run o'))))"
    unfolding seen o'(4) total filled_after_def by (rule filled(2))
  moreover have "\<forall>k \<in> set (mk_seen (outcome_run o')). 0 \<le> snd k"
    unfolding o'(5) using pos e(2) by (simp add: trade_key_def)
  ultimately have "on_tape m (outcome_run o')"
    using o'(2,6) none by (simp add: on_tape_def)
  moreover have "mk_cumulative (outcome_run o') = mr_quantity m" if "mk_remaining (outcome_run o') = 0"
    using o'(2) that by (simp add: maker_inv_def)
  ultimately show ?thesis using o'(1,5,7) by (intro exI [of _ "outcome_run o'"]) auto
qed

lemma maker_loop_tape:
  assumes sound: "sound_maker m"
  shows "on_tape m s \<Longrightarrow> \<forall>e \<in> set es. fw_kind e = TRADE \<and> 0 \<le> fw_quantity e \<Longrightarrow>
    sorted (map fw_timestamp es) \<Longrightarrow>
    \<exists>s'. maker_loop m es s = Inr (s', False) \<and>
      mk_cumulative s' =
        filled_after m (volume (set (mk_seen s) \<union> trade_key ` {e \<in> set es. relevant m e}))"
proof (induction es arbitrary: s)
  case Nil
  then show ?case by (simp add: on_tape_def)
next
  case (Cons e es)
  let ?keys = "\<lambda>es. trade_key ` {e \<in> set es. relevant m e}"
  have none: "mk_cancel_effective s = None" using Cons.prems(1) by (simp add: on_tape_def)
  have rest: "\<forall>e \<in> set es. fw_kind e = TRADE \<and> 0 \<le> fw_quantity e" "sorted (map fw_timestamp es)"
    and e: "fw_kind e = TRADE" "0 \<le> fw_quantity e" using Cons.prems(2,3) by auto
  show ?case
  proof (cases "relevant m e")
    case True
    have keys: "?keys (e # es) = insert (trade_key e) (?keys es)" using True by auto
    show ?thesis
    proof (cases "trade_key e \<in> set (mk_seen s)")
      case seen: True
      then have "set (mk_seen s) \<union> ?keys (e # es) = set (mk_seen s) \<union> ?keys es"
        unfolding keys by blast
      with Cons.IH [OF Cons.prems(1) rest] seen show ?thesis
        by (simp add: maker_step_relevant [OF True e(1) none])
    next
      case new: False
      from on_tape_trade [OF sound Cons.prems(1) True e(2) new] obtain s'
        where step: "maker_trade m e s = Inr (Continue s') \<or>
            maker_trade m e s = Inr (Break s') \<and> mk_cumulative s' = mr_quantity m"
          and s': "on_tape m s'" "set (mk_seen s') = insert (trade_key e) (set (mk_seen s))" by blast
      have seen: "set (mk_seen s) \<union> ?keys (e # es) = set (mk_seen s') \<union> ?keys es"
        unfolding keys s'(2) by blast
      from step show ?thesis
      proof
        assume "maker_trade m e s = Inr (Continue s')"
        with Cons.IH [OF s'(1) rest] new show ?thesis
          unfolding seen by (simp add: maker_step_relevant [OF True e(1) none])
      next
        assume stop: "maker_trade m e s = Inr (Break s') \<and> mk_cumulative s' = mr_quantity m"
        have "volume (set (mk_seen s')) \<le> volume (set (mk_seen s') \<union> ?keys es)"
          using s'(1) rest(1) by (intro volume_mono) (auto simp: on_tape_def trade_key_def)
        moreover have "mr_quantity m = filled_after m (volume (set (mk_seen s')))"
          using stop s'(1) by (simp add: on_tape_def)
        ultimately have "filled_after m (volume (set (mk_seen s') \<union> ?keys es)) = mr_quantity m"
          by (auto simp: filled_after_def min_def max_def split: if_splits)
        with stop new show ?thesis
          unfolding seen by (simp add: maker_step_relevant [OF True e(1) none])
      qed
    qed
  next
    case False
    then have keys: "?keys (e # es) = ?keys es" by auto
    from maker_step_irrelevant [OF False e(1) none] show ?thesis
    proof
      assume "maker_step m e s = Inr (Continue s)"
      with Cons.IH [OF Cons.prems(1) rest] show ?thesis unfolding keys by simp
    next
      assume late: "maker_step m e s = Inr (Break s) \<and> maker_expiry m < fw_timestamp e"
      then have empty: "?keys es = {}" using Cons.prems(3) by (fastforce simp: relevant_def)
      from late Cons.prems(1) show ?thesis unfolding keys empty by (simp add: on_tape_def)
    qed
  qed
qed

lemma sorted_replay_order: "sorted (map fw_timestamp (replay_order flows))"
proof -
  have "sorted (map (\<lambda>e. (fw_timestamp e, fw_sequence e)) (replay_order flows))"
    by (simp add: replay_order_def)
  then show ?thesis
    unfolding sorted_wrt_map by (rule sorted_wrt_mono_rel [rotated]) (auto simp: less_eq_prod_def)
qed

lemma set_replay_order [simp]: "set (replay_order flows) = set flows"
  by (simp add: replay_order_def)

end
