(* ===== verification/Sim_Analytics.thy ===== *)
theory Sim_Analytics
  imports Sim_Replay
begin

text \<open>
  \<open>services/execution_simulation/analytics.py\<close>: markouts, settlement, drawdowns, event-level
  accounting and concentration of simulated results.
\<close>

record MarkoutObservation =
  mo_simulated_fill_id :: string
  mo_horizon :: duration
  mo_reference_time :: instant
  mo_market_reference :: decimal
  mo_executable_unwind :: "decimal option"
  mo_normalized_markout :: decimal

definition markout :: "SimulatedFill \<Rightarrow> OutcomeSide \<Rightarrow> instant \<Rightarrow> decimal \<Rightarrow> decimal option \<Rightarrow>
    MarkoutObservation" where
  "markout fill side reference_time market_reference_yes executable_unwind =
     (let outcome_reference =
        (if side = YES then market_reference_yes else 1 - market_reference_yes)
      in \<lparr>mo_simulated_fill_id = sf_simulated_fill_id fill,
          mo_horizon = reference_time - sf_timestamp fill, mo_reference_time = reference_time,
          mo_market_reference = outcome_reference, mo_executable_unwind = executable_unwind,
          mo_normalized_markout = outcome_reference - sf_price fill\<rparr>)"

record SettlementResult =
  st_simulated_order_id :: string
  st_settled_outcome :: OutcomeSide
  st_gross_pnl :: "decimal option"
  st_fees :: decimal
  st_net_pnl :: "decimal option"
  st_committed_capital :: decimal
  st_capital_duration :: "duration option"

definition settle :: "SimulatedOrder \<Rightarrow> OutcomeSide \<Rightarrow> instant \<Rightarrow> SettlementResult" where
  "settle x settled_outcome settled_at = (case so_fills x of
     [] \<Rightarrow> \<lparr>st_simulated_order_id = so_simulated_order_id x, st_settled_outcome = settled_outcome,
       st_gross_pnl = None, st_fees = 0, st_net_pnl = None, st_committed_capital = 0,
       st_capital_duration = None\<rparr>
   | first # _ \<Rightarrow>
      (let cost = dsum (map (\<lambda>f. sf_price f * sf_quantity f) (so_fills x));
           fees = dsum (map sf_fee (so_fills x));
           payout = dsum (map sf_quantity (filter (\<lambda>f. sf_outcome_side f = settled_outcome)
             (so_fills x)));
           gross = payout - cost
       in \<lparr>st_simulated_order_id = so_simulated_order_id x, st_settled_outcome = settled_outcome,
          st_gross_pnl = Some gross, st_fees = fees, st_net_pnl = Some (gross - fees),
          st_committed_capital = cost + fees,
          st_capital_duration = Some (settled_at - sf_timestamp first)\<rparr>))"

record DrawdownPoint =
  dp_timestamp :: instant
  dp_cumulative_pnl :: decimal
  dp_peak :: decimal
  dp_drawdown :: decimal

fun drawdown_loop :: "decimal \<Rightarrow> decimal \<Rightarrow> (instant \<times> decimal) list \<Rightarrow> DrawdownPoint list" where
  "drawdown_loop cumulative peak [] = []"
| "drawdown_loop cumulative peak ((timestamp, pnl) # rows) =
     (let cumulative' = cumulative + pnl; peak' = max peak cumulative'
      in \<lparr>dp_timestamp = timestamp, dp_cumulative_pnl = cumulative', dp_peak = peak',
          dp_drawdown = peak' - cumulative'\<rparr> # drawdown_loop cumulative' peak' rows)"

definition drawdown_series :: "(instant \<times> decimal) list \<Rightarrow> DrawdownPoint list" where
  "drawdown_series rows = drawdown_loop 0 0 (sort rows)"

record EventAccounting =
  ea_candidate_attempts :: nat
  ea_simulated_orders :: nat
  ea_fills :: int
  ea_unique_markets :: nat
  ea_unique_events :: nat
  ea_settled_events :: nat
  ea_effective_sample_size :: decimal

definition event_accounting :: "(string \<times> string \<times> string \<times> bool \<times> int) list \<Rightarrow>
    EventAccounting" where
  "event_accounting attempts =
     (let events = remdups (map (\<lambda>(_, _, event, _, _). event) attempts);
          settled = remdups (map (\<lambda>(_, _, event, _, _). event)
            (filter (\<lambda>(_, _, _, is_settled, _). is_settled) attempts))
      in \<lparr>ea_candidate_attempts = length attempts,
          ea_simulated_orders = length (remdups (map (\<lambda>(identity, _). identity) attempts)),
          ea_fills = sum_list (map (\<lambda>(_, _, _, _, fill_count). fill_count) attempts),
          ea_unique_markets = length (remdups (map (\<lambda>(_, market, _). market) attempts)),
          ea_unique_events = length events, ea_settled_events = length settled,
          ea_effective_sample_size = of_nat (length settled)\<rparr>)"

definition concentration :: "(string \<times> decimal) list \<Rightarrow> decimal \<times> decimal \<times> decimal" where
  "concentration event_pnl =
     (let total = dsum (map snd event_pnl);
          positive = rev (sort (filter (\<lambda>v. v > 0) (map snd event_pnl)))
      in if total \<le> 0 \<or> positive = [] then (0, 0, total)
         else (hd positive / total, dsum (take 5 positive) / total, total - hd positive))"

section \<open>Facts\<close>

lemma drawdown_loop_points:
  "i < length rows \<Longrightarrow> drawdown_loop c p rows ! i =
     \<lparr>dp_timestamp = fst (rows ! i), dp_cumulative_pnl = c + dsum (map snd (take (Suc i) rows)),
      dp_peak = Max (insert p ((\<lambda>j. c + dsum (map snd (take (Suc j) rows))) ` {..i})),
      dp_drawdown = Max (insert p ((\<lambda>j. c + dsum (map snd (take (Suc j) rows))) ` {..i})) -
        (c + dsum (map snd (take (Suc i) rows)))\<rparr>"
proof (induction c p rows arbitrary: i rule: drawdown_loop.induct)
  case (2 c p t x rows)
  let ?at = "\<lambda>j. c + dsum (map snd (take (Suc j) ((t, x) # rows)))"
  have shift: "?at ` {..Suc n} = insert (c + x) ((\<lambda>j. c + x + dsum (map snd (take (Suc j) rows))) ` {..n})"
    for n
    by (simp add: atMost_Suc_eq_insert_0 image_image add.assoc)
  show ?case
  proof (cases i)
    case 0
    then show ?thesis by (simp add: Let_def max.commute)
  next
    case (Suc n)
    have "Max (insert p (?at ` {..Suc n})) =
        Max (insert (max p (c + x)) ((\<lambda>j. c + x + dsum (map snd (take (Suc j) rows))) ` {..n}))"
      unfolding shift by (simp add: ac_simps)
    with Suc 2 show ?thesis by (simp add: Let_def add.assoc)
  qed
qed simp

lemma length_drawdown_loop [simp]: "length (drawdown_loop c p rows) = length rows"
  by (induction c p rows rule: drawdown_loop.induct) (simp_all add: Let_def)

lemma settle_net:
  assumes "so_fills x \<noteq> []"
  shows "st_net_pnl (settle x w t) = Some (dsum (map (\<lambda>f. (if sf_outcome_side f = w then sf_quantity f
    else 0) - sf_price f * sf_quantity f - sf_fee f) (so_fills x)))"
proof -
  have sums: "dsum (map (\<lambda>f. (if sf_outcome_side f = w then sf_quantity f else 0) -
        sf_price f * sf_quantity f - sf_fee f) fs) =
      dsum (map sf_quantity (filter (\<lambda>f. sf_outcome_side f = w) fs)) -
        dsum (map (\<lambda>f. sf_price f * sf_quantity f) fs) - dsum (map sf_fee fs)" for fs
    by (induction fs) simp_all
  with assms show ?thesis by (cases "so_fills x") (simp_all add: settle_def Let_def sums)
qed

end
