(* ===== verification/Sim_Properties.thy ===== *)
theory Sim_Properties
  imports Sim_Inv Sim_Analytics
begin

text \<open>
  The properties of the execution simulation: neither simulation looks ahead, the maker's order
  is always produced and accounts for every fill and fee, on a tape of trades it fills exactly
  what the queue leaves, and drawdowns are what their definition says.
\<close>

section \<open>No look-ahead\<close>

definition in_window :: "MakerRequest \<Rightarrow> ReplayFlow \<Rightarrow> bool" where
  "in_window m e \<longleftrightarrow> maker_arrival m \<le> fw_timestamp e \<and> fw_timestamp e \<le> maker_expiry m"

lemma maker_loop_window:
  "sorted (map fw_timestamp es) \<Longrightarrow> maker_loop m es s = maker_loop m (filter (in_window m) es) s"
proof (induction es arbitrary: s)
  case (Cons e es)
  then have ih: "maker_loop m es s = maker_loop m (filter (in_window m) es) s" for s by simp
  consider "in_window m e" | "fw_timestamp e < maker_arrival m"
    | "fw_timestamp e > maker_expiry m" "\<not> fw_timestamp e < maker_arrival m"
    unfolding in_window_def by linarith
  then show ?case
  proof cases
    case 1
    then show ?thesis by (simp add: ih cong: sum.case_cong MakerOutcome.case_cong)
  next
    case 2
    then have "maker_step m e s = Inr (Continue s)" by (simp add: maker_step_def)
    moreover have "\<not> in_window m e" using 2 by (simp add: in_window_def)
    ultimately show ?thesis by (simp add: ih)
  next
    case 3
    then have "maker_step m e s = Inr (Break s)" by (simp add: maker_step_def)
    moreover have "filter (in_window m) (e # es) = []"
      using 3 Cons.prems by (fastforce simp: in_window_def filter_empty_conv)
    ultimately show ?thesis by (simp del: filter.simps)
  qed
qed simp

text \<open>C26. No simulation looks ahead: what a taker fills is decided by the books up to its arrival
  alone, and what a maker fills by the flow between its arrival and its expiry alone.\<close>

theorem simulations_do_not_look_ahead:
  "simulate_taker t books =
     simulate_taker t (filter (\<lambda>b. rk_timestamp b \<le> taker_arrival t) books) \<and>
   simulate_maker m flows =
     simulate_maker m (filter (\<lambda>e. maker_arrival m \<le> fw_timestamp e \<and>
       fw_timestamp e \<le> maker_expiry m) flows)"
proof
  show "simulate_taker t books =
     simulate_taker t (filter (\<lambda>b. rk_timestamp b \<le> taker_arrival t) books)"
    by (simp add: simulate_taker_def arrival_book_def)
  have window: "(\<lambda>e. maker_arrival m \<le> fw_timestamp e \<and> fw_timestamp e \<le> maker_expiry m) = in_window m"
    by (simp add: in_window_def fun_eq_iff)
  have "maker_loop m (replay_order flows) s = maker_loop m (replay_order (filter (in_window m) flows)) s"
    for s
    unfolding maker_loop_window [OF sorted_replay_order] by (simp add: replay_order_def filter_sort)
  then show "simulate_maker m flows =
     simulate_maker m (filter (\<lambda>e. maker_arrival m \<le> fw_timestamp e \<and>
       fw_timestamp e \<le> maker_expiry m) flows)"
    unfolding window simulate_maker_def by simp
qed

section \<open>Takers\<close>

lemma latest_book_max:
  "latest_book b bs \<in> set (b # bs) \<and>
   (\<forall>c \<in> set (b # bs). (rk_timestamp c, rk_sequence c) \<le>
      (rk_timestamp (latest_book b bs), rk_sequence (latest_book b bs)))"
proof (induction b bs rule: latest_book.induct)
  case (2 b c cs)
  then show ?case
    by (cases "(rk_timestamp b, rk_sequence b) < (rk_timestamp c, rk_sequence c)")
      (auto simp del: less_prod_def less_eq_prod_def intro: order.trans less_imp_le)
qed simp

lemma arrival_book_ok:
  assumes "arrival_book t books = Inr b"
  shows "b \<in> set books \<and> rk_timestamp b \<le> taker_arrival t \<and> rk_active b \<and>
    taker_arrival t - rk_timestamp b \<le> tk_max_book_age t \<and>
    rk_fidelity b \<in> {SEQUENCE_BOOK_AND_TRADES, HIGH_RESOLUTION_BOOK} \<and>
    (\<forall>c \<in> set books. rk_timestamp c \<le> taker_arrival t \<longrightarrow>
      (rk_timestamp c, rk_sequence c) \<le> (rk_timestamp b, rk_sequence b))"
proof -
  let ?past = "filter (\<lambda>b. rk_timestamp b \<le> taker_arrival t) books"
  from assms obtain c cs where past: "?past = c # cs" and b: "b = latest_book c cs"
    and rest: "taker_arrival t - rk_timestamp b \<le> tk_max_book_age t" "rk_active b"
      "rk_fidelity b \<in> {SEQUENCE_BOOK_AND_TRADES, HIGH_RESOLUTION_BOOK}"
    by (auto simp: arrival_book_def Let_def split: list.splits if_splits)
  have "set ?past = set (c # cs)" by (simp only: past)
  then have "b \<in> set ?past" "\<forall>c \<in> set ?past. (rk_timestamp c, rk_sequence c) \<le>
      (rk_timestamp b, rk_sequence b)"
    using latest_book_max [of c cs] b by simp_all
  with rest show ?thesis by simp
qed

text \<open>A taker is filled from the newest active and fresh book at its arrival, for as much of its
  quantity as the asks of that book hold at their greedy cost, in at most one fill at arrival.\<close>

theorem taker_fills_from_the_arrival_book:
  assumes "simulate_taker t books = Inr x"
  shows "\<exists>b \<in> set books. rk_timestamp b \<le> taker_arrival t \<and> rk_active b \<and>
    taker_arrival t - rk_timestamp b \<le> tk_max_book_age t \<and>
    (\<forall>c \<in> set books. rk_timestamp c \<le> taker_arrival t \<longrightarrow>
      (rk_timestamp c, rk_sequence c) \<le> (rk_timestamp b, rk_sequence b)) \<and>
    (let (q, cost) = greedy (taker_levels (tk_side t) (rk_book b)) (tk_quantity t)
     in dsum (map sf_quantity (so_fills x)) = q \<and> so_remaining_quantity x = tk_quantity t - q \<and>
       dsum (map (\<lambda>f. sf_price f * sf_quantity f) (so_fills x)) = (if q = 0 then 0 else cost) \<and>
       (so_state x = FILLED_SIMULATION \<longleftrightarrow> q = tk_quantity t) \<and> length (so_fills x) \<le> 1 \<and>
       (\<forall>f \<in> set (so_fills x). sf_timestamp f = taker_arrival t))"
proof -
  from assms obtain b w fills where b: "arrival_book t books = Inr b"
    and w: "walk_depth (taker_levels (tk_side t) (rk_book b)) (tk_quantity t) = Inr w"
    and fills: "taker_fills t b w = Inr fills" and x: "so_fills x = fills"
      "so_remaining_quantity x = dw_unfilled w"
      "so_state x = state_of_fill (fill_state (dw_filled w) (tk_quantity t))"
    by (auto simp: simulate_taker_def rbind_eq_Inr SimulatedOrder_post_init_Inr)
  note walk = walk_depth_ok [OF w]
  let ?g = "greedy (taker_levels (tk_side t) (rk_book b)) (tk_quantity t)"
  have average: "dw_average_price w = (if fst ?g = 0 then None else Some (snd ?g / fst ?g))"
    unfolding walk(8,3,4) ..
  have "dsum (map sf_quantity fills) = fst ?g \<and> length fills \<le> 1 \<and>
      dsum (map (\<lambda>f. sf_price f * sf_quantity f) fills) = (if fst ?g = 0 then 0 else snd ?g) \<and>
      (\<forall>f \<in> set fills. sf_timestamp f = taker_arrival t)"
    using fills average walk(3)
    by (auto simp: taker_fills_def rbind_eq_Inr SimulatedFill_post_init_def split: if_splits)
  moreover have "so_state x = FILLED_SIMULATION \<longleftrightarrow> fst ?g = tk_quantity t"
    using x(3) walk(1,3) by (auto simp: state_of_fill_def fill_state_def)
  ultimately show ?thesis
    using arrival_book_ok [OF b] x walk(3,5) by (intro bexI [of _ b]) (simp_all add: case_prod_beta Let_def)
qed

section \<open>Makers\<close>

definition chronological_maker :: "MakerRequest \<Rightarrow> bool" where
  "chronological_maker m \<longleftrightarrow> mr_candidate_time m \<le> mr_decision_time m \<and>
     0 \<le> lp_scheduling (ep_latency (mr_policy m)) \<and>
     lp_scheduling (ep_latency (mr_policy m)) \<le> decision_to_arrival (ep_latency (mr_policy m))"

definition makeable :: "MakerRequest \<Rightarrow> bool" where
  "makeable m \<longleftrightarrow> sound_maker m \<and> mr_strategy m \<noteq> TAKER_NOW \<and>
     ep_required_fidelity (mr_policy m) = SEQUENCE_BOOK_AND_TRADES \<and> chronological_maker m"

lemma maker_order_ok:
  assumes "makeable m" and "maker_inv m s"
  shows "\<exists>x. maker_order m s gap = Inr x \<and> so_fills x = mk_fills s \<and>
    so_remaining_quantity x = mk_remaining s \<and> so_cancel_effective_at x = mk_cancel_effective s \<and>
    so_production_influence x = 0 \<and>
    (so_state x = EXECUTION_OUTCOME_UNKNOWN \<longleftrightarrow> gap) \<and>
    (so_state x = FILLED_SIMULATION \<longleftrightarrow> \<not> gap \<and> mk_remaining s = 0)"
  using assms
  by (auto simp: maker_order_def SimulatedOrder_post_init_Inr makeable_def chronological_maker_def
      maker_inv_def fill_ok_def maker_arrival_def)

lemma maker_order_unchronological:
  "\<not> chronological_maker m \<Longrightarrow>
     maker_order m s gap = Inl (SimulationError ''simulation timestamps are not chronological'')"
  by (simp add: maker_order_def SimulatedOrder_post_init_def chronological_maker_def maker_arrival_def
      Let_def)

lemma simulate_maker_run:
  assumes "sound_maker m" and "mr_strategy m \<noteq> TAKER_NOW"
    and "ep_required_fidelity (mr_policy m) = SEQUENCE_BOOK_AND_TRADES"
    and "\<forall>e \<in> set flows. 0 \<le> fw_quantity e"
  obtains s gap where "simulate_maker m flows = maker_order m s gap"
    and "maker_loop m (replay_order flows) (maker_start m) = Inr (s, gap)"
    and "maker_inv m s" and "sorted (map sf_timestamp (mk_fills s))" and "before_cancel s"
proof -
  note sound = assms(1)
  have q: "\<forall>e \<in> set (replay_order flows). 0 \<le> fw_quantity e" using assms(4) by simp
  note start = maker_inv_start [OF sound]
  obtain s gap fs where loop: "maker_loop m (replay_order flows) (maker_start m) = Inr (s, gap)"
    and s: "maker_inv m s" "mk_fills s = mk_fills (maker_start m) @ fs" "sorted (map sf_timestamp fs)"
    using maker_loop_ok [OF sound start q sorted_replay_order] by blast
  have "before_cancel s"
    by (rule maker_loop_cancel [OF sound start q sorted_replay_order _ _ loop])
      (simp_all add: before_cancel_def maker_start_def)
  moreover have "simulate_maker m flows = maker_order m s gap"
    using assms(2,3) loop by (simp add: simulate_maker_def)
  ultimately show thesis using that [OF _ loop s(1)] s(2,3) by (simp add: maker_start_def)
qed

text \<open>C24. What a maker simulation returns, for a request whose quantity, displayed depth, competing
  reserve and cancellation latency are not negative and whose fee policy is sound and prices the
  order, over any flow of events whose quantities are not negative. A taker strategy, a policy of
  another fidelity and times out of order are refused with the error of each; every other request
  gets an order. The fills of the order and what remains add up to the quantity; every fill is
  positive, at the order's price, in time order between arrival and expiry and not after the recorded
  cancellation; no fill has a negative fee, and the fees add up to the fee of the filled quantity.\<close>

theorem maker_order_accounts_for_its_fills:
  assumes "sound_maker m" and "\<forall>e \<in> set flows. 0 \<le> fw_quantity e"
  shows "if mr_strategy m = TAKER_NOW
    then simulate_maker m flows = Inl (SimulationError ''maker simulator requires maker strategy'')
    else if ep_required_fidelity (mr_policy m) \<noteq> SEQUENCE_BOOK_AND_TRADES
    then simulate_maker m flows =
      Inl (SimulationError ''maker policy must require sequence book and trades'')
    else if \<not> (mr_candidate_time m \<le> mr_decision_time m \<and>
      0 \<le> lp_scheduling (ep_latency (mr_policy m)) \<and>
      lp_scheduling (ep_latency (mr_policy m)) \<le> decision_to_arrival (ep_latency (mr_policy m)))
    then simulate_maker m flows =
      Inl (SimulationError ''simulation timestamps are not chronological'')
    else \<exists>x. simulate_maker m flows = Inr x \<and>
    dsum (map sf_quantity (so_fills x)) + so_remaining_quantity x = mr_quantity m \<and>
    0 \<le> so_remaining_quantity x \<and>
    dsum (map sf_fee (so_fills x)) = fee_total m (mr_quantity m - so_remaining_quantity x) \<and>
    (\<forall>f \<in> set (so_fills x). maker_arrival m \<le> sf_timestamp f \<and> sf_timestamp f \<le> maker_expiry m \<and>
      0 < sf_quantity f \<and> 0 \<le> sf_fee f \<and> sf_price f = mr_price m \<and>
      (\<forall>t. so_cancel_effective_at x = Some t \<longrightarrow> sf_timestamp f \<le> t)) \<and>
    sorted (map sf_timestamp (so_fills x)) \<and>
    (so_state x = FILLED_SIMULATION \<longrightarrow> so_remaining_quantity x = 0) \<and>
    so_production_influence x = 0"
proof (cases "mr_strategy m = TAKER_NOW \<or> ep_required_fidelity (mr_policy m) \<noteq> SEQUENCE_BOOK_AND_TRADES")
  case True
  then show ?thesis by (auto simp: simulate_maker_def)
next
  case False
  then have kind: "mr_strategy m \<noteq> TAKER_NOW"
    "ep_required_fidelity (mr_policy m) = SEQUENCE_BOOK_AND_TRADES" by simp_all
  from simulate_maker_run [OF assms(1) kind assms(2)] obtain s gap where
    run: "simulate_maker m flows = maker_order m s gap"
    and s: "maker_inv m s" "sorted (map sf_timestamp (mk_fills s))" "before_cancel s" by metis
  show ?thesis
  proof (cases "chronological_maker m")
    case False
    then show ?thesis
      using kind maker_order_unchronological [OF False, of s gap] run
      by (auto simp: chronological_maker_def)
  next
    case True
    have able: "makeable m" using assms(1) kind True by (simp add: makeable_def)
    from maker_order_ok [OF able s(1)] obtain x where x: "maker_order m s gap = Inr x"
      "so_fills x = mk_fills s" "so_remaining_quantity x = mk_remaining s"
      "so_cancel_effective_at x = mk_cancel_effective s" "so_production_influence x = 0"
      "so_state x = FILLED_SIMULATION \<longleftrightarrow> \<not> gap \<and> mk_remaining s = 0" by blast
    have "mr_quantity m - mk_remaining s = mk_cumulative s" using s(1) by (auto simp: maker_inv_def)
    with s run x have "\<exists>x. simulate_maker m flows = Inr x \<and>
      dsum (map sf_quantity (so_fills x)) + so_remaining_quantity x = mr_quantity m \<and>
      0 \<le> so_remaining_quantity x \<and>
      dsum (map sf_fee (so_fills x)) = fee_total m (mr_quantity m - so_remaining_quantity x) \<and>
      (\<forall>f \<in> set (so_fills x). maker_arrival m \<le> sf_timestamp f \<and> sf_timestamp f \<le> maker_expiry m \<and>
        0 < sf_quantity f \<and> 0 \<le> sf_fee f \<and> sf_price f = mr_price m \<and>
        (\<forall>t. so_cancel_effective_at x = Some t \<longrightarrow> sf_timestamp f \<le> t)) \<and>
      sorted (map sf_timestamp (so_fills x)) \<and>
      (so_state x = FILLED_SIMULATION \<longrightarrow> so_remaining_quantity x = 0) \<and>
      so_production_influence x = 0"
      by (intro exI [of _ x]) (auto simp: maker_inv_def fill_ok_def before_cancel_def)
    with kind True show ?thesis by (simp add: chronological_maker_def)
  qed
qed

definition maker_fixture :: "int \<Rightarrow> MakerRequest" where
  "maker_fixture cancel = \<lparr>mr_order_id = ''o'', mr_candidate_id = ''c'', mr_strategy = MAKER_AT_BEST,
     mr_side = YES, mr_price = 1 / 2, mr_quantity = 5, mr_displayed_ahead = 10,
     mr_candidate_time = 0, mr_decision_time = 0,
     mr_policy = \<lparr>ep_policy_id = '''', ep_version = ''1'', ep_scenario = BASE, ep_effective_at = 0,
       ep_latency = \<lparr>lp_policy_id = '''', lp_version = ''1'', lp_signal = 0, lp_forecast = 0,
         lp_opportunity = 0, lp_scheduling = 10, lp_outbound_network = 20,
         lp_exchange_processing = 20, lp_cancellation = cancel, lp_provenance = '''',
         lp_measured = False\<rparr>,
       ep_cancellation_credit = 0, ep_competing_fill_reserve = 1 / 10,
       ep_adverse_selection_reserve = 0, ep_max_rest = 30000,
       ep_required_fidelity = SEQUENCE_BOOK_AND_TRADES, ep_fee_policy_ids = [],
       ep_content_hash = ''''\<rparr>,
     mr_fee_policy = \<lparr>fp_policy_id = ''p'', fp_fee_type = QUADRATIC_WITH_MAKER_FEES,
       fp_fee_multiplier = 1, fp_effective_at = 0, fp_retired_at = None, fp_formula_version = '''',
       fp_source_reference = '''', fp_verified = True, fp_flat_rate = None,
       fp_quadratic_coefficient = Some (7 / 100),
       fp_maker_quadratic_coefficient = Some (175 / 10000),
       fp_balance_rounding_increment = 1 / 10000, fp_production_influence = 0\<rparr>\<rparr>"

definition flow_at :: "FlowKind \<Rightarrow> instant \<Rightarrow> int \<Rightarrow> decimal \<Rightarrow> ReplayFlow" where
  "flow_at k t n q = \<lparr>fw_event_id = '''', fw_timestamp = t, fw_sequence = n, fw_kind = k,
     fw_outcome_side = Some YES, fw_price = Some (1 / 2), fw_quantity = q, fw_book_lineage = ''''\<rparr>"

lemma maker_fixture: "makeable (maker_fixture 100)"
  by code_simp

theorem maker_order_accounts_for_its_fills_witness:
  "\<exists>x. simulate_maker (maker_fixture 100) [flow_at TRADE 60 1 12, flow_at TRADE 70 2 3] = Inr x \<and>
     dsum (map sf_quantity (so_fills x)) + so_remaining_quantity x = 5"
proof -
  let ?m = "maker_fixture 100" and ?flows = "[flow_at TRADE 60 1 12, flow_at TRADE 70 2 3]"
  have able: "sound_maker ?m" "mr_strategy ?m \<noteq> TAKER_NOW"
    "\<not> ep_required_fidelity (mr_policy ?m) \<noteq> SEQUENCE_BOOK_AND_TRADES" "chronological_maker ?m"
    using maker_fixture by (simp_all add: makeable_def)
  have flows: "\<forall>e \<in> set ?flows. 0 \<le> fw_quantity e" by (simp add: flow_at_def)
  have five: "mr_quantity ?m = 5" by (simp add: maker_fixture_def)
  from maker_order_accounts_for_its_fills [OF able(1) flows] obtain x where
    "simulate_maker ?m ?flows = Inr x"
    "dsum (map sf_quantity (so_fills x)) + so_remaining_quantity x = mr_quantity ?m"
    unfolding if_not_P [OF able(2)] if_not_P [OF able(3)] chronological_maker_def [symmetric]
      not_not if_not_P [OF iffD2 [OF not_not able(4)]] by (elim exE conjE)
  then show ?thesis unfolding five by blast
qed

text \<open>C25. On a tape of trades the maker fills exactly what the queue leaves: the distinct trades at its
  side and price between arrival and expiry, less the displayed quantity ahead with the reserve
  for competing fills, never below zero and never above the order's quantity.\<close>

theorem maker_fills_what_the_queue_leaves:
  assumes "makeable m" and "\<forall>e \<in> set flows. fw_kind e = TRADE \<and> 0 \<le> fw_quantity e"
  shows "\<exists>x. simulate_maker m flows = Inr x \<and>
    dsum (map sf_quantity (so_fills x)) = min (mr_quantity m) (max 0
      ((\<Sum>(n, q) \<in> (\<lambda>e. (fw_sequence e, fw_quantity e)) ` {e \<in> set flows.
          maker_arrival m \<le> fw_timestamp e \<and> fw_timestamp e \<le> maker_expiry m \<and>
          fw_outcome_side e = Some (mr_side m) \<and> fw_price e = Some (mr_price m)}. q) -
       (1 + ep_competing_fill_reserve (mr_policy m)) * mr_displayed_ahead m))"
proof -
  have sound: "sound_maker m" using assms(1) by (simp add: makeable_def)
  have q0: "queue_at_start m = (1 + ep_competing_fill_reserve (mr_policy m)) * mr_displayed_ahead m"
    by (simp add: queue_at_start_def maker_start_def algebra_simps)
  have keys: "(\<lambda>e. (fw_sequence e, fw_quantity e)) ` {e \<in> set flows.
          maker_arrival m \<le> fw_timestamp e \<and> fw_timestamp e \<le> maker_expiry m \<and>
          fw_outcome_side e = Some (mr_side m) \<and> fw_price e = Some (mr_price m)} =
      trade_key ` {e \<in> set flows. relevant m e}"
    by (simp add: trade_key_def [abs_def] relevant_def)
  have q0_pos: "0 \<le> queue_at_start m" and "0 \<le> mr_quantity m"
    using sound by (simp_all add: sound_maker_def q0)
  then have start: "on_tape m (maker_start m)"
    using maker_inv_start [OF sound]
    by (simp add: on_tape_def filled_after_def volume_def queue_at_start_def) (simp add: maker_start_def)
  have tape: "\<forall>e \<in> set (replay_order flows). fw_kind e = TRADE \<and> 0 \<le> fw_quantity e"
    using assms(2) by simp
  have qty: "\<forall>e \<in> set flows. 0 \<le> fw_quantity e" using assms(2) by simp
  from maker_loop_tape [OF sound start tape sorted_replay_order] obtain s'
    where s': "maker_loop m (replay_order flows) (maker_start m) = Inr (s', False)"
      "mk_cumulative s' = filled_after m (volume (trade_key ` {e \<in> set flows. relevant m e}))"
    by (auto simp: maker_start_def)
  have kind: "mr_strategy m \<noteq> TAKER_NOW"
    "ep_required_fidelity (mr_policy m) = SEQUENCE_BOOK_AND_TRADES"
    using assms(1) by (simp_all add: makeable_def)
  from simulate_maker_run [OF sound kind qty] s'(1) have
    run: "simulate_maker m flows = maker_order m s' False" and inv: "maker_inv m s'" by force+
  from maker_order_ok [OF assms(1) inv] obtain x where x: "maker_order m s' False = Inr x"
    "so_fills x = mk_fills s'" by blast
  moreover have "dsum (map sf_quantity (mk_fills s')) = mk_cumulative s'" using inv by (simp add: maker_inv_def)
  moreover have "(\<Sum>(n, q) \<in> K. q) = volume K" for K :: "(int \<times> decimal) set"
    by (simp add: volume_def snd_def)
  ultimately show ?thesis
    unfolding keys run using s'(2) by (simp add: filled_after_def q0)
qed

theorem maker_fills_what_the_queue_leaves_witness:
  "\<exists>x. simulate_maker (maker_fixture 100) [flow_at TRADE 60 1 12, flow_at TRADE 70 2 3] = Inr x \<and>
     dsum (map sf_quantity (so_fills x)) = 4"
proof -
  have f: "\<forall>e \<in> set [flow_at TRADE 60 1 12, flow_at TRADE 70 2 3]. fw_kind e = TRADE \<and> 0 \<le> fw_quantity e"
    by (simp add: flow_at_def)
  have w: "maker_arrival (maker_fixture 100) = 50" "maker_expiry (maker_fixture 100) = 30050"
    by code_simp+
  have p: "mr_side (maker_fixture 100) = YES" "mr_price (maker_fixture 100) = 1 / 2"
    "mr_quantity (maker_fixture 100) = 5" "mr_displayed_ahead (maker_fixture 100) = 10"
    "ep_competing_fill_reserve (mr_policy (maker_fixture 100)) = 1 / 10"
    by (simp_all add: maker_fixture_def)
  let ?tape = "[flow_at TRADE 60 1 12, flow_at TRADE 70 2 3]"
  have "(\<lambda>e. (fw_sequence e, fw_quantity e)) ` {e \<in> set ?tape.
          maker_arrival (maker_fixture 100) \<le> fw_timestamp e \<and> fw_timestamp e \<le> maker_expiry (maker_fixture 100) \<and>
          fw_outcome_side e = Some (mr_side (maker_fixture 100)) \<and> fw_price e = Some (mr_price (maker_fixture 100))} =
      set (map (\<lambda>e. (fw_sequence e, fw_quantity e)) (filter (\<lambda>e.
          maker_arrival (maker_fixture 100) \<le> fw_timestamp e \<and> fw_timestamp e \<le> maker_expiry (maker_fixture 100) \<and>
          fw_outcome_side e = Some (mr_side (maker_fixture 100)) \<and> fw_price e = Some (mr_price (maker_fixture 100)))
        ?tape))"
    by (simp only: set_map set_filter)
  also have "\<dots> = {(1, 12), (2, 3)}" by (simp add: flow_at_def w p)
  finally show ?thesis
    using maker_fills_what_the_queue_leaves [OF maker_fixture f] by (simp add: p)
qed

text \<open>A later disturbance revives an order whose cancellation has taken effect: the second pause
  moves the effective cancellation forward, and the trade after it fills the order although the
  first cancellation was effective before.\<close>

theorem later_pause_revives_a_cancelled_order:
  "\<exists>x. simulate_maker (maker_fixture 100)
      [flow_at PAUSE 60 1 0, flow_at PAUSE 500 2 0, flow_at TRADE 550 3 12] = Inr x \<and>
     so_cancel_effective_at x = Some 600 \<and>
     (\<exists>f \<in> set (so_fills x). 60 + lp_cancellation (ep_latency (mr_policy (maker_fixture 100))) <
        sf_timestamp f)"
proof -
  let ?r = "simulate_maker (maker_fixture 100)
      [flow_at PAUSE 60 1 0, flow_at PAUSE 500 2 0, flow_at TRADE 550 3 12]"
  have "is_ok ?r \<and> so_cancel_effective_at (projr ?r) = Some 600 \<and>
      list_ex (\<lambda>f. 60 + lp_cancellation (ep_latency (mr_policy (maker_fixture 100))) < sf_timestamp f)
        (so_fills (projr ?r))"
    by code_simp
  then show ?thesis by (cases ?r) (simp_all add: list_ex_iff)
qed

section \<open>Drawdowns\<close>

text \<open>Each drawdown point is the distance of the profit so far, in time order, from its running
  peak, which starts at zero: it is never negative, and it is zero exactly at a peak.\<close>

theorem drawdowns_are_distances_from_the_peak:
  assumes "i < length rows"
  defines "cum \<equiv> \<lambda>j. dsum (map snd (take (Suc j) (sort rows)))"
  shows "dp_peak (drawdown_series rows ! i) = Max (insert 0 (cum ` {..i})) \<and>
    dp_drawdown (drawdown_series rows ! i) = Max (insert 0 (cum ` {..i})) - cum i \<and>
    0 \<le> dp_drawdown (drawdown_series rows ! i) \<and>
    (dp_drawdown (drawdown_series rows ! i) = 0 \<longleftrightarrow> 0 \<le> cum i \<and> (\<forall>j \<le> i. cum j \<le> cum i))"
proof -
  have "i < length (sort rows)" using assms(1) by simp
  from drawdown_loop_points [OF this, of 0 0] have p:
    "dp_peak (drawdown_series rows ! i) = Max (insert 0 (cum ` {..i}))"
    "dp_drawdown (drawdown_series rows ! i) = Max (insert 0 (cum ` {..i})) - cum i"
    by (simp_all add: drawdown_series_def cum_def)
  define peak where "peak = Max (insert 0 (cum ` {..i}))"
  have le: "cum i \<le> peak" unfolding peak_def by (intro Max_ge) auto
  have peak: "peak \<le> cum i \<longleftrightarrow> 0 \<le> cum i \<and> (\<forall>j \<le> i. cum j \<le> cum i)"
    unfolding peak_def by (subst Max_le_iff) auto
  have "peak - cum i = 0 \<longleftrightarrow> peak \<le> cum i" using le by linarith
  then show ?thesis
    unfolding p peak_def [symmetric] peak [symmetric] using le by simp
qed

theorem drawdowns_are_distances_from_the_peak_witness:
  "0 \<le> dp_drawdown (drawdown_series [(1, 3), (2, - 5)] ! 1) \<and>
   dp_drawdown (drawdown_series [(1, 3), (2, - 5)] ! 1) = 5"
proof
  show "0 \<le> dp_drawdown (drawdown_series [(1, 3), (2, - 5)] ! 1)"
    by (rule drawdowns_are_distances_from_the_peak
        [of 1 "[(1, 3), (2, - 5)]", THEN conjunct2, THEN conjunct2, THEN conjunct1]) simp
qed code_simp

section \<open>A taker's run\<close>

definition taker_fixture :: TakerRequest where
  "taker_fixture = \<lparr>tk_order_id = ''o'', tk_candidate_id = ''c'', tk_side = YES,
     tk_candidate_time = 0, tk_decision_time = 0, tk_quantity = 7,
     tk_policy = mr_policy (maker_fixture 100), tk_fee_policy = mr_fee_policy (maker_fixture 100),
     tk_max_book_age = 100\<rparr>"

definition book_at :: "instant \<Rightarrow> int \<Rightarrow> decimal \<Rightarrow> ReplayBook" where
  "book_at t n q = \<lparr>rk_timestamp = t, rk_sequence = n,
     rk_book = \<lparr>nb_yes_bids = [], nb_yes_asks = [\<lparr>el_outcome = YES, el_book_side = ''ASK'',
       el_price = 1 / 2, el_quantity = q, el_raw_level_id = '''', el_raw_side = NO,
       el_raw_price = 1 / 2\<rparr>],
       nb_no_bids = [], nb_no_asks = []\<rparr>,
     rk_fidelity = HIGH_RESOLUTION_BOOK, rk_lineage = '''', rk_active = True\<rparr>"

theorem taker_fills_from_the_arrival_book_witness:
  "\<exists>x. simulate_taker taker_fixture [book_at 10 1 2, book_at 40 2 5, book_at 60 3 99] = Inr x \<and>
     dsum (map sf_quantity (so_fills x)) = 5 \<and>
     (\<forall>f \<in> set (so_fills x). sf_timestamp f = taker_arrival taker_fixture)"
proof -
  let ?r = "simulate_taker taker_fixture [book_at 10 1 2, book_at 40 2 5, book_at 60 3 99]"
  have r: "is_ok ?r \<and> dsum (map sf_quantity (so_fills (projr ?r))) = 5" by code_simp
  then obtain x where x: "?r = Inr x" by (auto simp: is_ok_iff)
  from taker_fills_from_the_arrival_book [OF x] have
    "\<forall>f \<in> set (so_fills x). sf_timestamp f = taker_arrival taker_fixture"
    by (auto simp: Let_def case_prod_beta)
  with r x show ?thesis by simp
qed

end
