(* ===== verification/Replay_History.thy ===== *)
theory Replay_History
  imports Tables Calendar
begin

text \<open>
  \<open>services/historical_replay\<close>: availability provenance, event order and point-in-time selection
  (\<open>domain.py\<close>), the streaming accessor and the replay clock (\<open>replay.py\<close>), dataset validation,
  labels and vintages (\<open>dataset.py\<close>), and the merge of historical and live records
  (\<open>routing.py\<close>). The clock's operations return the clock they leave behind together with the
  result, because an exception does not undo what \<open>step\<close> already skipped.
\<close>

section \<open>Availability\<close>

datatype Partition = LIVE | HISTORICAL

datatype AvailabilityBasis =
    OBSERVED_LIVE | RECONSTRUCTED_EXCHANGE | RECONSTRUCTED_PRIMARY_SOURCE | RECONSTRUCTED_EXTERNAL
  | BASIS_UNKNOWN

datatype AvailabilityQuality =
    MEASURED | AUTHORITATIVE_RECONSTRUCTION | CONSERVATIVE_ASSUMPTION | DESCRIPTIVE_ONLY

record Availability =
  av_source_event_at :: "instant option"
  av_source_publish_at :: "instant option"
  av_provider_receive_at :: "instant option"
  av_actual_bot_ingest_at :: instant
  av_replay_available_at :: "instant option"
  av_basis :: AvailabilityBasis
  av_quality :: AvailabilityQuality
  av_assumed_latency :: "duration option"

definition availability_anchor :: "AvailabilityBasis \<Rightarrow> instant option \<Rightarrow> instant option \<Rightarrow>
    instant option" where
  "availability_anchor basis event_at publish_at =
     (if basis = RECONSTRUCTED_EXCHANGE then event_at else publish_at)"

definition Availability_post_init :: "Availability \<Rightarrow> Availability result" where
  "Availability_post_init a =
     (if av_basis a = OBSERVED_LIVE then
        (if av_replay_available_at a \<noteq> Some (av_actual_bot_ingest_at a) \<or>
            av_assumed_latency a \<noteq> None \<or> av_quality a \<noteq> MEASURED
         then Inl (ReplayError ''observed-live availability must use actual ingest'')
         else Inr a)
      else if av_basis a = BASIS_UNKNOWN then
        (if av_replay_available_at a \<noteq> None
         then Inl (ReplayError ''unknown availability cannot enter causal replay'')
         else Inr a)
      else (case (av_assumed_latency a, av_replay_available_at a) of
          (Some latency, Some available) \<Rightarrow>
            if latency < 0
            then Inl (ReplayError ''reconstruction requires explicit conservative latency'')
            else (case availability_anchor (av_basis a) (av_source_event_at a)
                (av_source_publish_at a) of
              None \<Rightarrow> Inl (ReplayError ''reconstructed availability does not match basis'')
            | Some anchor \<Rightarrow> if available \<noteq> anchor + latency
                then Inl (ReplayError ''reconstructed availability does not match basis'')
                else Inr a)
        | _ \<Rightarrow> Inl (ReplayError ''reconstruction requires explicit conservative latency'')))"

definition observed_live :: "instant option \<Rightarrow> instant option \<Rightarrow> instant option \<Rightarrow> instant \<Rightarrow>
    Availability result" where
  "observed_live event_at publish_at receive_at ingest_at = Availability_post_init
     \<lparr>av_source_event_at = event_at, av_source_publish_at = publish_at,
      av_provider_receive_at = receive_at, av_actual_bot_ingest_at = ingest_at,
      av_replay_available_at = Some ingest_at, av_basis = OBSERVED_LIVE, av_quality = MEASURED,
      av_assumed_latency = None\<rparr>"

definition reconstructed :: "AvailabilityBasis \<Rightarrow> instant option \<Rightarrow> instant option \<Rightarrow> instant \<Rightarrow>
    duration \<Rightarrow> AvailabilityQuality \<Rightarrow> Availability result" where
  "reconstructed basis event_at publish_at ingest_at latency quality =
     (if basis \<in> set [OBSERVED_LIVE, BASIS_UNKNOWN]
      then Inl (ReplayError ''invalid reconstructed basis'')
      else case availability_anchor basis event_at publish_at of
        None \<Rightarrow> Inl (ReplayError ''reconstruction anchor missing'')
      | Some anchor \<Rightarrow> Availability_post_init
          \<lparr>av_source_event_at = event_at, av_source_publish_at = publish_at,
           av_provider_receive_at = None, av_actual_bot_ingest_at = ingest_at,
           av_replay_available_at = Some (anchor + latency), av_basis = basis,
           av_quality = quality, av_assumed_latency = Some latency\<rparr>)"

definition unknown_availability :: "instant option \<Rightarrow> instant option \<Rightarrow> instant \<Rightarrow>
    Availability result" where
  "unknown_availability event_at publish_at ingest_at = Availability_post_init
     \<lparr>av_source_event_at = event_at, av_source_publish_at = publish_at,
      av_provider_receive_at = None, av_actual_bot_ingest_at = ingest_at,
      av_replay_available_at = None, av_basis = BASIS_UNKNOWN, av_quality = DESCRIPTIVE_ONLY,
      av_assumed_latency = None\<rparr>"

definition measured_latency :: "Availability \<Rightarrow> duration option" where
  "measured_latency a = (case av_source_publish_at a of
     Some published \<Rightarrow> if av_basis a = OBSERVED_LIVE
       then Some (av_actual_bot_ingest_at a - published) else None
   | None \<Rightarrow> None)"

definition partition_for :: "instant \<Rightarrow> instant \<Rightarrow> Partition" where
  "partition_for timestamp cutoff = (if timestamp < cutoff then HISTORICAL else LIVE)"

section \<open>Events in order\<close>

record ReplayEvent =
  ev_event_id :: string
  ev_event_type :: string
  ev_provider :: string
  ev_availability :: Availability
  ev_provider_sequence :: "int option"
  ev_receive_monotonic_sequence :: "int option"
  ev_ingest_sequence :: "int option"
  ev_entity_ids :: "string list"
  ev_raw_hash :: string
  ev_normalized_hash :: string
  ev_parser_version :: string
  ev_schema_version :: string
  ev_payload :: hashable
  ev_gap_marker :: bool
  ev_correction_of_event_id :: "string option"
  ev_ordering_ambiguous :: bool

type_synonym replay_key = "instant \<times> int \<times> int \<times> int \<times> string"

definition available_at :: "ReplayEvent \<Rightarrow> instant option" where
  "available_at e = av_replay_available_at (ev_availability e)"

definition or_maximum :: "int option \<Rightarrow> int" where
  "or_maximum n = (case n of Some v \<Rightarrow> v | None \<Rightarrow> 2 ^ 63 - 1)"

definition key_from :: "instant \<Rightarrow> ReplayEvent \<Rightarrow> replay_key" where
  "key_from t e = (t, or_maximum (ev_provider_sequence e),
     or_maximum (ev_receive_monotonic_sequence e), or_maximum (ev_ingest_sequence e),
     ev_event_id e)"

definition order_key :: "ReplayEvent \<Rightarrow> replay_key result" where
  "order_key e = (case available_at e of
     None \<Rightarrow> Inl (ReplayError ''unknown-availability event cannot be ordered'')
   | Some t \<Rightarrow> Inr (key_from t e))"

text \<open>The key of an event known to be available; \<open>sorted\<close> is only applied to such events.\<close>

definition known_key :: "ReplayEvent \<Rightarrow> replay_key" where
  "known_key e = (case available_at e of None \<Rightarrow> key_from 0 e | Some t \<Rightarrow> key_from t e)"

definition available_by :: "instant \<Rightarrow> ReplayEvent \<Rightarrow> bool" where
  "available_by as_of e = (case available_at e of None \<Rightarrow> False | Some t \<Rightarrow> t \<le> as_of)"

definition point_in_time :: "ReplayEvent list \<Rightarrow> datetime \<Rightarrow> ReplayEvent list result" where
  "point_in_time events as_of =
     (if \<not> tz_aware as_of then Inl (ReplayError ''as_of must be timezone-aware'')
      else Inr (sort_key known_key (filter (available_by (astimezone_utc as_of)) events)))"

text \<open>A consumer is the state its \<open>apply\<close> changes.\<close>

definition replay :: "(ReplayEvent \<Rightarrow> 's \<Rightarrow> 's) \<Rightarrow> ReplayEvent list \<Rightarrow> datetime \<Rightarrow> 's \<Rightarrow>
    ('s \<times> nat) result" where
  "replay apply_to events as_of s = rbind (point_in_time events as_of) (\<lambda>selected.
     Inr (fold apply_to selected s, length selected))"

section \<open>The accessor\<close>

fun stream_available :: "replay_key option \<Rightarrow> instant \<Rightarrow> ReplayEvent list \<Rightarrow>
    ReplayEvent list result" where
  "stream_available previous as_of [] = Inr []"
| "stream_available previous as_of (e # es) = (case available_at e of
     None \<Rightarrow> stream_available previous as_of es
   | Some t \<Rightarrow>
      (if (case previous of None \<Rightarrow> False | Some k \<Rightarrow> key_from t e < k)
       then Inl (ReplayError ''replay source is not deterministically ordered'')
       else if t > as_of then Inr []
       else rbind (stream_available (Some (key_from t e)) as_of es) (\<lambda>rest. Inr (e # rest))))"

definition ReplayAccessor_events :: "ReplayEvent list \<Rightarrow> ReplayEvent list" where
  "ReplayAccessor_events events =
     sort_key known_key (filter (\<lambda>e. available_at e \<noteq> None) events)"

definition ReplayAccessor_at :: "ReplayEvent list \<Rightarrow> instant \<Rightarrow> ReplayEvent list result" where
  "ReplayAccessor_at events replay_at =
     stream_available None replay_at (ReplayAccessor_events events)"

section \<open>The clock\<close>

record ReplayClock =
  ck_current :: instant
  ck_paused :: bool
  ck_events :: "ReplayEvent list"
  ck_next :: "ReplayEvent option"
  ck_applied_count :: nat
  ck_last_event_id :: "string option"

text \<open>\<open>next(self._events, None)\<close>.\<close>

definition draw :: "ReplayClock \<Rightarrow> ReplayClock" where
  "draw c = (case ck_events c of [] \<Rightarrow> c\<lparr>ck_next := None\<rparr>
     | e # es \<Rightarrow> c\<lparr>ck_next := Some e, ck_events := es\<rparr>)"

definition new_clock :: "instant \<Rightarrow> ReplayEvent list \<Rightarrow> ReplayClock" where
  "new_clock start_at events = draw \<lparr>ck_current = start_at, ck_paused = True,
     ck_events = events, ck_next = None, ck_applied_count = 0, ck_last_event_id = None\<rparr>"

definition pause :: "ReplayClock \<Rightarrow> ReplayClock" where
  "pause c = c\<lparr>ck_paused := True\<rparr>"

definition pending :: "ReplayClock \<Rightarrow> ReplayEvent list" where
  "pending c = (case ck_next c of None \<Rightarrow> [] | Some e \<Rightarrow> e # ck_events c)"

lemma pending_draw: "pending (draw c) = ck_events c"
  by (simp add: pending_def draw_def split: list.splits)

lemma draw_fields [simp]:
  "ck_current (draw c) = ck_current c" "ck_paused (draw c) = ck_paused c"
  "ck_applied_count (draw c) = ck_applied_count c"
  by (simp_all add: draw_def split: list.splits)

function clock_step :: "ReplayClock \<Rightarrow> ReplayClock \<times> ReplayEvent option result" where
  "clock_step c = (case ck_next c of
     None \<Rightarrow> (c, Inr None)
   | Some e \<Rightarrow> (case available_at e of
       None \<Rightarrow> clock_step (draw c)
     | Some t \<Rightarrow>
        if t < ck_current c
        then (c, Inl (ReplayError ''clock received an out-of-order event''))
        else (draw (c\<lparr>ck_current := t, ck_last_event_id := Some (ev_event_id e),
            ck_applied_count := ck_applied_count c + 1\<rparr>), Inr (Some e))))"
  by pat_completeness auto

termination
proof (relation "measure (length \<circ> pending)")
  fix c :: ReplayClock and e
  assume "ck_next c = Some e"
  then have "length (pending c) = Suc (length (ck_events c))" by (simp add: pending_def)
  then show "(draw c, c) \<in> measure (length \<circ> pending)" by (simp add: pending_draw)
qed simp

declare clock_step.simps [simp del]

lemma clock_step_pending:
  "ck_next c \<noteq> None \<Longrightarrow> clock_step c = (c', Inr r) \<Longrightarrow> length (pending c') < length (pending c)"
proof (induction c rule: clock_step.induct)
  case (1 c)
  from "1.prems"(1) obtain e where e: "ck_next c = Some e" by blast
  have len: "length (pending c) = Suc (length (ck_events c))" by (simp add: pending_def e)
  show ?case
  proof (cases "available_at e")
    case None
    with "1.prems"(2) e have step: "clock_step (draw c) = (c', Inr r)" by (simp add: clock_step.simps)
    show ?thesis
    proof (cases "ck_next (draw c)")
      case None
      with step have "c' = draw c" by (simp add: clock_step.simps)
      with len show ?thesis by (simp add: pending_draw)
    next
      case (Some e')
      with "1.IH" [OF e \<open>available_at e = None\<close>] step len show ?thesis by (simp add: pending_draw)
    qed
  next
    case (Some t)
    with "1.prems"(2) e have "c' = draw (c\<lparr>ck_current := t, ck_last_event_id := Some (ev_event_id e),
            ck_applied_count := ck_applied_count c + 1\<rparr>)"
      by (auto simp: clock_step.simps [of c] split: if_splits)
    with len show ?thesis by (simp add: pending_draw)
  qed
qed

text \<open>The loop of \<open>run_until\<close> with the events applied so far.\<close>

definition beyond :: "instant \<Rightarrow> ReplayEvent \<Rightarrow> bool" where
  "beyond until e = (case available_at e of None \<Rightarrow> False | Some t \<Rightarrow> t > until)"

function clock_run :: "instant \<Rightarrow> ReplayClock \<Rightarrow> ReplayEvent list \<Rightarrow>
    ReplayClock \<times> ReplayEvent list result" where
  "clock_run until c applied = (case ck_next c of
     None \<Rightarrow> (c, Inr applied)
   | Some e \<Rightarrow>
      (if beyond until e then (c, Inr applied)
       else (case clock_step c of
           (c', Inl x) \<Rightarrow> (c', Inl x)
         | (c', Inr None) \<Rightarrow> clock_run until c' applied
         | (c', Inr (Some f)) \<Rightarrow> clock_run until c' (applied @ [f]))))"
  by pat_completeness auto

termination
  by (relation "measure (\<lambda>(until, c, applied). length (pending c))")
    (auto dest!: sym [of "(_, _)"] intro: clock_step_pending)

declare clock_run.simps [simp del]

definition run_until :: "instant \<Rightarrow> ReplayClock \<Rightarrow> ReplayClock \<times> ReplayEvent list result" where
  "run_until until c = (case clock_run until (c\<lparr>ck_paused := False\<rparr>) [] of
     (c', Inl x) \<Rightarrow> (c', Inl x)
   | (c', Inr applied) \<Rightarrow> (c'\<lparr>ck_current := until, ck_paused := True\<rparr>, Inr applied))"

record ReplayCheckpoint =
  kp_replay_at :: instant
  kp_last_event_id :: "string option"
  kp_applied_count :: nat
  kp_state :: hashable

definition checkpoint :: "hashable \<Rightarrow> ReplayClock \<Rightarrow> ReplayCheckpoint" where
  "checkpoint state c = \<lparr>kp_replay_at = ck_current c, kp_last_event_id = ck_last_event_id c,
     kp_applied_count = ck_applied_count c, kp_state = state\<rparr>"

section \<open>Datasets\<close>

datatype ReplayCapability =
    FULL_ORDERBOOK_EVENTS | ORDERBOOK_SNAPSHOTS | TRADE_EVENTS | TOP_OF_BOOK | ONE_MINUTE_CANDLES
  | HOURLY_CANDLES | DAILY_CANDLES | SETTLEMENT_ONLY

datatype GapSeverity = CRITICAL | NONCRITICAL

record ReplayGap =
  rg_gap_id :: string
  rg_gap_type :: string
  rg_start_at :: instant
  rg_end_at :: "instant option"
  rg_severity :: GapSeverity
  rg_detail :: string

text \<open>\<open>DatasetManifest.validate\<close>: the capabilities and gaps of a manifest.\<close>

definition capability_value :: "ReplayCapability \<Rightarrow> string" where
  "capability_value c = (case c of FULL_ORDERBOOK_EVENTS \<Rightarrow> ''FULL_ORDERBOOK_EVENTS''
     | ORDERBOOK_SNAPSHOTS \<Rightarrow> ''ORDERBOOK_SNAPSHOTS'' | TRADE_EVENTS \<Rightarrow> ''TRADE_EVENTS''
     | TOP_OF_BOOK \<Rightarrow> ''TOP_OF_BOOK'' | ONE_MINUTE_CANDLES \<Rightarrow> ''ONE_MINUTE_CANDLES''
     | HOURLY_CANDLES \<Rightarrow> ''HOURLY_CANDLES'' | DAILY_CANDLES \<Rightarrow> ''DAILY_CANDLES''
     | SETTLEMENT_ONLY \<Rightarrow> ''SETTLEMENT_ONLY'')"

definition dataset_validate :: "ReplayCapability list \<Rightarrow> ReplayGap list \<Rightarrow> ReplayCapability \<Rightarrow>
    bool \<Rightarrow> unit result" where
  "dataset_validate capabilities gaps required tolerate_noncritical =
     (if required \<notin> set capabilities
      then Inl (ReplayError (''required replay fidelity unavailable: '' @ capability_value required))
      else if list_ex (\<lambda>g. rg_severity g = CRITICAL) gaps
      then Inl (ReplayError ''critical replay gap'')
      else if \<not> tolerate_noncritical \<and> gaps \<noteq> []
      then Inl (ReplayError ''strategy does not tolerate replay gaps'')
      else Inr ())"

datatype SettlementState = DETERMINED | DISPUTED | AMENDED | FINALIZED

record SettlementLabel =
  sl_label_id :: string
  sl_market_ticker :: string
  sl_rules_version :: string
  sl_result :: string
  sl_settlement_value :: decimal
  sl_settlement_at :: instant
  sl_finalized_at :: "instant option"
  sl_state :: SettlementState
  sl_raw_manifest_id :: string
  sl_retrieved_at :: instant
  sl_supersedes_label_id :: "string option"

definition training_eligible :: "SettlementLabel \<Rightarrow> bool" where
  "training_eligible l \<longleftrightarrow> sl_state l = FINALIZED \<and> sl_finalized_at l \<noteq> None"

record VintageValue =
  vv_series_id :: string
  vv_value :: decimal
  vv_vintage_at :: instant
  vv_availability :: Availability
  vv_revision_of :: "string option"

definition vintage_visible :: "instant \<Rightarrow> VintageValue \<Rightarrow> bool" where
  "vintage_visible replay_at v =
     (case av_replay_available_at (vv_availability v) of None \<Rightarrow> False | Some t \<Rightarrow> t \<le> replay_at)"

section \<open>Historical and live records\<close>

datatype RecordKind = MARKET | CANDLE | TRADE_RECORD | FILL | ORDER_RECORD

record CutoffObservation =
  co_observed_at :: instant
  co_market_settled_ts :: instant
  co_trades_created_ts :: instant
  co_orders_updated_ts :: instant
  co_spec_version :: string
  co_backward_warning :: bool

text \<open>\<open>market_universe.domain.parse_time\<close> over a parser of ISO texts: \<open>fromisoformat\<close> returns
  None where Python raises \<open>ValueError\<close>.\<close>

type_synonym iso_parser = "string \<Rightarrow> datetime option"

fun zulu :: "string \<Rightarrow> string" where
  "zulu [] = []"
| "zulu (c # cs) = (if c = CHR ''Z'' then ''+00:00'' @ zulu cs else c # zulu cs)"

definition parse_time :: "iso_parser \<Rightarrow> hashable option \<Rightarrow> instant result" where
  "parse_time fromisoformat value = (case value of
     Some (HStr s) \<Rightarrow> (case fromisoformat (zulu s) of
        None \<Rightarrow> Inl (UniverseValidationError ''malformed timestamp'')
      | Some (Naive t) \<Rightarrow> Inl (UniverseValidationError ''timestamp lacks timezone'')
      | Some (Aware t) \<Rightarrow> Inr t)
   | _ \<Rightarrow> Inl (UniverseValidationError ''timestamp must be ISO string''))"

definition parse_cutoff :: "iso_parser \<Rightarrow> (string \<times> hashable) list \<Rightarrow> instant \<Rightarrow> string \<Rightarrow>
    CutoffObservation option \<Rightarrow> CutoffObservation result" where
  "parse_cutoff fromiso payload observed_at spec_version previous =
     rbind (parse_time fromiso (map_of payload ''market_settled_ts'')) (\<lambda>market.
     rbind (parse_time fromiso (map_of payload ''trades_created_ts'')) (\<lambda>trades.
     rbind (parse_time fromiso (map_of payload ''orders_updated_ts'')) (\<lambda>orders.
       Inr \<lparr>co_observed_at = observed_at, co_market_settled_ts = market,
         co_trades_created_ts = trades, co_orders_updated_ts = orders,
         co_spec_version = spec_version,
         co_backward_warning = (case previous of None \<Rightarrow> False | Some p \<Rightarrow>
           market < co_market_settled_ts p \<or> trades < co_trades_created_ts p \<or>
           orders < co_orders_updated_ts p)\<rparr>)))"

definition for_kind :: "RecordKind \<Rightarrow> CutoffObservation \<Rightarrow> instant" where
  "for_kind kind c = (if kind \<in> set [MARKET, CANDLE] then co_market_settled_ts c
     else if kind \<in> set [TRADE_RECORD, FILL] then co_trades_created_ts c
     else co_orders_updated_ts c)"

text \<open>The history of observations: each is compared with the last one.\<close>

definition CutoffHistory_add :: "iso_parser \<Rightarrow> (string \<times> hashable) list \<Rightarrow> instant \<Rightarrow> string \<Rightarrow>
    CutoffObservation list \<Rightarrow> (CutoffObservation list \<times> CutoffObservation) result" where
  "CutoffHistory_add fromiso payload observed_at spec_version observations =
     rbind (parse_cutoff fromiso payload observed_at spec_version
         (if observations = [] then None else Some (last observations)))
       (\<lambda>c. Inr (observations @ [c], c))"

record MergeResult =
  me_records :: "(string \<times> hashable) list list"
  me_duplicates_removed :: nat
  me_seam_ambiguity :: bool

record MergeRun =
  mu_combined :: "(string \<times> string \<times> (string \<times> hashable) list) list"
  mu_seen :: "string list"
  mu_duplicates :: nat
  mu_seam :: bool

text \<open>\<open>dict(row) | {key: value}\<close> updates the value in place or appends the key.\<close>

fun dict_put :: "string \<Rightarrow> hashable \<Rightarrow> (string \<times> hashable) list \<Rightarrow> (string \<times> hashable) list" where
  "dict_put k v [] = [(k, v)]"
| "dict_put k v ((k', v') # kvs) = (if k = k' then (k, v) # kvs else (k', v') # dict_put k v kvs)"

text \<open>\<open>str\<close> of a checked field, which is a string.\<close>

definition text_field :: "(string \<times> hashable) list \<Rightarrow> string \<Rightarrow> string" where
  "text_field row name = (case map_of row name of Some (HStr s) \<Rightarrow> s | _ \<Rightarrow> '''')"

definition merge_row :: "iso_parser \<Rightarrow> instant \<Rightarrow> string \<Rightarrow> string \<Rightarrow> string \<Rightarrow>
    (string \<times> hashable) list \<Rightarrow> MergeRun \<Rightarrow> MergeRun result" where
  "merge_row fromiso boundary id_field time_field source row m =
     rbind (parse_time fromiso (map_of row time_field)) (\<lambda>timestamp.
       case map_of row id_field of
         Some (HStr identity) \<Rightarrow>
           (let m1 = m\<lparr>mu_seam := mu_seam m \<or> timestamp = boundary\<rparr>
            in if identity \<in> set (mu_seen m)
               then Inr (m1\<lparr>mu_duplicates := mu_duplicates m + 1\<rparr>)
               else Inr (m1\<lparr>mu_seen := identity # mu_seen m, mu_combined := mu_combined m @
                 [(text_field row time_field, identity,
                   dict_put ''partition_source'' (HStr source) row)]\<rparr>))
       | _ \<Rightarrow> Inl (UniverseValidationError ''routed record malformed''))"

fun merge_rows :: "iso_parser \<Rightarrow> instant \<Rightarrow> string \<Rightarrow> string \<Rightarrow>
    (string \<times> (string \<times> hashable) list) list \<Rightarrow> MergeRun \<Rightarrow> MergeRun result" where
  "merge_rows fromiso boundary id_field time_field [] m = Inr m"
| "merge_rows fromiso boundary id_field time_field ((source, row) # rows) m =
     rbind (merge_row fromiso boundary id_field time_field source row m)
       (merge_rows fromiso boundary id_field time_field rows)"

definition historical_merge :: "iso_parser \<Rightarrow> RecordKind \<Rightarrow> CutoffObservation \<Rightarrow>
    (string \<times> hashable) list list \<Rightarrow> (string \<times> hashable) list list \<Rightarrow> string \<Rightarrow> string \<Rightarrow>
    MergeResult result" where
  "historical_merge fromiso kind cutoff historical live id_field time_field =
     rbind (merge_rows fromiso (for_kind kind cutoff) id_field time_field
         (map (Pair ''historical'') historical @ map (Pair ''live'') live)
         \<lparr>mu_combined = [], mu_seen = [], mu_duplicates = 0, mu_seam = False\<rparr>) (\<lambda>m.
       Inr \<lparr>me_records = map (\<lambda>(t, i, row). row) (sort_key (\<lambda>(t, i, row). (t, i)) (mu_combined m)),
         me_duplicates_removed = mu_duplicates m, me_seam_ambiguity = mu_seam m\<rparr>)"

record Candle =
  cn_market_ticker :: string
  cn_start_at :: instant
  cn_interval_minutes :: int
  cn_open :: decimal
  cn_high :: decimal
  cn_low :: decimal
  cn_close :: decimal
  cn_volume :: decimal
  cn_assumed_delay :: duration

definition candle_available_at :: "Candle \<Rightarrow> instant" where
  "candle_available_at c = cn_start_at c + minutes (cn_interval_minutes c) + cn_assumed_delay c"

definition candle_visible :: "instant \<Rightarrow> Candle \<Rightarrow> bool" where
  "candle_visible replay_at c \<longleftrightarrow> replay_at \<ge> candle_available_at c"

definition intrabar_path :: "Candle \<Rightarrow> unit result" where
  "intrabar_path c = Inl (UniverseValidationError ''OHLC candles do not establish an intrabar path'')"

record UserFill =
  uf_fill_id :: string
  uf_order_id :: string
  uf_market_ticker :: string
  uf_price :: decimal
  uf_count :: decimal
  uf_filled_at :: instant
  uf_archive_manifest_id :: string

record UserOrder =
  uo_order_id :: string
  uo_market_ticker :: string
  uo_status :: string
  uo_count :: decimal
  uo_updated_at :: instant
  uo_resting :: bool
  uo_archive_manifest_id :: string

text \<open>The values of a dictionary built from a sequence: the first position, the last value.\<close>

definition last_by :: "('a \<Rightarrow> 'k) \<Rightarrow> 'a list \<Rightarrow> 'a list" where
  "last_by f xs = map (\<lambda>k. last (filter (\<lambda>x. f x = k) xs)) (rev (remdups (rev (map f xs))))"

definition AccountHistory_merge :: "UserFill list \<Rightarrow> UserFill list \<Rightarrow> UserOrder list \<Rightarrow>
    UserOrder list \<Rightarrow> UserFill list \<times> UserOrder list" where
  "AccountHistory_merge historical_fills live_fills historical_orders live_orders =
     (sort_key (\<lambda>x. (uf_filled_at x, uf_fill_id x)) (last_by uf_fill_id (historical_fills @ live_fills)),
      sort_key (\<lambda>x. (uo_updated_at x, uo_order_id x)) (last_by uo_order_id (historical_orders @ live_orders)))"

end
