(* ===== verification/Replay_Properties.thy ===== *)
theory Replay_Properties
  imports Replay_History "HOL-Library.Sublist"
begin

text \<open>
  The properties of the historical replay: the streaming accessor and the clock show exactly the
  events that were available at the replay time, the clock drains what it may apply, an event of
  unknown availability makes it run ahead, and the merge of historical and live records loses
  and repeats nothing.
\<close>

section \<open>The accessor is the point-in-time selection\<close>

lemma known_key_Some: "available_at e = Some t \<Longrightarrow> known_key e = key_from t e"
  by (simp add: known_key_def)

lemma fst_key_from [simp]: "fst (key_from t e) = t"
  by (simp add: key_from_def)

lemma known_key_time: "available_at e = Some t \<Longrightarrow> known_key e \<le> known_key f \<Longrightarrow>
    available_at f = Some u \<Longrightarrow> t \<le> u"
  by (auto simp: known_key_Some key_from_def less_eq_prod_def)

lemma stream_sorted:
  "sorted (map known_key es) \<Longrightarrow> \<forall>e \<in> set es. available_at e \<noteq> None \<Longrightarrow>
   \<forall>e \<in> set es. \<forall>k. previous = Some k \<longrightarrow> k \<le> known_key e \<Longrightarrow>
   stream_available previous as_of es = Inr (filter (available_by as_of) es)"
proof (induction es arbitrary: previous)
  case (Cons e es)
  from Cons.prems(2) obtain t where t: "available_at e = Some t" by auto
  have fine: "\<not> (case previous of None \<Rightarrow> False | Some k \<Rightarrow> key_from t e < k)"
    using Cons.prems(3) known_key_Some [OF t] by (auto split: option.splits simp: not_less)
  show ?case
  proof (cases "t > as_of")
    case True
    have "\<not> available_by as_of f" if f: "f \<in> set (e # es)" for f
    proof -
      from f Cons.prems(2) obtain u where u: "available_at f = Some u" by auto
      have "known_key e \<le> known_key f" using f Cons.prems(1) by auto
      from known_key_time [OF t this u] True u show ?thesis by (simp add: available_by_def)
    qed
    then have "filter (available_by as_of) (e # es) = []" by (simp only: filter_empty_conv) blast
    with True fine t show ?thesis by (simp del: filter.simps)
  next
    case False
    have "stream_available (Some (key_from t e)) as_of es = Inr (filter (available_by as_of) es)"
      using Cons.prems by (intro Cons.IH) (auto simp: known_key_Some [OF t])
    moreover have "available_by as_of e" using False t by (simp add: available_by_def)
    ultimately show ?thesis using False fine t by simp
  qed
qed simp

text \<open>The strategy-facing accessor shows exactly the point-in-time selection: the events available
  at the replay time, in the deterministic order, never a later one and never one of unknown
  availability; its ordering check cannot fail.\<close>

theorem accessor_is_point_in_time:
  "ReplayAccessor_at events t = point_in_time events (Aware t)"
proof -
  let ?es = "ReplayAccessor_events events"
  have "filter (available_by t) (filter (\<lambda>e. available_at e \<noteq> None) events) =
      filter (available_by t) events"
    by (auto simp: available_by_def intro!: filter_cong split: option.splits)
  then have "filter (available_by t) ?es = sort_key known_key (filter (available_by t) events)"
    by (simp only: ReplayAccessor_events_def filter_sort)
  moreover have "stream_available None t ?es = Inr (filter (available_by t) ?es)"
    by (rule stream_sorted) (simp_all add: ReplayAccessor_events_def)
  ultimately show ?thesis by (simp add: ReplayAccessor_at_def point_in_time_def)
qed

section \<open>The clock\<close>

definition orderly :: "ReplayClock \<Rightarrow> bool" where
  "orderly c \<longleftrightarrow> sorted (map known_key (pending c)) \<and>
     (\<forall>e \<in> set (pending c). \<exists>t. available_at e = Some t \<and> ck_current c \<le> t)"

lemma clock_step_known:
  assumes "orderly c" and "pending c = e # es" and "available_at e = Some t"
  shows "clock_step c = (draw (c\<lparr>ck_current := t, ck_last_event_id := Some (ev_event_id e),
            ck_applied_count := ck_applied_count c + 1\<rparr>), Inr (Some e))"
proof -
  have n: "ck_next c = Some e" using assms(2) by (auto simp: pending_def split: option.splits)
  have "\<not> t < ck_current c" using assms by (auto simp: orderly_def)
  with n assms(3) show ?thesis by (simp add: clock_step.simps)
qed

lemma clock_run_known:
  "orderly c \<Longrightarrow> \<forall>e \<in> set (pending c). ck_current c \<le> until \<or> \<not> available_by until e \<Longrightarrow>
   \<exists>c'. clock_run until c applied = (c', Inr (applied @ filter (available_by until) (pending c))) \<and>
     orderly c' \<and> pending c' = filter (\<lambda>e. \<not> available_by until e) (pending c) \<and>
     ck_applied_count c' = ck_applied_count c + length (filter (available_by until) (pending c)) \<and>
     (\<forall>e \<in> set (pending c'). \<not> available_by until e)"
proof (induction "length (pending c)" arbitrary: c applied rule: less_induct)
  case less
  show ?case
  proof (cases "pending c")
    case Nil
    then have "ck_next c = None" by (auto simp: pending_def split: option.splits)
    then have "clock_run until c applied = (c, Inr applied)" by (simp add: clock_run.simps)
    with Nil less.prems(1) show ?thesis by simp
  next
    case (Cons e es)
    then have n: "ck_next c = Some e" and es: "ck_events c = es"
      by (auto simp: pending_def split: option.splits)
    from less.prems(1) Cons obtain t where t: "available_at e = Some t" by (auto simp: orderly_def)
    show ?thesis
    proof (cases "t > until")
      case True
      have late: "\<not> available_by until f" if f: "f \<in> set (e # es)" for f
      proof -
        from f Cons less.prems(1) obtain u where u: "available_at f = Some u"
          by (auto simp: orderly_def)
        have "known_key e \<le> known_key f" using f Cons less.prems(1) by (auto simp: orderly_def)
        from known_key_time [OF t this u] True u show ?thesis by (simp add: available_by_def)
      qed
      then have "filter (available_by until) (e # es) = []"
        and "filter (\<lambda>e. \<not> available_by until e) (e # es) = e # es"
        by (simp_all only: filter_empty_conv filter_id_conv) blast+
      moreover have "clock_run until c applied = (c, Inr applied)"
        using n t True by (simp add: clock_run.simps beyond_def)
      ultimately show ?thesis unfolding Cons using less.prems(1) late Cons by simp
    next
      case False
      let ?c = "draw (c\<lparr>ck_current := t, ck_last_event_id := Some (ev_event_id e),
            ck_applied_count := ck_applied_count c + 1\<rparr>)"
      have p: "pending ?c = es" by (simp add: pending_draw es)
      have run: "clock_run until c applied = clock_run until ?c (applied @ [e])"
        using n t False clock_step_known [OF less.prems(1) Cons t]
        by (simp add: clock_run.simps [of until c] beyond_def)
      have "\<exists>u. available_at f = Some u \<and> t \<le> u" if f: "f \<in> set es" for f
      proof -
        from f Cons less.prems(1) obtain u where u: "available_at f = Some u"
          by (auto simp: orderly_def)
        have "known_key e \<le> known_key f" using f Cons less.prems(1) by (auto simp: orderly_def)
        from known_key_time [OF t this u] u show ?thesis by blast
      qed
      then have ord: "orderly ?c" using less.prems(1) Cons by (simp add: orderly_def pending_draw es)
      have shorter: "length (pending ?c) < length (pending c)" unfolding p Cons by simp
      have soon: "\<forall>e \<in> set (pending ?c). ck_current ?c \<le> until \<or> \<not> available_by until e"
        using False by simp
      have count: "ck_applied_count ?c = ck_applied_count c + 1" by simp
      obtain c' where c':
        "clock_run until ?c (applied @ [e]) = (c', Inr ((applied @ [e]) @ filter (available_by until) es))"
        "orderly c'" "pending c' = filter (\<lambda>e. \<not> available_by until e) es"
        "ck_applied_count c' = ck_applied_count c + 1 + length (filter (available_by until) es)"
        "\<forall>e \<in> set (pending c'). \<not> available_by until e"
        using less.hyps [OF shorter ord soon, of "applied @ [e]"] unfolding p count by blast
      have now: "available_by until e" using t False by (simp add: available_by_def)
      have "filter (available_by until) (pending c) = e # filter (available_by until) es"
        "filter (\<lambda>e. \<not> available_by until e) (pending c) = filter (\<lambda>e. \<not> available_by until e) es"
        unfolding Cons using now by simp_all
      note sides = this
      have "clock_run until c applied = (c', Inr (applied @ filter (available_by until) (pending c)))"
        unfolding run c'(1) sides by simp
      moreover have "ck_applied_count c' = ck_applied_count c + length (filter (available_by until) (pending c))"
        unfolding c'(4) sides by simp
      ultimately show ?thesis using c'(2,3,5) unfolding sides by blast
    qed
  qed
qed

lemma run_until_known:
  assumes "orderly c" and "ck_current c \<le> until"
  shows "\<exists>c'. run_until until c = (c', Inr (filter (available_by until) (pending c))) \<and>
     orderly c' \<and> pending c' = filter (\<lambda>e. \<not> available_by until e) (pending c) \<and>
     ck_applied_count c' = ck_applied_count c + length (filter (available_by until) (pending c)) \<and>
     ck_current c' = until \<and> ck_paused c'"
proof -
  let ?c = "c\<lparr>ck_paused := False\<rparr>"
  have p: "pending ?c = pending c" by (cases "ck_next c") (simp_all add: pending_def)
  have "orderly ?c" using assms(1) by (simp add: orderly_def p)
  moreover have "\<forall>e \<in> set (pending ?c). ck_current ?c \<le> until \<or> \<not> available_by until e"
    using assms(2) by simp
  moreover have "ck_applied_count ?c = ck_applied_count c" by simp
  ultimately obtain c1 where
    run: "clock_run until ?c [] = (c1, Inr ([] @ filter (available_by until) (pending c)))"
    and c1: "orderly c1" "pending c1 = filter (\<lambda>e. \<not> available_by until e) (pending c)"
      "ck_applied_count c1 = ck_applied_count c + length (filter (available_by until) (pending c))"
      "\<forall>e \<in> set (pending c1). \<not> available_by until e"
    using clock_run_known [of ?c until "[]"] unfolding p by metis
  let ?d = "c1\<lparr>ck_current := until, ck_paused := True\<rparr>"
  have d: "pending ?d = pending c1" by (cases "ck_next c1") (simp_all add: pending_def)
  have "\<exists>t. available_at e = Some t \<and> until \<le> t" if e: "e \<in> set (pending c1)" for e
  proof -
    from e c1(1) obtain t where "available_at e = Some t" by (auto simp: orderly_def)
    with e c1(4) show ?thesis by (auto simp: available_by_def)
  qed
  then have "orderly ?d" using c1(1) by (simp add: orderly_def d)
  moreover have "run_until until c = (?d, Inr (filter (available_by until) (pending c)))"
    unfolding run_until_def run by simp
  moreover have "ck_applied_count ?d = ck_applied_count c1" "ck_current ?d = until" "ck_paused ?d"
    by simp_all
  ultimately show ?thesis using c1(2,3) d by metis
qed

lemma new_clock_orderly:
  assumes "\<forall>e \<in> set events. \<exists>t. available_at e = Some t \<and> start \<le> t"
  shows "orderly (new_clock start (sort_key known_key events))"
    and "pending (new_clock start (sort_key known_key events)) = sort_key known_key events"
    and "ck_current (new_clock start evs) = start" and "ck_applied_count (new_clock start evs) = 0"
proof -
  show p: "pending (new_clock start (sort_key known_key events)) = sort_key known_key events"
    by (simp add: new_clock_def pending_draw)
  show c: "ck_current (new_clock start evs) = start" "ck_applied_count (new_clock start evs) = 0" for evs
    by (simp_all add: new_clock_def)
  show "orderly (new_clock start (sort_key known_key events))"
    using assms by (simp add: orderly_def p c)
qed

lemma pending_unpaused [simp]: "pending (c\<lparr>ck_paused := b\<rparr>) = pending c"
  by (cases "ck_next c") (simp_all add: pending_def)

text \<open>Two runs over a feed in the deterministic order.\<close>

lemma clock_two_runs:
  assumes "\<forall>e \<in> set events. \<exists>t. available_at e = Some t \<and> start \<le> t"
    and "start \<le> u" and "u \<le> v"
    and "run_until u (new_clock start (sort_key known_key events)) = (c1, r1)"
    and "run_until v c1 = (c2, r2)"
  shows "r1 = point_in_time events (Aware u) \<and>
    rbind r1 (\<lambda>first. rbind r2 (\<lambda>second. Inr (first @ second))) = point_in_time events (Aware v) \<and>
    ck_current c2 = v \<and> ck_paused c2 \<and>
    point_in_time events (Aware v) = Inr (take (ck_applied_count c2) (sort_key known_key events))"
proof -
  note new = new_clock_orderly [OF assms(1)]
  let ?es = "sort_key known_key events"
  have "ck_current (new_clock start ?es) \<le> u" using new(3) assms(2) by simp
  from run_until_known [OF new(1) this] assms(4) new have r1: "r1 = Inr (filter (available_by u) ?es)"
    and c1: "orderly c1" "pending c1 = filter (\<lambda>e. \<not> available_by u e) ?es"
      "ck_applied_count c1 = length (filter (available_by u) ?es)" "ck_current c1 = u" by auto
  from run_until_known [OF c1(1), of v] c1 assms(3,5)
  have r2: "r2 = Inr (filter (available_by v) (pending c1))"
    and c2: "ck_applied_count c2 = ck_applied_count c1 + length (filter (available_by v) (pending c1))"
      "ck_current c2 = v" "ck_paused c2" by auto
  have prefix: "\<exists>ys. xs = filter (available_by w) xs @ ys"
    if "sorted (map known_key xs)" "\<forall>e \<in> set xs. \<exists>t. available_at e = Some t" for w xs
    using that
  proof (induction xs)
    case (Cons x xs)
    show ?case
    proof (cases "available_by w x")
      case True
      with Cons show ?thesis by auto
    next
      case False
      from Cons.prems(2) obtain t where t: "available_at x = Some t" by auto
      have "\<not> available_by w f" if f: "f \<in> set xs" for f
      proof -
        from f Cons.prems(2) obtain u where u: "available_at f = Some u" by auto
        have "known_key x \<le> known_key f" using f Cons.prems(1) by auto
        from known_key_time [OF t this u] u t False show ?thesis by (auto simp: available_by_def)
      qed
      then have "filter (available_by w) xs = []" by (simp add: filter_empty_conv)
      with False show ?thesis by simp
    qed
  qed simp
  have known: "\<forall>e \<in> set ?es. \<exists>t. available_at e = Some t" using assms(1) by auto
  obtain ys where ys: "?es = filter (available_by u) ?es @ ys"
    using prefix [OF _ known] by (metis sorted_sort_key)
  obtain zs where zs: "?es = filter (available_by v) ?es @ zs"
    using prefix [OF _ known] by (metis sorted_sort_key)
  have both: "filter (available_by u) ?es @ filter (available_by v) (filter (\<lambda>e. \<not> available_by u e) ?es) =
      filter (available_by v) ?es"
  proof -
    have uv: "available_by v e" if "available_by u e" for e
      using that assms(3) by (auto simp: available_by_def split: option.splits)
    have ys_none: "\<forall>e \<in> set ys. \<not> available_by u e"
    proof -
      have "filter (available_by u) ?es = filter (available_by u) (filter (available_by u) ?es @ ys)"
        using ys by simp
      then have "filter (available_by u) ys = []" by simp
      then show ?thesis by (simp add: filter_empty_conv)
    qed
    have "filter (\<lambda>e. \<not> available_by u e) ?es = ys"
    proof -
      have "filter (\<lambda>e. \<not> available_by u e) ?es =
          filter (\<lambda>e. \<not> available_by u e) (filter (available_by u) ?es) @
          filter (\<lambda>e. \<not> available_by u e) ys"
        by (subst ys) (simp only: filter_append)
      then show ?thesis using ys_none by (simp add: filter_id_conv)
    qed
    moreover have "filter (available_by v) ?es =
        filter (available_by v) (filter (available_by u) ?es) @ filter (available_by v) ys"
      by (subst ys) (simp only: filter_append)
    moreover have "filter (available_by v) (filter (available_by u) ?es) = filter (available_by u) ?es"
      by (rule filter_id_conv [THEN iffD2]) (use uv in auto)
    ultimately show ?thesis by simp
  qed
  have pit: "point_in_time events (Aware w) = Inr (filter (available_by w) ?es)" for w
    by (simp add: point_in_time_def filter_sort)
  have "length (filter (available_by v) ?es) = ck_applied_count c2"
    using both c1(2,3) c2(1) by (metis length_append)
  moreover have "take (length (filter (available_by v) ?es)) ?es = filter (available_by v) ?es"
    using zs by (metis append_eq_conv_conj)
  ultimately show ?thesis using r1 r2 both c1(2) c2(2,3) by (simp add: pit)
qed

text \<open>What one run applies to any feed of events of known availability: it takes the events up to the
  first that is not yet due, and raises if one of them is older than the clock when it is reached.\<close>

abbreviation available_time :: "ReplayEvent \<Rightarrow> instant" where
  "available_time e \<equiv> the (available_at e)"

lemma clock_run_due:
  "\<forall>e \<in> set (pending c). available_at e \<noteq> None \<Longrightarrow>
   snd (clock_run until c applied) = (let due = takeWhile (available_by until) (pending c)
     in if sorted (ck_current c # map available_time due) then Inr (applied @ due)
        else Inl (ReplayError ''clock received an out-of-order event''))"
proof (induction "length (pending c)" arbitrary: c applied rule: less_induct)
  case less
  show ?case
  proof (cases "pending c")
    case Nil
    then have "ck_next c = None" by (auto simp: pending_def split: option.splits)
    then show ?thesis by (simp add: clock_run.simps [of until c] Nil)
  next
    case (Cons e es)
    then have n: "ck_next c = Some e" and es: "ck_events c = es"
      by (auto simp: pending_def split: option.splits)
    from less.prems Cons obtain t where t: "available_at e = Some t" by auto
    show ?thesis
    proof (cases "t > until")
      case True
      then show ?thesis using n t by (simp add: clock_run.simps [of until c] beyond_def Cons available_by_def)
    next
      case False
      let ?c = "draw (c\<lparr>ck_current := t, ck_last_event_id := Some (ev_event_id e),
            ck_applied_count := ck_applied_count c + 1\<rparr>)"
      have p: "pending ?c = es" by (simp add: pending_draw es)
      have due: "available_by until e" using t False by (simp add: available_by_def)
      show ?thesis
      proof (cases "t < ck_current c")
        case True
        have "clock_step c = (c, Inl (ReplayError ''clock received an out-of-order event''))"
          by (subst clock_step.simps) (simp add: n t True)
        then have run: "snd (clock_run until c applied) = Inl (ReplayError ''clock received an out-of-order event'')"
          by (subst clock_run.simps) (simp add: n t beyond_def False)
        have "\<not> sorted (ck_current c # map available_time (takeWhile (available_by until) (e # es)))"
          using True due t by simp
        then show ?thesis unfolding run Cons Let_def by (simp only: if_False)
      next
        case ordered: False
        have run: "clock_run until c applied = clock_run until ?c (applied @ [e])"
          using n t False ordered by (simp add: clock_run.simps [of until c] clock_step.simps [of c] beyond_def)
        have shorter: "length (pending ?c) < length (pending c)" unfolding p Cons by simp
        have known: "\<forall>e \<in> set (pending ?c). available_at e \<noteq> None" using less.prems Cons p by simp
        have now: "ck_current ?c = t" by simp
        have "sorted (t # map available_time xs) = sorted (ck_current c # t # map available_time xs)" for xs
          using ordered by auto
        then show ?thesis
          using less.hyps [OF shorter known, of "applied @ [e]"] due t
          unfolding run p now Cons by (simp add: Let_def)
      qed
    qed
  qed
qed

text \<open>C27. The clock over a feed whose events all have a known availability, started no later than the
  first of two stopping times. The clock does not sort: the first run applies the events of the feed up
  to the first that is not yet available at the stopping time, and raises exactly when their
  availabilities, from the start time on, do not ascend. When the feed is in the deterministic order and
  nothing in it precedes the start, what a run applies is the point-in-time selection, and stopping on
  the way changes nothing: what two consecutive runs apply is together what the selection at the later
  time holds, and the clock stands there, paused.\<close>

theorem clock_replays_point_in_time:
  assumes "\<forall>e \<in> set events. available_at e \<noteq> None" and "start \<le> u" and "u \<le> v"
    and "run_until u (new_clock start events) = (c1, r1)" and "run_until v c1 = (c2, r2)"
  shows "r1 = (let due = takeWhile (available_by u) events
      in if sorted (start # map (\<lambda>e. the (available_at e)) due) then Inr due
         else Inl (ReplayError ''clock received an out-of-order event'')) \<and>
    (sorted (map known_key events) \<and> (\<forall>e \<in> set events. start \<le> the (available_at e)) \<longrightarrow>
      r1 = point_in_time events (Aware u) \<and>
      rbind r1 (\<lambda>first. rbind r2 (\<lambda>second. Inr (first @ second))) = point_in_time events (Aware v) \<and>
      ck_current c2 = v \<and> ck_paused c2 \<and>
      point_in_time events (Aware v) = Inr (take (ck_applied_count c2) events))"
proof
  let ?c = "(new_clock start events)\<lparr>ck_paused := False\<rparr>"
  have c: "pending ?c = events" "ck_current ?c = start"
    by (simp_all add: new_clock_def pending_draw pending_unpaused)
  have "r1 = snd (clock_run u ?c [])"
    using assms(4) by (auto simp: run_until_def split: prod.splits sum.splits)
  then show "r1 = (let due = takeWhile (available_by u) events
      in if sorted (start # map (\<lambda>e. the (available_at e)) due) then Inr due
         else Inl (ReplayError ''clock received an out-of-order event''))"
    using clock_run_due [of ?c u "[]"] assms(1) unfolding c append_Nil by blast
next
  show "sorted (map known_key events) \<and> (\<forall>e \<in> set events. start \<le> the (available_at e)) \<longrightarrow>
      r1 = point_in_time events (Aware u) \<and>
      rbind r1 (\<lambda>first. rbind r2 (\<lambda>second. Inr (first @ second))) = point_in_time events (Aware v) \<and>
      ck_current c2 = v \<and> ck_paused c2 \<and>
      point_in_time events (Aware v) = Inr (take (ck_applied_count c2) events)"
  proof
    assume feed: "sorted (map known_key events) \<and> (\<forall>e \<in> set events. start \<le> the (available_at e))"
    then have sort: "sort_key known_key events = events" by (simp add: sorted_sort_id sort_key_id_if_sorted)
    have "\<forall>e \<in> set events. \<exists>t. available_at e = Some t \<and> start \<le> t" using feed assms(1) by fastforce
    from clock_two_runs [OF this assms(2,3)] assms(4,5) show "r1 = point_in_time events (Aware u) \<and>
      rbind r1 (\<lambda>first. rbind r2 (\<lambda>second. Inr (first @ second))) = point_in_time events (Aware v) \<and>
      ck_current c2 = v \<and> ck_paused c2 \<and>
      point_in_time events (Aware v) = Inr (take (ck_applied_count c2) events)"
      unfolding sort by blast
  qed
qed

definition replay_event :: "string \<Rightarrow> instant option \<Rightarrow> ReplayEvent" where
  "replay_event i t = \<lparr>ev_event_id = i, ev_event_type = '''', ev_provider = '''',
     ev_availability = \<lparr>av_source_event_at = None, av_source_publish_at = None,
       av_provider_receive_at = None, av_actual_bot_ingest_at = 0, av_replay_available_at = t,
       av_basis = (if t = None then BASIS_UNKNOWN else OBSERVED_LIVE), av_quality = MEASURED,
       av_assumed_latency = None\<rparr>,
     ev_provider_sequence = None, ev_receive_monotonic_sequence = None, ev_ingest_sequence = None,
     ev_entity_ids = [], ev_raw_hash = '''', ev_normalized_hash = '''', ev_parser_version = '''',
     ev_schema_version = '''', ev_payload = HNone, ev_gap_marker = False,
     ev_correction_of_event_id = None, ev_ordering_ambiguous = False\<rparr>"

theorem clock_replays_point_in_time_witness:
  "let events = [replay_event ''a'' (Some 10), replay_event ''b'' (Some 30)];
       (c1, r1) = run_until 20 (new_clock 0 events);
       (c2, r2) = run_until 40 c1
   in r1 = point_in_time events (Aware 20) \<and> ck_current c2 = 40 \<and> ck_applied_count c2 = 2"
proof -
  let ?events = "[replay_event ''a'' (Some 10), replay_event ''b'' (Some 30)]"
  obtain c1 r1 where 1: "run_until 20 (new_clock 0 ?events) = (c1, r1)" by fastforce
  obtain c2 r2 where 2: "run_until 40 c1 = (c2, r2)" by fastforce
  have known: "\<forall>e \<in> set ?events. available_at e \<noteq> None"
    by (simp add: available_at_def replay_event_def)
  have order: "sorted (map known_key ?events)" by code_simp
  have since: "\<forall>e \<in> set ?events. 0 \<le> the (available_at e)"
    by (simp add: available_at_def replay_event_def)
  have "ck_applied_count (fst (run_until 40 (fst (run_until 20 (new_clock 0 ?events))))) = 2" by code_simp
  then have "ck_applied_count c2 = 2" by (simp only: 1 2 fst_conv)
  moreover have "(0::int) \<le> 20" "(20::int) \<le> 40" by simp_all
  from clock_replays_point_in_time [OF known this 1 2] order since
  have "r1 = point_in_time ?events (Aware 20) \<and> ck_current c2 = 40" by blast
  ultimately show ?thesis by (simp only: Let_def 1 2 prod.case simp_thms)
qed

section \<open>The clock ends\<close>

lemma clock_step_rest:
  "clock_step c = (c', Inr r) \<Longrightarrow>
     (case r of None \<Rightarrow> pending c' = [] | Some f \<Rightarrow> subseq (f # pending c') (pending c))"
proof (induction c rule: clock_step.induct)
  case (1 c)
  show ?case
  proof (cases "ck_next c")
    case None
    with "1.prems" have "c' = c" "r = None" by (simp_all add: clock_step.simps)
    with None show ?thesis by (simp add: pending_def)
  next
    case (Some e)
    then have p: "pending c = e # ck_events c" by (simp add: pending_def)
    show ?thesis
    proof (cases "available_at e")
      case None
      with Some "1.prems" have "clock_step (draw c) = (c', Inr r)" by (simp add: clock_step.simps [of c])
      from "1.IH" [OF Some None this] show ?thesis
        unfolding p pending_draw
        by (cases r) (simp_all only: option.case list_emb.list_emb_Cons)
    next
      case (Some t)
      with \<open>ck_next c = Some e\<close> "1.prems"
      have "c' = draw (c\<lparr>ck_current := t, ck_last_event_id := Some (ev_event_id e),
            ck_applied_count := ck_applied_count c + 1\<rparr>)" and "r = Some e"
        by (auto simp: clock_step.simps [of c] split: if_splits)
      with p show ?thesis by (simp add: pending_draw)
    qed
  qed
qed

lemma clock_run_rest:
  "clock_run until c applied = (c', Inr r) \<Longrightarrow>
     (pending c' = [] \<or> beyond until (hd (pending c'))) \<and>
     (\<exists>xs. r = applied @ xs \<and> subseq (xs @ pending c') (pending c))"
proof (induction until c applied rule: clock_run.induct)
  case (1 until c applied)
  show ?case
  proof (cases "ck_next c")
    case None
    with "1.prems" have "c' = c" "r = applied" by (simp_all add: clock_run.simps)
    with None show ?thesis by (simp add: pending_def)
  next
    case (Some e)
    then have p: "pending c = e # ck_events c" by (simp add: pending_def)
    show ?thesis
    proof (cases "beyond until e")
      case True
      with Some "1.prems" have "c' = c" "r = applied" by (simp_all add: clock_run.simps)
      with p True show ?thesis by simp
    next
      case False
      note ih = "1.IH" [OF Some False]
      obtain c1 s where step: "clock_step c = (c1, s)" by fastforce
      with Some False "1.prems" obtain f where s: "s = Inr f"
        by (cases s) (auto simp: clock_run.simps [of until c])
      note rest = clock_step_rest [OF step [unfolded s]]
      show ?thesis
      proof (cases f)
        case None
        with Some False step s "1.prems" have run: "clock_run until c1 applied = (c', Inr r)"
          by (simp add: clock_run.simps [of until c])
        have "pending c1 = []" using rest None by simp
        with ih(1) [OF step [unfolded s None, symmetric] refl refl run] show ?thesis
          by (auto dest: list_emb_Nil2)
      next
        case (Some g)
        with \<open>ck_next c = Some e\<close> False step s "1.prems"
        have run: "clock_run until c1 (applied @ [g]) = (c', Inr r)"
          by (simp add: clock_run.simps [of until c])
        have sub: "subseq (g # pending c1) (pending c)" using rest Some by simp
        from ih(2) [OF step [unfolded s Some, symmetric] refl refl run] obtain xs where
          ends: "pending c' = [] \<or> beyond until (hd (pending c'))"
          and xs: "r = (applied @ [g]) @ xs" "subseq (xs @ pending c') (pending c1)" by blast
        have "subseq (g # xs @ pending c') (pending c)"
          using xs(2) sub by (meson subseq_Cons2 subseq_order.order_trans)
        with ends xs(1) show ?thesis by (intro conjI exI [of _ "g # xs"]) simp_all
      qed
    qed
  qed
qed

text \<open>C28. The clock ends: each successful step leaves strictly fewer pending events, whatever the events
  are, and a run that returns has applied a subsequence of what was pending, in order, and
  stands before an event that is available only later or before none.\<close>

theorem clock_runs_end:
  assumes "run_until until c = (c', Inr applied)" and "clock_step d = (d', Inr r)" and "pending d \<noteq> []"
  shows "subseq (applied @ pending c') (pending c) \<and>
    length applied + length (pending c') \<le> length (pending c) \<and>
    (pending c' = [] \<or> (\<exists>t > until. available_at (hd (pending c')) = Some t)) \<and>
    length (pending d') < length (pending d)"
proof -
  let ?c = "c\<lparr>ck_paused := False\<rparr>"
  have p: "pending ?c = pending c" by (cases "ck_next c") (simp_all add: pending_def)
  from assms(1) obtain c1 where run: "clock_run until ?c [] = (c1, Inr applied)"
    and c': "c' = c1\<lparr>ck_current := until, ck_paused := True\<rparr>"
    by (auto simp: run_until_def split: prod.splits sum.splits)
  have p': "pending c' = pending c1" by (cases "ck_next c1") (simp_all add: pending_def c')
  from clock_run_rest [OF run] have sub: "subseq (applied @ pending c') (pending c)"
    and ends: "pending c' = [] \<or> beyond until (hd (pending c'))" unfolding p p' by auto
  have "ck_next d \<noteq> None" using assms(3) by (cases "ck_next d") (auto simp: pending_def)
  from clock_step_pending [OF this assms(2)] list_emb_length [OF sub] sub ends show ?thesis
    by (auto simp: beyond_def split: option.splits)
qed

theorem clock_runs_end_witness:
  "subseq [replay_event ''a'' (Some 10)] [replay_event ''a'' (Some 10), replay_event ''b'' (Some 30)]"
proof -
  let ?c = "new_clock 0 [replay_event ''a'' (Some 10), replay_event ''b'' (Some 30)]"
  have run: "run_until 20 ?c = (fst (run_until 20 ?c), Inr [replay_event ''a'' (Some 10)])"
    and step: "clock_step ?c = (fst (clock_step ?c), Inr (Some (replay_event ''a'' (Some 10))))"
    by code_simp+
  have p: "pending ?c = [replay_event ''a'' (Some 10), replay_event ''b'' (Some 30)]" by code_simp
  have "pending ?c \<noteq> []" unfolding p by simp
  from clock_runs_end [OF run step this]
  have "subseq ([replay_event ''a'' (Some 10)] @ pending (fst (run_until 20 ?c))) (pending ?c)" by blast
  then show ?thesis unfolding p by (rule subseq_order.order_trans [rotated]) simp
qed

text \<open>An event of unknown availability lets the clock run ahead: \<open>run_until\<close> does not stop before
  it, \<open>step\<close> skips it and applies the next event, although that one becomes available only after
  the time the run was to stop at.\<close>

theorem unknown_availability_runs_ahead:
  "snd (run_until 50 (new_clock 0 [replay_event ''u'' None, replay_event ''late'' (Some 100)])) =
     Inr [replay_event ''late'' (Some 100)] \<and>
   point_in_time [replay_event ''u'' None, replay_event ''late'' (Some 100)] (Aware 50) = Inr []"
  by code_simp

section \<open>Merging historical and live records\<close>

lemma merge_rows_append:
  "merge_rows p b i t (xs @ ys) m = rbind (merge_rows p b i t xs m) (merge_rows p b i t ys)"
  by (induction p b i t xs m rule: merge_rows.induct)
    (auto simp: rbind_def split: sum.splits)

definition merge_ok :: "MergeRun \<Rightarrow> bool" where
  "merge_ok m \<longleftrightarrow> distinct (map (fst \<circ> snd) (mu_combined m)) \<and>
     set (map (fst \<circ> snd) (mu_combined m)) = set (mu_seen m)"

definition source_entry :: "string \<Rightarrow> string \<Rightarrow> string \<Rightarrow> (string \<times> hashable) list \<Rightarrow>
    string \<times> string \<times> (string \<times> hashable) list" where
  "source_entry i t source row =
     (text_field row t, text_field row i, dict_put ''partition_source'' (HStr source) row)"

lemma merge_row_ok:
  assumes "merge_row p b i t source row m = Inr m'" and "merge_ok m"
  shows "merge_ok m' \<and> set (mu_seen m') = insert (text_field row i) (set (mu_seen m)) \<and>
    length (mu_combined m') + mu_duplicates m' = Suc (length (mu_combined m) + mu_duplicates m) \<and>
    (\<exists>new. mu_combined m' = mu_combined m @ new \<and> (\<forall>e \<in> set new. e = source_entry i t source row \<and>
      text_field row i \<notin> set (mu_seen m)))"
proof -
  from assms(1) obtain u where rest: "(case map_of row i of
         Some (HStr identity) \<Rightarrow>
           (let m1 = m\<lparr>mu_seam := mu_seam m \<or> u = b\<rparr>
            in if identity \<in> set (mu_seen m)
               then Inr (m1\<lparr>mu_duplicates := mu_duplicates m + 1\<rparr>)
               else Inr (m1\<lparr>mu_seen := identity # mu_seen m, mu_combined := mu_combined m @
                 [(text_field row t, identity, dict_put ''partition_source'' (HStr source) row)]\<rparr>))
       | _ \<Rightarrow> Inl (UniverseValidationError ''routed record malformed'')) = Inr m'"
    unfolding merge_row_def rbind_eq_Inr by blast
  then obtain identity where found: "map_of row i = Some (HStr identity)"
    by (auto split: option.splits hashable.splits)
  then have identity: "identity = text_field row i" by (simp add: text_field_def)
  have m': "m' = (if identity \<in> set (mu_seen m)
      then m\<lparr>mu_seam := mu_seam m \<or> u = b, mu_duplicates := mu_duplicates m + 1\<rparr>
      else m\<lparr>mu_seam := mu_seam m \<or> u = b, mu_seen := identity # mu_seen m,
        mu_combined := mu_combined m @ [source_entry i t source row]\<rparr>)"
    using rest unfolding found by (auto simp: Let_def source_entry_def identity split: if_splits)
  show ?thesis
  proof (cases "identity \<in> set (mu_seen m)")
    case True
    with m' identity assms(2) show ?thesis by (auto simp: merge_ok_def)
  next
    case False
    with m' identity assms(2) show ?thesis
      by (auto simp: merge_ok_def source_entry_def comp_def)
  qed
qed

lemma merge_rows_ok:
  "merge_rows p b i t rows m = Inr m' \<Longrightarrow> merge_ok m \<Longrightarrow>
    merge_ok m' \<and>
    set (mu_seen m') = set (mu_seen m) \<union> (\<lambda>(s, row). text_field row i) ` set rows \<and>
    length (mu_combined m') + mu_duplicates m' = length (mu_combined m) + mu_duplicates m + length rows \<and>
    (\<exists>new. mu_combined m' = mu_combined m @ new \<and> (\<forall>e \<in> set new. \<exists>(s, row) \<in> set rows.
      e = source_entry i t s row \<and> text_field row i \<notin> set (mu_seen m)))"
proof (induction rows arbitrary: m)
  case (Cons x rows)
  obtain s row where x: "x = (s, row)" by fastforce
  with Cons.prems(1) obtain m1 where step: "merge_row p b i t s row m = Inr m1"
    and rest: "merge_rows p b i t rows m1 = Inr m'" by (auto simp: rbind_eq_Inr)
  from merge_row_ok [OF step Cons.prems(2)] obtain new where ok: "merge_ok m1"
    and seen: "set (mu_seen m1) = insert (text_field row i) (set (mu_seen m))"
    and count: "length (mu_combined m1) + mu_duplicates m1 =
      Suc (length (mu_combined m) + mu_duplicates m)"
    and new: "mu_combined m1 = mu_combined m @ new" "\<forall>e \<in> set new. e = source_entry i t s row \<and>
      text_field row i \<notin> set (mu_seen m)" by blast
  from Cons.IH [OF rest ok] obtain more where ok': "merge_ok m'"
    and seen': "set (mu_seen m') = set (mu_seen m1) \<union> (\<lambda>(s, row). text_field row i) ` set rows"
    and count': "length (mu_combined m') + mu_duplicates m' =
      length (mu_combined m1) + mu_duplicates m1 + length rows"
    and more: "mu_combined m' = mu_combined m1 @ more" "\<forall>e \<in> set more. \<exists>(s, row) \<in> set rows.
      e = source_entry i t s row \<and> text_field row i \<notin> set (mu_seen m1)" by blast
  have "\<forall>e \<in> set (new @ more). \<exists>(s, row) \<in> set (x # rows).
      e = source_entry i t s row \<and> text_field row i \<notin> set (mu_seen m)"
    using new(2) more(2) seen x by fastforce
  moreover have "mu_combined m' = mu_combined m @ new @ more" using new(1) more(1) by simp
  ultimately show ?case using ok' seen seen' count count' x by auto
qed simp

lemma text_field_put: "n \<noteq> k \<Longrightarrow> text_field (dict_put k v row) n = text_field row n"
  by (induction k v row rule: dict_put.induct) (auto simp: text_field_def)

lemma dict_put_same: "map_of (dict_put k v row) k = Some v"
  by (induction k v row rule: dict_put.induct) auto

text \<open>C29. The merge of historical and live records keeps one record of every identity and counts every
  other as a duplicate; an identity that both sides have keeps its historical record, each record is an
  input row with its source added, and the result is in the lexicographic order of the timestamp texts,
  ties in the order of the identity texts (the fields must not be \<open>partition_source\<close>, which the merge
  overwrites). The order of the texts is not that of the instants: texts that write the fraction of a
  second or the offset differently can be out of time order, as \<open>merge_order_is_textual\<close> shows.\<close>

theorem merge_keeps_every_identity_once:
  assumes "historical_merge p kind cutoff historical live i t = Inr r"
    and "i \<noteq> ''partition_source''" and "t \<noteq> ''partition_source''"
  shows "length (me_records r) + me_duplicates_removed r = length historical + length live \<and>
    distinct (map (\<lambda>row. text_field row i) (me_records r)) \<and>
    (\<lambda>row. text_field row i) ` set (me_records r) =
      (\<lambda>row. text_field row i) ` (set historical \<union> set live) \<and>
    sorted (map (\<lambda>row. (text_field row t, text_field row i)) (me_records r)) \<and>
    (\<forall>row \<in> set (me_records r).
      (\<exists>old \<in> set historical. row = dict_put ''partition_source'' (HStr ''historical'') old) \<or>
      (\<exists>new \<in> set live. row = dict_put ''partition_source'' (HStr ''live'') new \<and>
        text_field row i \<notin> (\<lambda>row. text_field row i) ` set historical))"
proof -
  let ?m0 = "\<lparr>mu_combined = [], mu_seen = [], mu_duplicates = 0, mu_seam = False\<rparr>"
  let ?key = "\<lambda>(t, i, row). (t, i)" and ?row = "\<lambda>(t, i, row). row"
  from assms(1) obtain m1 m2 where
    h: "merge_rows p (for_kind kind cutoff) i t (map (Pair ''historical'') historical) ?m0 = Inr m1"
    and l: "merge_rows p (for_kind kind cutoff) i t (map (Pair ''live'') live) m1 = Inr m2"
    and r: "me_records r = map ?row (sort_key ?key (mu_combined m2))"
      "me_duplicates_removed r = mu_duplicates m2"
    by (auto simp: historical_merge_def merge_rows_append rbind_eq_Inr)
  have "merge_ok ?m0" by (simp add: merge_ok_def)
  from merge_rows_ok [OF h this] have ok1: "merge_ok m1"
    and seen1: "set (mu_seen m1) = (\<lambda>row. text_field row i) ` set historical"
    and count1: "length (mu_combined m1) + mu_duplicates m1 = length historical"
    and old: "\<forall>e \<in> set (mu_combined m1). \<exists>row \<in> set historical. e = source_entry i t ''historical'' row"
    by (auto simp: image_image)
  from merge_rows_ok [OF l ok1] obtain new where ok2: "merge_ok m2"
    and seen2: "set (mu_seen m2) = (\<lambda>row. text_field row i) ` (set historical \<union> set live)"
    and count2: "length (mu_combined m2) + mu_duplicates m2 = length historical + length live"
    and m2: "mu_combined m2 = mu_combined m1 @ new"
    and new: "\<forall>e \<in> set new. \<exists>row \<in> set live. e = source_entry i t ''live'' row \<and>
      text_field row i \<notin> (\<lambda>row. text_field row i) ` set historical"
    using count1 by (auto simp: image_image image_Un seen1)
  have entries: "\<forall>e \<in> set (mu_combined m2). fst e = text_field (?row e) t \<and> fst (snd e) = text_field (?row e) i"
    using old new assms(2,3) by (auto simp: m2 source_entry_def text_field_put)
  let ?es = "sort_key ?key (mu_combined m2)"
  have ids: "map (\<lambda>row. text_field row i) (me_records r) = map (fst \<circ> snd) ?es"
    and times: "map (\<lambda>row. (text_field row t, text_field row i)) (me_records r) = map ?key ?es"
    using entries by (auto simp: r(1))
  have "distinct (map (fst \<circ> snd) ?es)"
    using ok2 by (simp add: merge_ok_def distinct_map inj_on_def)
  moreover have "set (map (fst \<circ> snd) ?es) = (\<lambda>row. text_field row i) ` (set historical \<union> set live)"
    using ok2 seen2 by (simp add: merge_ok_def)
  moreover have "sorted (map ?key ?es)" by simp
  moreover have "\<forall>row \<in> set (me_records r).
      (\<exists>old \<in> set historical. row = dict_put ''partition_source'' (HStr ''historical'') old) \<or>
      (\<exists>new \<in> set live. row = dict_put ''partition_source'' (HStr ''live'') new \<and>
        text_field row i \<notin> (\<lambda>row. text_field row i) ` set historical)"
    using old new assms(2) by (force simp: r(1) m2 source_entry_def text_field_put)
  moreover have "length (me_records r) + me_duplicates_removed r = length historical + length live"
    using count2 by (simp add: r)
  moreover have "(\<lambda>row. text_field row i) ` set (me_records r) = set (map (\<lambda>row. text_field row i) (me_records r))"
    by simp
  ultimately show ?thesis unfolding ids times by blast
qed

theorem merge_keeps_every_identity_once_witness:
  "let row = (\<lambda>i. [(''id'', HStr i), (''at'', HStr ''2026'')]);
       p = (\<lambda>s. Some (Aware 0));
       cutoff = \<lparr>co_observed_at = 0, co_market_settled_ts = 0, co_trades_created_ts = 0,
         co_orders_updated_ts = 0, co_spec_version = '''', co_backward_warning = False\<rparr>
   in \<exists>r. historical_merge p MARKET cutoff [row ''a''] [row ''a'', row ''b''] ''id'' ''at'' = Inr r \<and>
     length (me_records r) + me_duplicates_removed r = 3"
proof -
  let ?row = "\<lambda>i. [(''id'', HStr i), (''at'', HStr ''2026'')]"
    and ?p = "\<lambda>s :: string. Some (Aware 0)"
    and ?cutoff = "\<lparr>co_observed_at = 0, co_market_settled_ts = 0, co_trades_created_ts = 0,
         co_orders_updated_ts = 0, co_spec_version = '''', co_backward_warning = False\<rparr>"
  let ?r = "historical_merge ?p MARKET ?cutoff [?row ''a''] [?row ''a'', ?row ''b''] ''id'' ''at''"
  have "is_ok ?r" by code_simp
  then obtain r where r: "?r = Inr r" by (auto simp: is_ok_iff)
  from merge_keeps_every_identity_once [OF r] have
    "length (me_records r) + me_duplicates_removed r = 3" by simp
  with r show ?thesis by (auto simp: Let_def)
qed

text \<open>Half a second past midnight is sorted before midnight when only one of the texts has a fraction:
  \<open>.\<close> sorts before \<open>Z\<close>.\<close>

theorem merge_order_is_textual:
  "let row = (\<lambda>i t. [(''id'', HStr i), (''at'', HStr t)]);
       p = (\<lambda>s. Some (Aware (if s = ''2026-01-01T00:00:00Z'' then 0 else 500000)));
       cutoff = \<lparr>co_observed_at = 0, co_market_settled_ts = 0, co_trades_created_ts = 0,
         co_orders_updated_ts = 0, co_spec_version = '''', co_backward_warning = False\<rparr>
   in case historical_merge p MARKET cutoff
       [row ''a'' ''2026-01-01T00:00:00Z'', row ''b'' ''2026-01-01T00:00:00.5Z''] [] ''id'' ''at'' of
     Inl _ \<Rightarrow> False
   | Inr r \<Rightarrow> map (\<lambda>x. text_field x ''id'') (me_records r) = [''b'', ''a'']"
  by code_simp

end
