(* ===== verification/Learning.thy ===== *)
theory Learning
  imports Tables
begin

text \<open>
  \<open>services/learning\<close>: research weight proposals (\<open>domain.py\<close>), content-addressed configurations
  and rollback (\<open>configuration.py\<close>), event-level evaluation (\<open>evaluation.py\<close>), human-gated
  governance (\<open>governance.py\<close>), multiple comparisons (\<open>statistics.py\<close>) and the research budget
  (\<open>tournament.py\<close>).
\<close>

text \<open>\<open>int\<close> of a Decimal drops the fraction.\<close>

definition int_part :: "decimal \<Rightarrow> int" where
  "int_part x = (if x < 0 then \<lceil>x\<rceil> else \<lfloor>x\<rfloor>)"

definition mean :: "decimal list \<Rightarrow> decimal result" where
  "mean xs = (if xs = [] then Inl (ValueError ''DivisionByZero'')
     else Inr (dsum xs / of_nat (length xs)))"

section \<open>Proposals\<close>

datatype ProposalState = PROPOSED | APPROVED_RESEARCH | REJECTED | ROLLED_BACK

record AblationResult =
  ab_artifact_id :: string
  ab_family :: string
  ab_component_id :: string
  ab_full_model_brier :: decimal
  ab_ablated_model_brier :: decimal
  ab_settled_event_count :: nat
  ab_dataset_manifest :: string
  ab_synthetic :: bool
  ab_target_type :: string
  ab_raw_forecast_count :: nat
  ab_contract_count :: nat
  ab_unique_market_count :: nat
  ab_unique_event_count :: nat
  ab_effective_sample_size :: decimal
  ab_segment :: "(string \<times> string) list"

definition descriptive_incremental_brier :: "AblationResult \<Rightarrow> decimal" where
  "descriptive_incremental_brier a = ab_ablated_model_brier a - ab_full_model_brier a"

record ResearchWeightProposal =
  wp_proposal_id :: string
  wp_component_id :: string
  wp_previous_weight :: decimal
  wp_proposed_weight :: decimal
  wp_maximum_change :: decimal
  wp_evidence_manifest :: string
  wp_evidence_window :: "(instant \<times> instant) option"
  wp_effective_sample_size :: decimal
  wp_metrics :: "(string \<times> decimal) list"
  wp_uncertainty :: "(decimal \<times> decimal) option"
  wp_rationale :: string
  wp_constraints_applied :: "string list"
  wp_rollback_target :: string
  wp_proposer_version :: string
  wp_created_at :: "instant option"
  wp_state :: ProposalState
  wp_production_influence :: decimal

definition ResearchWeightProposal_post_init ::
    "ResearchWeightProposal \<Rightarrow> ResearchWeightProposal result" where
  "ResearchWeightProposal_post_init p =
     (if \<bar>wp_proposed_weight p - wp_previous_weight p\<bar> > wp_maximum_change p
      then Inl (LearningError ''research weight change exceeds governance bound'')
      else if wp_production_influence p \<noteq> 0
      then Inl (LearningError ''M9 proposal cannot have production influence'')
      else if wp_maximum_change p > 10 / 100
      then Inl (LearningError ''weekly source/model change cap exceeds 10 percentage points'')
      else Inr p)"

section \<open>Configurations\<close>

datatype ConfigurationMode =
    HISTORICAL_OBSERVED_CONFIGURATION | RETROSPECTIVE_RESEARCH_CONFIGURATION

definition ConfigurationMode_value :: "ConfigurationMode \<Rightarrow> string" where
  "ConfigurationMode_value m = (case m of
     HISTORICAL_OBSERVED_CONFIGURATION \<Rightarrow> ''HISTORICAL_OBSERVED_CONFIGURATION''
   | RETROSPECTIVE_RESEARCH_CONFIGURATION \<Rightarrow> ''RETROSPECTIVE_RESEARCH_CONFIGURATION'')"

record LearningConfiguration =
  lc_configuration_id :: string
  lc_active_models :: "string list"
  lc_model_weights :: "(string \<times> decimal) list"
  lc_active_sources :: "string list"
  lc_source_weights :: "(string \<times> decimal) list"
  lc_family_routing :: "(string \<times> string) list"
  lc_abstention_thresholds :: "(string \<times> decimal) list"
  lc_version :: string
  lc_effective_at :: instant
  lc_predecessor_id :: "string option"
  lc_mode :: ConfigurationMode
  lc_content_hash :: string
  lc_production_influence :: decimal

definition weights_material :: "(string \<times> decimal) list \<Rightarrow> hashable" where
  "weights_material ws = HList (map (\<lambda>(k, w). HList [HStr k, HDec w]) ws)"

text \<open>The values given to \<open>build\<close>, sorted by their names. A production influence that was not given
  is absent from the material; \<open>stated\<close> says whether it was.\<close>

definition configuration_material :: "bool \<Rightarrow> LearningConfiguration \<Rightarrow> hashable" where
  "configuration_material stated c = HList (map (\<lambda>(k, v). HList [HStr k, v])
     ([(''abstention_thresholds'', weights_material (lc_abstention_thresholds c)),
       (''active_models'', HList (map HStr (lc_active_models c))),
       (''active_sources'', HList (map HStr (lc_active_sources c))),
       (''effective_at'', HTime (lc_effective_at c)),
       (''family_routing'', HList (map (\<lambda>(k, v). HList [HStr k, HStr v]) (lc_family_routing c))),
       (''mode'', HStr (ConfigurationMode_value (lc_mode c))),
       (''model_weights'', weights_material (lc_model_weights c)),
       (''predecessor_id'', hopt HStr (lc_predecessor_id c))] @
      only_if stated (''production_influence'', HDec (lc_production_influence c)) @
      [(''source_weights'', weights_material (lc_source_weights c)),
       (''version'', HStr (lc_version c))]))"

definition weights_valid :: "(string \<times> decimal) list \<Rightarrow> bool" where
  "weights_valid ws \<longleftrightarrow> list_all (\<lambda>(k, w). 0 \<le> w \<and> w \<le> 1) ws"

definition build_configuration :: "digest_fn \<Rightarrow> bool \<Rightarrow> LearningConfiguration \<Rightarrow>
    LearningConfiguration result" where
  "build_configuration dig stated c =
     (if lc_production_influence c \<noteq> 0
      then Inl (LearningError ''learning configuration has zero production influence'')
      else if \<not> weights_valid (lc_model_weights c) \<or> \<not> weights_valid (lc_source_weights c)
      then Inl (LearningError ''configuration weight invalid'')
      else let digest = dig (configuration_material stated c)
        in Inr (c\<lparr>lc_configuration_id := digest, lc_content_hash := digest\<rparr>))"

fun latest_configuration :: "LearningConfiguration \<Rightarrow> LearningConfiguration list \<Rightarrow>
    LearningConfiguration" where
  "latest_configuration b [] = b"
| "latest_configuration b (c # cs) =
     (if lc_effective_at b < lc_effective_at c then latest_configuration c cs
      else latest_configuration b cs)"

definition configuration_at :: "LearningConfiguration list \<Rightarrow> instant \<Rightarrow> bool \<Rightarrow>
    LearningConfiguration option" where
  "configuration_at configurations t allow_retrospective =
     (case filter (\<lambda>c. lc_effective_at c \<le> t \<and> (allow_retrospective \<or>
        lc_mode c = HISTORICAL_OBSERVED_CONFIGURATION)) configurations of
      [] \<Rightarrow> None | c # cs \<Rightarrow> Some (latest_configuration c cs))"

definition rollback :: "digest_fn \<Rightarrow> LearningConfiguration \<Rightarrow> LearningConfiguration \<Rightarrow> instant \<Rightarrow>
    LearningConfiguration result" where
  "rollback dig current previous effective_at = build_configuration dig True
     (previous\<lparr>lc_effective_at := effective_at,
       lc_predecessor_id := Some (lc_configuration_id current)\<rparr>)"

section \<open>Evaluation\<close>

definition INCONCLUSIVE :: string where "INCONCLUSIVE = ''INCONCLUSIVE''"

definition STRONGER_EVIDENCE :: string where "STRONGER_EVIDENCE = ''STRONGER_EVIDENCE''"

definition MINIMUM_UNIQUE_SETTLED_EVENTS :: int where "MINIMUM_UNIQUE_SETTLED_EVENTS = 50"

record EventContribution =
  ec_event_id :: string
  ec_full_brier :: decimal
  ec_ablated_brier :: decimal
  ec_source_published_ms :: int
  ec_kalshi_reaction_ms :: "int option"
  ec_forecast_updated_ms :: "int option"

definition contribution :: "EventContribution \<Rightarrow> decimal" where
  "contribution e = ec_ablated_brier e - ec_full_brier e"

record PerformanceInterval =
  pi_point :: decimal
  pi_sensitivity_low :: decimal
  pi_sensitivity_high :: decimal
  pi_event_count :: int
  pi_evidence :: string
  pi_meets_event_floor :: bool
  pi_method :: string
  pi_inferential_method :: "string option"

definition PerformanceInterval_post_init :: "PerformanceInterval \<Rightarrow> PerformanceInterval result" where
  "PerformanceInterval_post_init p =
     (if pi_sensitivity_low p > pi_sensitivity_high p
      then Inl (LearningError ''sensitivity range is inverted'')
      else if pi_event_count p < 0 then Inl (LearningError ''event count cannot be negative'')
      else if pi_evidence p \<noteq> INCONCLUSIVE
      then Inl (LearningError (''no prespecified inferential method exists at this checkpoint; '' @
        ''evidence stronger than INCONCLUSIVE cannot currently be constructed''))
      else if pi_inferential_method p \<noteq> None
      then Inl (LearningError
        ''inferential_method must remain unset until an accepted method is prespecified'')
      else Inr p)"

definition positive_direction :: "PerformanceInterval \<Rightarrow> bool" where
  "positive_direction p \<longleftrightarrow> pi_point p > 0 \<and> pi_sensitivity_low p > 0"

definition omit :: "nat \<Rightarrow> 'a list \<Rightarrow> 'a list" where
  "omit i xs = take i xs @ drop (Suc i) xs"

definition leave_one :: "decimal list \<Rightarrow> decimal list" where
  "leave_one values = (if length values > 1
     then map (\<lambda>i. dsum (omit i values) / (of_nat (length values) - 1)) [0..<length values]
     else [0])"

definition paired_event_interval :: "EventContribution list \<Rightarrow> int \<Rightarrow> PerformanceInterval result" where
  "paired_event_interval events minimum =
     (if events = [] then Inl (LearningError ''no settled events'')
      else if minimum < MINIMUM_UNIQUE_SETTLED_EVENTS
      then Inl (LearningError ''unique settled event floor cannot be lowered below 50'')
      else if \<not> distinct (map ec_event_id events)
      then Inl (LearningError
        ''duplicate event ids cannot increase the settled-event denominator'')
      else let values = sort (map contribution events); sensitivity = leave_one values
        in PerformanceInterval_post_init
          \<lparr>pi_point = dsum values / of_nat (length values),
           pi_sensitivity_low = Min (set sensitivity), pi_sensitivity_high = Max (set sensitivity),
           pi_event_count = int (length events), pi_evidence = INCONCLUSIVE,
           pi_meets_event_floor = (int (length events) \<ge> minimum),
           pi_method = ''LEAVE_ONE_EVENT_OUT_SENSITIVITY'', pi_inferential_method = None\<rparr>)"

record Concentration =
  cz_best_event_fraction :: decimal
  cz_top_five_fraction :: decimal
  cz_excluding_best :: decimal
  cz_excluding_worst :: decimal

definition fraction_of :: "decimal \<Rightarrow> decimal list \<Rightarrow> decimal" where
  "fraction_of overall selected = (if overall = 0 then 0 else dsum (map abs selected) / overall)"

definition mean_without :: "nat \<Rightarrow> decimal list \<Rightarrow> decimal" where
  "mean_without i values = (if length values \<le> 1 then 0
     else dsum (omit i values) / of_nat (length (omit i values)))"

definition event_concentration :: "EventContribution list \<Rightarrow> Concentration" where
  "event_concentration events =
     (let values = rev (sort (map contribution events)); overall = dsum (map abs values)
      in \<lparr>cz_best_event_fraction = fraction_of overall (take 1 values),
          cz_top_five_fraction = fraction_of overall (take 5 values),
          cz_excluding_best = mean_without 0 values,
          cz_excluding_worst = mean_without (length values - 1) values\<rparr>)"

record Timeliness =
  tl_median_lead_ms :: "int option"
  tl_before_kalshi_fraction :: decimal
  tl_after_kalshi_fraction :: decimal
  tl_forecast_impact_fraction :: decimal

definition comparable_events :: "EventContribution list \<Rightarrow> (EventContribution \<times> int) list" where
  "comparable_events events = concat (map (\<lambda>e. case ec_kalshi_reaction_ms e of
     None \<Rightarrow> [] | Some reaction \<Rightarrow> [(e, reaction)]) events)"

definition timeliness :: "EventContribution list \<Rightarrow> Timeliness" where
  "timeliness events =
     (let comparable = comparable_events events;
          leads = sort (map (\<lambda>(e, reaction). reaction - ec_source_published_ms e) comparable);
          divisor = of_nat (if comparable = [] then 1 else length comparable);
          before = of_nat (length (filter (\<lambda>(e, reaction). ec_source_published_ms e < reaction)
            comparable)) / divisor
      in \<lparr>tl_median_lead_ms = (if leads = [] then None else Some (leads ! (length leads div 2))),
          tl_before_kalshi_fraction = before,
          tl_after_kalshi_fraction = (if comparable = [] then 0 else 1 - before),
          tl_forecast_impact_fraction =
            of_nat (length (filter (\<lambda>e. ec_forecast_updated_ms e \<noteq> None) events)) /
              of_nat (if events = [] then 1 else length events)\<rparr>)"

record Redundancy =
  rd_source_a :: string
  rd_source_b :: string
  rd_claim_overlap :: decimal
  rd_common_root_fraction :: decimal
  rd_timing_correlation :: decimal
  rd_residual_correlation :: decimal
  rd_same_primary_dependence :: decimal

definition duplicated_credit_factor :: "Redundancy \<Rightarrow> decimal" where
  "duplicated_credit_factor r = 1 - max (max (rd_claim_overlap r) (rd_common_root_fraction r))
     (rd_same_primary_dependence r)"

definition ablation :: "string \<Rightarrow> string \<Rightarrow> EventContribution list \<Rightarrow> string \<Rightarrow> bool \<Rightarrow>
    (string \<times> string) list \<Rightarrow> AblationResult result" where
  "ablation component family events dataset synthetic segment =
     rbind (mean (map ec_full_brier events)) (\<lambda>full.
     rbind (mean (map ec_ablated_brier events)) (\<lambda>without.
       let unique = length (remdups (map ec_event_id events))
       in Inr \<lparr>ab_artifact_id = dataset @ '':'' @ component, ab_family = family,
         ab_component_id = component, ab_full_model_brier = full,
         ab_ablated_model_brier = without, ab_settled_event_count = length events,
         ab_dataset_manifest = dataset, ab_synthetic = synthetic,
         ab_target_type = ''OUTCOME_PREDICTION'', ab_raw_forecast_count = length events,
         ab_contract_count = length events, ab_unique_market_count = length events,
         ab_unique_event_count = unique, ab_effective_sample_size = of_nat unique,
         ab_segment = segment\<rparr>))"

section \<open>Governance\<close>

datatype ProposalType = PROMOTION_PROPOSAL | DEMOTION_PROPOSAL | QUARANTINE_PROPOSAL

record EvaluationWindow =
  ew_development :: "instant \<times> instant"
  ew_validation :: "instant \<times> instant"
  ew_promotion :: "instant \<times> instant"

definition EvaluationWindow_post_init :: "EvaluationWindow \<Rightarrow> EvaluationWindow result" where
  "EvaluationWindow_post_init w =
     (if \<not> (snd (ew_development w) \<le> fst (ew_validation w) \<and>
        snd (ew_validation w) \<le> fst (ew_promotion w))
      then Inl (LearningError ''development, validation, and promotion windows overlap'')
      else Inr w)"

record GovernanceProposal =
  gp_proposal_id :: string
  gp_proposal_type :: ProposalType
  gp_component_id :: string
  gp_current_state :: string
  gp_proposed_state :: string
  gp_interval :: "PerformanceInterval option"
  gp_unique_settled_events :: int
  gp_same_event_manifest :: string
  gp_rationale :: string
  gp_event_manifest :: "string list"
  gp_incremental_effect :: decimal
  gp_human_approval_required :: bool
  gp_production_influence :: decimal

definition GovernanceProposal_post_init :: "GovernanceProposal \<Rightarrow> GovernanceProposal result" where
  "GovernanceProposal_post_init p =
     (if gp_production_influence p \<noteq> 0 \<or> \<not> gp_human_approval_required p
      then Inl (LearningError ''governance proposals are human-gated with zero influence'')
      else if gp_proposal_type p \<noteq> PROMOTION_PROPOSAL then Inr p
      else if \<not> distinct (gp_event_manifest p)
      then Inl (LearningError ''event manifest contains duplicate event ids'')
      else if int (length (gp_event_manifest p)) \<noteq> gp_unique_settled_events p
      then Inl (LearningError ''proposal event count does not match the event manifest'')
      else if gp_unique_settled_events p < MINIMUM_UNIQUE_SETTLED_EVENTS
      then Inl (LearningError ''promotion evidence threshold not met'')
      else (case gp_interval p of
          None \<Rightarrow> Inl (LearningError ''promotion interval does not match the event manifest'')
        | Some i \<Rightarrow>
            if pi_event_count i \<noteq> gp_unique_settled_events p
            then Inl (LearningError ''promotion interval does not match the event manifest'')
            else if gp_incremental_effect p \<le> 0 \<or> \<not> positive_direction i
            then Inl (LearningError ''promotion requires positive incremental effect'')
            else if \<not> pi_meets_event_floor i \<or> pi_evidence i \<noteq> STRONGER_EVIDENCE
            then Inl (LearningError ''promotion evidence threshold not met'')
            else Inr p))"

record DriftMetric =
  dm_component_id :: string
  dm_dimension :: string
  dm_baseline :: decimal
  dm_current :: decimal
  dm_warning_threshold :: decimal
  dm_quarantine_threshold :: decimal

definition drift_action :: "DriftMetric \<Rightarrow> string" where
  "drift_action d = (let change = \<bar>dm_current d - dm_baseline d\<bar>
     in if change \<ge> dm_quarantine_threshold d then ''QUARANTINE_PROPOSAL''
        else if change \<ge> dm_warning_threshold d then ''WARNING'' else ''NONE'')"

definition compare_challenger :: "string list \<Rightarrow> string list \<Rightarrow> decimal \<Rightarrow> decimal \<Rightarrow>
    PerformanceInterval \<Rightarrow> bool result" where
  "compare_challenger champion_events challenger_events champion_score challenger_score i =
     (if \<not> distinct champion_events
      then Inl (LearningError ''duplicate event ids cannot increase the settled-event denominator'')
      else if champion_events \<noteq> challenger_events
      then Inl (LearningError ''champion and challenger evaluated on different events'')
      else if pi_event_count i \<noteq> int (length champion_events)
      then Inl (LearningError
        ''promotion interval does not match the compared event manifest'')
      else Inr (challenger_score < champion_score \<and> pi_meets_event_floor i \<and>
        positive_direction i \<and> pi_evidence i = STRONGER_EVIDENCE))"

section \<open>Multiple comparisons\<close>

text \<open>The last index, counted from one, whose ordered value is within its threshold.\<close>

fun bh_threshold :: "decimal \<Rightarrow> decimal \<Rightarrow> nat \<Rightarrow> nat \<Rightarrow> (string \<times> decimal) list \<Rightarrow> nat" where
  "bh_threshold alpha n index best [] = best"
| "bh_threshold alpha n index best ((identifier, v) # rest) =
     bh_threshold alpha n (Suc index)
       (if v \<le> alpha * of_nat (Suc index) / n then Suc index else best) rest"

definition benjamini_hochberg :: "(string \<times> decimal) list \<Rightarrow> decimal \<Rightarrow> string list" where
  "benjamini_hochberg p_values alpha =
     (let ordered = sort_key snd p_values;
          n = of_nat (if ordered = [] then 1 else length ordered)
      in remdups (map fst (take (bh_threshold alpha n 0 0 ordered) ordered)))"

record SourceQuality =
  sq_stable_source_id :: string
  sq_uptime :: decimal
  sq_missingness :: decimal
  sq_parse_failure :: decimal
  sq_revision_rate :: decimal
  sq_correction_rate :: decimal
  sq_retraction_rate :: decimal
  sq_median_latency_ms :: decimal
  sq_duplication_rate :: decimal
  sq_originality_rate :: decimal
  sq_independent_source_fraction :: decimal
  sq_monthly_cost :: decimal
  sq_required_for_contract_truth :: bool
  sq_target_type :: string
  sq_coverage_denominator :: int
  sq_eligible_observations :: int
  sq_used_observations :: int
  sq_missing_observations :: int
  sq_inclusion_reason :: string

definition incremental_brier_per_dollar :: "decimal \<Rightarrow> SourceQuality \<Rightarrow> decimal option" where
  "incremental_brier_per_dollar contrib q =
     (if sq_monthly_cost q = 0 then None else Some (contrib / sq_monthly_cost q))"

section \<open>Research budget\<close>

record FamilyScore =
  fs_family :: string
  fs_market_count :: int
  fs_usable_markets :: int
  fs_unique_settled_events :: int
  fs_forecast_coverage :: decimal
  fs_market_relative_skill :: "decimal option"
  fs_calibration_quality :: decimal
  fs_abstention_rate :: decimal
  fs_data_completeness :: decimal
  fs_source_reliability :: decimal
  fs_median_latency_ms :: decimal
  fs_liquidity_quality :: decimal
  fs_monthly_research_cost :: decimal
  fs_operational_complexity :: decimal
  fs_research_score :: decimal

definition FamilyScore_calculate :: "FamilyScore \<Rightarrow> FamilyScore" where
  "FamilyScore_calculate s =
     (let skill = (case fs_market_relative_skill s of None \<Rightarrow> 0 | Some v \<Rightarrow> v);
          evidence_factor = min 1 (of_int (fs_unique_settled_events s) / 50)
      in s\<lparr>fs_research_score := evidence_factor * (fs_forecast_coverage s + skill +
        fs_calibration_quality s + fs_data_completeness s + fs_source_reliability s +
        fs_liquidity_quality s - fs_abstention_rate s) / 6\<rparr>)"

record FamilyBudget =
  fb_family :: string
  fb_forecast_jobs :: int
  fb_source_polls :: int
  fb_llm_units :: int
  fb_backfill_units :: int

record ResearchBudget =
  rb_total_forecast_jobs :: int
  rb_total_source_polls :: int
  rb_total_llm_units :: int
  rb_total_backfill_units :: int
  rb_exploration_floor :: decimal
  rb_family_budgets :: "FamilyBudget list"
  rb_production_influence :: decimal

definition ResearchBudget_post_init :: "ResearchBudget \<Rightarrow> ResearchBudget result" where
  "ResearchBudget_post_init b =
     (if rb_production_influence b \<noteq> 0 \<or>
        \<not> (0 < rb_exploration_floor b \<and> rb_exploration_floor b \<le> 1)
      then Inl (LearningError ''research budget is invalid or has production influence'')
      else if rb_family_budgets b = [] then Inl (ValueError ''DivisionByZero'')
      else if list_ex (\<lambda>item. fb_forecast_jobs item < int_part (of_int (rb_total_forecast_jobs b) *
          rb_exploration_floor b / of_nat (length (rb_family_budgets b)))) (rb_family_budgets b)
      then Inl (LearningError ''family research exploration floor violated'')
      else Inr b)"

definition job_allocations :: "decimal list \<Rightarrow> int \<Rightarrow> int \<Rightarrow> int list" where
  "job_allocations positive minimum remaining =
     (let overall = dsum positive
      in map (\<lambda>v. minimum + (if overall = 0 then remaining div int (length positive)
        else int_part (of_int remaining * v / overall))) positive)"

definition add_to_last :: "int \<Rightarrow> int list \<Rightarrow> int list" where
  "add_to_last d xs = butlast xs @ [last xs + d]"

definition allocate_budget :: "FamilyScore list \<Rightarrow> int \<Rightarrow> decimal \<Rightarrow> ResearchBudget result" where
  "allocate_budget scores total_jobs exploration_floor =
     (if scores = [] then Inl (LearningError ''no family scores'')
      else let n = length scores;
          minimum = int_part (of_int total_jobs * exploration_floor / of_nat n);
          remaining = total_jobs - minimum * int n;
          first = job_allocations (map (\<lambda>s. max 0 (fs_research_score s)) scores) minimum remaining;
          allocations = add_to_last (total_jobs - sum_list first) first;
          budgets = map2 (\<lambda>s jobs. \<lparr>fb_family = fs_family s, fb_forecast_jobs = jobs,
            fb_source_polls = jobs * 2, fb_llm_units = max 1 (jobs div 10),
            fb_backfill_units = jobs\<rparr>) scores allocations
        in ResearchBudget_post_init
          \<lparr>rb_total_forecast_jobs = total_jobs, rb_total_source_polls = total_jobs * 2,
           rb_total_llm_units = sum_list (map fb_llm_units budgets),
           rb_total_backfill_units = total_jobs, rb_exploration_floor = exploration_floor,
           rb_family_budgets = budgets, rb_production_influence = 0\<rparr>)"

end
