(* ===== verification/Learning_Properties.thy ===== *)
theory Learning_Properties
  imports Learning "HOL-Library.Multiset"
begin

text \<open>
  The properties of the learning services: no promotion can be constructed while the only evidence
  state is inconclusive, the leave-one-event-out range has its closed form, the multiple-comparison
  procedure is the step-up procedure, and the research budget is spent exactly above its floor.
\<close>

section \<open>Governance\<close>

text \<open>No promotion is possible: a promotion proposal over an interval that can itself be constructed
  is refused whatever it claims, and no challenger comparison over one is ever won.\<close>

theorem no_promotion_is_possible:
  assumes "\<forall>i. gp_interval p = Some i \<longrightarrow> is_ok (PerformanceInterval_post_init i)"
    and "gp_proposal_type p = PROMOTION_PROPOSAL" and "is_ok (PerformanceInterval_post_init j)"
  shows "\<not> is_ok (GovernanceProposal_post_init p) \<and>
    compare_challenger champion challenger s t j \<noteq> Inr True"
proof -
  have weak: "pi_evidence i \<noteq> STRONGER_EVIDENCE" if "is_ok (PerformanceInterval_post_init i)" for i
    using that by (auto simp: PerformanceInterval_post_init_def INCONCLUSIVE_def STRONGER_EVIDENCE_def
        split: if_splits)
  have "\<not> is_ok (GovernanceProposal_post_init p)"
    using assms(1,2) weak by (auto simp: GovernanceProposal_post_init_def split: option.splits)
  with weak [OF assms(3)] show ?thesis by (simp add: compare_challenger_def)
qed

definition sample_interval :: PerformanceInterval where
  "sample_interval = \<lparr>pi_point = 1, pi_sensitivity_low = 1 / 2, pi_sensitivity_high = 1,
     pi_event_count = 50, pi_evidence = ''INCONCLUSIVE'', pi_meets_event_floor = True,
     pi_method = '''', pi_inferential_method = None\<rparr>"

definition sample_promotion :: GovernanceProposal where
  "sample_promotion = \<lparr>gp_proposal_id = '''', gp_proposal_type = PROMOTION_PROPOSAL,
     gp_component_id = '''', gp_current_state = '''', gp_proposed_state = '''',
     gp_interval = Some sample_interval, gp_unique_settled_events = 50,
     gp_same_event_manifest = '''', gp_rationale = '''', gp_event_manifest = [],
     gp_incremental_effect = 1, gp_human_approval_required = True, gp_production_influence = 0\<rparr>"

theorem no_promotion_is_possible_witness:
  "\<not> is_ok (GovernanceProposal_post_init sample_promotion) \<and>
   compare_challenger [] [] 1 0 sample_interval \<noteq> Inr True"
proof (rule no_promotion_is_possible)
  have "is_ok (PerformanceInterval_post_init sample_interval)" by code_simp
  then show "is_ok (PerformanceInterval_post_init sample_interval)"
    and "\<forall>i. gp_interval sample_promotion = Some i \<longrightarrow> is_ok (PerformanceInterval_post_init i)"
    by (simp_all add: sample_promotion_def)
qed (simp add: sample_promotion_def)

section \<open>Leave one event out\<close>

lemma dsum_sort: "dsum (sort xs) = dsum xs"
  by (metis mset_sort sum_mset_sum_list)

lemma dsum_upper: "\<forall>x \<in> set xs. x \<le> b \<Longrightarrow> dsum xs \<le> of_nat (length xs) * b"
  by (induction xs) (auto simp: algebra_simps add_mono)

lemma dsum_lower: "\<forall>x \<in> set xs. b \<le> x \<Longrightarrow> of_nat (length xs) * b \<le> dsum xs"
  by (induction xs) (auto simp: algebra_simps add_mono)

text \<open>Between the mean without the largest and the mean without the smallest lies the mean.\<close>

lemma mean_between:
  assumes "2 \<le> (n :: decimal)" and "s \<le> n * b" and "n * a \<le> s"
  shows "(s - b) / (n - 1) \<le> s / n" and "s / n \<le> (s - a) / (n - 1)"
proof -
  have n: "0 < n" "0 < n - 1" using assms(1) by simp_all
  show "(s - b) / (n - 1) \<le> s / n"
    unfolding divide_le_cancel pos_divide_le_eq [OF n(2)] times_divide_eq_left pos_le_divide_eq [OF n(1)]
    using assms(2) by (simp add: algebra_simps)
  show "s / n \<le> (s - a) / (n - 1)"
    unfolding pos_le_divide_eq [OF n(2)] times_divide_eq_left pos_divide_le_eq [OF n(1)]
    using assms(3) by (simp add: algebra_simps)
qed

lemma dsum_omit: "i < length xs \<Longrightarrow> dsum (omit i xs) = dsum xs - xs ! i"
proof -
  assume i: "i < length xs"
  have "dsum xs = dsum (take i xs @ xs ! i # drop (Suc i) xs)" by (simp add: id_take_nth_drop [OF i, symmetric])
  then show ?thesis by (simp add: omit_def)
qed

lemma set_leave_one:
  assumes "1 < length xs"
  shows "set (leave_one xs) = (\<lambda>v. (dsum xs - v) / (of_nat (length xs) - 1)) ` set xs"
proof -
  have "set (leave_one xs) = (\<lambda>i. (dsum xs - xs ! i) / (of_nat (length xs) - 1)) ` {0..<length xs}"
    using assms by (auto simp: leave_one_def dsum_omit)
  also have "\<dots> = (\<lambda>v. (dsum xs - v) / (of_nat (length xs) - 1)) ` ((!) xs ` {0..<length xs})"
    by (simp add: image_image)
  also have "(!) xs ` {0..<length xs} = set xs" by (auto simp: in_set_conv_nth)
  finally show ?thesis .
qed

text \<open>The leave-one-event-out range of two or more distinct events is the mean without the best event
  and the mean without the worst: it holds the point estimate, and the direction is positive
  exactly when the sum stays positive after dropping the best event.\<close>

theorem sensitivity_drops_the_extreme_events:
  assumes "distinct (map ec_event_id events)" and "2 \<le> length events"
    and "MINIMUM_UNIQUE_SETTLED_EVENTS \<le> minimum"
  defines "values \<equiv> map contribution events"
  shows "\<exists>p. paired_event_interval events minimum = Inr p \<and>
    pi_sensitivity_low p = (dsum values - Max (set values)) / (of_nat (length events) - 1) \<and>
    pi_sensitivity_high p = (dsum values - Min (set values)) / (of_nat (length events) - 1) \<and>
    pi_sensitivity_low p \<le> pi_point p \<and> pi_point p \<le> pi_sensitivity_high p \<and>
    (positive_direction p \<longleftrightarrow> 0 < dsum values - Max (set values) \<and> 0 < dsum values)"
proof -
  let ?n = "of_nat (length events) :: decimal" and ?S = "dsum values"
  have n: "2 \<le> ?n" using assms(2) by (metis of_nat_le_iff of_nat_numeral)
  have ne: "events \<noteq> []" using assms(2) by auto
  then have vne: "set values \<noteq> {}" by (simp add: values_def)
  have len: "length values = length events" by (simp add: values_def)
  have srt: "dsum (sort values) = ?S" "length (sort values) = length events"
    by (simp_all add: values_def dsum_sort)
  have sens: "set (leave_one (sort values)) = (\<lambda>v. (?S - v) / (?n - 1)) ` set values"
    using set_leave_one [of "sort values"] assms(2) by (simp add: srt len)
  have low: "Min (set (leave_one (sort values))) = (?S - Max (set values)) / (?n - 1)"
    unfolding sens using n vne
    by (intro Min_eqI) (auto intro!: divide_right_mono imageI Max_in)
  have high: "Max (set (leave_one (sort values))) = (?S - Min (set values)) / (?n - 1)"
    unfolding sens using n vne
    by (intro Max_eqI) (auto intro!: divide_right_mono imageI Min_in)
  have "?S \<le> ?n * Max (set values)" and "?n * Min (set values) \<le> ?S"
    using dsum_upper [of "values"] dsum_lower [of "values" "Min (set values)"] by (simp_all add: len)
  note between = mean_between [OF n this]
  have order: "(?S - Max (set values)) / (?n - 1) \<le> (?S - Min (set values)) / (?n - 1)"
    using between by linarith
  let ?p = "\<lparr>pi_point = ?S / ?n, pi_sensitivity_low = (?S - Max (set values)) / (?n - 1),
    pi_sensitivity_high = (?S - Min (set values)) / (?n - 1), pi_event_count = int (length events),
    pi_evidence = INCONCLUSIVE, pi_meets_event_floor = (int (length events) \<ge> minimum),
    pi_method = ''LEAVE_ONE_EVENT_OUT_SENSITIVITY'', pi_inferential_method = None\<rparr>"
  have "paired_event_interval events minimum = PerformanceInterval_post_init ?p"
    using ne assms(1,3) srt low high
    by (simp add: paired_event_interval_def Let_def values_def [symmetric])
  also have "\<dots> = Inr ?p" using order by (simp add: PerformanceInterval_post_init_def)
  finally have "paired_event_interval events minimum = Inr ?p" .
  moreover have "positive_direction ?p \<longleftrightarrow> 0 < ?S - Max (set values) \<and> 0 < ?S"
    using n by (auto simp: positive_direction_def zero_less_divide_iff)
  ultimately show ?thesis using between by (intro exI [of _ ?p]) simp
qed

definition sample_events :: "EventContribution list" where
  "sample_events = map (\<lambda>(i, a). \<lparr>ec_event_id = i, ec_full_brier = 0, ec_ablated_brier = a,
     ec_source_published_ms = 0, ec_kalshi_reaction_ms = None, ec_forecast_updated_ms = None\<rparr>)
     [(''a'', 1), (''b'', 3), (''c'', 2)]"

theorem sensitivity_drops_the_extreme_events_witness:
  "\<exists>p. paired_event_interval sample_events 50 = Inr p \<and> pi_sensitivity_low p = 3 / 2 \<and>
     positive_direction p"
proof -
  have v: "map contribution sample_events = [1, 3, 2]"
    by (simp add: sample_events_def contribution_def)
  have "length sample_events = 3" "distinct (map ec_event_id sample_events)"
    by (simp_all add: sample_events_def)
  with sensitivity_drops_the_extreme_events [of sample_events 50] show ?thesis
    by (auto simp: v MINIMUM_UNIQUE_SETTLED_EVENTS_def)
qed

section \<open>Multiple comparisons\<close>

definition in_reach :: "decimal \<Rightarrow> decimal \<Rightarrow> (string \<times> decimal) list \<Rightarrow> nat \<Rightarrow> nat \<Rightarrow> bool" where
  "in_reach alpha n xs i j \<longleftrightarrow> snd (xs ! j) \<le> alpha * of_nat (i + j + 1) / n"

lemma bh_threshold_cases:
  "(bh_threshold alpha n i b xs = b \<and> (\<forall>j < length xs. \<not> in_reach alpha n xs i j)) \<or>
   (\<exists>j < length xs. bh_threshold alpha n i b xs = i + j + 1 \<and> in_reach alpha n xs i j \<and>
     (\<forall>k < length xs. j < k \<longrightarrow> \<not> in_reach alpha n xs i k))"
proof (induction alpha n i b xs rule: bh_threshold.induct)
  case (2 alpha n i b name v rest)
  let ?hit = "v \<le> alpha * of_nat (Suc i) / n" and ?xs = "(name, v) # rest"
  have shift: "in_reach alpha n ?xs i (Suc j) \<longleftrightarrow> in_reach alpha n rest (Suc i) j" for j
    by (simp add: in_reach_def)
  have zero: "in_reach alpha n ?xs i 0 \<longleftrightarrow> ?hit" by (simp add: in_reach_def)
  have all: "(\<forall>k < length ?xs. P k) \<longleftrightarrow> P 0 \<and> (\<forall>k < length rest. P (Suc k))" for P
    by (auto simp: less_Suc_eq_0_disj)
  from "2.IH" show ?case
  proof
    assume none: "bh_threshold alpha n (Suc i) (if ?hit then Suc i else b) rest =
        (if ?hit then Suc i else b) \<and> (\<forall>j < length rest. \<not> in_reach alpha n rest (Suc i) j)"
    show ?thesis
    proof (cases ?hit)
      case True
      then have "(0 :: nat) < length ?xs \<and> bh_threshold alpha n i b ?xs = i + 0 + 1 \<and>
          in_reach alpha n ?xs i 0 \<and> (\<forall>k < length ?xs. 0 < k \<longrightarrow> \<not> in_reach alpha n ?xs i k)"
        unfolding all shift zero using none by simp
      then show ?thesis by blast
    next
      case False
      with none show ?thesis unfolding all shift zero by simp
    qed
  next
    assume "\<exists>j < length rest. bh_threshold alpha n (Suc i) (if ?hit then Suc i else b) rest = Suc i + j + 1 \<and>
        in_reach alpha n rest (Suc i) j \<and> (\<forall>k < length rest. j < k \<longrightarrow> \<not> in_reach alpha n rest (Suc i) k)"
    then obtain j where j: "j < length rest" "bh_threshold alpha n (Suc i) (if ?hit then Suc i else b) rest = Suc i + j + 1"
      "in_reach alpha n rest (Suc i) j" "\<forall>k < length rest. j < k \<longrightarrow> \<not> in_reach alpha n rest (Suc i) k" by blast
    then have "Suc j < length ?xs \<and> bh_threshold alpha n i b ?xs = i + Suc j + 1 \<and>
        in_reach alpha n ?xs i (Suc j) \<and> (\<forall>k < length ?xs. Suc j < k \<longrightarrow> \<not> in_reach alpha n ?xs i k)"
      unfolding all shift by simp
    then show ?thesis by blast
  qed
qed simp

lemma filter_sorted_take:
  assumes "k \<le> length xs" and "\<forall>j < k. P (xs ! j)" and "\<forall>j. k \<le> j \<longrightarrow> j < length xs \<longrightarrow> \<not> P (xs ! j)"
  shows "filter P xs = take k xs"
proof -
  have "filter P xs = filter P (take k xs) @ filter P (drop k xs)"
    by (simp only: filter_append [symmetric] append_take_drop_id)
  moreover have "filter P (take k xs) = take k xs"
    using assms(1,2) by (simp add: filter_id_conv) (auto simp: in_set_conv_nth)
  moreover have "filter P (drop k xs) = []"
    using assms(3) by (simp add: filter_empty_conv) (auto simp: in_set_conv_nth)
  ultimately show ?thesis by simp
qed

lemma filter_sorted_less:
  assumes "sorted (map snd xs)" and "j < length xs" and "v < snd (xs ! j)"
  shows "length (filter (\<lambda>x. snd x \<le> v) xs) \<le> j"
proof -
  have late: "\<not> snd (drop j xs ! i) \<le> v" if "i < length (drop j xs)" for i
  proof -
    have "snd (xs ! j) \<le> snd (xs ! (j + i))"
      using sorted_nth_mono [OF assms(1), of j "j + i"] that assms(2) by simp
    with assms(2,3) show ?thesis by simp
  qed
  have "\<not> snd x \<le> v" if "x \<in> set (drop j xs)" for x
  proof -
    from that obtain i where "i < length (drop j xs)" "drop j xs ! i = x" by (metis in_set_conv_nth)
    with late show ?thesis by metis
  qed
  then have "filter (\<lambda>x. snd x \<le> v) (drop j xs) = []" by (intro filter_False) blast
  then have "filter (\<lambda>x. snd x \<le> v) xs = filter (\<lambda>x. snd x \<le> v) (take j xs)"
    by (metis append_Nil2 append_take_drop_id filter_append)
  then show ?thesis by (simp add: le_trans [OF length_filter_le])
qed

text \<open>C37. The discoveries are those of the step-up procedure: with \<open>k\<close> of them among \<open>m\<close> hypotheses of
  different names they are exactly the hypotheses whose p-value is at most \<open>alpha k / m\<close>, and
  for no larger \<open>j\<close> are there \<open>j\<close> p-values of at most \<open>alpha j / m\<close>.\<close>

theorem discoveries_are_the_step_up_set:
  assumes "distinct (map fst p_values)" and "0 \<le> alpha" and "p_values \<noteq> []"
  defines "k \<equiv> length (benjamini_hochberg p_values alpha)" and "m \<equiv> length p_values"
  shows "set (benjamini_hochberg p_values alpha) =
      fst ` {x \<in> set p_values. snd x \<le> alpha * of_nat k / of_nat m} \<and>
    (\<forall>j. k < j \<and> j \<le> m \<longrightarrow>
      length (filter (\<lambda>x. snd x \<le> alpha * of_nat j / of_nat m) p_values) < j)"
proof -
  let ?xs = "sort_key snd p_values" and ?t = "\<lambda>j. alpha * of_nat j / of_nat m :: decimal"
  let ?k = "bh_threshold alpha (of_nat m) 0 0 ?xs"
  have len: "length ?xs = m" by (simp add: m_def)
  have m: "0 < m" using assms(3) by (simp add: m_def)
  then have ne: "?xs \<noteq> []" using len by (metis length_0_conv less_irrefl)
  have bh: "benjamini_hochberg p_values alpha = remdups (map fst (take ?k ?xs))"
    using assms(3) len ne by (simp add: benjamini_hochberg_def Let_def)
  have srt: "sorted (map snd ?xs)" by simp
  have mono: "?t i \<le> ?t j" if "i \<le> j" for i j
    using that assms(2) m by (simp add: divide_right_mono mult_left_mono)
  have hit: "?k \<le> m \<and> (0 < ?k \<longrightarrow> snd (?xs ! (?k - 1)) \<le> ?t ?k) \<and>
      (\<forall>j < m. ?k \<le> j \<longrightarrow> ?t (j + 1) < snd (?xs ! j))"
    using bh_threshold_cases [of alpha "of_nat m" 0 0 ?xs]
  proof
    assume "?k = 0 \<and> (\<forall>j < length ?xs. \<not> in_reach alpha (of_nat m) ?xs 0 j)"
    then show ?thesis by (simp add: in_reach_def not_le m_def)
  next
    assume "\<exists>j < length ?xs. ?k = 0 + j + 1 \<and> in_reach alpha (of_nat m) ?xs 0 j \<and>
      (\<forall>i < length ?xs. j < i \<longrightarrow> \<not> in_reach alpha (of_nat m) ?xs 0 i)"
    then obtain j where "j < m" "?k = j + 1" "in_reach alpha (of_nat m) ?xs 0 j"
      "\<forall>i < m. j < i \<longrightarrow> \<not> in_reach alpha (of_nat m) ?xs 0 i" by (auto simp: m_def)
    then show ?thesis by (auto simp: in_reach_def not_le)
  qed
  have take: "filter (\<lambda>x. snd x \<le> ?t ?k) ?xs = take ?k ?xs"
  proof (rule filter_sorted_take)
    show "?k \<le> length ?xs" using hit len by simp
    show "\<forall>j < ?k. snd (?xs ! j) \<le> ?t ?k"
    proof (intro allI impI)
      fix j assume j: "j < ?k"
      then have "snd (?xs ! j) \<le> snd (?xs ! (?k - 1))"
      proof -
        have "?k \<le> m" using hit by blast
        then have k: "?k - 1 < m" and jk: "j \<le> ?k - 1" using j by linarith+
        then have "?k - 1 < length (map snd ?xs)" using len by (simp only: length_map)
        from sorted_nth_mono [OF srt jk this] show ?thesis
          using k jk len by (simp only: nth_map le_less_trans [OF jk k])
      qed
      with hit j show "snd (?xs ! j) \<le> ?t ?k" by linarith
    qed
    show "\<forall>j. ?k \<le> j \<longrightarrow> j < length ?xs \<longrightarrow> \<not> snd (?xs ! j) \<le> ?t ?k"
    proof (intro allI impI)
      fix j assume j: "?k \<le> j" "j < length ?xs"
      then have "?t (j + 1) < snd (?xs ! j)" using hit by (simp only: len)
      moreover have "?t ?k \<le> ?t (j + 1)" by (rule mono) (use j in linarith)
      ultimately show "\<not> snd (?xs ! j) \<le> ?t ?k" by linarith
    qed
  qed
  have "distinct (map fst ?xs)" using assms(1) by (simp add: distinct_map)
  then have "distinct (map fst (take ?k ?xs))" by (simp add: take_map [symmetric])
  then have bh': "benjamini_hochberg p_values alpha = map fst (take ?k ?xs)"
    by (simp add: bh distinct_remdups_id)
  then have k: "k = ?k" using hit len by (simp add: k_def)
  have "set (take ?k ?xs) = {x \<in> set p_values. snd x \<le> ?t k}"
    unfolding take [symmetric] k by auto
  then have "set (benjamini_hochberg p_values alpha) = fst ` {x \<in> set p_values. snd x \<le> ?t k}"
    unfolding bh' by simp
  moreover have "length (filter (\<lambda>x. snd x \<le> ?t j) p_values) < j" if j: "k < j" "j \<le> m" for j
  proof -
    have "?t j < snd (?xs ! (j - 1))" using hit j k by (auto dest!: spec [of _ "j - 1"])
    then have "length (filter (\<lambda>x. snd x \<le> ?t j) ?xs) \<le> j - 1"
      using j len by (intro filter_sorted_less [OF srt]) simp_all
    moreover have "length (filter (\<lambda>x. snd x \<le> ?t j) ?xs) = length (filter (\<lambda>x. snd x \<le> ?t j) p_values)"
      by (simp add: filter_sort)
    ultimately show ?thesis using j by simp
  qed
  ultimately show ?thesis by blast
qed

theorem discoveries_are_the_step_up_set_witness:
  "set (benjamini_hochberg [(''a'', 1 / 100), (''b'', 3 / 10), (''c'', 3 / 100)] (1 / 20)) = {''a'', ''c''}"
proof -
  let ?ps = "[(''a'', 1 / 100), (''b'', 3 / 10), (''c'', 3 / 100)] :: (string \<times> decimal) list"
  have k: "length (benjamini_hochberg ?ps (1 / 20)) = 2" by code_simp
  have "distinct (map fst ?ps)" "(0 :: decimal) \<le> 1 / 20" "?ps \<noteq> []" by simp_all
  from discoveries_are_the_step_up_set [OF this]
  have "set (benjamini_hochberg ?ps (1 / 20)) =
      fst ` {x \<in> set ?ps. snd x \<le> 1 / 20 * of_nat 2 / of_nat (length ?ps)}"
    unfolding k by blast
  also have "\<dots> = fst ` set (filter (\<lambda>x. snd x \<le> 1 / 20 * of_nat 2 / of_nat (length ?ps)) ?ps)"
    by (simp only: set_filter)
  also have "\<dots> = {''a'', ''c''}" by simp
  finally show ?thesis .
qed

section \<open>Research budget\<close>

lemma int_part_bounds:
  assumes "0 \<le> x" shows "0 \<le> int_part x" and "of_int (int_part x) \<le> x"
  using assms by (simp_all add: int_part_def)

lemma sum_list_allocations:
  assumes "\<forall>v \<in> set vs. 0 \<le> v" and "0 \<le> r" and "vs \<noteq> []"
  shows "sum_list (job_allocations vs a r) \<le> a * int (length vs) + r"
    and "\<forall>x \<in> set (job_allocations vs a r). a \<le> x"
proof -
  let ?share = "\<lambda>v. if dsum vs = 0 then r div int (length vs) else int_part (of_int r * v / dsum vs)"
  have alloc: "job_allocations vs a r = map (\<lambda>v. a + ?share v) vs"
    by (simp add: job_allocations_def Let_def)
  have s: "0 \<le> dsum vs" using assms(1) by (simp add: dsum_nonneg)
  have pos: "0 \<le> ?share v" if "v \<in> set vs" for v
    using that assms s by (auto simp: pos_imp_zdiv_nonneg_iff intro!: int_part_bounds(1) divide_nonneg_nonneg)
  then show "\<forall>x \<in> set (job_allocations vs a r). a \<le> x" by (auto simp: alloc)
  have "sum_list (map ?share vs) \<le> r"
  proof (cases "dsum vs = 0")
    case True
    then have "sum_list (map ?share vs) = int (length vs) * (r div int (length vs))"
      by (simp add: sum_list_triv)
    also have "\<dots> \<le> r"
    proof -
      have "0 \<le> r mod int (length vs)" using assms(3) by (intro pos_mod_sign) simp
      with mult_div_mod_eq [of "int (length vs)" r] show ?thesis by linarith
    qed
    finally show ?thesis .
  next
    case False
    have "of_int (sum_list (map ?share ws)) \<le> of_int r * dsum ws / dsum vs"
      if "set ws \<subseteq> set vs" for ws
      using that
    proof (induction ws)
      case (Cons w ws)
      have "0 \<le> w" using Cons.prems assms(1) by simp
      then have "of_int (?share w) \<le> of_int r * w / dsum vs"
        using False s assms(2) int_part_bounds(2) [of "of_int r * w / dsum vs"] by simp
      with Cons show ?case by (simp add: add_divide_distrib distrib_left)
    qed simp
    from this [of vs] False show ?thesis by simp
  qed
  moreover have "sum_list (map (\<lambda>v. a + ?share v) ws) = a * int (length ws) + sum_list (map ?share ws)" for ws
    by (induction ws) (simp_all add: algebra_simps)
  ultimately show "sum_list (job_allocations vs a r) \<le> a * int (length vs) + r" by (simp add: alloc)
qed

lemma map2_field:
  "length xs = length ys \<Longrightarrow> map f (map2 g xs ys) = map2 (\<lambda>x y. f (g x y)) xs ys"
  "length xs = length ys \<Longrightarrow> map2 (\<lambda>x y. y) xs ys = ys"
  "length xs = length ys \<Longrightarrow> map2 (\<lambda>x y. h x) xs ys = map h xs"
  by (induction xs ys rule: list_induct2) simp_all

lemma add_to_last:
  assumes "xs \<noteq> []" and "0 \<le> d"
  shows "sum_list (add_to_last d xs) = sum_list xs + d" and "length (add_to_last d xs) = length xs"
    and "\<forall>x \<in> set xs. a \<le> x \<Longrightarrow> \<forall>x \<in> set (add_to_last d xs). a \<le> x"
proof -
  have xs: "xs = butlast xs @ [last xs]" using assms(1) by simp
  show "sum_list (add_to_last d xs) = sum_list xs + d"
    by (subst (2) xs) (simp add: add_to_last_def)
  show "length (add_to_last d xs) = length xs" using assms(1) by (simp add: add_to_last_def)
  assume a: "\<forall>x \<in> set xs. a \<le> x"
  then have "a \<le> last xs" using assms(1) by simp
  with a assms(2) show "\<forall>x \<in> set (add_to_last d xs). a \<le> x"
    by (auto simp: add_to_last_def dest: in_set_butlastD)
qed

text \<open>A research budget over any scores spends exactly its jobs, gives every family at least the
  exploration floor, and is never refused by its own check.\<close>

theorem budget_is_spent_above_the_floor:
  assumes "scores \<noteq> []" and "0 \<le> jobs" and "0 < floor_share" and "floor_share \<le> 1"
  shows "\<exists>b. allocate_budget scores jobs floor_share = Inr b \<and>
    map fb_family (rb_family_budgets b) = map fs_family scores \<and>
    sum_list (map fb_forecast_jobs (rb_family_budgets b)) = jobs \<and>
    (\<forall>f \<in> set (rb_family_budgets b).
      \<lfloor>of_int jobs * floor_share / of_nat (length scores)\<rfloor> \<le> fb_forecast_jobs f) \<and>
    rb_production_influence b = 0"
proof -
  let ?n = "length scores" and ?vs = "map (\<lambda>s. max 0 (fs_research_score s)) scores"
  let ?x = "of_int jobs * floor_share / of_nat ?n" let ?min = "int_part ?x"
  let ?rem = "jobs - ?min * int ?n"
  let ?first = "job_allocations ?vs ?min ?rem"
  let ?alloc = "add_to_last (jobs - sum_list ?first) ?first"
  have n: "0 < ?n" using assms(1) by simp
  have x: "0 \<le> ?x" using assms by simp
  have "of_int ?min * of_nat ?n \<le> ?x * of_nat ?n"
    by (rule mult_right_mono [OF int_part_bounds(2) [OF x]]) simp
  also have "\<dots> = of_int jobs * floor_share" using n by simp
  also have "\<dots> \<le> of_int jobs" using assms by (simp add: mult_left_le)
  finally have "of_int (?min * int ?n) \<le> (of_int jobs :: decimal)" by simp
  then have rem: "0 \<le> ?rem" by linarith
  have vs: "\<forall>v \<in> set ?vs. 0 \<le> v" "?vs \<noteq> []" using assms(1) by auto
  have first: "sum_list ?first \<le> jobs" "\<forall>y \<in> set ?first. ?min \<le> y"
    using sum_list_allocations [OF vs(1) rem vs(2), of ?min] by simp_all
  have fne: "?first \<noteq> []" and flen: "length ?first = ?n"
    using assms(1) by (simp_all add: job_allocations_def Let_def)
  have d: "0 \<le> jobs - sum_list ?first" using first(1) by simp
  note alloc = add_to_last [OF fne d]
  define alloc where "alloc = ?alloc"
  have len: "length alloc = ?n" and spent: "sum_list alloc = jobs" and least: "\<forall>y \<in> set alloc. ?min \<le> y"
    using alloc first(2) flen by (simp_all add: alloc_def)
  define budget where "budget = (\<lambda>(s :: FamilyScore) jobs. \<lparr>fb_family = fs_family s, fb_forecast_jobs = jobs,
            fb_source_polls = jobs * 2, fb_llm_units = max 1 (jobs div 10),
            fb_backfill_units = jobs\<rparr>)"
  define bs where "bs = map2 budget scores alloc"
  have fields: "map fb_forecast_jobs bs = alloc" "map fb_family bs = map fs_family scores" "length bs = ?n"
    unfolding bs_def map2_field(1) [OF len [symmetric]]
    by (simp_all add: budget_def map2_field(2,3) [OF len [symmetric]] len)
  have jobs: "fb_forecast_jobs f \<in> set alloc" if "f \<in> set bs" for f
    using that fields(1) by (metis image_eqI set_map)
  let ?b = "\<lparr>rb_total_forecast_jobs = jobs, rb_total_source_polls = jobs * 2,
    rb_total_llm_units = sum_list (map fb_llm_units bs), rb_total_backfill_units = jobs,
    rb_exploration_floor = floor_share, rb_family_budgets = bs, rb_production_influence = 0\<rparr>"
  have "allocate_budget scores jobs floor_share = ResearchBudget_post_init ?b"
    using assms(1) by (simp only: allocate_budget_def Let_def if_False alloc_def [symmetric]
        budget_def [symmetric] bs_def [symmetric])
  also have "\<dots> = Inr ?b"
  proof -
    have "bs \<noteq> []" using fields(3) n by auto
    moreover have "\<not> list_ex (\<lambda>f. fb_forecast_jobs f < ?min) bs"
      using jobs least by (auto simp: list_ex_iff not_less)
    ultimately show ?thesis
      using assms(3,4) by (simp add: ResearchBudget_post_init_def fields(3))
  qed
  finally have "allocate_budget scores jobs floor_share = Inr ?b" .
  moreover have "?min = \<lfloor>?x\<rfloor>" using x by (simp add: int_part_def)
  then have "\<forall>f \<in> set bs. \<lfloor>?x\<rfloor> \<le> fb_forecast_jobs f" using jobs least by auto
  ultimately show ?thesis using fields(1,2) spent by (intro exI [of _ ?b]) simp
qed

theorem budget_is_spent_above_the_floor_witness:
  "\<exists>b. allocate_budget [FamilyScore_calculate \<lparr>fs_family = ''w'', fs_market_count = 1,
      fs_usable_markets = 1, fs_unique_settled_events = 5, fs_forecast_coverage = 1,
      fs_market_relative_skill = None, fs_calibration_quality = 0, fs_abstention_rate = 0,
      fs_data_completeness = 0, fs_source_reliability = 0, fs_median_latency_ms = 0,
      fs_liquidity_quality = 0, fs_monthly_research_cost = 0, fs_operational_complexity = 0,
      fs_research_score = 0\<rparr>] 7 (1 / 5) = Inr b \<and>
    sum_list (map fb_forecast_jobs (rb_family_budgets b)) = 7"
  using budget_is_spent_above_the_floor [of "[_]" 7 "1 / 5"] by fastforce

end
