(* ===== verification/Autonomy.thy ===== *)
theory Autonomy
  imports Canary_Domain Tables
begin

text \<open>
  \<open>services/bounded_autonomy\<close>: the governance artifacts of bounded autonomy (\<open>domain.py\<close>) and
  their durable store (\<open>store.py\<close>). The runtime row, the readiness snapshots, the proposals and
  the event journal are the store's tables; reopening the store, persisting and recovering are its
  operations. Autonomy is \<open>OFF\<close> in every state the operations reach.
\<close>

section \<open>Policy and evidence\<close>

text \<open>A datetime that may lack a time zone, as the constructors receive it.\<close>

datatype zoned = Zoned stamp | Unzoned instant

fun zoned_at :: "zoned \<Rightarrow> instant" where
  "zoned_at (Zoned z) = zt_at z"
| "zoned_at (Unzoned t) = t"

fun has_zone :: "zoned \<Rightarrow> bool" where
  "has_zone (Zoned z) = True"
| "has_zone (Unzoned t) = False"

fun zoned_text :: "zoned \<Rightarrow> string" where
  "zoned_text (Zoned z) = iso_text z"
| "zoned_text (Unzoned t) = (let x = isoformat t in take (length x - 6) x)"

datatype AutonomyState = AUTONOMY_OFF

definition AutonomyState_value :: "AutonomyState \<Rightarrow> string" where
  "AutonomyState_value s = ''OFF''"

datatype EvidenceState = EVIDENCE_VERIFIED | EVIDENCE_NOT_VERIFIED | EVIDENCE_BLOCKED

definition EvidenceState_value :: "EvidenceState \<Rightarrow> string" where
  "EvidenceState_value s = (case s of EVIDENCE_VERIFIED \<Rightarrow> ''VERIFIED''
     | EVIDENCE_NOT_VERIFIED \<Rightarrow> ''NOT_VERIFIED'' | EVIDENCE_BLOCKED \<Rightarrow> ''BLOCKED'')"

record BoundedAutonomyPolicy =
  bp_policy_id :: string
  bp_version :: string
  bp_maximum_order_quantity :: decimal
  bp_maximum_concurrent_orders :: int
  bp_maximum_markets :: int
  bp_human_approval_required :: bool
  bp_automatic_scaling_allowed :: bool
  bp_production_activation_available :: bool
  bp_production_state :: AutonomyState

definition default_autonomy_policy :: BoundedAutonomyPolicy where
  "default_autonomy_policy = \<lparr>bp_policy_id = ''m17-offline-policy'', bp_version = ''1'',
     bp_maximum_order_quantity = 1, bp_maximum_concurrent_orders = 1, bp_maximum_markets = 1,
     bp_human_approval_required = True, bp_automatic_scaling_allowed = False,
     bp_production_activation_available = False, bp_production_state = AUTONOMY_OFF\<rparr>"

definition BoundedAutonomyPolicy_post_init ::
    "BoundedAutonomyPolicy \<Rightarrow> BoundedAutonomyPolicy result" where
  "BoundedAutonomyPolicy_post_init p =
     (if bp_maximum_order_quantity p \<noteq> 1
      then Inl (ValueError ''M17 research ceiling cannot exceed one contract'')
      else if bp_maximum_concurrent_orders p \<noteq> 1 \<or> bp_maximum_markets p \<noteq> 1
      then Inl (ValueError ''M17 cannot broaden concurrent production authority'')
      else if \<not> bp_human_approval_required p \<or> bp_automatic_scaling_allowed p
      then Inl (ValueError ''human approval is mandatory and scaling is forbidden'')
      else if bp_production_activation_available p \<or> bp_production_state p \<noteq> AUTONOMY_OFF
      then Inl (ValueError ''M17 autonomy must remain OFF'')
      else Inr p)"

text \<open>The evidence is its twenty named flags, in the order the dataclass declares them.\<close>

definition EVIDENCE_FIELDS :: "string list" where
  "EVIDENCE_FIELDS = [''supervised_canary_live_verified'', ''canary_operationally_complete'',
     ''canary_reconciled'', ''no_unknown_orders'', ''no_unknown_positions'',
     ''real_reconciliation_verified'', ''strategy_evidence_sufficient'', ''drawdown_acceptable'',
     ''concentration_acceptable'', ''m13_limits_current'', ''m14_demo_current'',
     ''signer_runtime_verified'', ''postgres_concurrency_verified'', ''api_compatibility_current'',
     ''production_read_current'', ''compliance_clear'', ''global_halt_clear'', ''kills_clear'',
     ''write_credential_installed'', ''human_governance_approved'']"

type_synonym AutonomyEvidence = "string \<Rightarrow> bool"

definition AutonomyEvidence_state :: "AutonomyEvidence \<Rightarrow> AutonomyState" where
  "AutonomyEvidence_state e = AUTONOMY_OFF"

definition evidence_missing :: "AutonomyEvidence \<Rightarrow> string list" where
  "evidence_missing e = filter (\<lambda>name. \<not> e name) EVIDENCE_FIELDS"

definition classifications :: "AutonomyEvidence \<Rightarrow> (string \<times> EvidenceState) list" where
  "classifications e = map (\<lambda>name.
     (name, if e name then EVIDENCE_VERIFIED else EVIDENCE_NOT_VERIFIED)) EVIDENCE_FIELDS"

record AutonomyReadinessSnapshot =
  as_snapshot_id :: string
  as_observed_at :: zoned
  as_evidence :: AutonomyEvidence
  as_policy_version :: string
  as_code_sha :: string
  as_content_hash :: string

definition AutonomyReadinessSnapshot_post_init ::
    "digest_fn \<Rightarrow> AutonomyReadinessSnapshot \<Rightarrow> AutonomyReadinessSnapshot result" where
  "AutonomyReadinessSnapshot_post_init dig s =
     (if \<not> has_zone (as_observed_at s)
      then Inl (ValueError ''readiness timestamp must be timezone aware'')
      else Inr (s\<lparr>as_content_hash := dig (sorted_object
        [(''snapshot_id'', HStr (as_snapshot_id s)),
         (''observed_at'', HStr (isoformat (zoned_at (as_observed_at s)))),
         (''evidence'', sorted_object (map (\<lambda>(name, v). (name, HStr (EvidenceState_value v)))
            (classifications (as_evidence s)))),
         (''policy_version'', HStr (as_policy_version s)),
         (''code_sha'', HStr (as_code_sha s)),
         (''state'', HStr (AutonomyState_value AUTONOMY_OFF))])\<rparr>))"

record BoundedAutonomyProposal =
  ap_proposal_id :: string
  ap_readiness_hash :: string
  ap_created_at :: zoned
  ap_expires_at :: zoned
  ap_rationale :: string
  ap_requested_state :: AutonomyState
  ap_production_influence :: string
  ap_content_hash :: string

definition BoundedAutonomyProposal_post_init ::
    "digest_fn \<Rightarrow> BoundedAutonomyProposal \<Rightarrow> BoundedAutonomyProposal result" where
  "BoundedAutonomyProposal_post_init dig p =
     (if \<not> has_zone (ap_created_at p) \<or> \<not> has_zone (ap_expires_at p)
      then Inl (ValueError ''proposal timestamps must be timezone aware'')
      else if py_strip (ap_rationale p) = []
      then Inl (ValueError ''proposal rationale is required'')
      else if ap_requested_state p \<noteq> AUTONOMY_OFF \<or> ap_production_influence p \<noteq> ''NONE''
      then Inl (ValueError ''M17 proposals cannot activate production'')
      else if zoned_at (ap_expires_at p) \<le> zoned_at (ap_created_at p) \<or>
        zoned_at (ap_expires_at p) - zoned_at (ap_created_at p) > days 7
      then Inl (ValueError ''proposal lifetime must be positive and at most seven days'')
      else Inr (p\<lparr>ap_content_hash := dig (HList [HStr (ap_proposal_id p),
        HStr (ap_readiness_hash p), HStr (zoned_text (ap_created_at p)),
        HStr (zoned_text (ap_expires_at p)), HStr (ap_rationale p),
        HStr (AutonomyState_value (ap_requested_state p)), HStr (ap_production_influence p)])\<rparr>))"

record AutonomyDecision =
  ad_state :: AutonomyState
  ad_missing_gates :: "string list"
  ad_production_state :: string
  ad_production_write_credential :: string
  ad_real_money_execution_authorized :: bool

definition evaluate_autonomy ::
    "AutonomyReadinessSnapshot \<Rightarrow> BoundedAutonomyPolicy option \<Rightarrow> AutonomyDecision result" where
  "evaluate_autonomy snapshot policy =
     (let policy = (case policy of None \<Rightarrow> default_autonomy_policy | Some p \<Rightarrow> p)
      in if bp_production_state policy \<noteq> AUTONOMY_OFF
         then Inl (ValueError ''invalid M17 policy state'')
         else Inr \<lparr>ad_state = AUTONOMY_OFF, ad_missing_gates = evidence_missing (as_evidence snapshot),
           ad_production_state = ''DISARMED'', ad_production_write_credential = ''NONE'',
           ad_real_money_execution_authorized = False\<rparr>)"

section \<open>The store\<close>

record autonomy_snapshot_row =
  sr_snapshot_id :: string
  sr_observed_at :: string
  sr_policy_version :: string
  sr_content_hash :: string
  sr_missing_gates :: string
  sr_state :: string

record autonomy_proposal_row =
  pr_proposal_id :: string
  pr_readiness_hash :: string
  pr_created_at :: string
  pr_expires_at :: string
  pr_rationale :: string
  pr_content_hash :: string
  pr_requested_state :: string
  pr_production_influence :: string

record autonomy_event =
  ae_happened_at :: string
  ae_event_type :: string
  ae_reference_hash :: string

record AutonomyStore =
  at_runtime :: "(string \<times> string) option"
  at_snapshots :: "autonomy_snapshot_row list"
  at_proposals :: "autonomy_proposal_row list"
  at_events :: "autonomy_event list"

definition no_autonomy_tables :: AutonomyStore where
  "no_autonomy_tables = \<lparr>at_runtime = None, at_snapshots = [], at_proposals = [], at_events = []\<rparr>"

text \<open>\<open>__init__\<close> keeps the tables that exist and replaces the runtime row.\<close>

definition autonomy_open :: "AutonomyStore \<Rightarrow> AutonomyStore" where
  "autonomy_open st = st\<lparr>at_runtime := Some (''OFF'', ''DISARMED'')\<rparr>"

fun comma_join :: "string list \<Rightarrow> string" where
  "comma_join [] = []"
| "comma_join [x] = x"
| "comma_join (x # y # xs) = x @ '','' @ comma_join (y # xs)"

definition persist_snapshot :: "AutonomyReadinessSnapshot \<Rightarrow> AutonomyStore \<Rightarrow> AutonomyStore result" where
  "persist_snapshot s st =
     (case sql_insert [\<lambda>r. Some (sr_snapshot_id r), \<lambda>r. Some (sr_content_hash r)]
         \<lparr>sr_snapshot_id = as_snapshot_id s, sr_observed_at = zoned_text (as_observed_at s),
          sr_policy_version = as_policy_version s, sr_content_hash = as_content_hash s,
          sr_missing_gates = comma_join (evidence_missing (as_evidence s)), sr_state = ''OFF''\<rparr>
         (at_snapshots st) of
        None \<Rightarrow> Inl IntegrityError
      | Some rows \<Rightarrow> Inr (st\<lparr>at_snapshots := rows\<rparr>))"

definition proposal_row :: "BoundedAutonomyProposal \<Rightarrow> autonomy_proposal_row" where
  "proposal_row p = \<lparr>pr_proposal_id = ap_proposal_id p, pr_readiness_hash = ap_readiness_hash p,
     pr_created_at = zoned_text (ap_created_at p), pr_expires_at = zoned_text (ap_expires_at p),
     pr_rationale = ap_rationale p, pr_content_hash = ap_content_hash p,
     pr_requested_state = AutonomyState_value (ap_requested_state p),
     pr_production_influence = ap_production_influence p\<rparr>"

text \<open>\<open>clk\<close> is what \<open>datetime.now(UTC)\<close> returns. The row checks of the table come with the insert.\<close>

definition persist_proposal ::
    "instant \<Rightarrow> BoundedAutonomyProposal \<Rightarrow> AutonomyStore \<Rightarrow> AutonomyStore result" where
  "persist_proposal clk p st =
     (let row = proposal_row p
      in if pr_requested_state row \<noteq> ''OFF'' \<or> pr_production_influence row \<noteq> ''NONE''
         then Inl IntegrityError
         else (case sql_insert [\<lambda>r. Some (pr_proposal_id r), \<lambda>r. Some (pr_content_hash r)] row
             (at_proposals st) of
             None \<Rightarrow> Inl IntegrityError
           | Some rows \<Rightarrow> Inr (st\<lparr>at_proposals := rows, at_events := at_events st @
               [\<lparr>ae_happened_at = isoformat clk, ae_event_type = ''AUTONOMY_PROPOSAL_RECORDED_OFF_ONLY'',
                 ae_reference_hash = ap_content_hash p\<rparr>]\<rparr>)))"

definition autonomy_recover :: "AutonomyStore \<Rightarrow> AutonomyStore \<times> (string \<times> string)" where
  "autonomy_recover st =
     (case at_runtime st of
        None \<Rightarrow> (st, (''OFF'', ''DISARMED''))
      | Some _ \<Rightarrow> (st\<lparr>at_runtime := Some (''OFF'', ''DISARMED'')\<rparr>, (''OFF'', ''DISARMED'')))"

text \<open>The operations as a transition system; a refused insert leaves the store as it was.\<close>

inductive autonomy_step :: "AutonomyStore \<Rightarrow> AutonomyStore \<Rightarrow> bool" where
  reopen: "autonomy_step st (autonomy_open st)"
| keep_snapshot: "persist_snapshot s st = Inr st' \<Longrightarrow> autonomy_step st st'"
| keep_proposal: "persist_proposal clk p st = Inr st' \<Longrightarrow> autonomy_step st st'"
| recovered: "autonomy_recover st = (st', r) \<Longrightarrow> autonomy_step st st'"

inductive autonomy_reachable :: "AutonomyStore \<Rightarrow> bool" where
  created: "autonomy_reachable (autonomy_open no_autonomy_tables)"
| stepped: "autonomy_reachable st \<Longrightarrow> autonomy_step st st' \<Longrightarrow> autonomy_reachable st'"

inductive_cases autonomy_stepE: "autonomy_step st st'"

section \<open>Autonomy stays off\<close>

definition autonomy_inv :: "AutonomyStore \<Rightarrow> bool" where
  "autonomy_inv st \<longleftrightarrow> at_runtime st = Some (''OFF'', ''DISARMED'') \<and>
     distinct (map pr_proposal_id (at_proposals st)) \<and>
     distinct (map sr_snapshot_id (at_snapshots st)) \<and>
     (\<forall>r \<in> set (at_proposals st). pr_requested_state r = ''OFF'' \<and> pr_production_influence r = ''NONE'') \<and>
     (\<forall>r \<in> set (at_snapshots st). sr_state r = ''OFF'') \<and>
     map ae_reference_hash (at_events st) = map pr_content_hash (at_proposals st) \<and>
     distinct (map pr_content_hash (at_proposals st))"

lemma sql_insert_distinct:
  assumes "sql_insert cs r tab = Some tab'" and "(\<lambda>r. Some (f r)) \<in> set cs" and "distinct (map f tab)"
  shows "distinct (map f tab')"
  using unique_col_insert [OF _ assms(1,2)] assms(3) by (simp add: unique_col_Some)

lemma autonomy_inv_open: "autonomy_inv (autonomy_open no_autonomy_tables)"
  by (simp add: autonomy_inv_def autonomy_open_def no_autonomy_tables_def)

lemma autonomy_inv_snapshot:
  assumes "autonomy_inv st" and "persist_snapshot s st = Inr st'" shows "autonomy_inv st'"
proof -
  from assms(2) obtain row rows where ins: "sql_insert [\<lambda>r. Some (sr_snapshot_id r),
      \<lambda>r. Some (sr_content_hash r)] row (at_snapshots st) = Some rows"
    and "sr_state row = ''OFF''" and st': "st' = st\<lparr>at_snapshots := rows\<rparr>"
    by (auto simp: persist_snapshot_def split: option.splits)
  moreover have "distinct (map sr_snapshot_id rows)"
    using sql_insert_distinct [OF ins] assms(1) by (simp add: autonomy_inv_def)
  ultimately show ?thesis using assms(1) by (auto simp: autonomy_inv_def sql_insert_Some)
qed

lemma autonomy_inv_proposal:
  assumes "autonomy_inv st" and "persist_proposal clk p st = Inr st'" shows "autonomy_inv st'"
proof -
  let ?row = "proposal_row p"
  from assms(2) obtain rows where ins: "sql_insert [\<lambda>r. Some (pr_proposal_id r),
      \<lambda>r. Some (pr_content_hash r)] ?row (at_proposals st) = Some rows"
    and ok: "pr_requested_state ?row = ''OFF''" "pr_production_influence ?row = ''NONE''"
    and st': "at_proposals st' = rows" "map ae_reference_hash (at_events st') =
      map ae_reference_hash (at_events st) @ [pr_content_hash ?row]"
      "at_runtime st' = at_runtime st" "at_snapshots st' = at_snapshots st"
    by (auto simp: persist_proposal_def Let_def proposal_row_def split: if_splits option.splits)
  have "distinct (map pr_proposal_id rows)" "distinct (map pr_content_hash rows)"
    using sql_insert_distinct [OF ins] assms(1) by (simp_all add: autonomy_inv_def)
  moreover have "rows = at_proposals st @ [?row]" using ins by (simp add: sql_insert_Some)
  ultimately show ?thesis using assms(1) ok by (auto simp: autonomy_inv_def st')
qed

lemma autonomy_inv_step: "autonomy_step st st' \<Longrightarrow> autonomy_inv st \<Longrightarrow> autonomy_inv st'"
proof (induction rule: autonomy_step.induct)
  case (reopen st)
  then show ?case by (simp add: autonomy_inv_def autonomy_open_def)
next
  case (recovered st st' r)
  then show ?case by (auto simp: autonomy_inv_def autonomy_recover_def split: option.splits)
next
  case (keep_snapshot s st st')
  then show ?case using autonomy_inv_snapshot by blast
next
  case (keep_proposal clk p st st')
  then show ?case using autonomy_inv_proposal by blast
qed

lemma autonomy_reachable_inv: "autonomy_reachable st \<Longrightarrow> autonomy_inv st"
proof (induction rule: autonomy_reachable.induct)
  case created
  show ?case by (rule autonomy_inv_open)
next
  case (stepped st st')
  then show ?case using autonomy_inv_step by blast
qed

end
