(* ===== verification/Operations.thy ===== *)
theory Operations
  imports Autonomy
begin

text \<open>
  \<open>services/operations\<close>: the operational readiness snapshot and budget (\<open>domain.py\<close>), the queue
  policy (\<open>queues.py\<close>), the contract drift gate (\<open>api_compatibility.py\<close>), the metric registry
  and trace identifiers (\<open>observability.py\<close>) and the backup manifests (\<open>backup.py\<close>).
\<close>

section \<open>Readiness\<close>

datatype DependencyState = HEALTHY | DEGRADED | FAILED | UNKNOWN

definition DependencyState_value :: "DependencyState \<Rightarrow> string" where
  "DependencyState_value s = (case s of HEALTHY \<Rightarrow> ''HEALTHY'' | DEGRADED \<Rightarrow> ''DEGRADED''
     | FAILED \<Rightarrow> ''FAILED'' | UNKNOWN \<Rightarrow> ''UNKNOWN'')"

datatype ReadinessState = READY_READ_ONLY | DEGRADED_READ_ONLY | NOT_READY

record DependencyObservation =
  dp_name :: string
  dp_state :: DependencyState
  dp_observed_at :: datetime
  dp_maximum_age :: duration
  dp_required_for_new_risk :: bool
  dp_detail_code :: string

definition DependencyObservation_post_init ::
    "DependencyObservation \<Rightarrow> DependencyObservation result" where
  "DependencyObservation_post_init d =
     (if \<not> tz_aware (dp_observed_at d)
      then Inl (ValueError ''dependency observation must be timezone aware'')
      else if dp_maximum_age d \<le> 0 then Inl (ValueError ''maximum age must be positive'')
      else if dp_name d = [] \<or> dp_detail_code d = []
      then Inl (ValueError ''safe dependency name and detail code are required'')
      else Inr d)"

definition dependency_current :: "DependencyObservation \<Rightarrow> instant \<Rightarrow> bool" where
  "dependency_current d now \<longleftrightarrow> now \<ge> astimezone_utc (dp_observed_at d) \<and>
     now - astimezone_utc (dp_observed_at d) \<le> dp_maximum_age d"

record OperationalSnapshot =
  os_snapshot_id :: string
  os_observed_at :: datetime
  os_dependencies :: "DependencyObservation list"
  os_reconciliation_current :: bool
  os_no_unknown_orders :: bool
  os_no_unknown_positions :: bool
  os_global_halt_clear :: bool
  os_compliance_clear :: bool
  os_kill_states_clear :: bool
  os_clock_safe :: bool
  os_disk_safe :: bool
  os_backup_current :: bool
  os_monitoring_current :: bool
  os_content_hash :: string

text \<open>\<open>total_seconds\<close> of the maximum age is its exact number of seconds.\<close>

definition dependency_payload :: "DependencyObservation \<Rightarrow> hashable" where
  "dependency_payload d = sorted_object
     [(''name'', HStr (dp_name d)), (''state'', HStr (DependencyState_value (dp_state d))),
      (''observed_at'', HStr (isoformat (astimezone_utc (dp_observed_at d)))),
      (''maximum_age_seconds'', HDec (of_int (dp_maximum_age d) / 1000000)),
      (''required_for_new_risk'', HBool (dp_required_for_new_risk d)),
      (''detail_code'', HStr (dp_detail_code d))]"

definition safety_flags :: "OperationalSnapshot \<Rightarrow> bool list" where
  "safety_flags s = [os_reconciliation_current s, os_no_unknown_orders s, os_no_unknown_positions s,
     os_global_halt_clear s, os_compliance_clear s, os_kill_states_clear s, os_clock_safe s,
     os_disk_safe s, os_backup_current s, os_monitoring_current s]"

definition OperationalSnapshot_post_init ::
    "digest_fn \<Rightarrow> OperationalSnapshot \<Rightarrow> OperationalSnapshot result" where
  "OperationalSnapshot_post_init dig s =
     (if \<not> tz_aware (os_observed_at s) then Inl (ValueError ''snapshot time must be timezone aware'')
      else if \<not> distinct (map dp_name (os_dependencies s))
      then Inl (ValueError ''dependency observations must be unique'')
      else Inr (s\<lparr>os_content_hash := dig (sorted_object
        [(''snapshot_id'', HStr (os_snapshot_id s)),
         (''observed_at'', HStr (isoformat (astimezone_utc (os_observed_at s)))),
         (''dependencies'', HList (map dependency_payload (os_dependencies s))),
         (''safety'', HList (map HBool (safety_flags s)))])\<rparr>))"

definition SAFETY_GATES :: "string list" where
  "SAFETY_GATES = [''RECONCILIATION_STALE'', ''UNKNOWN_ORDERS'', ''UNKNOWN_POSITIONS'',
     ''GLOBAL_HALT'', ''COMPLIANCE_BLOCK'', ''KILL_STATE'', ''CLOCK_UNSAFE'', ''DISK_UNSAFE'',
     ''BACKUP_STALE'', ''MONITORING_STALE'']"

definition dependency_blocker :: "instant \<Rightarrow> DependencyObservation \<Rightarrow> string" where
  "dependency_blocker now d = ''DEPENDENCY_'' @ py_upper (dp_name d) @ ''_'' @
     (if \<not> dependency_current d now then ''STALE'' else DependencyState_value (dp_state d))"

definition operational_blockers :: "OperationalSnapshot \<Rightarrow> instant \<Rightarrow> string list" where
  "operational_blockers s now =
     map (dependency_blocker now) (filter (\<lambda>d. dp_required_for_new_risk d \<and>
       (\<not> dependency_current d now \<or> dp_state d \<noteq> HEALTHY)) (os_dependencies s)) @
     map fst (filter (\<lambda>(code, clear). \<not> clear) (zip SAFETY_GATES (safety_flags s)))"

definition operational_readiness :: "OperationalSnapshot \<Rightarrow> instant \<Rightarrow> ReadinessState" where
  "operational_readiness s now =
     (if operational_blockers s now \<noteq> [] then NOT_READY
      else if list_ex (\<lambda>d. dp_state d \<noteq> HEALTHY) (os_dependencies s) then DEGRADED_READ_ONLY
      else READY_READ_ONLY)"

text \<open>Not ready exactly when a required dependency is stale or unhealthy or a safety flag is off;
  ready exactly when moreover no dependency at all is unhealthy.\<close>

lemma operational_blockers_Nil:
  "operational_blockers s now = [] \<longleftrightarrow>
     (\<forall>d \<in> set (os_dependencies s). dp_required_for_new_risk d \<longrightarrow>
        dependency_current d now \<and> dp_state d = HEALTHY) \<and> (\<forall>b \<in> set (safety_flags s). b)"
  by (auto simp: operational_blockers_def filter_empty_conv SAFETY_GATES_def safety_flags_def)

lemma operational_readiness_ready:
  "operational_readiness s now = READY_READ_ONLY \<longleftrightarrow>
     (\<forall>d \<in> set (os_dependencies s). dp_state d = HEALTHY \<and>
        (dp_required_for_new_risk d \<longrightarrow> dependency_current d now)) \<and>
     (\<forall>b \<in> set (safety_flags s). b)"
  by (auto simp: operational_readiness_def operational_blockers_Nil list_ex_iff)

section \<open>Budget and restart\<close>

record OperationalBudget =
  ob_target_monthly_usd :: decimal
  ob_hard_cap_monthly_usd :: decimal
  ob_observed_monthly_usd :: "decimal option"

definition OperationalBudget_post_init :: "OperationalBudget \<Rightarrow> OperationalBudget result" where
  "OperationalBudget_post_init b =
     (if ob_target_monthly_usd b \<noteq> 25 then Inl (ValueError ''M18 target must remain $25/month'')
      else if ob_hard_cap_monthly_usd b \<noteq> 50
      then Inl (ValueError ''M18 hard cap must remain $50/month'')
      else if (case ob_observed_monthly_usd b of None \<Rightarrow> False | Some x \<Rightarrow> x < 0)
      then Inl (ValueError ''observed cost cannot be negative'')
      else Inr b)"

definition budget_state :: "OperationalBudget \<Rightarrow> string" where
  "budget_state b = (case ob_observed_monthly_usd b of None \<Rightarrow> ''NOT_VERIFIED''
     | Some x \<Rightarrow> if x \<ge> ob_hard_cap_monthly_usd b then ''HARD_CAP_REACHED''
         else if x > ob_target_monthly_usd b then ''ABOVE_TARGET'' else ''WITHIN_TARGET'')"

datatype ProductionSafetyState = PRODUCTION_DISARMED

record RestartRecoveryDecision =
  rr_production_state :: ProductionSafetyState
  rr_autonomy_state :: string
  rr_write_credential_state :: string
  rr_permit_new_risk :: bool
  rr_reconcile_execution_journals :: bool
  rr_recover_risk_reservations :: bool
  rr_resume_unknown_mutations :: bool

definition restart_recovery_decision :: RestartRecoveryDecision where
  "restart_recovery_decision = \<lparr>rr_production_state = PRODUCTION_DISARMED, rr_autonomy_state = ''OFF'',
     rr_write_credential_state = ''NONE'', rr_permit_new_risk = False,
     rr_reconcile_execution_journals = True, rr_recover_risk_reservations = True,
     rr_resume_unknown_mutations = False\<rparr>"

section \<open>Queues\<close>

record QueuePolicy =
  qp_soft_limit :: int
  qp_hard_limit :: int
  qp_maximum_delivery_attempts :: int

definition QueuePolicy_post_init :: "QueuePolicy \<Rightarrow> QueuePolicy result" where
  "QueuePolicy_post_init q =
     (if \<not> (0 < qp_soft_limit q \<and> qp_soft_limit q < qp_hard_limit q)
      then Inl (ValueError ''queue limits must be ordered and positive'')
      else if qp_maximum_delivery_attempts q < 1
      then Inl (ValueError ''delivery attempt limit must be positive'')
      else Inr q)"

definition queue_action :: "QueuePolicy \<Rightarrow> int \<Rightarrow> int \<Rightarrow> string result" where
  "queue_action q depth attempts =
     (if depth < 0 \<or> attempts < 0 then Inl (ValueError ''queue counters cannot be negative'')
      else if attempts \<ge> qp_maximum_delivery_attempts q then Inr ''DEAD_LETTER_AND_ALERT''
      else if depth \<ge> qp_hard_limit q then Inr ''HALT_NEW_RISK''
      else if depth \<ge> qp_soft_limit q then Inr ''BACKPRESSURE_RESEARCH''
      else Inr ''ACCEPT'')"

text \<open>A deeper queue is never treated more leniently.\<close>

definition queue_severity :: "string \<Rightarrow> nat" where
  "queue_severity a = (if a = ''ACCEPT'' then 0 else if a = ''BACKPRESSURE_RESEARCH'' then 1
     else if a = ''HALT_NEW_RISK'' then 2 else 3)"

lemma queue_action_mono:
  assumes "is_ok (QueuePolicy_post_init q)" and "0 \<le> depth" "depth \<le> depth'" "0 \<le> n" "n \<le> n'"
  shows "\<exists>a b. queue_action q depth n = Inr a \<and> queue_action q depth' n' = Inr b \<and>
    queue_severity a \<le> queue_severity b"
  using assms by (auto simp: queue_action_def queue_severity_def QueuePolicy_post_init_def split: if_splits)

section \<open>Contract drift\<close>

record ApiContractEvidence =
  ac_openapi_sha256 :: "string option"
  ac_asyncapi_sha256 :: "string option"
  ac_changelog_sha256 :: "string option"
  ac_expected_openapi_sha256 :: string
  ac_expected_asyncapi_sha256 :: string
  ac_expected_changelog_sha256 :: string

definition api_observed :: "ApiContractEvidence \<Rightarrow> string option list" where
  "api_observed e = [ac_openapi_sha256 e, ac_asyncapi_sha256 e, ac_changelog_sha256 e]"

definition api_expected :: "ApiContractEvidence \<Rightarrow> string list" where
  "api_expected e = [ac_expected_openapi_sha256 e, ac_expected_asyncapi_sha256 e,
     ac_expected_changelog_sha256 e]"

definition api_compatible :: "ApiContractEvidence \<Rightarrow> bool" where
  "api_compatible e \<longleftrightarrow> list_all (\<lambda>v. case v of None \<Rightarrow> False | Some s \<Rightarrow> length s = 64) (api_observed e) \<and>
     api_observed e = map Some (api_expected e)"

definition api_blockers :: "ApiContractEvidence \<Rightarrow> string list" where
  "api_blockers e = map (\<lambda>(name, actual, baseline).
       name @ ''_'' @ (if actual = None then ''NOT_VERIFIED'' else ''DRIFT''))
     (filter (\<lambda>(name, actual, baseline). actual \<noteq> Some baseline)
       (zip [''OPENAPI'', ''ASYNCAPI'', ''CHANGELOG''] (zip (api_observed e) (api_expected e))))"

text \<open>A compatible contract has no blockers, but the absence of blockers does not make one
  compatible: equal texts that are not SHA-256 digests pass the list and fail the test.\<close>

lemma api_compatible_no_blockers: "api_compatible e \<Longrightarrow> api_blockers e = []"
  by (simp add: api_compatible_def api_blockers_def api_observed_def api_expected_def)

lemma api_blockers_Nil: "api_blockers e = [] \<longleftrightarrow> api_observed e = map Some (api_expected e)"
  by (auto simp: api_blockers_def api_observed_def api_expected_def)

lemma api_blockers_miss_short_digests:
  "\<exists>e. api_blockers e = [] \<and> \<not> api_compatible e"
proof (intro exI conjI)
  let ?e = "\<lparr>ac_openapi_sha256 = Some ''x'', ac_asyncapi_sha256 = Some ''x'',
    ac_changelog_sha256 = Some ''x'', ac_expected_openapi_sha256 = ''x'',
    ac_expected_asyncapi_sha256 = ''x'', ac_expected_changelog_sha256 = ''x''\<rparr>"
  show "api_blockers ?e = []" "\<not> api_compatible ?e"
    by (simp_all add: api_blockers_Nil api_compatible_def api_observed_def api_expected_def)
qed

section \<open>Observability\<close>

definition SAFE_METRIC_NAMES :: "string list" where
  "SAFE_METRIC_NAMES = [''dependency_failures_total'', ''queue_depth'', ''worker_restarts_total'',
     ''reconciliation_age_seconds'', ''unknown_mutations_total'', ''backup_age_seconds'',
     ''restore_drill_age_seconds'', ''disk_used_ratio'', ''monthly_cost_usd'']"

definition lower_hex :: "string \<Rightarrow> bool" where
  "lower_hex s \<longleftrightarrow> list_all (\<lambda>c. c \<in> set ''0123456789abcdef'') s"

record TraceContext =
  tc_trace_id :: string
  tc_span_id :: string

definition TraceContext_post_init :: "TraceContext \<Rightarrow> TraceContext result" where
  "TraceContext_post_init t =
     (if length (tc_trace_id t) \<noteq> 32 \<or> length (tc_span_id t) \<noteq> 16
      then Inl (ValueError ''trace identifiers have invalid length'')
      else if \<not> lower_hex (tc_trace_id t @ tc_span_id t)
      then Inl (ValueError ''trace identifiers must be lowercase hexadecimal'')
      else Inr t)"

text \<open>The registry is its dictionary; the value is the Decimal already read from the argument.\<close>

type_synonym MetricRegistry = "string \<rightharpoonup> decimal"

definition metric_set :: "string \<Rightarrow> decimal \<Rightarrow> MetricRegistry \<Rightarrow> MetricRegistry result" where
  "metric_set name value reg =
     (if name \<notin> set SAFE_METRIC_NAMES then Inl (ValueError ''metric name is not allowlisted'')
      else if value < 0 then Inl (ValueError ''metric value must be finite and non-negative'')
      else Inr (reg(name \<mapsto> value)))"

lemma metric_set_keeps_safe:
  assumes "metric_set name value reg = Inr reg'" and "\<forall>n v. reg n = Some v \<longrightarrow> n \<in> set SAFE_METRIC_NAMES \<and> 0 \<le> v"
  shows "\<forall>n v. reg' n = Some v \<longrightarrow> n \<in> set SAFE_METRIC_NAMES \<and> 0 \<le> v"
  using assms by (auto simp: metric_set_def split: if_splits)

section \<open>Backups\<close>

record BackupArtifact =
  ba_component :: string
  ba_object_name :: string
  ba_size_bytes :: int
  ba_sha256 :: string

definition BackupArtifact_post_init :: "BackupArtifact \<Rightarrow> BackupArtifact result" where
  "BackupArtifact_post_init b =
     (if ba_component b = [] \<or> ba_object_name b = [] \<or> ba_size_bytes b < 0
      then Inl (ValueError ''complete backup artifact metadata required'')
      else if length (ba_sha256 b) \<noteq> 64 \<or> \<not> lower_hex (ba_sha256 b)
      then Inl (ValueError ''artifact requires lowercase SHA-256'')
      else Inr b)"

record BackupManifest =
  bm_backup_id :: string
  bm_created_at :: datetime
  bm_schema_version :: string
  bm_artifacts :: "BackupArtifact list"
  bm_encrypted :: bool
  bm_content_hash :: string

definition BackupManifest_post_init :: "digest_fn \<Rightarrow> BackupManifest \<Rightarrow> BackupManifest result" where
  "BackupManifest_post_init dig m =
     (if \<not> tz_aware (bm_created_at m) \<or> \<not> bm_encrypted m \<or> bm_artifacts m = []
      then Inl (ValueError ''backup must be timestamped, encrypted, and non-empty'')
      else if \<not> distinct (map ba_component (bm_artifacts m))
      then Inl (ValueError ''one artifact per component is required'')
      else Inr (m\<lparr>bm_content_hash := dig (sorted_object
        [(''backup_id'', HStr (bm_backup_id m)),
         (''created_at'', HStr (isoformat (astimezone_utc (bm_created_at m)))),
         (''schema_version'', HStr (bm_schema_version m)),
         (''artifacts'', HList (map (\<lambda>a. HList [HStr (ba_component a), HStr (ba_object_name a),
            HInt (ba_size_bytes a), HStr (ba_sha256 a)]) (bm_artifacts m))),
         (''encrypted'', HBool (bm_encrypted m))])\<rparr>))"

record RestoreDrill =
  rd_drill_id :: string
  rd_manifest_hash :: string
  rd_performed_at :: datetime
  rd_isolated_target :: bool
  rd_checksums_verified :: bool
  rd_migrations_verified :: bool
  rd_row_counts_verified :: bool
  rd_application_smoke_verified :: bool
  rd_production_network_blocked :: bool

definition RestoreDrill_post_init :: "RestoreDrill \<Rightarrow> RestoreDrill result" where
  "RestoreDrill_post_init r =
     (if \<not> tz_aware (rd_performed_at r)
      then Inl (ValueError ''restore drill timestamp must be timezone aware'')
      else if length (rd_manifest_hash r) \<noteq> 64 \<or> \<not> lower_hex (rd_manifest_hash r)
      then Inl (ValueError ''restore drill requires manifest SHA-256'')
      else Inr r)"

definition restore_passed :: "RestoreDrill \<Rightarrow> bool" where
  "restore_passed r \<longleftrightarrow> rd_isolated_target r \<and> rd_checksums_verified r \<and> rd_migrations_verified r \<and>
     rd_row_counts_verified r \<and> rd_application_smoke_verified r \<and> rd_production_network_blocked r"

end
