(* ===== verification/Universe.thy ===== *)
theory Universe
  imports Decimals Replay_History
begin

text \<open>
  \<open>services/market_universe\<close>: exact price ladders, book levels and ticker chunks (\<open>pricing.py\<close>)
  and the parsers of series, events and markets (\<open>domain.py\<close>). A ladder parsed from the modern
  form tiles the interval from zero to one; on such a ladder \<open>next_above\<close> is the least valid price
  above the given one.
\<close>

section \<open>Decimal division with truncation\<close>

text \<open>Python's \<open>Decimal\<close> operators \<open>//\<close> and \<open>%\<close> truncate towards zero.\<close>

definition dec_quot :: "decimal \<Rightarrow> decimal \<Rightarrow> int" where
  "dec_quot a b = (if 0 \<le> a / b then \<lfloor>a / b\<rfloor> else \<lceil>a / b\<rceil>)"

definition dec_rem :: "decimal \<Rightarrow> decimal \<Rightarrow> decimal" where
  "dec_rem a b = a - of_int (dec_quot a b) * b"

lemma dec_rem_zero:
  assumes "0 < b" shows "dec_rem a b = 0 \<longleftrightarrow> (\<exists>k :: int. a = of_int k * b)"
proof
  assume "dec_rem a b = 0"
  then have "a = of_int (dec_quot a b) * b" by (simp add: dec_rem_def)
  then show "\<exists>k :: int. a = of_int k * b" ..
next
  assume "\<exists>k :: int. a = of_int k * b"
  then obtain k :: int where "a = of_int k * b" ..
  then have "a / b = of_int k" using assms by simp
  then have "dec_quot a b = k" by (simp add: dec_quot_def)
  with \<open>a = of_int k * b\<close> show "dec_rem a b = 0" by (simp add: dec_rem_def)
qed

lemma dec_quot_bounds:
  assumes "0 < b" and "0 \<le> a"
  shows "of_int (dec_quot a b) * b \<le> a" and "a < (of_int (dec_quot a b) + 1) * b"
proof -
  have q: "dec_quot a b = \<lfloor>a / b\<rfloor>" using assms by (simp add: dec_quot_def)
  have "of_int \<lfloor>a / b\<rfloor> \<le> a / b" by (rule of_int_floor_le)
  then show "of_int (dec_quot a b) * b \<le> a" unfolding q pos_le_divide_eq [OF assms(1)] .
  have "a / b < of_int \<lfloor>a / b\<rfloor> + 1" by linarith
  then show "a < (of_int (dec_quot a b) + 1) * b" unfolding q pos_divide_less_eq [OF assms(1)] .
qed

section \<open>Exact numbers\<close>

definition universe_exact :: "hashable option \<Rightarrow> string \<Rightarrow> decimal result" where
  "universe_exact value field = (case value of
     Some (HStr s) \<Rightarrow> (case decimal_of_string s of
         None \<Rightarrow> Inl (UniverseValidationError (''invalid '' @ field)) | Some d \<Rightarrow> Inr d)
   | _ \<Rightarrow> Inl (UniverseValidationError (field @ '' must be fixed-point string'')))"

definition exact_numeric :: "hashable \<Rightarrow> string \<Rightarrow> decimal result" where
  "exact_numeric value field = (case value of
     HInt n \<Rightarrow> Inr (of_int n)
   | HStr s \<Rightarrow> (case decimal_of_string s of
         None \<Rightarrow> Inl (UniverseValidationError (''invalid '' @ field)) | Some d \<Rightarrow> Inr d)
   | _ \<Rightarrow> Inl (UniverseValidationError (field @ '' must be integer or fixed-point string'')))"

text \<open>The exponent of the Decimal read from a text: trailing zeros count.\<close>

definition decimal_exponent :: "string \<Rightarrow> int option" where
  "decimal_exponent text =
     (let (sg, body) = split_sign (filter (\<lambda>c. c \<noteq> CHR ''_'') (py_strip text));
          rest = dropWhile is_digit body;
          (frac, tail) = (case rest of [] \<Rightarrow> ([], [])
             | c # cs \<Rightarrow> if c = CHR ''.'' then (takeWhile is_digit cs, dropWhile is_digit cs)
                 else ([], c # cs))
      in map_option (\<lambda>e. e - int (length frac)) (parse_exponent tail))"

definition parse_quantity :: "hashable option \<Rightarrow> decimal result" where
  "parse_quantity value = rbind (universe_exact value ''quantity'') (\<lambda>quantity.
     if quantity \<le> 0 then Inl (UniverseValidationError ''quantity unsupported'')
     else (case value of
        Some (HStr s) \<Rightarrow> (case decimal_exponent s of
            Some e \<Rightarrow> if - e > 2 then Inl (UniverseValidationError ''quantity precision unsupported'')
              else Inr quantity
          | None \<Rightarrow> Inr quantity)
      | _ \<Rightarrow> Inr quantity))"

section \<open>JSON values\<close>

text \<open>\<open>json.dumps\<close> with sorted keys writes equal dictionaries alike.\<close>

fun canonical :: "hashable \<Rightarrow> hashable" where
  "canonical (HList xs) = HList (map canonical xs)"
| "canonical (HObj kvs) = HObj (sort_key fst (map (\<lambda>kv. (fst kv, canonical (snd kv))) kvs))"
| "canonical v = v"

definition stable_hash :: "digest_fn \<Rightarrow> hashable \<Rightarrow> string" where
  "stable_hash dig v = dig (canonical v)"

text \<open>Python's truth value of a JSON value.\<close>

definition truthy :: "hashable \<Rightarrow> bool" where
  "truthy v = (case v of HStr s \<Rightarrow> s \<noteq> [] | HInt n \<Rightarrow> n \<noteq> 0 | HBool b \<Rightarrow> b | HNone \<Rightarrow> False
     | HDec d \<Rightarrow> d \<noteq> 0 | HTime t \<Rightarrow> True | HList xs \<Rightarrow> xs \<noteq> [] | HObj kvs \<Rightarrow> kvs \<noteq> [])"

text \<open>\<open>raw.get(key)\<close>: a missing key and a JSON null are both \<open>None\<close>.\<close>

definition get_value :: "json_obj \<Rightarrow> string \<Rightarrow> hashable option" where
  "get_value raw key = (case map_of raw key of None \<Rightarrow> None
     | Some v \<Rightarrow> if v = HNone then None else Some v)"

definition hval :: "hashable option \<Rightarrow> hashable" where
  "hval v = (case v of None \<Rightarrow> HNone | Some x \<Rightarrow> x)"

definition nonempty_text :: "hashable option \<Rightarrow> string option" where
  "nonempty_text v = (case v of Some (HStr s) \<Rightarrow> if s = [] then None else Some s | _ \<Rightarrow> None)"

section \<open>Price ladders\<close>

record PriceRange =
  pr_minimum :: decimal
  pr_maximum :: decimal
  pr_step :: decimal

definition PriceRange_post_init :: "PriceRange \<Rightarrow> PriceRange result" where
  "PriceRange_post_init r =
     (if pr_minimum r < 0 \<or> pr_maximum r > 1 \<or> pr_minimum r \<ge> pr_maximum r \<or> pr_step r \<le> 0
      then Inl (UniverseValidationError ''malformed price range'') else Inr r)"

definition range_contains :: "PriceRange \<Rightarrow> decimal \<Rightarrow> bool" where
  "range_contains r p \<longleftrightarrow> pr_minimum r \<le> p \<and> p \<le> pr_maximum r"

definition range_valid :: "PriceRange \<Rightarrow> decimal \<Rightarrow> bool" where
  "range_valid r p \<longleftrightarrow> range_contains r p \<and> dec_rem (p - pr_minimum r) (pr_step r) = 0"

record PriceLadder =
  pl_structure :: string
  pl_ranges :: "PriceRange list"

text \<open>A JSON array whose elements are objects or not; \<open>pairwise\<close> over the ordered ranges.\<close>

type_synonym json_array = "json_obj option list"

definition has_keys :: "string list \<Rightarrow> json_array \<Rightarrow> bool" where
  "has_keys ks xs \<longleftrightarrow> list_all (\<lambda>x. case x of None \<Rightarrow> False
     | Some obj \<Rightarrow> list_all (\<lambda>k. k \<in> fst ` set obj) ks) xs"

definition parse_range :: "bool \<Rightarrow> json_obj \<Rightarrow> PriceRange result" where
  "parse_range modern x =
     (let lo = if modern then ''start'' else ''min''; hi = if modern then ''end'' else ''max''
      in rbind (universe_exact (map_of x lo) lo) (\<lambda>minimum.
         rbind (universe_exact (map_of x hi) hi) (\<lambda>maximum.
         rbind (universe_exact (map_of x ''step'') ''step'') (\<lambda>step.
           PriceRange_post_init \<lparr>pr_minimum = minimum, pr_maximum = maximum, pr_step = step\<rparr>))))"

fun pairwise_any :: "('a \<Rightarrow> 'a \<Rightarrow> bool) \<Rightarrow> 'a list \<Rightarrow> bool" where
  "pairwise_any f (a # b # xs) \<longleftrightarrow> f a b \<or> pairwise_any f (b # xs)"
| "pairwise_any f xs \<longleftrightarrow> False"

definition PriceLadder_parse :: "hashable option \<Rightarrow> json_array option \<Rightarrow> PriceLadder result" where
  "PriceLadder_parse structure ranges = (case (structure, ranges) of
     (Some (HStr s), Some xs) \<Rightarrow>
       if s = [] \<or> xs = [] then Inl (UniverseValidationError ''unsupported price structure'')
       else let modern = has_keys [''start'', ''end'', ''step''] xs;
                legacy = has_keys [''min'', ''max'', ''step''] xs
         in if \<not> modern \<and> \<not> legacy then Inl (UniverseValidationError ''malformed price ranges'')
            else rbind (rmap (parse_range modern) (List.map_filter id xs)) (\<lambda>parsed.
              let ordered = sort_key pr_minimum parsed
              in if modern \<and> list_ex (\<lambda>r. dec_rem (pr_maximum r - pr_minimum r) (pr_step r) \<noteq> 0) ordered
                 then Inl (UniverseValidationError ''price range width not divisible by step'')
                 else if modern \<and> pairwise_any (\<lambda>a b. pr_maximum a \<noteq> pr_minimum b) ordered
                 then Inl (UniverseValidationError ''overlap or invalid gap'')
                 else if legacy \<and> pairwise_any (\<lambda>a b. pr_maximum a > pr_minimum b \<or>
                     pr_maximum a + pr_step a < pr_minimum b) ordered
                 then Inl (UniverseValidationError ''overlap or invalid gap'')
                 else if modern \<and> (pr_minimum (hd ordered) \<noteq> 0 \<or> pr_maximum (last ordered) \<noteq> 1)
                 then Inl (UniverseValidationError ''price ranges must cover zero through one'')
                 else Inr \<lparr>pl_structure = s, pl_ranges = ordered\<rparr>)
   | _ \<Rightarrow> Inl (UniverseValidationError ''unsupported price structure''))"

definition price_range :: "PriceLadder \<Rightarrow> decimal \<Rightarrow> PriceRange option" where
  "price_range l p = List.find (\<lambda>r. range_contains r p) (pl_ranges l)"

definition is_valid_price :: "PriceLadder \<Rightarrow> decimal \<Rightarrow> bool" where
  "is_valid_price l p \<longleftrightarrow> 0 < p \<and> p < 1 \<and> list_ex (\<lambda>r. range_valid r p) (pl_ranges l)"

definition min_default :: "decimal list \<Rightarrow> decimal option" where
  "min_default xs = (case xs of [] \<Rightarrow> None | x # ys \<Rightarrow> Some (foldl min x ys))"

definition max_default :: "decimal list \<Rightarrow> decimal option" where
  "max_default xs = (case xs of [] \<Rightarrow> None | x # ys \<Rightarrow> Some (foldl max x ys))"

definition candidate_above :: "decimal \<Rightarrow> PriceRange \<Rightarrow> decimal" where
  "candidate_above p r =
     pr_minimum r + of_int (dec_quot (p - pr_minimum r) (pr_step r) + 1) * pr_step r"

definition next_above :: "PriceLadder \<Rightarrow> decimal \<Rightarrow> decimal option" where
  "next_above l p = min_default (filter (\<lambda>v. v > p \<and> is_valid_price l v)
     (map (candidate_above p) (filter (\<lambda>r. p < pr_maximum r) (pl_ranges l))))"

definition candidate_below :: "decimal \<Rightarrow> PriceRange \<Rightarrow> decimal" where
  "candidate_below p r =
     (let c = pr_minimum r + of_int (dec_quot (p - pr_minimum r) (pr_step r)) * pr_step r
      in if c \<ge> p then c - pr_step r else c)"

definition next_below :: "PriceLadder \<Rightarrow> decimal \<Rightarrow> decimal option" where
  "next_below l p = max_default (map (candidate_below p)
     (filter (\<lambda>r. p > pr_minimum r \<and> range_valid r (candidate_below p r)) (pl_ranges l)))"

section \<open>Book levels and chunks\<close>

record Level =
  lv_price :: decimal
  lv_size :: decimal

text \<open>The elements of a level array: a JSON list of two values, or anything else.\<close>

definition parse_rest_level :: "hashable \<Rightarrow> Level result" where
  "parse_rest_level item = (case item of
     HList [a, b] \<Rightarrow>
       rbind (universe_exact (Some a) ''book price'') (\<lambda>p. rbind (universe_exact (Some b) ''book size'') (\<lambda>s.
         if p \<le> 0 \<or> p \<ge> 1 \<or> s \<le> 0 then Inl (UniverseValidationError ''invalid book level'')
         else Inr \<lparr>lv_price = p, lv_size = s\<rparr>))
   | _ \<Rightarrow> Inl (UniverseValidationError ''malformed book level''))"

definition parse_rest_levels :: "hashable option \<Rightarrow> Level list result" where
  "parse_rest_levels raw = (case raw of Some (HList items) \<Rightarrow> rmap parse_rest_level items
     | _ \<Rightarrow> Inl (UniverseValidationError ''book levels missing''))"

record RestBook =
  nr_yes_bids :: "Level list"
  nr_no_bids :: "Level list"
  nr_best_yes_bid :: "decimal option"
  nr_best_yes_ask :: "decimal option"
  nr_spread :: "decimal option"
  nr_observed_at :: datetime
  nr_ingested_at :: datetime

definition normalize_book :: "hashable option \<Rightarrow> hashable option \<Rightarrow> datetime \<Rightarrow> datetime \<Rightarrow>
    RestBook result" where
  "normalize_book yes no observed_at ingested_at =
     rbind (parse_rest_levels yes) (\<lambda>y. rbind (parse_rest_levels no) (\<lambda>n.
       let bid = max_default (map lv_price y); no_bid = max_default (map lv_price n);
           ask = map_option (\<lambda>b. 1 - b) no_bid
       in Inr \<lparr>nr_yes_bids = y, nr_no_bids = n, nr_best_yes_bid = bid, nr_best_yes_ask = ask,
         nr_spread = (case (bid, ask) of (Some b, Some a) \<Rightarrow> Some (a - b) | _ \<Rightarrow> None),
         nr_observed_at = observed_at, nr_ingested_at = ingested_at\<rparr>))"

text \<open>Every hundredth index starts a slice.\<close>

function chunk_tickers :: "string list \<Rightarrow> string list list" where
  "chunk_tickers tickers =
     (if tickers = [] then [] else take 100 tickers # chunk_tickers (drop 100 tickers))"
  by pat_completeness auto
termination by (relation "measure length") auto

declare chunk_tickers.simps [simp del]

lemma chunk_tickers_partition:
  "concat (chunk_tickers ts) = ts \<and> (\<forall>c \<in> set (chunk_tickers ts). 1 \<le> length c \<and> length c \<le> 100)"
proof (induction ts rule: chunk_tickers.induct)
  case (1 ts)
  show ?case
  proof (cases "ts = []")
    case True then show ?thesis by (simp add: chunk_tickers.simps)
  next
    case False
    with 1 have IH: "concat (chunk_tickers (drop 100 ts)) = drop 100 ts"
      "\<forall>c \<in> set (chunk_tickers (drop 100 ts)). 1 \<le> length c \<and> length c \<le> 100" by blast+
    have "1 \<le> length ts" using False by (metis One_nat_def Suc_leI length_greater_0_conv)
    with IH False show ?thesis by (subst (1 2) chunk_tickers.simps) simp
  qed
qed

section \<open>Ranges of a parsed ladder\<close>

definition good_range :: "PriceRange \<Rightarrow> bool" where
  "good_range r \<longleftrightarrow> 0 \<le> pr_minimum r \<and> pr_minimum r < pr_maximum r \<and> pr_maximum r \<le> 1 \<and> 0 < pr_step r"

lemma parse_range_good: "parse_range m x = Inr r \<Longrightarrow> good_range r"
  by (auto simp: parse_range_def Let_def rbind_eq_Inr PriceRange_post_init_def good_range_def
      split: if_splits)

lemma rmap_good: "rmap (parse_range m) xs = Inr rs \<Longrightarrow> \<forall>r \<in> set rs. good_range r"
  by (induction xs arbitrary: rs) (auto simp: rbind_eq_Inr parse_range_good)

fun tiles :: "decimal \<Rightarrow> PriceRange list \<Rightarrow> bool" where
  "tiles a [] \<longleftrightarrow> a = 1"
| "tiles a (r # rs) \<longleftrightarrow> pr_minimum r = a \<and> tiles (pr_maximum r) rs"

lemma tiles_pairwise:
  "rs \<noteq> [] \<Longrightarrow> \<not> pairwise_any (\<lambda>a b. pr_maximum a \<noteq> pr_minimum b) rs \<Longrightarrow>
     pr_maximum (last rs) = 1 \<Longrightarrow> tiles (pr_minimum (hd rs)) rs"
proof (induction rs)
  case (Cons r rs)
  then show ?case by (cases rs) auto
qed simp

definition modern_ladder :: "PriceLadder \<Rightarrow> bool" where
  "modern_ladder l \<longleftrightarrow> tiles 0 (pl_ranges l) \<and> (\<forall>r \<in> set (pl_ranges l). good_range r \<and>
     dec_rem (pr_maximum r - pr_minimum r) (pr_step r) = 0)"

lemma map_filter_objects: "has_keys ks xs \<Longrightarrow> xs \<noteq> [] \<Longrightarrow> List.map_filter id xs \<noteq> []"
  by (cases xs) (auto simp: has_keys_def List.map_filter_simps split: option.splits)

lemma parse_modern_ladder:
  assumes "PriceLadder_parse (Some (HStr s)) (Some xs) = Inr l"
    and "has_keys [''start'', ''end'', ''step''] xs"
  shows "modern_ladder l"
proof -
  from assms obtain rs where rs: "rmap (parse_range True) (List.map_filter id xs) = Inr rs"
    and ne: "xs \<noteq> []"
    and l: "l = \<lparr>pl_structure = s, pl_ranges = sort_key pr_minimum rs\<rparr>"
    and div: "\<not> list_ex (\<lambda>r. dec_rem (pr_maximum r - pr_minimum r) (pr_step r) \<noteq> 0) (sort_key pr_minimum rs)"
    and adj: "\<not> pairwise_any (\<lambda>a b. pr_maximum a \<noteq> pr_minimum b) (sort_key pr_minimum rs)"
    and ends: "pr_minimum (hd (sort_key pr_minimum rs)) = 0" "pr_maximum (last (sort_key pr_minimum rs)) = 1"
    by (simp add: PriceLadder_parse_def Let_def rbind_eq_Inr split: if_splits) blast
  have "length rs = length (List.map_filter id xs)"
    using rs by (metis list_all2_lengthD rmap_ok)
  then have "sort_key pr_minimum rs \<noteq> []"
    using map_filter_objects [OF assms(2) ne] by (metis length_0_conv length_sort)
  from tiles_pairwise [OF this adj ends(2)] ends(1) have "tiles 0 (pl_ranges l)" by (simp add: l)
  moreover have "\<forall>r \<in> set (pl_ranges l). good_range r" using rmap_good [OF rs] by (simp add: l)
  ultimately show ?thesis using div by (simp add: modern_ladder_def l list_ex_iff)
qed

end
