(* ===== verification/Universe_Properties.thy ===== *)
theory Universe_Properties
  imports Universe
begin

text \<open>
  The properties of price ladders: on a ladder of the modern form \<open>next_above\<close> is the least valid
  price above the given one and \<open>next_below\<close> the greatest tick below it, zero included; on a legacy
  ladder with a gap between ranges of different steps a valid price is skipped.
\<close>

section \<open>Tiled ladders\<close>

lemma foldl_min: "foldl min x ys = Min (insert x (set ys))" for x :: "'a :: linorder"
proof -
  have "foldl min x ys = fold min ys x" by (simp add: foldl_conv_fold min.commute)
  also have "\<dots> = Min (set (x # ys))" by (rule Min.set_eq_fold [symmetric])
  finally show ?thesis by simp
qed

lemma min_default_is_least:
  "min_default xs = Some v \<longleftrightarrow> v \<in> set xs \<and> (\<forall>w \<in> set xs. v \<le> w)"
proof (cases xs)
  case (Cons x ys)
  then have "min_default xs = Some (Min (set xs))" by (simp add: min_default_def foldl_min)
  then show ?thesis using Cons by (metis List.finite_set Min_eqI Min_in Min_le list.distinct(1) option.inject set_empty)
qed (simp add: min_default_def)

lemma min_default_None: "min_default xs = None \<longleftrightarrow> xs = []"
  by (simp add: min_default_def split: list.split)

lemma tiles_bounds: "tiles a rs \<Longrightarrow> \<forall>r \<in> set rs. good_range r \<Longrightarrow> r \<in> set rs \<Longrightarrow> a \<le> pr_minimum r"
proof (induction rs arbitrary: a)
  case (Cons s rs)
  then show ?case by (fastforce simp: good_range_def)
qed simp

text \<open>A tiled ladder has a range around every price, and any other range that holds a price above
  it starts no earlier than this one ends.\<close>

lemma tiles_cover:
  assumes "tiles a rs" and "\<forall>r \<in> set rs. good_range r" and "a \<le> p" and "p < 1"
  shows "\<exists>r \<in> set rs. pr_minimum r \<le> p \<and> p < pr_maximum r \<and>
    (\<forall>s \<in> set rs. s = r \<or> pr_maximum s \<le> pr_minimum r \<or> pr_maximum r \<le> pr_minimum s)"
  using assms
proof (induction rs arbitrary: a)
  case (Cons t rs)
  then have t: "pr_minimum t = a" "tiles (pr_maximum t) rs" by simp_all
  have later: "\<forall>s \<in> set rs. pr_maximum t \<le> pr_minimum s" using tiles_bounds [OF t(2)] Cons.prems(2) by simp
  show ?case
  proof (cases "p < pr_maximum t")
    case True
    with t Cons.prems(3) later show ?thesis by auto
  next
    case False
    with Cons.IH [OF t(2)] Cons.prems obtain r where r: "r \<in> set rs" "pr_minimum r \<le> p" "p < pr_maximum r"
      "\<forall>s \<in> set rs. s = r \<or> pr_maximum s \<le> pr_minimum r \<or> pr_maximum r \<le> pr_minimum s" by auto
    then have "pr_maximum t \<le> pr_minimum r" using later by blast
    with r show ?thesis by auto
  qed
qed simp

text \<open>In the range around the price, the candidate is the next tick, and does not leave the range.\<close>

lemma candidate_above_tick:
  assumes "good_range r" and "pr_minimum r \<le> p" and "p < pr_maximum r"
  shows "p < candidate_above p r" and "\<exists>k :: int. candidate_above p r - pr_minimum r = of_int k * pr_step r"
    and "\<And>w. p < w \<Longrightarrow> range_valid r w \<Longrightarrow> candidate_above p r \<le> w"
proof -
  let ?q = "dec_quot (p - pr_minimum r) (pr_step r)"
  have s: "0 < pr_step r" using assms(1) by (simp add: good_range_def)
  note q = dec_quot_bounds [OF s, of "p - pr_minimum r"]
  show "p < candidate_above p r" using q(2) assms(2) by (simp add: candidate_above_def)
  show "\<exists>k :: int. candidate_above p r - pr_minimum r = of_int k * pr_step r"
    by (simp add: candidate_above_def del: of_int_add)
  fix w assume w: "p < w" "range_valid r w"
  then obtain k :: int where k: "w - pr_minimum r = of_int k * pr_step r"
    using dec_rem_zero [OF s] by (auto simp: range_valid_def)
  have "of_int ?q * pr_step r < of_int k * pr_step r" using q(1) w(1) assms(2) k by simp
  then have "?q + 1 \<le> k" using s by (simp add: mult_less_cancel_right)
  then have "of_int (?q + 1) * pr_step r \<le> of_int k * pr_step r"
    using s by (intro mult_right_mono) (simp_all only: of_int_le_iff less_imp_le)
  with k show "candidate_above p r \<le> w" by (simp add: candidate_above_def)
qed

lemma candidate_above_inside:
  assumes "good_range r" and "pr_minimum r \<le> p" and "p < pr_maximum r"
    and "dec_rem (pr_maximum r - pr_minimum r) (pr_step r) = 0"
  shows "candidate_above p r \<le> pr_maximum r" and "range_valid r (candidate_above p r)"
proof -
  have s: "0 < pr_step r" using assms(1) by (simp add: good_range_def)
  have "range_valid r (pr_maximum r)"
    using assms by (simp add: range_valid_def range_contains_def good_range_def)
  then show in_range: "candidate_above p r \<le> pr_maximum r"
    by (rule candidate_above_tick(3) [OF assms(1-3) assms(3)])
  show "range_valid r (candidate_above p r)"
    unfolding range_valid_def range_contains_def dec_rem_zero [OF s]
    using in_range candidate_above_tick(1,2) [OF assms(1-3)] assms(2) by auto
qed

section \<open>The next price above\<close>

text \<open>C38. On a ladder of the modern form, \<open>next_above\<close> of a price in [0, 1) is the least valid price above
  it, and there is none exactly when no valid price lies above.\<close>

theorem next_above_is_the_least_valid_price:
  assumes "PriceLadder_parse (Some (HStr structure)) (Some ranges) = Inr l"
    and "has_keys [''start'', ''end'', ''step''] ranges" and "0 \<le> p" and "p < 1"
  shows "(case next_above l p of
       None \<Rightarrow> \<not> (\<exists>w. p < w \<and> is_valid_price l w)
     | Some v \<Rightarrow> p < v \<and> is_valid_price l v \<and> (\<forall>w. p < w \<and> is_valid_price l w \<longrightarrow> v \<le> w))"
proof -
  have l: "tiles 0 (pl_ranges l)" "\<forall>r \<in> set (pl_ranges l). good_range r"
    "\<forall>r \<in> set (pl_ranges l). dec_rem (pr_maximum r - pr_minimum r) (pr_step r) = 0"
    using parse_modern_ladder [OF assms(1,2)] by (simp_all add: modern_ladder_def)
  obtain r where r: "r \<in> set (pl_ranges l)" "pr_minimum r \<le> p" "p < pr_maximum r"
    and others: "\<forall>s \<in> set (pl_ranges l). s = r \<or> pr_maximum s \<le> pr_minimum r \<or> pr_maximum r \<le> pr_minimum s"
    using tiles_cover [OF l(1,2) assms(3,4)] by blast
  have good: "good_range r" "dec_rem (pr_maximum r - pr_minimum r) (pr_step r) = 0" using l(2,3) r(1) by blast+
  let ?c = "candidate_above p r"
  note tick = candidate_above_tick [OF good(1) r(2,3)] and inside = candidate_above_inside [OF good(1) r(2,3) good(2)]
  have least: "?c \<le> w" if w: "p < w" "is_valid_price l w" for w
  proof -
    from w(2) obtain s where s: "s \<in> set (pl_ranges l)" "range_valid s w"
      by (auto simp: is_valid_price_def list_ex_iff)
    then have "pr_minimum s \<le> w" "w \<le> pr_maximum s" by (simp_all add: range_valid_def range_contains_def)
    with others s(1) w(1) r(2) have "s = r \<or> pr_maximum r \<le> w" by force
    with tick(3) [OF w(1)] s(2) inside(1) show "?c \<le> w" by auto
  qed
  let ?cs = "filter (\<lambda>v. v > p \<and> is_valid_price l v)
     (map (candidate_above p) (filter (\<lambda>r. p < pr_maximum r) (pl_ranges l)))"
  have valid: "is_valid_price l ?c" if "?c < 1"
    using that inside(2) r(1) tick(1) assms(3) by (auto simp: is_valid_price_def list_ex_iff)
  show ?thesis
  proof (cases "?c < 1")
    case True
    then have "?c \<in> set ?cs" using valid tick(1) r(1,3) by auto
    moreover have "\<forall>w \<in> set ?cs. ?c \<le> w" using least by simp
    ultimately have "next_above l p = Some ?c" by (simp add: next_above_def min_default_is_least)
    then show ?thesis using tick(1) valid True least by simp
  next
    case False
    have "\<not> (\<exists>w. p < w \<and> is_valid_price l w)"
    proof
      assume "\<exists>w. p < w \<and> is_valid_price l w"
      then obtain w where w: "p < w" "is_valid_price l w" by blast
      then have "w < 1" by (simp add: is_valid_price_def)
      with least [OF w] False show False by simp
    qed
    moreover from this have "?cs = []" by (auto simp: filter_empty_conv)
    then have "next_above l p = None" by (simp add: next_above_def min_default_None)
    ultimately show ?thesis by simp
  qed
qed

definition sample_ranges :: json_array where
  "sample_ranges = [Some [(''start'', HStr ''0.10''), (''end'', HStr ''1''), (''step'', HStr ''0.05'')],
     Some [(''start'', HStr ''0''), (''end'', HStr ''0.10''), (''step'', HStr ''0.01'')]]"

definition sample_ladder :: PriceLadder where
  "sample_ladder = \<lparr>pl_structure = ''tapered'', pl_ranges =
     [\<lparr>pr_minimum = 0, pr_maximum = 1 / 10, pr_step = 1 / 100\<rparr>,
      \<lparr>pr_minimum = 1 / 10, pr_maximum = 1, pr_step = 1 / 20\<rparr>]\<rparr>"

lemma sample_ladder: "PriceLadder_parse (Some (HStr ''tapered'')) (Some sample_ranges) = Inr sample_ladder"
  by code_simp

theorem next_above_is_the_least_valid_price_witness:
  "next_above sample_ladder (1 / 10) = Some (3 / 20) \<and>
   \<not> (\<exists>w. 1 / 10 < w \<and> is_valid_price sample_ladder w \<and> w < 3 / 20)"
proof -
  have n: "next_above sample_ladder (1 / 10) = Some (3 / 20)" by code_simp
  have "has_keys [''start'', ''end'', ''step''] sample_ranges" by code_simp
  from next_above_is_the_least_valid_price [OF sample_ladder this, of "1 / 10"] n
  have "\<forall>w. 1 / 10 < w \<and> is_valid_price sample_ladder w \<longrightarrow> 3 / 20 \<le> w" by simp
  with n show ?thesis by (metis not_less)
qed

section \<open>Two prices the ladder gets wrong\<close>

definition gap_ladder :: PriceLadder where
  "gap_ladder = \<lparr>pl_structure = ''legacy'', pl_ranges =
     [\<lparr>pr_minimum = 1 / 100, pr_maximum = 9 / 100, pr_step = 1 / 100\<rparr>,
      \<lparr>pr_minimum = 1 / 10, pr_maximum = 9 / 10, pr_step = 1 / 20\<rparr>]\<rparr>"

text \<open>On a legacy ladder whose ranges leave a gap before a coarser range, the first price of the coarser
  range is skipped, because Decimal division truncates towards zero; and the price below the first
  tick is given as zero, which is not a valid price.\<close>

theorem ladder_skips_a_price_and_returns_zero:
  "PriceLadder_parse (Some (HStr ''legacy'')) (Some
     [Some [(''min'', HStr ''0.01''), (''max'', HStr ''0.09''), (''step'', HStr ''0.01'')],
      Some [(''min'', HStr ''0.10''), (''max'', HStr ''0.90''), (''step'', HStr ''0.05'')]]) = Inr gap_ladder \<and>
   is_valid_price gap_ladder (1 / 10) \<and> next_above gap_ladder (9 / 100) = Some (3 / 20) \<and>
   next_below sample_ladder (1 / 100) = Some 0 \<and> \<not> is_valid_price sample_ladder 0"
  by code_simp

end
