(* ===== verification/Opp_Live.thy ===== *)
theory Opp_Live
  imports Opp_Engine Universe
begin

text \<open>
  \<open>services/opportunity_engine\<close>: current fee metadata and the resolved fee regime
  (\<open>live_fees.py\<close>), broad quotes, live order books and the replayable economics evidence of
  a market (\<open>live_economics.py\<close>). A digest is taken over the values in the order the code passes
  them; a nested record enters it as the list of its fields.
\<close>

section \<open>Fee metadata\<close>

definition FeeType_value :: "FeeType \<Rightarrow> string" where
  "FeeType_value t = (case t of QUADRATIC \<Rightarrow> ''quadratic''
     | QUADRATIC_WITH_MAKER_FEES \<Rightarrow> ''quadratic_with_maker_fees'' | FLAT \<Rightarrow> ''flat'')"

definition supported_fee_type :: "hashable option \<Rightarrow> string \<Rightarrow> FeeType result" where
  "supported_fee_type value field = (case value of
     Some (HStr s) \<Rightarrow> if s = ''quadratic'' then Inr QUADRATIC
       else if s = ''quadratic_with_maker_fees'' then Inr QUADRATIC_WITH_MAKER_FEES
       else Inl (OpportunityError (''unsupported '' @ field))
   | _ \<Rightarrow> Inl (OpportunityError (''invalid '' @ field)))"

text \<open>The error of the number parser is raised again as an \<open>OpportunityError\<close> with its text.\<close>

fun universe_error :: "py_exn \<Rightarrow> py_exn" where
  "universe_error (UniverseValidationError s) = OpportunityError s"
| "universe_error e = e"

definition fee_multiplier :: "hashable option \<Rightarrow> string \<Rightarrow> decimal result" where
  "fee_multiplier value field =
     (case exact_numeric (case value of None \<Rightarrow> HNone | Some v \<Rightarrow> v) field of
        Inl e \<Rightarrow> Inl (universe_error e)
      | Inr m \<Rightarrow> if m < 0 then Inl (OpportunityError (''negative '' @ field)) else Inr m)"

record EventFeeOverride =
  eo_fee_type :: "FeeType option"
  eo_fee_multiplier :: "decimal option"
  eo_complete :: bool
  eo_metadata_hash :: string

definition EventFeeOverride_parse :: "digest_fn \<Rightarrow> json_obj \<Rightarrow> EventFeeOverride result" where
  "EventFeeOverride_parse dig raw =
     (let type_value = get_value raw ''fee_type_override'';
          multiplier_value = get_value raw ''fee_multiplier_override'';
          digest = stable_hash dig (HList [hval type_value, hval multiplier_value])
      in if type_value = None \<and> multiplier_value = None
         then Inr \<lparr>eo_fee_type = None, eo_fee_multiplier = None, eo_complete = False,
           eo_metadata_hash = digest\<rparr>
         else if type_value = None \<or> multiplier_value = None
         then Inl (OpportunityError ''partial event fee override'')
         else rbind (supported_fee_type type_value ''event fee type'') (\<lambda>t.
              rbind (fee_multiplier multiplier_value ''event fee multiplier'') (\<lambda>m.
                Inr \<lparr>eo_fee_type = Some t, eo_fee_multiplier = Some m, eo_complete = True,
                  eo_metadata_hash = digest\<rparr>)))"

record CurrentSeriesFeeObservation =
  cf_series_ticker :: string
  cf_fee_type :: FeeType
  cf_fee_multiplier :: decimal
  cf_source_updated_at :: instant
  cf_observed_at :: instant
  cf_source_hash :: string
  cf_observation_id :: string

definition aware_utc :: "datetime \<Rightarrow> instant result" where
  "aware_utc t = (case t of Aware i \<Rightarrow> Inr i
     | Naive i \<Rightarrow> Inl (OpportunityError ''timestamp must be timezone-aware''))"

text \<open>\<open>text_of\<close> is \<open>str\<close> of a JSON value.\<close>

definition CurrentSeriesFeeObservation_parse :: "digest_fn \<Rightarrow> iso_parser \<Rightarrow> (hashable \<Rightarrow> string) \<Rightarrow>
    json_obj \<Rightarrow> datetime \<Rightarrow> CurrentSeriesFeeObservation result" where
  "CurrentSeriesFeeObservation_parse dig fromiso text_of raw observed_at =
     (case nonempty_text (map_of raw ''ticker'') of
        None \<Rightarrow> Inl (OpportunityError ''series ticker missing'')
      | Some ticker \<Rightarrow>
          rbind (parse_time fromiso (map_of raw ''last_updated_ts'')) (\<lambda>updated.
          rbind (aware_utc observed_at) (\<lambda>observed.
            if updated > observed
            then Inl (OpportunityError ''series metadata observed before source update'')
            else let source_hash = stable_hash dig (HObj raw)
              in rbind (supported_fee_type (map_of raw ''fee_type'') ''series fee type'') (\<lambda>t.
                 rbind (fee_multiplier (map_of raw ''fee_multiplier'') ''series fee multiplier'') (\<lambda>m.
                   Inr \<lparr>cf_series_ticker = ticker, cf_fee_type = t, cf_fee_multiplier = m,
                     cf_source_updated_at = updated, cf_observed_at = observed,
                     cf_source_hash = source_hash, cf_observation_id = dig (HList [HStr ticker,
                       HStr (text_of (hval (map_of raw ''fee_type''))),
                       HStr (text_of (hval (map_of raw ''fee_multiplier''))),
                       HTime updated, HTime observed, HStr source_hash])\<rparr>)))))"

record FeeChange =
  fg_change_id :: string
  fg_series_ticker :: string
  fg_fee_type :: FeeType
  fg_fee_multiplier :: decimal
  fg_scheduled_at :: instant
  fg_content_hash :: string

definition FeeChange_parse :: "digest_fn \<Rightarrow> iso_parser \<Rightarrow> json_obj \<Rightarrow> FeeChange result" where
  "FeeChange_parse dig fromiso raw =
     (case (nonempty_text (map_of raw ''id''), nonempty_text (map_of raw ''series_ticker'')) of
        (Some identifier, Some ticker) \<Rightarrow>
          rbind (parse_time fromiso (map_of raw ''scheduled_ts'')) (\<lambda>scheduled.
          rbind (supported_fee_type (map_of raw ''fee_type'') ''fee change type'') (\<lambda>t.
          rbind (fee_multiplier (map_of raw ''fee_multiplier'') ''fee change multiplier'') (\<lambda>m.
            Inr \<lparr>fg_change_id = identifier, fg_series_ticker = ticker, fg_fee_type = t,
              fg_fee_multiplier = m, fg_scheduled_at = scheduled, fg_content_hash = stable_hash dig (HObj raw)\<rparr>)))
      | _ \<Rightarrow> Inl (OpportunityError ''fee change identity invalid''))"

definition is_scheduled :: "FeeChange \<Rightarrow> datetime \<Rightarrow> bool result" where
  "is_scheduled c t = rbind (aware_utc t) (\<lambda>i. Inr (fg_scheduled_at c > i))"

record ResolvedFeeRegime =
  rf_regime_id :: string
  rf_version :: string
  rf_fee_type :: FeeType
  rf_fee_multiplier :: decimal
  rf_source :: string
  rf_series_observation_id :: string
  rf_event_metadata_hash :: string

definition regime_digest :: "digest_fn \<Rightarrow> ResolvedFeeRegime \<Rightarrow> string" where
  "regime_digest dig r = dig (HList [HStr (rf_version r), HStr (FeeType_value (rf_fee_type r)),
     HDec (rf_fee_multiplier r), HStr (rf_source r), HStr (rf_series_observation_id r),
     HStr (rf_event_metadata_hash r)])"

definition resolve_current_fee_regime :: "digest_fn \<Rightarrow> CurrentSeriesFeeObservation \<Rightarrow>
    EventFeeOverride \<Rightarrow> ResolvedFeeRegime result" where
  "resolve_current_fee_regime dig series event =
     (case (if eo_complete event then eo_fee_type event else Some (cf_fee_type series),
            if eo_complete event then eo_fee_multiplier event else Some (cf_fee_multiplier series)) of
        (Some fee_type, Some multiplier) \<Rightarrow>
          (let regime = \<lparr>rf_regime_id = '''', rf_version = ''m27a-current-fee-resolution-v1'',
             rf_fee_type = fee_type, rf_fee_multiplier = multiplier,
             rf_source = (if eo_complete event then ''event_override'' else ''current_series''),
             rf_series_observation_id = cf_observation_id series,
             rf_event_metadata_hash = eo_metadata_hash event\<rparr>
           in Inr (regime\<lparr>rf_regime_id := regime_digest dig regime\<rparr>))
      | _ \<Rightarrow> Inl (OpportunityError ''fee regime incomplete''))"

section \<open>Broad quotes\<close>

record DiscoveryQuotes =
  dq_yes_bid :: "decimal option"
  dq_yes_ask :: "decimal option"
  dq_yes_bid_size :: decimal
  dq_yes_ask_size :: decimal
  dq_no_bid :: "decimal option"
  dq_no_ask :: "decimal option"
  dq_volume :: decimal
  dq_volume_24h :: decimal
  dq_open_interest :: decimal
  dq_liquidity :: decimal
  dq_source_hash :: string

definition QUOTE_FIELDS :: "string list" where
  "QUOTE_FIELDS = [''yes_bid_dollars'', ''yes_ask_dollars'', ''yes_bid_size_fp'', ''yes_ask_size_fp'',
     ''no_bid_dollars'', ''no_ask_dollars'', ''volume_fp'', ''volume_24h_fp'', ''open_interest_fp'',
     ''liquidity_dollars'']"

definition none_if :: "decimal \<Rightarrow> decimal \<Rightarrow> decimal option" where
  "none_if x v = (if v = x then None else Some v)"

definition DiscoveryQuotes_parse :: "digest_fn \<Rightarrow> json_obj \<Rightarrow> DiscoveryQuotes result" where
  "DiscoveryQuotes_parse dig raw =
     rbind (rmap (\<lambda>name. universe_exact (map_of raw name) name) QUOTE_FIELDS) (\<lambda>vs.
       if vs ! 1 \<noteq> 1 - vs ! 4 \<or> vs ! 5 \<noteq> 1 - vs ! 0
       then Inl (UniverseValidationError ''broad quote complement mismatch'')
       else if list_ex (\<lambda>v. v < 0) vs then Inl (UniverseValidationError ''negative broad quote field'')
       else Inr \<lparr>dq_yes_bid = none_if 0 (vs ! 0), dq_yes_ask = none_if 1 (vs ! 1),
         dq_yes_bid_size = vs ! 2, dq_yes_ask_size = vs ! 3, dq_no_bid = none_if 0 (vs ! 4),
         dq_no_ask = none_if 1 (vs ! 5), dq_volume = vs ! 6, dq_volume_24h = vs ! 7,
         dq_open_interest = vs ! 8, dq_liquidity = vs ! 9, dq_source_hash = stable_hash dig (HObj raw)\<rparr>)"

section \<open>Live order books\<close>

record BookObservation =
  bo_book :: NormalizedBook
  bo_source_id :: string
  bo_source_hash :: string
  bo_observed_at :: instant
  bo_market_rules_hash :: string
  bo_price_range_hash :: string

definition side_value :: "OutcomeSide \<Rightarrow> string" where
  "side_value s = (case s of YES \<Rightarrow> ''YES'' | NO \<Rightarrow> ''NO'')"

definition ladder_payload :: "PriceLadder \<Rightarrow> hashable" where
  "ladder_payload l = HList [HStr (pl_structure l), HList (map (\<lambda>r.
     HList [HDec (pr_minimum r), HDec (pr_maximum r), HDec (pr_step r)]) (pl_ranges l))]"

text \<open>The rows of one side: a price may appear once and must be on the ladder.\<close>

fun orderbook_rows :: "digest_fn \<Rightarrow> string \<Rightarrow> PriceLadder \<Rightarrow> OutcomeSide \<Rightarrow> decimal list \<Rightarrow>
    hashable list \<Rightarrow> RawBidLevel list result" where
  "orderbook_rows dig source_id ladder side seen [] = Inr []"
| "orderbook_rows dig source_id ladder side seen (row # rows) = (case row of
     HList [a, b] \<Rightarrow>
       rbind (universe_exact (Some a) ''orderbook price'') (\<lambda>price.
       rbind (universe_exact (Some b) ''orderbook quantity'') (\<lambda>quantity.
         if price \<in> set seen \<or> \<not> is_valid_price ladder price
         then Inl (OpportunityError ''duplicate or off-ladder orderbook level'')
         else rbind (RawBidLevel_post_init \<lparr>rb_raw_level_id =
             dig (HList [HStr source_id, HStr (side_value side), HDec price]),
             rb_side = side, rb_price = price, rb_quantity = quantity\<rparr>) (\<lambda>level.
           rbind (orderbook_rows dig source_id ladder side (price # seen) rows) (\<lambda>levels.
             Inr (level # levels)))))
   | _ \<Rightarrow> Inl (OpportunityError ''malformed orderbook level''))"

definition orderbook_side :: "digest_fn \<Rightarrow> string \<Rightarrow> PriceLadder \<Rightarrow> json_obj \<Rightarrow> string \<Rightarrow>
    OutcomeSide \<Rightarrow> RawBidLevel list result" where
  "orderbook_side dig source_id ladder fp key side = (case map_of fp key of
     Some (HList rows) \<Rightarrow> orderbook_rows dig source_id ladder side [] rows
   | _ \<Rightarrow> Inl (OpportunityError ''orderbook side missing''))"

definition normalize_live_orderbook :: "digest_fn \<Rightarrow> json_obj \<Rightarrow> string \<Rightarrow> PriceLadder \<Rightarrow> string \<Rightarrow>
    datetime \<Rightarrow> string \<Rightarrow> BookObservation result" where
  "normalize_live_orderbook dig raw ticker ladder source_id observed_at market_rules_hash =
     (case (map_of raw ''ticker'', map_of raw ''orderbook_fp'') of
        (Some (HStr t), Some (HObj fp)) \<Rightarrow>
          if t \<noteq> ticker then Inl (OpportunityError ''orderbook market identity mismatch'')
          else rbind (orderbook_side dig source_id ladder fp ''yes_dollars'' YES) (\<lambda>yes.
               rbind (orderbook_side dig source_id ladder fp ''no_dollars'' NO) (\<lambda>no.
               rbind (normalize_binary_book (yes @ no)) (\<lambda>book.
               rbind (aware_utc observed_at) (\<lambda>observed.
                 Inr \<lparr>bo_book = book, bo_source_id = source_id, bo_source_hash = stable_hash dig (HObj raw),
                   bo_observed_at = observed, bo_market_rules_hash = market_rules_hash,
                   bo_price_range_hash = dig (ladder_payload ladder)\<rparr>))))
      | _ \<Rightarrow> Inl (OpportunityError ''orderbook market identity mismatch''))"

section \<open>The cost of taking one side\<close>

record TakerCost =
  tk_side :: OutcomeSide
  tk_depth :: DepthWalk
  tk_deterministic_fee :: decimal
  tk_centicent_rounded_fee :: decimal
  tk_fill_rounding_reserve :: "decimal option"
  tk_rebate_uncertainty :: "decimal option"
  tk_conservative_total_entry_cost :: "decimal option"
  tk_fee_quality :: FeeEstimateQuality

definition side_asks :: "NormalizedBook \<Rightarrow> OutcomeSide \<Rightarrow> ExecutableLevel list" where
  "side_asks book side = (if side = YES then nb_yes_asks book else nb_no_asks book)"

text \<open>The generator over \<open>enumerate(asks)\<close>: \<open>prior\<close> is the quantity of the levels before this one.\<close>

fun taker_fees :: "FeePolicy \<Rightarrow> decimal \<Rightarrow> decimal \<Rightarrow> ExecutableLevel list \<Rightarrow> decimal list result" where
  "taker_fees policy quantity prior [] = Inr []"
| "taker_fees policy quantity prior (l # ls) =
     (if quantity > prior
      then rbind (calculate_fee policy (el_price l) (min (el_quantity l) (max 0 (quantity - prior))) False)
        (\<lambda>f. rbind (taker_fees policy quantity (prior + el_quantity l) ls)
          (\<lambda>fs. Inr (fk_theoretical_trade_fee f # fs)))
      else taker_fees policy quantity (prior + el_quantity l) ls)"

definition taker_cost :: "NormalizedBook \<Rightarrow> OutcomeSide \<Rightarrow> decimal \<Rightarrow> FeePolicy \<Rightarrow> TakerCost result" where
  "taker_cost book side quantity policy =
     rbind (walk_depth (side_asks book side) quantity) (\<lambda>walk.
       if \<not> DepthWalk_complete walk then Inl (OpportunityError ''insufficient displayed depth'')
       else rbind (taker_fees policy quantity 0 (side_asks book side)) (\<lambda>fees.
         Inr \<lparr>tk_side = side, tk_depth = walk, tk_deterministic_fee = dsum fees,
           tk_centicent_rounded_fee = round_up (1 / 10000) (dsum fees),
           tk_fill_rounding_reserve = None, tk_rebate_uncertainty = None,
           tk_conservative_total_entry_cost = None, tk_fee_quality = DETERMINISTIC_FORMULA_ONLY\<rparr>))"

definition replay_side :: "NormalizedBook \<Rightarrow> OutcomeSide \<Rightarrow> decimal \<Rightarrow> FeePolicy \<Rightarrow>
    TakerCost option result" where
  "replay_side book side quantity policy =
     rbind (walk_depth (side_asks book side) quantity) (\<lambda>walk.
       if \<not> DepthWalk_complete walk then Inr None
       else rbind (taker_cost book side quantity policy) (\<lambda>c. Inr (Some c)))"
section \<open>Replayable economics evidence\<close>

record MarketEconomicsReplayInput =
  mi_book_observation :: BookObservation
  mi_price_ladder :: PriceLadder
  mi_fee_regime :: ResolvedFeeRegime
  mi_fee_policy :: FeePolicy

definition raw_levels_of :: "NormalizedBook \<Rightarrow> RawBidLevel list" where
  "raw_levels_of book = map (\<lambda>l. \<lparr>rb_raw_level_id = el_raw_level_id l, rb_side = el_raw_side l,
     rb_price = el_raw_price l, rb_quantity = el_quantity l\<rparr>) (nb_yes_bids book @ nb_no_bids book)"

definition MarketEconomicsReplayInput_post_init :: "digest_fn \<Rightarrow> MarketEconomicsReplayInput \<Rightarrow>
    MarketEconomicsReplayInput result" where
  "MarketEconomicsReplayInput_post_init dig m =
     (let observation = mi_book_observation m; ladder = mi_price_ladder m;
          regime = mi_fee_regime m; policy = mi_fee_policy m
      in if bo_price_range_hash observation \<noteq> dig (ladder_payload ladder)
         then Inl (OpportunityError ''replay price-range hash mismatch'')
         else rbind (rmap RawBidLevel_post_init (raw_levels_of (bo_book observation))) (\<lambda>raw.
           if list_ex (\<lambda>l. \<not> is_valid_price ladder (rb_price l)) raw
           then Inl (OpportunityError ''replay book contains off-ladder level'')
           else rbind (normalize_binary_book raw) (\<lambda>book.
             if book \<noteq> bo_book observation
             then Inl (OpportunityError ''replay book is not canonically normalized'')
             else if rf_regime_id regime \<noteq> regime_digest dig regime
             then Inl (OpportunityError ''replay fee regime identity mismatch'')
             else if fp_fee_type policy \<noteq> rf_fee_type regime \<or>
               fp_fee_multiplier policy \<noteq> rf_fee_multiplier regime
             then Inl (OpportunityError ''replay fee policy incompatible with resolved regime'')
             else Inr m)))"

record MarketEconomicsEvidence =
  me_evidence_id :: string
  me_market_ticker :: string
  me_event_ticker :: string
  me_series_ticker :: string
  me_market_source_id :: string
  me_market_rules_hash :: string
  me_market_metadata_hash :: string
  me_price_range_hash :: string
  me_event_fee_hash :: string
  me_series_fee_observation_id :: string
  me_resolved_fee_regime_id :: string
  me_fee_policy_id :: string
  me_orderbook_source_id :: string
  me_orderbook_source_hash :: string
  me_market_observed_at :: datetime
  me_orderbook_observed_at :: datetime
  me_economics_observed_at :: datetime
  me_requested_quantity :: decimal
  me_yes :: "TakerCost option"
  me_no :: "TakerCost option"
  me_replay_input :: MarketEconomicsReplayInput
  me_analysis_type :: string
  me_research_only :: bool
  me_production_influence :: decimal

definition replay_costs :: "MarketEconomicsReplayInput \<Rightarrow> decimal \<Rightarrow>
    (TakerCost option \<times> TakerCost option) result" where
  "replay_costs m quantity =
     (let book = bo_book (mi_book_observation m); policy = mi_fee_policy m
      in rbind (replay_side book YES quantity policy) (\<lambda>yes.
         rbind (replay_side book NO quantity policy) (\<lambda>no. Inr (yes, no))))"

definition replay_market_economics :: "MarketEconomicsEvidence \<Rightarrow>
    (TakerCost option \<times> TakerCost option) result" where
  "replay_market_economics e = replay_costs (me_replay_input e) (me_requested_quantity e)"

text \<open>The texts of the nested records under \<open>default=str\<close>, as the lists of their fields.\<close>

definition level_payload :: "ExecutableLevel \<Rightarrow> hashable" where
  "level_payload l = HList [HStr (side_value (el_outcome l)), HStr (el_book_side l),
     HDec (el_price l), HDec (el_quantity l), HStr (el_raw_level_id l),
     HStr (side_value (el_raw_side l)), HDec (el_raw_price l)]"

definition book_payload :: "NormalizedBook \<Rightarrow> hashable" where
  "book_payload b = HList [HList (map level_payload (nb_yes_bids b)),
     HList (map level_payload (nb_yes_asks b)), HList (map level_payload (nb_no_bids b)),
     HList (map level_payload (nb_no_asks b))]"

definition taker_payload :: "TakerCost \<Rightarrow> hashable" where
  "taker_payload c = HList [HStr (side_value (tk_side c)), HList [HDec (dw_requested (tk_depth c)),
       HDec (dw_filled (tk_depth c)), hopt HDec (dw_average_price (tk_depth c)),
       hopt HDec (dw_worst_price (tk_depth c)), HDec (dw_unfilled (tk_depth c)),
       HDec (dw_total_cost (tk_depth c)), HInt (int (dw_levels_consumed (tk_depth c)))],
     HDec (tk_deterministic_fee c), HDec (tk_centicent_rounded_fee c)]"

definition policy_payload :: "FeePolicy \<Rightarrow> hashable" where
  "policy_payload p = HList [HStr (fp_policy_id p), HStr (FeeType_value (fp_fee_type p)),
     HDec (fp_fee_multiplier p), HTime (fp_effective_at p), hopt HTime (fp_retired_at p),
     HStr (fp_formula_version p), HStr (fp_source_reference p), HBool (fp_verified p),
     hopt HDec (fp_flat_rate p), hopt HDec (fp_quadratic_coefficient p),
     hopt HDec (fp_maker_quadratic_coefficient p), HDec (fp_balance_rounding_increment p),
     HDec (fp_production_influence p)]"

definition replay_payload :: "MarketEconomicsReplayInput \<Rightarrow> hashable" where
  "replay_payload m = (let b = mi_book_observation m; r = mi_fee_regime m in
     HList [book_payload (bo_book b), HStr (bo_source_id b), HStr (bo_source_hash b),
       HTime (bo_observed_at b), HStr (bo_market_rules_hash b), HStr (bo_price_range_hash b),
       ladder_payload (mi_price_ladder m),
       HList [HStr (rf_regime_id r), HStr (rf_version r), HStr (FeeType_value (rf_fee_type r)),
         HDec (rf_fee_multiplier r), HStr (rf_source r), HStr (rf_series_observation_id r),
         HStr (rf_event_metadata_hash r)],
       policy_payload (mi_fee_policy m)])"

text \<open>The keyword arguments sorted by name; timestamps as they were given.\<close>

definition datetime_payload :: "datetime \<Rightarrow> hashable" where
  "datetime_payload t = (case t of Aware i \<Rightarrow> HTime i | Naive i \<Rightarrow> HList [HTime i])"

definition economics_payload :: "MarketEconomicsEvidence \<Rightarrow> hashable" where
  "economics_payload e = HList (map (\<lambda>(k, v). HList [HStr k, v]) (sort_key fst
     [(''market_ticker'', HStr (me_market_ticker e)), (''event_ticker'', HStr (me_event_ticker e)),
      (''series_ticker'', HStr (me_series_ticker e)),
      (''market_source_id'', HStr (me_market_source_id e)),
      (''market_rules_hash'', HStr (me_market_rules_hash e)),
      (''market_metadata_hash'', HStr (me_market_metadata_hash e)),
      (''price_range_hash'', HStr (me_price_range_hash e)),
      (''event_fee_hash'', HStr (me_event_fee_hash e)),
      (''series_fee_observation_id'', HStr (me_series_fee_observation_id e)),
      (''resolved_fee_regime_id'', HStr (me_resolved_fee_regime_id e)),
      (''fee_policy_id'', HStr (me_fee_policy_id e)),
      (''orderbook_source_id'', HStr (me_orderbook_source_id e)),
      (''orderbook_source_hash'', HStr (me_orderbook_source_hash e)),
      (''market_observed_at'', datetime_payload (me_market_observed_at e)),
      (''orderbook_observed_at'', datetime_payload (me_orderbook_observed_at e)),
      (''economics_observed_at'', datetime_payload (me_economics_observed_at e)),
      (''requested_quantity'', HDec (me_requested_quantity e)),
      (''yes'', hopt taker_payload (me_yes e)), (''no'', hopt taker_payload (me_no e)),
      (''replay_input'', replay_payload (me_replay_input e))]))"

definition provenance_texts :: "MarketEconomicsEvidence \<Rightarrow> string list" where
  "provenance_texts e = [me_market_ticker e, me_event_ticker e, me_series_ticker e,
     me_market_source_id e, me_market_rules_hash e, me_market_metadata_hash e, me_price_range_hash e,
     me_event_fee_hash e, me_series_fee_observation_id e, me_resolved_fee_regime_id e,
     me_fee_policy_id e, me_orderbook_source_id e, me_orderbook_source_hash e]"

text \<open>\<open>create\<close> over the keyword arguments, here the fields of a record whose identity is unset.\<close>

definition MarketEconomicsEvidence_create :: "digest_fn \<Rightarrow> MarketEconomicsEvidence \<Rightarrow>
    MarketEconomicsEvidence result" where
  "MarketEconomicsEvidence_create dig e =
     (if me_production_influence e \<noteq> 0 \<or> \<not> me_research_only e
      then Inl (OpportunityError ''economics evidence must remain research-only'')
      else if list_ex (\<lambda>s. s = []) (provenance_texts e)
      then Inl (OpportunityError ''economics evidence provenance incomplete'')
      else if me_requested_quantity e \<le> 0
      then Inl (OpportunityError ''economics evidence quantity invalid'')
      else rbind (aware_utc (me_market_observed_at e)) (\<lambda>market_at.
           rbind (aware_utc (me_economics_observed_at e)) (\<lambda>economics_at.
           if market_at > economics_at
           then Inl (OpportunityError ''impossible economics timestamp ordering'')
           else rbind (aware_utc (me_orderbook_observed_at e)) (\<lambda>book_at.
             let replay = me_replay_input e; observation = mi_book_observation replay;
                 regime = mi_fee_regime replay
             in if book_at > economics_at
                then Inl (OpportunityError ''impossible economics timestamp ordering'')
                else if me_orderbook_source_id e \<noteq> bo_source_id observation \<or>
                  me_orderbook_source_hash e \<noteq> bo_source_hash observation \<or>
                  book_at \<noteq> bo_observed_at observation \<or>
                  me_market_rules_hash e \<noteq> bo_market_rules_hash observation
                then Inl (OpportunityError ''economics orderbook provenance mismatch'')
                else if me_price_range_hash e \<noteq> bo_price_range_hash observation
                then Inl (OpportunityError ''economics price-range provenance mismatch'')
                else if me_resolved_fee_regime_id e \<noteq> rf_regime_id regime
                then Inl (OpportunityError ''economics fee regime provenance mismatch'')
                else if me_series_fee_observation_id e \<noteq> rf_series_observation_id regime \<or>
                  me_event_fee_hash e \<noteq> rf_event_metadata_hash regime
                then Inl (OpportunityError ''economics fee regime source mismatch'')
                else if me_fee_policy_id e \<noteq> fp_policy_id (mi_fee_policy replay)
                then Inl (OpportunityError ''economics fee policy provenance mismatch'')
                else rbind (replay_costs replay (me_requested_quantity e)) (\<lambda>(yes, no).
                  if me_yes e \<noteq> yes \<or> me_no e \<noteq> no
                  then Inl (OpportunityError ''economics results do not match replay inputs'')
                  else Inr (e\<lparr>me_evidence_id := dig (economics_payload e)\<rparr>))))))"

definition validate_economics_time :: "datetime \<Rightarrow> datetime \<Rightarrow> datetime \<Rightarrow> duration \<Rightarrow> unit result" where
  "validate_economics_time market_at book_at observed_at maximum_book_age =
     rbind (aware_utc market_at) (\<lambda>market. rbind (aware_utc book_at) (\<lambda>book.
     rbind (aware_utc observed_at) (\<lambda>observed.
       if market > observed \<or> book > observed \<or> observed - book > maximum_book_age
       then Inl (OpportunityError ''stale or impossible economics timestamp ordering'')
       else Inr ())))"

section \<open>Facts\<close>

text \<open>The fee of what greedy filling takes from each level.\<close>

fun greedy_fees :: "FeePolicy \<Rightarrow> ExecutableLevel list \<Rightarrow> decimal \<Rightarrow> decimal result" where
  "greedy_fees policy [] r = Inr 0"
| "greedy_fees policy (l # ls) r =
     (let take = max 0 (min r (el_quantity l))
      in if take = 0 then greedy_fees policy ls r
         else rbind (theoretical_fee policy (el_price l) take False) (\<lambda>f.
           rbind (greedy_fees policy ls (r - take)) (\<lambda>fs. Inr (f + fs))))"

lemma calculate_fee_theoretical:
  "calculate_fee p price q m = Inr f \<Longrightarrow> theoretical_fee p price q m = Inr (fk_theoretical_trade_fee f)"
  by (auto simp: calculate_fee_def rbind_eq_Inr Let_def split: if_splits)

lemma taker_fees_greedy:
  assumes "taker_fees policy q prior ls = Inr fs" and "\<forall>l \<in> set ls. 0 < el_quantity l"
  shows "greedy_fees policy ls (max 0 (q - prior)) = Inr (dsum fs)"
  using assms
proof (induction ls arbitrary: prior fs)
  case (Cons l ls)
  show ?case
  proof (cases "q > prior")
    case True
    let ?take = "min (el_quantity l) (max 0 (q - prior))"
    from Cons.prems(1) True obtain f gs where f: "calculate_fee policy (el_price l) ?take False = Inr f"
      and gs: "taker_fees policy q (prior + el_quantity l) ls = Inr gs"
      and fs: "fs = fk_theoretical_trade_fee f # gs" by (auto simp: rbind_eq_Inr)
    have take: "max 0 (min (max 0 (q - prior)) (el_quantity l)) = ?take" "?take \<noteq> 0"
      "max 0 (q - prior) - ?take = max 0 (q - (prior + el_quantity l))"
      using True Cons.prems(2) by (auto simp: max_def min_def)
    from Cons.IH [OF gs] Cons.prems(2)
    have "greedy_fees policy ls (max 0 (q - prior) - ?take) = Inr (dsum gs)" unfolding take by simp
    then show ?thesis
      using calculate_fee_theoretical [OF f] unfolding greedy_fees.simps Let_def take(1) fs
      by (simp add: take(2))
  next
    case False
    then have gs: "taker_fees policy q (prior + el_quantity l) ls = Inr fs" using Cons.prems(1) by simp
    have zero: "max 0 (q - prior) = 0" "max 0 (q - (prior + el_quantity l)) = 0"
      using False Cons.prems(2) by (auto simp: max_def)
    from Cons.IH [OF gs] Cons.prems(2) have "greedy_fees policy ls 0 = Inr (dsum fs)" by (simp add: zero)
    moreover have "max 0 (min 0 (el_quantity l)) = 0" using Cons.prems(2) by (simp add: max_def min_def)
    ultimately show ?thesis unfolding zero(1) by simp
  qed
qed simp

end
