(* ===== verification/Market_Snapshot.thy ===== *)
theory Market_Snapshot
  imports Opp_Live
begin

text \<open>
  \<open>services/market_universe/domain.py\<close> (series, events, markets and their material hashes),
  \<open>market_snapshot.py\<close> (the acquired market snapshot and its independent validation) and
  \<open>services/opportunity_engine/authoritative_economics.py\<close> (economics built from a snapshot, and
  the binding of the two). A response body is its bytes; SHA-256, base64, \<open>json.loads\<close> and
  \<open>fromisoformat\<close> are parameters.
\<close>

section \<open>Series, events and markets\<close>

datatype MarketStatus =
    ST_INITIALIZED | ST_ACTIVE | ST_INACTIVE | ST_CLOSED | ST_DETERMINED | ST_DISPUTED | ST_AMENDED
  | ST_FINALIZED

definition MarketStatus_members :: "(string \<times> MarketStatus) list" where
  "MarketStatus_members = [(''initialized'', ST_INITIALIZED), (''active'', ST_ACTIVE),
     (''inactive'', ST_INACTIVE), (''closed'', ST_CLOSED), (''determined'', ST_DETERMINED),
     (''disputed'', ST_DISPUTED), (''amended'', ST_AMENDED), (''finalized'', ST_FINALIZED)]"

definition normalize_status :: "string \<Rightarrow> MarketStatus result" where
  "normalize_status value = (case map_of MarketStatus_members (py_lower value) of
     None \<Rightarrow> Inl (UniverseValidationError ''unknown canonical market status'') | Some s \<Rightarrow> Inr s)"

definition RULE_FIELDS :: "string list" where
  "RULE_FIELDS = [''rules_primary'', ''rules_secondary'', ''settlement_sources'', ''strike_type'',
     ''floor_strike'', ''cap_strike'', ''functional_strike'', ''custom_strike'',
     ''early_close_condition'']"

definition METADATA_FIELDS :: "string list" where
  "METADATA_FIELDS = [''ticker'', ''event_ticker'', ''title'', ''subtitle'', ''market_type'',
     ''status'', ''price_level_structure'', ''price_ranges'', ''fractional_trading_enabled'',
     ''expected_expiration_time'', ''expiration_time'', ''occurrence_datetime'',
     ''is_provisional'', ''mve_collection_ticker'', ''settlement_value_dollars'']"

definition field_values :: "string list \<Rightarrow> json_obj \<Rightarrow> hashable" where
  "field_values ks raw = HObj (map (\<lambda>k. (k, hval (map_of raw k))) ks)"

definition material_hashes :: "digest_fn \<Rightarrow> json_obj \<Rightarrow> string \<times> string" where
  "material_hashes dig raw = (stable_hash dig (field_values RULE_FIELDS raw),
     stable_hash dig (field_values METADATA_FIELDS raw))"

fun require_texts :: "string \<Rightarrow> json_obj \<Rightarrow> string list \<Rightarrow> string list result" where
  "require_texts kind raw [] = Inr []"
| "require_texts kind raw (k # ks) = (case nonempty_text (map_of raw k) of
     None \<Rightarrow> Inl (UniverseValidationError (''missing '' @ kind @ '' '' @ k))
   | Some s \<Rightarrow> rbind (require_texts kind raw ks) (\<lambda>ss. Inr (s # ss)))"

text \<open>\<open>parse_time(v, optional=True)\<close>.\<close>

definition parse_time_optional :: "iso_parser \<Rightarrow> hashable option \<Rightarrow> instant option result" where
  "parse_time_optional fromiso v = (if v = None \<or> v = Some HNone then Inr None
     else rbind (parse_time fromiso v) (\<lambda>t. Inr (Some t)))"

definition optional_with :: "('a \<Rightarrow> 'b result) \<Rightarrow> 'a option \<Rightarrow> 'b option result" where
  "optional_with f v = (case v of None \<Rightarrow> Inr None | Some x \<Rightarrow> rbind (f x) (\<lambda>y. Inr (Some y)))"

text \<open>\<open>raw.get(key, default)\<close>.\<close>

definition get_or :: "json_obj \<Rightarrow> string \<Rightarrow> hashable \<Rightarrow> hashable" where
  "get_or raw k d = (case map_of raw k of None \<Rightarrow> d | Some v \<Rightarrow> v)"

record Series =
  sx_ticker :: string
  sx_title :: string
  sx_category :: string
  sx_frequency :: string
  sx_tags :: "hashable list"
  sx_settlement_sources :: "hashable list"
  sx_fee_type :: "hashable option"
  sx_fee_multiplier :: "decimal option"
  sx_volume :: "decimal option"
  sx_source_updated_at :: "instant option"
  sx_metadata_hash :: string
  sx_raw :: json_obj

definition SERIES_FIELDS :: "string list" where
  "SERIES_FIELDS = [''ticker'', ''title'', ''category'', ''frequency'', ''tags'',
     ''settlement_sources'', ''contract_url'', ''contract_terms_url'', ''fee_type'',
     ''fee_multiplier'', ''additional_prohibitions'', ''product_metadata'']"

definition is_obj :: "hashable \<Rightarrow> bool" where
  "is_obj v = (case v of HObj _ \<Rightarrow> True | _ \<Rightarrow> False)"

definition is_text :: "hashable \<Rightarrow> bool" where
  "is_text v = (case v of HStr _ \<Rightarrow> True | _ \<Rightarrow> False)"

definition list_of :: "(hashable \<Rightarrow> bool) \<Rightarrow> string \<Rightarrow> hashable \<Rightarrow> hashable list result" where
  "list_of p message v = (case v of
     HList xs \<Rightarrow> if list_ex (\<lambda>x. \<not> p x) xs then Inl (UniverseValidationError message) else Inr xs
   | _ \<Rightarrow> Inl (UniverseValidationError message))"

definition Series_parse :: "digest_fn \<Rightarrow> iso_parser \<Rightarrow> json_obj \<Rightarrow> Series result" where
  "Series_parse dig fromiso raw =
     rbind (require_texts ''series'' raw [''ticker'', ''title'', ''category'', ''frequency'']) (\<lambda>ts.
     rbind (list_of is_obj ''invalid settlement sources'' (get_or raw ''settlement_sources'' (HList []))) (\<lambda>sources.
     rbind (list_of is_text ''invalid tags'' (get_or raw ''tags'' (HList []))) (\<lambda>tags.
     rbind (parse_time_optional fromiso (map_of raw ''last_updated_ts'')) (\<lambda>updated.
     rbind (optional_with (\<lambda>v. exact_numeric v ''fee_multiplier'') (get_value raw ''fee_multiplier'')) (\<lambda>fee.
       if (case fee of None \<Rightarrow> False | Some f \<Rightarrow> f < 0)
       then Inl (UniverseValidationError ''negative fee_multiplier'')
       else rbind (optional_with (\<lambda>v. universe_exact (Some v) ''volume_fp'') (get_value raw ''volume_fp'')) (\<lambda>volume.
         Inr \<lparr>sx_ticker = ts ! 0, sx_title = ts ! 1, sx_category = ts ! 2, sx_frequency = ts ! 3,
           sx_tags = tags, sx_settlement_sources = sources, sx_fee_type = get_value raw ''fee_type'',
           sx_fee_multiplier = fee, sx_volume = volume, sx_source_updated_at = updated,
           sx_metadata_hash = stable_hash dig (field_values SERIES_FIELDS raw), sx_raw = raw\<rparr>))))))"

record MarketEvent =
  ev_ticker :: string
  ev_series_ticker :: string
  ev_title :: string
  ev_category :: "hashable option"
  ev_status :: "hashable option"
  ev_source_updated_at :: "instant option"
  ev_metadata_hash :: string
  ev_raw :: json_obj

definition EVENT_FIELDS :: "string list" where
  "EVENT_FIELDS = [''event_ticker'', ''series_ticker'', ''title'', ''category'', ''status'',
     ''strike_date'', ''strike_period'']"

definition Event_parse :: "digest_fn \<Rightarrow> iso_parser \<Rightarrow> json_obj \<Rightarrow> MarketEvent result" where
  "Event_parse dig fromiso raw =
     rbind (require_texts ''event'' raw [''event_ticker'', ''series_ticker'', ''title'']) (\<lambda>ts.
     rbind (parse_time_optional fromiso (map_of raw ''last_updated_ts'')) (\<lambda>updated.
       Inr \<lparr>ev_ticker = ts ! 0, ev_series_ticker = ts ! 1, ev_title = ts ! 2,
         ev_category = get_value raw ''category'', ev_status = get_value raw ''status'',
         ev_source_updated_at = updated,
         ev_metadata_hash = stable_hash dig (field_values EVENT_FIELDS raw), ev_raw = raw\<rparr>))"

record Market =
  mk_ticker :: string
  mk_event_ticker :: string
  mk_title :: "string option"
  mk_status :: MarketStatus
  mk_market_type :: string
  mk_provisional :: bool
  mk_multivariate :: bool
  mk_volume :: decimal
  mk_open_interest :: decimal
  mk_rules_hash :: string
  mk_metadata_hash :: string
  mk_source_updated_at :: "instant option"
  mk_raw :: json_obj

definition parse_market_updated_time :: "iso_parser \<Rightarrow> json_obj \<Rightarrow> instant option result" where
  "parse_market_updated_time fromiso raw =
     rbind (optional_with (\<lambda>v. parse_time fromiso (Some v)) (map_of raw ''updated_time'')) (\<lambda>updated.
     rbind (optional_with (\<lambda>v. parse_time fromiso (Some v)) (map_of raw ''last_updated_ts'')) (\<lambda>legacy.
       if updated \<noteq> None \<and> legacy \<noteq> None \<and> updated \<noteq> legacy
       then Inl (UniverseValidationError ''conflicting market updated timestamps'')
       else Inr (if updated \<noteq> None then updated else legacy)))"

definition market_title :: "json_obj \<Rightarrow> string option result" where
  "market_title raw = (case get_value raw ''title'' of
     None \<Rightarrow> Inr None
   | v \<Rightarrow> (case nonempty_text v of None \<Rightarrow> Inl (UniverseValidationError ''invalid market title'')
       | t \<Rightarrow> Inr t))"

definition market_provisional :: "json_obj \<Rightarrow> bool result" where
  "market_provisional raw = (case get_or raw ''is_provisional'' (HBool False) of
     HBool b \<Rightarrow> Inr b | _ \<Rightarrow> Inl (UniverseValidationError ''invalid market is_provisional''))"

definition Market_parse :: "digest_fn \<Rightarrow> iso_parser \<Rightarrow> json_obj \<Rightarrow> Market result" where
  "Market_parse dig fromiso raw =
     rbind (require_texts ''market'' raw [''ticker'', ''event_ticker'', ''market_type'', ''status'',
       ''rules_primary'', ''price_level_structure'']) (\<lambda>ts.
     rbind (market_title raw) (\<lambda>title.
     rbind (market_provisional raw) (\<lambda>provisional.
     rbind (parse_market_updated_time fromiso raw) (\<lambda>updated.
     rbind (normalize_status (ts ! 3)) (\<lambda>status.
     rbind (universe_exact (Some (get_or raw ''volume_fp'' (HStr ''0''))) ''volume_fp'') (\<lambda>volume.
     rbind (universe_exact (Some (get_or raw ''open_interest_fp'' (HStr ''0''))) ''open_interest_fp'') (\<lambda>interest.
       Inr \<lparr>mk_ticker = ts ! 0, mk_event_ticker = ts ! 1, mk_title = title, mk_status = status,
         mk_market_type = ts ! 2, mk_provisional = provisional,
         mk_multivariate = truthy (hval (map_of raw ''mve_collection_ticker'')) \<or>
           truthy (hval (map_of raw ''multivariate_contract'')),
         mk_volume = volume, mk_open_interest = interest,
         mk_rules_hash = fst (material_hashes dig raw), mk_metadata_hash = snd (material_hashes dig raw),
         mk_source_updated_at = updated, mk_raw = raw\<rparr>)))))))"

section \<open>The market snapshot\<close>

definition SNAPSHOT_SCHEMA :: string where
  "SNAPSHOT_SCHEMA = ''kalsh3.market_universe.authoritative-market-snapshot.v1''"

definition PARSER_VERSION :: string where
  "PARSER_VERSION = ''kalsh3.market_universe.domain.Market.parse/1''"

definition SNAPSHOT_HOST :: string where
  "SNAPSHOT_HOST = ''https://external-api.kalshi.com''"

definition market_path :: "string \<Rightarrow> string" where
  "market_path ticker = ''/trade-api/v2/markets/'' @ ticker"

definition FRESHNESS :: duration where
  "FRESHNESS = seconds 30"

definition MAX_MARKET_BODY_BYTES :: nat where
  "MAX_MARKET_BODY_BYTES = 200000"

definition MAX_BODY_B64_CHARS :: nat where
  "MAX_BODY_B64_CHARS = 4 * ((MAX_MARKET_BODY_BYTES div 3) + 1) * 2"

text \<open>The library functions the snapshot uses: the digest of bytes, base64, the JSON reader and the
  \<open>repr\<close> of a JSON value.\<close>

record codec =
  cc_sha256 :: "string \<Rightarrow> string"
  cc_b64encode :: "string \<Rightarrow> string"
  cc_b64decode :: "string \<Rightarrow> string option"
  cc_json :: "string \<Rightarrow> hashable option"
  cc_fromiso :: iso_parser
  cc_digest :: digest_fn
  cc_repr :: "hashable \<Rightarrow> string"

record MarketSnapshot =
  ms_schema :: string
  ms_software_version :: string
  ms_environment :: string
  ms_host :: string
  ms_path :: "string option"
  ms_ticker :: string
  ms_http_status :: "int option"
  ms_observed_at :: instant
  ms_expires_at :: instant
  ms_body_sha256 :: "string option"
  ms_raw_body_b64 :: "string option"
  ms_parsed_market_ticker :: "string option"
  ms_parsed_event_ticker :: "string option"
  ms_source_updated_at :: "instant option"
  ms_rules_hash :: "string option"
  ms_metadata_hash :: "string option"
  ms_parser_version :: string
  ms_classification :: string
  ms_reason :: "string option"

definition snapshot_to_json :: "MarketSnapshot \<Rightarrow> json_obj" where
  "snapshot_to_json s = [(''schema'', HStr (ms_schema s)),
     (''software_version'', HStr (ms_software_version s)),
     (''environment'', HStr (ms_environment s)), (''host'', HStr (ms_host s)),
     (''path'', hopt HStr (ms_path s)), (''ticker'', HStr (ms_ticker s)),
     (''http_status'', hopt HInt (ms_http_status s)),
     (''observed_at'', HStr (isoformat (ms_observed_at s))),
     (''expires_at'', HStr (isoformat (ms_expires_at s))),
     (''body_sha256'', hopt HStr (ms_body_sha256 s)),
     (''raw_body_b64'', hopt HStr (ms_raw_body_b64 s)),
     (''parsed_market_ticker'', hopt HStr (ms_parsed_market_ticker s)),
     (''parsed_event_ticker'', hopt HStr (ms_parsed_event_ticker s)),
     (''source_updated_at'', hopt (\<lambda>t. HStr (isoformat t)) (ms_source_updated_at s)),
     (''rules_hash'', hopt HStr (ms_rules_hash s)),
     (''metadata_hash'', hopt HStr (ms_metadata_hash s)),
     (''parser_version'', HStr (ms_parser_version s)),
     (''classification'', HStr (ms_classification s)), (''reason'', hopt HStr (ms_reason s))]"

definition SNAPSHOT_FIELDS :: "string list" where
  "SNAPSHOT_FIELDS = [''schema'', ''software_version'', ''environment'', ''host'', ''path'',
     ''ticker'', ''http_status'', ''observed_at'', ''expires_at'', ''body_sha256'',
     ''raw_body_b64'', ''parsed_market_ticker'', ''parsed_event_ticker'', ''source_updated_at'',
     ''rules_hash'', ''metadata_hash'', ''parser_version'', ''classification'', ''reason'']"

definition failed_snapshot :: "string \<Rightarrow> instant \<Rightarrow> string \<Rightarrow> string \<Rightarrow> string option \<Rightarrow> int option \<Rightarrow>
    string option \<Rightarrow> MarketSnapshot" where
  "failed_snapshot ticker observed_at classification reason path http_status body_sha256 =
     \<lparr>ms_schema = SNAPSHOT_SCHEMA, ms_software_version = ''kalsh3.market_universe.market_snapshot/1'',
      ms_environment = ''PRODUCTION'', ms_host = SNAPSHOT_HOST, ms_path = path, ms_ticker = ticker,
      ms_http_status = http_status, ms_observed_at = observed_at,
      ms_expires_at = observed_at + FRESHNESS, ms_body_sha256 = body_sha256, ms_raw_body_b64 = None,
      ms_parsed_market_ticker = None, ms_parsed_event_ticker = None, ms_source_updated_at = None,
      ms_rules_hash = None, ms_metadata_hash = None, ms_parser_version = PARSER_VERSION,
      ms_classification = classification, ms_reason = Some reason\<rparr>"

definition parse_timestamp :: "codec \<Rightarrow> hashable option \<Rightarrow> instant option" where
  "parse_timestamp c raw = (case raw of Some (HStr s) \<Rightarrow> (case cc_fromiso c s of
       Some (Aware t) \<Rightarrow> Some t | _ \<Rightarrow> None)
   | _ \<Rightarrow> None)"

text \<open>What the reviewed transport answers: a failure with its text, or the evidence and the body.\<close>

definition number_is :: "hashable option \<Rightarrow> int \<Rightarrow> bool" where
  "number_is v n \<longleftrightarrow> v = Some (HInt n) \<or> v = Some (HDec (of_int n))"

definition evidence_status :: "json_obj \<Rightarrow> int option" where
  "evidence_status evidence = (case map_of evidence ''status'' of Some (HInt n) \<Rightarrow> Some n
     | Some (HBool b) \<Rightarrow> Some (if b then 1 else 0) | _ \<Rightarrow> None)"

definition evidence_text :: "json_obj \<Rightarrow> string \<Rightarrow> string option" where
  "evidence_text evidence k = (case map_of evidence k of Some (HStr s) \<Rightarrow> Some s | _ \<Rightarrow> None)"
definition acquire_market_snapshot :: "codec \<Rightarrow> string \<Rightarrow> instant \<Rightarrow> string + json_obj \<times> string \<Rightarrow>
    MarketSnapshot" where
  "acquire_market_snapshot c ticker started answer = (case answer of
     Inl failure \<Rightarrow> failed_snapshot ticker started ''ACQUISITION_FAILURE'' failure None None None
   | Inr (evidence, body) \<Rightarrow>
       let observed_at = (case parse_timestamp c (map_of evidence ''observed_at'') of
             None \<Rightarrow> started | Some t \<Rightarrow> t);
           path = evidence_text evidence ''path''; http_status = evidence_status evidence;
           sha = evidence_text evidence ''body_sha256'';
           failed = failed_snapshot ticker observed_at
       in if map_of evidence ''classification'' \<noteq> Some (HStr ''SUCCESS'') \<or>
            \<not> number_is (map_of evidence ''status'') 200 \<or> path \<noteq> Some (market_path ticker)
          then failed ''HTTP_OR_NETWORK_FAILURE'' (''acquisition did not succeed (classification='' @
            cc_repr c (hval (map_of evidence ''classification'')) @ '', status='' @
            cc_repr c (hval (map_of evidence ''status'')) @ '')'') path http_status sha
          else if length body > MAX_MARKET_BODY_BYTES
          then failed ''OVERSIZED_BODY'' ''market response exceeded the bounded single-market size''
            path http_status None
          else if sha \<noteq> Some (cc_sha256 c body)
          then failed ''MALFORMED_ENVELOPE''
            ''acquisition body hash did not match the exact received bytes'' path http_status None
          else (case map_of evidence ''payload'' of
            Some (HObj payload) \<Rightarrow> (case map_of payload ''market'' of
              Some (HObj raw_market) \<Rightarrow>
                if map_of raw_market ''ticker'' \<noteq> Some (HStr ticker)
                then failed ''MARKET_IDENTITY_MISMATCH''
                  ''response market ticker did not match the requested ticker'' path http_status sha
                else (case Market_parse (cc_digest c) (cc_fromiso c) raw_market of
                  Inl e \<Rightarrow> failed ''MALFORMED_ENVELOPE'' (''market payload failed canonical parse: '' @
                    (case e of UniverseValidationError t \<Rightarrow> t | _ \<Rightarrow> '''')) path http_status sha
                | Inr market \<Rightarrow>
                    if mk_ticker market \<noteq> ticker
                    then failed ''MARKET_IDENTITY_MISMATCH''
                      ''parsed market ticker did not match the requested ticker'' path http_status sha
                    else \<lparr>ms_schema = SNAPSHOT_SCHEMA,
                      ms_software_version = ''kalsh3.market_universe.market_snapshot/1'',
                      ms_environment = ''PRODUCTION'', ms_host = SNAPSHOT_HOST,
                      ms_path = Some (market_path ticker), ms_ticker = ticker,
                      ms_http_status = Some 200, ms_observed_at = observed_at,
                      ms_expires_at = observed_at + FRESHNESS, ms_body_sha256 = sha,
                      ms_raw_body_b64 = Some (cc_b64encode c body),
                      ms_parsed_market_ticker = Some (mk_ticker market),
                      ms_parsed_event_ticker = Some (mk_event_ticker market),
                      ms_source_updated_at = mk_source_updated_at market,
                      ms_rules_hash = Some (mk_rules_hash market),
                      ms_metadata_hash = Some (mk_metadata_hash market),
                      ms_parser_version = PARSER_VERSION, ms_classification = ''SUCCESS'',
                      ms_reason = None\<rparr>)
            | _ \<Rightarrow> failed ''MALFORMED_ENVELOPE''
                ''response envelope did not contain a single market object'' path http_status sha)
          | _ \<Rightarrow> failed ''MALFORMED_ENVELOPE''
              ''response envelope did not contain a single market object'' path http_status sha))"

record SnapshotValidation =
  sv_classification :: string
  sv_reason :: "string option"
  sv_rules_hash :: "string option"
  sv_metadata_hash :: "string option"
  sv_ticker :: "string option"
  sv_event_ticker :: "string option"
  sv_observed_at :: "instant option"
  sv_body_sha256 :: "string option"

definition invalid_snapshot :: "string \<Rightarrow> string \<Rightarrow> SnapshotValidation" where
  "invalid_snapshot classification reason = \<lparr>sv_classification = classification,
     sv_reason = Some reason, sv_rules_hash = None, sv_metadata_hash = None, sv_ticker = None,
     sv_event_ticker = None, sv_observed_at = None, sv_body_sha256 = None\<rparr>"

definition snapshot_succeeded :: "SnapshotValidation \<Rightarrow> bool" where
  "snapshot_succeeded v \<longleftrightarrow> sv_classification v = ''PASS''"

text \<open>The checks on the envelope of the stored snapshot; \<open>None\<close> when all of them pass.\<close>

definition envelope_problem :: "codec \<Rightarrow> json_obj \<Rightarrow> string \<Rightarrow> SnapshotValidation option" where
  "envelope_problem c payload expected_ticker =
     (if set (map fst payload) \<noteq> set SNAPSHOT_FIELDS
      then Some (invalid_snapshot ''MALFORMED_SNAPSHOT_EVIDENCE''
        ''snapshot payload has unexpected or missing fields'')
      else if map_of payload ''schema'' \<noteq> Some (HStr SNAPSHOT_SCHEMA)
      then Some (invalid_snapshot ''MALFORMED_SNAPSHOT_EVIDENCE'' ''snapshot schema mismatch'')
      else if map_of payload ''classification'' \<noteq> Some (HStr ''SUCCESS'')
      then Some (invalid_snapshot ''SOURCE_AUTHORITY_MISMATCH'' ''snapshot acquisition did not succeed'')
      else if map_of payload ''environment'' \<noteq> Some (HStr ''PRODUCTION'')
      then Some (invalid_snapshot ''SOURCE_AUTHORITY_MISMATCH'' ''snapshot environment is not PRODUCTION'')
      else if map_of payload ''host'' \<noteq> Some (HStr SNAPSHOT_HOST)
      then Some (invalid_snapshot ''SOURCE_AUTHORITY_MISMATCH''
        ''snapshot host is not the fixed production origin'')
      else if map_of payload ''parser_version'' \<noteq> Some (HStr PARSER_VERSION)
      then Some (invalid_snapshot ''SOURCE_AUTHORITY_MISMATCH''
        ''snapshot parser version does not match this reviewer'')
      else if map_of payload ''ticker'' \<noteq> Some (HStr expected_ticker)
      then Some (invalid_snapshot ''MARKET_IDENTITY_MISMATCH''
        ''snapshot ticker does not match the expected candidate'')
      else if map_of payload ''path'' \<noteq> Some (HStr (market_path expected_ticker))
      then Some (invalid_snapshot ''SOURCE_AUTHORITY_MISMATCH''
        ''snapshot path is not the exact expected market path'')
      else if \<not> number_is (map_of payload ''http_status'') 200
      then Some (invalid_snapshot ''SOURCE_AUTHORITY_MISMATCH'' ''snapshot HTTP status was not 200'')
      else None)"

definition snapshot_market_check :: "codec \<Rightarrow> json_obj \<Rightarrow> string \<Rightarrow> string \<Rightarrow> instant \<Rightarrow> string \<Rightarrow> json_obj \<Rightarrow>
    SnapshotValidation" where
  "snapshot_market_check c payload expected_ticker expected_event_ticker observed_at body_sha256 raw_market =
     (if map_of raw_market ''ticker'' \<noteq> Some (HStr expected_ticker)
      then invalid_snapshot ''MARKET_IDENTITY_MISMATCH''
        ''raw body market ticker does not match the expected candidate''
      else case Market_parse (cc_digest c) (cc_fromiso c) raw_market of
        Inl e \<Rightarrow> invalid_snapshot ''MALFORMED_SNAPSHOT_EVIDENCE''
          ''raw body market payload failed canonical parse''
      | Inr market \<Rightarrow>
          if mk_ticker market \<noteq> expected_ticker
          then invalid_snapshot ''MARKET_IDENTITY_MISMATCH''
            ''re-parsed market ticker does not match the expected candidate''
          else if mk_event_ticker market \<noteq> expected_event_ticker
          then invalid_snapshot ''MARKET_IDENTITY_MISMATCH''
            ''re-parsed market event ticker does not match the expected candidate event''
          else if map_of payload ''parsed_market_ticker'' \<noteq> Some (HStr (mk_ticker market)) \<or>
            map_of payload ''parsed_event_ticker'' \<noteq> Some (HStr (mk_event_ticker market)) \<or>
            map_of payload ''rules_hash'' \<noteq> Some (HStr (mk_rules_hash market)) \<or>
            map_of payload ''metadata_hash'' \<noteq> Some (HStr (mk_metadata_hash market))
          then invalid_snapshot ''MALFORMED_SNAPSHOT_EVIDENCE''
            ''stamped snapshot fields do not match an independent re-parse of the raw body''
          else \<lparr>sv_classification = ''PASS'', sv_reason = None,
            sv_rules_hash = Some (mk_rules_hash market), sv_metadata_hash = Some (mk_metadata_hash market),
            sv_ticker = Some (mk_ticker market), sv_event_ticker = Some (mk_event_ticker market),
            sv_observed_at = Some observed_at, sv_body_sha256 = Some body_sha256\<rparr>)"

definition snapshot_body_check :: "codec \<Rightarrow> json_obj \<Rightarrow> string \<Rightarrow> string \<Rightarrow> instant \<Rightarrow> SnapshotValidation" where
  "snapshot_body_check c payload expected_ticker expected_event_ticker observed_at =
     (case (nonempty_text (map_of payload ''body_sha256''), nonempty_text (map_of payload ''raw_body_b64'')) of
        (Some body_sha256, Some raw_body) \<Rightarrow>
          if length raw_body > MAX_BODY_B64_CHARS
          then invalid_snapshot ''MALFORMED_SNAPSHOT_EVIDENCE'' ''snapshot raw body exceeds the bounded size''
          else (case cc_b64decode c raw_body of
            None \<Rightarrow> invalid_snapshot ''MALFORMED_SNAPSHOT_EVIDENCE'' ''snapshot raw body is not valid base64''
          | Some body \<Rightarrow>
              if length body > MAX_MARKET_BODY_BYTES
              then invalid_snapshot ''MALFORMED_SNAPSHOT_EVIDENCE'' ''snapshot raw body exceeds the bounded size''
              else if cc_sha256 c body \<noteq> body_sha256
              then invalid_snapshot ''MALFORMED_SNAPSHOT_EVIDENCE''
                ''snapshot raw body does not match its recorded body_sha256''
              else (case cc_json c body of
                None \<Rightarrow> invalid_snapshot ''MALFORMED_SNAPSHOT_EVIDENCE'' ''snapshot raw body is not valid JSON''
              | Some parsed \<Rightarrow> (case (case parsed of HObj obj \<Rightarrow> map_of obj ''market'' | _ \<Rightarrow> None) of
                  Some (HObj raw_market) \<Rightarrow> snapshot_market_check c payload expected_ticker
                    expected_event_ticker observed_at body_sha256 raw_market
                | _ \<Rightarrow> invalid_snapshot ''MALFORMED_SNAPSHOT_EVIDENCE''
                    ''snapshot raw body envelope does not contain a single market object'')))
      | _ \<Rightarrow> invalid_snapshot ''MALFORMED_SNAPSHOT_EVIDENCE'' ''snapshot is missing raw body material'')"

definition validate_market_snapshot :: "codec \<Rightarrow> hashable \<Rightarrow> string \<Rightarrow> string \<Rightarrow> SnapshotValidation" where
  "validate_market_snapshot c value expected_ticker expected_event_ticker = (case value of
     HObj payload \<Rightarrow> (case envelope_problem c payload expected_ticker of
         Some v \<Rightarrow> v
       | None \<Rightarrow> (case (parse_timestamp c (map_of payload ''observed_at''),
             parse_timestamp c (map_of payload ''expires_at'')) of
           (Some observed_at, Some expires_at) \<Rightarrow>
             if expires_at \<le> observed_at \<or> expires_at > observed_at + FRESHNESS
             then invalid_snapshot ''MALFORMED_SNAPSHOT_EVIDENCE''
               ''snapshot expiry does not satisfy the fixed freshness bound''
             else snapshot_body_check c payload expected_ticker expected_event_ticker observed_at
         | _ \<Rightarrow> invalid_snapshot ''MALFORMED_SNAPSHOT_EVIDENCE''
             ''snapshot timestamps are malformed or naive''))
   | _ \<Rightarrow> invalid_snapshot ''MALFORMED_SNAPSHOT_EVIDENCE''
       ''snapshot payload has unexpected or missing fields'')"
section \<open>Economics bound to a snapshot\<close>

definition BINDING_SCHEMA :: string where
  "BINDING_SCHEMA = ''kalsh3.m27a.authoritative-market-economics-binding.v1''"

record EconomicsBinding =
  eb_schema :: string
  eb_economics_evidence_id :: string
  eb_market_ticker :: string
  eb_event_ticker :: string
  eb_market_rules_hash :: string
  eb_market_metadata_hash :: string
  eb_market_observed_at :: instant
  eb_economics_observed_at :: datetime
  eb_orderbook_source_hash :: string
  eb_price_range_hash :: string
  eb_expected_snapshot :: json_obj

definition datetime_text :: "datetime \<Rightarrow> string" where
  "datetime_text t = (case t of Aware i \<Rightarrow> isoformat i
     | Naive i \<Rightarrow> take (length (isoformat i) - 6) (isoformat i))"

definition binding_to_json :: "EconomicsBinding \<Rightarrow> json_obj" where
  "binding_to_json b = [(''schema'', HStr (eb_schema b)),
     (''economics_evidence_id'', HStr (eb_economics_evidence_id b)),
     (''market_ticker'', HStr (eb_market_ticker b)), (''event_ticker'', HStr (eb_event_ticker b)),
     (''market_rules_hash'', HStr (eb_market_rules_hash b)),
     (''market_metadata_hash'', HStr (eb_market_metadata_hash b)),
     (''market_observed_at'', HStr (isoformat (eb_market_observed_at b))),
     (''economics_observed_at'', HStr (datetime_text (eb_economics_observed_at b))),
     (''orderbook_source_hash'', HStr (eb_orderbook_source_hash b)),
     (''price_range_hash'', HStr (eb_price_range_hash b)),
     (''expected_snapshot'', HObj (eb_expected_snapshot b))]"

definition BINDING_FIELDS :: "string list" where
  "BINDING_FIELDS = [''schema'', ''economics_evidence_id'', ''market_ticker'', ''event_ticker'',
     ''market_rules_hash'', ''market_metadata_hash'', ''market_observed_at'',
     ''economics_observed_at'', ''orderbook_source_hash'', ''price_range_hash'',
     ''expected_snapshot'']"

text \<open>The arguments of the authoritative builder.\<close>

record EconomicsRequest =
  er_snapshot_payload :: hashable
  er_expected_market_ticker :: string
  er_expected_event_ticker :: string
  er_series_ticker :: string
  er_market_source_id :: string
  er_raw_orderbook :: json_obj
  er_ladder :: PriceLadder
  er_orderbook_source_id :: string
  er_orderbook_observed_at :: datetime
  er_series_fee_observation_id :: string
  er_resolved_fee_regime_id :: string
  er_event_fee_hash :: string
  er_fee_policy :: FeePolicy
  er_fee_regime :: ResolvedFeeRegime
  er_requested_quantity :: decimal
  er_economics_observed_at :: datetime

definition requested_economics :: "EconomicsRequest \<Rightarrow> SnapshotValidation \<Rightarrow> BookObservation \<Rightarrow>
    MarketEconomicsReplayInput \<Rightarrow> TakerCost option \<Rightarrow> TakerCost option \<Rightarrow> MarketEconomicsEvidence" where
  "requested_economics q v observation inputs yes no =
     \<lparr>me_evidence_id = '''', me_market_ticker = the (sv_ticker v),
      me_event_ticker = the (sv_event_ticker v), me_series_ticker = er_series_ticker q,
      me_market_source_id = er_market_source_id q, me_market_rules_hash = the (sv_rules_hash v),
      me_market_metadata_hash = the (sv_metadata_hash v),
      me_price_range_hash = bo_price_range_hash observation, me_event_fee_hash = er_event_fee_hash q,
      me_series_fee_observation_id = er_series_fee_observation_id q,
      me_resolved_fee_regime_id = er_resolved_fee_regime_id q,
      me_fee_policy_id = fp_policy_id (er_fee_policy q),
      me_orderbook_source_id = bo_source_id observation,
      me_orderbook_source_hash = bo_source_hash observation,
      me_market_observed_at = Aware (the (sv_observed_at v)),
      me_orderbook_observed_at = er_orderbook_observed_at q,
      me_economics_observed_at = er_economics_observed_at q,
      me_requested_quantity = er_requested_quantity q, me_yes = yes, me_no = no,
      me_replay_input = inputs, me_analysis_type = ''TAKER_NOW'', me_research_only = True,
      me_production_influence = 0\<rparr>"

text \<open>A snapshot that passed carries every identity, and its payload is an object.\<close>

definition build_authoritative_market_economics :: "codec \<Rightarrow> EconomicsRequest \<Rightarrow>
    (MarketEconomicsEvidence \<times> EconomicsBinding) result" where
  "build_authoritative_market_economics c q =
     (let v = validate_market_snapshot c (er_snapshot_payload q) (er_expected_market_ticker q)
            (er_expected_event_ticker q)
      in if \<not> snapshot_succeeded v
         then Inl (OpportunityError (''authoritative market snapshot invalid: '' @ sv_classification v @
           '' ('' @ (case sv_reason v of None \<Rightarrow> ''None'' | Some r \<Rightarrow> r) @ '')''))
         else (case (er_snapshot_payload q, sv_observed_at v, sv_ticker v) of
           (HObj snapshot_payload, Some market_observed_at, Some market_ticker) \<Rightarrow>
             rbind (aware_utc (er_economics_observed_at q)) (\<lambda>economics_at.
               if market_observed_at > economics_at
               then Inl (OpportunityError ''authoritative market snapshot was acquired after the economics evaluation it backs'')
               else if economics_at - market_observed_at > FRESHNESS
               then Inl (OpportunityError ''authoritative market snapshot acquisition/evaluation skew exceeds the reviewed bound'')
               else rbind (normalize_live_orderbook (cc_digest c) (er_raw_orderbook q) market_ticker
                   (er_ladder q) (er_orderbook_source_id q) (er_orderbook_observed_at q)
                   (the (sv_rules_hash v))) (\<lambda>observation.
                 rbind (MarketEconomicsReplayInput_post_init (cc_digest c)
                   \<lparr>mi_book_observation = observation, mi_price_ladder = er_ladder q,
                    mi_fee_regime = er_fee_regime q, mi_fee_policy = er_fee_policy q\<rparr>) (\<lambda>inputs.
                 rbind (replay_side (bo_book observation) YES (er_requested_quantity q) (er_fee_policy q)) (\<lambda>yes.
                 rbind (replay_side (bo_book observation) NO (er_requested_quantity q) (er_fee_policy q)) (\<lambda>no.
                 rbind (MarketEconomicsEvidence_create (cc_digest c)
                   (requested_economics q v observation inputs yes no)) (\<lambda>economics.
                   Inr (economics, \<lparr>eb_schema = BINDING_SCHEMA,
                     eb_economics_evidence_id = me_evidence_id economics,
                     eb_market_ticker = me_market_ticker economics,
                     eb_event_ticker = me_event_ticker economics,
                     eb_market_rules_hash = me_market_rules_hash economics,
                     eb_market_metadata_hash = me_market_metadata_hash economics,
                     eb_market_observed_at = market_observed_at,
                     eb_economics_observed_at = er_economics_observed_at q,
                     eb_orderbook_source_hash = me_orderbook_source_hash economics,
                     eb_price_range_hash = me_price_range_hash economics,
                     eb_expected_snapshot = snapshot_payload\<rparr>)))))))
         | _ \<Rightarrow> Inl (OpportunityError ''authoritative market snapshot payload is not an object'')))"

record BindingValidation =
  bv_classification :: string
  bv_reason :: "string option"
  bv_rules_hash :: "string option"

definition binding_succeeded :: "BindingValidation \<Rightarrow> bool" where
  "binding_succeeded v \<longleftrightarrow> bv_classification v = ''PASS''"

definition invalid_binding :: "string \<Rightarrow> string \<Rightarrow> BindingValidation" where
  "invalid_binding classification reason =
     \<lparr>bv_classification = classification, bv_reason = Some reason, bv_rules_hash = None\<rparr>"

text \<open>The checks of the economics in use against the snapshot that was validated again.\<close>

definition binding_economics_check :: "json_obj \<Rightarrow> MarketEconomicsEvidence \<Rightarrow> SnapshotValidation \<Rightarrow>
    instant \<Rightarrow> BindingValidation result" where
  "binding_economics_check payload economics v market_observed_at =
     (if me_market_ticker economics \<noteq> the (sv_ticker v) \<or> me_event_ticker economics \<noteq> the (sv_event_ticker v)
      then Inr (invalid_binding ''MARKET_IDENTITY_MISMATCH''
        ''economics market/event identity does not match the binding'')
      else if me_market_rules_hash economics \<noteq> the (sv_rules_hash v) \<or>
        me_market_metadata_hash economics \<noteq> the (sv_metadata_hash v)
      then Inr (invalid_binding ''MALFORMED_BINDING_EVIDENCE''
        ''economics rules/metadata hash does not match the independently re-derived snapshot'')
      else rbind (aware_utc (me_market_observed_at economics)) (\<lambda>market_at.
        if market_at \<noteq> market_observed_at
        then Inr (invalid_binding ''MALFORMED_BINDING_EVIDENCE''
          ''economics market_observed_at does not match the binding's expected snapshot'')
        else if map_of payload ''orderbook_source_hash'' \<noteq> Some (HStr (me_orderbook_source_hash economics))
        then Inr (invalid_binding ''MALFORMED_BINDING_EVIDENCE''
          ''binding orderbook_source_hash does not match economics'')
        else if map_of payload ''price_range_hash'' \<noteq> Some (HStr (me_price_range_hash economics))
        then Inr (invalid_binding ''MALFORMED_BINDING_EVIDENCE''
          ''binding price_range_hash does not match economics'')
        else rbind (aware_utc (me_economics_observed_at economics)) (\<lambda>economics_at.
          if market_observed_at > economics_at
          then Inr (invalid_binding ''EXPECTED_SNAPSHOT_INVALID''
            ''expected snapshot was acquired after the economics evaluation it backs'')
          else if economics_at - market_observed_at > FRESHNESS
          then Inr (invalid_binding ''EXPECTED_SNAPSHOT_STALE''
            ''expected snapshot acquisition/evaluation skew exceeds the reviewed bound'')
          else Inr \<lparr>bv_classification = ''PASS'', bv_reason = None, bv_rules_hash = sv_rules_hash v\<rparr>)))"

definition stamped_time_problem :: "codec \<Rightarrow> json_obj \<Rightarrow> instant \<Rightarrow> string option" where
  "stamped_time_problem c payload market_observed_at = (case map_of payload ''market_observed_at'' of
     Some (HStr s) \<Rightarrow> (case cc_fromiso c s of
         None \<Rightarrow> Some ''binding market_observed_at malformed''
       | Some (Naive t) \<Rightarrow> Some ''binding market_observed_at naive''
       | Some (Aware t) \<Rightarrow> if t \<noteq> market_observed_at
           then Some ''binding market_observed_at does not match its embedded snapshot'' else None)
   | _ \<Rightarrow> Some ''binding market_observed_at malformed'')"

definition validate_economics_binding :: "codec \<Rightarrow> hashable \<Rightarrow> MarketEconomicsEvidence \<Rightarrow> string \<Rightarrow>
    string \<Rightarrow> BindingValidation result" where
  "validate_economics_binding c value economics expected_market_ticker expected_event_ticker = (case value of
     HObj payload \<Rightarrow>
       if set (map fst payload) \<noteq> set BINDING_FIELDS
       then Inr (invalid_binding ''MALFORMED_BINDING_EVIDENCE'' ''binding payload has unexpected or missing fields'')
       else if map_of payload ''schema'' \<noteq> Some (HStr BINDING_SCHEMA)
       then Inr (invalid_binding ''MALFORMED_BINDING_EVIDENCE'' ''binding schema mismatch'')
       else if map_of payload ''economics_evidence_id'' \<noteq> Some (HStr (me_evidence_id economics))
       then Inr (invalid_binding ''ECONOMICS_IDENTITY_MISMATCH''
         ''binding does not reference the exact economics evidence in use'')
       else let v = validate_market_snapshot c (hval (map_of payload ''expected_snapshot''))
              expected_market_ticker expected_event_ticker
         in (case sv_observed_at v of
              None \<Rightarrow> Inr (invalid_binding ''EXPECTED_SNAPSHOT_INVALID''
                (''embedded expected market snapshot is invalid: '' @ sv_classification v @ '' ('' @
                 (case sv_reason v of None \<Rightarrow> ''None'' | Some r \<Rightarrow> r) @ '')''))
            | Some market_observed_at \<Rightarrow>
                if map_of payload ''market_ticker'' \<noteq> Some (HStr (the (sv_ticker v))) \<or>
                  map_of payload ''event_ticker'' \<noteq> Some (HStr (the (sv_event_ticker v))) \<or>
                  map_of payload ''market_rules_hash'' \<noteq> Some (HStr (the (sv_rules_hash v))) \<or>
                  map_of payload ''market_metadata_hash'' \<noteq> Some (HStr (the (sv_metadata_hash v)))
                then Inr (invalid_binding ''MALFORMED_BINDING_EVIDENCE''
                  ''binding's stamped fields do not match an independent re-derivation of its embedded expected snapshot'')
                else (case stamped_time_problem c payload market_observed_at of
                    Some reason \<Rightarrow> Inr (invalid_binding ''MALFORMED_BINDING_EVIDENCE'' reason)
                  | None \<Rightarrow> binding_economics_check payload economics v market_observed_at))
   | _ \<Rightarrow> Inr (invalid_binding ''MALFORMED_BINDING_EVIDENCE'' ''binding payload has unexpected or missing fields''))"

end
