(* ===== verification/Snapshot_Properties.thy ===== *)
theory Snapshot_Properties
  imports Market_Snapshot
begin

text \<open>
  The properties of the market snapshot and of the economics bound to it: what validation accepts,
  and the round trips from acquisition and from the authoritative builder to validation.
\<close>

section \<open>What a passing validation has established\<close>

lemma invalid_snapshot_fields [simp]:
  "sv_classification (invalid_snapshot k r) = k" "sv_observed_at (invalid_snapshot k r) = None"
  by (simp_all add: invalid_snapshot_def)

lemma envelope_problem_fails: "envelope_problem c payload t = Some v \<Longrightarrow> \<not> snapshot_succeeded v"
  by (auto simp: envelope_problem_def snapshot_succeeded_def split: if_splits)

lemma snapshot_market_check_pass:
  assumes "snapshot_succeeded (snapshot_market_check c payload t e observed sha raw)"
  obtains market where "Market_parse (cc_digest c) (cc_fromiso c) raw = Inr market"
    and "mk_ticker market = t" and "mk_event_ticker market = e"
    and "map_of payload ''rules_hash'' = Some (HStr (mk_rules_hash market))"
    and "map_of payload ''metadata_hash'' = Some (HStr (mk_metadata_hash market))"
    and "snapshot_market_check c payload t e observed sha raw = \<lparr>sv_classification = ''PASS'',
      sv_reason = None, sv_rules_hash = Some (mk_rules_hash market),
      sv_metadata_hash = Some (mk_metadata_hash market), sv_ticker = Some t, sv_event_ticker = Some e,
      sv_observed_at = Some observed, sv_body_sha256 = Some sha\<rparr>"
  using assms
  by (auto simp: snapshot_market_check_def snapshot_succeeded_def split: if_splits sum.splits)

lemma snapshot_body_check_pass:
  assumes "snapshot_succeeded (snapshot_body_check c payload t e observed)"
  obtains sha enc body obj raw where "map_of payload ''body_sha256'' = Some (HStr sha)"
    and "map_of payload ''raw_body_b64'' = Some (HStr enc)" and "cc_b64decode c enc = Some body"
    and "cc_sha256 c body = sha" and "cc_json c body = Some (HObj obj)"
    and "map_of obj ''market'' = Some (HObj raw)"
    and "snapshot_body_check c payload t e observed = snapshot_market_check c payload t e observed sha raw"
proof -
  from assms obtain sha enc where st: "nonempty_text (map_of payload ''body_sha256'') = Some sha"
    "nonempty_text (map_of payload ''raw_body_b64'') = Some enc"
    by (auto simp: snapshot_body_check_def snapshot_succeeded_def split: option.splits)
  with assms obtain body where body: "cc_b64decode c enc = Some body" "cc_sha256 c body = sha"
    by (auto simp: snapshot_body_check_def snapshot_succeeded_def split: if_splits option.splits)
  with st assms obtain obj raw where obj: "cc_json c body = Some (HObj obj)"
    "map_of obj ''market'' = Some (HObj raw)"
    by (auto simp: snapshot_body_check_def snapshot_succeeded_def
        split: if_splits option.splits hashable.splits)
  have "snapshot_body_check c payload t e observed = snapshot_market_check c payload t e observed sha raw"
    using assms st body obj by (simp add: snapshot_body_check_def snapshot_succeeded_def split: if_splits)
  with st body obj show ?thesis
    by (intro that) (auto simp: nonempty_text_def split: option.splits hashable.splits if_splits)
qed

lemma validate_pass:
  assumes "snapshot_succeeded (validate_market_snapshot c value t e)"
  obtains payload observed where "value = HObj payload"
    and "parse_timestamp c (map_of payload ''observed_at'') = Some observed"
    and "validate_market_snapshot c value t e = snapshot_body_check c payload t e observed"
proof -
  from assms obtain payload where p: "value = HObj payload"
    by (cases "value") (auto simp: validate_market_snapshot_def snapshot_succeeded_def)
  have ok: "envelope_problem c payload t = None"
    using assms envelope_problem_fails by (auto simp: p validate_market_snapshot_def split: option.splits)
  with assms p obtain observed where "parse_timestamp c (map_of payload ''observed_at'') = Some observed"
    "validate_market_snapshot c value t e = snapshot_body_check c payload t e observed"
    by (auto simp: validate_market_snapshot_def snapshot_succeeded_def split: option.splits if_splits)
  with p show ?thesis by (rule that)
qed

text \<open>A snapshot passes only if its recorded bytes have the recorded digest and, parsed again, are the
  market it names, and the hashes returned are those of that parse.\<close>

theorem accepted_snapshot_is_the_market:
  assumes "snapshot_succeeded (validate_market_snapshot c value ticker event)"
  shows "\<exists>payload enc body obj raw market. value = HObj payload \<and>
    map_of payload ''raw_body_b64'' = Some (HStr enc) \<and> cc_b64decode c enc = Some body \<and>
    map_of payload ''body_sha256'' = Some (HStr (cc_sha256 c body)) \<and>
    cc_json c body = Some (HObj obj) \<and> map_of obj ''market'' = Some (HObj raw) \<and>
    Market_parse (cc_digest c) (cc_fromiso c) raw = Inr market \<and>
    mk_ticker market = ticker \<and> mk_event_ticker market = event \<and>
    sv_rules_hash (validate_market_snapshot c value ticker event) = Some (mk_rules_hash market) \<and>
    sv_metadata_hash (validate_market_snapshot c value ticker event) = Some (mk_metadata_hash market)"
proof -
  from assms obtain payload observed where p: "value = HObj payload"
    and v: "validate_market_snapshot c value ticker event = snapshot_body_check c payload ticker event observed"
    by (rule validate_pass)
  from assms [unfolded v] obtain sha enc body obj raw where b:
    "map_of payload ''body_sha256'' = Some (HStr sha)" "map_of payload ''raw_body_b64'' = Some (HStr enc)"
    "cc_b64decode c enc = Some body" "cc_sha256 c body = sha" "cc_json c body = Some (HObj obj)"
    "map_of obj ''market'' = Some (HObj raw)"
    and w: "snapshot_body_check c payload ticker event observed =
      snapshot_market_check c payload ticker event observed sha raw"
    by (rule snapshot_body_check_pass)
  from assms [unfolded v w] obtain market where
    "Market_parse (cc_digest c) (cc_fromiso c) raw = Inr market" "mk_ticker market = ticker"
    "mk_event_ticker market = event"
    "snapshot_market_check c payload ticker event observed sha raw = \<lparr>sv_classification = ''PASS'',
      sv_reason = None, sv_rules_hash = Some (mk_rules_hash market),
      sv_metadata_hash = Some (mk_metadata_hash market), sv_ticker = Some ticker,
      sv_event_ticker = Some event, sv_observed_at = Some observed, sv_body_sha256 = Some sha\<rparr>"
    by (rule snapshot_market_check_pass)
  with p b show ?thesis unfolding v w
    by (intro exI [of _ payload] exI [of _ enc] exI [of _ body] exI [of _ obj] exI [of _ raw]
        exI [of _ market]) simp
qed

section \<open>From acquisition to validation\<close>

text \<open>The documented behaviour of the libraries: base64 decodes what it encoded into four characters
  per three bytes, and \<open>fromisoformat\<close> reads \<open>isoformat\<close>.\<close>

definition sound_codec :: "codec \<Rightarrow> bool" where
  "sound_codec c \<longleftrightarrow> (\<forall>x. cc_b64decode c (cc_b64encode c x) = Some x \<and>
     length (cc_b64encode c x) = 4 * ((length x + 2) div 3) \<and> cc_sha256 c x \<noteq> [])"

definition reads_time :: "codec \<Rightarrow> instant \<Rightarrow> bool" where
  "reads_time c t \<longleftrightarrow> cc_fromiso c (isoformat t) = Some (Aware t)"

lemma acquired_success:
  assumes "ms_classification (acquire_market_snapshot c ticker started answer) = ''SUCCESS''"
  obtains evidence body payload raw market observed where "answer = Inr (evidence, body)"
    and "length body \<le> MAX_MARKET_BODY_BYTES" and "map_of evidence ''payload'' = Some (HObj payload)"
    and "map_of payload ''market'' = Some (HObj raw)"
    and "map_of raw ''ticker'' = Some (HStr ticker)"
    and "Market_parse (cc_digest c) (cc_fromiso c) raw = Inr market" and "mk_ticker market = ticker"
    and "acquire_market_snapshot c ticker started answer =
      \<lparr>ms_schema = SNAPSHOT_SCHEMA, ms_software_version = ''kalsh3.market_universe.market_snapshot/1'',
       ms_environment = ''PRODUCTION'', ms_host = SNAPSHOT_HOST, ms_path = Some (market_path ticker),
       ms_ticker = ticker, ms_http_status = Some 200, ms_observed_at = observed,
       ms_expires_at = observed + FRESHNESS, ms_body_sha256 = Some (cc_sha256 c body),
       ms_raw_body_b64 = Some (cc_b64encode c body), ms_parsed_market_ticker = Some (mk_ticker market),
       ms_parsed_event_ticker = Some (mk_event_ticker market),
       ms_source_updated_at = mk_source_updated_at market, ms_rules_hash = Some (mk_rules_hash market),
       ms_metadata_hash = Some (mk_metadata_hash market), ms_parser_version = PARSER_VERSION,
       ms_classification = ''SUCCESS'', ms_reason = None\<rparr>"
proof -
  have failed: "ms_classification (failed_snapshot a b k r x y z) = k" for a b k r x y z
    by (simp add: failed_snapshot_def)
  from assms obtain evidence body where a: "answer = Inr (evidence, body)"
    by (cases answer) (auto simp: acquire_market_snapshot_def failed)
  note acq = assms [unfolded acquire_market_snapshot_def a, simplified, unfolded Let_def]
  have c1: "\<not> (map_of evidence ''classification'' \<noteq> Some (HStr ''SUCCESS'') \<or>
      \<not> number_is (map_of evidence ''status'') 200 \<or>
      evidence_text evidence ''path'' \<noteq> Some (market_path ticker))"
    and c2: "\<not> length body > MAX_MARKET_BODY_BYTES"
    and c3: "evidence_text evidence ''body_sha256'' = Some (cc_sha256 c body)"
    using acq by (simp_all add: failed split: if_splits)
  from acq c1 c2 c3 obtain payload where p: "map_of evidence ''payload'' = Some (HObj payload)"
    by (auto simp: failed split: option.splits hashable.splits if_splits)
  from acq c1 c2 c3 p obtain raw where r: "map_of payload ''market'' = Some (HObj raw)"
    by (auto simp: failed split: option.splits hashable.splits if_splits)
  from acq c1 c2 c3 p r have t: "map_of raw ''ticker'' = Some (HStr ticker)"
    by (auto simp: failed split: if_splits)
  from acq c1 c2 c3 p r t obtain market where m: "Market_parse (cc_digest c) (cc_fromiso c) raw = Inr market"
    "mk_ticker market = ticker" by (auto simp: failed split: sum.splits if_splits)
  have "\<exists>observed. acquire_market_snapshot c ticker started answer =
      \<lparr>ms_schema = SNAPSHOT_SCHEMA, ms_software_version = ''kalsh3.market_universe.market_snapshot/1'',
       ms_environment = ''PRODUCTION'', ms_host = SNAPSHOT_HOST, ms_path = Some (market_path ticker),
       ms_ticker = ticker, ms_http_status = Some 200, ms_observed_at = observed,
       ms_expires_at = observed + FRESHNESS, ms_body_sha256 = Some (cc_sha256 c body),
       ms_raw_body_b64 = Some (cc_b64encode c body), ms_parsed_market_ticker = Some (mk_ticker market),
       ms_parsed_event_ticker = Some (mk_event_ticker market),
       ms_source_updated_at = mk_source_updated_at market, ms_rules_hash = Some (mk_rules_hash market),
       ms_metadata_hash = Some (mk_metadata_hash market), ms_parser_version = PARSER_VERSION,
       ms_classification = ''SUCCESS'', ms_reason = None\<rparr>"
    using c1 c2 c3 p r t m by (simp add: acquire_market_snapshot_def a Let_def)
  with a c2 p r t m show ?thesis by (auto intro: that)
qed
lemma acquired_snapshot_ok:
  assumes "sound_codec c" and "ms_classification s = ''SUCCESS''"
    and "s = acquire_market_snapshot c ticker started (Inr (evidence, body))"
    and "map_of evidence ''payload'' = cc_json c body" and "body \<noteq> []"
    and "ms_parsed_event_ticker s = Some event"
    and "reads_time c (ms_observed_at s)" and "reads_time c (ms_expires_at s)"
  shows "let v = validate_market_snapshot c (HObj (snapshot_to_json s)) ticker event in
    snapshot_succeeded v \<and> sv_rules_hash v = ms_rules_hash s \<and> sv_metadata_hash v = ms_metadata_hash s \<and>
    sv_observed_at v = Some (ms_observed_at s) \<and> sv_body_sha256 v = ms_body_sha256 s"
proof -
  from assms(2) [unfolded assms(3)] obtain payload raw market observed where
    len: "length body \<le> MAX_MARKET_BODY_BYTES" and p: "map_of evidence ''payload'' = Some (HObj payload)"
    and r: "map_of payload ''market'' = Some (HObj raw)" and t: "map_of raw ''ticker'' = Some (HStr ticker)"
    and m: "Market_parse (cc_digest c) (cc_fromiso c) raw = Inr market" "mk_ticker market = ticker"
    and s: "acquire_market_snapshot c ticker started (Inr (evidence, body)) =
      \<lparr>ms_schema = SNAPSHOT_SCHEMA, ms_software_version = ''kalsh3.market_universe.market_snapshot/1'',
       ms_environment = ''PRODUCTION'', ms_host = SNAPSHOT_HOST, ms_path = Some (market_path ticker),
       ms_ticker = ticker, ms_http_status = Some 200, ms_observed_at = observed,
       ms_expires_at = observed + FRESHNESS, ms_body_sha256 = Some (cc_sha256 c body),
       ms_raw_body_b64 = Some (cc_b64encode c body), ms_parsed_market_ticker = Some (mk_ticker market),
       ms_parsed_event_ticker = Some (mk_event_ticker market),
       ms_source_updated_at = mk_source_updated_at market, ms_rules_hash = Some (mk_rules_hash market),
       ms_metadata_hash = Some (mk_metadata_hash market), ms_parser_version = PARSER_VERSION,
       ms_classification = ''SUCCESS'', ms_reason = None\<rparr>"
    by (rule acquired_success) auto
  have event: "mk_event_ticker market = event" using assms(6) by (simp add: assms(3) s)
  have json: "cc_json c body = Some (HObj payload)" using assms(4) p by simp
  have b64: "cc_b64decode c (cc_b64encode c body) = Some body" "cc_b64encode c body \<noteq> []"
      "length (cc_b64encode c body) \<le> MAX_BODY_B64_CHARS" "cc_sha256 c body \<noteq> []"
  proof -
    have l: "length (cc_b64encode c body) = 4 * ((length body + 2) div 3)"
      using assms(1) by (simp add: sound_codec_def)
    show "cc_b64decode c (cc_b64encode c body) = Some body" "cc_sha256 c body \<noteq> []"
      using assms(1) by (simp_all add: sound_codec_def)
    have "1 \<le> length body" using assms(5) by (cases body) simp_all
    then have "0 < length (cc_b64encode c body)" unfolding l by (simp add: div_greater_zero_iff)
    then show "cc_b64encode c body \<noteq> []" by simp
    show "length (cc_b64encode c body) \<le> MAX_BODY_B64_CHARS"
      using len unfolding l MAX_BODY_B64_CHARS_def MAX_MARKET_BODY_BYTES_def by simp
  qed
  have times: "parse_timestamp c (Some (HStr (isoformat observed))) = Some observed"
    "parse_timestamp c (Some (HStr (isoformat (observed + FRESHNESS)))) = Some (observed + FRESHNESS)"
    using assms(7,8) by (simp_all add: assms(3) s reads_time_def parse_timestamp_def)
  let ?js = "snapshot_to_json s"
  have env: "envelope_problem c ?js ticker = None"
    by (simp add: assms(3) s snapshot_to_json_def envelope_problem_def SNAPSHOT_FIELDS_def hopt_def number_is_def)
  have body: "snapshot_body_check c ?js ticker event observed =
      snapshot_market_check c ?js ticker event observed (cc_sha256 c body) raw"
    using b64 len json r
    by (simp add: assms(3) s snapshot_body_check_def snapshot_to_json_def hopt_def nonempty_text_def not_less)
  have market: "snapshot_market_check c ?js ticker event observed (cc_sha256 c body) raw =
      \<lparr>sv_classification = ''PASS'', sv_reason = None, sv_rules_hash = Some (mk_rules_hash market),
       sv_metadata_hash = Some (mk_metadata_hash market), sv_ticker = Some ticker,
       sv_event_ticker = Some event, sv_observed_at = Some observed,
       sv_body_sha256 = Some (cc_sha256 c body)\<rparr>"
    using t m event by (simp add: assms(3) s snapshot_market_check_def snapshot_to_json_def hopt_def)
  have "validate_market_snapshot c (HObj ?js) ticker event = snapshot_body_check c ?js ticker event observed"
    using env times
    by (simp add: validate_market_snapshot_def assms(3) s snapshot_to_json_def FRESHNESS_def seconds_def)
  then show ?thesis unfolding body market
    by (simp add: Let_def snapshot_succeeded_def assms(3) s)
qed

text \<open>C39. A successfully acquired snapshot, written as JSON, validates for its ticker and event, and returns
  the hashes stamped on it and the time it was observed: the reader of the bytes is the reader the
  transport used.\<close>

theorem acquired_snapshot_validates:
  assumes "sound_codec c" and "ms_classification s = ''SUCCESS''"
    and "s = acquire_market_snapshot c ticker started (Inr (evidence, body))"
    and "map_of evidence ''payload'' = cc_json c body" and "body \<noteq> []"
    and "ms_parsed_event_ticker s = Some event"
    and "reads_time c (ms_observed_at s)" and "reads_time c (ms_expires_at s)"
  shows "let v = validate_market_snapshot c (HObj (snapshot_to_json s)) ticker event in
    snapshot_succeeded v \<and> sv_rules_hash v = ms_rules_hash s \<and> sv_metadata_hash v = ms_metadata_hash s \<and>
    sv_observed_at v = Some (ms_observed_at s) \<and> sv_body_sha256 v = ms_body_sha256 s"
  by (rule acquired_snapshot_ok) (rule assms)+

section \<open>From the authoritative builder to the binding's validation\<close>

lemma pass_fields:
  assumes "snapshot_succeeded (validate_market_snapshot c value t e)"
  obtains observed where "sv_ticker (validate_market_snapshot c value t e) = Some t"
    and "sv_event_ticker (validate_market_snapshot c value t e) = Some e"
    and "sv_rules_hash (validate_market_snapshot c value t e) \<noteq> None"
    and "sv_metadata_hash (validate_market_snapshot c value t e) \<noteq> None"
    and "sv_observed_at (validate_market_snapshot c value t e) = Some observed"
proof -
  from assms obtain payload observed where v: "validate_market_snapshot c value t e =
      snapshot_body_check c payload t e observed" by (rule validate_pass)
  from assms [unfolded v] obtain sha raw where w: "snapshot_body_check c payload t e observed =
      snapshot_market_check c payload t e observed sha raw" by (rule snapshot_body_check_pass)
  from assms [unfolded v w] obtain market :: Market where "snapshot_market_check c payload t e observed sha raw =
      \<lparr>sv_classification = ''PASS'', sv_reason = None, sv_rules_hash = Some (mk_rules_hash market),
       sv_metadata_hash = Some (mk_metadata_hash market), sv_ticker = Some t, sv_event_ticker = Some e,
       sv_observed_at = Some observed, sv_body_sha256 = Some sha\<rparr>"
    by (rule snapshot_market_check_pass) blast
  then show ?thesis by (intro that [of observed]) (simp_all add: v w)
qed

lemma create_keeps:
  "MarketEconomicsEvidence_create dig e = Inr e' \<Longrightarrow> e' = e\<lparr>me_evidence_id := dig (economics_payload e)\<rparr>"
  by (auto simp: MarketEconomicsEvidence_create_def rbind_eq_Inr Let_def split: if_splits prod.splits)

lemma authoritative_built:
  assumes "build_authoritative_market_economics c q = Inr (economics, binding)"
  defines "v \<equiv> validate_market_snapshot c (er_snapshot_payload q) (er_expected_market_ticker q)
    (er_expected_event_ticker q)"
  obtains payload observed now where "er_snapshot_payload q = HObj payload"
    and "sv_ticker v = Some (er_expected_market_ticker q)" and "sv_event_ticker v = Some (er_expected_event_ticker q)"
    and "sv_observed_at v = Some observed" and "observed \<le> now" and "now - observed \<le> FRESHNESS"
    and "me_market_ticker economics = er_expected_market_ticker q"
    and "me_event_ticker economics = er_expected_event_ticker q"
    and "sv_rules_hash v = Some (me_market_rules_hash economics)"
    and "sv_metadata_hash v = Some (me_market_metadata_hash economics)"
    and "me_market_observed_at economics = Aware observed" and "me_economics_observed_at economics = Aware now"
    and "binding = \<lparr>eb_schema = BINDING_SCHEMA, eb_economics_evidence_id = me_evidence_id economics,
       eb_market_ticker = me_market_ticker economics, eb_event_ticker = me_event_ticker economics,
       eb_market_rules_hash = me_market_rules_hash economics,
       eb_market_metadata_hash = me_market_metadata_hash economics, eb_market_observed_at = observed,
       eb_economics_observed_at = er_economics_observed_at q,
       eb_orderbook_source_hash = me_orderbook_source_hash economics,
       eb_price_range_hash = me_price_range_hash economics, eb_expected_snapshot = payload\<rparr>"
proof -
  let ?t = "er_expected_market_ticker q" and ?e = "er_expected_event_ticker q"
  let ?v = "validate_market_snapshot c (er_snapshot_payload q) ?t ?e"
  have pass: "snapshot_succeeded ?v"
    using assms(1) by (auto simp: build_authoritative_market_economics_def Let_def split: if_splits)
  then obtain observed where v: "sv_ticker ?v = Some ?t" "sv_event_ticker ?v = Some ?e"
    "sv_rules_hash ?v \<noteq> None" "sv_metadata_hash ?v \<noteq> None" "sv_observed_at ?v = Some observed"
    by (rule pass_fields)
  obtain payload where p: "er_snapshot_payload q = HObj payload" using pass by (rule validate_pass)
  from assms(1) obtain now where now: "er_economics_observed_at q = Aware now" "observed \<le> now" "now - observed \<le> FRESHNESS"
    using pass v p by (cases "er_economics_observed_at q")
      (auto simp: build_authoritative_market_economics_def Let_def aware_utc_def not_less split: if_splits)
  from assms(1) pass v p now obtain observation inputs yes no where
    c: "MarketEconomicsEvidence_create (cc_digest c) (requested_economics q ?v observation inputs yes no) = Inr economics"
    and b: "binding = \<lparr>eb_schema = BINDING_SCHEMA, eb_economics_evidence_id = me_evidence_id economics,
       eb_market_ticker = me_market_ticker economics, eb_event_ticker = me_event_ticker economics,
       eb_market_rules_hash = me_market_rules_hash economics,
       eb_market_metadata_hash = me_market_metadata_hash economics, eb_market_observed_at = observed,
       eb_economics_observed_at = er_economics_observed_at q,
       eb_orderbook_source_hash = me_orderbook_source_hash economics,
       eb_price_range_hash = me_price_range_hash economics, eb_expected_snapshot = payload\<rparr>"
    by (simp add: build_authoritative_market_economics_def Let_def aware_utc_def rbind_eq_Inr) blast
  have e: "me_market_ticker economics = ?t" "me_event_ticker economics = ?e"
    "sv_rules_hash ?v = Some (me_market_rules_hash economics)"
    "sv_metadata_hash ?v = Some (me_market_metadata_hash economics)"
    "me_market_observed_at economics = Aware observed" "me_economics_observed_at economics = Aware now"
    using create_keeps [OF c] v now(1) by (auto simp add: requested_economics_def)
  show ?thesis by (rule that [OF p]) (use v now e b in \<open>simp_all add: v_def\<close>)
qed

lemma authoritative_binding_passes:
  assumes "build_authoritative_market_economics c q = Inr (economics, binding)"
    and "reads_time c (eb_market_observed_at binding)"
  shows "validate_economics_binding c (HObj (binding_to_json binding)) economics
      (er_expected_market_ticker q) (er_expected_event_ticker q) =
    Inr \<lparr>bv_classification = ''PASS'', bv_reason = None,
      bv_rules_hash = Some (me_market_rules_hash economics)\<rparr>"
  using assms(1)
proof (rule authoritative_built)
  let ?t = "er_expected_market_ticker q" and ?e = "er_expected_event_ticker q"
  let ?v = "validate_market_snapshot c (er_snapshot_payload q) ?t ?e"
  fix payload observed now
  assume p: "er_snapshot_payload q = HObj payload"
    and v: "sv_ticker ?v = Some ?t" "sv_event_ticker ?v = Some ?e" "sv_observed_at ?v = Some observed"
    and now: "observed \<le> now" "now - observed \<le> FRESHNESS"
    and e: "me_market_ticker economics = ?t" "me_event_ticker economics = ?e"
    and h: "sv_rules_hash ?v = Some (me_market_rules_hash economics)"
      "sv_metadata_hash ?v = Some (me_market_metadata_hash economics)"
    and times: "me_market_observed_at economics = Aware observed" "me_economics_observed_at economics = Aware now"
    and b: "binding = \<lparr>eb_schema = BINDING_SCHEMA, eb_economics_evidence_id = me_evidence_id economics,
       eb_market_ticker = me_market_ticker economics, eb_event_ticker = me_event_ticker economics,
       eb_market_rules_hash = me_market_rules_hash economics,
       eb_market_metadata_hash = me_market_metadata_hash economics, eb_market_observed_at = observed,
       eb_economics_observed_at = er_economics_observed_at q,
       eb_orderbook_source_hash = me_orderbook_source_hash economics,
       eb_price_range_hash = me_price_range_hash economics, eb_expected_snapshot = payload\<rparr>"
  have stamped: "stamped_time_problem c (binding_to_json binding) observed = None"
    using assms(2) by (simp add: stamped_time_problem_def binding_to_json_def b reads_time_def)
  have check: "binding_economics_check (binding_to_json binding) economics ?v observed =
      Inr \<lparr>bv_classification = ''PASS'', bv_reason = None, bv_rules_hash = sv_rules_hash ?v\<rparr>"
    using e v h times now by (simp add: binding_economics_check_def binding_to_json_def b aware_utc_def)
  have "validate_economics_binding c (HObj (binding_to_json binding)) economics ?t ?e =
      binding_economics_check (binding_to_json binding) economics ?v observed"
    using v e h p stamped
    by (simp add: validate_economics_binding_def binding_to_json_def b BINDING_FIELDS_def Let_def hval_def)
  then show ?thesis unfolding check by (simp add: h)
qed

lemma built_binding_names_its_economics:
  assumes "build_authoritative_market_economics c q = Inr (economics, binding)"
  shows "eb_schema binding = BINDING_SCHEMA" and "eb_economics_evidence_id binding = me_evidence_id economics"
    and "eb_market_ticker binding = me_market_ticker economics"
    and "eb_event_ticker binding = me_event_ticker economics"
    and "eb_market_rules_hash binding = me_market_rules_hash economics"
    and "eb_market_metadata_hash binding = me_market_metadata_hash economics"
    and "eb_orderbook_source_hash binding = me_orderbook_source_hash economics"
    and "eb_price_range_hash binding = me_price_range_hash economics"
    and "me_market_observed_at economics = Aware (eb_market_observed_at binding)"
  using assms by (rule authoritative_built; simp)+

text \<open>A binding that passes names the economics it was presented with in every field the validator reads.\<close>

lemma binding_check_pass:
  assumes "binding_economics_check payload economics v moment = Inr r" and "bv_classification r = ''PASS''"
  shows "me_market_ticker economics = the (sv_ticker v)" and "me_event_ticker economics = the (sv_event_ticker v)"
    and "me_market_rules_hash economics = the (sv_rules_hash v)"
    and "me_market_metadata_hash economics = the (sv_metadata_hash v)"
    and "aware_utc (me_market_observed_at economics) = Inr moment"
    and "map_of payload ''orderbook_source_hash'' = Some (HStr (me_orderbook_source_hash economics))"
    and "map_of payload ''price_range_hash'' = Some (HStr (me_price_range_hash economics))"
  using assms by (auto simp: binding_economics_check_def invalid_binding_def rbind_eq_Inr split: if_splits)

lemma stamped_time_ok:
  "stamped_time_problem c payload moment = None \<Longrightarrow>
     \<exists>s. map_of payload ''market_observed_at'' = Some (HStr s) \<and> cc_fromiso c s = Some (Aware moment)"
  by (auto simp: stamped_time_problem_def split: option.splits hashable.splits datetime.splits if_splits)

lemma binding_validation_pass:
  assumes "validate_economics_binding c (HObj payload) economics t e = Inr r" and "bv_classification r = ''PASS''"
  obtains v moment where "binding_economics_check payload economics v moment = Inr r"
    and "stamped_time_problem c payload moment = None"
    and "map_of payload ''economics_evidence_id'' = Some (HStr (me_evidence_id economics))"
    and "map_of payload ''market_ticker'' = Some (HStr (the (sv_ticker v)))"
    and "map_of payload ''event_ticker'' = Some (HStr (the (sv_event_ticker v)))"
    and "map_of payload ''market_rules_hash'' = Some (HStr (the (sv_rules_hash v)))"
    and "map_of payload ''market_metadata_hash'' = Some (HStr (the (sv_metadata_hash v)))"
  using assms
  by (auto simp: validate_economics_binding_def Let_def invalid_binding_def split: if_splits option.splits)

lemma passing_binding_names_its_economics:
  assumes "validate_economics_binding c (HObj (binding_to_json other)) economics t e = Inr r"
    and "bv_classification r = ''PASS''"
  shows "eb_economics_evidence_id other = me_evidence_id economics \<and>
    eb_market_ticker other = me_market_ticker economics \<and> eb_event_ticker other = me_event_ticker economics \<and>
    eb_market_rules_hash other = me_market_rules_hash economics \<and>
    eb_market_metadata_hash other = me_market_metadata_hash economics \<and>
    eb_orderbook_source_hash other = me_orderbook_source_hash economics \<and>
    eb_price_range_hash other = me_price_range_hash economics \<and>
    (\<exists>moment. aware_utc (me_market_observed_at economics) = Inr moment \<and>
      cc_fromiso c (isoformat (eb_market_observed_at other)) = Some (Aware moment))"
proof -
  from assms obtain v moment where c: "binding_economics_check (binding_to_json other) economics v moment = Inr r"
    and s: "stamped_time_problem c (binding_to_json other) moment = None"
    and f: "map_of (binding_to_json other) ''economics_evidence_id'' = Some (HStr (me_evidence_id economics))"
      "map_of (binding_to_json other) ''market_ticker'' = Some (HStr (the (sv_ticker v)))"
      "map_of (binding_to_json other) ''event_ticker'' = Some (HStr (the (sv_event_ticker v)))"
      "map_of (binding_to_json other) ''market_rules_hash'' = Some (HStr (the (sv_rules_hash v)))"
      "map_of (binding_to_json other) ''market_metadata_hash'' = Some (HStr (the (sv_metadata_hash v)))"
    by (rule binding_validation_pass)
  from binding_check_pass [OF c assms(2)] f stamped_time_ok [OF s] show ?thesis
    by (auto simp: binding_to_json_def)
qed

text \<open>C40. What the authoritative builder returns validates against the economics it returns, for the market
  and event it was asked for, with the economics' own rules hash, and neither can be exchanged alone: the
  binding presented with economics of another identity is refused as such, whatever market is expected,
  and another binding presented with these economics passes only if every field of it the validator
  compares (evidence identity, market, event, rules, metadata, book and price range hashes, and the time of
  the market as the reader of timestamps reads it) is the built binding's.\<close>

theorem authoritative_binding_validates:
  assumes "build_authoritative_market_economics c q = Inr (economics, binding)"
    and "reads_time c (eb_market_observed_at binding)"
  shows "validate_economics_binding c (HObj (binding_to_json binding)) economics
      (er_expected_market_ticker q) (er_expected_event_ticker q) =
    Inr \<lparr>bv_classification = ''PASS'', bv_reason = None,
      bv_rules_hash = Some (me_market_rules_hash economics)\<rparr> \<and>
    (me_evidence_id other_economics \<noteq> me_evidence_id economics \<longrightarrow>
      validate_economics_binding c (HObj (binding_to_json binding)) other_economics t e =
        Inr (invalid_binding ''ECONOMICS_IDENTITY_MISMATCH''
          ''binding does not reference the exact economics evidence in use'')) \<and>
    (validate_economics_binding c (HObj (binding_to_json other_binding)) economics t e = Inr r \<and>
      bv_classification r = ''PASS'' \<longrightarrow>
      eb_economics_evidence_id other_binding = eb_economics_evidence_id binding \<and>
      eb_market_ticker other_binding = eb_market_ticker binding \<and>
      eb_event_ticker other_binding = eb_event_ticker binding \<and>
      eb_market_rules_hash other_binding = eb_market_rules_hash binding \<and>
      eb_market_metadata_hash other_binding = eb_market_metadata_hash binding \<and>
      eb_orderbook_source_hash other_binding = eb_orderbook_source_hash binding \<and>
      eb_price_range_hash other_binding = eb_price_range_hash binding \<and>
      cc_fromiso c (isoformat (eb_market_observed_at other_binding)) = Some (Aware (eb_market_observed_at binding)))"
proof (intro conjI impI)
  show "validate_economics_binding c (HObj (binding_to_json binding)) economics
      (er_expected_market_ticker q) (er_expected_event_ticker q) =
    Inr \<lparr>bv_classification = ''PASS'', bv_reason = None,
      bv_rules_hash = Some (me_market_rules_hash economics)\<rparr>"
    using assms by (rule authoritative_binding_passes)
next
  assume "me_evidence_id other_economics \<noteq> me_evidence_id economics"
  with built_binding_names_its_economics(1,2) [OF assms(1)]
  show "validate_economics_binding c (HObj (binding_to_json binding)) other_economics t e =
      Inr (invalid_binding ''ECONOMICS_IDENTITY_MISMATCH''
        ''binding does not reference the exact economics evidence in use'')"
    by (simp add: validate_economics_binding_def binding_to_json_def BINDING_FIELDS_def)
next
  assume "validate_economics_binding c (HObj (binding_to_json other_binding)) economics t e = Inr r \<and>
    bv_classification r = ''PASS''"
  then have "validate_economics_binding c (HObj (binding_to_json other_binding)) economics t e = Inr r"
    and "bv_classification r = ''PASS''" by simp_all
  note named = passing_binding_names_its_economics [OF this] built_binding_names_its_economics [OF assms(1)]
  from named show "eb_economics_evidence_id other_binding = eb_economics_evidence_id binding"
    "eb_market_ticker other_binding = eb_market_ticker binding"
    "eb_event_ticker other_binding = eb_event_ticker binding"
    "eb_market_rules_hash other_binding = eb_market_rules_hash binding"
    "eb_market_metadata_hash other_binding = eb_market_metadata_hash binding"
    "eb_orderbook_source_hash other_binding = eb_orderbook_source_hash binding"
    "eb_price_range_hash other_binding = eb_price_range_hash binding" by simp_all
  from named show "cc_fromiso c (isoformat (eb_market_observed_at other_binding)) =
      Some (Aware (eb_market_observed_at binding))" by (simp add: aware_utc_def)
qed

section \<open>A concrete codec\<close>

text \<open>A padded encoding of base64's length: the text, an end mark, and padding to four characters per
  three bytes.\<close>

definition pad_encode :: "string \<Rightarrow> string" where
  "pad_encode x = (if x = [] then []
     else x @ CHR ''!'' # replicate (4 * ((length x + 2) div 3) - length x - 1) CHR ''='')"

definition pad_decode :: "string \<Rightarrow> string option" where
  "pad_decode y = Some (rev (tl (dropWhile (\<lambda>c. c = CHR ''='') (rev y))))"

lemma dropWhile_replicate: "dropWhile (\<lambda>c. c = a) (replicate n a @ xs) = dropWhile (\<lambda>c. c = a) xs"
  by (induction n) simp_all

lemma pad_round_trip: "pad_decode (pad_encode x) = Some x"
  by (simp add: pad_encode_def pad_decode_def dropWhile_replicate)

lemma pad_length: "length (pad_encode x) = 4 * ((length x + 2) div 3)"
proof (cases "x = []")
  case False
  then have "1 \<le> length x" by (cases x) simp_all
  then have "length x + 1 \<le> 4 * ((length x + 2) div 3)" by presburger
  with False show ?thesis by (simp add: pad_encode_def)
qed (simp add: pad_encode_def)

definition sample_raw_market :: json_obj where
  "sample_raw_market = [(''ticker'', HStr ''M''), (''event_ticker'', HStr ''E''),
     (''market_type'', HStr ''binary''), (''status'', HStr ''active''),
     (''rules_primary'', HStr ''r''), (''price_level_structure'', HStr ''linear_cent'')]"

definition sample_payload :: json_obj where
  "sample_payload = [(''market'', HObj sample_raw_market)]"

definition sample_codec :: codec where
  "sample_codec = \<lparr>cc_sha256 = (\<lambda>x. ''d''), cc_b64encode = pad_encode, cc_b64decode = pad_decode,
     cc_json = (\<lambda>x. Some (HObj sample_payload)),
     cc_fromiso = (\<lambda>s. if s = isoformat 0 then Some (Aware 0)
       else if s = isoformat FRESHNESS then Some (Aware FRESHNESS) else None),
     cc_digest = (\<lambda>x. ''h''), cc_repr = (\<lambda>x. '''')\<rparr>"

lemma sample_codec_sound: "sound_codec sample_codec"
  by (simp add: sound_codec_def sample_codec_def pad_round_trip pad_length)

lemma sample_codec_times: "reads_time sample_codec 0" "reads_time sample_codec FRESHNESS"
proof -
  have "isoformat FRESHNESS \<noteq> isoformat 0" by code_simp
  then show "reads_time sample_codec 0" "reads_time sample_codec FRESHNESS"
    by (simp_all add: reads_time_def sample_codec_def)
qed

definition sample_evidence :: json_obj where
  "sample_evidence = [(''classification'', HStr ''SUCCESS''), (''status'', HInt 200),
     (''path'', HStr (market_path ''M'')), (''body_sha256'', HStr ''d''),
     (''payload'', HObj sample_payload)]"

definition sample_snapshot :: MarketSnapshot where
  "sample_snapshot = acquire_market_snapshot sample_codec ''M'' 0 (Inr (sample_evidence, ''{}''))"

lemma constant_hash [simp]: "stable_hash (\<lambda>x. k) v = k"
  by (simp add: stable_hash_def)

lemma sample_market: "\<exists>m. Market_parse (\<lambda>x. ''h'') f sample_raw_market = Inr m \<and>
   mk_ticker m = ''M'' \<and> mk_event_ticker m = ''E'' \<and> mk_rules_hash m = ''h'' \<and> mk_metadata_hash m = ''h''"
proof -
  have "decimal_of_string ''0'' = Some 0" "py_lower ''active'' = ''active''" by code_simp+
  then show ?thesis
    by (simp add: Market_parse_def sample_raw_market_def nonempty_text_def market_title_def get_value_def
        market_provisional_def get_or_def parse_market_updated_time_def optional_with_def
        normalize_status_def MarketStatus_members_def universe_exact_def material_hashes_def)
qed

lemma sample_codec_fields [simp]: "cc_digest sample_codec = (\<lambda>x. ''h'')"
  "cc_json sample_codec x = Some (HObj sample_payload)" "cc_sha256 sample_codec x = ''d''"
  "cc_b64encode sample_codec = pad_encode" "cc_b64decode sample_codec = pad_decode"
  by (simp_all add: sample_codec_def)

lemma sample_snapshot_fields: "ms_classification sample_snapshot = ''SUCCESS''"
  "ms_parsed_event_ticker sample_snapshot = Some ''E''" "ms_observed_at sample_snapshot = 0"
  "ms_expires_at sample_snapshot = FRESHNESS" "ms_rules_hash sample_snapshot = Some ''h''"
  "ms_metadata_hash sample_snapshot = Some ''h''"
proof -
  obtain m where "Market_parse (\<lambda>x. ''h'') (cc_fromiso sample_codec) sample_raw_market = Inr m"
    "mk_ticker m = ''M''" "mk_event_ticker m = ''E''" "mk_rules_hash m = ''h''" "mk_metadata_hash m = ''h''"
    using sample_market by blast
  moreover have "map_of sample_raw_market ''ticker'' = Some (HStr ''M'')" by (simp add: sample_raw_market_def)
  ultimately show "ms_classification sample_snapshot = ''SUCCESS''"
    "ms_parsed_event_ticker sample_snapshot = Some ''E''" "ms_observed_at sample_snapshot = 0"
    "ms_expires_at sample_snapshot = FRESHNESS" "ms_rules_hash sample_snapshot = Some ''h''"
    "ms_metadata_hash sample_snapshot = Some ''h''"
    by (simp_all add: sample_snapshot_def acquire_market_snapshot_def sample_evidence_def Let_def
        number_is_def evidence_text_def evidence_status_def parse_timestamp_def
        MAX_MARKET_BODY_BYTES_def sample_payload_def)
qed

theorem acquired_snapshot_validates_witness:
  "sv_rules_hash (validate_market_snapshot sample_codec (HObj (snapshot_to_json sample_snapshot))
     ''M'' ''E'') = Some ''h''"
proof -
  have "map_of sample_evidence ''payload'' = cc_json sample_codec ''{}''"
    by (simp add: sample_evidence_def sample_codec_def)
  from acquired_snapshot_validates [OF sample_codec_sound sample_snapshot_fields(1)
      sample_snapshot_def this _ sample_snapshot_fields(2)] sample_codec_times sample_snapshot_fields(3-5)
  show ?thesis by (simp add: Let_def)
qed

definition sample_request :: EconomicsRequest where
  "sample_request = \<lparr>er_snapshot_payload = HObj (snapshot_to_json sample_snapshot),
     er_expected_market_ticker = ''M'', er_expected_event_ticker = ''E'', er_series_ticker = ''S'',
     er_market_source_id = ''src'', er_raw_orderbook = [(''ticker'', HStr ''M''),
       (''orderbook_fp'', HObj [(''yes_dollars'', HList [HList [HStr ''0.30'', HStr ''10'']]),
         (''no_dollars'', HList [HList [HStr ''0.40'', HStr ''10'']])])],
     er_ladder = \<lparr>pl_structure = ''linear_cent'', pl_ranges =
       [\<lparr>pr_minimum = 0, pr_maximum = 1, pr_step = 1 / 100\<rparr>]\<rparr>,
     er_orderbook_source_id = ''book'', er_orderbook_observed_at = Aware 0,
     er_series_fee_observation_id = ''f'', er_resolved_fee_regime_id = ''h'',
     er_event_fee_hash = ''e'', er_fee_policy = \<lparr>fp_policy_id = ''p'', fp_fee_type = QUADRATIC,
       fp_fee_multiplier = 1, fp_effective_at = 0, fp_retired_at = None, fp_formula_version = ''v'',
       fp_source_reference = ''s'', fp_verified = True, fp_flat_rate = None,
       fp_quadratic_coefficient = Some (7 / 100), fp_maker_quadratic_coefficient = None,
       fp_balance_rounding_increment = 1 / 10000, fp_production_influence = 0\<rparr>,
     er_fee_regime = \<lparr>rf_regime_id = ''h'', rf_version = ''v'', rf_fee_type = QUADRATIC,
       rf_fee_multiplier = 1, rf_source = ''current_series'', rf_series_observation_id = ''f'',
       rf_event_metadata_hash = ''e''\<rparr>,
     er_requested_quantity = 1, er_economics_observed_at = Aware FRESHNESS\<rparr>"

text \<open>The economics built from the sample, step by step.\<close>

lemma sample_prices: "decimal_of_string ''0.30'' = Some (3 / 10)" "decimal_of_string ''0.40'' = Some (2 / 5)"
  "decimal_of_string ''10'' = Some 10" "dec_rem (3 / 10) (1 / 100) = 0" "dec_rem (2 / 5) (1 / 100) = 0"
  by code_simp+

lemma sample_side:
  assumes "decimal_of_string a = Some p" and "0 < p" and "p < 1" and "dec_rem p (1 / 100) = 0"
  shows "orderbook_rows (\<lambda>x. ''h'') src (er_ladder sample_request) side []
    [HList [HStr a, HStr ''10'']] =
      Inr [\<lparr>rb_raw_level_id = ''h'', rb_side = side, rb_price = p, rb_quantity = 10\<rparr>]"
  using assms sample_prices(3)
  by (simp add: sample_request_def universe_exact_def is_valid_price_def range_valid_def range_contains_def
      RawBidLevel_post_init_def)

definition sample_live_book :: NormalizedBook where
  "sample_live_book = \<lparr>
     nb_yes_bids = [\<lparr>el_outcome = YES, el_book_side = ''BID'', el_price = 3 / 10, el_quantity = 10,
       el_raw_level_id = ''h'', el_raw_side = YES, el_raw_price = 3 / 10\<rparr>],
     nb_yes_asks = [\<lparr>el_outcome = YES, el_book_side = ''ASK'', el_price = 3 / 5, el_quantity = 10,
       el_raw_level_id = ''h'', el_raw_side = NO, el_raw_price = 2 / 5\<rparr>],
     nb_no_bids = [\<lparr>el_outcome = NO, el_book_side = ''BID'', el_price = 2 / 5, el_quantity = 10,
       el_raw_level_id = ''h'', el_raw_side = NO, el_raw_price = 2 / 5\<rparr>],
     nb_no_asks = [\<lparr>el_outcome = NO, el_book_side = ''ASK'', el_price = 7 / 10, el_quantity = 10,
       el_raw_level_id = ''h'', el_raw_side = YES, el_raw_price = 3 / 10\<rparr>]\<rparr>"

definition sample_observation :: BookObservation where
  "sample_observation = \<lparr>bo_book = sample_live_book, bo_source_id = ''book'', bo_source_hash = ''h'',
     bo_observed_at = 0, bo_market_rules_hash = ''h'', bo_price_range_hash = ''h''\<rparr>"

lemma sample_normalized: "normalize_binary_book
   [\<lparr>rb_raw_level_id = ''h'', rb_side = YES, rb_price = 3 / 10, rb_quantity = 10\<rparr>,
    \<lparr>rb_raw_level_id = ''h'', rb_side = NO, rb_price = 2 / 5, rb_quantity = 10\<rparr>] = Inr sample_live_book"
  by code_simp

lemma sample_observed: "normalize_live_orderbook (\<lambda>x. ''h'') (er_raw_orderbook sample_request) ''M''
   (er_ladder sample_request) (er_orderbook_source_id sample_request) (Aware 0) ''h'' = Inr sample_observation"
proof -
  have sides: "orderbook_side (\<lambda>x. ''h'') src (er_ladder sample_request)
      [(''yes_dollars'', HList [HList [HStr ''0.30'', HStr ''10'']]),
       (''no_dollars'', HList [HList [HStr ''0.40'', HStr ''10'']])] ''yes_dollars'' YES =
      Inr [\<lparr>rb_raw_level_id = ''h'', rb_side = YES, rb_price = 3 / 10, rb_quantity = 10\<rparr>]"
    "orderbook_side (\<lambda>x. ''h'') src (er_ladder sample_request)
      [(''yes_dollars'', HList [HList [HStr ''0.30'', HStr ''10'']]),
       (''no_dollars'', HList [HList [HStr ''0.40'', HStr ''10'']])] ''no_dollars'' NO =
      Inr [\<lparr>rb_raw_level_id = ''h'', rb_side = NO, rb_price = 2 / 5, rb_quantity = 10\<rparr>]" for src
    using sample_side [OF sample_prices(1) _ _ sample_prices(4), of src YES]
      sample_side [OF sample_prices(2) _ _ sample_prices(5), of src NO]
    by (simp_all add: orderbook_side_def)
  have request: "er_raw_orderbook sample_request = [(''ticker'', HStr ''M''),
      (''orderbook_fp'', HObj [(''yes_dollars'', HList [HList [HStr ''0.30'', HStr ''10'']]),
        (''no_dollars'', HList [HList [HStr ''0.40'', HStr ''10'']])])]"
    "er_orderbook_source_id sample_request = ''book''" by (simp_all add: sample_request_def)
  show ?thesis using sample_normalized
    by (simp add: normalize_live_orderbook_def request sides aware_utc_def sample_observation_def)
qed

definition sample_inputs :: MarketEconomicsReplayInput where
  "sample_inputs = \<lparr>mi_book_observation = sample_observation, mi_price_ladder = er_ladder sample_request,
     mi_fee_regime = er_fee_regime sample_request, mi_fee_policy = er_fee_policy sample_request\<rparr>"

lemma sample_inputs_ok: "MarketEconomicsReplayInput_post_init (\<lambda>x. ''h'') sample_inputs = Inr sample_inputs"
proof -
  have raw: "raw_levels_of sample_live_book =
     [\<lparr>rb_raw_level_id = ''h'', rb_side = YES, rb_price = 3 / 10, rb_quantity = 10\<rparr>,
      \<lparr>rb_raw_level_id = ''h'', rb_side = NO, rb_price = 2 / 5, rb_quantity = 10\<rparr>]"
    by (simp add: raw_levels_of_def sample_live_book_def)
  show ?thesis using sample_prices sample_normalized
    by (simp add: MarketEconomicsReplayInput_post_init_def sample_inputs_def sample_observation_def Let_def raw
        RawBidLevel_post_init_def is_valid_price_def range_valid_def range_contains_def sample_request_def
        regime_digest_def)
qed

lemma sample_sides: "\<exists>c. replay_side sample_live_book YES 1 (er_fee_policy sample_request) = Inr c"
  "\<exists>c. replay_side sample_live_book NO 1 (er_fee_policy sample_request) = Inr c"
  by (simp_all add: replay_side_def walk_depth_def DepthWalk_complete_def taker_cost_def side_asks_def
      sample_live_book_def calculate_fee_def theoretical_fee_def fee_coefficient_def sample_request_def Let_def)

lemma sample_snapshot_pass: "snapshot_succeeded (validate_market_snapshot sample_codec
    (HObj (snapshot_to_json sample_snapshot)) ''M'' ''E'')"
  "sv_rules_hash (validate_market_snapshot sample_codec
    (HObj (snapshot_to_json sample_snapshot)) ''M'' ''E'') = Some ''h''"
  "sv_metadata_hash (validate_market_snapshot sample_codec
    (HObj (snapshot_to_json sample_snapshot)) ''M'' ''E'') = Some ''h''"
  "sv_observed_at (validate_market_snapshot sample_codec
    (HObj (snapshot_to_json sample_snapshot)) ''M'' ''E'') = Some 0"
  using acquired_snapshot_ok [OF sample_codec_sound sample_snapshot_fields(1) sample_snapshot_def _ _
      sample_snapshot_fields(2)] sample_codec_times sample_snapshot_fields(3-6)
  by (simp_all add: Let_def sample_evidence_def)

lemma sample_request_fields: "er_snapshot_payload sample_request = HObj (snapshot_to_json sample_snapshot)"
  "er_expected_market_ticker sample_request = ''M''" "er_expected_event_ticker sample_request = ''E''"
  "er_economics_observed_at sample_request = Aware FRESHNESS"
  "er_orderbook_observed_at sample_request = Aware 0" "er_requested_quantity sample_request = 1"
  by (simp_all add: sample_request_def)

lemma sample_build: "\<exists>e b. build_authoritative_market_economics sample_codec sample_request = Inr (e, b) \<and>
   eb_market_observed_at b = 0 \<and> me_market_rules_hash e = ''h'' \<and>
   MarketEconomicsEvidence_create (\<lambda>x. ''h'') e = Inr e \<and> me_evidence_id e = ''h'' \<and>
   me_market_ticker e = ''M'' \<and> me_event_ticker e = ''E'' \<and> me_orderbook_source_hash e = ''h'' \<and>
   me_orderbook_observed_at e = Aware 0 \<and> me_economics_observed_at e = Aware FRESHNESS \<and>
   me_requested_quantity e = 1 \<and> me_replay_input e = sample_inputs \<and>
   me_analysis_type e = ''TAKER_NOW'' \<and> me_research_only e \<and> me_production_influence e = 0"
proof -
  let ?v = "validate_market_snapshot sample_codec (HObj (snapshot_to_json sample_snapshot)) ''M'' ''E''"
  obtain observed where t: "sv_ticker ?v = Some ''M''" "sv_event_ticker ?v = Some ''E''"
    "sv_observed_at ?v = Some observed" by (rule pass_fields [OF sample_snapshot_pass(1)])
  obtain yes no where sides: "replay_side sample_live_book YES 1 (er_fee_policy sample_request) = Inr yes"
    "replay_side sample_live_book NO 1 (er_fee_policy sample_request) = Inr no" using sample_sides by blast
  then have costs: "replay_costs sample_inputs 1 = Inr (yes, no)"
    by (simp add: replay_costs_def sample_inputs_def sample_observation_def Let_def)
  let ?e = "requested_economics sample_request ?v sample_observation sample_inputs yes no"
  have e: "MarketEconomicsEvidence_create (\<lambda>x. ''h'') ?e = Inr (?e\<lparr>me_evidence_id := ''h''\<rparr>)"
    "MarketEconomicsEvidence_create (\<lambda>x. ''h'') (?e\<lparr>me_evidence_id := ''h''\<rparr>) =
      Inr (?e\<lparr>me_evidence_id := ''h''\<rparr>)"
    using t sample_snapshot_pass costs
    by (simp_all add: MarketEconomicsEvidence_create_def requested_economics_def provenance_texts_def
        aware_utc_def Let_def sample_observation_def sample_inputs_def sample_request_def FRESHNESS_def seconds_def)

  let ?e' = "?e\<lparr>me_evidence_id := ''h''\<rparr>"
  have built: "\<exists>b. build_authoritative_market_economics sample_codec sample_request = Inr (?e', b) \<and>
      eb_market_observed_at b = 0"
    using t sample_snapshot_pass sample_observed sample_inputs_ok sides e(1)
    by (simp add: build_authoritative_market_economics_def Let_def sample_request_fields aware_utc_def
        FRESHNESS_def seconds_def sample_inputs_def sample_observation_def)
  have fields: "me_market_rules_hash ?e' = ''h''" "me_evidence_id ?e' = ''h''" "me_market_ticker ?e' = ''M''"
    "me_event_ticker ?e' = ''E''" "me_orderbook_source_hash ?e' = ''h''"
    "me_orderbook_observed_at ?e' = Aware 0" "me_economics_observed_at ?e' = Aware FRESHNESS"
    "me_requested_quantity ?e' = 1" "me_replay_input ?e' = sample_inputs"
    "me_analysis_type ?e' = ''TAKER_NOW''" "me_research_only ?e'" "me_production_influence ?e' = 0"
    using t sample_snapshot_pass
    by (simp_all add: requested_economics_def sample_request_fields sample_observation_def)
  show ?thesis using built e(2) fields by blast
qed

theorem accepted_snapshot_is_the_market_witness:
  "\<exists>market :: Market. mk_ticker market = ''M'' \<and> sv_rules_hash (validate_market_snapshot sample_codec
     (HObj (snapshot_to_json sample_snapshot)) ''M'' ''E'') = Some (mk_rules_hash market)"
  using accepted_snapshot_is_the_market [OF sample_snapshot_pass(1)] by blast

theorem authoritative_binding_validates_witness:
  "\<exists>e b. build_authoritative_market_economics sample_codec sample_request = Inr (e, b) \<and>
     validate_economics_binding sample_codec (HObj (binding_to_json b)) e ''M'' ''E'' =
       Inr \<lparr>bv_classification = ''PASS'', bv_reason = None, bv_rules_hash = Some ''h''\<rparr>"
proof -
  obtain e b where b: "build_authoritative_market_economics sample_codec sample_request = Inr (e, b)"
    "eb_market_observed_at b = 0" "me_market_rules_hash e = ''h''" using sample_build by blast
  with authoritative_binding_validates [OF b(1)] sample_codec_times(1) sample_request_fields(2,3)
  have "validate_economics_binding sample_codec (HObj (binding_to_json b)) e ''M'' ''E'' =
       Inr \<lparr>bv_classification = ''PASS'', bv_reason = None, bv_rules_hash = Some ''h''\<rparr>" by simp
  with b(1) show ?thesis by blast
qed

end
