(* ===== verification/MM_Domain.thy ===== *)
theory MM_Domain
  imports Market_Snapshot
begin

text \<open>
  \<open>services/market_making_research/domain.py\<close>: fair-value curves, market and inventory
  snapshots, the quote policy, shadow quotes and quote plans, with the checks and the content
  identity of each. A \<open>build\<close> method takes the record its keyword arguments would fill in and
  sets the identity fields; a nested dataclass enters a digest as the list of its fields.
\<close>

section \<open>Enumerations\<close>

datatype ComparisonDirection = GREATER_THAN | LESS_THAN

definition ComparisonDirection_value :: "ComparisonDirection \<Rightarrow> string" where
  "ComparisonDirection_value d = (case d of GREATER_THAN \<Rightarrow> ''GREATER_THAN'' | LESS_THAN \<Rightarrow> ''LESS_THAN'')"

datatype FairValueEligibility = ELIGIBLE_SHADOW_RESEARCH | INELIGIBLE | QUARANTINED

definition FairValueEligibility_value :: "FairValueEligibility \<Rightarrow> string" where
  "FairValueEligibility_value e = (case e of ELIGIBLE_SHADOW_RESEARCH \<Rightarrow> ''ELIGIBLE_SHADOW_RESEARCH''
     | INELIGIBLE \<Rightarrow> ''INELIGIBLE'' | QUARANTINED \<Rightarrow> ''QUARANTINED'')"

datatype ShadowQuoteState = TWO_SIDED | ONE_SIDED_INVENTORY_REDUCTION | ABSTAIN

definition ShadowQuoteState_value :: "ShadowQuoteState \<Rightarrow> string" where
  "ShadowQuoteState_value s = (case s of TWO_SIDED \<Rightarrow> ''TWO_SIDED''
     | ONE_SIDED_INVENTORY_REDUCTION \<Rightarrow> ''ONE_SIDED_INVENTORY_REDUCTION'' | ABSTAIN \<Rightarrow> ''ABSTAIN'')"

datatype QuoteBlocker =
    FAIR_VALUE_INELIGIBLE | FAIR_VALUE_STALE | FAIR_VALUE_IDENTITY_MISMATCH
  | MARKET_SNAPSHOT_IDENTITY_MISMATCH | INVENTORY_IDENTITY_MISMATCH | MARKET_NOT_IN_CURVE
  | RULES_MISMATCH | SPECIFICATION_MISMATCH | BOOK_STALE | BOOK_SEQUENCE_GAP | MARKET_INACTIVE
  | MARKET_PAUSED | SOURCE_UNHEALTHY | OWN_ORDER_STATE_UNKNOWN | ECONOMICS_BINDING_INVALID
  | ECONOMICS_IDENTITY_MISMATCH | ECONOMICS_STALE | FEE_UNVERIFIED | FEE_NOT_EFFECTIVE
  | QUOTE_POLICY_INVALID | INVENTORY_STALE | INVENTORY_UNRECONCILED | INVENTORY_LIMIT
  | TOO_CLOSE_TO_CLOSE | YES_EDGE_BELOW_HURDLE | NO_EDGE_BELOW_HURDLE | YES_NOT_COMPETITIVE
  | NO_NOT_COMPETITIVE | TWO_SIDED_REQUIRED

fun QuoteBlocker_value :: "QuoteBlocker \<Rightarrow> string" where
  "QuoteBlocker_value FAIR_VALUE_INELIGIBLE = ''FAIR_VALUE_INELIGIBLE''"
| "QuoteBlocker_value FAIR_VALUE_STALE = ''FAIR_VALUE_STALE''"
| "QuoteBlocker_value FAIR_VALUE_IDENTITY_MISMATCH = ''FAIR_VALUE_IDENTITY_MISMATCH''"
| "QuoteBlocker_value MARKET_SNAPSHOT_IDENTITY_MISMATCH = ''MARKET_SNAPSHOT_IDENTITY_MISMATCH''"
| "QuoteBlocker_value INVENTORY_IDENTITY_MISMATCH = ''INVENTORY_IDENTITY_MISMATCH''"
| "QuoteBlocker_value MARKET_NOT_IN_CURVE = ''MARKET_NOT_IN_CURVE''"
| "QuoteBlocker_value RULES_MISMATCH = ''RULES_MISMATCH''"
| "QuoteBlocker_value SPECIFICATION_MISMATCH = ''SPECIFICATION_MISMATCH''"
| "QuoteBlocker_value BOOK_STALE = ''BOOK_STALE''"
| "QuoteBlocker_value BOOK_SEQUENCE_GAP = ''BOOK_SEQUENCE_GAP''"
| "QuoteBlocker_value MARKET_INACTIVE = ''MARKET_INACTIVE''"
| "QuoteBlocker_value MARKET_PAUSED = ''MARKET_PAUSED''"
| "QuoteBlocker_value SOURCE_UNHEALTHY = ''SOURCE_UNHEALTHY''"
| "QuoteBlocker_value OWN_ORDER_STATE_UNKNOWN = ''OWN_ORDER_STATE_UNKNOWN''"
| "QuoteBlocker_value ECONOMICS_BINDING_INVALID = ''ECONOMICS_BINDING_INVALID''"
| "QuoteBlocker_value ECONOMICS_IDENTITY_MISMATCH = ''ECONOMICS_IDENTITY_MISMATCH''"
| "QuoteBlocker_value ECONOMICS_STALE = ''ECONOMICS_STALE''"
| "QuoteBlocker_value FEE_UNVERIFIED = ''FEE_UNVERIFIED''"
| "QuoteBlocker_value FEE_NOT_EFFECTIVE = ''FEE_NOT_EFFECTIVE''"
| "QuoteBlocker_value QUOTE_POLICY_INVALID = ''QUOTE_POLICY_INVALID''"
| "QuoteBlocker_value INVENTORY_STALE = ''INVENTORY_STALE''"
| "QuoteBlocker_value INVENTORY_UNRECONCILED = ''INVENTORY_UNRECONCILED''"
| "QuoteBlocker_value INVENTORY_LIMIT = ''INVENTORY_LIMIT''"
| "QuoteBlocker_value TOO_CLOSE_TO_CLOSE = ''TOO_CLOSE_TO_CLOSE''"
| "QuoteBlocker_value YES_EDGE_BELOW_HURDLE = ''YES_EDGE_BELOW_HURDLE''"
| "QuoteBlocker_value NO_EDGE_BELOW_HURDLE = ''NO_EDGE_BELOW_HURDLE''"
| "QuoteBlocker_value YES_NOT_COMPETITIVE = ''YES_NOT_COMPETITIVE''"
| "QuoteBlocker_value NO_NOT_COMPETITIVE = ''NO_NOT_COMPETITIVE''"
| "QuoteBlocker_value TWO_SIDED_REQUIRED = ''TWO_SIDED_REQUIRED''"

text \<open>\<open>tuple(sorted(blockers, key=str))\<close> of a set built by \<open>add\<close>.\<close>

definition sorted_blockers :: "QuoteBlocker list \<Rightarrow> QuoteBlocker list" where
  "sorted_blockers blockers = sort_key QuoteBlocker_value (remdups blockers)"

lemma set_sorted_blockers [simp]: "set (sorted_blockers bs) = set bs"
  by (simp add: sorted_blockers_def)

lemma sorted_blockers_Nil [simp]: "sorted_blockers bs = [] \<longleftrightarrow> bs = []"
  by (metis set_sorted_blockers set_empty)

definition mm_aware :: "datetime \<Rightarrow> string \<Rightarrow> unit result" where
  "mm_aware t field = (if tz_aware t then Inr ()
     else Inl (MarketMakingError (field @ '' must be timezone-aware'')))"

lemma mm_aware_Inr [simp]: "mm_aware t field = Inr u \<longleftrightarrow> tz_aware t"
  by (simp add: mm_aware_def)

section \<open>Fair values\<close>

record FairValuePoint =
  fv_market_ticker :: string
  fv_threshold :: decimal
  fv_probability_yes :: decimal
  fv_lower_yes :: decimal
  fv_upper_yes :: decimal
  fv_rules_hash :: string
  fv_specification_hash :: string

definition FairValuePoint_post_init :: "FairValuePoint \<Rightarrow> FairValuePoint result" where
  "FairValuePoint_post_init p =
     (if \<not> (0 \<le> fv_lower_yes p \<and> fv_lower_yes p \<le> fv_probability_yes p \<and>
        fv_probability_yes p \<le> fv_upper_yes p \<and> fv_upper_yes p \<le> 1)
      then Inl (MarketMakingError ''fair-value interval is invalid'')
      else if fv_market_ticker p = [] \<or> fv_rules_hash p = [] \<or> fv_specification_hash p = []
      then Inl (MarketMakingError ''fair-value point identity is incomplete'')
      else Inr p)"

record FairValueCurve =
  cu_curve_id :: string
  cu_event_id :: string
  cu_cohort_id :: string
  cu_comparison :: ComparisonDirection
  cu_points :: "FairValuePoint list"
  cu_model_id :: string
  cu_model_version :: string
  cu_calibration_id :: string
  cu_evidence_manifest_id :: string
  cu_validation_receipt_id :: string
  cu_issued_at :: datetime
  cu_expires_at :: datetime
  cu_eligibility :: FairValueEligibility
  cu_content_hash :: string
  cu_production_influence :: decimal

definition ordered_points :: "FairValuePoint list \<Rightarrow> FairValuePoint list" where
  "ordered_points points = sort_key fv_threshold points"

text \<open>\<open>all(... for left, right in pairwise(values))\<close>.\<close>

fun pairwise_all :: "('a \<Rightarrow> 'a \<Rightarrow> bool) \<Rightarrow> 'a list \<Rightarrow> bool" where
  "pairwise_all r (x # y # xs) \<longleftrightarrow> r x y \<and> pairwise_all r (y # xs)"
| "pairwise_all r xs \<longleftrightarrow> True"

definition coherent :: "ComparisonDirection \<Rightarrow> decimal list \<Rightarrow> bool" where
  "coherent comparison probabilities = (if comparison = GREATER_THAN
     then pairwise_all (\<lambda>left right. left \<ge> right) probabilities
     else pairwise_all (\<lambda>left right. left \<le> right) probabilities)"

definition point_payload :: "FairValuePoint \<Rightarrow> hashable" where
  "point_payload p = HList [HStr (fv_market_ticker p), HDec (fv_threshold p),
     HDec (fv_probability_yes p), HDec (fv_lower_yes p), HDec (fv_upper_yes p),
     HStr (fv_rules_hash p), HStr (fv_specification_hash p)]"

definition curve_payload :: "FairValueCurve \<Rightarrow> hashable" where
  "curve_payload c = HList [HStr ''mm-a1-fair-value-curve-v1'', HStr (cu_event_id c),
     HStr (cu_cohort_id c), HStr (ComparisonDirection_value (cu_comparison c)),
     HList (map point_payload (cu_points c)), HStr (cu_model_id c), HStr (cu_model_version c),
     HStr (cu_calibration_id c), HStr (cu_evidence_manifest_id c),
     HStr (cu_validation_receipt_id c), datetime_payload (cu_issued_at c),
     datetime_payload (cu_expires_at c), HStr (FairValueEligibility_value (cu_eligibility c))]"

definition FairValueCurve_build :: "digest_fn \<Rightarrow> FairValueCurve \<Rightarrow> FairValueCurve result" where
  "FairValueCurve_build dig c =
     rbind (mm_aware (cu_issued_at c) ''issued_at'') (\<lambda>_.
     rbind (mm_aware (cu_expires_at c) ''expires_at'') (\<lambda>_.
       let points = cu_points c; ordered = ordered_points points
       in if astimezone_utc (cu_expires_at c) \<le> astimezone_utc (cu_issued_at c)
       then Inl (MarketMakingError ''fair-value authority expiry is invalid'')
       else if list_ex (\<lambda>s. s = []) [cu_event_id c, cu_cohort_id c, cu_model_id c,
         cu_model_version c, cu_calibration_id c, cu_evidence_manifest_id c]
       then Inl (MarketMakingError ''fair-value curve identity is incomplete'')
       else if cu_eligibility c = ELIGIBLE_SHADOW_RESEARCH \<and> cu_validation_receipt_id c = []
       then Inl (MarketMakingError ''eligible fair value requires a validation receipt'')
       else if length points < 2
       then Inl (MarketMakingError ''structure-aware curve requires at least two siblings'')
       else if \<not> distinct (map fv_market_ticker points)
       then Inl (MarketMakingError ''fair-value curve contains duplicate market tickers'')
       else if \<not> distinct (map fv_threshold ordered)
       then Inl (MarketMakingError ''fair-value curve contains duplicate thresholds'')
       else if list_ex (\<lambda>field. \<not> coherent (cu_comparison c) (map field ordered))
         [fv_lower_yes, fv_probability_yes, fv_upper_yes]
       then Inl (MarketMakingError ''fair-value curve violates threshold monotonicity'')
       else let built = c\<lparr>cu_points := ordered\<rparr>; digest = stable_hash dig (curve_payload built)
         in Inr (built\<lparr>cu_curve_id := digest, cu_content_hash := digest,
           cu_production_influence := 0\<rparr>)))"

definition FairValueCurve_validated_copy :: "digest_fn \<Rightarrow> FairValueCurve \<Rightarrow> FairValueCurve result" where
  "FairValueCurve_validated_copy dig c = rbind (FairValueCurve_build dig c) (\<lambda>rebuilt.
     if cu_production_influence c \<noteq> 0 \<or> cu_curve_id c \<noteq> cu_curve_id rebuilt \<or>
       cu_content_hash c \<noteq> cu_content_hash rebuilt
     then Inl (MarketMakingError ''fair-value curve identity or authority changed'')
     else Inr rebuilt)"

section \<open>Market and inventory snapshots\<close>

record ShadowMarketSnapshot =
  mm_snapshot_id :: string
  mm_market_ticker :: string
  mm_event_id :: string
  mm_rules_hash :: string
  mm_specification_hash :: string
  mm_observed_at :: datetime
  mm_book_observed_at :: datetime
  mm_closes_at :: datetime
  mm_book_source_hash :: string
  mm_economics_evidence_id :: string
  mm_book :: NormalizedBook
  mm_sequence_contiguous :: bool
  mm_market_active :: bool
  mm_market_paused :: bool
  mm_source_healthy :: bool
  mm_own_order_state_known :: bool
  mm_content_hash :: string
  mm_production_influence :: decimal

text \<open>\<open>_book_material\<close> lists the seven fields of each level, as \<open>book_payload\<close> does.\<close>

definition market_payload :: "ShadowMarketSnapshot \<Rightarrow> hashable" where
  "market_payload m = HList [HStr ''mm-a1-market-snapshot-v1'',
     HList (map (\<lambda>(k, v). HList [HStr k, v]) (sort_key fst
       [(''market_ticker'', HStr (mm_market_ticker m)), (''event_id'', HStr (mm_event_id m)),
        (''rules_hash'', HStr (mm_rules_hash m)),
        (''specification_hash'', HStr (mm_specification_hash m)),
        (''observed_at'', datetime_payload (mm_observed_at m)),
        (''book_observed_at'', datetime_payload (mm_book_observed_at m)),
        (''closes_at'', datetime_payload (mm_closes_at m)),
        (''book_source_hash'', HStr (mm_book_source_hash m)),
        (''economics_evidence_id'', HStr (mm_economics_evidence_id m)),
        (''sequence_contiguous'', HBool (mm_sequence_contiguous m)),
        (''market_active'', HBool (mm_market_active m)),
        (''market_paused'', HBool (mm_market_paused m)),
        (''source_healthy'', HBool (mm_source_healthy m)),
        (''own_order_state_known'', HBool (mm_own_order_state_known m))])),
     book_payload (mm_book m)]"

fun first_missing :: "(string \<times> string) list \<Rightarrow> string option" where
  "first_missing [] = None"
| "first_missing ((name, value) # rest) = (if value = [] then Some name else first_missing rest)"

definition ShadowMarketSnapshot_build :: "digest_fn \<Rightarrow> ShadowMarketSnapshot \<Rightarrow>
    ShadowMarketSnapshot result" where
  "ShadowMarketSnapshot_build dig m =
     rbind (mm_aware (mm_observed_at m) ''observed_at'') (\<lambda>_.
     rbind (mm_aware (mm_book_observed_at m) ''book_observed_at'') (\<lambda>_.
     rbind (mm_aware (mm_closes_at m) ''closes_at'') (\<lambda>_.
       if astimezone_utc (mm_book_observed_at m) > astimezone_utc (mm_observed_at m)
       then Inl (MarketMakingError ''book observation cannot be from the future'')
       else case first_missing [(''market_ticker'', mm_market_ticker m),
           (''event_id'', mm_event_id m), (''rules_hash'', mm_rules_hash m),
           (''specification_hash'', mm_specification_hash m),
           (''book_source_hash'', mm_book_source_hash m),
           (''economics_evidence_id'', mm_economics_evidence_id m)] of
         Some name \<Rightarrow> Inl (MarketMakingError (name @ '' is required''))
       | None \<Rightarrow> let digest = stable_hash dig (market_payload m)
           in Inr (m\<lparr>mm_snapshot_id := digest, mm_content_hash := digest,
             mm_production_influence := 0\<rparr>))))"

record InventorySnapshot =
  iv_inventory_id :: string
  iv_market_ticker :: string
  iv_event_id :: string
  iv_observed_at :: datetime
  iv_net_yes_contracts :: decimal
  iv_max_abs_yes_contracts :: decimal
  iv_reconciled :: bool
  iv_content_hash :: string
  iv_production_influence :: decimal

definition inventory_payload :: "InventorySnapshot \<Rightarrow> hashable" where
  "inventory_payload i = HList [HStr ''mm-a1-inventory-v1'', HStr (iv_market_ticker i),
     HStr (iv_event_id i), datetime_payload (iv_observed_at i), HDec (iv_net_yes_contracts i),
     HDec (iv_max_abs_yes_contracts i), HBool (iv_reconciled i)]"

definition InventorySnapshot_build :: "digest_fn \<Rightarrow> InventorySnapshot \<Rightarrow> InventorySnapshot result" where
  "InventorySnapshot_build dig i =
     rbind (mm_aware (iv_observed_at i) ''inventory observed_at'') (\<lambda>_.
       if iv_market_ticker i = [] \<or> iv_event_id i = [] \<or> iv_max_abs_yes_contracts i \<le> 0
       then Inl (MarketMakingError ''inventory identity or limit is invalid'')
       else let digest = stable_hash dig (inventory_payload i)
         in Inr (i\<lparr>iv_inventory_id := digest, iv_content_hash := digest,
           iv_production_influence := 0\<rparr>))"

section \<open>The quote policy\<close>

record QuotePolicy =
  qy_policy_id :: string
  qy_tick_size :: decimal
  qy_quote_quantity :: decimal
  qy_minimum_net_edge :: decimal
  qy_adverse_selection_reserve :: decimal
  qy_latency_volatility_reserve :: decimal
  qy_capital_turnover_reserve :: decimal
  qy_inventory_skew_per_contract :: decimal
  qy_maximum_inventory_skew :: decimal
  qy_maximum_book_age :: duration
  qy_maximum_inventory_age :: duration
  qy_close_guard :: duration
  qy_content_hash :: string
  qy_production_influence :: decimal

definition policy_decimals :: "QuotePolicy \<Rightarrow> decimal list" where
  "policy_decimals p = [qy_tick_size p, qy_quote_quantity p, qy_minimum_net_edge p,
     qy_adverse_selection_reserve p, qy_latency_volatility_reserve p,
     qy_capital_turnover_reserve p, qy_inventory_skew_per_contract p, qy_maximum_inventory_skew p]"

definition quote_policy_payload :: "QuotePolicy \<Rightarrow> hashable" where
  "quote_policy_payload p = HList ([HStr ''mm-a1-quote-policy-v1'', HStr (qy_policy_id p)] @
     map HDec (policy_decimals p) @
     [HInt (qy_maximum_book_age p), HInt (qy_maximum_inventory_age p), HInt (qy_close_guard p)])"

definition QuotePolicy_build :: "digest_fn \<Rightarrow> QuotePolicy \<Rightarrow> QuotePolicy result" where
  "QuotePolicy_build dig p =
     (if qy_policy_id p = [] then Inl (MarketMakingError ''quote policy identity is invalid'')
      else if \<not> (4 / 100 \<le> qy_minimum_net_edge p \<and> qy_minimum_net_edge p \<le> 8 / 100)
      then Inl (MarketMakingError ''minimum net edge must remain inside reviewed 4%-8% range'')
      else if qy_quote_quantity p \<noteq> 1
      then Inl (MarketMakingError ''MM-A1 is fixed to one hypothetical contract per side'')
      else if \<not> (0 < qy_tick_size p \<and> qy_tick_size p < 1)
      then Inl (MarketMakingError ''tick size is invalid'')
      else if list_ex (\<lambda>v. v < 0) (drop 3 (policy_decimals p))
      then Inl (MarketMakingError ''quote reserves and inventory skew must be non-negative'')
      else if list_ex (\<lambda>v. v \<le> 0) [qy_maximum_book_age p, qy_maximum_inventory_age p]
      then Inl (MarketMakingError ''freshness windows must be positive'')
      else if qy_close_guard p < 0
      then Inl (MarketMakingError ''close guard must be non-negative'')
      else Inr (p\<lparr>qy_content_hash := stable_hash dig (quote_policy_payload p),
        qy_production_influence := 0\<rparr>))"

definition QuotePolicy_validated_copy :: "digest_fn \<Rightarrow> QuotePolicy \<Rightarrow> QuotePolicy result" where
  "QuotePolicy_validated_copy dig p = rbind (QuotePolicy_build dig p) (\<lambda>rebuilt.
     if qy_production_influence p \<noteq> 0 \<or> qy_content_hash p \<noteq> qy_content_hash rebuilt
     then Inl (MarketMakingError ''quote policy identity or influence changed'')
     else Inr rebuilt)"

section \<open>Quotes and plans\<close>

record ShadowQuote =
  hq_quote_id :: string
  hq_outcome_side :: OutcomeSide
  hq_price :: decimal
  hq_quantity :: decimal
  hq_conservative_fair_probability :: decimal
  hq_maker_fee :: decimal
  hq_non_fee_reserve :: decimal
  hq_net_edge_per_contract :: decimal
  hq_inventory_before :: decimal
  hq_inventory_after_full_fill :: decimal
  hq_inventory_reducing :: bool
  hq_post_only :: bool
  hq_cancel_order_on_pause :: bool
  hq_self_trade_prevention :: string
  hq_order_group_required :: bool
  hq_exchange_order :: bool
  hq_production_influence :: decimal

definition ShadowQuote_post_init :: "ShadowQuote \<Rightarrow> ShadowQuote result" where
  "ShadowQuote_post_init q =
     (if hq_production_influence q \<noteq> 0 \<or> hq_exchange_order q \<or> \<not> hq_post_only q \<or>
        \<not> hq_cancel_order_on_pause q \<or> \<not> hq_order_group_required q
      then Inl (MarketMakingError ''shadow quote gained execution authority or lost safety flags'')
      else Inr q)"

record ShadowQuotePlan =
  sp_plan_id :: string
  sp_planned_at :: datetime
  sp_market_ticker :: string
  sp_event_id :: string
  sp_cohort_id :: string
  sp_curve_id :: string
  sp_market_snapshot_id :: string
  sp_inventory_snapshot_id :: string
  sp_economics_evidence_id :: string
  sp_fee_policy_id :: string
  sp_quote_policy_id :: string
  sp_state :: ShadowQuoteState
  sp_quotes :: "ShadowQuote list"
  sp_blockers :: "QuoteBlocker list"
  sp_research_only :: bool
  sp_production_influence :: decimal

definition ShadowQuotePlan_post_init :: "ShadowQuotePlan \<Rightarrow> ShadowQuotePlan result" where
  "ShadowQuotePlan_post_init p = rbind (mm_aware (sp_planned_at p) ''planned_at'') (\<lambda>_.
     if \<not> sp_research_only p \<or> sp_production_influence p \<noteq> 0
     then Inl (MarketMakingError ''quote plan must remain research-only'')
     else if sp_state p = TWO_SIDED \<and> set (map hq_outcome_side (sp_quotes p)) \<noteq> set [YES, NO]
     then Inl (MarketMakingError ''two-sided state requires exact YES and NO shadow quotes'')
     else if sp_state p = ONE_SIDED_INVENTORY_REDUCTION \<and>
       (case sp_quotes p of [q] \<Rightarrow> \<not> hq_inventory_reducing q | _ \<Rightarrow> True)
     then Inl (MarketMakingError ''one-sided state is restricted to inventory reduction'')
     else if sp_state p = ABSTAIN \<and> sp_quotes p \<noteq> []
     then Inl (MarketMakingError ''abstention cannot carry quotes'')
     else Inr p)"

section \<open>What the builders guarantee\<close>

lemma FairValueCurve_build_ok:
  assumes "FairValueCurve_build dig c = Inr r"
  shows "cu_points r = ordered_points (cu_points c)" and "cu_eligibility r = cu_eligibility c"
    and "cu_event_id r = cu_event_id c" and "cu_issued_at r = cu_issued_at c"
    and "cu_expires_at r = cu_expires_at c" and "cu_comparison r = cu_comparison c"
    and "tz_aware (cu_issued_at r)" and "tz_aware (cu_expires_at r)"
    and "astimezone_utc (cu_issued_at r) < astimezone_utc (cu_expires_at r)"
    and "2 \<le> length (cu_points r)" and "distinct (map fv_market_ticker (cu_points c))"
    and "distinct (map fv_threshold (cu_points r))"
    and "list_all (\<lambda>field. coherent (cu_comparison r) (map field (cu_points r)))
      [fv_lower_yes, fv_probability_yes, fv_upper_yes]"
    and "cu_eligibility r = ELIGIBLE_SHADOW_RESEARCH \<Longrightarrow> cu_validation_receipt_id r \<noteq> []"
  using assms
  by (auto simp: FairValueCurve_build_def rbind_eq_Inr Let_def ordered_points_def not_le not_less
      split: if_splits)

lemma QuotePolicy_build_ok:
  assumes "QuotePolicy_build dig p = Inr r"
  shows "r = p\<lparr>qy_content_hash := stable_hash dig (quote_policy_payload p), qy_production_influence := 0\<rparr>"
    and "4 / 100 \<le> qy_minimum_net_edge r" and "qy_quote_quantity r = 1" and "0 < qy_tick_size r"
    and "0 \<le> qy_adverse_selection_reserve r" and "0 \<le> qy_latency_volatility_reserve r"
    and "0 \<le> qy_capital_turnover_reserve r" and "0 \<le> qy_maximum_inventory_skew r"
    and "0 \<le> qy_inventory_skew_per_contract r"
    and "0 < qy_maximum_book_age r" and "0 < qy_maximum_inventory_age r" and "0 \<le> qy_close_guard r"
  using assms
  by (auto simp: QuotePolicy_build_def policy_decimals_def not_le not_less split: if_splits)

end
