(* ===== verification/MM_Planner.thy ===== *)
theory MM_Planner
  imports MM_Domain
begin

text \<open>
  \<open>services/market_making_research/planner.py\<close>: the pure planner of passive shadow quotes. It
  validates every input again, collects blockers, and either abstains or proposes a quote on each
  side. Comparing a naive with an aware \<open>datetime\<close> raises \<open>TypeError\<close>, so the planner returns a
  result.
\<close>

section \<open>Validation of the inputs\<close>

definition default_shadow_quote_policy :: "digest_fn \<Rightarrow> QuotePolicy result" where
  "default_shadow_quote_policy dig = QuotePolicy_build dig
     \<lparr>qy_policy_id = ''mm-a1-one-contract-shadow-v2'', qy_tick_size = 1 / 100,
      qy_quote_quantity = 1, qy_minimum_net_edge = 5 / 100,
      qy_adverse_selection_reserve = 1 / 100, qy_latency_volatility_reserve = 1 / 100,
      qy_capital_turnover_reserve = 5 / 1000, qy_inventory_skew_per_contract = 5 / 1000,
      qy_maximum_inventory_skew = 2 / 100, qy_maximum_book_age = seconds 2,
      qy_maximum_inventory_age = seconds 2, qy_close_guard = minutes 15,
      qy_content_hash = '''', qy_production_influence = 0\<rparr>"

definition snapshot_valid :: "digest_fn \<Rightarrow> ShadowMarketSnapshot \<Rightarrow> bool" where
  "snapshot_valid dig m = (case ShadowMarketSnapshot_build dig m of
     Inl _ \<Rightarrow> False
   | Inr rebuilt \<Rightarrow> mm_production_influence m = 0 \<and> mm_snapshot_id m = mm_snapshot_id rebuilt \<and>
       mm_content_hash m = mm_content_hash rebuilt)"

definition inventory_valid :: "digest_fn \<Rightarrow> InventorySnapshot \<Rightarrow> bool" where
  "inventory_valid dig i = (case InventorySnapshot_build dig i of
     Inl _ \<Rightarrow> False
   | Inr rebuilt \<Rightarrow> iv_production_influence i = 0 \<and> iv_inventory_id i = iv_inventory_id rebuilt \<and>
       iv_content_hash i = iv_content_hash rebuilt)"

text \<open>Only an \<open>OpportunityError\<close> is caught.\<close>

definition economics_valid :: "digest_fn \<Rightarrow> MarketEconomicsEvidence \<Rightarrow> bool result" where
  "economics_valid dig e =
     (if me_analysis_type e \<noteq> ''TAKER_NOW'' \<or> \<not> me_research_only e \<or> me_production_influence e \<noteq> 0
      then Inr False
      else case MarketEconomicsEvidence_create dig e of
        Inl (OpportunityError _) \<Rightarrow> Inr False
      | Inl err \<Rightarrow> Inl err
      | Inr rebuilt \<Rightarrow> Inr (e = rebuilt))"

section \<open>Comparing timestamps\<close>

definition time_compare :: "(instant \<Rightarrow> instant \<Rightarrow> 'a) \<Rightarrow> datetime \<Rightarrow> datetime \<Rightarrow> 'a result" where
  "time_compare f s t = (if tz_aware s \<noteq> tz_aware t
     then Inl (TypeError ''can't compare offset-naive and offset-aware datetimes'')
     else Inr (f (astimezone_utc s) (astimezone_utc t)))"

definition time_minus :: "datetime \<Rightarrow> datetime \<Rightarrow> duration result" where
  "time_minus s t = (if tz_aware s \<noteq> tz_aware t
     then Inl (TypeError ''can't subtract offset-naive and offset-aware datetimes'')
     else Inr (astimezone_utc s - astimezone_utc t))"

definition curve_current :: "FairValueCurve \<Rightarrow> datetime \<Rightarrow> bool result" where
  "curve_current curve t = rbind (time_compare (\<le>) (cu_issued_at curve) t) (\<lambda>issued.
     if issued then time_compare (<) t (cu_expires_at curve) else Inr False)"

definition economics_stale :: "datetime \<Rightarrow> datetime \<Rightarrow> duration \<Rightarrow> bool result" where
  "economics_stale economics_at observed_at maximum_age =
     rbind (time_compare (>) economics_at observed_at) (\<lambda>future.
       if future then Inr True
       else rbind (time_minus observed_at economics_at) (\<lambda>age. Inr (age > maximum_age)))"

definition policy_applies :: "FeePolicy \<Rightarrow> datetime \<Rightarrow> bool result" where
  "policy_applies p t = (if tz_aware t then Inr (applies_at p (astimezone_utc t))
     else Inl (TypeError ''can't compare offset-naive and offset-aware datetimes''))"

section \<open>One side\<close>

definition floor_tick :: "decimal \<Rightarrow> decimal \<Rightarrow> decimal" where
  "floor_tick value tick = of_int \<lfloor>value / tick\<rfloor> * tick"

definition side_levels :: "NormalizedBook \<Rightarrow> OutcomeSide \<Rightarrow> ExecutableLevel list \<times> ExecutableLevel list" where
  "side_levels book side = (if side = YES then (nb_yes_bids book, nb_yes_asks book)
     else (nb_no_bids book, nb_no_asks book))"

definition side_blocker :: "OutcomeSide \<Rightarrow> bool \<Rightarrow> QuoteBlocker" where
  "side_blocker side edge = (if side = YES
     then if edge then YES_EDGE_BELOW_HURDLE else YES_NOT_COMPETITIVE
     else if edge then NO_EDGE_BELOW_HURDLE else NO_NOT_COMPETITIVE)"

text \<open>The price of a quote: one tick better than the best bid where that stays below the ask,
  shifted against the inventory held, capped one tick below the ask and floored to the tick.\<close>

definition inventory_skew :: "QuotePolicy \<Rightarrow> InventorySnapshot \<Rightarrow> decimal" where
  "inventory_skew policy inventory =
     (let raw_skew = iv_net_yes_contracts inventory * qy_inventory_skew_per_contract policy
      in max (- qy_maximum_inventory_skew policy) (min (qy_maximum_inventory_skew policy) raw_skew))"

definition quote_price :: "QuotePolicy \<Rightarrow> InventorySnapshot \<Rightarrow> OutcomeSide \<Rightarrow> decimal \<Rightarrow> decimal \<Rightarrow> decimal" where
  "quote_price policy inventory side best_bid best_ask =
     (let improve = best_bid + qy_tick_size policy;
          competitive_target = (if improve < best_ask then improve else best_bid);
          skew = inventory_skew policy inventory;
          desired = (if side = YES then competitive_target - skew else competitive_target + skew);
          post_only_cap = best_ask - qy_tick_size policy
      in floor_tick (min desired post_only_cap) (qy_tick_size policy))"

definition inventory_after :: "QuotePolicy \<Rightarrow> InventorySnapshot \<Rightarrow> OutcomeSide \<Rightarrow> decimal" where
  "inventory_after policy inventory side = (if side = YES
     then iv_net_yes_contracts inventory + qy_quote_quantity policy
     else iv_net_yes_contracts inventory - qy_quote_quantity policy)"

definition conservative_probability :: "FairValuePoint \<Rightarrow> OutcomeSide \<Rightarrow> decimal" where
  "conservative_probability point side = (if side = YES then fv_lower_yes point else 1 - fv_upper_yes point)"

definition policy_reserve :: "QuotePolicy \<Rightarrow> decimal" where
  "policy_reserve policy = qy_adverse_selection_reserve policy + qy_latency_volatility_reserve policy +
     qy_capital_turnover_reserve policy"

definition quote_payload :: "ShadowMarketSnapshot \<Rightarrow> InventorySnapshot \<Rightarrow> FeePolicy \<Rightarrow> QuotePolicy \<Rightarrow>
    ShadowQuote \<Rightarrow> hashable" where
  "quote_payload market inventory fee_policy policy q = HList [HStr ''mm-a1-shadow-quote-v1'',
     HStr (mm_snapshot_id market), HStr (iv_inventory_id inventory), HStr (qy_content_hash policy),
     HStr (fp_policy_id fee_policy), HStr (side_value (hq_outcome_side q)), HDec (hq_price q),
     HDec (hq_quantity q), HDec (hq_conservative_fair_probability q), HDec (hq_maker_fee q),
     HDec (hq_non_fee_reserve q), HDec (hq_net_edge_per_contract q), HDec (hq_inventory_before q),
     HDec (hq_inventory_after_full_fill q), HBool (hq_inventory_reducing q)]"

text \<open>The quote the code builds, with its content identity.\<close>

definition new_quote :: "digest_fn \<Rightarrow> FairValuePoint \<Rightarrow> ShadowMarketSnapshot \<Rightarrow> InventorySnapshot \<Rightarrow>
    FeePolicy \<Rightarrow> QuotePolicy \<Rightarrow> OutcomeSide \<Rightarrow> decimal \<Rightarrow> decimal \<Rightarrow> decimal \<Rightarrow> ShadowQuote" where
  "new_quote dig point market inventory fee_policy policy side price fee edge =
     (let after = inventory_after policy inventory side;
          q = \<lparr>hq_quote_id = '''', hq_outcome_side = side, hq_price = price,
            hq_quantity = qy_quote_quantity policy,
            hq_conservative_fair_probability = conservative_probability point side,
            hq_maker_fee = fee, hq_non_fee_reserve = policy_reserve policy,
            hq_net_edge_per_contract = edge, hq_inventory_before = iv_net_yes_contracts inventory,
            hq_inventory_after_full_fill = after,
            hq_inventory_reducing = \<bar>after\<bar> < \<bar>iv_net_yes_contracts inventory\<bar>,
            hq_post_only = True, hq_cancel_order_on_pause = True,
            hq_self_trade_prevention = ''TAKER_AT_CROSS'', hq_order_group_required = True,
            hq_exchange_order = False, hq_production_influence = 0\<rparr>
      in q\<lparr>hq_quote_id := stable_hash dig (quote_payload market inventory fee_policy policy q)\<rparr>)"

text \<open>The first component is the quote, the second the blocker; exactly one of them is present. The
  divisions by the tick and by the quantity raise when the divisor is zero.\<close>

definition propose_at :: "digest_fn \<Rightarrow> FairValuePoint \<Rightarrow> ShadowMarketSnapshot \<Rightarrow> InventorySnapshot \<Rightarrow>
    FeePolicy \<Rightarrow> QuotePolicy \<Rightarrow> OutcomeSide \<Rightarrow> decimal \<Rightarrow>
    (ShadowQuote option \<times> QuoteBlocker option) result" where
  "propose_at dig point market inventory fee_policy policy side price =
     (case calculate_fee fee_policy price (qy_quote_quantity policy) True of
        Inl (OpportunityError _) \<Rightarrow> Inr (None, Some FEE_UNVERIFIED)
      | Inl err \<Rightarrow> Inl err
      | Inr calc \<Rightarrow>
          if qy_quote_quantity policy = 0 then Inl (ValueError ''DivisionByZero'')
          else let fee = fk_total_fee calc;
              edge = conservative_probability point side - price - fee / qy_quote_quantity policy -
                policy_reserve policy
            in if edge < qy_minimum_net_edge policy then Inr (None, Some (side_blocker side True))
            else rbind (ShadowQuote_post_init
                (new_quote dig point market inventory fee_policy policy side price fee edge))
              (\<lambda>quote. Inr (Some quote, None)))"

definition propose_side :: "digest_fn \<Rightarrow> FairValuePoint \<Rightarrow> ShadowMarketSnapshot \<Rightarrow> NormalizedBook \<Rightarrow>
    InventorySnapshot \<Rightarrow> FeePolicy \<Rightarrow> QuotePolicy \<Rightarrow> OutcomeSide \<Rightarrow>
    (ShadowQuote option \<times> QuoteBlocker option) result" where
  "propose_side dig point market book inventory fee_policy policy side =
     (if \<bar>inventory_after policy inventory side\<bar> > iv_max_abs_yes_contracts inventory
      then Inr (None, Some INVENTORY_LIMIT)
      else case side_levels book side of
        (bid # _, ask # _) \<Rightarrow>
          if qy_tick_size policy = 0 then Inl (ValueError ''DivisionByZero'')
          else let price = quote_price policy inventory side (el_price bid) (el_price ask)
            in if price < el_price bid \<or> price \<le> 0 \<or> price \<ge> el_price ask
            then Inr (None, Some (side_blocker side False))
            else propose_at dig point market inventory fee_policy policy side price
      | _ \<Rightarrow> Inr (None, Some (side_blocker side False)))"

section \<open>The plan\<close>

definition plan_payload :: "ShadowQuotePlan \<Rightarrow> QuotePolicy \<Rightarrow> hashable" where
  "plan_payload p policy = HList [HStr ''mm-a1-shadow-plan-v1'', datetime_payload (sp_planned_at p),
     HStr (sp_market_ticker p), HStr (sp_event_id p), HStr (sp_cohort_id p), HStr (sp_curve_id p),
     HStr (sp_market_snapshot_id p), HStr (sp_inventory_snapshot_id p),
     HStr (sp_economics_evidence_id p), HStr (sp_fee_policy_id p), HStr (qy_content_hash policy),
     HStr (ShadowQuoteState_value (sp_state p)),
     HList (map (\<lambda>q. HStr (hq_quote_id q)) (sp_quotes p)),
     HList (map (\<lambda>b. HStr (QuoteBlocker_value b)) (sp_blockers p))]"

definition finish_plan :: "digest_fn \<Rightarrow> FairValueCurve \<Rightarrow> ShadowMarketSnapshot \<Rightarrow> InventorySnapshot \<Rightarrow>
    FeePolicy \<Rightarrow> MarketEconomicsEvidence \<Rightarrow> QuotePolicy \<Rightarrow> ShadowQuoteState \<Rightarrow> ShadowQuote list \<Rightarrow>
    QuoteBlocker list \<Rightarrow> ShadowQuotePlan result" where
  "finish_plan dig curve market inventory fee_policy economics policy state quotes blockers =
     (let plan = \<lparr>sp_plan_id = '''', sp_planned_at = mm_observed_at market,
        sp_market_ticker = mm_market_ticker market, sp_event_id = mm_event_id market,
        sp_cohort_id = cu_cohort_id curve, sp_curve_id = cu_curve_id curve,
        sp_market_snapshot_id = mm_snapshot_id market,
        sp_inventory_snapshot_id = iv_inventory_id inventory,
        sp_economics_evidence_id = me_evidence_id economics,
        sp_fee_policy_id = fp_policy_id fee_policy, sp_quote_policy_id = qy_policy_id policy,
        sp_state = state, sp_quotes = quotes, sp_blockers = sorted_blockers blockers,
        sp_research_only = True, sp_production_influence = 0\<rparr>
      in ShadowQuotePlan_post_init (plan\<lparr>sp_plan_id := stable_hash dig (plan_payload plan policy)\<rparr>))"

text \<open>The point of the market in the curve, when it is unique, and the blocker it raises.\<close>

definition curve_point :: "FairValueCurve \<Rightarrow> ShadowMarketSnapshot \<Rightarrow> FairValuePoint option" where
  "curve_point curve market =
     (case filter (\<lambda>p. fv_market_ticker p = mm_market_ticker market) (cu_points curve) of
        [p] \<Rightarrow> Some p | _ \<Rightarrow> None)"

definition point_blockers :: "FairValuePoint option \<Rightarrow> ShadowMarketSnapshot \<Rightarrow> QuoteBlocker list" where
  "point_blockers point market = (case point of None \<Rightarrow> [MARKET_NOT_IN_CURVE]
     | Some p \<Rightarrow> if fv_rules_hash p \<noteq> mm_rules_hash market then [RULES_MISMATCH]
         else only_if (fv_specification_hash p \<noteq> mm_specification_hash market) SPECIFICATION_MISMATCH)"

definition economics_differ :: "MarketEconomicsEvidence \<Rightarrow> ShadowMarketSnapshot \<Rightarrow> QuotePolicy \<Rightarrow> bool" where
  "economics_differ e m policy \<longleftrightarrow> me_evidence_id e \<noteq> mm_economics_evidence_id m \<or>
     me_market_ticker e \<noteq> mm_market_ticker m \<or> me_event_ticker e \<noteq> mm_event_id m \<or>
     me_market_rules_hash e \<noteq> mm_rules_hash m \<or> me_orderbook_source_hash e \<noteq> mm_book_source_hash m \<or>
     me_orderbook_observed_at e \<noteq> mm_book_observed_at m \<or>
     bo_book (mi_book_observation (me_replay_input e)) \<noteq> mm_book m \<or>
     me_requested_quantity e \<noteq> qy_quote_quantity policy"

text \<open>The arguments of the planner.\<close>

record QuoteRequest =
  qr_curve :: FairValueCurve
  qr_market :: ShadowMarketSnapshot
  qr_inventory :: InventorySnapshot
  qr_economics :: MarketEconomicsEvidence
  qr_economics_binding :: hashable
  qr_policy :: QuotePolicy

text \<open>The validated copies, or the originals with the blocker of the failed validation.\<close>

definition checked_curve :: "digest_fn \<Rightarrow> FairValueCurve \<Rightarrow> FairValueCurve \<times> QuoteBlocker list" where
  "checked_curve dig curve = (case FairValueCurve_validated_copy dig curve of
     Inl _ \<Rightarrow> (curve, [FAIR_VALUE_IDENTITY_MISMATCH]) | Inr c \<Rightarrow> (c, []))"

definition checked_policy :: "digest_fn \<Rightarrow> QuotePolicy \<Rightarrow> QuotePolicy \<times> QuoteBlocker list" where
  "checked_policy dig policy = (case QuotePolicy_validated_copy dig policy of
     Inl _ \<Rightarrow> (policy, [QUOTE_POLICY_INVALID]) | Inr p \<Rightarrow> (p, []))"

definition checked_binding :: "codec \<Rightarrow> QuoteRequest \<Rightarrow> BindingValidation option" where
  "checked_binding c q = (case validate_economics_binding c (qr_economics_binding q) (qr_economics q)
       (mm_market_ticker (qr_market q)) (mm_event_id (qr_market q)) of
     Inl _ \<Rightarrow> None | Inr v \<Rightarrow> if binding_succeeded v then Some v else None)"

text \<open>The blockers that need no timestamp, in the order of the code.\<close>

definition identity_blockers :: "codec \<Rightarrow> QuoteRequest \<Rightarrow> bool \<Rightarrow> QuoteBlocker list" where
  "identity_blockers c q economics_ok =
     (let dig = cc_digest c; market = qr_market q; inventory = qr_inventory q;
          economics = qr_economics q; (curve, curve_blockers) = checked_curve dig (qr_curve q);
          (policy, policy_blockers) = checked_policy dig (qr_policy q);
          binding = checked_binding c q
      in curve_blockers @ policy_blockers @ only_if (\<not> economics_ok) ECONOMICS_IDENTITY_MISMATCH @
         only_if (binding = None) ECONOMICS_BINDING_INVALID @
         only_if (\<not> snapshot_valid dig market) MARKET_SNAPSHOT_IDENTITY_MISMATCH @
         only_if (\<not> inventory_valid dig inventory) INVENTORY_IDENTITY_MISMATCH @
         only_if (cu_eligibility curve \<noteq> ELIGIBLE_SHADOW_RESEARCH) FAIR_VALUE_INELIGIBLE @
         only_if (mm_event_id market \<noteq> cu_event_id curve) FAIR_VALUE_IDENTITY_MISMATCH @
         point_blockers (curve_point curve market) market @
         only_if (economics_differ economics market policy) ECONOMICS_IDENTITY_MISMATCH @
         only_if (case binding of None \<Rightarrow> False
           | Some v \<Rightarrow> bv_rules_hash v \<noteq> Some (mm_rules_hash market)) ECONOMICS_IDENTITY_MISMATCH @
         only_if (\<not> mm_sequence_contiguous market) BOOK_SEQUENCE_GAP @
         only_if (\<not> mm_market_active market) MARKET_INACTIVE @
         only_if (mm_market_paused market) MARKET_PAUSED @
         only_if (\<not> mm_source_healthy market) SOURCE_UNHEALTHY @
         only_if (\<not> mm_own_order_state_known market) OWN_ORDER_STATE_UNKNOWN @
         only_if (\<not> iv_reconciled inventory) INVENTORY_UNRECONCILED @
         only_if (iv_market_ticker inventory \<noteq> mm_market_ticker market \<or>
           iv_event_id inventory \<noteq> mm_event_id market) INVENTORY_IDENTITY_MISMATCH @
         only_if (\<bar>iv_net_yes_contracts inventory\<bar> > iv_max_abs_yes_contracts inventory) INVENTORY_LIMIT @
         only_if (\<not> fp_verified (mi_fee_policy (me_replay_input economics))) FEE_UNVERIFIED)"

text \<open>The comparisons of timestamps, in the order of the code: the first that mixes naive and aware
  values raises.\<close>

definition time_blockers :: "codec \<Rightarrow> QuoteRequest \<Rightarrow> QuoteBlocker list result" where
  "time_blockers c q =
     (let dig = cc_digest c; market = qr_market q; observed_at = mm_observed_at market;
          curve = fst (checked_curve dig (qr_curve q)); policy = fst (checked_policy dig (qr_policy q));
          economics = qr_economics q
      in rbind (curve_current curve observed_at) (\<lambda>current.
         rbind (economics_stale (me_economics_observed_at economics) observed_at
           (qy_maximum_book_age policy)) (\<lambda>stale.
         rbind (time_minus observed_at (mm_book_observed_at market)) (\<lambda>book_age.
         rbind (time_minus (mm_closes_at market) observed_at) (\<lambda>to_close.
         rbind (time_minus observed_at (iv_observed_at (qr_inventory q))) (\<lambda>inventory_age.
         rbind (policy_applies (mi_fee_policy (me_replay_input economics)) observed_at) (\<lambda>applies.
           Inr (only_if (\<not> current) FAIR_VALUE_STALE @ only_if stale ECONOMICS_STALE @
             only_if (book_age > qy_maximum_book_age policy) BOOK_STALE @
             only_if (to_close \<le> qy_close_guard policy) TOO_CLOSE_TO_CLOSE @
             only_if (inventory_age > qy_maximum_inventory_age policy) INVENTORY_STALE @
             only_if (\<not> applies) FEE_NOT_EFFECTIVE))))))))"

definition plan_blockers :: "codec \<Rightarrow> QuoteRequest \<Rightarrow> QuoteBlocker list result" where
  "plan_blockers c q = rbind (economics_valid (cc_digest c) (qr_economics q)) (\<lambda>economics_ok.
     rbind (time_blockers c q) (\<lambda>timed. Inr (identity_blockers c q economics_ok @ timed)))"

text \<open>What becomes of the two proposals.\<close>

definition settle_quotes :: "ShadowQuote list \<Rightarrow>
    ShadowQuoteState \<times> ShadowQuote list \<times> QuoteBlocker list" where
  "settle_quotes quotes = (case quotes of
     [yes, no] \<Rightarrow> (TWO_SIDED, [yes, no], [])
   | [q] \<Rightarrow> if hq_inventory_reducing q then (ONE_SIDED_INVENTORY_REDUCTION, [q], [])
       else (ABSTAIN, [], [TWO_SIDED_REQUIRED])
   | _ \<Rightarrow> (ABSTAIN, [], only_if (quotes \<noteq> []) TWO_SIDED_REQUIRED))"

definition the_list :: "'a option \<Rightarrow> 'a list" where
  "the_list x = (case x of None \<Rightarrow> [] | Some v \<Rightarrow> [v])"

definition plan_shadow_quotes :: "codec \<Rightarrow> QuoteRequest \<Rightarrow> ShadowQuotePlan result" where
  "plan_shadow_quotes c q =
     (let dig = cc_digest c; market = qr_market q; inventory = qr_inventory q;
          economics = qr_economics q; fee_policy = mi_fee_policy (me_replay_input economics);
          policy = fst (checked_policy dig (qr_policy q));
          finish = finish_plan dig (qr_curve q) market inventory fee_policy economics policy
      in rbind (plan_blockers c q) (\<lambda>blockers.
        case (blockers, curve_point (fst (checked_curve dig (qr_curve q))) market) of
          ([], Some point) \<Rightarrow>
            (let propose = propose_side dig point market
               (bo_book (mi_book_observation (me_replay_input economics))) inventory fee_policy policy
             in rbind (propose YES) (\<lambda>(yes, yes_blocker). rbind (propose NO) (\<lambda>(no, no_blocker).
               let (state, quotes, extra) = settle_quotes (the_list yes @ the_list no)
               in finish state quotes (the_list yes_blocker @ the_list no_blocker @ extra))))
        | _ \<Rightarrow> finish ABSTAIN [] blockers))"

end
