(* ===== verification/MM_Properties.thy ===== *)
theory MM_Properties
  imports MM_Planner Snapshot_Properties
begin

text \<open>
  Correctness of the shadow quote planner: what one side's proposal satisfies, when a plan carries
  quotes, and what a two-sided plan costs.
\<close>

section \<open>One side\<close>

lemma floor_tick_le: "0 < tick \<Longrightarrow> floor_tick x tick \<le> x"
  using mult_right_mono [OF of_int_floor_le [of "x / tick"], of tick] by (simp add: floor_tick_def)

lemma quote_price_cap:
  "0 < qy_tick_size policy \<Longrightarrow> quote_price policy inventory side bid ask \<le> ask - qy_tick_size policy"
  by (auto simp: quote_price_def Let_def intro: order_trans [OF floor_tick_le])

lemma quote_price_tick: "\<exists>n :: int. quote_price policy inventory side bid ask = of_int n * qy_tick_size policy"
  unfolding quote_price_def Let_def floor_tick_def by blast

definition quote_ok :: "QuotePolicy \<Rightarrow> NormalizedBook \<Rightarrow> InventorySnapshot \<Rightarrow> FeePolicy \<Rightarrow>
    FairValuePoint \<Rightarrow> ShadowQuote \<Rightarrow> bool" where
  "quote_ok policy book inventory fee_policy point x \<longleftrightarrow>
     (case side_levels book (hq_outcome_side x) of (bid # _, ask # _) \<Rightarrow>
        el_price bid \<le> hq_price x \<and> hq_price x \<le> el_price ask - qy_tick_size policy
      | _ \<Rightarrow> False) \<and>
     0 < hq_price x \<and> (\<exists>n :: int. hq_price x = of_int n * qy_tick_size policy) \<and>
     hq_quantity x = 1 \<and>
     (\<exists>calc. calculate_fee fee_policy (hq_price x) 1 True = Inr calc \<and> hq_maker_fee x = fk_total_fee calc) \<and>
     hq_net_edge_per_contract x = conservative_probability point (hq_outcome_side x) - hq_price x -
       hq_maker_fee x - policy_reserve policy \<and>
     qy_minimum_net_edge policy \<le> hq_net_edge_per_contract x \<and>
     hq_inventory_after_full_fill x = inventory_after policy inventory (hq_outcome_side x) \<and>
     \<bar>hq_inventory_after_full_fill x\<bar> \<le> iv_max_abs_yes_contracts inventory \<and>
     (hq_inventory_reducing x \<longleftrightarrow>
       \<bar>hq_inventory_after_full_fill x\<bar> < \<bar>iv_net_yes_contracts inventory\<bar>)"

text \<open>A valid policy fixes the quantity at one and the tick above zero.\<close>

definition policy_valid :: "QuotePolicy \<Rightarrow> bool" where
  "policy_valid p \<longleftrightarrow> qy_quote_quantity p = 1 \<and> 0 < qy_tick_size p \<and>
     4 / 100 \<le> qy_minimum_net_edge p \<and> 0 \<le> policy_reserve p"

lemma new_quote_post_init [simp]:
  "ShadowQuote_post_init (new_quote dig point market inventory fees policy side price fee edge) =
     Inr (new_quote dig point market inventory fees policy side price fee edge)"
  by (simp add: ShadowQuote_post_init_def new_quote_def Let_def)

lemma new_quote_fields [simp]:
  "hq_outcome_side (new_quote dig point market inventory fees policy side price fee edge) = side"
  "hq_price (new_quote dig point market inventory fees policy side price fee edge) = price"
  "hq_quantity (new_quote dig point market inventory fees policy side price fee edge) = qy_quote_quantity policy"
  "hq_maker_fee (new_quote dig point market inventory fees policy side price fee edge) = fee"
  "hq_net_edge_per_contract (new_quote dig point market inventory fees policy side price fee edge) = edge"
  "hq_inventory_after_full_fill (new_quote dig point market inventory fees policy side price fee edge) =
     inventory_after policy inventory side"
  "hq_inventory_reducing (new_quote dig point market inventory fees policy side price fee edge) \<longleftrightarrow>
     \<bar>inventory_after policy inventory side\<bar> < \<bar>iv_net_yes_contracts inventory\<bar>"
  by (simp_all add: new_quote_def Let_def)

lemma propose_at_cases:
  assumes "qy_quote_quantity policy = 1"
    and "propose_at dig point market inventory fees policy side price = Inr (quote, blocker)"
  shows "(\<exists>calc edge. calculate_fee fees price 1 True = Inr calc \<and> blocker = None \<and>
      edge = conservative_probability point side - price - fk_total_fee calc - policy_reserve policy \<and>
      qy_minimum_net_edge policy \<le> edge \<and>
      quote = Some (new_quote dig point market inventory fees policy side price (fk_total_fee calc) edge)) \<or>
    (quote = None \<and> blocker \<noteq> None)"
  using assms
  by (auto simp: propose_at_def Let_def not_less split: if_splits sum.splits py_exn.splits)

lemma propose_side_cases:
  assumes "policy_valid policy"
    and "propose_side dig point market book inventory fees policy side = Inr (quote, blocker)"
  shows "(\<exists>x. quote = Some x \<and> blocker = None \<and> hq_outcome_side x = side \<and>
      quote_ok policy book inventory fees point x) \<or> (quote = None \<and> blocker \<noteq> None)"
proof -
  have q: "qy_quote_quantity policy = 1" and t: "0 < qy_tick_size policy"
    using assms(1) by (auto simp: policy_valid_def)
  show ?thesis
  proof (cases "quote = None \<and> blocker \<noteq> None")
    case False
    then obtain bid bids ask asks price where after: "\<bar>inventory_after policy inventory side\<bar> \<le> iv_max_abs_yes_contracts inventory"
      and levels: "side_levels book side = (bid # bids, ask # asks)"
      and price: "price = quote_price policy inventory side (el_price bid) (el_price ask)"
        "el_price bid \<le> price" "0 < price"
      and proposed: "propose_at dig point market inventory fees policy side price = Inr (quote, blocker)"
      using assms(2) by (auto simp: propose_side_def Let_def not_less not_le split: if_splits list.splits prod.splits)
    from propose_at_cases [OF q proposed] False show ?thesis
      using after levels price q quote_price_cap [OF t, of inventory side "el_price bid" "el_price ask"]
        quote_price_tick [of policy inventory side "el_price bid" "el_price ask"]
      by (auto simp: quote_ok_def)
  qed simp
qed



section \<open>The plan\<close>

lemma checked_policy_valid:
  assumes "snd (checked_policy dig policy) = []"
  shows "policy_valid (fst (checked_policy dig policy))"
    and "QuotePolicy_validated_copy dig policy = Inr (fst (checked_policy dig policy))"
proof -
  from assms show copy: "QuotePolicy_validated_copy dig policy = Inr (fst (checked_policy dig policy))"
    by (auto simp: checked_policy_def split: sum.splits)
  then have "QuotePolicy_build dig policy = Inr (fst (checked_policy dig policy))"
    by (auto simp: QuotePolicy_validated_copy_def rbind_eq_Inr split: if_splits)
  from QuotePolicy_build_ok [OF this] show "policy_valid (fst (checked_policy dig policy))"
    by (simp add: policy_valid_def policy_reserve_def)
qed

lemma plan_blockers_Nil:
  assumes "plan_blockers c q = Inr []"
  shows "economics_valid (cc_digest c) (qr_economics q) = Inr True"
    and "identity_blockers c q True = []" and "time_blockers c q = Inr []"
proof -
  from assms obtain ok where ok: "economics_valid (cc_digest c) (qr_economics q) = Inr ok"
    and blockers: "identity_blockers c q ok = []" "time_blockers c q = Inr []"
    by (auto simp: plan_blockers_def rbind_eq_Inr)
  from blockers(1) have ok by (auto simp: identity_blockers_def Let_def split: prod.splits)
  with ok blockers show "economics_valid (cc_digest c) (qr_economics q) = Inr True"
    and "identity_blockers c q True = []" and "time_blockers c q = Inr []" by simp_all
qed

lemma identity_blockers_Nil:
  assumes "identity_blockers c q True = []"
  shows "snd (checked_curve (cc_digest c) (qr_curve q)) = []"
    and "snd (checked_policy (cc_digest c) (qr_policy q)) = []"
    and "checked_binding c q \<noteq> None"
    and "snapshot_valid (cc_digest c) (qr_market q)" and "inventory_valid (cc_digest c) (qr_inventory q)"
    and "cu_eligibility (fst (checked_curve (cc_digest c) (qr_curve q))) = ELIGIBLE_SHADOW_RESEARCH"
    and "mm_sequence_contiguous (qr_market q)" and "mm_market_active (qr_market q)"
    and "\<not> mm_market_paused (qr_market q)" and "mm_source_healthy (qr_market q)"
    and "mm_own_order_state_known (qr_market q)" and "iv_reconciled (qr_inventory q)"
    and "point_blockers (curve_point (fst (checked_curve (cc_digest c) (qr_curve q))) (qr_market q))
      (qr_market q) = []"
    and "\<bar>iv_net_yes_contracts (qr_inventory q)\<bar> \<le> iv_max_abs_yes_contracts (qr_inventory q)"
    and "fp_verified (mi_fee_policy (me_replay_input (qr_economics q)))"
    and "bo_book (mi_book_observation (me_replay_input (qr_economics q))) = mm_book (qr_market q)"
    and "\<exists>v. checked_binding c q = Some v \<and> bv_rules_hash v = Some (mm_rules_hash (qr_market q))"
  using assms
  by (auto simp: identity_blockers_def economics_differ_def Let_def split: prod.splits option.splits)

lemma point_blockers_Nil: "point_blockers point market = [] \<Longrightarrow> point \<noteq> None"
  by (simp add: point_blockers_def split: option.splits)

lemma settle_quotes_cases:
  assumes "settle_quotes (the_list yes @ the_list no) = (state, quotes, extra)"
  shows "(\<exists>x y. yes = Some x \<and> no = Some y \<and> state = TWO_SIDED \<and> quotes = [x, y] \<and> extra = []) \<or>
    (\<exists>x. (yes = Some x \<and> no = None \<or> yes = None \<and> no = Some x) \<and> hq_inventory_reducing x \<and>
      state = ONE_SIDED_INVENTORY_REDUCTION \<and> quotes = [x] \<and> extra = []) \<or>
    ((yes = None \<or> no = None) \<and> state = ABSTAIN \<and> quotes = [])"
  using assms by (auto simp: settle_quotes_def the_list_def split: option.splits if_splits)

lemma finish_plan_fields:
  assumes "finish_plan dig curve market inventory fees economics policy state quotes blockers = Inr p"
  shows "sp_state p = state" and "sp_quotes p = quotes" and "sp_blockers p = sorted_blockers blockers"
    and "sp_planned_at p = mm_observed_at market"
  using assms
  by (auto simp: finish_plan_def ShadowQuotePlan_post_init_def rbind_eq_Inr Let_def split: if_splits)

text \<open>The point, the policy and the book a plan is made from.\<close>

definition planned_point :: "codec \<Rightarrow> QuoteRequest \<Rightarrow> FairValuePoint option" where
  "planned_point c q = curve_point (fst (checked_curve (cc_digest c) (qr_curve q))) (qr_market q)"

definition planned_quote_ok :: "codec \<Rightarrow> QuoteRequest \<Rightarrow> FairValuePoint \<Rightarrow> ShadowQuote \<Rightarrow> bool" where
  "planned_quote_ok c q point x \<longleftrightarrow> quote_ok (qr_policy q) (mm_book (qr_market q)) (qr_inventory q)
     (mi_fee_policy (me_replay_input (qr_economics q))) point x"

lemma validated_policy_fields:
  assumes "QuotePolicy_validated_copy dig policy = Inr p"
  shows "qy_tick_size p = qy_tick_size policy" and "qy_minimum_net_edge p = qy_minimum_net_edge policy"
    and "policy_reserve p = policy_reserve policy" and "qy_quote_quantity p = qy_quote_quantity policy"
    and "qy_maximum_book_age p = qy_maximum_book_age policy" and "qy_close_guard p = qy_close_guard policy"
    and "qy_maximum_inventory_age p = qy_maximum_inventory_age policy" and "policy_valid policy"
proof -
  from assms have built: "QuotePolicy_build dig policy = Inr p"
    by (auto simp: QuotePolicy_validated_copy_def rbind_eq_Inr split: if_splits)
  note ok = QuotePolicy_build_ok [OF built]
  show "qy_tick_size p = qy_tick_size policy" "qy_minimum_net_edge p = qy_minimum_net_edge policy"
    "policy_reserve p = policy_reserve policy" "qy_quote_quantity p = qy_quote_quantity policy"
    "qy_maximum_book_age p = qy_maximum_book_age policy" "qy_close_guard p = qy_close_guard policy"
    "qy_maximum_inventory_age p = qy_maximum_inventory_age policy"
    using ok(1) by (simp_all add: policy_reserve_def)
  show "policy_valid policy"
    using ok(2-) unfolding ok(1) by (simp add: policy_valid_def policy_reserve_def)
qed

lemma validated_quote_ok:
  assumes "QuotePolicy_validated_copy dig policy = Inr p"
  shows "quote_ok p book inventory fees point x = quote_ok policy book inventory fees point x"
  unfolding quote_ok_def inventory_after_def validated_policy_fields(1-4) [OF assms] ..

lemma plan_cases:
  assumes "plan_shadow_quotes c q = Inr p"
  obtains (abstained) "sp_state p = ABSTAIN" "sp_quotes p = []" "sp_blockers p \<noteq> []"
  | (two_sided) point yes no where "plan_blockers c q = Inr []" "planned_point c q = Some point"
      "sp_state p = TWO_SIDED" "sp_quotes p = [yes, no]" "hq_outcome_side yes = YES"
      "hq_outcome_side no = NO" "planned_quote_ok c q point yes" "planned_quote_ok c q point no"
  | (one_sided) point x where "plan_blockers c q = Inr []" "planned_point c q = Some point"
      "sp_state p = ONE_SIDED_INVENTORY_REDUCTION" "sp_quotes p = [x]" "hq_inventory_reducing x"
      "planned_quote_ok c q point x"
proof -
  let ?dig = "cc_digest c" and ?policy = "fst (checked_policy (cc_digest c) (qr_policy q))"
  let ?fees = "mi_fee_policy (me_replay_input (qr_economics q))"
  let ?finish = "finish_plan ?dig (qr_curve q) (qr_market q) (qr_inventory q) ?fees (qr_economics q) ?policy"
  from assms obtain blockers where blockers: "plan_blockers c q = Inr blockers"
    by (auto simp: plan_shadow_quotes_def Let_def rbind_eq_Inr)
  show thesis
  proof (cases "blockers = [] \<and> planned_point c q \<noteq> None")
    case False
    have "planned_point c q \<noteq> None" if "blockers = []"
      unfolding planned_point_def using blockers that
      by (intro point_blockers_Nil [OF identity_blockers_Nil(13) [OF plan_blockers_Nil(2)]]) simp
    with False have nonempty: "blockers \<noteq> []" by blast
    with assms blockers have "?finish ABSTAIN [] blockers = Inr p"
      by (auto simp: plan_shadow_quotes_def Let_def neq_Nil_conv)
    from finish_plan_fields [OF this] nonempty show thesis using abstained by simp
  next
    case True
    then obtain point where point: "planned_point c q = Some point" and empty: "blockers = []" by blast
    note free = plan_blockers_Nil [OF blockers [unfolded empty]]
    note ids = identity_blockers_Nil [OF free(2)]
    let ?propose = "propose_side ?dig point (qr_market q) (mm_book (qr_market q)) (qr_inventory q) ?fees ?policy"
    from assms blockers point empty ids(16) obtain yes yb no nb where
      yes: "?propose YES = Inr (yes, yb)" and no: "?propose NO = Inr (no, nb)"
      and rest: "(case settle_quotes (the_list yes @ the_list no) of (state, quotes, extra) \<Rightarrow>
        ?finish state quotes (the_list yb @ the_list nb @ extra)) = Inr p"
      by (auto simp: plan_shadow_quotes_def planned_point_def Let_def rbind_eq_Inr)
    obtain state quotes extra where
      settled: "settle_quotes (the_list yes @ the_list no) = (state, quotes, extra)"
      by (metis prod_cases3)
    with rest have finish: "?finish state quotes (the_list yb @ the_list nb @ extra) = Inr p" by simp
    note policy = checked_policy_valid [OF ids(2)]
    have ok: "quote_ok ?policy (mm_book (qr_market q)) (qr_inventory q) ?fees point x =
        planned_quote_ok c q point x" for x
      unfolding planned_quote_ok_def by (rule validated_quote_ok [OF policy(2)])
    note proposals = propose_side_cases [OF policy(1) yes, unfolded ok]
      propose_side_cases [OF policy(1) no, unfolded ok]
    note fields = finish_plan_fields [OF finish]
    from settle_quotes_cases [OF settled] show thesis
    proof (elim disjE exE conjE)
      fix x y
      assume "yes = Some x" "no = Some y" "state = TWO_SIDED" "quotes = [x, y]"
      then show thesis using proposals fields blockers empty point
        by (intro two_sided [of point x y]) auto
    next
      fix x
      assume "yes = Some x" "hq_inventory_reducing x" "state = ONE_SIDED_INVENTORY_REDUCTION" "quotes = [x]"
      then show thesis using proposals fields blockers empty point
        by (intro one_sided [of point x]) auto
    next
      fix x
      assume "no = Some x" "hq_inventory_reducing x" "state = ONE_SIDED_INVENTORY_REDUCTION" "quotes = [x]"
      then show thesis using proposals fields blockers empty point
        by (intro one_sided [of point x]) auto
    next
      assume "yes = None" "state = ABSTAIN" "quotes = []"
      then show thesis using proposals(1) fields by (intro abstained) (auto simp: the_list_def)
    next
      assume "no = None" "state = ABSTAIN" "quotes = []"
      then show thesis using proposals(2) fields by (intro abstained) (auto simp: the_list_def)
    qed
  qed
qed
section \<open>Properties of the plans\<close>

definition held_levels :: "QuoteRequest \<Rightarrow> OutcomeSide \<Rightarrow> ExecutableLevel list \<times> ExecutableLevel list" where
  "held_levels q side = side_levels (mm_book (qr_market q)) side"

lemma planned_quote:
  assumes "plan_shadow_quotes c q = Inr p" and "x \<in> set (sp_quotes p)"
  obtains point where "plan_blockers c q = Inr []" "planned_point c q = Some point" "planned_quote_ok c q point x"
  using assms(1)
proof (cases rule: plan_cases)
  case abstained
  then show thesis using assms(2) by simp
qed (use assms(2) that in auto)

lemma plan_policy_valid:
  assumes "plan_blockers c q = Inr []"
  shows "policy_valid (qr_policy q)"
  using checked_policy_valid(2) [OF identity_blockers_Nil(2) [OF plan_blockers_Nil(2) [OF assms]]]
  by (rule validated_policy_fields(8))

text \<open>C15. Every quote of a plan joins or improves the best bid, stays at least one tick below the best
  ask, is for one contract, keeps the inventory limit, and its conservative probability exceeds its
  price, the maker fee and the reserves by at least four cents.
\<close>

theorem quotes_keep_their_margin:
  assumes "plan_shadow_quotes c q = Inr p" and "x \<in> set (sp_quotes p)"
  shows "\<exists>point bid bids ask asks. planned_point c q = Some point \<and>
    held_levels q (hq_outcome_side x) = (bid # bids, ask # asks) \<and>
    el_price bid \<le> hq_price x \<and> hq_price x \<le> el_price ask - qy_tick_size (qr_policy q) \<and>
    0 < hq_price x \<and> hq_quantity x = 1 \<and> 0 \<le> policy_reserve (qr_policy q) \<and>
    4 / 100 \<le> conservative_probability point (hq_outcome_side x) - hq_price x - hq_maker_fee x -
      policy_reserve (qr_policy q) \<and>
    \<bar>hq_inventory_after_full_fill x\<bar> \<le> iv_max_abs_yes_contracts (qr_inventory q)"
proof -
  from assms obtain point where free: "plan_blockers c q = Inr []" and point: "planned_point c q = Some point"
    and ok: "planned_quote_ok c q point x" by (rule planned_quote)
  then show ?thesis
    using plan_policy_valid [OF free]
    by (auto simp: planned_quote_ok_def quote_ok_def policy_valid_def held_levels_def
        split: prod.splits list.splits)
qed

text \<open>C13. A two-sided plan never pays for a loss: when both quotes fill, their prices and maker fees with
  the reserves of both sides stay below the one dollar the pair settles at, by twice the minimum edge.
\<close>

theorem two_sided_plan_never_loses:
  assumes "plan_shadow_quotes c q = Inr p" and "sp_state p = TWO_SIDED"
    and "list_all (\<lambda>pt. FairValuePoint_post_init pt = Inr pt) (cu_points (qr_curve q))"
  shows "\<exists>yes no. sp_quotes p = [yes, no] \<and> hq_outcome_side yes = YES \<and> hq_outcome_side no = NO \<and>
    (hq_price yes + hq_maker_fee yes) + (hq_price no + hq_maker_fee no) + 2 * policy_reserve (qr_policy q) +
      2 * qy_minimum_net_edge (qr_policy q) \<le> 1"
  using assms(1)
proof (cases rule: plan_cases)
  case (two_sided point yes no)
  from two_sided(2) have "point \<in> set (cu_points (fst (checked_curve (cc_digest c) (qr_curve q))))"
    by (auto simp: planned_point_def curve_point_def split: list.splits dest: filter_eq_ConsD)
  moreover have "set (cu_points (fst (checked_curve (cc_digest c) (qr_curve q)))) = set (cu_points (qr_curve q))"
    by (auto simp: checked_curve_def FairValueCurve_validated_copy_def rbind_eq_Inr ordered_points_def
        FairValueCurve_build_ok(1) split: sum.splits if_splits)
  ultimately have "fv_lower_yes point \<le> fv_upper_yes point"
    using assms(3) by (auto simp: list_all_iff FairValuePoint_post_init_def split: if_splits)
  then show ?thesis
    using two_sided by (auto simp: planned_quote_ok_def quote_ok_def conservative_probability_def)
qed (use assms(2) in simp_all)

text \<open>C14. A plan carries quotes only with authority. The fair-value curve is a valid and eligible one;
  the quote policy passes its validation, so that it quotes one contract with a positive tick, an edge
  of at least four cents and reserves that are not negative; the market and inventory snapshots and the
  economics validate, the binding of the economics to an acquired market snapshot passes for the
  market's rules, and the fee policy is verified and in force. At the time of the plan the curve, the
  book and the inventory are fresh and the market is open and far from its close.
\<close>

theorem quotes_require_authority:
  assumes "plan_shadow_quotes c q = Inr p" and "sp_quotes p \<noteq> []"
  shows "\<exists>curve policy binding t issued expires book_at closes inventory_at.
    FairValueCurve_validated_copy (cc_digest c) (qr_curve q) = Inr curve \<and>
    cu_eligibility curve = ELIGIBLE_SHADOW_RESEARCH \<and>
    QuotePolicy_validated_copy (cc_digest c) (qr_policy q) = Inr policy \<and>
    qy_quote_quantity (qr_policy q) = 1 \<and> 0 < qy_tick_size (qr_policy q) \<and>
    4 / 100 \<le> qy_minimum_net_edge (qr_policy q) \<and> 0 \<le> policy_reserve (qr_policy q) \<and>
    snapshot_valid (cc_digest c) (qr_market q) \<and> inventory_valid (cc_digest c) (qr_inventory q) \<and>
    economics_valid (cc_digest c) (qr_economics q) = Inr True \<and>
    checked_binding c q = Some binding \<and> bv_rules_hash binding = Some (mm_rules_hash (qr_market q)) \<and>
    mm_observed_at (qr_market q) = Aware t \<and> cu_issued_at curve = Aware issued \<and>
    cu_expires_at curve = Aware expires \<and> issued \<le> t \<and> t < expires \<and>
    mm_book_observed_at (qr_market q) = Aware book_at \<and> t - book_at \<le> qy_maximum_book_age (qr_policy q) \<and>
    mm_closes_at (qr_market q) = Aware closes \<and> closes - t > qy_close_guard (qr_policy q) \<and>
    iv_observed_at (qr_inventory q) = Aware inventory_at \<and>
    t - inventory_at \<le> qy_maximum_inventory_age (qr_policy q) \<and> iv_reconciled (qr_inventory q) \<and>
    mm_market_active (qr_market q) \<and> \<not> mm_market_paused (qr_market q) \<and>
    mm_sequence_contiguous (qr_market q) \<and> mm_source_healthy (qr_market q) \<and>
    mm_own_order_state_known (qr_market q) \<and>
    fp_verified (mi_fee_policy (me_replay_input (qr_economics q))) \<and>
    applies_at (mi_fee_policy (me_replay_input (qr_economics q))) t"
proof -
  from assms(2) obtain x where "x \<in> set (sp_quotes p)" by (cases "sp_quotes p") auto
  with assms(1) obtain point where free: "plan_blockers c q = Inr []" by (rule planned_quote)
  note blockers = plan_blockers_Nil [OF free]
  note ids = identity_blockers_Nil [OF blockers(2)]
  define curve where "curve = fst (checked_curve (cc_digest c) (qr_curve q))"
  from ids(1) have copy: "FairValueCurve_validated_copy (cc_digest c) (qr_curve q) = Inr curve"
    by (auto simp: checked_curve_def curve_def split: sum.splits)
  then have build: "FairValueCurve_build (cc_digest c) (qr_curve q) = Inr curve"
    by (auto simp: FairValueCurve_validated_copy_def rbind_eq_Inr split: if_splits)
  from FairValueCurve_build_ok(7,8) [OF build] obtain issued expires where
    curve: "cu_issued_at curve = Aware issued" "cu_expires_at curve = Aware expires"
    by (metis tz_aware.simps(2) datetime.exhaust)
  from ids(4,5) obtain t book_at closes inventory_at where
    at: "mm_observed_at (qr_market q) = Aware t" "mm_book_observed_at (qr_market q) = Aware book_at"
      "mm_closes_at (qr_market q) = Aware closes" "iv_observed_at (qr_inventory q) = Aware inventory_at"
    by (cases "mm_observed_at (qr_market q)"; cases "mm_book_observed_at (qr_market q)";
        cases "mm_closes_at (qr_market q)"; cases "iv_observed_at (qr_inventory q)")
      (auto simp: snapshot_valid_def inventory_valid_def ShadowMarketSnapshot_build_def
        InventorySnapshot_build_def mm_aware_def)
  note policy = validated_policy_fields [OF checked_policy_valid(2) [OF ids(2)]]
  have "issued \<le> t \<and> t < expires \<and> t - book_at \<le> qy_maximum_book_age (qr_policy q) \<and>
      closes - t > qy_close_guard (qr_policy q) \<and>
      t - inventory_at \<le> qy_maximum_inventory_age (qr_policy q) \<and>
      applies_at (mi_fee_policy (me_replay_input (qr_economics q))) t"
    using blockers(3) curve
    by (auto simp: time_blockers_def Let_def rbind_eq_Inr at policy(5-7) curve_def [symmetric]
        curve_current_def time_compare_def time_minus_def policy_applies_def split: if_splits)
  moreover have "qy_quote_quantity (qr_policy q) = 1 \<and> 0 < qy_tick_size (qr_policy q) \<and>
      4 / 100 \<le> qy_minimum_net_edge (qr_policy q) \<and> 0 \<le> policy_reserve (qr_policy q)"
    using policy(8) by (simp add: policy_valid_def)
  ultimately show ?thesis
    using copy curve at ids blockers(1) checked_policy_valid(2) [OF ids(2)] unfolding curve_def by blast
qed
text \<open>Timestamps that can be compared with each other.\<close>

definition aware_request :: "QuoteRequest \<Rightarrow> bool" where
  "aware_request q \<longleftrightarrow> list_all tz_aware [cu_issued_at (qr_curve q), cu_expires_at (qr_curve q),
     mm_observed_at (qr_market q), mm_book_observed_at (qr_market q), mm_closes_at (qr_market q),
     iv_observed_at (qr_inventory q), me_economics_observed_at (qr_economics q)]"








section \<open>A plan\<close>

definition sample_curve :: FairValueCurve where
  "sample_curve = \<lparr>cu_curve_id = ''h'', cu_event_id = ''E'', cu_cohort_id = ''c'',
     cu_comparison = GREATER_THAN, cu_points = [
       \<lparr>fv_market_ticker = ''M'', fv_threshold = 1, fv_probability_yes = 9 / 20, fv_lower_yes = 2 / 5,
        fv_upper_yes = 1 / 2, fv_rules_hash = ''h'', fv_specification_hash = ''s''\<rparr>,
       \<lparr>fv_market_ticker = ''N'', fv_threshold = 2, fv_probability_yes = 1 / 5, fv_lower_yes = 1 / 10,
        fv_upper_yes = 3 / 10, fv_rules_hash = ''h'', fv_specification_hash = ''s''\<rparr>],
     cu_model_id = ''m'', cu_model_version = ''v'', cu_calibration_id = ''k'',
     cu_evidence_manifest_id = ''e'', cu_validation_receipt_id = ''r'', cu_issued_at = Aware 0,
     cu_expires_at = Aware (minutes 1), cu_eligibility = ELIGIBLE_SHADOW_RESEARCH,
     cu_content_hash = ''h'', cu_production_influence = 0\<rparr>"

definition sample_quote_market :: ShadowMarketSnapshot where
  "sample_quote_market = \<lparr>mm_snapshot_id = ''h'', mm_market_ticker = ''M'', mm_event_id = ''E'',
     mm_rules_hash = ''h'', mm_specification_hash = ''s'', mm_observed_at = Aware FRESHNESS,
     mm_book_observed_at = Aware 0, mm_closes_at = Aware (minutes 60), mm_book_source_hash = ''h'',
     mm_economics_evidence_id = ''h'', mm_book = sample_live_book, mm_sequence_contiguous = True,
     mm_market_active = True, mm_market_paused = False, mm_source_healthy = True,
     mm_own_order_state_known = True, mm_content_hash = ''h'', mm_production_influence = 0\<rparr>"

definition sample_inventory :: InventorySnapshot where
  "sample_inventory = \<lparr>iv_inventory_id = ''h'', iv_market_ticker = ''M'', iv_event_id = ''E'',
     iv_observed_at = Aware 0, iv_net_yes_contracts = 0, iv_max_abs_yes_contracts = 5,
     iv_reconciled = True, iv_content_hash = ''h'', iv_production_influence = 0\<rparr>"

definition sample_quote_policy :: QuotePolicy where
  "sample_quote_policy = \<lparr>qy_policy_id = ''q'', qy_tick_size = 1 / 100, qy_quote_quantity = 1,
     qy_minimum_net_edge = 1 / 20, qy_adverse_selection_reserve = 1 / 100,
     qy_latency_volatility_reserve = 1 / 100, qy_capital_turnover_reserve = 1 / 200,
     qy_inventory_skew_per_contract = 1 / 200, qy_maximum_inventory_skew = 1 / 50,
     qy_maximum_book_age = minutes 1, qy_maximum_inventory_age = minutes 1,
     qy_close_guard = minutes 15, qy_content_hash = ''h'', qy_production_influence = 0\<rparr>"

definition sample_quote_request :: "MarketEconomicsEvidence \<Rightarrow> EconomicsBinding \<Rightarrow> QuoteRequest" where
  "sample_quote_request e b = \<lparr>qr_curve = sample_curve, qr_market = sample_quote_market,
     qr_inventory = sample_inventory, qr_economics = e,
     qr_economics_binding = HObj (binding_to_json b), qr_policy = sample_quote_policy\<rparr>"

lemma sample_copies:
  "checked_curve (\<lambda>x. ''h'') sample_curve = (sample_curve, [])"
  "checked_policy (\<lambda>x. ''h'') sample_quote_policy = (sample_quote_policy, [])"
  "snapshot_valid (\<lambda>x. ''h'') sample_quote_market" "inventory_valid (\<lambda>x. ''h'') sample_inventory"
  by (simp_all add: checked_curve_def FairValueCurve_validated_copy_def FairValueCurve_build_def
      sample_curve_def ordered_points_def coherent_def mm_aware_def minutes_def seconds_def Let_def
      checked_policy_def QuotePolicy_validated_copy_def QuotePolicy_build_def sample_quote_policy_def
      policy_decimals_def FRESHNESS_def snapshot_valid_def ShadowMarketSnapshot_build_def sample_quote_market_def
      inventory_valid_def InventorySnapshot_build_def sample_inventory_def)
lemma sample_quote_request_fields:
  "qr_curve (sample_quote_request e b) = sample_curve" "qr_market (sample_quote_request e b) = sample_quote_market"
  "qr_inventory (sample_quote_request e b) = sample_inventory" "qr_economics (sample_quote_request e b) = e"
  "qr_economics_binding (sample_quote_request e b) = HObj (binding_to_json b)"
  "qr_policy (sample_quote_request e b) = sample_quote_policy"
  by (simp_all add: sample_quote_request_def)

lemma sample_plan_blockers:
  assumes "MarketEconomicsEvidence_create (\<lambda>x. ''h'') e = Inr e" and "me_evidence_id e = ''h''"
    and "me_market_ticker e = ''M''" and "me_event_ticker e = ''E''" and "me_market_rules_hash e = ''h''"
    and "me_orderbook_source_hash e = ''h''" and "me_orderbook_observed_at e = Aware 0"
    and "me_economics_observed_at e = Aware FRESHNESS" and "me_requested_quantity e = 1"
    and "me_replay_input e = sample_inputs" and "me_analysis_type e = ''TAKER_NOW''"
    and "me_research_only e" and "me_production_influence e = 0"
    and "validate_economics_binding sample_codec (HObj (binding_to_json b)) e ''M'' ''E'' =
      Inr \<lparr>bv_classification = ''PASS'', bv_reason = None, bv_rules_hash = Some ''h''\<rparr>"
  shows "plan_blockers sample_codec (sample_quote_request e b) = Inr []"
    and "economics_valid (\<lambda>x. ''h'') e = Inr True"
    and "planned_point sample_codec (sample_quote_request e b) = Some (hd (cu_points sample_curve))"
proof -
  have fees: "mi_fee_policy sample_inputs = er_fee_policy sample_request"
    "fp_verified (er_fee_policy sample_request)" "applies_at (er_fee_policy sample_request) FRESHNESS"
    "bo_book (mi_book_observation sample_inputs) = sample_live_book"
    by (simp_all add: sample_inputs_def sample_request_def applies_at_def FRESHNESS_def seconds_def
        sample_observation_def)
  show economics: "economics_valid (\<lambda>x. ''h'') e = Inr True"
    using assms(1,11-13) by (simp add: economics_valid_def)
  have point: "curve_point sample_curve sample_quote_market = Some (hd (cu_points sample_curve))"
    by (simp add: curve_point_def sample_curve_def sample_quote_market_def)
  then show "planned_point sample_codec (sample_quote_request e b) = Some (hd (cu_points sample_curve))"
    by (simp add: planned_point_def sample_quote_request_fields sample_copies)
  have binding: "checked_binding sample_codec (sample_quote_request e b) =
      Some \<lparr>bv_classification = ''PASS'', bv_reason = None, bv_rules_hash = Some ''h''\<rparr>"
    using assms(14)
    by (simp add: checked_binding_def sample_quote_request_fields sample_quote_market_def binding_succeeded_def)
  have ids: "identity_blockers sample_codec (sample_quote_request e b) True = []"
    by (simp add: identity_blockers_def Let_def sample_copies sample_quote_request_fields binding point fees assms
        economics_differ_def point_blockers_def)
      (simp add: sample_curve_def sample_quote_market_def sample_inventory_def sample_quote_policy_def)
  have timed: "time_blockers sample_codec (sample_quote_request e b) = Inr []"
    using fees(3)
    by (simp add: time_blockers_def Let_def sample_copies sample_quote_request_fields fees(1) assms
        curve_current_def economics_stale_def time_compare_def time_minus_def policy_applies_def)
      (simp add: sample_curve_def sample_quote_market_def sample_inventory_def sample_quote_policy_def
        FRESHNESS_def minutes_def seconds_def)
  from economics ids timed show "plan_blockers sample_codec (sample_quote_request e b) = Inr []"
    by (simp add: plan_blockers_def sample_quote_request_fields)
qed

lemma sample_planned: "\<exists>e b p. plan_shadow_quotes sample_codec (sample_quote_request e b) = Inr p \<and>
   sp_state p = TWO_SIDED \<and> sp_quotes p \<noteq> [] \<and> aware_request (sample_quote_request e b) \<and>
   economics_valid (cc_digest sample_codec) e = Inr True \<and> me_replay_input e = sample_inputs"
proof -
  obtain e b where e: "build_authoritative_market_economics sample_codec sample_request = Inr (e, b)"
      "eb_market_observed_at b = 0" "me_market_rules_hash e = ''h''"
      "MarketEconomicsEvidence_create (\<lambda>x. ''h'') e = Inr e" "me_evidence_id e = ''h''"
      "me_market_ticker e = ''M''" "me_event_ticker e = ''E''" "me_orderbook_source_hash e = ''h''"
      "me_orderbook_observed_at e = Aware 0" "me_economics_observed_at e = Aware FRESHNESS"
      "me_requested_quantity e = 1" "me_replay_input e = sample_inputs"
      "me_analysis_type e = ''TAKER_NOW''" "me_research_only e" "me_production_influence e = 0"
    using sample_build by blast
  have binding: "validate_economics_binding sample_codec (HObj (binding_to_json b)) e ''M'' ''E'' =
      Inr \<lparr>bv_classification = ''PASS'', bv_reason = None, bv_rules_hash = Some ''h''\<rparr>"
    using authoritative_binding_passes [OF e(1)] e(2,3) sample_codec_times(1) sample_request_fields(2,3) by simp
  note free = sample_plan_blockers [OF e(4-7,3,8-15) binding]
  let ?q = "sample_quote_request e b" and ?point = "hd (cu_points sample_curve)"
  have fees: "mi_fee_policy sample_inputs = er_fee_policy sample_request"
    "bo_book (mi_book_observation sample_inputs) = sample_live_book"
    by (simp_all add: sample_inputs_def sample_observation_def)
  have fee: "\<exists>calc. calculate_fee (er_fee_policy sample_request) price 1 True = Inr calc \<and> fk_total_fee calc = 0"
    if "0 < price" "price < 1" for price
    using that by (simp add: calculate_fee_def theoretical_fee_def fee_coefficient_def sample_request_def
        round_up_def Let_def)
  obtain c1 c2 where c: "calculate_fee (er_fee_policy sample_request) (31 / 100) 1 True = Inr c1" "fk_total_fee c1 = 0"
    "calculate_fee (er_fee_policy sample_request) (41 / 100) 1 True = Inr c2" "fk_total_fee c2 = 0"
    using fee [of "31 / 100"] fee [of "41 / 100"] by auto
  have price: "quote_price sample_quote_policy sample_inventory YES (3 / 10) (3 / 5) = 31 / 100"
    "quote_price sample_quote_policy sample_inventory NO (2 / 5) (7 / 10) = 41 / 100" by code_simp+
  have fields: "qy_tick_size sample_quote_policy = 1 / 100" "qy_quote_quantity sample_quote_policy = 1"
    "qy_minimum_net_edge sample_quote_policy = 1 / 20" "qy_adverse_selection_reserve sample_quote_policy = 1 / 100"
    "qy_latency_volatility_reserve sample_quote_policy = 1 / 100"
    "qy_capital_turnover_reserve sample_quote_policy = 1 / 200"
    "iv_net_yes_contracts sample_inventory = 0" "iv_max_abs_yes_contracts sample_inventory = 5"
    by (simp_all add: sample_quote_policy_def sample_inventory_def)
  have propose: "\<exists>x. hq_outcome_side x = side \<and> propose_side (\<lambda>x. ''h'') ?point sample_quote_market sample_live_book
      sample_inventory (er_fee_policy sample_request) sample_quote_policy side = Inr (Some x, None)" for side
    by (cases side) (simp_all add: propose_side_def propose_at_def side_levels_def sample_live_book_def Let_def
      inventory_after_def conservative_probability_def policy_reserve_def sample_curve_def c price fields)
  then obtain yes no where quotes: "hq_outcome_side yes = YES" "hq_outcome_side no = NO"
    "propose_side (\<lambda>x. ''h'') ?point sample_quote_market sample_live_book
      sample_inventory (er_fee_policy sample_request) sample_quote_policy YES = Inr (Some yes, None)"
    "propose_side (\<lambda>x. ''h'') ?point sample_quote_market sample_live_book
      sample_inventory (er_fee_policy sample_request) sample_quote_policy NO = Inr (Some no, None)" by metis
  have "\<exists>p. plan_shadow_quotes sample_codec ?q = Inr p \<and> sp_state p = TWO_SIDED \<and> sp_quotes p \<noteq> []"
    using free quotes e(12)
    by (simp add: plan_shadow_quotes_def Let_def sample_quote_request_fields sample_copies fees planned_point_def
        settle_quotes_def the_list_def finish_plan_def ShadowQuotePlan_post_init_def mm_aware_def)
      (simp add: sample_quote_market_def)
  moreover have "aware_request ?q"
    using e(10) by (simp add: aware_request_def sample_quote_request_fields sample_curve_def
        sample_quote_market_def sample_inventory_def)
  ultimately show ?thesis using free(2) e(12) by auto
qed

theorem quotes_keep_their_margin_witness:
  "\<exists>e b p x. plan_shadow_quotes sample_codec (sample_quote_request e b) = Inr p \<and>
     x \<in> set (sp_quotes p) \<and> \<bar>hq_inventory_after_full_fill x\<bar> \<le> 5"
proof -
  from sample_planned obtain e b p x where p: "plan_shadow_quotes sample_codec (sample_quote_request e b) = Inr p"
    and x: "x \<in> set (sp_quotes p)" by (metis list.set_sel(1))
  with quotes_keep_their_margin [OF p x] show ?thesis
    by (auto simp: sample_quote_request_fields sample_inventory_def intro!: exI [of _ e] exI [of _ b])
qed

theorem two_sided_plan_never_loses_witness:
  "\<exists>e b p yes no. plan_shadow_quotes sample_codec (sample_quote_request e b) = Inr p \<and>
     sp_quotes p = [yes, no] \<and> hq_price yes + hq_price no + hq_maker_fee yes + hq_maker_fee no \<le> 17 / 20"
proof -
  from sample_planned obtain e b p where p: "plan_shadow_quotes sample_codec (sample_quote_request e b) = Inr p"
    "sp_state p = TWO_SIDED" by blast
  have "list_all (\<lambda>pt. FairValuePoint_post_init pt = Inr pt) (cu_points (qr_curve (sample_quote_request e b)))"
    by (simp add: sample_quote_request_fields sample_curve_def FairValuePoint_post_init_def)
  from two_sided_plan_never_loses [OF p this] p(1) show ?thesis
    by (auto simp: sample_quote_request_fields sample_quote_policy_def policy_reserve_def
        intro!: exI [of _ e] exI [of _ b])
qed

theorem quotes_require_authority_witness:
  "\<exists>e b p v. plan_shadow_quotes sample_codec (sample_quote_request e b) = Inr p \<and>
     checked_binding sample_codec (sample_quote_request e b) = Some v"
proof -
  from sample_planned obtain e b p where p: "plan_shadow_quotes sample_codec (sample_quote_request e b) = Inr p"
    "sp_quotes p \<noteq> []" by blast
  from quotes_require_authority [OF p] p(1) show ?thesis by blast
qed


end
