(* ===== verification/MM_Evaluation.thy ===== *)
theory MM_Evaluation
  imports MM_Planner Sim_Analytics
begin

text \<open>
  \<open>services/market_making_research/evaluation.py\<close>: the receipt that binds a shadow quote to the
  simulated order that tested it, with its quantity-weighted markouts, and the summary of receipts.
\<close>

definition REQUIRED_MARKOUT_HORIZONS :: "duration list" where
  "REQUIRED_MARKOUT_HORIZONS = [seconds 1, seconds 30, minutes 5]"

datatype AttemptEvidenceState =
    NO_FILL_COMPLETE | MARKOUT_COMPLETE_UNSETTLED | SETTLED_COMPLETE | EXECUTION_UNKNOWN

definition AttemptEvidenceState_value :: "AttemptEvidenceState \<Rightarrow> string" where
  "AttemptEvidenceState_value s = (case s of NO_FILL_COMPLETE \<Rightarrow> ''NO_FILL_COMPLETE''
     | MARKOUT_COMPLETE_UNSETTLED \<Rightarrow> ''MARKOUT_COMPLETE_UNSETTLED''
     | SETTLED_COMPLETE \<Rightarrow> ''SETTLED_COMPLETE'' | EXECUTION_UNKNOWN \<Rightarrow> ''EXECUTION_UNKNOWN'')"

record HorizonMarkout =
  hz_horizon :: duration
  hz_quantity_weighted_markout :: decimal

record ShadowAttemptReceipt =
  at_receipt_id :: string
  at_plan_id :: string
  at_quote_id :: string
  at_simulated_order_id :: string
  at_market_ticker :: string
  at_event_id :: string
  at_scenario :: SimulationCase
  at_evidence_state :: AttemptEvidenceState
  at_requested_quantity :: decimal
  at_filled_quantity :: decimal
  at_maker_fees :: decimal
  at_predicted_filled_edge :: decimal
  at_markouts :: "HorizonMarkout list"
  at_settlement_net_pnl :: "decimal option"
  at_profitability_claim :: string
  at_research_only :: bool
  at_production_influence :: decimal

definition ShadowAttemptReceipt_post_init :: "ShadowAttemptReceipt \<Rightarrow> ShadowAttemptReceipt result" where
  "ShadowAttemptReceipt_post_init r =
     (if \<not> at_research_only r \<or> at_production_influence r \<noteq> 0 \<or>
        at_profitability_claim r \<noteq> ''NOT_ESTABLISHED''
      then Inl (MarketMakingError ''attempt receipt cannot assert profitability or influence'')
      else Inr r)"

section \<open>Markouts weighted by quantity\<close>

text \<open>\<open>{fill.simulated_fill_id: fill for fill in order.fills}\<close> keeps the last fill of an identity.\<close>

definition fill_quantity :: "SimulatedFill list \<Rightarrow> string \<Rightarrow> decimal" where
  "fill_quantity fills k = (case map_of (map (\<lambda>f. (sf_simulated_fill_id f, sf_quantity f)) (rev fills)) k of
     None \<Rightarrow> 0 | Some q \<Rightarrow> q)"

definition markout_key :: "MarkoutObservation \<Rightarrow> string \<times> duration" where
  "markout_key row = (mo_simulated_fill_id row, mo_horizon row)"

text \<open>The markouts at one horizon, each times the quantity of its fill.\<close>

definition weighted_sum :: "SimulatedFill list \<Rightarrow> MarkoutObservation list \<Rightarrow> duration \<Rightarrow> decimal" where
  "weighted_sum fills observations horizon =
     dsum (map (\<lambda>row. mo_normalized_markout row * fill_quantity fills (mo_simulated_fill_id row))
       (filter (\<lambda>row. mo_horizon row = horizon) observations))"

definition total_fill :: "SimulatedFill list \<Rightarrow> decimal" where
  "total_fill fills = dsum (map sf_quantity fills)"

text \<open>The keys of the observations were checked to be those of the fills, so the lookup by fill
  identity succeeds; a zero quantity divides by zero.\<close>

definition weighted_markouts :: "SimulatedFill list \<Rightarrow> MarkoutObservation list \<Rightarrow> HorizonMarkout list result" where
  "weighted_markouts fills observations =
     (let expected = set (concat (map (\<lambda>f. map (\<lambda>h. (sf_simulated_fill_id f, h)) REQUIRED_MARKOUT_HORIZONS) fills));
          actual = map markout_key observations
      in if set actual \<noteq> expected \<or> \<not> distinct actual
         then Inl (MarketMakingError ''markouts must cover every fill at each reviewed horizon exactly'')
         else if total_fill fills = 0 then Inl (ValueError ''DivisionByZero'')
         else Inr (map (\<lambda>horizon. \<lparr>hz_horizon = horizon,
           hz_quantity_weighted_markout = weighted_sum fills observations horizon / total_fill fills\<rparr>)
           REQUIRED_MARKOUT_HORIZONS))"

section \<open>The receipt of an attempt\<close>

definition horizon_payload :: "HorizonMarkout \<Rightarrow> hashable" where
  "horizon_payload h = HList [HInt (hz_horizon h), HDec (hz_quantity_weighted_markout h)]"

definition receipt_payload :: "ShadowAttemptReceipt \<Rightarrow> hashable" where
  "receipt_payload r = HList [HStr ''mm-a1-shadow-attempt-v1'', HStr (at_plan_id r), HStr (at_quote_id r),
     HStr (at_simulated_order_id r), HStr (SimulationCase_value (at_scenario r)),
     HStr (AttemptEvidenceState_value (at_evidence_state r)), HDec (at_requested_quantity r),
     HDec (at_filled_quantity r), HDec (at_maker_fees r), HDec (at_predicted_filled_edge r),
     HList (map horizon_payload (at_markouts r)), hopt HDec (at_settlement_net_pnl r)]"

text \<open>What the fills say about the attempt: its state and its markouts at each horizon.\<close>

definition attempt_evidence :: "SimulatedOrder \<Rightarrow> MarkoutObservation list \<Rightarrow> SettlementResult option \<Rightarrow>
    (AttemptEvidenceState \<times> HorizonMarkout list) result" where
  "attempt_evidence order markouts settlement =
     (if so_state order = EXECUTION_OUTCOME_UNKNOWN
      then if settlement \<noteq> None \<or> markouts \<noteq> []
        then Inl (MarketMakingError ''unknown execution cannot carry conclusive economics'')
        else Inr (EXECUTION_UNKNOWN, [])
      else if total_fill (so_fills order) = 0
      then if settlement \<noteq> None \<or> markouts \<noteq> []
        then Inl (MarketMakingError ''no-fill attempt cannot carry fill economics'')
        else Inr (NO_FILL_COMPLETE, [])
      else rbind (weighted_markouts (so_fills order) markouts) (\<lambda>rows.
        Inr (if settlement \<noteq> None then SETTLED_COMPLETE else MARKOUT_COMPLETE_UNSETTLED, rows)))"

definition build_attempt_receipt :: "digest_fn \<Rightarrow> ShadowQuotePlan \<Rightarrow> string \<Rightarrow> SimulatedOrder \<Rightarrow>
    MarkoutObservation list \<Rightarrow> SettlementResult option \<Rightarrow> ShadowAttemptReceipt result" where
  "build_attempt_receipt dig plan quote_id order markouts settlement =
     (if sp_state plan = ABSTAIN
      then Inl (MarketMakingError ''abstaining plan cannot be evaluated as an attempted quote'')
      else case filter (\<lambda>x. hq_quote_id x = quote_id) (sp_quotes plan) of
        [quote] \<Rightarrow>
          if so_frozen_candidate_id order \<noteq> hq_quote_id quote \<or> so_strategy order = TAKER_NOW
          then Inl (MarketMakingError ''canonical maker simulation is not bound to shadow quote'')
          else if so_production_influence order \<noteq> 0 \<or> list_ex (\<lambda>f. \<not> sf_maker f) (so_fills order)
          then Inl (MarketMakingError ''attempt contains non-maker or production-influencing evidence'')
          else if list_ex (\<lambda>f. sf_outcome_side f \<noteq> hq_outcome_side quote \<or> sf_price f \<noteq> hq_price quote \<or>
            sf_scenario f \<noteq> so_scenario order) (so_fills order)
          then Inl (MarketMakingError ''fill direction, price, or scenario does not match quote'')
          else if (case settlement of None \<Rightarrow> False
            | Some s \<Rightarrow> st_simulated_order_id s \<noteq> so_simulated_order_id order)
          then Inl (MarketMakingError ''settlement does not belong to simulated order'')
          else let filled = total_fill (so_fills order); fees = dsum (map sf_fee (so_fills order))
            in rbind (attempt_evidence order markouts settlement) (\<lambda>(state, horizon_rows).
              let r = \<lparr>at_receipt_id = '''', at_plan_id = sp_plan_id plan, at_quote_id = hq_quote_id quote,
                at_simulated_order_id = so_simulated_order_id order,
                at_market_ticker = sp_market_ticker plan, at_event_id = sp_event_id plan,
                at_scenario = so_scenario order, at_evidence_state = state,
                at_requested_quantity = so_initial_quantity order, at_filled_quantity = filled,
                at_maker_fees = fees,
                at_predicted_filled_edge = hq_net_edge_per_contract quote * filled,
                at_markouts = horizon_rows,
                at_settlement_net_pnl = (case settlement of None \<Rightarrow> None | Some s \<Rightarrow> st_net_pnl s),
                at_profitability_claim = ''NOT_ESTABLISHED'', at_research_only = True,
                at_production_influence = 0\<rparr>
              in ShadowAttemptReceipt_post_init (r\<lparr>at_receipt_id := stable_hash dig (receipt_payload r)\<rparr>))
      | _ \<Rightarrow> Inl (MarketMakingError ''quote is not uniquely bound to plan''))"

section \<open>The summary of the receipts\<close>

record MarketMakingEvidenceSummary =
  es_summary_id :: string
  es_attempts :: nat
  es_unique_plans :: nat
  es_unique_markets :: nat
  es_unique_events :: nat
  es_filled_attempts :: nat
  es_execution_unknown_attempts :: nat
  es_filled_quantity :: decimal
  es_maker_fees :: decimal
  es_predicted_filled_edge :: decimal
  es_mean_markouts :: "HorizonMarkout list"
  es_settled_attempts :: nat
  es_settled_net_pnl :: decimal
  es_profitability_claim :: string
  es_production_eligible :: bool
  es_production_influence :: decimal

definition EvidenceSummary_post_init :: "MarketMakingEvidenceSummary \<Rightarrow> MarketMakingEvidenceSummary result" where
  "EvidenceSummary_post_init s =
     (if es_profitability_claim s \<noteq> ''NOT_ESTABLISHED'' \<or> es_production_eligible s \<or>
        es_production_influence s \<noteq> 0
      then Inl (MarketMakingError ''MM-A1 summary cannot establish production profitability'')
      else Inr s)"

definition unique_count :: "('a \<Rightarrow> 'b) \<Rightarrow> 'a list \<Rightarrow> nat" where
  "unique_count f xs = length (remdups (map f xs))"

text \<open>\<open>next(row for row in receipt.markouts if row.horizon == horizon)\<close> inside a generator: a missing
  row is a \<open>RuntimeError\<close>.\<close>

definition markout_at :: "duration \<Rightarrow> ShadowAttemptReceipt \<Rightarrow> decimal result" where
  "markout_at horizon r = (case find (\<lambda>row. hz_horizon row = horizon) (at_markouts r) of
     None \<Rightarrow> Inl (RuntimeError ''generator raised StopIteration'')
   | Some row \<Rightarrow> Inr (hz_quantity_weighted_markout row))"

definition mean_markout :: "ShadowAttemptReceipt list \<Rightarrow> duration \<Rightarrow> HorizonMarkout result" where
  "mean_markout rows horizon =
     rbind (rmap (\<lambda>r. rbind (markout_at horizon r) (\<lambda>m. Inr (m * at_filled_quantity r))) rows) (\<lambda>terms.
       Inr \<lparr>hz_horizon = horizon,
         hz_quantity_weighted_markout = dsum terms / dsum (map at_filled_quantity rows)\<rparr>)"

definition filled_rows :: "ShadowAttemptReceipt list \<Rightarrow> ShadowAttemptReceipt list" where
  "filled_rows receipts = filter (\<lambda>r. at_filled_quantity r > 0) receipts"

definition complete_rows :: "ShadowAttemptReceipt list \<Rightarrow> ShadowAttemptReceipt list" where
  "complete_rows receipts = filter (\<lambda>r. at_evidence_state r = MARKOUT_COMPLETE_UNSETTLED \<or>
     at_evidence_state r = SETTLED_COMPLETE) (filled_rows receipts)"

definition mean_markouts :: "ShadowAttemptReceipt list \<Rightarrow> HorizonMarkout list result" where
  "mean_markouts receipts =
     (if complete_rows receipts \<noteq> [] \<and> length (complete_rows receipts) = length (filled_rows receipts)
      then rmap (mean_markout (complete_rows receipts)) REQUIRED_MARKOUT_HORIZONS else Inr [])"

definition settled_rows :: "ShadowAttemptReceipt list \<Rightarrow> ShadowAttemptReceipt list" where
  "settled_rows receipts = filter (\<lambda>r. at_evidence_state r = SETTLED_COMPLETE) receipts"

definition summary_of :: "digest_fn \<Rightarrow> ShadowAttemptReceipt list \<Rightarrow> HorizonMarkout list \<Rightarrow>
    MarketMakingEvidenceSummary" where
  "summary_of dig receipts means =
     \<lparr>es_summary_id = stable_hash dig (HList [HStr ''mm-a1-evidence-summary-v1'',
        HList (map HStr (sort (map at_receipt_id receipts))), HList (map horizon_payload means)]),
      es_attempts = length receipts, es_unique_plans = unique_count at_plan_id receipts,
      es_unique_markets = unique_count at_market_ticker receipts,
      es_unique_events = unique_count at_event_id receipts,
      es_filled_attempts = length (filled_rows receipts),
      es_execution_unknown_attempts =
        length (filter (\<lambda>r. at_evidence_state r = EXECUTION_UNKNOWN) receipts),
      es_filled_quantity = dsum (map at_filled_quantity (filled_rows receipts)),
      es_maker_fees = dsum (map at_maker_fees receipts),
      es_predicted_filled_edge = dsum (map at_predicted_filled_edge receipts),
      es_mean_markouts = means, es_settled_attempts = length (settled_rows receipts),
      es_settled_net_pnl = dsum (map (\<lambda>r. case at_settlement_net_pnl r of None \<Rightarrow> 0 | Some v \<Rightarrow> v)
        (settled_rows receipts)),
      es_profitability_claim = ''NOT_ESTABLISHED'', es_production_eligible = False,
      es_production_influence = 0\<rparr>"

definition summarize_attempts :: "digest_fn \<Rightarrow> ShadowAttemptReceipt list \<Rightarrow>
    MarketMakingEvidenceSummary result" where
  "summarize_attempts dig receipts =
     (if receipts = [] then Inl (MarketMakingError ''at least one attempt receipt is required'')
      else if \<not> distinct (map at_receipt_id receipts)
      then Inl (MarketMakingError ''duplicate attempt receipt'')
      else rbind (mean_markouts receipts) (\<lambda>means.
        EvidenceSummary_post_init (summary_of dig receipts means)))"

section \<open>What a receipt holds\<close>

definition attempt_state :: "SimulatedOrder \<Rightarrow> SettlementResult option \<Rightarrow> AttemptEvidenceState" where
  "attempt_state order settlement = (if so_state order = EXECUTION_OUTCOME_UNKNOWN then EXECUTION_UNKNOWN
     else if total_fill (so_fills order) = 0 then NO_FILL_COMPLETE
     else if settlement = None then MARKOUT_COMPLETE_UNSETTLED else SETTLED_COMPLETE)"

definition conclusive :: "AttemptEvidenceState \<Rightarrow> bool" where
  "conclusive s \<longleftrightarrow> s = MARKOUT_COMPLETE_UNSETTLED \<or> s = SETTLED_COMPLETE"

lemma attempt_evidence_ok:
  assumes "attempt_evidence order markouts settlement = Inr (state, rows)"
  shows "state = attempt_state order settlement"
    and "conclusive state \<Longrightarrow> weighted_markouts (so_fills order) markouts = Inr rows"
    and "\<not> conclusive state \<Longrightarrow> rows = [] \<and> markouts = [] \<and> settlement = None"
  using assms
  by (auto simp: attempt_evidence_def attempt_state_def conclusive_def rbind_eq_Inr split: if_splits)

lemma build_attempt_receipt_ok:
  assumes "build_attempt_receipt dig plan quote_id order markouts settlement = Inr r"
  shows "attempt_evidence order markouts settlement = Inr (at_evidence_state r, at_markouts r)"
    and "at_filled_quantity r = total_fill (so_fills order)"
    and "at_maker_fees r = dsum (map sf_fee (so_fills order))"
    and "\<exists>quote \<in> set (sp_quotes plan). hq_quote_id quote = quote_id \<and> at_quote_id r = quote_id \<and>
      so_frozen_candidate_id order = quote_id \<and>
      at_predicted_filled_edge r = hq_net_edge_per_contract quote * at_filled_quantity r \<and>
      list_all (\<lambda>f. sf_maker f \<and> sf_outcome_side f = hq_outcome_side quote \<and>
        sf_price f = hq_price quote \<and> sf_scenario f = so_scenario order) (so_fills order)"
    and "at_settlement_net_pnl r = (case settlement of None \<Rightarrow> None | Some s \<Rightarrow> st_net_pnl s)"
    and "sp_state plan \<noteq> ABSTAIN"
proof -
  from assms obtain quote where quote: "filter (\<lambda>x. hq_quote_id x = quote_id) (sp_quotes plan) = [quote]"
    by (auto simp: build_attempt_receipt_def split: if_splits list.splits)
  then have member: "quote \<in> set (sp_quotes plan)" "hq_quote_id quote = quote_id"
    by (auto dest: filter_eq_ConsD)
  from assms quote member show "attempt_evidence order markouts settlement = Inr (at_evidence_state r, at_markouts r)"
    and "at_filled_quantity r = total_fill (so_fills order)"
    and "at_maker_fees r = dsum (map sf_fee (so_fills order))"
    and "\<exists>quote \<in> set (sp_quotes plan). hq_quote_id quote = quote_id \<and> at_quote_id r = quote_id \<and>
      so_frozen_candidate_id order = quote_id \<and>
      at_predicted_filled_edge r = hq_net_edge_per_contract quote * at_filled_quantity r \<and>
      list_all (\<lambda>f. sf_maker f \<and> sf_outcome_side f = hq_outcome_side quote \<and>
        sf_price f = hq_price quote \<and> sf_scenario f = so_scenario order) (so_fills order)"
    and "at_settlement_net_pnl r = (case settlement of None \<Rightarrow> None | Some s \<Rightarrow> st_net_pnl s)"
    and "sp_state plan \<noteq> ABSTAIN"
    by (auto simp: build_attempt_receipt_def ShadowAttemptReceipt_post_init_def Let_def rbind_eq_Inr
        list_ex_iff list_all_iff split: if_splits)
qed

end
