(* ===== verification/MM_Evidence.thy ===== *)
theory MM_Evidence
  imports MM_Evaluation "HOL-Library.Multiset"
begin

text \<open>
  Correctness of the evidence of shadow quotes: a receipt says what its fills say, the summary of
  receipts is the summary of all fills, and it does not depend on the order of the receipts.
\<close>

section \<open>Receipts\<close>

lemma weighted_markouts_ok:
  assumes "weighted_markouts fills observations = Inr rows"
  shows "rows = map (\<lambda>h. \<lparr>hz_horizon = h, hz_quantity_weighted_markout =
      weighted_sum fills observations h / total_fill fills\<rparr>) REQUIRED_MARKOUT_HORIZONS"
    and "total_fill fills \<noteq> 0"
  using assms by (auto simp: weighted_markouts_def Let_def split: if_splits)

text \<open>A receipt is exact: its filled quantity and fees are the sums over the fills, all of them maker
  fills of the quote at its price; its state is decided by the simulation and the settlement alone;
  and conclusive evidence has, at each reviewed horizon, the quantity-weighted markout, while
  inconclusive evidence carries no markout and no settlement.
\<close>

theorem receipts_are_exact:
  assumes "build_attempt_receipt dig plan quote_id order markouts settlement = Inr r"
  shows "at_filled_quantity r = total_fill (so_fills order) \<and>
    at_maker_fees r = dsum (map sf_fee (so_fills order)) \<and>
    at_evidence_state r = attempt_state order settlement \<and>
    (if conclusive (at_evidence_state r)
     then map hz_horizon (at_markouts r) = REQUIRED_MARKOUT_HORIZONS \<and>
       (\<forall>row. row \<in> set (at_markouts r) \<longrightarrow> hz_quantity_weighted_markout row * at_filled_quantity r =
          weighted_sum (so_fills order) markouts (hz_horizon row))
     else at_markouts r = [] \<and> markouts = [] \<and> at_settlement_net_pnl r = None) \<and>
    (\<exists>quote. quote \<in> set (sp_quotes plan) \<and> hq_quote_id quote = quote_id \<and>
       at_predicted_filled_edge r = hq_net_edge_per_contract quote * at_filled_quantity r \<and>
       list_all (\<lambda>f. sf_maker f \<and> sf_outcome_side f = hq_outcome_side quote \<and> sf_price f = hq_price quote)
         (so_fills order))"
proof -
  note ok = build_attempt_receipt_ok [OF assms]
  note evidence = attempt_evidence_ok [OF ok(1)]
  have rows: "map hz_horizon (at_markouts r) = REQUIRED_MARKOUT_HORIZONS \<and>
      (\<forall>row. row \<in> set (at_markouts r) \<longrightarrow> hz_quantity_weighted_markout row * at_filled_quantity r =
        weighted_sum (so_fills order) markouts (hz_horizon row))" if "conclusive (at_evidence_state r)"
    using weighted_markouts_ok [OF evidence(2) [OF that]] ok(2) by (auto simp: o_def)
  from ok(4) have "\<exists>quote. quote \<in> set (sp_quotes plan) \<and> hq_quote_id quote = quote_id \<and>
      at_predicted_filled_edge r = hq_net_edge_per_contract quote * at_filled_quantity r \<and>
      list_all (\<lambda>f. sf_maker f \<and> sf_outcome_side f = hq_outcome_side quote \<and> sf_price f = hq_price quote)
        (so_fills order)" by (auto simp: list_all_iff)
  then show ?thesis using rows ok(2,3,5) evidence(1,3) by auto
qed

section \<open>The summary and the fills\<close>

type_synonym attempt =
  "ShadowQuotePlan \<times> string \<times> SimulatedOrder \<times> MarkoutObservation list \<times> SettlementResult option"

definition receipt_of :: "digest_fn \<Rightarrow> attempt \<Rightarrow> ShadowAttemptReceipt result" where
  "receipt_of dig a = (case a of (plan, quote_id, order, markouts, settlement) \<Rightarrow>
     build_attempt_receipt dig plan quote_id order markouts settlement)"

definition attempt_fills :: "attempt \<Rightarrow> SimulatedFill list" where
  "attempt_fills a = (case a of (plan, quote_id, order, markouts, settlement) \<Rightarrow> so_fills order)"

definition attempt_weight :: "duration \<Rightarrow> attempt \<Rightarrow> decimal" where
  "attempt_weight horizon a = (case a of (plan, quote_id, order, markouts, settlement) \<Rightarrow>
     weighted_sum (so_fills order) markouts horizon)"

definition attempt_markouts :: "attempt \<Rightarrow> MarkoutObservation list" where
  "attempt_markouts a = (case a of (plan, quote_id, order, markouts, settlement) \<Rightarrow> markouts)"

text \<open>The observations of one fill at one horizon, and the markout they show.\<close>

definition fill_observations :: "MarkoutObservation list \<Rightarrow> duration \<Rightarrow> SimulatedFill \<Rightarrow>
    MarkoutObservation list" where
  "fill_observations observations h f =
     filter (\<lambda>row. mo_simulated_fill_id row = sf_simulated_fill_id f \<and> mo_horizon row = h) observations"

definition fill_markout :: "MarkoutObservation list \<Rightarrow> duration \<Rightarrow> SimulatedFill \<Rightarrow> decimal" where
  "fill_markout observations h f = dsum (map mo_normalized_markout (fill_observations observations h f))"

text \<open>Exchanging the sums: the code adds over the observations, looking the quantity up by the fill
  identity; with distinct identities that is the sum over the fills.\<close>

lemma fill_quantity_member:
  assumes "distinct (map sf_simulated_fill_id fills)" and "f \<in> set fills"
  shows "fill_quantity fills (sf_simulated_fill_id f) = sf_quantity f"
proof -
  let ?kv = "map (\<lambda>f. (sf_simulated_fill_id f, sf_quantity f)) (rev fills)"
  have "distinct (map fst ?kv)" using assms(1) by (simp add: o_def rev_map [symmetric])
  moreover have "(sf_simulated_fill_id f, sf_quantity f) \<in> set ?kv" using assms(2) by auto
  ultimately show ?thesis by (simp add: fill_quantity_def)
qed

lemma dsum_one_fill:
  assumes "distinct (map sf_simulated_fill_id fills)" and "k \<in> sf_simulated_fill_id ` set fills"
  shows "dsum (map (\<lambda>f. sf_quantity f * (if k = sf_simulated_fill_id f then m else 0)) fills) =
    m * fill_quantity fills k"
proof -
  from assms(2) obtain f where f: "f \<in> set fills" "k = sf_simulated_fill_id f" by blast
  have "dsum (map (\<lambda>g. sf_quantity g * (if k = sf_simulated_fill_id g then m else 0)) gs) =
      (if f \<in> set gs then sf_quantity f * m else 0)"
    if "distinct (map sf_simulated_fill_id gs)" and "set gs \<subseteq> set fills" for gs
    using that
  proof (induction gs)
    case (Cons g gs)
    have "g = f \<longleftrightarrow> sf_simulated_fill_id g = k"
      using Cons.prems(2) f assms(1) by (auto simp: distinct_map inj_on_def)
    with Cons f show ?case by auto
  qed simp
  from this [OF assms(1)] f fill_quantity_member [OF assms(1) f(1)] show ?thesis by simp
qed

lemma dsum_observations:
  assumes "distinct (map sf_simulated_fill_id fills)"
    and "\<And>row. row \<in> set rows \<Longrightarrow> mo_simulated_fill_id row \<in> sf_simulated_fill_id ` set fills"
  shows "dsum (map (\<lambda>row. mo_normalized_markout row * fill_quantity fills (mo_simulated_fill_id row)) rows) =
    dsum (map (\<lambda>f. sf_quantity f * dsum (map mo_normalized_markout
      (filter (\<lambda>row. mo_simulated_fill_id row = sf_simulated_fill_id f) rows))) fills)"
  using assms(2)
proof (induction rows)
  case (Cons row rows)
  let ?k = "mo_simulated_fill_id row" and ?m = "mo_normalized_markout row"
  let ?rest = "\<lambda>f. dsum (map mo_normalized_markout
      (filter (\<lambda>row. mo_simulated_fill_id row = sf_simulated_fill_id f) rows))"
  have "dsum (map (\<lambda>f. sf_quantity f * dsum (map mo_normalized_markout
      (filter (\<lambda>row. mo_simulated_fill_id row = sf_simulated_fill_id f) (row # rows)))) fills) =
    dsum (map (\<lambda>f. sf_quantity f * (if ?k = sf_simulated_fill_id f then ?m else 0) +
      sf_quantity f * ?rest f) fills)"
    by (intro arg_cong [of _ _ sum_list] map_cong) (simp_all add: algebra_simps)
  also have "\<dots> = ?m * fill_quantity fills ?k + dsum (map (\<lambda>f. sf_quantity f * ?rest f) fills)"
    using dsum_one_fill [OF assms(1), of ?k ?m] Cons.prems by (simp add: sum_list_addf)
  finally show ?case using Cons by simp
qed simp

text \<open>What the check of the observations gives: each fill has exactly one at each horizon.\<close>

lemma weighted_markouts_fills:
  assumes "weighted_markouts fills observations = Inr rows" and "h \<in> set REQUIRED_MARKOUT_HORIZONS"
    and "distinct (map sf_simulated_fill_id fills)"
  shows "weighted_sum fills observations h =
      dsum (map (\<lambda>f. sf_quantity f * fill_markout observations h f) fills)"
    and "\<And>f. f \<in> set fills \<Longrightarrow> length (fill_observations observations h f) = 1"
proof -
  from assms(1) have keys: "set (map markout_key observations) =
      {(sf_simulated_fill_id f, h) | f h. f \<in> set fills \<and> h \<in> set REQUIRED_MARKOUT_HORIZONS}"
    and dist: "distinct (map markout_key observations)"
    by (auto simp: weighted_markouts_def Let_def split: if_splits)
  have "mo_simulated_fill_id row \<in> sf_simulated_fill_id ` set fills" if "row \<in> set observations" for row
  proof -
    from that have "markout_key row \<in> set (map markout_key observations)" by simp
    then show ?thesis unfolding keys by (auto simp: markout_key_def)
  qed
  then have "dsum (map (\<lambda>row. mo_normalized_markout row * fill_quantity fills (mo_simulated_fill_id row))
      (filter (\<lambda>row. mo_horizon row = h) observations)) =
    dsum (map (\<lambda>f. sf_quantity f * dsum (map mo_normalized_markout
      (filter (\<lambda>row. mo_simulated_fill_id row = sf_simulated_fill_id f)
        (filter (\<lambda>row. mo_horizon row = h) observations)))) fills)"
    by (intro dsum_observations [OF assms(3)]) auto
  then show "weighted_sum fills observations h =
      dsum (map (\<lambda>f. sf_quantity f * fill_markout observations h f) fills)"
    by (simp add: weighted_sum_def fill_markout_def fill_observations_def conj_commute)
  fix f assume "f \<in> set fills"
  with assms(2) have "(sf_simulated_fill_id f, h) \<in> set (map markout_key observations)"
    unfolding keys by blast
  then obtain row where row: "row \<in> set observations" "markout_key row = (sf_simulated_fill_id f, h)"
    by (metis imageE list.set_map)
  have "filter (\<lambda>r. markout_key r = (sf_simulated_fill_id f, h)) observations = [row]"
    by (rule filter_unique_key [OF dist row(1)]) (simp_all add: row(2))
  moreover have "fill_observations observations h f =
      filter (\<lambda>r. markout_key r = (sf_simulated_fill_id f, h)) observations"
    by (simp add: fill_observations_def markout_key_def)
  ultimately show "length (fill_observations observations h f) = 1" by simp
qed

definition fills_checked :: "SimulatedFill list \<Rightarrow> bool" where
  "fills_checked fills \<longleftrightarrow> list_all (\<lambda>f. SimulatedFill_post_init f = Inr f) fills"

lemma total_fill_nonneg: "fills_checked fills \<Longrightarrow> 0 \<le> total_fill fills"
  by (auto simp: fills_checked_def total_fill_def list_all_iff SimulatedFill_post_init_def not_less
      intro!: dsum_nonneg split: if_splits)

lemma fill_below_total:
  assumes "fills_checked fills" and "f \<in> set fills"
  shows "sf_quantity f \<le> total_fill fills"
proof -
  have "\<And>x. x \<in> set (map sf_quantity fills) \<Longrightarrow> 0 \<le> x"
    using assms(1) by (auto simp: fills_checked_def list_all_iff SimulatedFill_post_init_def not_less split: if_splits)
  then show ?thesis using member_le_sum_list [of "sf_quantity f" "map sf_quantity fills"] assms(2)
    by (simp add: total_fill_def)
qed

lemma markout_at_weighted:
  assumes "weighted_markouts fills markouts = Inr rows" and "h \<in> set REQUIRED_MARKOUT_HORIZONS"
    and "at_markouts r = rows"
  shows "markout_at h r = Inr (weighted_sum fills markouts h / total_fill fills)" and "total_fill fills \<noteq> 0"
proof -
  have "find (\<lambda>row. hz_horizon row = h) (map f hs) = Some (f h)"
    if "\<And>x. hz_horizon (f x) = x" and "h \<in> set hs" for f :: "duration \<Rightarrow> HorizonMarkout" and hs
    using that by (induction hs) auto
  then show "markout_at h r = Inr (weighted_sum fills markouts h / total_fill fills)"
    using weighted_markouts_ok(1) [OF assms(1)] assms(2,3) by (simp add: markout_at_def)
  show "total_fill fills \<noteq> 0" by (rule weighted_markouts_ok(2) [OF assms(1)])
qed

lemma dsum_concat: "dsum (concat xss) = dsum (map sum_list xss)"
  by (induction xss) simp_all

text \<open>The weight of an attempt, as the sum over its fills.\<close>

lemma attempt_weight_fills:
  assumes "receipt_of dig a = Inr r" and "fills_checked (attempt_fills a)"
    and "distinct (map sf_simulated_fill_id (attempt_fills a))" and "h \<in> set REQUIRED_MARKOUT_HORIZONS"
    and "0 < at_filled_quantity r \<Longrightarrow> conclusive (at_evidence_state r)"
  shows "attempt_weight h a =
      dsum (map (\<lambda>f. sf_quantity f * fill_markout (attempt_markouts a) h f) (attempt_fills a)) \<and>
    (\<forall>f \<in> set (attempt_fills a). 0 < sf_quantity f \<longrightarrow>
      length (fill_observations (attempt_markouts a) h f) = 1)"
proof -
  obtain plan quote_id order markouts settlement where
    a: "a = (plan, quote_id, order, markouts, settlement)" by (cases a)
  with assms(1) have built: "build_attempt_receipt dig plan quote_id order markouts settlement = Inr r"
    by (simp add: receipt_of_def)
  note ok = build_attempt_receipt_ok [OF built] and evidence = attempt_evidence_ok [OF ok(1)]
  from a assms(2,3) have fills: "fills_checked (so_fills order)"
    "distinct (map sf_simulated_fill_id (so_fills order))" by (simp_all add: attempt_fills_def)
  show ?thesis
  proof (cases "0 < at_filled_quantity r")
    case True
    from weighted_markouts_fills [OF evidence(2) [OF assms(5) [OF True]] assms(4) fills(2)]
    show ?thesis by (simp add: attempt_weight_def attempt_fills_def attempt_markouts_def a)
  next
    case False
    with ok(2) have "\<not> 0 < total_fill (so_fills order)" by simp
    then have zero: "\<not> 0 < sf_quantity f" if "f \<in> set (so_fills order)" for f
      using that fill_below_total [OF fills(1) that] by linarith
    then have "markouts = []"
      using False ok(2) total_fill_nonneg [OF fills(1)] evidence(1,3)
      by (auto simp: attempt_state_def conclusive_def)
    then show ?thesis
      using zero by (simp add: attempt_weight_def attempt_fills_def attempt_markouts_def a weighted_sum_def
          fill_markout_def fill_observations_def)
  qed
qed

text \<open>What one receipt adds to the mean at a horizon.\<close>

definition receipt_weight :: "duration \<Rightarrow> ShadowAttemptReceipt \<Rightarrow> decimal" where
  "receipt_weight h r = (case markout_at h r of Inl _ \<Rightarrow> 0 | Inr m \<Rightarrow> m * at_filled_quantity r)"

lemma receipt_weight_eq:
  assumes "receipt_of dig a = Inr r" and "fills_checked (attempt_fills a)"
    and "h \<in> set REQUIRED_MARKOUT_HORIZONS"
    and "0 < at_filled_quantity r \<Longrightarrow> conclusive (at_evidence_state r)"
  shows "(if 0 < at_filled_quantity r then receipt_weight h r else 0) = attempt_weight h a"
proof -
  obtain plan quote_id order markouts settlement where
    a: "a = (plan, quote_id, order, markouts, settlement)" by (cases a)
  with assms(1) have built: "build_attempt_receipt dig plan quote_id order markouts settlement = Inr r"
    by (simp add: receipt_of_def)
  note ok = build_attempt_receipt_ok [OF built] and evidence = attempt_evidence_ok [OF ok(1)]
  show ?thesis
  proof (cases "0 < at_filled_quantity r")
    case True
    from markout_at_weighted [OF evidence(2) [OF assms(4) [OF True]] assms(3) refl]
    show ?thesis using True ok(2) by (simp add: receipt_weight_def attempt_weight_def a)
  next
    case False
    with total_fill_nonneg [OF assms(2)] ok(2) have "total_fill (so_fills order) = 0"
      by (simp add: attempt_fills_def a)
    then have "\<not> conclusive (at_evidence_state r)"
      using evidence(1) by (simp add: attempt_state_def conclusive_def)
    from evidence(3) [OF this] False show ?thesis by (simp add: attempt_weight_def a weighted_sum_def)
  qed
qed

lemma mean_markout_ok:
  assumes "mean_markout rows h = Inr row"
  shows "hz_horizon row = h"
    and "hz_quantity_weighted_markout row = dsum (map (receipt_weight h) rows) / dsum (map at_filled_quantity rows)"
proof -
  from assms obtain terms where
    terms: "list_all2 (\<lambda>r t. rbind (markout_at h r) (\<lambda>m. Inr (m * at_filled_quantity r)) = Inr t) rows terms"
    and row: "row = \<lparr>hz_horizon = h, hz_quantity_weighted_markout = dsum terms / dsum (map at_filled_quantity rows)\<rparr>"
    by (auto simp: mean_markout_def rbind_eq_Inr rmap_ok)
  from terms have "terms = map (receipt_weight h) rows"
    by (induction rule: list_all2_induct) (auto simp: rbind_eq_Inr receipt_weight_def)
  with row show "hz_horizon row = h"
    and "hz_quantity_weighted_markout row = dsum (map (receipt_weight h) rows) / dsum (map at_filled_quantity rows)"
    by simp_all
qed

lemma dsum_filter_if: "dsum (map f (filter p xs)) = dsum (map (\<lambda>x. if p x then f x else 0) xs)"
  by (induction xs) auto

lemma rmap_member:
  assumes "rmap f xs = Inr ys" and "y \<in> set ys"
  obtains x where "x \<in> set xs" and "f x = Inr y"
proof -
  from assms have "\<exists>x \<in> set xs. f x = Inr y"
    by (induction xs arbitrary: ys) (auto simp: rbind_eq_Inr)
  then show thesis using that by blast
qed

lemma summarize_attempts_ok:
  assumes "summarize_attempts dig receipts = Inr s"
  obtains means where "mean_markouts receipts = Inr means" and "s = summary_of dig receipts means"
  using assms
  by (auto simp: summarize_attempts_def rbind_eq_Inr EvidenceSummary_post_init_def split: if_splits)

lemma dsum_filled_pos:
  assumes "filled_rows receipts \<noteq> []" shows "0 < dsum (map at_filled_quantity (filled_rows receipts))"
proof -
  have "0 < dsum (map at_filled_quantity rows)" if "rows \<noteq> []" "\<forall>r. r \<in> set rows \<longrightarrow> 0 < at_filled_quantity r" for rows
    using that by (induction rows rule: list_nonempty_induct) (auto simp: add_pos_pos)
  from this [OF assms] show ?thesis by (simp add: filled_rows_def)
qed

text \<open>C17. The summary pools the fills. Take attempts whose fills have distinct identities (the simulator
  numbers the fills of an order) and pass the checks of their class, and the receipts built from them.
  When the summary has a mean markout at a horizon, that mean times the filled quantity is the sum over
  every fill of every attempt of its quantity times its markout at that horizon, the one value observed
  for this fill at this horizon; and the filled quantity is the sum of the quantities of all fills.
  Averaging per attempt first and over the attempts afterwards loses nothing.
\<close>

theorem mean_markouts_pool_the_fills:
  assumes "list_all2 (\<lambda>a r. receipt_of dig a = Inr r) attempts receipts"
    and "list_all (\<lambda>a. fills_checked (attempt_fills a)) attempts"
    and "list_all (\<lambda>a. distinct (map sf_simulated_fill_id (attempt_fills a))) attempts"
    and "summarize_attempts dig receipts = Inr s" and "row \<in> set (es_mean_markouts s)"
  shows "hz_horizon row \<in> set REQUIRED_MARKOUT_HORIZONS \<and>
    es_filled_quantity s = dsum (concat (map (\<lambda>a. map sf_quantity (attempt_fills a)) attempts)) \<and>
    hz_quantity_weighted_markout row * es_filled_quantity s =
      dsum (concat (map (\<lambda>a. map (\<lambda>f. sf_quantity f *
        dsum (map mo_normalized_markout (filter (\<lambda>m. mo_simulated_fill_id m = sf_simulated_fill_id f \<and>
          mo_horizon m = hz_horizon row) (attempt_markouts a)))) (attempt_fills a)) attempts)) \<and>
    (\<forall>a \<in> set attempts. \<forall>f \<in> set (attempt_fills a). 0 < sf_quantity f \<longrightarrow>
      length (filter (\<lambda>m. mo_simulated_fill_id m = sf_simulated_fill_id f \<and>
        mo_horizon m = hz_horizon row) (attempt_markouts a)) = 1)"
proof -
  from assms(4) obtain means where means: "mean_markouts receipts = Inr means"
    and s: "s = summary_of dig receipts means" by (rule summarize_attempts_ok)
  from assms(5) s have row: "row \<in> set means" by (simp add: summary_of_def)
  with means have complete: "complete_rows receipts = filled_rows receipts" "filled_rows receipts \<noteq> []"
    by (auto simp: mean_markouts_def complete_rows_def split: if_splits)
      (metis (no_types, lifting) filter_True length_filter_less less_irrefl)
  with means row have "rmap (mean_markout (filled_rows receipts)) REQUIRED_MARKOUT_HORIZONS = Inr means"
    by (simp add: mean_markouts_def)
  then obtain h where h: "h \<in> set REQUIRED_MARKOUT_HORIZONS" "mean_markout (filled_rows receipts) h = Inr row"
    using row by (rule rmap_member)
  have conclusive: "conclusive (at_evidence_state r)" if "r \<in> set receipts" "0 < at_filled_quantity r" for r
  proof -
    from that have "r \<in> set (complete_rows receipts)" unfolding complete by (simp add: filled_rows_def)
    then show ?thesis by (auto simp: complete_rows_def conclusive_def)
  qed
  have pooled: "dsum (map (receipt_weight h) (filled_rows receipts)) = dsum (map (attempt_weight h) attempts)"
    using assms(1,2) conclusive unfolding filled_rows_def dsum_filter_if
    by (induction rule: list_all2_induct) (auto simp: receipt_weight_eq [OF _ _ h(1)])
  have each: "attempt_weight h a = dsum (map (\<lambda>f. sf_quantity f * fill_markout (attempt_markouts a) h f)
        (attempt_fills a)) \<and>
      (\<forall>f \<in> set (attempt_fills a). 0 < sf_quantity f \<longrightarrow>
        length (fill_observations (attempt_markouts a) h f) = 1)"
    if "a \<in> set attempts" for a
  proof -
    have "\<exists>r \<in> set receipts. receipt_of dig a = Inr r"
      using assms(1) that by (induction rule: list_all2_induct) auto
    then obtain r where "r \<in> set receipts" "receipt_of dig a = Inr r" by blast
    then show ?thesis
      using attempt_weight_fills [OF _ _ _ h(1)] assms(2,3) conclusive that by (auto simp: list_all_iff)
  qed
  then have weights: "dsum (map (receipt_weight h) (filled_rows receipts)) =
      dsum (concat (map (\<lambda>a. map (\<lambda>f. sf_quantity f * fill_markout (attempt_markouts a) h f)
        (attempt_fills a)) attempts))"
    unfolding pooled dsum_concat map_map by (intro arg_cong [of _ _ sum_list] map_cong) auto
  have filled: "dsum (map at_filled_quantity (filled_rows receipts)) =
      dsum (map (\<lambda>a. total_fill (attempt_fills a)) attempts)"
    using assms(1,2) unfolding filled_rows_def dsum_filter_if
    by (induction rule: list_all2_induct)
      (auto simp: receipt_of_def attempt_fills_def build_attempt_receipt_ok(2) dest: total_fill_nonneg split: prod.splits)
  have total: "es_filled_quantity s = dsum (concat (map (\<lambda>a. map sf_quantity (attempt_fills a)) attempts))"
    using filled by (simp add: s summary_of_def dsum_concat o_def total_fill_def)
  have mean: "hz_quantity_weighted_markout row * es_filled_quantity s =
      dsum (concat (map (\<lambda>a. map (\<lambda>f. sf_quantity f * fill_markout (attempt_markouts a) h f)
        (attempt_fills a)) attempts))"
    using mean_markout_ok(2) [OF h(2)] weights dsum_filled_pos [OF complete(2)]
    by (simp add: s summary_of_def)
  from mean_markout_ok(1) [OF h(2)] h(1) total mean each show ?thesis
    unfolding fill_markout_def fill_observations_def by blast
qed

section \<open>The order of the receipts\<close>

lemma dsum_mset: "mset xs = mset ys \<Longrightarrow> dsum (map f xs) = dsum (map f ys)"
  by (metis mset_map sum_mset_sum_list)

lemma filter_mset_eq: "mset xs = mset ys \<Longrightarrow> mset (filter p xs) = mset (filter p ys)"
  by simp

text \<open>A list comprehension whose only error is \<open>e\<close>.\<close>

lemma rmap_one_error:
  assumes "\<And>x e'. f x = Inl e' \<Longrightarrow> e' = e"
  shows "rmap f xs = (if list_all (\<lambda>x. is_ok (f x)) xs then Inr (map (projr \<circ> f) xs) else Inl e)"
proof (induction xs)
  case (Cons x xs)
  then show ?case using assms by (cases "f x") auto
qed simp

lemma mean_markout_mset:
  assumes "mset xs = mset ys" shows "mean_markout xs h = mean_markout ys h"
proof -
  let ?f = "\<lambda>r. rbind (markout_at h r) (\<lambda>m. Inr (m * at_filled_quantity r))"
  have one: "?f r = Inl e \<Longrightarrow> e = RuntimeError ''generator raised StopIteration''" for r e
    by (auto simp: markout_at_def rbind_eq_Inl split: option.splits)
  have "list_all (\<lambda>x. is_ok (?f x)) xs = list_all (\<lambda>x. is_ok (?f x)) ys"
    using mset_eq_setD [OF assms] by (simp add: list_all_iff)
  moreover have eq: "rmap ?f zs = (if list_all (\<lambda>x. is_ok (?f x)) zs then Inr (map (projr \<circ> ?f) zs)
      else Inl (RuntimeError ''generator raised StopIteration''))" for zs
    by (rule rmap_one_error) (rule one)
  ultimately show ?thesis
    using dsum_mset [OF assms, of "projr \<circ> ?f"] dsum_mset [OF assms, of at_filled_quantity]
    unfolding mean_markout_def eq by simp
qed

lemma mean_markouts_mset:
  assumes "mset xs = mset ys" shows "mean_markouts xs = mean_markouts ys"
proof -
  have filled: "mset (filled_rows xs) = mset (filled_rows ys)"
    and complete: "mset (complete_rows xs) = mset (complete_rows ys)"
    using assms by (simp_all add: filled_rows_def complete_rows_def)
  have "mean_markout (complete_rows xs) = mean_markout (complete_rows ys)"
    by (rule ext) (rule mean_markout_mset [OF complete])
  moreover have "(complete_rows xs = []) = (complete_rows ys = [])" using complete by (metis mset_zero_iff)
  ultimately show ?thesis
    using mset_eq_length [OF filled] mset_eq_length [OF complete] by (simp add: mean_markouts_def)
qed

lemma unique_count_mset:
  assumes "mset xs = mset ys" shows "unique_count f xs = unique_count f ys"
  unfolding unique_count_def length_remdups_card_conv set_map mset_eq_setD [OF assms] ..

lemma summary_of_mset:
  assumes "mset xs = mset ys" shows "summary_of dig xs means = summary_of dig ys means"
proof -
  have sub: "mset (filter p xs) = mset (filter p ys)" for p using assms by simp
  have "sort (map at_receipt_id xs) = sort (map at_receipt_id ys)"
    using assms by (intro properties_for_sort) simp_all
  then show ?thesis
    using assms dsum_mset [OF assms] dsum_mset [OF sub] mset_eq_length [OF assms] mset_eq_length [OF sub]
    by (simp add: summary_of_def filled_rows_def settled_rows_def unique_count_mset [OF assms])
qed

text \<open>The summary of the evidence, its identity included, and every error it can raise depend only on
  which receipts are summarized, not on the order in which they arrive.
\<close>

theorem summary_ignores_the_order:
  assumes "mset receipts = mset receipts'"
  shows "summarize_attempts dig receipts = summarize_attempts dig receipts'"
proof -
  have "mset (map at_receipt_id receipts) = mset (map at_receipt_id receipts')" using assms by simp
  from mset_eq_imp_distinct_iff [OF this] assms show ?thesis
    unfolding summarize_attempts_def mean_markouts_mset [OF assms] summary_of_mset [OF assms] by auto
qed

section \<open>Two attempts\<close>

definition sample_shadow_quote :: "string \<Rightarrow> ShadowQuote" where
  "sample_shadow_quote k = \<lparr>hq_quote_id = k, hq_outcome_side = YES, hq_price = 3 / 10, hq_quantity = 1,
     hq_conservative_fair_probability = 2 / 5, hq_maker_fee = 0, hq_non_fee_reserve = 1 / 40,
     hq_net_edge_per_contract = 1 / 20, hq_inventory_before = -1, hq_inventory_after_full_fill = 0,
     hq_inventory_reducing = True, hq_post_only = True, hq_cancel_order_on_pause = True,
     hq_self_trade_prevention = ''TAKER_AT_CROSS'', hq_order_group_required = True,
     hq_exchange_order = False, hq_production_influence = 0\<rparr>"

definition sample_plan :: ShadowQuotePlan where
  "sample_plan = \<lparr>sp_plan_id = ''p'', sp_planned_at = Aware 0, sp_market_ticker = ''M'', sp_event_id = ''E'',
     sp_cohort_id = ''c'', sp_curve_id = ''f'', sp_market_snapshot_id = ''s'',
     sp_inventory_snapshot_id = ''i'', sp_economics_evidence_id = ''e'', sp_fee_policy_id = ''fee'',
     sp_quote_policy_id = ''q'', sp_state = ONE_SIDED_INVENTORY_REDUCTION,
     sp_quotes = [sample_shadow_quote ''a''], sp_blockers = [], sp_research_only = True,
     sp_production_influence = 0\<rparr>"

definition sample_shadow_fill :: "string \<Rightarrow> decimal \<Rightarrow> SimulatedFill" where
  "sample_shadow_fill k q = \<lparr>sf_simulated_fill_id = k, sf_simulated_order_id = ''o'', sf_timestamp = 0,
     sf_outcome_side = YES, sf_book_side = ''BID'', sf_price = 3 / 10, sf_quantity = q, sf_maker = True,
     sf_queue_ahead_before = None, sf_causing_event_id = ''t'', sf_fee = 0, sf_cumulative_fill = q,
     sf_remaining_quantity = 0, sf_book_lineage = ''b'', sf_replay_sequence = 1, sf_scenario = BASE\<rparr>"

definition sample_shadow_order :: "SimulatedFill list \<Rightarrow> SimulatedOrder" where
  "sample_shadow_order fills = \<lparr>so_simulated_order_id = ''o'', so_frozen_candidate_id = ''a'',
     so_strategy = MAKER_AT_BEST, so_scenario = BASE, so_candidate_time = 0, so_decision_time = 0,
     so_submit_time = 0, so_arrival_time = 0, so_initial_quantity = 1, so_remaining_quantity = 0,
     so_limit_price = Some (3 / 10), so_state = FILLED_SIMULATION,
     so_queue_quality = CONSERVATIVE_QUEUE_ASSUMPTION, so_queue_ahead = None, so_fills = fills,
     so_cancel_requested_at = None, so_cancel_effective_at = None, so_invalidation_reason = None,
     so_production_influence = 0\<rparr>"

definition sample_markouts :: "MarkoutObservation list" where
  "sample_markouts = map (\<lambda>(k, h, v). \<lparr>mo_simulated_fill_id = k, mo_horizon = h, mo_reference_time = h,
     mo_market_reference = 0, mo_executable_unwind = None, mo_normalized_markout = v\<rparr>)
     [(''x'', seconds 1, 1 / 10), (''x'', seconds 30, 1 / 5), (''x'', minutes 5, 0),
      (''y'', seconds 1, 2 / 5), (''y'', seconds 30, 0), (''y'', minutes 5, 1)]"

definition sample_attempt :: attempt where
  "sample_attempt = (sample_plan, ''a'', sample_shadow_order [sample_shadow_fill ''x'' (1 / 4),
     sample_shadow_fill ''y'' (3 / 4)], sample_markouts, None)"

lemma sample_receipt: "\<exists>r. receipt_of (\<lambda>x. ''h'') sample_attempt = Inr r \<and> at_filled_quantity r = 1 \<and>
   at_evidence_state r = MARKOUT_COMPLETE_UNSETTLED \<and>
   at_markouts r = [\<lparr>hz_horizon = seconds 1, hz_quantity_weighted_markout = 13 / 40\<rparr>,
     \<lparr>hz_horizon = seconds 30, hz_quantity_weighted_markout = 1 / 20\<rparr>,
     \<lparr>hz_horizon = minutes 5, hz_quantity_weighted_markout = 3 / 4\<rparr>]"
proof -
  let ?fills = "[sample_shadow_fill ''x'' (1 / 4), sample_shadow_fill ''y'' (3 / 4)]"
  have rows: "weighted_markouts ?fills sample_markouts =
      Inr [\<lparr>hz_horizon = seconds 1, hz_quantity_weighted_markout = 13 / 40\<rparr>,
        \<lparr>hz_horizon = seconds 30, hz_quantity_weighted_markout = 1 / 20\<rparr>,
        \<lparr>hz_horizon = minutes 5, hz_quantity_weighted_markout = 3 / 4\<rparr>]" by code_simp
  have filled: "total_fill ?fills = 1" by (simp add: total_fill_def sample_shadow_fill_def)
  show ?thesis
    using rows filled
    by (simp add: receipt_of_def sample_attempt_def build_attempt_receipt_def attempt_evidence_def
        sample_shadow_order_def sample_plan_def sample_shadow_quote_def ShadowAttemptReceipt_post_init_def Let_def)
      (simp add: sample_shadow_fill_def)
qed

theorem receipts_are_exact_witness:
  "\<exists>r. receipt_of (\<lambda>x. ''h'') sample_attempt = Inr r \<and> at_filled_quantity r = 1 \<and>
     map hz_horizon (at_markouts r) = [seconds 1, seconds 30, minutes 5]"
proof -
  from sample_receipt obtain r where r: "receipt_of (\<lambda>x. ''h'') sample_attempt = Inr r" "at_filled_quantity r = 1"
    "at_evidence_state r = MARKOUT_COMPLETE_UNSETTLED" by blast
  from receipts_are_exact [of "\<lambda>x. ''h''" sample_plan "''a''" _ sample_markouts None r] r show ?thesis
    by (auto simp: receipt_of_def sample_attempt_def conclusive_def REQUIRED_MARKOUT_HORIZONS_def)
qed

theorem mean_markouts_pool_the_fills_witness:
  "\<exists>r s. receipt_of (\<lambda>x. ''h'') sample_attempt = Inr r \<and> summarize_attempts (\<lambda>x. ''h'') [r] = Inr s \<and>
     es_filled_quantity s = 1"
proof -
  from sample_receipt obtain r where r: "receipt_of (\<lambda>x. ''h'') sample_attempt = Inr r" "at_filled_quantity r = 1"
    "at_evidence_state r = MARKOUT_COMPLETE_UNSETTLED"
    "at_markouts r = [\<lparr>hz_horizon = seconds 1, hz_quantity_weighted_markout = 13 / 40\<rparr>,
     \<lparr>hz_horizon = seconds 30, hz_quantity_weighted_markout = 1 / 20\<rparr>,
     \<lparr>hz_horizon = minutes 5, hz_quantity_weighted_markout = 3 / 4\<rparr>]" by blast
  then obtain s where s: "summarize_attempts (\<lambda>x. ''h'') [r] = Inr s" "es_mean_markouts s \<noteq> []"
    by (auto simp: summarize_attempts_def mean_markouts_def complete_rows_def filled_rows_def
        REQUIRED_MARKOUT_HORIZONS_def mean_markout_def markout_at_def EvidenceSummary_post_init_def
        summary_of_def minutes_def seconds_def)
  then obtain row where row: "row \<in> set (es_mean_markouts s)" by (cases "es_mean_markouts s") auto
  have checked: "list_all (\<lambda>a. fills_checked (attempt_fills a)) [sample_attempt]"
    by (simp add: fills_checked_def attempt_fills_def sample_attempt_def sample_shadow_order_def
        sample_shadow_fill_def SimulatedFill_post_init_def)
  have built: "list_all2 (\<lambda>a r. receipt_of (\<lambda>x. ''h'') a = Inr r) [sample_attempt] [r]" using r(1) by simp
  have keys: "list_all (\<lambda>a. distinct (map sf_simulated_fill_id (attempt_fills a))) [sample_attempt]"
    by (simp add: attempt_fills_def sample_attempt_def sample_shadow_order_def sample_shadow_fill_def)
  have filled: "dsum (concat (map (\<lambda>a. map sf_quantity (attempt_fills a)) [sample_attempt])) = 1"
    by (simp add: attempt_fills_def sample_attempt_def sample_shadow_order_def sample_shadow_fill_def)
  from mean_markouts_pool_the_fills [OF built checked keys s(1) row] filled have "es_filled_quantity s = 1"
    by metis
  with r(1) s(1) show ?thesis by blast
qed

theorem summary_ignores_the_order_witness:
  "\<exists>r. receipt_of (\<lambda>x. ''h'') sample_attempt = Inr r \<and>
     summarize_attempts (\<lambda>x. ''h'') [r, r\<lparr>at_receipt_id := ''k''\<rparr>] =
       summarize_attempts (\<lambda>x. ''h'') [r\<lparr>at_receipt_id := ''k''\<rparr>, r]"
proof -
  from sample_receipt obtain r where "receipt_of (\<lambda>x. ''h'') sample_attempt = Inr r" by blast
  moreover have "mset [r, r\<lparr>at_receipt_id := ''k''\<rparr>] = mset [r\<lparr>at_receipt_id := ''k''\<rparr>, r]" by simp
  from summary_ignores_the_order [OF this] have "summarize_attempts (\<lambda>x. ''h'') [r, r\<lparr>at_receipt_id := ''k''\<rparr>] =
       summarize_attempts (\<lambda>x. ''h'') [r\<lparr>at_receipt_id := ''k''\<rparr>, r]" .
  ultimately show ?thesis by blast
qed

end
