(* ===== verification/Perps_Book.thy ===== *)
theory Perps_Book
  imports Universe Market_Book
begin

text \<open>
  \<open>services/perps_shadow_research\<close>: market metadata (\<open>perps_metadata.py\<close>), the strict parsers of
  book and ticker events (\<open>perps_events.py\<close>), the sequenced book of a margin market
  (\<open>perps_orderbook.py\<close>) and the evidence taken from it (\<open>perps_evidence.py\<close>). A dict of levels is
  the association list of \<open>Market_Book\<close>; a UUID is its integer. \<open>canonical_hash\<close> tags decimals and
  timestamps, so it is the digest of the values themselves.
\<close>

section \<open>Market metadata\<close>

definition perps_decimal :: "hashable \<Rightarrow> string \<Rightarrow> decimal result" where
  "perps_decimal value field = (case value of
     HInt n \<Rightarrow> Inr (of_int n)
   | HDec d \<Rightarrow> Inr d
   | HStr s \<Rightarrow> (case decimal_of_string s of
         None \<Rightarrow> Inl (ShadowResearchError (field @ '' must be an exact decimal value'')) | Some d \<Rightarrow> Inr d)
   | _ \<Rightarrow> Inl (ShadowResearchError (field @ '' must be an exact decimal value'')))"

definition canonical_hash :: "digest_fn \<Rightarrow> hashable \<Rightarrow> string" where
  "canonical_hash dig v = stable_hash dig v"

definition PERPS_OPENAPI_URL :: string where
  "PERPS_OPENAPI_URL = ''https://docs.kalshi.com/perps_openapi.yaml''"

definition PERPS_ASYNCAPI_URL :: string where
  "PERPS_ASYNCAPI_URL = ''https://docs.kalshi.com/perps_asyncapi.yaml''"

definition is_hex :: "char \<Rightarrow> bool" where
  "is_hex c \<longleftrightarrow> c \<in> set ''0123456789abcdef''"

definition is_sha256 :: "string \<Rightarrow> bool" where
  "is_sha256 s \<longleftrightarrow> length s = 64 \<and> list_all is_hex s"

record SourceContractProvenance =
  pc_source_url :: string
  pc_retrieved_on :: string
  pc_sha256 :: string
  pc_parser_version :: string

definition SourceContractProvenance_post_init :: "SourceContractProvenance \<Rightarrow>
    SourceContractProvenance result" where
  "SourceContractProvenance_post_init p =
     (if pc_source_url p \<notin> set [PERPS_OPENAPI_URL, PERPS_ASYNCAPI_URL]
      then Inl (ShadowResearchError ''unsupported Perps contract source'')
      else if \<not> is_sha256 (pc_sha256 p)
      then Inl (ShadowResearchError ''contract checksum must be SHA-256'')
      else if pc_parser_version p = [] then Inl (ShadowResearchError ''parser version is required'')
      else Inr p)"

definition ASYNCAPI_SHA256 :: string where
  "ASYNCAPI_SHA256 = ''e5cc0f026b8e306e917860b870e23c9152d0d782c33137d42698f051a9dbe824''"

record PerpsSchedule =
  ps_is_open :: bool
  ps_next_open_ts :: "int option"
  ps_next_close_ts :: "int option"

record TimestampedPrice =
  tp_price :: decimal
  tp_ts_ms :: int

definition TimestampedPrice_post_init :: "TimestampedPrice \<Rightarrow> TimestampedPrice result" where
  "TimestampedPrice_post_init p = (if tp_ts_ms p < 0
     then Inl (ShadowResearchError ''timestamped price ts_ms must be non-negative integer'') else Inr p)"

record PerpsMarketMetadata =
  pm_ticker :: string
  pm_status :: string
  pm_title :: string
  pm_exchange_index :: int
  pm_market_version :: "int option"
  pm_contract_size :: decimal
  pm_underlying_multiplier :: decimal
  pm_tick_size :: decimal
  pm_fractional_trading_enabled :: bool
  pm_schedule :: "PerpsSchedule option"
  pm_leverage_estimate :: "decimal option"
  pm_leverage_estimates :: "(decimal \<times> decimal) list"
  pm_long_leverage_estimates :: "(decimal \<times> decimal) list"
  pm_short_leverage_estimates :: "(decimal \<times> decimal) list"
  pm_bid :: "decimal option"
  pm_ask :: "decimal option"
  pm_price :: "decimal option"
  pm_settlement_mark_price :: "TimestampedPrice option"
  pm_liquidation_mark_price :: "TimestampedPrice option"
  pm_reference_price :: "TimestampedPrice option"
  pm_volume :: "decimal option"
  pm_open_interest :: "decimal option"
  pm_asset_class :: "string option"
  pm_product_metadata :: "hashable option"
  pm_normalized_snapshot :: hashable
  pm_observed_at :: datetime
  pm_contract_hash :: string
  pm_metadata_hash :: string
  pm_source_provenance :: SourceContractProvenance

definition PerpsMarketMetadata_post_init :: "PerpsMarketMetadata \<Rightarrow> PerpsMarketMetadata result" where
  "PerpsMarketMetadata_post_init m =
     (if pm_ticker m = [] \<or> pm_status m \<notin> set [''inactive'', ''active'', ''closed''] \<or> pm_title m = []
      then Inl (ShadowResearchError ''invalid Perps market identity or status'')
      else if pm_exchange_index m < 0
      then Inl (ShadowResearchError ''exchange_index must be an exact non-negative integer'')
      else if (case pm_market_version m of None \<Rightarrow> False | Some v \<Rightarrow> \<not> (1 \<le> v \<and> v \<le> 2147483647))
      then Inl (ShadowResearchError ''market_version must be null or an exact positive int32'')
      else if pm_contract_size m \<le> 0 \<or> pm_underlying_multiplier m \<le> 0 \<or> pm_tick_size m \<le> 0
      then Inl (ShadowResearchError ''contract_size, underlying_multiplier, and tick_size must be positive'')
      else if pm_asset_class m = Some []
      then Inl (ShadowResearchError ''asset_class must be a non-empty string or null'')
      else if \<not> tz_aware (pm_observed_at m)
      then Inl (ShadowResearchError ''observed_at must be timezone-aware'')
      else Inr m)"

definition perps_is_open :: "PerpsMarketMetadata \<Rightarrow> bool" where
  "perps_is_open m \<longleftrightarrow> pm_status m = ''active'' \<and>
     (case pm_schedule m of None \<Rightarrow> True | Some s \<Rightarrow> ps_is_open s)"

definition quantity_valid :: "decimal \<Rightarrow> bool" where
  "quantity_valid quantity \<longleftrightarrow> \<not> quantity < 0 \<and> dec_rem quantity (1 / 100) = 0"

definition price_on_tick :: "PerpsMarketMetadata \<Rightarrow> decimal \<Rightarrow> bool" where
  "price_on_tick m price \<longleftrightarrow> price > 0 \<and> dec_rem price (pm_tick_size m) = 0"

definition required :: "json_obj \<Rightarrow> string \<Rightarrow> hashable result" where
  "required raw field = (case map_of raw field of
     None \<Rightarrow> Inl (ShadowResearchError (''required Perps market field missing: '' @ field))
   | Some v \<Rightarrow> Inr v)"

definition optional_decimal :: "json_obj \<Rightarrow> string \<Rightarrow> decimal option result" where
  "optional_decimal raw field = (case get_value raw field of None \<Rightarrow> Inr None
     | Some v \<Rightarrow> rbind (perps_decimal v field) (\<lambda>d. Inr (Some d)))"

definition estimates :: "json_obj \<Rightarrow> string \<Rightarrow> (decimal \<times> decimal) list result" where
  "estimates raw field = (case get_value raw field of
     None \<Rightarrow> Inr []
   | Some (HObj kvs) \<Rightarrow> rbind (rmap (\<lambda>(k, v). rbind (perps_decimal (HStr k) (field @ ''.notional''))
       (\<lambda>n. rbind (perps_decimal v field) (\<lambda>x. Inr (n, x)))) kvs) (\<lambda>rows. Inr (sort rows))
   | _ \<Rightarrow> Inl (ShadowResearchError (field @ '' must be a mapping or null'')))"

definition timestamped :: "json_obj \<Rightarrow> string \<Rightarrow> TimestampedPrice option result" where
  "timestamped raw field = (case get_value raw field of
     None \<Rightarrow> Inr None
   | Some (HObj kvs) \<Rightarrow>
       if set (map fst kvs) \<noteq> set [''price'', ''ts_ms'']
       then Inl (ShadowResearchError (field @ '' must contain exactly price and ts_ms''))
       else rbind (perps_decimal (hval (map_of kvs ''price'')) (field @ ''.price'')) (\<lambda>p.
         case map_of kvs ''ts_ms'' of
           Some (HInt n) \<Rightarrow> rbind (TimestampedPrice_post_init \<lparr>tp_price = p, tp_ts_ms = n\<rparr>) (\<lambda>t. Inr (Some t))
         | _ \<Rightarrow> Inl (ShadowResearchError ''timestamped price ts_ms must be non-negative integer''))
   | _ \<Rightarrow> Inl (ShadowResearchError (field @ '' must contain exactly price and ts_ms'')))"

definition optional_ts :: "hashable \<Rightarrow> string \<Rightarrow> int option result" where
  "optional_ts v field = (case v of HNone \<Rightarrow> Inr None
     | HInt n \<Rightarrow> if n < 0
         then Inl (ShadowResearchError (''schedule.'' @ field @ '' must be a non-negative integer or null''))
         else Inr (Some n)
     | _ \<Rightarrow> Inl (ShadowResearchError (''schedule.'' @ field @ '' must be a non-negative integer or null'')))"

definition parse_schedule :: "hashable \<Rightarrow> PerpsSchedule option result" where
  "parse_schedule v = (case v of
     HNone \<Rightarrow> Inr None
   | HObj s \<Rightarrow> rbind (required s ''is_open'') (\<lambda>is_open. rbind (required s ''next_open_ts'') (\<lambda>opens.
       rbind (required s ''next_close_ts'') (\<lambda>closes. case is_open of
           HBool b \<Rightarrow> rbind (optional_ts opens ''next_open_ts'') (\<lambda>x.
             rbind (optional_ts closes ''next_close_ts'') (\<lambda>y.
               Inr (Some \<lparr>ps_is_open = b, ps_next_open_ts = x, ps_next_close_ts = y\<rparr>)))
         | _ \<Rightarrow> Inl (ShadowResearchError ''schedule.is_open must be boolean''))))
   | _ \<Rightarrow> Inl (ShadowResearchError ''schedule must be an object or null''))"

definition optional_text :: "json_obj \<Rightarrow> string \<Rightarrow> string option result" where
  "optional_text raw field = (case get_value raw field of None \<Rightarrow> Inr None
     | Some (HStr s) \<Rightarrow> Inr (Some s)
     | _ \<Rightarrow> Inl (ShadowResearchError (field @ '' must be a string or null'')))"

definition optional_object :: "json_obj \<Rightarrow> string \<Rightarrow> hashable option result" where
  "optional_object raw field = (case get_value raw field of None \<Rightarrow> Inr None
     | Some (HObj kvs) \<Rightarrow> Inr (Some (canonical (HObj kvs)))
     | _ \<Rightarrow> Inl (ShadowResearchError (field @ '' must be an object or null'')))"

text \<open>The typed identity fields of the payload, before the economic ones.\<close>

definition parse_identity :: "json_obj \<Rightarrow> (string \<times> string \<times> string \<times> int \<times> int option \<times> bool) result" where
  "parse_identity raw =
     rbind (required raw ''ticker'') (\<lambda>ticker. rbind (required raw ''status'') (\<lambda>status.
     rbind (required raw ''title'') (\<lambda>title. rbind (required raw ''exchange_index'') (\<lambda>index.
     rbind (required raw ''fractional_trading_enabled'') (\<lambda>fractional.
       case (ticker, status, title) of
         (HStr t, HStr s, HStr n) \<Rightarrow> (case index of
             HInt i \<Rightarrow> (case map_of raw ''market_version'' of
                 None \<Rightarrow> (case fractional of HBool b \<Rightarrow> Inr (t, s, n, i, None, b)
                   | _ \<Rightarrow> Inl (ShadowResearchError ''fractional_trading_enabled must be boolean''))
               | Some (HInt v) \<Rightarrow> (case fractional of HBool b \<Rightarrow> Inr (t, s, n, i, Some v, b)
                   | _ \<Rightarrow> Inl (ShadowResearchError ''fractional_trading_enabled must be boolean''))
               | _ \<Rightarrow> Inl (ShadowResearchError ''market_version must be an exact integer when present''))
           | _ \<Rightarrow> Inl (ShadowResearchError ''exchange_index must be an exact integer''))
       | _ \<Rightarrow> Inl (ShadowResearchError ''ticker, status, and title must be strings''))))))"

definition contract_payload :: "string \<Rightarrow> int \<Rightarrow> int option \<Rightarrow> decimal \<Rightarrow> decimal \<Rightarrow> decimal \<Rightarrow> bool \<Rightarrow> hashable" where
  "contract_payload ticker index version contract_size multiplier tick fractional = HObj
     [(''ticker'', HStr ticker), (''exchange_index'', HInt index),
      (''market_version'', case version of None \<Rightarrow> HObj [(''$missing'', HBool True)] | Some v \<Rightarrow> HInt v),
      (''contract_size'', HDec contract_size), (''underlying_multiplier'', HDec multiplier),
      (''tick_size'', HDec tick), (''fractional_trading_enabled'', HBool fractional)]"

definition parse_perps_market :: "digest_fn \<Rightarrow> json_obj \<Rightarrow> datetime \<Rightarrow> SourceContractProvenance \<Rightarrow>
    PerpsMarketMetadata result" where
  "parse_perps_market dig raw observed_at provenance =
     rbind (parse_identity raw) (\<lambda>(ticker, status, title, index, version, fractional).
     rbind (rbind (required raw ''schedule'') parse_schedule) (\<lambda>schedule.
     rbind (rbind (required raw ''contract_size'') (\<lambda>v. perps_decimal v ''contract_size'')) (\<lambda>contract_size.
     rbind (rbind (required raw ''underlying_multiplier'')
       (\<lambda>v. perps_decimal v ''underlying_multiplier'')) (\<lambda>multiplier.
     rbind (rbind (required raw ''tick_size'') (\<lambda>v. perps_decimal v ''tick_size'')) (\<lambda>tick.
     rbind (optional_text raw ''asset_class'') (\<lambda>asset_class.
     rbind (optional_object raw ''product_metadata'') (\<lambda>product_metadata.
     rbind (optional_decimal raw ''leverage_estimate'') (\<lambda>leverage.
     rbind (estimates raw ''leverage_estimates'') (\<lambda>both.
     rbind (estimates raw ''long_leverage_estimates'') (\<lambda>longs.
     rbind (estimates raw ''short_leverage_estimates'') (\<lambda>shorts.
     rbind (rmap (\<lambda>k. optional_decimal raw k) [''bid'', ''ask'', ''price'']) (\<lambda>prices.
     rbind (rmap (\<lambda>k. timestamped raw k)
       [''settlement_mark_price'', ''liquidation_mark_price'', ''reference_price'']) (\<lambda>marks.
     rbind (rmap (\<lambda>k. optional_decimal raw k) [''volume'', ''open_interest'']) (\<lambda>totals.
       PerpsMarketMetadata_post_init
         \<lparr>pm_ticker = ticker, pm_status = status, pm_title = title, pm_exchange_index = index,
          pm_market_version = version, pm_contract_size = contract_size,
          pm_underlying_multiplier = multiplier, pm_tick_size = tick,
          pm_fractional_trading_enabled = fractional, pm_schedule = schedule,
          pm_leverage_estimate = leverage, pm_leverage_estimates = both,
          pm_long_leverage_estimates = longs, pm_short_leverage_estimates = shorts,
          pm_bid = prices ! 0, pm_ask = prices ! 1, pm_price = prices ! 2,
          pm_settlement_mark_price = marks ! 0, pm_liquidation_mark_price = marks ! 1,
          pm_reference_price = marks ! 2, pm_volume = totals ! 0, pm_open_interest = totals ! 1,
          pm_asset_class = asset_class, pm_product_metadata = product_metadata,
          pm_normalized_snapshot = canonical (HObj raw), pm_observed_at = observed_at,
          pm_contract_hash = canonical_hash dig (contract_payload ticker index version contract_size
            multiplier tick fractional),
          pm_metadata_hash = canonical_hash dig (HObj raw), pm_source_provenance = provenance\<rparr>))))))))))))))"

section \<open>Events\<close>

definition perps_integer :: "hashable \<Rightarrow> string \<Rightarrow> int \<Rightarrow> int result" where
  "perps_integer value field minimum = (case value of
     HInt n \<Rightarrow> if n < minimum then Inl (ShadowResearchError (field @ '' must be an exact integer'')) else Inr n
   | _ \<Rightarrow> Inl (ShadowResearchError (field @ '' must be an exact integer'')))"

definition envelope :: "json_obj \<Rightarrow> string \<Rightarrow> bool \<Rightarrow> (int \<times> int option \<times> json_obj) result" where
  "envelope raw kind sequenced = (case (map_of raw ''type'', map_of raw ''msg'') of
     (Some (HStr t), Some (HObj msg)) \<Rightarrow>
       if t \<noteq> kind then Inl (ShadowResearchError (''malformed '' @ kind))
       else rbind (perps_integer (hval (map_of raw ''sid'')) ''sid'' 1) (\<lambda>sid.
         if sequenced
         then rbind (perps_integer (hval (map_of raw ''seq'')) ''sequence'' 1) (\<lambda>n. Inr (sid, Some n, msg))
         else Inr (sid, None, msg))
   | _ \<Rightarrow> Inl (ShadowResearchError (''malformed '' @ kind)))"

datatype PerpsBookSide = BID | ASK

definition PerpsBookSide_value :: "PerpsBookSide \<Rightarrow> string" where
  "PerpsBookSide_value s = (case s of BID \<Rightarrow> ''bid'' | ASK \<Rightarrow> ''ask'')"

definition LastUpdateReason_members :: "string list" where
  "LastUpdateReason_members = [[], ''Decrease'', ''Amend'', ''MarginCancel'', ''SelfTradeCancel'',
     ''ExpiryCancel'', ''Trade'', ''PostOnlyCrossCancel'', ''CloseCancel'', ''HaltCancel'',
     ''ReduceOnlyCancel'']"

fun perps_levels_loop :: "string \<Rightarrow> PerpsMarketMetadata \<Rightarrow> hashable list \<Rightarrow> levels \<Rightarrow> levels result" where
  "perps_levels_loop name market [] output = Inr output"
| "perps_levels_loop name market (level # rest) output = (case level of
     HList [HStr p, HStr q] \<Rightarrow>
       rbind (perps_decimal (HStr p) ''price'') (\<lambda>price.
       rbind (perps_decimal (HStr q) ''quantity'') (\<lambda>quantity.
         if \<not> price_on_tick market price \<or> quantity \<le> 0 \<or> \<not> quantity_valid quantity
         then Inl (ShadowResearchError (name @ '' level violates market contract''))
         else if price \<in> set (map fst output)
         then Inl (ShadowResearchError (''duplicate '' @ name @ '' price''))
         else perps_levels_loop name market rest (output @ [(price, quantity)])))
   | _ \<Rightarrow> Inl (ShadowResearchError (name @ '' level must be exactly two strings'')))"

definition perps_levels :: "json_obj \<Rightarrow> string \<Rightarrow> PerpsMarketMetadata \<Rightarrow> levels result" where
  "perps_levels msg name market = (case get_value msg name of
     None \<Rightarrow> Inr []
   | Some (HList rows) \<Rightarrow> perps_levels_loop name market rows []
   | _ \<Rightarrow> Inl (ShadowResearchError (name @ '' must be an array'')))"

record PerpsBookSnapshotEvent =
  pe_sid :: int
  pe_sequence :: int
  pe_ticker :: string
  pe_bids :: levels
  pe_asks :: levels

definition PerpsBookSnapshotEvent_parse :: "json_obj \<Rightarrow> PerpsMarketMetadata \<Rightarrow>
    PerpsBookSnapshotEvent result" where
  "PerpsBookSnapshotEvent_parse raw market =
     rbind (envelope raw ''orderbook_snapshot'' True) (\<lambda>(sid, sequence, msg).
       if map_of msg ''market_ticker'' \<noteq> Some (HStr (pm_ticker market))
       then Inl (ShadowResearchError ''snapshot ticker is missing or unexpected'')
       else rbind (perps_levels msg ''bid'' market) (\<lambda>bids.
         rbind (perps_levels msg ''ask'' market) (\<lambda>asks.
           Inr \<lparr>pe_sid = sid, pe_sequence = (case sequence of None \<Rightarrow> 0 | Some n \<Rightarrow> n),
             pe_ticker = pm_ticker market, pe_bids = bids, pe_asks = asks\<rparr>)))"

record PerpsBookDeltaEvent =
  pd_sid :: int
  pd_sequence :: int
  pd_ticker :: string
  pd_price :: decimal
  pd_delta :: decimal
  pd_side :: PerpsBookSide
  pd_exchange_at :: "instant option"
  pd_last_update_reason :: "string option"
  pd_has_client_order_id :: bool
  pd_has_subaccount :: bool

text \<open>
  \<open>datetime.fromtimestamp(ts_ms / 1000, UTC)\<close>. The quotient is a binary floating-point number with 53
  significant bits, rounded half to even, and \<open>fromtimestamp\<close> rounds it half to even to the
  microsecond. Below \<open>2 ^ 33\<close> seconds (the year 2242) that is the exact time; above, the quotient
  keeps 19 to 15 fractional bits and the time can be off by some microseconds. A year after 9999 is a
  \<open>ValueError\<close>, a year beyond the platform's calendar an \<open>OSError\<close>, a time beyond \<open>time_t\<close> an
  \<open>OverflowError\<close>.
\<close>

definition half_even_div :: "int \<Rightarrow> int \<Rightarrow> int" where
  "half_even_div a b = (let q = a div b; r = a mod b
     in if 2 * r < b \<or> 2 * r = b \<and> even q then q else q + 1)"

definition fraction_bits :: "int \<Rightarrow> nat" where
  "fraction_bits ts_ms = (if ts_ms < 2 ^ 34 * 1000 then 19 else if ts_ms < 2 ^ 35 * 1000 then 18
     else if ts_ms < 2 ^ 36 * 1000 then 17 else if ts_ms < 2 ^ 37 * 1000 then 16 else 15)"

definition from_milliseconds :: "int \<Rightarrow> instant result" where
  "from_milliseconds ts_ms =
     (if ts_ms \<ge> 9223372036854775296000 then Inl OverflowError
      else if ts_ms \<ge> 67768036191676796000 then Inl OSError
      else if ts_ms > 253402300799999 then Inl (ValueError ''year is out of range'')
      else if ts_ms < 2 ^ 33 * 1000 then Inr (milliseconds ts_ms)
      else let k = fraction_bits ts_ms
        in Inr (half_even_div (half_even_div (ts_ms * 2 ^ k) 1000 * 1000000) (2 ^ k)))"

lemma from_milliseconds_exact: "ts_ms < 8589934592000 \<Longrightarrow> from_milliseconds ts_ms = Inr (milliseconds ts_ms)"
  by (simp add: from_milliseconds_def)

definition delta_reason :: "json_obj \<Rightarrow> string option result" where
  "delta_reason msg = (case get_value msg ''last_update_reason'' of
     None \<Rightarrow> Inr None
   | Some (HStr s) \<Rightarrow> if s \<in> set LastUpdateReason_members then Inr (Some s)
       else Inl (ShadowResearchError ''unknown last_update_reason'')
   | _ \<Rightarrow> Inl (ShadowResearchError ''unknown last_update_reason''))"

definition delta_time :: "json_obj \<Rightarrow> instant option result" where
  "delta_time msg = (case get_value msg ''ts_ms'' of
     None \<Rightarrow> Inr None
   | Some v \<Rightarrow> rbind (perps_integer v ''ts_ms'' 0) (\<lambda>n. rbind (from_milliseconds n) (\<lambda>t. Inr (Some t))))"

definition PerpsBookDeltaEvent_parse :: "json_obj \<Rightarrow> PerpsMarketMetadata \<Rightarrow> PerpsBookDeltaEvent result" where
  "PerpsBookDeltaEvent_parse raw market =
     rbind (envelope raw ''orderbook_delta'' True) (\<lambda>(sid, sequence, msg).
       if map_of msg ''market_ticker'' \<noteq> Some (HStr (pm_ticker market))
       then Inl (ShadowResearchError ''delta ticker is missing or unexpected'')
       else if map_of msg ''side'' \<noteq> Some (HStr ''bid'') \<and> map_of msg ''side'' \<noteq> Some (HStr ''ask'')
       then Inl (ShadowResearchError ''delta side must be bid or ask'')
       else rbind (perps_decimal (hval (map_of msg ''price'')) ''price'') (\<lambda>price.
         rbind (perps_decimal (hval (map_of msg ''delta'')) ''delta'') (\<lambda>quantity_delta.
         if \<not> price_on_tick market price
         then Inl (ShadowResearchError ''delta price violates market tick'')
         else if \<not> quantity_valid \<bar>quantity_delta\<bar>
         then Inl (ShadowResearchError ''delta quantity violates market contract'')
         else rbind (delta_reason msg) (\<lambda>reason. rbind (delta_time msg) (\<lambda>exchange_at.
           Inr \<lparr>pd_sid = sid, pd_sequence = (case sequence of None \<Rightarrow> 0 | Some n \<Rightarrow> n),
             pd_ticker = pm_ticker market, pd_price = price, pd_delta = quantity_delta,
             pd_side = (if map_of msg ''side'' = Some (HStr ''bid'') then BID else ASK),
             pd_exchange_at = exchange_at, pd_last_update_reason = reason,
             pd_has_client_order_id = (map_of msg ''client_order_id'' \<noteq> None),
             pd_has_subaccount = (map_of msg ''subaccount'' \<noteq> None)\<rparr>)))))"
record FundingRate =
  fu_rate :: decimal
  fu_next_funding_time_ms :: int
  fu_ts_ms :: int

record PerpsTickerEvent =
  pt_sid :: int
  pt_ticker :: string
  pt_ts_ms :: int
  pt_sending_ts_ms :: "int option"
  pt_price :: decimal
  pt_bid :: decimal
  pt_ask :: decimal
  pt_bid_size :: decimal
  pt_ask_size :: decimal
  pt_last_trade_size :: decimal
  pt_volume :: decimal
  pt_volume_notional :: decimal
  pt_volume_24h :: decimal
  pt_volume_24h_notional :: decimal
  pt_open_interest :: decimal
  pt_open_interest_notional :: decimal
  pt_reference_price :: "TimestampedPrice option"
  pt_settlement_mark_price :: "TimestampedPrice option"
  pt_liquidation_mark_price :: "TimestampedPrice option"
  pt_funding_rate :: "FundingRate option"

definition ticker_required :: "string list" where
  "ticker_required = [''price'', ''bid'', ''ask'', ''bid_size_fp'', ''ask_size_fp'', ''last_trade_size_fp'',
     ''volume'', ''volume_notional_value_dollars'', ''volume_24h'', ''volume_24h_notional_value_dollars'',
     ''open_interest'', ''open_interest_notional_value_dollars'']"

definition ticker_mark :: "json_obj \<Rightarrow> string \<Rightarrow> TimestampedPrice option result" where
  "ticker_mark msg name = (case get_value msg name of
     None \<Rightarrow> Inr None
   | Some (HObj kvs) \<Rightarrow> rbind (perps_decimal (hval (map_of kvs ''price'')) (name @ ''.price'')) (\<lambda>p.
       rbind (perps_integer (hval (map_of kvs ''ts_ms'')) (name @ ''.ts_ms'') 0) (\<lambda>n.
       rbind (TimestampedPrice_post_init \<lparr>tp_price = p, tp_ts_ms = n\<rparr>) (\<lambda>t. Inr (Some t))))
   | _ \<Rightarrow> Inl (ShadowResearchError (name @ '' must be an object'')))"

definition ticker_funding :: "json_obj \<Rightarrow> FundingRate option result" where
  "ticker_funding msg = (case get_value msg ''funding_rate'' of
     None \<Rightarrow> Inr None
   | Some (HObj kvs) \<Rightarrow> rbind (perps_decimal (hval (map_of kvs ''rate'')) ''funding_rate.rate'') (\<lambda>r.
       rbind (perps_integer (hval (map_of kvs ''next_funding_time_ms'')) ''next_funding_time_ms'' 0) (\<lambda>n.
       rbind (perps_integer (hval (map_of kvs ''ts_ms'')) ''funding_rate.ts_ms'' 0) (\<lambda>t.
         Inr (Some \<lparr>fu_rate = r, fu_next_funding_time_ms = n, fu_ts_ms = t\<rparr>))))
   | _ \<Rightarrow> Inl (ShadowResearchError ''funding_rate must be an object''))"

definition PerpsTickerEvent_parse :: "json_obj \<Rightarrow> PerpsMarketMetadata \<Rightarrow> PerpsTickerEvent result" where
  "PerpsTickerEvent_parse raw market =
     rbind (envelope raw ''ticker'' False) (\<lambda>(sid, _, msg).
       if map_of msg ''market_ticker'' \<noteq> Some (HStr (pm_ticker market))
       then Inl (ShadowResearchError ''ticker identity is missing or unexpected'')
       else rbind (rmap (\<lambda>k. perps_decimal (hval (map_of msg k)) k) ticker_required) (\<lambda>v.
         rbind (perps_integer (hval (map_of msg ''ts_ms'')) ''ts_ms'' 0) (\<lambda>ts_ms.
         rbind (case get_value raw ''sending_ts_ms'' of None \<Rightarrow> Inr None
           | Some s \<Rightarrow> rbind (perps_integer s ''sending_ts_ms'' 0) (\<lambda>n. Inr (Some n))) (\<lambda>sending.
         rbind (ticker_funding msg) (\<lambda>funding.
         rbind (rmap (ticker_mark msg)
           [''reference_price'', ''settlement_mark_price'', ''liquidation_mark_price'']) (\<lambda>marks.
         Inr \<lparr>pt_sid = sid, pt_ticker = pm_ticker market, pt_ts_ms = ts_ms, pt_sending_ts_ms = sending,
           pt_price = v ! 0, pt_bid = v ! 1, pt_ask = v ! 2, pt_bid_size = v ! 3, pt_ask_size = v ! 4,
           pt_last_trade_size = v ! 5, pt_volume = v ! 6, pt_volume_notional = v ! 7,
           pt_volume_24h = v ! 8, pt_volume_24h_notional = v ! 9, pt_open_interest = v ! 10,
           pt_open_interest_notional = v ! 11, pt_reference_price = marks ! 0,
           pt_settlement_mark_price = marks ! 1, pt_liquidation_mark_price = marks ! 2,
           pt_funding_rate = funding\<rparr>))))))"

section \<open>The sequenced book\<close>

datatype PerpsBookState = EMPTY | CURRENT | CROSSED | GAP | STALE

record PerpsSequencedBook =
  pb_market :: PerpsMarketMetadata
  pb_sequence :: int
  pb_bids :: levels
  pb_asks :: levels
  pb_state :: PerpsBookState
  pb_observed_at :: "instant option"
  pb_ingested_at :: "instant option"
  pb_contract_hash :: string

definition new_perps_book :: "PerpsMarketMetadata \<Rightarrow> PerpsSequencedBook" where
  "new_perps_book market = \<lparr>pb_market = market, pb_sequence = 0, pb_bids = [], pb_asks = [],
     pb_state = EMPTY, pb_observed_at = None, pb_ingested_at = None,
     pb_contract_hash = pm_contract_hash market\<rparr>"

definition source_state :: "levels \<Rightarrow> levels \<Rightarrow> PerpsBookState" where
  "source_state bids asks =
     (if bids \<noteq> [] \<and> asks \<noteq> [] \<and> Max (set (map fst bids)) \<ge> Min (set (map fst asks))
      then CROSSED else CURRENT)"

definition perps_snapshot :: "PerpsBookSnapshotEvent \<Rightarrow> datetime \<Rightarrow> (PerpsSequencedBook, unit) handler" where
  "perps_snapshot event received_at b =
     (if \<not> tz_aware received_at
      then (b, Inl (ShadowResearchError ''book timestamp must be timezone-aware''))
      else if pe_ticker event \<noteq> pm_ticker (pb_market b)
      then (b, Inl (ShadowResearchError ''snapshot ticker mismatch''))
      else (b\<lparr>pb_bids := pe_bids event, pb_asks := pe_asks event, pb_sequence := pe_sequence event,
        pb_observed_at := Some (astimezone_utc received_at),
        pb_ingested_at := Some (astimezone_utc received_at),
        pb_contract_hash := pm_contract_hash (pb_market b),
        pb_state := source_state (pe_bids event) (pe_asks event)\<rparr>, Inr ()))"

definition perps_gap :: "PerpsSequencedBook \<Rightarrow> PerpsSequencedBook" where
  "perps_gap b = b\<lparr>pb_state := GAP\<rparr>"

definition perps_delta :: "PerpsBookDeltaEvent \<Rightarrow> datetime \<Rightarrow> (PerpsSequencedBook, bool) handler" where
  "perps_delta event received_at b =
     (if \<not> tz_aware received_at
      then (b, Inl (ShadowResearchError ''book timestamp must be timezone-aware''))
      else if pb_state b \<notin> set [CURRENT, CROSSED] \<or> pd_sequence event \<noteq> pb_sequence b + 1
      then (perps_gap b, Inr False)
      else let levels = (if pd_side event = BID then pb_bids b else pb_asks b);
          new_size = level_after levels (pd_price event) (pd_delta event)
        in if new_size < 0 \<or> \<not> quantity_valid new_size then (perps_gap b, Inr False)
        else let levels' = set_level levels (pd_price event) new_size;
            b' = (if pd_side event = BID then b\<lparr>pb_bids := levels'\<rparr> else b\<lparr>pb_asks := levels'\<rparr>)
          in (b'\<lparr>pb_sequence := pd_sequence event,
            pb_observed_at := Some (case pd_exchange_at event of None \<Rightarrow> astimezone_utc received_at
              | Some t \<Rightarrow> t),
            pb_ingested_at := Some (astimezone_utc received_at),
            pb_state := source_state (pb_bids b') (pb_asks b')\<rparr>, Inr True))"

definition perps_invalidate_for_metadata :: "PerpsMarketMetadata \<Rightarrow> (PerpsSequencedBook, bool) handler" where
  "perps_invalidate_for_metadata market b =
     (if pm_ticker market \<noteq> pm_ticker (pb_market b)
      then (b, Inl (ShadowResearchError ''metadata ticker mismatch''))
      else if pb_contract_hash b \<noteq> pm_contract_hash market
      then (b\<lparr>pb_market := market, pb_state := STALE\<rparr>, Inr True)
      else (b\<lparr>pb_market := market\<rparr>, Inr False))"

definition mark_stale :: "PerpsSequencedBook \<Rightarrow> PerpsSequencedBook" where
  "mark_stale b = b\<lparr>pb_state := STALE\<rparr>"

record PerpsBookView =
  vw_ticker :: string
  vw_sequence :: int
  vw_bids :: levels
  vw_asks :: levels
  vw_best_bid :: "decimal option"
  vw_best_ask :: "decimal option"
  vw_best_bid_size :: "decimal option"
  vw_best_ask_size :: "decimal option"
  vw_state :: PerpsBookState
  vw_observed_at :: "instant option"
  vw_ingested_at :: "instant option"
  vw_full_book_hash :: string

definition usable :: "PerpsBookView \<Rightarrow> bool" where
  "usable v \<longleftrightarrow> vw_state v = CURRENT \<and> (vw_best_bid v \<noteq> None \<or> vw_best_ask v \<noteq> None)"

definition levels_payload :: "levels \<Rightarrow> hashable" where
  "levels_payload ls = HList (map (\<lambda>(p, q). HList [HDec p, HDec q]) ls)"

definition first_level :: "levels \<Rightarrow> (decimal \<times> decimal) option" where
  "first_level ls = (case ls of [] \<Rightarrow> None | l # _ \<Rightarrow> Some l)"

definition perps_view :: "digest_fn \<Rightarrow> datetime \<Rightarrow> duration \<Rightarrow> PerpsSequencedBook \<Rightarrow> PerpsBookView result" where
  "perps_view dig now stale_after b =
     (if \<not> tz_aware now then Inl (ShadowResearchError ''book timestamp must be timezone-aware'')
      else let state = (case pb_observed_at b of None \<Rightarrow> pb_state b
            | Some t \<Rightarrow> if pb_state b = CURRENT \<and> astimezone_utc now - t > stale_after then STALE
                else pb_state b);
          bids = rev (sort (pb_bids b)); asks = sort (pb_asks b)
        in Inr \<lparr>vw_ticker = pm_ticker (pb_market b), vw_sequence = pb_sequence b, vw_bids = bids,
          vw_asks = asks, vw_best_bid = map_option fst (first_level bids),
          vw_best_ask = map_option fst (first_level asks),
          vw_best_bid_size = map_option snd (first_level bids),
          vw_best_ask_size = map_option snd (first_level asks), vw_state = state,
          vw_observed_at = pb_observed_at b, vw_ingested_at = pb_ingested_at b,
          vw_full_book_hash = canonical_hash dig (HObj
            [(''ticker'', HStr (pm_ticker (pb_market b))), (''sequence'', HInt (pb_sequence b)),
             (''bids'', levels_payload bids), (''asks'', levels_payload asks)])\<rparr>)"

end
