(* ===== verification/Perps_Evidence.thy ===== *)
theory Perps_Evidence
  imports Perps_Book
begin

text \<open>
  \<open>services/perps_shadow_research/perps_evidence.py\<close>: the observations recorded from a book and
  from a ticker, with their \<open>__post_init__\<close> and the identity each carries. A dataclass normalizes
  its times to UTC, which leaves an aware time the instant it is.
\<close>

datatype PerpsUpdateKind = SNAPSHOT | DELTA

datatype PerpsBookEvent = SnapshotEvent PerpsBookSnapshotEvent | DeltaEvent PerpsBookDeltaEvent

definition perps_utc :: "datetime \<Rightarrow> string \<Rightarrow> datetime result" where
  "perps_utc v field = (if \<not> tz_aware v
     then Inl (ShadowResearchError (field @ '' must be timezone-aware'')) else Inr v)"

definition perps_time :: "datetime \<Rightarrow> hashable" where
  "perps_time t = (case t of Aware i \<Rightarrow> HTime i | Naive i \<Rightarrow> HList [HTime i])"

definition perps_uuid :: "int \<Rightarrow> hashable" where
  "perps_uuid u = HObj [(''$uuid'', HInt u)]"

definition perps_book_fingerprint :: "digest_fn \<Rightarrow> PerpsBookEvent \<Rightarrow> string" where
  "perps_book_fingerprint dig event = (case event of
     SnapshotEvent e \<Rightarrow> canonical_hash dig (HObj [(''ticker'', HStr (pe_ticker e)), (''sid'', HInt (pe_sid e)),
       (''sequence'', HInt (pe_sequence e)), (''kind'', HStr ''SNAPSHOT''),
       (''bids'', levels_payload (pe_bids e)), (''asks'', levels_payload (pe_asks e))])
   | DeltaEvent e \<Rightarrow> canonical_hash dig (HObj [(''ticker'', HStr (pd_ticker e)), (''sid'', HInt (pd_sid e)),
       (''sequence'', HInt (pd_sequence e)), (''kind'', HStr ''DELTA''), (''price'', HDec (pd_price e)),
       (''delta'', HDec (pd_delta e)), (''side'', HStr (PerpsBookSide_value (pd_side e))),
       (''exchange_at'', hopt HTime (pd_exchange_at e)),
       (''last_update_reason'', hopt HStr (pd_last_update_reason e))]))"

definition stamp_payload :: "TimestampedPrice \<Rightarrow> hashable" where
  "stamp_payload t = HObj [(''price'', HDec (tp_price t)), (''ts_ms'', HInt (tp_ts_ms t))]"

definition funding_payload :: "FundingRate \<Rightarrow> hashable" where
  "funding_payload f = HObj [(''rate'', HDec (fu_rate f)),
     (''next_funding_time_ms'', HInt (fu_next_funding_time_ms f)), (''ts_ms'', HInt (fu_ts_ms f))]"

definition perps_ticker_fingerprint :: "digest_fn \<Rightarrow> PerpsTickerEvent \<Rightarrow> string" where
  "perps_ticker_fingerprint dig e = canonical_hash dig (HObj
     [(''sid'', HInt (pt_sid e)), (''ticker'', HStr (pt_ticker e)), (''ts_ms'', HInt (pt_ts_ms e)),
      (''sending_ts_ms'', hopt HInt (pt_sending_ts_ms e)), (''price'', HDec (pt_price e)),
      (''bid'', HDec (pt_bid e)), (''ask'', HDec (pt_ask e)), (''bid_size'', HDec (pt_bid_size e)),
      (''ask_size'', HDec (pt_ask_size e)), (''last_trade_size'', HDec (pt_last_trade_size e)),
      (''volume'', HDec (pt_volume e)),
      (''volume_notional_value_dollars'', HDec (pt_volume_notional e)),
      (''volume_24h'', HDec (pt_volume_24h e)),
      (''volume_24h_notional_value_dollars'', HDec (pt_volume_24h_notional e)),
      (''open_interest'', HDec (pt_open_interest e)),
      (''open_interest_notional_value_dollars'', HDec (pt_open_interest_notional e)),
      (''reference_price'', hopt stamp_payload (pt_reference_price e)),
      (''settlement_mark_price'', hopt stamp_payload (pt_settlement_mark_price e)),
      (''liquidation_mark_price'', hopt stamp_payload (pt_liquidation_mark_price e)),
      (''funding_rate'', hopt funding_payload (pt_funding_rate e))])"

section \<open>Book evidence\<close>

record PerpsBookEvidence =
  bo_evidence_id :: string
  bo_update_kind :: PerpsUpdateKind
  bo_ticker :: string
  bo_exchange_index :: int
  bo_market_version :: "int option"
  bo_underlying_multiplier :: decimal
  bo_connection_epoch :: int
  bo_sid :: int
  bo_sequence :: int
  bo_source_event_fingerprint :: string
  bo_asyncapi_sha256 :: string
  bo_book_state :: PerpsBookState
  bo_best_bid :: "decimal option"
  bo_best_ask :: "decimal option"
  bo_best_bid_size :: "decimal option"
  bo_best_ask_size :: "decimal option"
  bo_exchange_at :: "datetime option"
  bo_received_at :: datetime
  bo_available_at :: datetime
  bo_tick_size :: decimal
  bo_contract_size :: decimal
  bo_fractional_trading_enabled :: bool
  bo_perps_contract_hash :: string
  bo_market_metadata_hash :: string
  bo_full_book_hash :: string
  bo_production_influence :: decimal

definition update_kind_value :: "PerpsUpdateKind \<Rightarrow> string" where
  "update_kind_value k = (case k of SNAPSHOT \<Rightarrow> ''SNAPSHOT'' | DELTA \<Rightarrow> ''DELTA'')"

definition perps_state_value :: "PerpsBookState \<Rightarrow> string" where
  "perps_state_value s = (case s of EMPTY \<Rightarrow> ''EMPTY'' | CURRENT \<Rightarrow> ''CURRENT'' | CROSSED \<Rightarrow> ''CROSSED''
     | GAP \<Rightarrow> ''GAP'' | STALE \<Rightarrow> ''STALE'')"

definition book_identity :: "digest_fn \<Rightarrow> PerpsBookEvidence \<Rightarrow> string" where
  "book_identity dig b = canonical_hash dig (HObj
     [(''update_kind'', HStr (update_kind_value (bo_update_kind b))), (''ticker'', HStr (bo_ticker b)),
      (''exchange_index'', HInt (bo_exchange_index b)),
      (''market_version'', hopt HInt (bo_market_version b)),
      (''underlying_multiplier'', HDec (bo_underlying_multiplier b)),
      (''connection_epoch'', perps_uuid (bo_connection_epoch b)), (''sid'', HInt (bo_sid b)),
      (''sequence'', HInt (bo_sequence b)),
      (''source_event_fingerprint'', HStr (bo_source_event_fingerprint b)),
      (''asyncapi_sha256'', HStr (bo_asyncapi_sha256 b)),
      (''book_state'', HStr (perps_state_value (bo_book_state b))),
      (''best_bid'', hopt HDec (bo_best_bid b)), (''best_ask'', hopt HDec (bo_best_ask b)),
      (''best_bid_size'', hopt HDec (bo_best_bid_size b)),
      (''best_ask_size'', hopt HDec (bo_best_ask_size b)),
      (''exchange_at'', hopt perps_time (bo_exchange_at b)),
      (''received_at'', perps_time (bo_received_at b)), (''available_at'', perps_time (bo_available_at b)),
      (''tick_size'', HDec (bo_tick_size b)), (''contract_size'', HDec (bo_contract_size b)),
      (''fractional_trading_enabled'', HBool (bo_fractional_trading_enabled b)),
      (''perps_contract_hash'', HStr (bo_perps_contract_hash b)),
      (''market_metadata_hash'', HStr (bo_market_metadata_hash b)),
      (''full_book_hash'', HStr (bo_full_book_hash b)),
      (''production_influence'', HDec (bo_production_influence b))])"

definition top_invalid :: "decimal option \<Rightarrow> decimal option \<Rightarrow> bool" where
  "top_invalid price sz \<longleftrightarrow> (price = None) \<noteq> (sz = None) \<or>
     (case price of None \<Rightarrow> False | Some p \<Rightarrow> p \<le> 0 \<or> (case sz of None \<Rightarrow> True | Some s \<Rightarrow> s \<le> 0))"

definition version_invalid :: "int option \<Rightarrow> bool" where
  "version_invalid v \<longleftrightarrow> (case v of None \<Rightarrow> False | Some n \<Rightarrow> n < 1)"

definition PerpsBookEvidence_post_init :: "digest_fn \<Rightarrow> PerpsBookEvidence \<Rightarrow> PerpsBookEvidence result" where
  "PerpsBookEvidence_post_init dig b =
     (if bo_exchange_index b < 0 \<or> version_invalid (bo_market_version b) \<or>
        bo_underlying_multiplier b \<le> 0 \<or> bo_sid b < 1 \<or> bo_sequence b < 1
      then Inl (ShadowResearchError ''invalid Perps evidence identity'')
      else if bo_connection_epoch b = 0
      then Inl (ShadowResearchError ''non-zero connection epoch required'')
      else if bo_book_state b \<noteq> CURRENT
      then Inl (ShadowResearchError ''only current, uncrossed Perps books are evidence'')
      else rbind (perps_utc (bo_received_at b) ''received_at'') (\<lambda>received.
        rbind (perps_utc (bo_available_at b) ''available_at'') (\<lambda>available.
        rbind (case bo_exchange_at b of None \<Rightarrow> Inr None
          | Some t \<Rightarrow> rbind (perps_utc t ''exchange_at'') (\<lambda>u. Inr (Some u))) (\<lambda>_.
        if astimezone_utc received > astimezone_utc available
        then Inl (ShadowResearchError ''received_at must not exceed available_at'')
        else if bo_best_bid b = None \<and> bo_best_ask b = None
        then Inl (ShadowResearchError ''at least one Perps book side is required'')
        else if top_invalid (bo_best_bid b) (bo_best_bid_size b) \<or>
          top_invalid (bo_best_ask b) (bo_best_ask_size b)
        then Inl (ShadowResearchError ''invalid Perps top of book'')
        else if bo_production_influence b \<noteq> 0
        then Inl (ShadowResearchError ''Perps evidence production influence must be zero'')
        else if list_ex (\<lambda>d. length d \<noteq> 64) [bo_source_event_fingerprint b, bo_asyncapi_sha256 b,
          bo_perps_contract_hash b, bo_market_metadata_hash b, bo_full_book_hash b]
        then Inl (ShadowResearchError ''evidence hashes must be SHA-256'')
        else if bo_evidence_id b \<noteq> book_identity dig b
        then Inl (ShadowResearchError ''evidence_id does not match canonical payload'')
        else Inr b))))"

definition event_ticker :: "PerpsBookEvent \<Rightarrow> string" where
  "event_ticker e = (case e of SnapshotEvent s \<Rightarrow> pe_ticker s | DeltaEvent d \<Rightarrow> pd_ticker d)"

definition event_sid :: "PerpsBookEvent \<Rightarrow> int" where
  "event_sid e = (case e of SnapshotEvent s \<Rightarrow> pe_sid s | DeltaEvent d \<Rightarrow> pd_sid d)"

definition event_sequence :: "PerpsBookEvent \<Rightarrow> int" where
  "event_sequence e = (case e of SnapshotEvent s \<Rightarrow> pe_sequence s | DeltaEvent d \<Rightarrow> pd_sequence d)"

definition PerpsBookEvidence_create :: "digest_fn \<Rightarrow> PerpsBookEvent \<Rightarrow> PerpsMarketMetadata \<Rightarrow> int \<Rightarrow>
    PerpsBookView \<Rightarrow> datetime \<Rightarrow> datetime \<Rightarrow> PerpsBookEvidence result" where
  "PerpsBookEvidence_create dig event market epoch shown received_at ready_at =
     (let b = \<lparr>bo_evidence_id = '''',
        bo_update_kind = (case event of SnapshotEvent _ \<Rightarrow> SNAPSHOT | DeltaEvent _ \<Rightarrow> DELTA),
        bo_ticker = event_ticker event, bo_exchange_index = pm_exchange_index market,
        bo_market_version = pm_market_version market,
        bo_underlying_multiplier = pm_underlying_multiplier market, bo_connection_epoch = epoch,
        bo_sid = event_sid event, bo_sequence = event_sequence event,
        bo_source_event_fingerprint = perps_book_fingerprint dig event,
        bo_asyncapi_sha256 = ASYNCAPI_SHA256, bo_book_state = vw_state shown,
        bo_best_bid = vw_best_bid shown, bo_best_ask = vw_best_ask shown,
        bo_best_bid_size = vw_best_bid_size shown, bo_best_ask_size = vw_best_ask_size shown,
        bo_exchange_at = (case event of SnapshotEvent _ \<Rightarrow> None
          | DeltaEvent d \<Rightarrow> map_option Aware (pd_exchange_at d)),
        bo_received_at = received_at, bo_available_at = ready_at,
        bo_tick_size = pm_tick_size market, bo_contract_size = pm_contract_size market,
        bo_fractional_trading_enabled = pm_fractional_trading_enabled market,
        bo_perps_contract_hash = pm_contract_hash market,
        bo_market_metadata_hash = pm_metadata_hash market, bo_full_book_hash = vw_full_book_hash shown,
        bo_production_influence = 0\<rparr>
      in PerpsBookEvidence_post_init dig (b\<lparr>bo_evidence_id := book_identity dig b\<rparr>))"

section \<open>Market-state evidence\<close>

record PerpsMarketState =
  ms_evidence_id :: string
  ms_ticker :: string
  ms_exchange_index :: int
  ms_market_version :: "int option"
  ms_underlying_multiplier :: decimal
  ms_asset_class :: "string option"
  ms_connection_epoch :: int
  ms_sid :: int
  ms_source_fingerprint :: string
  ms_asyncapi_sha256 :: string
  ms_ticker_ts_ms :: int
  ms_sending_ts_ms :: "int option"
  ms_received_at :: datetime
  ms_available_at :: datetime
  ms_amounts :: "decimal list"
  ms_reference_price :: "TimestampedPrice option"
  ms_settlement_mark_price :: "TimestampedPrice option"
  ms_liquidation_mark_price :: "TimestampedPrice option"
  ms_funding_rate :: "decimal option"
  ms_funding_observed_ts_ms :: "int option"
  ms_next_funding_time_ms :: "int option"
  ms_market_metadata_hash :: string
  ms_production_influence :: decimal

text \<open>The twelve decimals from \<open>price\<close> to \<open>open_interest_notional_value_dollars\<close>, in that order.\<close>

definition amount_names :: "string list" where
  "amount_names = [''price'', ''bid'', ''ask'', ''bid_size'', ''ask_size'', ''last_trade_size'', ''volume'',
     ''volume_notional_value_dollars'', ''volume_24h'', ''volume_24h_notional_value_dollars'',
     ''open_interest'', ''open_interest_notional_value_dollars'']"

definition state_identity :: "digest_fn \<Rightarrow> PerpsMarketState \<Rightarrow> string" where
  "state_identity dig s = canonical_hash dig (HObj
     ([(''ticker'', HStr (ms_ticker s)), (''exchange_index'', HInt (ms_exchange_index s)),
       (''market_version'', hopt HInt (ms_market_version s)),
       (''underlying_multiplier'', HDec (ms_underlying_multiplier s)),
       (''asset_class'', hopt HStr (ms_asset_class s)),
       (''connection_epoch'', perps_uuid (ms_connection_epoch s)), (''sid'', HInt (ms_sid s)),
       (''source_fingerprint'', HStr (ms_source_fingerprint s)),
       (''asyncapi_sha256'', HStr (ms_asyncapi_sha256 s)), (''ticker_ts_ms'', HInt (ms_ticker_ts_ms s)),
       (''sending_ts_ms'', hopt HInt (ms_sending_ts_ms s)),
       (''received_at'', perps_time (ms_received_at s)), (''available_at'', perps_time (ms_available_at s))] @
      zip amount_names (map HDec (ms_amounts s)) @
      [(''reference_price'', hopt stamp_payload (ms_reference_price s)),
       (''settlement_mark_price'', hopt stamp_payload (ms_settlement_mark_price s)),
       (''liquidation_mark_price'', hopt stamp_payload (ms_liquidation_mark_price s)),
       (''funding_rate'', hopt HDec (ms_funding_rate s)),
       (''funding_observed_ts_ms'', hopt HInt (ms_funding_observed_ts_ms s)),
       (''next_funding_time_ms'', hopt HInt (ms_next_funding_time_ms s)),
       (''market_metadata_hash'', HStr (ms_market_metadata_hash s)),
       (''production_influence'', HDec (ms_production_influence s))]))"

definition PerpsMarketState_post_init :: "digest_fn \<Rightarrow> PerpsMarketState \<Rightarrow> PerpsMarketState result" where
  "PerpsMarketState_post_init dig s =
     (if ms_exchange_index s < 0 \<or> version_invalid (ms_market_version s) \<or>
        ms_underlying_multiplier s \<le> 0 \<or> ms_sid s < 1 \<or> ms_ticker_ts_ms s < 0 \<or>
        (case ms_sending_ts_ms s of None \<Rightarrow> False | Some n \<Rightarrow> n < 0)
      then Inl (ShadowResearchError ''invalid ticker identity'')
      else if ms_asset_class s = Some [] then Inl (ShadowResearchError ''invalid asset_class'')
      else if ms_connection_epoch s = 0 then Inl (ShadowResearchError ''non-zero ticker epoch required'')
      else if \<not> is_sha256 (ms_asyncapi_sha256 s)
      then Inl (ShadowResearchError ''ticker evidence AsyncAPI checksum must be SHA-256'')
      else rbind (perps_utc (ms_received_at s) ''received_at'') (\<lambda>received.
        rbind (perps_utc (ms_available_at s) ''available_at'') (\<lambda>available.
        if astimezone_utc received > astimezone_utc available
        then Inl (ShadowResearchError ''received_at must not exceed available_at'')
        else if ms_production_influence s \<noteq> 0
        then Inl (ShadowResearchError ''Perps market state production influence must be zero'')
        else if ms_evidence_id s \<noteq> state_identity dig s
        then Inl (ShadowResearchError ''evidence_id does not match canonical payload'')
        else Inr s)))"

definition PerpsMarketState_create :: "digest_fn \<Rightarrow> PerpsTickerEvent \<Rightarrow> PerpsMarketMetadata \<Rightarrow> int \<Rightarrow>
    datetime \<Rightarrow> datetime \<Rightarrow> PerpsMarketState result" where
  "PerpsMarketState_create dig event market epoch received_at ready_at =
     (let s = \<lparr>ms_evidence_id = '''', ms_ticker = pt_ticker event,
        ms_exchange_index = pm_exchange_index market, ms_market_version = pm_market_version market,
        ms_underlying_multiplier = pm_underlying_multiplier market,
        ms_asset_class = pm_asset_class market, ms_connection_epoch = epoch, ms_sid = pt_sid event,
        ms_source_fingerprint = perps_ticker_fingerprint dig event,
        ms_asyncapi_sha256 = ASYNCAPI_SHA256, ms_ticker_ts_ms = pt_ts_ms event,
        ms_sending_ts_ms = pt_sending_ts_ms event, ms_received_at = received_at,
        ms_available_at = ready_at,
        ms_amounts = [pt_price event, pt_bid event, pt_ask event, pt_bid_size event, pt_ask_size event,
          pt_last_trade_size event, pt_volume event, pt_volume_notional event, pt_volume_24h event,
          pt_volume_24h_notional event, pt_open_interest event, pt_open_interest_notional event],
        ms_reference_price = pt_reference_price event,
        ms_settlement_mark_price = pt_settlement_mark_price event,
        ms_liquidation_mark_price = pt_liquidation_mark_price event,
        ms_funding_rate = map_option fu_rate (pt_funding_rate event),
        ms_funding_observed_ts_ms = map_option fu_ts_ms (pt_funding_rate event),
        ms_next_funding_time_ms = map_option fu_next_funding_time_ms (pt_funding_rate event),
        ms_market_metadata_hash = pm_metadata_hash market, ms_production_influence = 0\<rparr>
      in PerpsMarketState_post_init dig (s\<lparr>ms_evidence_id := state_identity dig s\<rparr>))"

end
