(* ===== verification/Perps_Lag.thy ===== *)
theory Perps_Lag
  imports Perps_Evidence
begin

text \<open>
  \<open>services/perps_shadow_research/reference_lag.py\<close>: a reference impulse between two ticker
  observations and the repricing of the book after it at the frozen horizons, measured only when the
  stream is continuous through the horizon; \<open>edge_decay.py\<close> with its part of \<open>domain.py\<close>.
\<close>

definition PHASE0_HORIZONS_MS :: "int list" where
  "PHASE0_HORIZONS_MS = [1000, 2000, 5000, 10000]"

definition MAX_BOOK_AGE_MS :: int where
  "MAX_BOOK_AGE_MS = 30000"

datatype ReferenceMove = UP | DOWN

datatype HorizonStatus = MEASURED | NO_BASELINE_BOOK | STALE_BASELINE_BOOK | STALE_HORIZON_BOOK
  | STREAM_BOUNDARY_WITHIN_HORIZON | NO_CONTINUITY_WITNESS | SEQUENCE_GAP | NO_COMPARABLE_QUOTE

section \<open>Reference impulses\<close>

record ReferenceImpulse =
  ri_impulse_id :: string
  ri_ticker :: string
  ri_exchange_index :: int
  ri_market_version :: "int option"
  ri_underlying_multiplier :: decimal
  ri_market_metadata_hash :: string
  ri_previous_evidence_id :: string
  ri_current_evidence_id :: string
  ri_connection_epoch :: int
  ri_ticker_sid :: int
  ri_previous_reference_price :: decimal
  ri_reference_price :: decimal
  ri_previous_source_ts_ms :: int
  ri_source_ts_ms :: int
  ri_available_at :: datetime
  ri_reference_change :: decimal
  ri_reference_change_bps :: decimal
  ri_reference_move :: ReferenceMove
  ri_production_influence :: decimal

definition impulse_identity :: "digest_fn \<Rightarrow> ReferenceImpulse \<Rightarrow> string" where
  "impulse_identity dig i = canonical_hash dig (HObj
     [(''ticker'', HStr (ri_ticker i)), (''exchange_index'', HInt (ri_exchange_index i)),
      (''market_version'', hopt HInt (ri_market_version i)),
      (''underlying_multiplier'', HDec (ri_underlying_multiplier i)),
      (''market_metadata_hash'', HStr (ri_market_metadata_hash i)),
      (''previous_market_state_evidence_id'', HStr (ri_previous_evidence_id i)),
      (''current_market_state_evidence_id'', HStr (ri_current_evidence_id i)),
      (''connection_epoch'', perps_uuid (ri_connection_epoch i)),
      (''ticker_sid'', HInt (ri_ticker_sid i)),
      (''previous_reference_price'', HDec (ri_previous_reference_price i)),
      (''reference_price'', HDec (ri_reference_price i)),
      (''previous_source_ts_ms'', HInt (ri_previous_source_ts_ms i)),
      (''source_ts_ms'', HInt (ri_source_ts_ms i)), (''available_at'', perps_time (ri_available_at i)),
      (''reference_change'', HDec (ri_reference_change i)),
      (''reference_change_bps'', HDec (ri_reference_change_bps i)),
      (''reference_move'', HStr (case ri_reference_move i of UP \<Rightarrow> ''UP'' | DOWN \<Rightarrow> ''DOWN'')),
      (''production_influence'', HDec (ri_production_influence i))])"

definition ReferenceImpulse_post_init :: "digest_fn \<Rightarrow> ReferenceImpulse \<Rightarrow> ReferenceImpulse result" where
  "ReferenceImpulse_post_init dig i =
     (if ri_production_influence i \<noteq> 0
      then Inl (ShadowResearchError ''reference-lag research cannot have production influence'')
      else if ri_reference_price i \<le> 0 \<or> ri_previous_reference_price i \<le> 0
      then Inl (ShadowResearchError ''reference prices must be positive'')
      else if ri_underlying_multiplier i \<le> 0
      then Inl (ShadowResearchError ''reference impulse underlying_multiplier must be positive'')
      else if ri_source_ts_ms i \<le> ri_previous_source_ts_ms i
      then Inl (ShadowResearchError ''reference source timestamps must increase'')
      else if \<not> tz_aware (ri_available_at i)
      then Inl (ShadowResearchError ''impulse available_at must be timezone-aware'')
      else if ri_connection_epoch i = 0
      then Inl (ShadowResearchError ''reference impulse requires a non-zero connection epoch'')
      else if ri_ticker_sid i < 1
      then Inl (ShadowResearchError ''reference impulse ticker sid must be a positive integer'')
      else if \<not> is_sha256 (ri_previous_evidence_id i) \<or> \<not> is_sha256 (ri_current_evidence_id i)
      then Inl (ShadowResearchError ''reference impulse evidence IDs must be SHA-256'')
      else let change = ri_reference_price i - ri_previous_reference_price i in
        if ri_reference_change i \<noteq> change \<or> ri_reference_change i = 0
        then Inl (ShadowResearchError ''reference impulse must preserve a nonzero exact change'')
        else if ri_reference_change_bps i \<noteq> change / ri_previous_reference_price i * 10000
        then Inl (ShadowResearchError ''reference change bps contradicts exact prices'')
        else if ri_reference_move i \<noteq> (if change > 0 then UP else DOWN)
        then Inl (ShadowResearchError ''reference impulse move contradicts exact change'')
        else if ri_impulse_id i \<noteq> impulse_identity dig i
        then Inl (ShadowResearchError ''reference impulse id does not match canonical payload'')
        else Inr i)"

text \<open>The impulse of two observations whose reference prices are \<open>before\<close> and \<open>after\<close>.\<close>

definition impulse_of :: "digest_fn \<Rightarrow> PerpsMarketState \<Rightarrow> PerpsMarketState \<Rightarrow> TimestampedPrice \<Rightarrow>
    TimestampedPrice \<Rightarrow> ReferenceImpulse" where
  "impulse_of dig previous current before after =
     (let change = tp_price after - tp_price before;
          i = \<lparr>ri_impulse_id = '''', ri_ticker = ms_ticker current,
            ri_exchange_index = ms_exchange_index current,
            ri_market_version = ms_market_version current,
            ri_underlying_multiplier = ms_underlying_multiplier current,
            ri_market_metadata_hash = ms_market_metadata_hash current,
            ri_previous_evidence_id = ms_evidence_id previous,
            ri_current_evidence_id = ms_evidence_id current,
            ri_connection_epoch = ms_connection_epoch current, ri_ticker_sid = ms_sid current,
            ri_previous_reference_price = tp_price before, ri_reference_price = tp_price after,
            ri_previous_source_ts_ms = tp_ts_ms before, ri_source_ts_ms = tp_ts_ms after,
            ri_available_at = ms_available_at current, ri_reference_change = change,
            ri_reference_change_bps = change / tp_price before * 10000,
            ri_reference_move = (if change > 0 then UP else DOWN), ri_production_influence = 0\<rparr>
      in i\<lparr>ri_impulse_id := impulse_identity dig i\<rparr>)"

definition same_contract :: "PerpsMarketState \<Rightarrow> PerpsMarketState \<Rightarrow> bool" where
  "same_contract previous current \<longleftrightarrow> ms_ticker previous = ms_ticker current \<and>
     ms_exchange_index previous = ms_exchange_index current \<and>
     ms_market_version previous = ms_market_version current \<and>
     ms_market_metadata_hash previous = ms_market_metadata_hash current \<and>
     ms_underlying_multiplier previous = ms_underlying_multiplier current"

definition build_reference_impulse :: "digest_fn \<Rightarrow> PerpsMarketState \<Rightarrow> PerpsMarketState \<Rightarrow>
    ReferenceImpulse option result" where
  "build_reference_impulse dig previous current =
     (if ms_connection_epoch previous \<noteq> ms_connection_epoch current \<or> ms_sid previous \<noteq> ms_sid current
      then Inl (ShadowResearchError
        ''reference observations cross a connection/subscription boundary'')
      else if \<not> same_contract previous current
      then Inl (ShadowResearchError ''reference observations cross a market-contract boundary'')
      else case (ms_reference_price previous, ms_reference_price current) of
        (Some before, Some after) \<Rightarrow>
          if astimezone_utc (ms_available_at previous) > astimezone_utc (ms_available_at current)
          then Inl (ShadowResearchError ''reference evidence availability must be monotonic'')
          else if tp_ts_ms before \<ge> tp_ts_ms after
          then Inl (ShadowResearchError ''reference source timestamps must be strictly increasing'')
          else rbind (from_milliseconds (tp_ts_ms before)) (\<lambda>previous_at.
            rbind (from_milliseconds (tp_ts_ms after)) (\<lambda>current_at.
            if previous_at > astimezone_utc (ms_available_at previous) \<or>
              current_at > astimezone_utc (ms_available_at current)
            then Inl (ShadowResearchError ''reference source timestamp is after local availability'')
            else if tp_price after - tp_price before = 0 then Inr None
            else if tp_price before = 0 then Inl (ValueError ''DivisionByZero'')
            else rbind (ReferenceImpulse_post_init dig (impulse_of dig previous current before after))
              (\<lambda>i. Inr (Some i))))
      | _ \<Rightarrow> Inl (ShadowResearchError ''Phase-0 reference lag requires market-bound reference_price''))"

section \<open>Measurements\<close>

record LagMeasurement =
  lm_impulse_id :: string
  lm_ticker :: string
  lm_horizon_ms :: int
  lm_status :: HorizonStatus
  lm_baseline_id :: "string option"
  lm_horizon_id :: "string option"
  lm_baseline_available_at :: "instant option"
  lm_cutoff_at :: instant
  lm_horizon_available_at :: "instant option"
  lm_witness_id :: "string option"
  lm_witness_available_at :: "instant option"
  lm_bid_change :: "decimal option"
  lm_ask_change :: "decimal option"
  lm_midpoint_change :: "decimal option"
  lm_midpoint_change_bps :: "decimal option"
  lm_production_influence :: decimal

definition id_invalid :: "string option \<Rightarrow> bool" where
  "id_invalid v \<longleftrightarrow> (case v of None \<Rightarrow> False | Some s \<Rightarrow> \<not> is_sha256 s)"

definition LagMeasurement_post_init :: "LagMeasurement \<Rightarrow> LagMeasurement result" where
  "LagMeasurement_post_init m =
     (if lm_horizon_ms m \<notin> set PHASE0_HORIZONS_MS
      then Inl (ShadowResearchError ''horizon is outside frozen Phase-0 grid'')
      else if lm_production_influence m \<noteq> 0
      then Inl (ShadowResearchError ''reference-lag measurement cannot have production influence'')
      else if list_ex id_invalid [lm_baseline_id m, lm_horizon_id m, lm_witness_id m]
      then Inl (ShadowResearchError ''evidence id must be SHA-256 when present'')
      else if lm_status m = MEASURED
      then (case (lm_baseline_id m, lm_horizon_id m, lm_baseline_available_at m,
          lm_horizon_available_at m, lm_witness_id m, lm_witness_available_at m) of
          (Some _, Some _, Some _, Some horizon_at, Some _, Some witness_at) \<Rightarrow>
            if horizon_at > lm_cutoff_at m
            then Inl (ShadowResearchError ''measured horizon book must be available by cutoff'')
            else if witness_at \<le> lm_cutoff_at m
            then Inl (ShadowResearchError ''continuity witness must be available after cutoff'')
            else if lm_bid_change m = None \<and> lm_ask_change m = None \<and> lm_midpoint_change m = None
            then Inl (ShadowResearchError ''measured lag row requires a comparable quote'')
            else Inr m
        | _ \<Rightarrow> Inl (ShadowResearchError
            ''measured lag row requires baseline, horizon, and continuity witness identities''))
      else if lm_bid_change m \<noteq> None \<or> lm_ask_change m \<noteq> None \<or> lm_midpoint_change m \<noteq> None \<or>
        lm_midpoint_change_bps m \<noteq> None
      then Inl (ShadowResearchError ''abstained lag row cannot contain repricing values'')
      else Inr m)"

definition available :: "PerpsBookEvidence \<Rightarrow> instant" where
  "available b = astimezone_utc (bo_available_at b)"

definition midpoint :: "PerpsBookEvidence \<Rightarrow> decimal option" where
  "midpoint book = (case (bo_best_bid book, bo_best_ask book) of
     (Some bid, Some ask) \<Rightarrow> Some ((bid + ask) / 2) | _ \<Rightarrow> None)"

definition foreign_book :: "ReferenceImpulse \<Rightarrow> PerpsBookEvidence \<Rightarrow> bool" where
  "foreign_book impulse book \<longleftrightarrow> bo_ticker book \<noteq> ri_ticker impulse \<or>
     bo_exchange_index book \<noteq> ri_exchange_index impulse \<or>
     bo_market_version book \<noteq> ri_market_version impulse \<or>
     bo_underlying_multiplier book \<noteq> ri_underlying_multiplier impulse \<or>
     bo_market_metadata_hash book \<noteq> ri_market_metadata_hash impulse"

definition book_key :: "PerpsBookEvidence \<Rightarrow> instant \<times> int \<times> string" where
  "book_key b = (available b, bo_sequence b, bo_evidence_id b)"

definition candidate_books :: "ReferenceImpulse \<Rightarrow> PerpsBookEvidence list \<Rightarrow>
    PerpsBookEvidence list result" where
  "candidate_books impulse books = (if list_ex (foreign_book impulse) books
     then Inl (ShadowResearchError ''book evidence crosses reference-impulse contract identity'')
     else Inr (sort_key book_key books))"

definition age_ms :: "instant \<Rightarrow> instant \<Rightarrow> int result" where
  "age_ms earlier later =
     (let microseconds = later - earlier in
      if microseconds < 0
      then Inl (ShadowResearchError ''book availability cannot be after evaluation cutoff'')
      else Inr (if microseconds mod 1000 \<noteq> 0 then microseconds div 1000 + 1 else microseconds div 1000))"

definition abstention :: "ReferenceImpulse \<Rightarrow> int \<Rightarrow> HorizonStatus \<Rightarrow> instant \<Rightarrow>
    PerpsBookEvidence option \<Rightarrow> PerpsBookEvidence option \<Rightarrow> PerpsBookEvidence option \<Rightarrow>
    LagMeasurement result" where
  "abstention impulse horizon_ms status cutoff baseline horizon witness = LagMeasurement_post_init
     \<lparr>lm_impulse_id = ri_impulse_id impulse, lm_ticker = ri_ticker impulse, lm_horizon_ms = horizon_ms,
      lm_status = status, lm_baseline_id = map_option bo_evidence_id baseline,
      lm_horizon_id = map_option bo_evidence_id horizon,
      lm_baseline_available_at = map_option available baseline, lm_cutoff_at = cutoff,
      lm_horizon_available_at = map_option available horizon,
      lm_witness_id = map_option bo_evidence_id witness,
      lm_witness_available_at = map_option available witness, lm_bid_change = None,
      lm_ask_change = None, lm_midpoint_change = None, lm_midpoint_change_bps = None,
      lm_production_influence = 0\<rparr>"

definition in_stream :: "PerpsBookEvidence \<Rightarrow> PerpsBookEvidence \<Rightarrow> bool" where
  "in_stream baseline item \<longleftrightarrow> bo_connection_epoch item = bo_connection_epoch baseline \<and>
     bo_sid item = bo_sid baseline"

fun nondecreasing :: "instant list \<Rightarrow> bool" where
  "nondecreasing (x # y # rest) = (x \<le> y \<and> nondecreasing (y # rest))"
| "nondecreasing _ = True"

definition has_contiguous_sequence :: "PerpsBookEvidence list \<Rightarrow> PerpsBookEvidence \<Rightarrow>
    PerpsBookEvidence \<Rightarrow> bool" where
  "has_contiguous_sequence material baseline witness =
     (let stream = sort_key bo_sequence (filter (\<lambda>item. in_stream baseline item \<and>
         bo_sequence baseline \<le> bo_sequence item \<and> bo_sequence item \<le> bo_sequence witness) material)
      in map bo_sequence stream = [bo_sequence baseline .. bo_sequence witness] \<and>
         nondecreasing (map available stream))"

definition change_of :: "decimal option \<Rightarrow> decimal option \<Rightarrow> decimal option" where
  "change_of before after = (case (before, after) of (Some x, Some y) \<Rightarrow> Some (y - x) | _ \<Rightarrow> None)"

definition bps_of :: "decimal option \<Rightarrow> decimal option \<Rightarrow> decimal option" where
  "bps_of change base = (case (change, base) of
     (Some c, Some m) \<Rightarrow> if m \<le> 0 then None else Some (c / m * 10000) | _ \<Rightarrow> None)"

text \<open>The quotes of a continuous stretch from the baseline to the witness.\<close>

definition repricing :: "ReferenceImpulse \<Rightarrow> int \<Rightarrow> instant \<Rightarrow> PerpsBookEvidence \<Rightarrow>
    PerpsBookEvidence \<Rightarrow> PerpsBookEvidence \<Rightarrow> LagMeasurement result" where
  "repricing impulse horizon_ms cutoff baseline horizon witness =
     (let bid_change = change_of (bo_best_bid baseline) (bo_best_bid horizon);
          ask_change = change_of (bo_best_ask baseline) (bo_best_ask horizon);
          midpoint_change = change_of (midpoint baseline) (midpoint horizon)
      in if bid_change = None \<and> ask_change = None \<and> midpoint_change = None
      then abstention impulse horizon_ms NO_COMPARABLE_QUOTE cutoff (Some baseline) (Some horizon)
        (Some witness)
      else LagMeasurement_post_init
        \<lparr>lm_impulse_id = ri_impulse_id impulse, lm_ticker = ri_ticker impulse,
         lm_horizon_ms = horizon_ms, lm_status = MEASURED,
         lm_baseline_id = Some (bo_evidence_id baseline), lm_horizon_id = Some (bo_evidence_id horizon),
         lm_baseline_available_at = Some (available baseline), lm_cutoff_at = cutoff,
         lm_horizon_available_at = Some (available horizon),
         lm_witness_id = Some (bo_evidence_id witness),
         lm_witness_available_at = Some (available witness), lm_bid_change = bid_change,
         lm_ask_change = ask_change, lm_midpoint_change = midpoint_change,
         lm_midpoint_change_bps = bps_of midpoint_change (midpoint baseline),
         lm_production_influence = 0\<rparr>)"

definition first_item :: "'a list \<Rightarrow> 'a option" where
  "first_item xs = (case xs of [] \<Rightarrow> None | x # _ \<Rightarrow> Some x)"

text \<open>The witness after the cutoff and the continuity of the stretch up to it.\<close>

definition measure_after :: "ReferenceImpulse \<Rightarrow> int \<Rightarrow> instant \<Rightarrow> PerpsBookEvidence list \<Rightarrow>
    PerpsBookEvidence \<Rightarrow> PerpsBookEvidence \<Rightarrow> LagMeasurement result" where
  "measure_after impulse horizon_ms cutoff material baseline horizon =
     (let same = (\<lambda>item. bo_connection_epoch item = ri_connection_epoch impulse \<and>
            bo_sid item = bo_sid baseline);
          later_boundaries = filter (\<lambda>item. available item > cutoff \<and> \<not> same item) material;
          same_stream_after = filter (\<lambda>item. same item \<and> available item > cutoff) material
      in case first_item same_stream_after of
        None \<Rightarrow> abstention impulse horizon_ms NO_CONTINUITY_WITNESS cutoff (Some baseline) (Some horizon) None
      | Some witness \<Rightarrow>
        if (case first_item later_boundaries of None \<Rightarrow> False | Some x \<Rightarrow> available x \<le> available witness)
        then abstention impulse horizon_ms NO_CONTINUITY_WITNESS cutoff (Some baseline) (Some horizon) None
        else if bo_sequence witness \<le> bo_sequence horizon \<or>
          \<not> has_contiguous_sequence material baseline witness
        then abstention impulse horizon_ms SEQUENCE_GAP cutoff (Some baseline) (Some horizon) (Some witness)
        else repricing impulse horizon_ms cutoff baseline horizon witness)"

definition measure_from :: "ReferenceImpulse \<Rightarrow> int \<Rightarrow> instant \<Rightarrow> PerpsBookEvidence list \<Rightarrow>
    PerpsBookEvidence \<Rightarrow> LagMeasurement result" where
  "measure_from impulse horizon_ms cutoff material baseline =
     rbind (age_ms (available baseline) (astimezone_utc (ri_available_at impulse))) (\<lambda>age.
       if age > MAX_BOOK_AGE_MS
       then abstention impulse horizon_ms STALE_BASELINE_BOOK cutoff (Some baseline) None None
       else let same = (\<lambda>item. bo_connection_epoch item = ri_connection_epoch impulse \<and>
              bo_sid item = bo_sid baseline);
            boundary_books = filter (\<lambda>item. astimezone_utc (ri_available_at impulse) < available item \<and>
              available item \<le> cutoff \<and> \<not> same item) material
         in if boundary_books \<noteq> []
         then abstention impulse horizon_ms STREAM_BOUNDARY_WITHIN_HORIZON cutoff (Some baseline)
           (first_item boundary_books) None
         else let horizon = last (filter (\<lambda>item. same item \<and> available item \<le> cutoff) material)
           in rbind (age_ms (available horizon) cutoff) (\<lambda>age.
             if age > MAX_BOOK_AGE_MS
             then abstention impulse horizon_ms STALE_HORIZON_BOOK cutoff (Some baseline) (Some horizon) None
             else if bo_sequence horizon < bo_sequence baseline
             then Inl (ShadowResearchError ''book sequence regressed within one stream'')
             else measure_after impulse horizon_ms cutoff material baseline horizon))"

definition measure_reference_lag_horizon :: "ReferenceImpulse \<Rightarrow> PerpsBookEvidence list \<Rightarrow> int \<Rightarrow>
    LagMeasurement result" where
  "measure_reference_lag_horizon impulse books horizon_ms =
     (if horizon_ms \<notin> set PHASE0_HORIZONS_MS
      then Inl (ShadowResearchError ''horizon is outside frozen Phase-0 grid'')
      else rbind (candidate_books impulse books) (\<lambda>material.
        let cutoff = astimezone_utc (ri_available_at impulse) + milliseconds horizon_ms;
            baseline_candidates = filter (\<lambda>item. bo_connection_epoch item = ri_connection_epoch impulse \<and>
              available item \<le> astimezone_utc (ri_available_at impulse)) material
        in if baseline_candidates = []
        then abstention impulse horizon_ms NO_BASELINE_BOOK cutoff None None None
        else measure_from impulse horizon_ms cutoff material (last baseline_candidates)))"

definition measure_reference_lag_grid :: "ReferenceImpulse \<Rightarrow> PerpsBookEvidence list \<Rightarrow>
    LagMeasurement list result" where
  "measure_reference_lag_grid impulse books =
     rmap (measure_reference_lag_horizon impulse books) PHASE0_HORIZONS_MS"
section \<open>Edge decay\<close>

datatype Direction = LONG | SHORT

definition edge_of :: "decimal \<Rightarrow> decimal \<Rightarrow> Direction \<Rightarrow> decimal" where
  "edge_of signal_value observed_value direction =
     (case direction of LONG \<Rightarrow> signal_value - observed_value | SHORT \<Rightarrow> observed_value - signal_value)"

definition exact_milliseconds :: "instant \<Rightarrow> instant \<Rightarrow> int result" where
  "exact_milliseconds begins ends = (let total_microseconds = ends - begins in
     if total_microseconds < 0
     then Inl (ShadowResearchError ''edge-decay timestamps must be monotonic'')
     else if total_microseconds mod 1000 \<noteq> 0
     then Inl (ShadowResearchError ''edge-decay timestamps must have exact millisecond precision'')
     else Inr (total_microseconds div 1000))"

record EdgeDecayObservation =
  ed_artifact_id :: string
  ed_ticker :: string
  ed_direction :: Direction
  ed_exchange_index :: int
  ed_signal_created_at :: instant
  ed_signal_available_at :: instant
  ed_decision_at :: instant
  ed_hypothetical_send_at :: instant
  ed_signal_value :: decimal
  ed_value_at_creation :: decimal
  ed_value_at_available :: decimal
  ed_value_at_decision :: decimal
  ed_value_at_hypothetical_send :: decimal
  ed_initial_edge :: decimal
  ed_available_edge :: decimal
  ed_decision_edge :: decimal
  ed_send_edge :: decimal
  ed_publication_to_available_ms :: int
  ed_available_to_decision_ms :: int
  ed_decision_to_send_ms :: int
  ed_production_influence :: decimal

definition EdgeDecayObservation_post_init :: "EdgeDecayObservation \<Rightarrow> EdgeDecayObservation result" where
  "EdgeDecayObservation_post_init d =
     (if ed_exchange_index d < 0
      then Inl (ShadowResearchError ''exchange_index must be a non-negative integer'')
      else if \<not> (ed_signal_created_at d \<le> ed_signal_available_at d \<and>
        ed_signal_available_at d \<le> ed_decision_at d \<and> ed_decision_at d \<le> ed_hypothetical_send_at d)
      then Inl (ShadowResearchError ''edge-decay timestamps must be monotonic'')
      else rbind (rmap (\<lambda>(s, e). exact_milliseconds s e)
          [(ed_signal_created_at d, ed_signal_available_at d),
           (ed_signal_available_at d, ed_decision_at d),
           (ed_decision_at d, ed_hypothetical_send_at d)]) (\<lambda>expected.
        if [ed_publication_to_available_ms d, ed_available_to_decision_ms d,
          ed_decision_to_send_ms d] \<noteq> expected
        then Inl (ShadowResearchError ''stored latencies contradict edge-decay timestamps'')
        else if [ed_initial_edge d, ed_available_edge d, ed_decision_edge d, ed_send_edge d] \<noteq>
          map (\<lambda>v. edge_of (ed_signal_value d) v (ed_direction d))
            [ed_value_at_creation d, ed_value_at_available d, ed_value_at_decision d,
             ed_value_at_hypothetical_send d]
        then Inl (ShadowResearchError ''stored edges contradict observed values or direction'')
        else if ed_production_influence d \<noteq> 0
        then Inl (ShadowResearchError ''edge-decay research cannot have production influence'')
        else Inr d))"

text \<open>The \<open>uuid4\<close> of a missing artifact identifier is the argument \<open>fresh\<close>.\<close>

record EdgeDecayRequest =
  er_ticker :: string
  er_direction :: Direction
  er_exchange_index :: int
  er_signal_created_at :: datetime
  er_signal_available_at :: datetime
  er_decision_at :: datetime
  er_hypothetical_send_at :: datetime
  er_signal_value :: decimal
  er_value_at_creation :: decimal
  er_value_at_available :: decimal
  er_value_at_decision :: decimal
  er_value_at_hypothetical_send :: decimal
  er_artifact_id :: "string option"

definition measure_edge_decay :: "string \<Rightarrow> EdgeDecayRequest \<Rightarrow> EdgeDecayObservation result" where
  "measure_edge_decay fresh q =
     (if er_ticker q = [] then Inl (ShadowResearchError ''ticker is required'')
      else rbind (perps_utc (er_signal_created_at q) ''signal_created_at'') (\<lambda>c.
        rbind (perps_utc (er_signal_available_at q) ''signal_available_at'') (\<lambda>a.
        rbind (perps_utc (er_decision_at q) ''decision_at'') (\<lambda>d.
        rbind (perps_utc (er_hypothetical_send_at q) ''hypothetical_send_at'') (\<lambda>s.
        let created = astimezone_utc c; ready = astimezone_utc a; decided = astimezone_utc d;
            sent = astimezone_utc s; edge = (\<lambda>v. edge_of (er_signal_value q) v (er_direction q))
        in rbind (exact_milliseconds created ready) (\<lambda>published.
          rbind (exact_milliseconds ready decided) (\<lambda>deciding.
          rbind (exact_milliseconds decided sent) (\<lambda>sending.
          EdgeDecayObservation_post_init
            \<lparr>ed_artifact_id = (case er_artifact_id q of None \<Rightarrow> ''edge-decay-'' @ fresh
                | Some i \<Rightarrow> if i = [] then ''edge-decay-'' @ fresh else i),
             ed_ticker = er_ticker q, ed_direction = er_direction q,
             ed_exchange_index = er_exchange_index q, ed_signal_created_at = created,
             ed_signal_available_at = ready, ed_decision_at = decided,
             ed_hypothetical_send_at = sent, ed_signal_value = er_signal_value q,
             ed_value_at_creation = er_value_at_creation q,
             ed_value_at_available = er_value_at_available q,
             ed_value_at_decision = er_value_at_decision q,
             ed_value_at_hypothetical_send = er_value_at_hypothetical_send q,
             ed_initial_edge = edge (er_value_at_creation q),
             ed_available_edge = edge (er_value_at_available q),
             ed_decision_edge = edge (er_value_at_decision q),
             ed_send_edge = edge (er_value_at_hypothetical_send q),
             ed_publication_to_available_ms = published, ed_available_to_decision_ms = deciding,
             ed_decision_to_send_ms = sending, ed_production_influence = 0\<rparr>))))))))"

end
