(* ===== verification/Perps_Inv.thy ===== *)
theory Perps_Inv
  imports Perps_Lag
begin

text \<open>
  The sequenced book of a margin market in every reachable state, over events that the parsers
  accepted: levels are positive and in whole hundredths, no side has a price twice, and a book that
  reads as current is uncrossed and of the contract it was built under. Then what a measured lag row
  says of the stream.
\<close>

section \<open>Well-formed books\<close>

definition level_valid :: "decimal \<times> decimal \<Rightarrow> bool" where
  "level_valid l \<longleftrightarrow> 0 < fst l \<and> 0 < snd l \<and> quantity_valid (snd l)"

definition perps_levels_ok :: "levels \<Rightarrow> bool" where
  "perps_levels_ok ls \<longleftrightarrow> distinct (map fst ls) \<and> list_all level_valid ls"

definition perps_book_ok :: "PerpsSequencedBook \<Rightarrow> bool" where
  "perps_book_ok b \<longleftrightarrow> perps_levels_ok (pb_bids b) \<and> perps_levels_ok (pb_asks b) \<and>
     (pb_state b = CURRENT \<longrightarrow> source_state (pb_bids b) (pb_asks b) = CURRENT \<and>
       pb_contract_hash b = pm_contract_hash (pb_market b)) \<and>
     (pb_state b = CROSSED \<longrightarrow> source_state (pb_bids b) (pb_asks b) = CROSSED \<and>
       pb_contract_hash b = pm_contract_hash (pb_market b))"

lemma perps_book_okD:
  assumes "perps_book_ok b"
  shows "perps_levels_ok (pb_bids b)" and "perps_levels_ok (pb_asks b)"
    and "pb_state b = CURRENT \<Longrightarrow> source_state (pb_bids b) (pb_asks b) = CURRENT"
    and "pb_state b = CURRENT \<or> pb_state b = CROSSED \<Longrightarrow> pb_contract_hash b = pm_contract_hash (pb_market b)"
  using assms by (auto simp: perps_book_ok_def)

lemma source_state_cases: "source_state bids asks = CURRENT \<or> source_state bids asks = CROSSED"
  by (simp add: source_state_def)

text \<open>What the parsers accept.\<close>

lemma perps_levels_loop_ok:
  "perps_levels_loop name market rows acc = Inr ls \<Longrightarrow> perps_levels_ok acc \<Longrightarrow> perps_levels_ok ls"
proof (induction name market rows acc rule: perps_levels_loop.induct)
  case (2 name market level rest acc)
  then show ?case
    by (auto simp: rbind_eq_Inr perps_levels_ok_def level_valid_def price_on_tick_def
        split: hashable.splits list.splits if_splits)
qed simp

lemma perps_levels_parsed: "perps_levels msg name market = Inr ls \<Longrightarrow> perps_levels_ok ls"
  by (auto simp: perps_levels_def perps_levels_ok_def split: option.splits hashable.splits
      dest!: perps_levels_loop_ok)

lemma envelope_Inr:
  assumes "envelope raw kind sequenced = Inr (sid, n, msg)"
  shows "1 \<le> sid" and "sequenced \<Longrightarrow> \<exists>k. n = Some k \<and> 1 \<le> k"
  using assms
  by (auto simp: envelope_def rbind_eq_Inr perps_integer_def split: option.splits hashable.splits if_splits)

lemma snapshot_parsed:
  assumes "PerpsBookSnapshotEvent_parse raw market = Inr e"
  shows "perps_levels_ok (pe_bids e)" and "perps_levels_ok (pe_asks e)" and "pe_ticker e = pm_ticker market"
    and "1 \<le> pe_sid e" and "1 \<le> pe_sequence e"
  using assms
  by (auto simp: PerpsBookSnapshotEvent_parse_def rbind_eq_Inr split: if_splits
      dest: perps_levels_parsed envelope_Inr)

lemma delta_parsed:
  assumes "PerpsBookDeltaEvent_parse raw market = Inr e"
  shows "0 < pd_price e" and "pd_ticker e = pm_ticker market" and "1 \<le> pd_sid e" and "1 \<le> pd_sequence e"
  using assms
  by (auto simp: PerpsBookDeltaEvent_parse_def rbind_eq_Inr price_on_tick_def split: if_splits
      dest: envelope_Inr)

section \<open>Levels\<close>

lemma set_level_entry:
  assumes "distinct (map fst ls)" and "x \<in> set (set_level ls p new)"
  shows "x \<in> set ls \<or> x = (p, new) \<and> new \<noteq> 0"
proof (cases "new = 0")
  case True
  with assms(2) show ?thesis by (auto simp: set_level_def AList.delete_eq)
next
  case False
  obtain k v where x: "x = (k, v)" by (cases x)
  have "distinct (map fst (AList.update p new ls))" by (rule distinct_update [OF assms(1)])
  with assms(2) x False have "map_of (AList.update p new ls) k = Some v" by (simp add: set_level_def)
  then have "(if k = p then Some new else map_of ls k) = Some v" by (simp add: update_conv')
  with x False show ?thesis by (auto split: if_splits dest: map_of_SomeD)
qed

lemma set_level_perps_ok:
  assumes "perps_levels_ok ls" and "0 < p" and "0 \<le> new" and "quantity_valid new"
  shows "perps_levels_ok (set_level ls p new)"
proof -
  have keys: "distinct (map fst ls)" using assms(1) by (simp add: perps_levels_ok_def)
  have "level_valid x" if "x \<in> set (set_level ls p new)" for x
    using set_level_entry [OF keys that] assms by (auto simp: perps_levels_ok_def level_valid_def list_all_iff)
  moreover have "distinct (map fst (set_level ls p new))"
    using keys by (simp add: set_level_def distinct_update distinct_delete)
  ultimately show ?thesis by (simp add: perps_levels_ok_def list_all_iff)
qed

section \<open>Reachable books\<close>

inductive perps_reachable :: "PerpsSequencedBook \<Rightarrow> bool" where
  start: "perps_reachable (new_perps_book market)"
| by_snapshot: "perps_reachable b \<Longrightarrow> PerpsBookSnapshotEvent_parse raw market = Inr e \<Longrightarrow>
    perps_reachable (fst (perps_snapshot e t b))"
| by_delta: "perps_reachable b \<Longrightarrow> PerpsBookDeltaEvent_parse raw market = Inr d \<Longrightarrow>
    perps_reachable (fst (perps_delta d t b))"
| by_metadata: "perps_reachable b \<Longrightarrow> perps_reachable (fst (perps_invalidate_for_metadata market b))"
| by_stale: "perps_reachable b \<Longrightarrow> perps_reachable (mark_stale b)"

lemma perps_delta_ok:
  assumes "perps_book_ok b" and "0 < pd_price d"
  shows "perps_book_ok (fst (perps_delta d t b))"
proof (cases "tz_aware t \<and> pb_state b \<in> set [CURRENT, CROSSED] \<and> pd_sequence d = pb_sequence b + 1")
  case False
  with assms show ?thesis by (auto simp: perps_delta_def perps_gap_def perps_book_ok_def)
next
  case True
  let ?ls = "if pd_side d = BID then pb_bids b else pb_asks b"
  let ?new = "level_after ?ls (pd_price d) (pd_delta d)"
  have ls: "perps_levels_ok ?ls" using perps_book_okD [OF assms(1)] by simp
  show ?thesis
  proof (cases "?new < 0 \<or> \<not> quantity_valid ?new")
    case True
    with \<open>tz_aware t \<and> _\<close> assms(1) show ?thesis
      by (auto simp: perps_delta_def perps_gap_def perps_book_ok_def Let_def)
  next
    case False
    then have "perps_levels_ok (set_level ?ls (pd_price d) ?new)"
      by (intro set_level_perps_ok [OF ls assms(2)]) auto
    moreover have "pb_contract_hash b = pm_contract_hash (pb_market b)"
      using perps_book_okD(4) [OF assms(1)] True by auto
    ultimately show ?thesis using assms(1) True False
      by (auto simp: perps_delta_def perps_book_ok_def Let_def)
  qed
qed

lemma perps_reachable_ok: "perps_reachable b \<Longrightarrow> perps_book_ok b"
proof (induction rule: perps_reachable.induct)
  case (start market)
  then show ?case by (simp add: new_perps_book_def perps_book_ok_def perps_levels_ok_def)
next
  case (by_snapshot b raw market e t)
  then show ?case
    using snapshot_parsed [OF by_snapshot(2)] by (auto simp: perps_snapshot_def perps_book_ok_def)
next
  case (by_delta b raw market d t)
  then show ?case by (intro perps_delta_ok) (auto dest: delta_parsed)
next
  case (by_metadata b market)
  then show ?case by (auto simp: perps_invalidate_for_metadata_def perps_book_ok_def)
next
  case (by_stale b)
  then show ?case by (auto simp: mark_stale_def perps_book_ok_def)
qed
section \<open>What a view shows\<close>

lemma sorted_pairs_fst: "sorted (ls :: levels) \<Longrightarrow> sorted (map fst ls)"
  by (auto simp: sorted_map less_eq_prod_def elim!: sorted_wrt_mono_rel [rotated])

lemma strictly_sorted: "sorted xs \<Longrightarrow> distinct xs \<Longrightarrow> sorted_wrt (<) (xs :: decimal list)"
  by (simp add: strict_sorted_iff)

lemma shown_levels:
  assumes "perps_levels_ok ls"
  shows "sorted_wrt (<) (map fst (sort ls))" and "sorted_wrt (>) (map fst (rev (sort ls)))"
    and "list_all level_valid (sort ls)"
proof -
  have "distinct (map fst (sort ls))" using assms
    by (metis perps_levels_ok_def distinct_map distinct_sort set_sort)
  then show s: "sorted_wrt (<) (map fst (sort ls))" by (intro strictly_sorted sorted_pairs_fst) simp_all
  then show "sorted_wrt (>) (map fst (rev (sort ls)))" by (simp add: rev_map [symmetric] sorted_wrt_rev)
  show "list_all level_valid (sort ls)" using assms by (simp add: perps_levels_ok_def list_all_iff)
qed

lemma uncrossed:
  assumes "source_state bids asks = CURRENT" and "l \<in> set bids" and "r \<in> set asks"
  shows "fst l < fst r"
proof -
  have "fst l \<le> Max (set (map fst bids))" using assms(2) by simp
  moreover have "Min (set (map fst asks)) \<le> fst r" using assms(3) by simp
  moreover have "Max (set (map fst bids)) < Min (set (map fst asks))"
    using assms by (auto simp: source_state_def split: if_splits)
  ultimately show ?thesis by linarith
qed

lemma perps_view_fields:
  assumes "perps_view dig now stale_after b = Inr v"
  shows "vw_bids v = rev (sort (pb_bids b))" and "vw_asks v = sort (pb_asks b)"
    and "vw_state v = CURRENT \<Longrightarrow> pb_state b = CURRENT"
    and "vw_best_bid v = map_option fst (first_level (vw_bids v))"
    and "vw_best_bid_size v = map_option snd (first_level (vw_bids v))"
    and "vw_best_ask v = map_option fst (first_level (vw_asks v))"
    and "vw_best_ask_size v = map_option snd (first_level (vw_asks v))"
    and "vw_full_book_hash v = canonical_hash dig (HObj [(''ticker'', HStr (pm_ticker (pb_market b))),
      (''sequence'', HInt (pb_sequence b)), (''bids'', levels_payload (vw_bids v)),
      (''asks'', levels_payload (vw_asks v))])"
  using assms by (auto simp: perps_view_def Let_def split: if_splits option.splits)

lemma valid_top:
  assumes "list_all level_valid ls"
  shows "\<not> top_invalid (map_option fst (first_level ls)) (map_option snd (first_level ls))"
  using assms by (cases ls) (auto simp: top_invalid_def first_level_def level_valid_def)

section \<open>Measured lag rows\<close>

lemma nondecreasing_sorted: "nondecreasing xs = sorted xs"
  by (induction xs rule: nondecreasing.induct) (auto intro: order_trans)

lemma last_is_greatest: "sorted (map f xs) \<Longrightarrow> x \<in> set xs \<Longrightarrow> f x \<le> f (last xs)"
  by (induction xs) auto

lemma first_is_least: "sorted (map f xs) \<Longrightarrow> first_item xs = Some y \<Longrightarrow> x \<in> set xs \<Longrightarrow> f y \<le> f x"
  by (cases xs) (auto simp: first_item_def)

lemma first_item_in: "first_item xs = Some y \<Longrightarrow> y \<in> set xs"
  by (cases xs) (auto simp: first_item_def)

lemma LagMeasurement_post_init_same: "LagMeasurement_post_init x = Inr m \<Longrightarrow> m = x"
  by (auto simp: LagMeasurement_post_init_def split: if_splits option.splits)

lemma abstention_status:
  "abstention impulse h status cutoff b x w = Inr m \<Longrightarrow> lm_status m = status"
  by (auto simp: abstention_def dest!: LagMeasurement_post_init_same)

lemma age_ms_bounds:
  assumes "age_ms earlier later = Inr age" and "\<not> age > MAX_BOOK_AGE_MS"
  shows "earlier \<le> later" and "later - earlier \<le> seconds 30"
proof -
  from assms(1) show "earlier \<le> later" by (auto simp: age_ms_def Let_def split: if_splits)
  define d where "d = later - earlier"
  have age: "(if d mod 1000 = 0 then d div 1000 else d div 1000 + 1) \<le> 30000"
    using assms by (auto simp: age_ms_def Let_def MAX_BOOK_AGE_MS_def d_def split: if_splits)
  have parts: "1000 * (d div 1000) + d mod 1000 = d" "d mod 1000 < 1000" by simp_all
  have "d \<le> 30000000"
  proof (cases "d mod 1000 = 0")
    case True
    with age have "d div 1000 \<le> 30000" by simp
    with parts True show ?thesis by linarith
  next
    case False
    with age have "d div 1000 + 1 \<le> 30000" by simp
    with parts show ?thesis by linarith
  qed
  then show "later - earlier \<le> seconds 30" by (simp add: seconds_def d_def)
qed

text \<open>A contiguous stretch holds every sequence number once, and later numbers are not available
  earlier.\<close>

lemma contiguous_stretch:
  assumes "has_contiguous_sequence material baseline witness"
  shows "bo_sequence baseline \<le> n \<Longrightarrow> n \<le> bo_sequence witness \<Longrightarrow>
      \<exists>!x. x \<in> set material \<and> in_stream baseline x \<and> bo_sequence x = n"
    and "x \<in> set material \<Longrightarrow> y \<in> set material \<Longrightarrow> in_stream baseline x \<Longrightarrow> in_stream baseline y \<Longrightarrow>
      bo_sequence baseline \<le> bo_sequence x \<Longrightarrow> bo_sequence x < bo_sequence y \<Longrightarrow>
      bo_sequence y \<le> bo_sequence witness \<Longrightarrow> available x \<le> available y"
proof -
  define stream where "stream = sort_key bo_sequence (filter (\<lambda>item. in_stream baseline item \<and>
    bo_sequence baseline \<le> bo_sequence item \<and> bo_sequence item \<le> bo_sequence witness) material)"
  have sequences: "map bo_sequence stream = [bo_sequence baseline .. bo_sequence witness]"
    and times: "sorted (map available stream)"
    using assms by (auto simp: has_contiguous_sequence_def stream_def Let_def nondecreasing_sorted)
  have members: "set stream = {x \<in> set material. in_stream baseline x \<and>
    bo_sequence baseline \<le> bo_sequence x \<and> bo_sequence x \<le> bo_sequence witness}"
    by (simp add: stream_def)
  have once: "inj_on bo_sequence (set stream)"
    using sequences by (metis distinct_map distinct_upto)
  show "\<exists>!x. x \<in> set material \<and> in_stream baseline x \<and> bo_sequence x = n"
    if "bo_sequence baseline \<le> n" "n \<le> bo_sequence witness"
  proof -
    have "n \<in> set (map bo_sequence stream)" using that sequences by simp
    then obtain x where "x \<in> set stream" "bo_sequence x = n" by auto
    with that once members show ?thesis by (auto simp: inj_on_def intro!: ex1I [of _ x])
  qed
  show "available x \<le> available y" if "x \<in> set material" "y \<in> set material" "in_stream baseline x"
    "in_stream baseline y" "bo_sequence baseline \<le> bo_sequence x" "bo_sequence x < bo_sequence y"
    "bo_sequence y \<le> bo_sequence witness"
  proof -
    have "x \<in> set stream" "y \<in> set stream" using that members by auto
    then obtain i j where i: "i < length stream" "stream ! i = x" and j: "j < length stream" "stream ! j = y"
      by (metis in_set_conv_nth)
    have "sorted (map bo_sequence stream)" using sequences by simp
    then have "\<not> j \<le> i" using i j that(6) sorted_nth_mono [of "map bo_sequence stream" j i] by auto
    then show ?thesis using sorted_nth_mono [OF times, of i j] i j by simp
  qed
qed
text \<open>The baseline, horizon and witness of a measured row.\<close>

definition lag_base :: "ReferenceImpulse \<Rightarrow> PerpsBookEvidence list \<Rightarrow> PerpsBookEvidence list" where
  "lag_base impulse material = filter (\<lambda>item. bo_connection_epoch item = ri_connection_epoch impulse \<and>
     available item \<le> astimezone_utc (ri_available_at impulse)) material"

definition lag_before :: "instant \<Rightarrow> PerpsBookEvidence \<Rightarrow> PerpsBookEvidence list \<Rightarrow> PerpsBookEvidence list" where
  "lag_before cutoff baseline material =
     filter (\<lambda>item. in_stream baseline item \<and> available item \<le> cutoff) material"

definition lag_after :: "instant \<Rightarrow> PerpsBookEvidence \<Rightarrow> PerpsBookEvidence list \<Rightarrow> PerpsBookEvidence list" where
  "lag_after cutoff baseline material =
     filter (\<lambda>item. in_stream baseline item \<and> available item > cutoff) material"

definition row_of :: "LagMeasurement \<Rightarrow> PerpsBookEvidence \<Rightarrow> PerpsBookEvidence \<Rightarrow> PerpsBookEvidence \<Rightarrow> bool" where
  "row_of m baseline horizon witness \<longleftrightarrow>
     lm_baseline_id m = Some (bo_evidence_id baseline) \<and> lm_horizon_id m = Some (bo_evidence_id horizon) \<and>
     lm_witness_id m = Some (bo_evidence_id witness) \<and>
     lm_witness_available_at m = Some (available witness) \<and>
     lm_bid_change m = change_of (bo_best_bid baseline) (bo_best_bid horizon) \<and>
     lm_ask_change m = change_of (bo_best_ask baseline) (bo_best_ask horizon) \<and>
     lm_midpoint_change m = change_of (midpoint baseline) (midpoint horizon)"

lemma repricing_measured:
  assumes "repricing impulse h cutoff baseline horizon witness = Inr m" and "lm_status m = MEASURED"
  shows "row_of m baseline horizon witness" and "lm_cutoff_at m = cutoff"
  using assms
  by (auto simp: repricing_def Let_def row_of_def split: if_splits
      dest!: LagMeasurement_post_init_same dest: abstention_status)

lemma measure_after_measured:
  assumes "measure_after impulse h cutoff material baseline horizon = Inr m" and "lm_status m = MEASURED"
    and "bo_connection_epoch baseline = ri_connection_epoch impulse"
  obtains witness where "first_item (lag_after cutoff baseline material) = Some witness"
    and "bo_sequence horizon < bo_sequence witness" and "has_contiguous_sequence material baseline witness"
    and "row_of m baseline horizon witness" and "lm_cutoff_at m = cutoff"
proof -
  have stream: "lag_after cutoff baseline material = filter (\<lambda>item. bo_connection_epoch item =
      ri_connection_epoch impulse \<and> bo_sid item = bo_sid baseline \<and> cutoff < available item) material"
    by (simp add: lag_after_def in_stream_def assms(3))
  obtain witness where w: "first_item (lag_after cutoff baseline material) = Some witness"
    using assms(1,2)
    by (auto simp: measure_after_def Let_def stream split: option.splits dest: abstention_status)
  then show ?thesis
    using assms(1,2) that [of witness]
    by (auto simp: measure_after_def Let_def stream split: if_splits
        dest: abstention_status repricing_measured)
qed

lemma measure_from_measured:
  assumes "measure_from impulse h cutoff material baseline = Inr m" and "lm_status m = MEASURED"
    and "bo_connection_epoch baseline = ri_connection_epoch impulse"
  obtains horizon witness where "horizon = last (lag_before cutoff baseline material)"
    and "bo_sequence baseline \<le> bo_sequence horizon" and "available horizon \<le> cutoff"
    and "cutoff - available horizon \<le> seconds 30"
    and "astimezone_utc (ri_available_at impulse) - available baseline \<le> seconds 30"
    and "first_item (lag_after cutoff baseline material) = Some witness"
    and "bo_sequence horizon < bo_sequence witness" and "has_contiguous_sequence material baseline witness"
    and "row_of m baseline horizon witness" and "lm_cutoff_at m = cutoff"
proof -
  have stream: "lag_before cutoff baseline material = filter (\<lambda>item. bo_connection_epoch item =
      ri_connection_epoch impulse \<and> bo_sid item = bo_sid baseline \<and> available item \<le> cutoff) material"
    by (simp add: lag_before_def in_stream_def assms(3))
  let ?h = "last (lag_before cutoff baseline material)"
  obtain age age' where ages: "age_ms (available baseline) (astimezone_utc (ri_available_at impulse)) = Inr age"
      "\<not> age > MAX_BOOK_AGE_MS" "age_ms (available ?h) cutoff = Inr age'" "\<not> age' > MAX_BOOK_AGE_MS"
    and "bo_sequence baseline \<le> bo_sequence ?h"
    and "measure_after impulse h cutoff material baseline ?h = Inr m"
    using assms(1,2)
    by (auto simp: measure_from_def Let_def stream rbind_eq_Inr split: if_splits dest: abstention_status)
  with age_ms_bounds [OF ages(1,2)] age_ms_bounds [OF ages(3,4)] assms(2,3) that [of ?h]
  show ?thesis by (elim measure_after_measured) auto
qed

lemma measured_row:
  assumes "measure_reference_lag_horizon impulse books h = Inr m" and "lm_status m = MEASURED"
  obtains baseline horizon witness where "baseline = last (lag_base impulse (sort_key book_key books))"
    and "lag_base impulse (sort_key book_key books) \<noteq> []"
    and "horizon = last (lag_before (lm_cutoff_at m) baseline (sort_key book_key books))"
    and "bo_sequence baseline \<le> bo_sequence horizon" and "available horizon \<le> lm_cutoff_at m"
    and "lm_cutoff_at m - available horizon \<le> seconds 30"
    and "astimezone_utc (ri_available_at impulse) - available baseline \<le> seconds 30"
    and "first_item (lag_after (lm_cutoff_at m) baseline (sort_key book_key books)) = Some witness"
    and "bo_sequence horizon < bo_sequence witness"
    and "has_contiguous_sequence (sort_key book_key books) baseline witness"
    and "row_of m baseline horizon witness"
    and "lm_cutoff_at m = astimezone_utc (ri_available_at impulse) + milliseconds h"
proof -
  let ?b = "last (lag_base impulse (sort_key book_key books))"
  let ?c = "astimezone_utc (ri_available_at impulse) + milliseconds h"
  have some: "lag_base impulse (sort_key book_key books) \<noteq> []"
    and row: "measure_from impulse h ?c (sort_key book_key books) ?b = Inr m"
    using assms
    by (auto simp: measure_reference_lag_horizon_def candidate_books_def rbind_eq_Inr Let_def
        lag_base_def [symmetric] split: if_splits dest: abstention_status)
  have "?b \<in> set (lag_base impulse (sort_key book_key books))" by (rule last_in_set [OF some])
  then have "bo_connection_epoch ?b = ri_connection_epoch impulse" by (simp add: lag_base_def)
  from measure_from_measured [OF row assms(2) this] some that [of ?b] show ?thesis by metis
qed

lemma sorted_candidates: "sorted (map book_key (filter P (sort_key book_key books)))"
  by (rule sorted_filter) simp

text \<open>The witness is the update right after the horizon book, so no update in between was missed.\<close>

lemma witness_follows_horizon:
  assumes "horizon = last (lag_before cutoff baseline (sort_key book_key books))"
    and "horizon \<in> set books" and "in_stream baseline horizon" and "available horizon \<le> cutoff"
    and "first_item (lag_after cutoff baseline (sort_key book_key books)) = Some witness"
    and "bo_sequence baseline \<le> bo_sequence horizon" and "bo_sequence horizon < bo_sequence witness"
    and "has_contiguous_sequence (sort_key book_key books) baseline witness"
  shows "bo_sequence witness = bo_sequence horizon + 1"
proof (rule ccontr)
  assume "bo_sequence witness \<noteq> bo_sequence horizon + 1"
  with assms(7) have between: "bo_sequence horizon + 1 < bo_sequence witness" by simp
  obtain x where x: "x \<in> set books" "in_stream baseline x" "bo_sequence x = bo_sequence horizon + 1"
    using contiguous_stretch(1) [OF assms(8), of "bo_sequence horizon + 1"] assms(6) between by auto
  have "witness \<in> set (lag_after cutoff baseline (sort_key book_key books))"
    by (rule first_item_in [OF assms(5)])
  then have w: "witness \<in> set books" "in_stream baseline witness" by (auto simp: lag_after_def)
  have early: "available horizon \<le> available x" and late: "available x \<le> available witness"
    using contiguous_stretch(2) [OF assms(8), of horizon x] contiguous_stretch(2) [OF assms(8), of x witness]
      assms x w between by auto
  show False
  proof (cases "available x \<le> cutoff")
    case True
    with x have "x \<in> set (lag_before cutoff baseline (sort_key book_key books))"
      by (simp add: lag_before_def)
    then have "book_key x \<le> book_key horizon"
      unfolding assms(1) lag_before_def by (rule last_is_greatest [OF sorted_candidates])
    with early x(3) show False by (auto simp: book_key_def less_eq_prod_def)
  next
    case False
    with x have "x \<in> set (lag_after cutoff baseline (sort_key book_key books))"
      by (simp add: lag_after_def)
    with assms(5) have "book_key witness \<le> book_key x"
      unfolding lag_after_def by (intro first_is_least [OF sorted_candidates])
    with late x(3) between show False by (auto simp: book_key_def less_eq_prod_def)
  qed
qed
section \<open>Later evidence\<close>

lemma filter_late:
  assumes "\<And>x. x \<in> set late \<Longrightarrow> \<not> P x"
  shows "filter P (sort_key k (books @ late)) = filter P (sort_key k books)"
proof -
  have "filter P late = []" using assms by (simp add: filter_empty_conv)
  then show ?thesis by (simp add: filter_sort)
qed

lemma first_item_late:
  assumes "first_item (sort_key k xs) = Some w" and "\<And>y. y \<in> set ys \<Longrightarrow> k w < k y"
  shows "first_item (sort_key k (xs @ ys)) = Some w"
proof -
  let ?s = "sort_key k (xs @ ys)" and ?P = "\<lambda>x. k x = k w"
  have w: "w \<in> set xs" using first_item_in [OF assms(1)] by simp
  then have "set ?s \<noteq> {}" by auto
  then obtain z where z: "first_item ?s = Some z" by (cases ?s) (auto simp: first_item_def)
  have z_in: "z \<in> set xs \<union> set ys" using first_item_in [OF z] by simp
  have "k z \<le> k w" using first_is_least [OF _ z, of k w] w by simp
  with z_in assms(2) have "z \<in> set xs" by force
  then have "k w \<le> k z" using first_is_least [OF _ assms(1), of k z] by simp
  with \<open>k z \<le> k w\<close> have key: "?P z" by simp
  have "filter ?P ys = []" using assms(2) by (force simp: filter_empty_conv)
  then have "filter ?P ?s = filter ?P (sort_key k xs)" by (simp add: sort_key_stable)
  moreover have "first_item (filter ?P ?s) = Some z" using z key by (cases ?s) (auto simp: first_item_def)
  moreover have "first_item (filter ?P (sort_key k xs)) = Some w"
    using assms(1) by (cases "sort_key k xs") (auto simp: first_item_def)
  ultimately show ?thesis using z by simp
qed

lemma first_boundary:
  assumes "sorted (map book_key xs)"
  shows "(case first_item xs of None \<Rightarrow> False | Some x \<Rightarrow> available x \<le> t) \<longleftrightarrow> (\<exists>x \<in> set xs. available x \<le> t)"
proof (cases xs)
  case (Cons a list)
  then have "available a \<le> available x" if "x \<in> set xs" for x
    using first_is_least [OF assms, of a x] that by (auto simp: first_item_def book_key_def less_eq_prod_def)
  with Cons show ?thesis by (force simp: first_item_def)
qed (simp add: first_item_def)

text \<open>A book that was not available when the witness was, and does not claim a number already recorded.\<close>

definition comes_later :: "ReferenceImpulse \<Rightarrow> PerpsBookEvidence list \<Rightarrow> instant \<Rightarrow> PerpsBookEvidence \<Rightarrow> bool" where
  "comes_later impulse books t x \<longleftrightarrow> \<not> foreign_book impulse x \<and> t < available x \<and>
     list_all (\<lambda>y. \<not> (in_stream y x \<and> bo_sequence y = bo_sequence x)) books"

lemma contiguous_late:
  assumes "has_contiguous_sequence (sort_key book_key books) baseline witness"
    and "\<And>x. x \<in> set late \<Longrightarrow> comes_later impulse books t x"
  shows "has_contiguous_sequence (sort_key book_key (books @ late)) baseline witness"
proof -
  have "\<not> (in_stream baseline x \<and> bo_sequence baseline \<le> bo_sequence x \<and> bo_sequence x \<le> bo_sequence witness)"
    if "x \<in> set late" for x
  proof
    assume x: "in_stream baseline x \<and> bo_sequence baseline \<le> bo_sequence x \<and> bo_sequence x \<le> bo_sequence witness"
    then obtain y where "y \<in> set books" "in_stream baseline y" "bo_sequence y = bo_sequence x"
      using contiguous_stretch(1) [OF assms(1), of "bo_sequence x"] by auto
    with x assms(2) [OF that] show False by (auto simp: comes_later_def list_all_iff in_stream_def)
  qed
  then have "filter (\<lambda>item. in_stream baseline item \<and> bo_sequence baseline \<le> bo_sequence item \<and>
      bo_sequence item \<le> bo_sequence witness) (sort_key book_key (books @ late)) =
    filter (\<lambda>item. in_stream baseline item \<and> bo_sequence baseline \<le> bo_sequence item \<and>
      bo_sequence item \<le> bo_sequence witness) (sort_key book_key books)"
    by (rule filter_late)
  with assms(1) show ?thesis by (simp add: has_contiguous_sequence_def)
qed

lemma measure_after_late:
  assumes "first_item (lag_after cutoff baseline (sort_key book_key books)) = Some witness"
    and "bo_connection_epoch baseline = ri_connection_epoch impulse"
    and "has_contiguous_sequence (sort_key book_key books) baseline witness"
    and "\<And>x. x \<in> set late \<Longrightarrow> comes_later impulse books (available witness) x"
  shows "measure_after impulse h cutoff (sort_key book_key (books @ late)) baseline horizon =
    measure_after impulse h cutoff (sort_key book_key books) baseline horizon"
proof -
  have after: "lag_after cutoff baseline m = filter (\<lambda>item. (bo_connection_epoch item =
      ri_connection_epoch impulse \<and> bo_sid item = bo_sid baseline) \<and> available item > cutoff) m" for m
    by (simp add: lag_after_def in_stream_def assms(2))
  have first: "first_item (lag_after cutoff baseline (sort_key book_key (books @ late))) = Some witness"
    using assms(1) first_item_late [of book_key "lag_after cutoff baseline books" witness
        "lag_after cutoff baseline late"] assms(4)
    by (auto simp: lag_after_def filter_sort comes_later_def book_key_def less_prod_def)
  have boundary: "(case first_item (filter P (sort_key book_key (books @ late))) of None \<Rightarrow> False
      | Some x \<Rightarrow> available x \<le> available witness) =
    (case first_item (filter P (sort_key book_key books)) of None \<Rightarrow> False
      | Some x \<Rightarrow> available x \<le> available witness)" for P
    using assms(4) by (subst (1 2) first_boundary [OF sorted_candidates]) (force simp: comes_later_def)
  show ?thesis
    unfolding measure_after_def Let_def after [symmetric] first assms(1) option.case(2) boundary
    using assms(3) contiguous_late [OF assms(3,4)] by simp
qed

lemma measure_from_late:
  assumes "measure_from impulse h cutoff (sort_key book_key books) baseline = Inr m"
    and "lm_status m = MEASURED" and "bo_connection_epoch baseline = ri_connection_epoch impulse"
    and "lm_witness_available_at m = Some t" and "\<And>x. x \<in> set late \<Longrightarrow> comes_later impulse books t x"
  shows "measure_from impulse h cutoff (sort_key book_key (books @ late)) baseline = Inr m"
proof -
  obtain witness where w: "first_item (lag_after cutoff baseline (sort_key book_key books)) = Some witness"
    "has_contiguous_sequence (sort_key book_key books) baseline witness" "t = available witness"
    using measure_from_measured [OF assms(1-3)] assms(4) by (metis row_of_def option.inject)
  then have "cutoff < t" using first_item_in [OF w(1)] by (auto simp: lag_after_def)
  then have late: "\<not> available x \<le> cutoff" if "x \<in> set late" for x
    using assms(5) [OF that] by (auto simp: comes_later_def)
  have early: "filter (\<lambda>x. P x \<and> available x \<le> cutoff) (sort_key book_key (books @ late)) =
      filter (\<lambda>x. P x \<and> available x \<le> cutoff) (sort_key book_key books)"
    "filter (\<lambda>x. Q x \<and> available x \<le> cutoff \<and> P x) (sort_key book_key (books @ late)) =
      filter (\<lambda>x. Q x \<and> available x \<le> cutoff \<and> P x) (sort_key book_key books)" for P Q
    by (rule filter_late, use late in blast)+
  have after: "measure_after impulse h cutoff (sort_key book_key (books @ late)) baseline x =
    measure_after impulse h cutoff (sort_key book_key books) baseline x" for x
    by (rule measure_after_late [OF w(1) assms(3) w(2)]) (use assms(5) w(3) in simp)
  show ?thesis using assms(1) unfolding measure_from_def Let_def early after .
qed

lemma measured_lag_late:
  assumes "measure_reference_lag_horizon impulse books h = Inr m" and "lm_status m = MEASURED"
    and "lm_witness_available_at m = Some t" and "\<And>x. x \<in> set late \<Longrightarrow> comes_later impulse books t x"
  shows "measure_reference_lag_horizon impulse (books @ late) h = Inr m"
proof -
  let ?c = "astimezone_utc (ri_available_at impulse) + milliseconds h"
  have grid: "h \<in> set PHASE0_HORIZONS_MS" and own: "\<not> list_ex (foreign_book impulse) books"
    and some: "lag_base impulse (sort_key book_key books) \<noteq> []"
    and row: "measure_from impulse h ?c (sort_key book_key books)
      (last (lag_base impulse (sort_key book_key books))) = Inr m"
    using assms(1,2)
    by (auto simp: measure_reference_lag_horizon_def candidate_books_def rbind_eq_Inr Let_def
        lag_base_def [symmetric] split: if_splits dest: abstention_status)
  have epoch: "bo_connection_epoch (last (lag_base impulse (sort_key book_key books))) =
      ri_connection_epoch impulse"
    using last_in_set [OF some] by (simp add: lag_base_def)
  obtain witness where w: "first_item (lag_after ?c (last (lag_base impulse (sort_key book_key books)))
      (sort_key book_key books)) = Some witness" "t = available witness"
    using measure_from_measured [OF row assms(2) epoch] assms(3) by (metis row_of_def option.inject)
  have "0 \<le> milliseconds h" using grid by (auto simp: PHASE0_HORIZONS_MS_def milliseconds_def)
  moreover have "?c < t" using first_item_in [OF w(1)] w(2) by (auto simp: lag_after_def)
  ultimately have "astimezone_utc (ri_available_at impulse) < t" by simp
  then have "lag_base impulse (sort_key book_key (books @ late)) = lag_base impulse (sort_key book_key books)"
    unfolding lag_base_def using assms(4) by (intro filter_late) (force simp: comes_later_def)
  moreover have "\<not> list_ex (foreign_book impulse) (books @ late)"
    using own assms(4) by (auto simp: list_ex_iff comes_later_def)
  ultimately show ?thesis
    using grid some measure_from_late [OF row assms(2) epoch assms(3,4)]
    by (simp add: measure_reference_lag_horizon_def candidate_books_def rbind_def Let_def
        lag_base_def [symmetric])
qed

end
