(* ===== verification/Perps_Properties.thy ===== *)
theory Perps_Properties
  imports Perps_Inv "HOL-Library.Multiset"
begin

text \<open>
  The properties of \<open>services/perps_shadow_research\<close>: what a book shows and what becomes evidence,
  reference impulses and measured lag rows.
\<close>

section \<open>Samples\<close>

definition sample_sha :: "char \<Rightarrow> string" where
  "sample_sha c = replicate 64 c"

definition sample_contract :: PerpsMarketMetadata where
  "sample_contract = \<lparr>pm_ticker = ''BTC'', pm_status = ''active'', pm_title = ''t'', pm_exchange_index = 0,
     pm_market_version = None, pm_contract_size = 1, pm_underlying_multiplier = 1, pm_tick_size = 1,
     pm_fractional_trading_enabled = True, pm_schedule = None, pm_leverage_estimate = None,
     pm_leverage_estimates = [], pm_long_leverage_estimates = [], pm_short_leverage_estimates = [],
     pm_bid = None, pm_ask = None, pm_price = None, pm_settlement_mark_price = None,
     pm_liquidation_mark_price = None, pm_reference_price = None, pm_volume = None,
     pm_open_interest = None, pm_asset_class = None, pm_product_metadata = None,
     pm_normalized_snapshot = HNone, pm_observed_at = Aware 0, pm_contract_hash = sample_sha CHR ''c'',
     pm_metadata_hash = sample_sha CHR ''d'', pm_source_provenance = \<lparr>pc_source_url = PERPS_OPENAPI_URL,
       pc_retrieved_on = ''2026-10-04'', pc_sha256 = sample_sha CHR ''e'', pc_parser_version = ''v1''\<rparr>\<rparr>"

definition sample_snapshot :: json_obj where
  "sample_snapshot = [(''type'', HStr ''orderbook_snapshot''), (''sid'', HInt 1), (''seq'', HInt 1),
     (''msg'', HObj [(''market_ticker'', HStr ''BTC''),
       (''bid'', HList [HList [HStr ''99'', HStr ''2''], HList [HStr ''98'', HStr ''5'']]),
       (''ask'', HList [HList [HStr ''101'', HStr ''3'']])])]"

definition sample_event :: PerpsBookSnapshotEvent where
  "sample_event = \<lparr>pe_sid = 1, pe_sequence = 1, pe_ticker = ''BTC'', pe_bids = [(99, 2), (98, 5)],
     pe_asks = [(101, 3)]\<rparr>"

lemma sample_event_parsed: "PerpsBookSnapshotEvent_parse sample_snapshot sample_contract = Inr sample_event"
  by code_simp

definition sample_perps_book :: PerpsSequencedBook where
  "sample_perps_book = fst (perps_snapshot sample_event (Aware 0) (new_perps_book sample_contract))"

lemma sample_perps_book_reachable: "perps_reachable sample_perps_book"
  unfolding sample_perps_book_def
  by (intro perps_reachable.by_snapshot [OF _ sample_event_parsed] perps_reachable.start)

definition sample_digest :: digest_fn where
  "sample_digest v = sample_sha CHR ''a''"

definition sample_view :: PerpsBookView where
  "sample_view = \<lparr>vw_ticker = ''BTC'', vw_sequence = 1, vw_bids = [(99, 2), (98, 5)],
     vw_asks = [(101, 3)], vw_best_bid = Some 99, vw_best_ask = Some 101, vw_best_bid_size = Some 2,
     vw_best_ask_size = Some 3, vw_state = CURRENT, vw_observed_at = Some 0, vw_ingested_at = Some 0,
     vw_full_book_hash = sample_sha CHR ''a''\<rparr>"

lemma sample_view_shown: "perps_view sample_digest (Aware 1000) (seconds 30) sample_perps_book = Inr sample_view"
  by code_simp

definition sample_evidence :: "int \<Rightarrow> instant \<Rightarrow> char \<Rightarrow> decimal \<Rightarrow> PerpsBookEvidence" where
  "sample_evidence n t c bid = \<lparr>bo_evidence_id = sample_sha c, bo_update_kind = DELTA, bo_ticker = ''BTC'',
     bo_exchange_index = 0, bo_market_version = None, bo_underlying_multiplier = 1,
     bo_connection_epoch = 7, bo_sid = 1, bo_sequence = n, bo_source_event_fingerprint = sample_sha c,
     bo_asyncapi_sha256 = ASYNCAPI_SHA256, bo_book_state = CURRENT, bo_best_bid = Some bid,
     bo_best_ask = Some 101, bo_best_bid_size = Some 2, bo_best_ask_size = Some 3,
     bo_exchange_at = None, bo_received_at = Aware t, bo_available_at = Aware t, bo_tick_size = 1,
     bo_contract_size = 1, bo_fractional_trading_enabled = True,
     bo_perps_contract_hash = sample_sha CHR ''c'', bo_market_metadata_hash = sample_sha CHR ''d'',
     bo_full_book_hash = sample_sha CHR ''a'', bo_production_influence = 0\<rparr>"

definition sample_books :: "PerpsBookEvidence list" where
  "sample_books = [sample_evidence 3 2500000 CHR ''3'' 98, sample_evidence 1 1000000 CHR ''1'' 99,
     sample_evidence 2 1500000 CHR ''2'' 100]"

definition sample_impulse :: ReferenceImpulse where
  "sample_impulse = \<lparr>ri_impulse_id = sample_sha CHR ''a'', ri_ticker = ''BTC'', ri_exchange_index = 0,
     ri_market_version = None, ri_underlying_multiplier = 1, ri_market_metadata_hash = sample_sha CHR ''d'',
     ri_previous_evidence_id = sample_sha CHR ''4'', ri_current_evidence_id = sample_sha CHR ''5'',
     ri_connection_epoch = 7, ri_ticker_sid = 2, ri_previous_reference_price = 100,
     ri_reference_price = 101, ri_previous_source_ts_ms = 100, ri_source_ts_ms = 1100,
     ri_available_at = Aware 1200000, ri_reference_change = 1, ri_reference_change_bps = 100,
     ri_reference_move = UP, ri_production_influence = 0\<rparr>"

definition sample_row :: LagMeasurement where
  "sample_row = \<lparr>lm_impulse_id = sample_sha CHR ''a'', lm_ticker = ''BTC'', lm_horizon_ms = 1000,
     lm_status = MEASURED, lm_baseline_id = Some (sample_sha CHR ''1''),
     lm_horizon_id = Some (sample_sha CHR ''2''), lm_baseline_available_at = Some 1000000,
     lm_cutoff_at = 2200000, lm_horizon_available_at = Some 1500000,
     lm_witness_id = Some (sample_sha CHR ''3''), lm_witness_available_at = Some 2500000,
     lm_bid_change = Some 1, lm_ask_change = Some 0, lm_midpoint_change = Some (1/2),
     lm_midpoint_change_bps = Some 50, lm_production_influence = 0\<rparr>"

lemma sample_row_measured: "measure_reference_lag_horizon sample_impulse sample_books 1000 = Inr sample_row"
  by code_simp

section \<open>Books and evidence\<close>

text \<open>C21. Whatever events a margin market's book has processed, a view that reads as current is of the
  contract the book was built under, lists each price once, bids falling and asks rising, with positive
  prices and positive sizes in whole hundredths, and every bid is below every ask.\<close>

theorem perps_view_is_uncrossed:
  assumes "perps_reachable b" and "perps_view dig now stale_after b = Inr v" and "vw_state v = CURRENT"
  shows "pb_contract_hash b = pm_contract_hash (pb_market b) \<and>
    sorted_wrt (>) (map fst (vw_bids v)) \<and> sorted_wrt (<) (map fst (vw_asks v)) \<and>
    list_all level_valid (vw_bids v @ vw_asks v) \<and>
    list_all (\<lambda>bid. list_all (\<lambda>ask. fst bid < fst ask) (vw_asks v)) (vw_bids v)"
proof -
  note ok = perps_book_okD [OF perps_reachable_ok [OF assms(1)]]
  note shown = perps_view_fields [OF assms(2)]
  have "pb_state b = CURRENT" by (rule shown(3) [OF assms(3)])
  moreover have "fst bid < fst ask" if "bid \<in> set (pb_bids b)" "ask \<in> set (pb_asks b)" for bid ask
    using uncrossed [OF ok(3) that] \<open>pb_state b = CURRENT\<close> by simp
  ultimately show ?thesis
    using shown(1,2) shown_levels [OF ok(1)] shown_levels [OF ok(2)] ok(4)
    by (simp add: list_all_iff ball_Un)
qed

theorem perps_view_is_uncrossed_witness:
  "list_all (\<lambda>bid. list_all (\<lambda>ask. fst bid < fst ask) (vw_asks sample_view)) (vw_bids sample_view)"
  using perps_view_is_uncrossed [OF sample_perps_book_reachable sample_view_shown]
  by (simp add: sample_view_def)

section \<open>Lag rows\<close>

text \<open>C18. A measured lag row rests on an unbroken stretch of one stream: the baseline is at most thirty
  seconds older than the impulse and the horizon book at most thirty seconds older than the cutoff; every
  sequence number from the baseline to the witness was recorded exactly once; and the witness is the very
  next update after the horizon book, available only after the cutoff, so the horizon book was the one in
  force at the cutoff. The changes are those between the baseline and that book.\<close>

theorem measured_lag_is_continuous:
  assumes "measure_reference_lag_horizon impulse books horizon_ms = Inr m" and "lm_status m = MEASURED"
  shows "\<exists>baseline horizon witness. {baseline, horizon, witness} \<subseteq> set books \<and>
    bo_connection_epoch baseline = ri_connection_epoch impulse \<and>
    in_stream baseline horizon \<and> in_stream baseline witness \<and> row_of m baseline horizon witness \<and>
    astimezone_utc (ri_available_at impulse) - seconds 30 \<le> available baseline \<and>
    available baseline \<le> astimezone_utc (ri_available_at impulse) \<and>
    lm_cutoff_at m - seconds 30 \<le> available horizon \<and> available horizon \<le> lm_cutoff_at m \<and>
    lm_cutoff_at m < available witness \<and> bo_sequence witness = bo_sequence horizon + 1 \<and>
    (\<forall>n \<in> {bo_sequence baseline..bo_sequence witness}.
      \<exists>!x. x \<in> set books \<and> in_stream baseline x \<and> bo_sequence x = n)"
proof -
  let ?m = "sort_key book_key books"
  obtain baseline horizon witness where b: "baseline = last (lag_base impulse ?m)" "lag_base impulse ?m \<noteq> []"
    and h: "horizon = last (lag_before (lm_cutoff_at m) baseline ?m)" "bo_sequence baseline \<le> bo_sequence horizon"
    and cut: "available horizon \<le> lm_cutoff_at m" "lm_cutoff_at m - available horizon \<le> seconds 30"
    and age: "astimezone_utc (ri_available_at impulse) - available baseline \<le> seconds 30"
    and w: "first_item (lag_after (lm_cutoff_at m) baseline ?m) = Some witness"
      "bo_sequence horizon < bo_sequence witness" "has_contiguous_sequence ?m baseline witness"
    and row: "row_of m baseline horizon witness"
    and cutoff: "lm_cutoff_at m = astimezone_utc (ri_available_at impulse) + milliseconds horizon_ms"
    by (rule measured_row [OF assms])
  have grid: "0 \<le> milliseconds horizon_ms"
    using assms(1) by (auto simp: measure_reference_lag_horizon_def PHASE0_HORIZONS_MS_def milliseconds_def
        split: if_splits)
  have base: "baseline \<in> set books" "bo_connection_epoch baseline = ri_connection_epoch impulse"
    "available baseline \<le> astimezone_utc (ri_available_at impulse)"
    using last_in_set [OF b(2)] by (auto simp: b(1) lag_base_def)
  then have "baseline \<in> set (lag_before (lm_cutoff_at m) baseline ?m)"
    using grid by (simp add: lag_before_def in_stream_def cutoff)
  then have "horizon \<in> set (lag_before (lm_cutoff_at m) baseline ?m)"
    unfolding h(1) by (intro last_in_set) auto
  then have hor: "horizon \<in> set books" "in_stream baseline horizon" by (auto simp: lag_before_def)
  have wit: "witness \<in> set books" "in_stream baseline witness" "lm_cutoff_at m < available witness"
    using first_item_in [OF w(1)] by (auto simp: lag_after_def)
  have "bo_sequence witness = bo_sequence horizon + 1"
    by (rule witness_follows_horizon [OF h(1) hor cut(1) w(1) h(2) w(2,3)])
  moreover have "\<forall>n \<in> {bo_sequence baseline..bo_sequence witness}.
      \<exists>!x. x \<in> set books \<and> in_stream baseline x \<and> bo_sequence x = n"
    using contiguous_stretch(1) [OF w(3)] by simp
  moreover have "available horizon \<ge> lm_cutoff_at m - seconds 30"
    "available baseline \<ge> astimezone_utc (ri_available_at impulse) - seconds 30"
    using cut(2) age by simp_all
  ultimately show ?thesis using base hor wit cut(1) row by blast
qed

theorem measured_lag_is_continuous_witness:
  "\<exists>baseline horizon witness. {baseline, horizon, witness} \<subseteq> set sample_books \<and>
     bo_sequence witness = bo_sequence horizon + 1 \<and> row_of sample_row baseline horizon witness"
  using measured_lag_is_continuous [OF sample_row_measured] by (auto simp: sample_row_def)

text \<open>A measurement does not depend on the order in which the recorded books are supplied: books with
  distinct keys (availability, sequence, identity) give the same row, or the same error, in any order.\<close>

theorem lag_ignores_the_order:
  assumes "mset books = mset books'" and "inj_on book_key (set books)"
  shows "measure_reference_lag_horizon impulse books h = measure_reference_lag_horizon impulse books' h \<and>
    measure_reference_lag_grid impulse books = measure_reference_lag_grid impulse books'"
proof -
  have "sort_key book_key books = sort_key book_key books'"
    by (rule sort_key_inj_key_eq [OF _ assms(2)]) (simp_all add: assms(1))
  moreover have "set books = set books'" using assms(1) by (rule mset_eq_setD)
  ultimately have "measure_reference_lag_horizon impulse books = measure_reference_lag_horizon impulse books'"
    by (simp add: fun_eq_iff measure_reference_lag_horizon_def candidate_books_def list_ex_iff)
  then show ?thesis by (simp add: measure_reference_lag_grid_def)
qed

theorem lag_ignores_the_order_witness:
  "measure_reference_lag_horizon sample_impulse (rev sample_books) 1000 = Inr sample_row"
proof -
  have "inj_on book_key (set sample_books)"
    by (simp add: sample_books_def inj_on_def book_key_def available_def sample_evidence_def)
  then show ?thesis
    using lag_ignores_the_order [of sample_books "rev sample_books" sample_impulse 1000] sample_row_measured
    by simp
qed
text \<open>C19. A measured lag row is final. Take evidence that becomes available only after the continuity
  witness and does not claim a sequence number already recorded in its stream. When all of it is of the
  contract of the impulse it leaves the row exactly as it is; when some of it is of another contract the
  measurement raises, so no other row can come out.\<close>

theorem measured_lag_is_final:
  assumes "measure_reference_lag_horizon impulse books h = Inr m" and "lm_status m = MEASURED"
    and "lm_witness_available_at m = Some t"
    and "\<And>x. x \<in> set late \<Longrightarrow> t < available x"
    and "\<And>x y. x \<in> set late \<Longrightarrow> y \<in> set books \<Longrightarrow> in_stream y x \<Longrightarrow> bo_sequence y \<noteq> bo_sequence x"
  shows "measure_reference_lag_horizon impulse (books @ late) h =
    (if \<exists>x \<in> set late. foreign_book impulse x
     then Inl (ShadowResearchError ''book evidence crosses reference-impulse contract identity'')
     else Inr m)"
proof (cases "\<exists>x \<in> set late. foreign_book impulse x")
  case True
  have "h \<in> set PHASE0_HORIZONS_MS"
    using assms(1) by (auto simp: measure_reference_lag_horizon_def split: if_splits)
  with True show ?thesis
    by (auto simp: measure_reference_lag_horizon_def candidate_books_def list_ex_iff)
next
  case False
  then have "comes_later impulse books t x" if "x \<in> set late" for x
    using assms(4,5) that by (auto simp: comes_later_def list_all_iff)
  then have "measure_reference_lag_horizon impulse (books @ late) h = Inr m"
    using assms(1-3) by (intro measured_lag_late)
  with False show ?thesis by simp
qed

theorem measured_lag_is_final_witness:
  "measure_reference_lag_horizon sample_impulse (sample_books @ [sample_evidence 4 2600000 CHR ''6'' 97]) 1000 =
     Inr sample_row"
proof -
  let ?late = "[sample_evidence 4 2600000 CHR ''6'' 97]"
  have "\<not> (\<exists>x \<in> set ?late. foreign_book sample_impulse x)"
    by (simp add: sample_evidence_def sample_impulse_def foreign_book_def)
  moreover have "measure_reference_lag_horizon sample_impulse (sample_books @ ?late) 1000 =
      (if \<exists>x \<in> set ?late. foreign_book sample_impulse x
       then Inl (ShadowResearchError ''book evidence crosses reference-impulse contract identity'')
       else Inr sample_row)"
    by (rule measured_lag_is_final [OF sample_row_measured, of 2500000])
      (auto simp: sample_row_def sample_books_def sample_evidence_def available_def)
  ultimately show ?thesis by (simp only: if_False)
qed

section \<open>Reference impulses\<close>

lemma impulse_of_valid:
  assumes "PerpsMarketState_post_init dig current = Inr current"
    and "is_sha256 (ms_evidence_id previous)" and "is_sha256 (ms_evidence_id current)"
    and "0 < tp_price before" and "0 < tp_price after" and "tp_ts_ms before < tp_ts_ms after"
    and "tp_price after \<noteq> tp_price before"
  shows "ReferenceImpulse_post_init dig (impulse_of dig previous current before after) =
    Inr (impulse_of dig previous current before after)"
  using assms
  by (auto simp: ReferenceImpulse_post_init_def impulse_of_def impulse_identity_def Let_def
      PerpsMarketState_post_init_def perps_utc_def rbind_eq_Inr split: if_splits)

text \<open>Two valid observations of one subscription and one contract, with positive reference prices whose
  source times increase, lie before the year 2242 and do not run ahead of their availability, yield no impulse
  exactly when the price is unchanged; otherwise they yield the impulse that carries the exact change, and that impulse passes its own
  validation.\<close>

theorem reference_impulse_is_exact:
  assumes "PerpsMarketState_post_init dig previous = Inr previous"
    and "PerpsMarketState_post_init dig current = Inr current" and "\<And>v. is_sha256 (dig v)"
    and "ms_connection_epoch previous = ms_connection_epoch current" and "ms_sid previous = ms_sid current"
    and "same_contract previous current"
    and "ms_reference_price previous = Some before" and "ms_reference_price current = Some after"
    and "0 < tp_price before" and "0 < tp_price after" and "tp_ts_ms before < tp_ts_ms after"
    and "tp_ts_ms after < 8589934592000"
    and "milliseconds (tp_ts_ms before) \<le> astimezone_utc (ms_available_at previous)"
    and "milliseconds (tp_ts_ms after) \<le> astimezone_utc (ms_available_at current)"
    and "astimezone_utc (ms_available_at previous) \<le> astimezone_utc (ms_available_at current)"
  shows "build_reference_impulse dig previous current =
      (if tp_price after = tp_price before then Inr None
       else Inr (Some (impulse_of dig previous current before after))) \<and>
    ri_reference_price (impulse_of dig previous current before after) =
      ri_previous_reference_price (impulse_of dig previous current before after) *
        (1 + ri_reference_change_bps (impulse_of dig previous current before after) / 10000)"
proof -
  have ids: "is_sha256 (ms_evidence_id previous)" "is_sha256 (ms_evidence_id current)"
    using assms(1-3)
    by (auto simp: PerpsMarketState_post_init_def state_identity_def canonical_hash_def stable_hash_def
        rbind_eq_Inr split: if_splits)
  have "build_reference_impulse dig previous current =
      (if tp_price after = tp_price before then Inr None
       else Inr (Some (impulse_of dig previous current before after)))"
    using assms impulse_of_valid [OF assms(2) ids assms(9-11)]
    by (auto simp: build_reference_impulse_def from_milliseconds_exact rbind_def)
  then show ?thesis using assms(9) by (simp add: impulse_of_def Let_def field_simps)
qed

definition sample_state :: "decimal \<Rightarrow> int \<Rightarrow> PerpsMarketState" where
  "sample_state price ts = \<lparr>ms_evidence_id = sample_sha CHR ''a'', ms_ticker = ''BTC'', ms_exchange_index = 0,
     ms_market_version = None, ms_underlying_multiplier = 1, ms_asset_class = None,
     ms_connection_epoch = 7, ms_sid = 2, ms_source_fingerprint = sample_sha CHR ''a'',
     ms_asyncapi_sha256 = ASYNCAPI_SHA256, ms_ticker_ts_ms = ts, ms_sending_ts_ms = None,
     ms_received_at = Aware (ts * 1000), ms_available_at = Aware (ts * 1000), ms_amounts = [],
     ms_reference_price = Some \<lparr>tp_price = price, tp_ts_ms = ts\<rparr>, ms_settlement_mark_price = None,
     ms_liquidation_mark_price = None, ms_funding_rate = None, ms_funding_observed_ts_ms = None,
     ms_next_funding_time_ms = None, ms_market_metadata_hash = sample_sha CHR ''d'',
     ms_production_influence = 0\<rparr>"

lemma sample_state_valid:
  assumes "0 \<le> ts"
  shows "PerpsMarketState_post_init sample_digest (sample_state price ts) = Inr (sample_state price ts)"
proof -
  have "is_sha256 ASYNCAPI_SHA256" by code_simp
  with assms show ?thesis
    by (simp add: PerpsMarketState_post_init_def sample_state_def version_invalid_def perps_utc_def
        state_identity_def canonical_hash_def stable_hash_def sample_digest_def rbind_def)
qed

theorem reference_impulse_is_exact_witness:
  "\<exists>i. build_reference_impulse sample_digest (sample_state 100 1000) (sample_state 101 2000) = Inr (Some i) \<and>
     ri_reference_change_bps i = 100 \<and> ri_reference_move i = UP"
proof -
  have "is_sha256 (sample_digest v)" for v unfolding sample_digest_def by code_simp
  from reference_impulse_is_exact [OF sample_state_valid sample_state_valid this,
      of 1000 2000 100 101 "\<lparr>tp_price = 100, tp_ts_ms = 1000\<rparr>" "\<lparr>tp_price = 101, tp_ts_ms = 2000\<rparr>"]
  show ?thesis by (simp add: sample_state_def same_contract_def milliseconds_def impulse_of_def)
qed

section \<open>Evidence\<close>

lemma PerpsMarketMetadata_post_init_same: "PerpsMarketMetadata_post_init x = Inr m \<Longrightarrow> m = x"
  by (auto simp: PerpsMarketMetadata_post_init_def split: if_splits option.splits)

definition result_all :: "('a \<Rightarrow> bool) \<Rightarrow> 'a result \<Rightarrow> bool" where
  "result_all P r \<longleftrightarrow> (case r of Inl _ \<Rightarrow> True | Inr x \<Rightarrow> P x)"

lemma result_all_rbind: "(\<And>x. result_all P (f x)) \<Longrightarrow> result_all P (rbind m f)"
  by (cases m) (auto simp: result_all_def rbind_def)

lemma result_all_post_init: "P x \<Longrightarrow> result_all P (PerpsMarketMetadata_post_init x)"
  by (auto simp: result_all_def split: sum.splits dest!: PerpsMarketMetadata_post_init_same)

lemma parse_perps_market_ok:
  assumes "parse_perps_market dig raw t provenance = Inr market"
  shows "(\<exists>v. pm_contract_hash market = dig v) \<and> (\<exists>v. pm_metadata_hash market = dig v)"
proof -
  have "result_all (\<lambda>m. (\<exists>v. pm_contract_hash m = dig v) \<and> (\<exists>v. pm_metadata_hash m = dig v))
      (parse_perps_market dig raw t provenance)"
    unfolding parse_perps_market_def split_def canonical_hash_def stable_hash_def
    by (intro result_all_rbind result_all_post_init) auto
  with assms show ?thesis by (simp add: result_all_def)
qed

lemma parse_perps_market_valid:
  assumes "parse_perps_market dig raw t provenance = Inr market"
  shows "PerpsMarketMetadata_post_init market = Inr market"
proof -
  have same: "result_all (\<lambda>m. PerpsMarketMetadata_post_init m = Inr m) (PerpsMarketMetadata_post_init x)" for x
    by (auto simp: result_all_def split: sum.splits dest: PerpsMarketMetadata_post_init_same)
  have "result_all (\<lambda>m. PerpsMarketMetadata_post_init m = Inr m) (parse_perps_market dig raw t provenance)"
    unfolding parse_perps_market_def split_def by (intro result_all_rbind same)
  with assms show ?thesis by (simp add: result_all_def)
qed

definition parsed_event :: "json_obj \<Rightarrow> PerpsMarketMetadata \<Rightarrow> PerpsBookEvent \<Rightarrow> bool" where
  "parsed_event raw market event \<longleftrightarrow> (case event of
     SnapshotEvent e \<Rightarrow> PerpsBookSnapshotEvent_parse raw market = Inr e
   | DeltaEvent d \<Rightarrow> PerpsBookDeltaEvent_parse raw market = Inr d)"

lemma parsed_event_numbers:
  "parsed_event raw market event \<Longrightarrow> 1 \<le> event_sid event \<and> 1 \<le> event_sequence event"
  by (cases event)
    (auto simp: parsed_event_def event_sid_def event_sequence_def dest: snapshot_parsed delta_parsed)

lemma PerpsBookEvidence_post_init_valid:
  assumes "0 \<le> bo_exchange_index b" and "\<not> version_invalid (bo_market_version b)"
    and "0 < bo_underlying_multiplier b" and "1 \<le> bo_sid b" and "1 \<le> bo_sequence b"
    and "bo_connection_epoch b \<noteq> 0" and "bo_received_at b = Aware received"
    and "bo_available_at b = Aware ready" and "received \<le> ready"
    and "bo_exchange_at b = map_option Aware exchange"
    and "\<not> top_invalid (bo_best_bid b) (bo_best_bid_size b)"
    and "\<not> top_invalid (bo_best_ask b) (bo_best_ask_size b)" and "bo_production_influence b = 0"
    and "list_all (\<lambda>d. length d = 64) [bo_source_event_fingerprint b, bo_asyncapi_sha256 b,
      bo_perps_contract_hash b, bo_market_metadata_hash b, bo_full_book_hash b]"
    and "bo_evidence_id b = book_identity dig b"
  shows "PerpsBookEvidence_post_init dig b =
    (if bo_book_state b \<noteq> CURRENT
     then Inl (ShadowResearchError ''only current, uncrossed Perps books are evidence'')
     else if bo_best_bid b = None \<and> bo_best_ask b = None
     then Inl (ShadowResearchError ''at least one Perps book side is required'') else Inr b)"
  using assms unfolding PerpsBookEvidence_post_init_def
  by (cases exchange) (simp_all add: perps_utc_def rbind_def)

lemma PerpsBookEvidence_create_valid:
  assumes "PerpsMarketMetadata_post_init market = Inr market" and "1 \<le> event_sid event"
    and "1 \<le> event_sequence event" and "epoch \<noteq> 0" and "received \<le> ready"
    and "\<not> top_invalid (vw_best_bid v) (vw_best_bid_size v)"
    and "\<not> top_invalid (vw_best_ask v) (vw_best_ask_size v)"
    and "list_all (\<lambda>d. length d = 64) [perps_book_fingerprint dig event, pm_contract_hash market,
      pm_metadata_hash market, vw_full_book_hash v]"
  shows "\<exists>b. PerpsBookEvidence_create dig event market epoch v (Aware received) (Aware ready) =
      PerpsBookEvidence_post_init dig b \<and>
    PerpsBookEvidence_post_init dig b =
      (if vw_state v \<noteq> CURRENT
       then Inl (ShadowResearchError ''only current, uncrossed Perps books are evidence'')
       else if vw_best_bid v = None \<and> vw_best_ask v = None
       then Inl (ShadowResearchError ''at least one Perps book side is required'') else Inr b)"
proof -
  have "0 \<le> pm_exchange_index market" "\<not> version_invalid (pm_market_version market)"
    "0 < pm_underlying_multiplier market"
    using assms(1) by (auto simp: PerpsMarketMetadata_post_init_def version_invalid_def
        split: if_splits option.splits)
  moreover have "length ASYNCAPI_SHA256 = 64" by (simp add: ASYNCAPI_SHA256_def)
  moreover have "\<exists>x. (case event of SnapshotEvent _ \<Rightarrow> None | DeltaEvent d \<Rightarrow> map_option Aware (pd_exchange_at d)) =
      map_option Aware x"
    by (cases event) auto
  then obtain x where "(case event of SnapshotEvent _ \<Rightarrow> None
      | DeltaEvent d \<Rightarrow> map_option Aware (pd_exchange_at d)) = map_option Aware x" ..
  ultimately show ?thesis
    using assms(2-) unfolding PerpsBookEvidence_create_def Let_def
    by - (rule exI, rule conjI, rule refl, subst PerpsBookEvidence_post_init_valid [where
        received = received and ready = ready and exchange = x], simp_all add: book_identity_def)
qed

text \<open>The guards on the connection and on the two clocks.\<close>

lemma PerpsBookEvidence_create_clocks:
  assumes "PerpsBookEvidence_create dig event market epoch v received_at ready_at = Inr e"
  shows "epoch \<noteq> 0 \<and> tz_aware received_at \<and> tz_aware ready_at \<and>
    astimezone_utc received_at \<le> astimezone_utc ready_at"
  using assms
  by (auto simp: PerpsBookEvidence_create_def PerpsBookEvidence_post_init_def Let_def rbind_eq_Inr
      perps_utc_def split: if_splits)

text \<open>C20. What can be recorded is exactly what is usable. Let the market and the event come from the parsers,
  the view from a reachable book, and the digest write 64 characters as SHA-256 does. Then for any connection
  epoch and any two timestamps, naive or aware, the observation is created and passes its own validation if
  and only if the view is current and shows a side, the epoch is not zero, both timestamps are aware and the
  event was received no later than it became available.\<close>

theorem usable_views_are_evidence:
  assumes "perps_reachable b" and "perps_view dig now stale_after b = Inr v"
    and "parse_perps_market dig raw t provenance = Inr market" and "parsed_event raw' market event"
    and "\<And>w. length (dig w) = 64"
  shows "(\<exists>e. PerpsBookEvidence_create dig event market epoch v received_at ready_at = Inr e \<and>
      PerpsBookEvidence_post_init dig e = Inr e) \<longleftrightarrow>
    vw_state v = CURRENT \<and> (vw_best_bid v \<noteq> None \<or> vw_best_ask v \<noteq> None) \<and> epoch \<noteq> 0 \<and>
    tz_aware received_at \<and> tz_aware ready_at \<and> astimezone_utc received_at \<le> astimezone_utc ready_at"
proof (cases "epoch \<noteq> 0 \<and> tz_aware received_at \<and> tz_aware ready_at \<and>
    astimezone_utc received_at \<le> astimezone_utc ready_at")
  case False
  then show ?thesis using PerpsBookEvidence_create_clocks by blast
next
  case True
  then obtain received ready where times: "received_at = Aware received" "ready_at = Aware ready"
    and clocks: "epoch \<noteq> 0" "received \<le> ready" by (cases received_at; cases ready_at) auto
  note ok = perps_book_okD [OF perps_reachable_ok [OF assms(1)]]
  note shown = perps_view_fields [OF assms(2)]
  note market = parse_perps_market_ok [OF assms(3)]
  have hashes: "length (pm_contract_hash market) = 64" "length (pm_metadata_hash market) = 64"
    using market assms(5) by auto
  have "list_all level_valid (vw_bids v)" "list_all level_valid (vw_asks v)"
    using shown_levels(3) [OF ok(1)] shown_levels(3) [OF ok(2)] shown(1,2) by (auto simp: list_all_iff)
  then have tops: "\<not> top_invalid (vw_best_bid v) (vw_best_bid_size v)"
    "\<not> top_invalid (vw_best_ask v) (vw_best_ask_size v)"
    using shown(4-7) valid_top by metis+
  have "length (vw_full_book_hash v) = 64" "length ASYNCAPI_SHA256 = 64"
    "length (perps_book_fingerprint dig event) = 64"
    using shown(8) assms(5)
    by (auto simp: canonical_hash_def stable_hash_def ASYNCAPI_SHA256_def perps_book_fingerprint_def
        split: PerpsBookEvent.splits)
  with hashes have "list_all (\<lambda>d. length d = 64) [perps_book_fingerprint dig event, pm_contract_hash market,
      pm_metadata_hash market, vw_full_book_hash v]"
    by simp
  then have "\<exists>b. PerpsBookEvidence_create dig event market epoch v (Aware received) (Aware ready) =
      PerpsBookEvidence_post_init dig b \<and>
    PerpsBookEvidence_post_init dig b =
      (if vw_state v \<noteq> CURRENT
       then Inl (ShadowResearchError ''only current, uncrossed Perps books are evidence'')
       else if vw_best_bid v = None \<and> vw_best_ask v = None
       then Inl (ShadowResearchError ''at least one Perps book side is required'') else Inr b)"
    using PerpsBookEvidence_create_valid [OF parse_perps_market_valid [OF assms(3)], of event epoch received
        ready v dig] parsed_event_numbers [OF assms(4)] clocks tops by simp
  then show ?thesis using True unfolding times by (auto split: if_splits)
qed

definition sample_market_json :: json_obj where
  "sample_market_json = [(''ticker'', HStr ''BTC''), (''status'', HStr ''active''), (''title'', HStr ''t''),
     (''exchange_index'', HInt 0), (''fractional_trading_enabled'', HBool True), (''schedule'', HNone),
     (''contract_size'', HStr ''1''), (''underlying_multiplier'', HStr ''1''), (''tick_size'', HStr ''1'')]"

definition sample_provenance :: SourceContractProvenance where
  "sample_provenance = \<lparr>pc_source_url = PERPS_OPENAPI_URL, pc_retrieved_on = ''2026-10-04'',
     pc_sha256 = sample_sha CHR ''e'', pc_parser_version = ''v1''\<rparr>"

definition sample_parsed_market :: PerpsMarketMetadata where
  "sample_parsed_market = sample_contract\<lparr>pm_contract_hash := sample_sha CHR ''a'',
     pm_metadata_hash := sample_sha CHR ''a'', pm_normalized_snapshot := canonical (HObj sample_market_json)\<rparr>"

lemma sample_market_parsed:
  "parse_perps_market sample_digest sample_market_json (Aware 0) sample_provenance = Inr sample_parsed_market"
  by code_simp

lemma sample_event_of_market: "parsed_event sample_snapshot sample_parsed_market (SnapshotEvent sample_event)"
  by code_simp

theorem usable_views_are_evidence_witness:
  "\<exists>e. PerpsBookEvidence_create sample_digest (SnapshotEvent sample_event) sample_parsed_market 7 sample_view
     (Aware 0) (Aware 1) = Inr e"
proof -
  have "length (sample_digest w) = 64" for w by (simp add: sample_digest_def sample_sha_def)
  from usable_views_are_evidence [OF sample_perps_book_reachable sample_view_shown sample_market_parsed
      sample_event_of_market this, of 7 "Aware 0" "Aware 1"]
  show ?thesis by (auto simp: sample_view_def)
qed

section \<open>Edge decay\<close>

text \<open>A measured edge decay accounts for the whole delay and the whole lost edge: the three latencies add
  up to the time from the signal to the hypothetical order, exact to the millisecond and never negative, and the
  edge lost in that time is the move of the observed value against the direction.\<close>

theorem edge_decay_accounts_for_the_delay:
  assumes "measure_edge_decay fresh q = Inr d"
  shows "milliseconds (ed_publication_to_available_ms d + ed_available_to_decision_ms d + ed_decision_to_send_ms d) =
      astimezone_utc (er_hypothetical_send_at q) - astimezone_utc (er_signal_created_at q) \<and>
    0 \<le> ed_publication_to_available_ms d \<and> 0 \<le> ed_available_to_decision_ms d \<and>
    0 \<le> ed_decision_to_send_ms d \<and>
    ed_initial_edge d - ed_send_edge d = (case er_direction q of
        LONG \<Rightarrow> er_value_at_hypothetical_send q - er_value_at_creation q
      | SHORT \<Rightarrow> er_value_at_creation q - er_value_at_hypothetical_send q)"
  using assms
  by (auto simp: measure_edge_decay_def rbind_eq_Inr perps_utc_def exact_milliseconds_def Let_def edge_of_def
      EdgeDecayObservation_post_init_def milliseconds_def distrib_right mult.commute [of 1000]
      split: if_splits Direction.splits)

definition sample_decay :: EdgeDecayRequest where
  "sample_decay = \<lparr>er_ticker = ''BTC'', er_direction = SHORT, er_exchange_index = 0,
     er_signal_created_at = Aware 0, er_signal_available_at = Aware 5000, er_decision_at = Aware 12000,
     er_hypothetical_send_at = Aware 20000, er_signal_value = 100, er_value_at_creation = 103,
     er_value_at_available = 102, er_value_at_decision = 101, er_value_at_hypothetical_send = 101,
     er_artifact_id = None\<rparr>"

theorem edge_decay_accounts_for_the_delay_witness:
  "\<exists>d. measure_edge_decay ''id'' sample_decay = Inr d \<and> ed_initial_edge d - ed_send_edge d = 2"
proof -
  have "\<exists>d. measure_edge_decay ''id'' sample_decay = Inr d"
    by (simp add: measure_edge_decay_def sample_decay_def perps_utc_def rbind_def exact_milliseconds_def
        EdgeDecayObservation_post_init_def edge_of_def)
  then obtain d where d: "measure_edge_decay ''id'' sample_decay = Inr d" ..
  from edge_decay_accounts_for_the_delay [OF d] d show ?thesis
    by (auto simp: sample_decay_def)
qed

end
