(* ===== verification/Spec2Isabelle.thy ===== *)
theory Spec2Isabelle
  imports Risk_Properties Demo_Properties Opp_Properties Market_Properties Production_Properties Canary_Properties Sim_Properties Replay_Properties Learning_Properties Operations Universe_Properties Snapshot_Properties
    MM_Properties MM_Evidence Perps_Properties
begin

text \<open>
  A verification of the decision and order-safety core of a trading research system for a
  prediction-market exchange (the Python packages under \<open>services/\<close>).

  \<^bold>\<open>The program.\<close> A forecast becomes an opportunity (\<open>opportunity_engine\<close>) over order books that are
  kept from a sequenced stream (\<open>real_time_market_data\<close>) or parsed from public snapshots
  (\<open>market_universe\<close>). An order for it is an intent that the risk engine evaluates and authorizes
  once (\<open>risk_engine\<close>); the execution service journals it, consumes the authorization and sends it
  (\<open>demo_execution\<close>, for the demo venue); the production boundary builds and journals the same kind
  of envelope but stays disarmed (\<open>production_execution\<close>), and one supervised order is guarded by a
  durable submission budget (\<open>supervised_canary\<close>). Research runs over replayed history
  (\<open>historical_replay\<close>), simulates fills (\<open>execution_simulation\<close>), plans shadow quotes
  (\<open>market_making_research\<close>) and learns under governance (\<open>learning\<close>); \<open>operations\<close> and
  \<open>bounded_autonomy\<close> hold the readiness policies.

  \<^bold>\<open>Theories and files.\<close>
  \<^item> \<open>Prelude\<close> (values, exceptions, strings, the error monad), \<open>Tables\<close> (SQLite tables and the locale
    \<open>exactly_once\<close>), \<open>Decimals\<close> (number texts, the state-and-exception monad), \<open>Calendar\<close> and
    \<open>Iso_Time\<close> (dates; ISO texts in UTC sort as their instants; timestamps with an offset).
  \<^item> \<open>risk_engine\<close>: \<open>Risk_Domain\<close> (\<open>domain.py\<close>), \<open>Risk_Policy\<close> (\<open>policy.py\<close>, \<open>invariants.py\<close>),
    \<open>Risk_Ledger\<close> (\<open>ledger.py\<close>, \<open>reconciliation.py\<close>), \<open>Risk_States\<close> (\<open>states.py\<close>), \<open>Risk_Engine\<close>
    (\<open>engine.py\<close>), \<open>Risk_Authorization\<close> (\<open>authorization.py\<close>) with its invariant in
    \<open>Risk_Authorization_Inv\<close> and its capacity in \<open>Risk_Capacity\<close>; \<open>Risk_Properties\<close>.
  \<^item> \<open>demo_execution\<close>: \<open>Demo_Domain\<close> (\<open>domain.py\<close>), \<open>Demo_Adapter\<close> (\<open>adapter.py\<close>, \<open>faults.py\<close>,
    \<open>portfolio.py\<close>, \<open>rate_budget.py\<close>, \<open>calibration.py\<close>), \<open>Demo_Store\<close> (\<open>store.py\<close>), \<open>Demo_Engine\<close>
    (\<open>engine.py\<close>), the invariants in \<open>Demo_Store_Inv\<close> and \<open>Demo_Engine_Inv\<close>; \<open>Demo_Properties\<close>.
  \<^item> \<open>opportunity_engine\<close>: \<open>Opp_Books\<close> (\<open>books.py\<close>), \<open>Opp_Engine\<close> (\<open>fees.py\<close>, \<open>models.py\<close>, \<open>domain.py\<close>,
    \<open>engine.py\<close>, \<open>cross_venue.py\<close>, \<open>scenarios.py\<close>), \<open>Opp_Live\<close> (\<open>live_fees.py\<close>,
    \<open>live_economics.py\<close>); \<open>Opp_Properties\<close>.
  \<^item> \<open>real_time_market_data\<close>: \<open>Market_Book\<close> (\<open>orderbook.py\<close>), \<open>Market_Manager\<close> (\<open>protocol.py\<close>,
    \<open>events.py\<close>), \<open>Market_Recovery\<close> (\<open>manager.py\<close>, \<open>session.py\<close>); \<open>Market_Properties\<close>.
  \<^item> \<open>market_universe\<close>: \<open>Universe\<close> (\<open>pricing.py\<close>, numbers of \<open>domain.py\<close>), \<open>Market_Snapshot\<close>
    (records of \<open>domain.py\<close>, \<open>market_snapshot.py\<close>, and \<open>opportunity_engine/authoritative_economics.py\<close>);
    \<open>Universe_Properties\<close>, \<open>Snapshot_Properties\<close>.
  \<^item> \<open>production_execution\<close>: \<open>Production_Requests\<close> (\<open>transport.py\<close>, \<open>rate_budget.py\<close>,
    \<open>credentials.py\<close>, \<open>boundary.py\<close>), \<open>Production_Journal\<close> (\<open>domain.py\<close>, \<open>requests.py\<close>,
    \<open>store.py\<close>); \<open>Production_Properties\<close>.
  \<^item> \<open>supervised_canary\<close>: \<open>Canary_Domain\<close> (\<open>domain.py\<close>, \<open>readiness.py\<close>, \<open>workflow.py\<close>),
    \<open>Canary_Store\<close> (\<open>store.py\<close>), \<open>Canary_Inv\<close>; \<open>Canary_Properties\<close>.
  \<^item> \<open>execution_simulation\<close>: \<open>Sim_Domain\<close> (\<open>domain.py\<close>, \<open>policies.py\<close>, \<open>evaluation.py\<close>,
    \<open>cross_venue.py\<close>), \<open>Sim_Replay\<close> (\<open>replay.py\<close>), \<open>Sim_Analytics\<close> (\<open>analytics.py\<close>), \<open>Sim_Inv\<close>;
    \<open>Sim_Properties\<close>.
  \<^item> \<open>historical_replay\<close>: \<open>Replay_History\<close> (\<open>domain.py\<close>, \<open>replay.py\<close>, \<open>dataset.py\<close>, \<open>routing.py\<close>);
    \<open>Replay_Properties\<close>.
  \<^item> \<open>market_making_research\<close>: \<open>MM_Domain\<close> (fair values, inventory, quote policy, shadow quotes, plans and
    attempts with their \<open>__post_init__\<close> and content identities), \<open>MM_Planner\<close> (\<open>plan_shadow_quotes\<close> of
    \<open>planner.py\<close>: the blockers in the order of the code, the inventory skew, the post-only price, the
    expected edge and the plan), \<open>MM_Evaluation\<close> (passive fills, markouts, the summary of
    \<open>evaluation.py\<close>); properties in \<open>MM_Properties\<close> and \<open>MM_Evidence\<close>.
  \<^item> \<open>perps_shadow_research\<close>: \<open>Perps_Book\<close> (\<open>perps_metadata.py\<close>, \<open>perps_events.py\<close>,
    \<open>perps_orderbook.py\<close>), \<open>Perps_Evidence\<close> (\<open>perps_evidence.py\<close>), \<open>Perps_Lag\<close> (\<open>reference_lag.py\<close>,
    \<open>edge_decay.py\<close>), \<open>Perps_Inv\<close> (reachable books, continuous stretches); \<open>Perps_Properties\<close>.
  \<^item> \<open>Learning\<close> (\<open>learning\<close>; \<open>Learning_Properties\<close>), \<open>Autonomy\<close> (\<open>bounded_autonomy\<close>) and
    \<open>Operations\<close> (\<open>operations\<close>: readiness, budget, queues, contract drift, metrics, backups).

  \<^bold>\<open>How the code is represented.\<close> A dataclass is a record with a two-letter field prefix and its
  \<open>__post_init__\<close> a function \<open>Name_post_init\<close> that returns the record or the exception; an enumeration
  is a datatype; a method is a function of the same name. Exceptions are values of \<open>py_exn\<close> in the
  sum type \<open>result\<close>. A finite \<open>Decimal\<close> is an exact rational: the rounding of the 28-digit context
  is not modelled, and a digest over a Decimal's text takes its value. An aware \<open>datetime\<close> is its
  instant in microseconds, a naive one is marked as such (the host's zone is taken to be UTC);
  the canary and the expiries of risk authorizations keep the offset because their stores compare
  texts. The division of a float of milliseconds by \<open>datetime.fromtimestamp\<close> is modelled bit by bit. A dictionary from JSON is an
  association list. A store is a record of tables; each handler's transaction is one function, and
  a raised exception rolls it back, except where the code commits first: those handlers return the
  state they leave together with the result. Interleavings of operations are sequences of steps of
  inductive relations or of runs, and the properties of stores hold in every reachable state.

  \<^bold>\<open>Parameters.\<close> SHA-256 over JSON, base64, \<open>json.loads\<close> and \<open>fromisoformat\<close>, time-zone rules, the
  exchange behind a transport, the clock and fresh identifiers are arguments of the definitions that
  use them. Where a property relies on one of them, it names the law it needs (an injective digest, a
  codec that decodes what it encoded, a transport that answers in the documented form), and its
  witness instantiates it.

  \<^bold>\<open>What the lemmas show.\<close> The \<open>_Inv\<close> theories prove the invariants of the stores by rule induction
  and discharge the shared contracts by interpretation: \<open>exactly_once\<close> (a durable key is claimed at
  most once, in any interleaving), \<open>recoverable_journal\<close> (recovery is idempotent and leaves nothing
  open unmarked), \<open>write_budget\<close> (safety requests are not starved), \<open>lifecycle\<close> and
  \<open>monotone_lifecycle\<close> (closed states, fills that never fall), \<open>flag_gate\<close> (a gate is open exactly
  when every flag is set). The \<open>_Properties\<close> theories hold the properties with their witnesses:
  authorizations are consumed once and within the caps; what may have reached the exchange is
  journaled first and recovered; books with a gap are not shown as current; the signer's authority is
  exactly its list of requests; one supervised submission is ever made; simulations do not look
  ahead; replay shows exactly what was available; parsers and builders agree with their validators.
  Reference-lag rows rest on unbroken streams and later evidence does not change them.

  \<^bold>\<open>Bounds.\<close> No definition uses fuel. Loops over data are structural recursions; the clock of the
  replay and the chunking of tickers terminate by the length of what is left.

  \<^bold>\<open>Not modelled.\<close> Network, file and credential input/output (transports, archives, enrollment,
  PostgreSQL adapters, the dashboards and report delivery) has no decision logic of its own beyond
  the parts above. The statistical forecasting and strategy packages (\<open>forecasting\<close>,
  \<open>production_gdp_strategy\<close>, \<open>production_weather_strategy\<close>) compute with binary floating point over
  frozen external evidence; their runs are reproductions of fixed studies. The milestone runners of
  the canary and of the production boundary bind the modelled parts to live reads.
\<close>

end
